(* ===== verification/Prelude.thy ===== *)
theory Prelude
  imports Complex_Main
begin

section \<open>Prelude: identifiers, clocks and document collections\<close>

text \<open>
  What every component shares: the types of identifiers and instants, a handler's clock, and the
  three list operations a MongoDB collection offers to the repositories under
  \<^verbatim>\<open>assessment-api/src/repositories\<close> (first match, update of the first match, deletion of the
  first match) with the laws the component proofs rewrite with.

  A collection is the list of its documents in insertion order. Object ids are numbers: the
  program only ever compares them (\<^verbatim>\<open>String(a) !== String(b)\<close>) and uses them as keys. An instant
  is the number of milliseconds since the epoch, as \<^verbatim>\<open>Date.getTime()\<close> returns it. A handler that
  reads the clock several times gets a \<open>clock\<close>: \<open>clk k\<close> is its \<open>k\<close>-th reading.
\<close>

type_synonym oid = nat
type_synonym time = int
type_synonym clock = "nat \<Rightarrow> time"

named_theorems store_simps "laws of the document collections and of the repositories"
named_theorems inv_intros "preservation lemmas of the store invariants"

subsection \<open>Collections\<close>

fun update_first :: "('a \<Rightarrow> bool) \<Rightarrow> ('a \<Rightarrow> 'a) \<Rightarrow> 'a list \<Rightarrow> 'a list" where
  "update_first P f [] = []"
| "update_first P f (x # xs) = (if P x then f x # xs else x # update_first P f xs)"

fun delete_first :: "('a \<Rightarrow> bool) \<Rightarrow> 'a list \<Rightarrow> 'a list" where
  "delete_first P [] = []"
| "delete_first P (x # xs) = (if P x then xs else x # delete_first P xs)"

lemma find_member: "find P xs = Some x \<Longrightarrow> x \<in> set xs \<and> P x"
  by (auto simp: find_Some_iff)

lemma find_holds: "find P xs = Some x \<Longrightarrow> P x"
  by (auto simp: find_Some_iff)

lemma find_none: "find P xs = None \<longleftrightarrow> (\<forall>x \<in> set xs. \<not> P x)"
  by (auto simp: find_None_iff)

lemma find_some_ex: "x \<in> set xs \<Longrightarrow> P x \<Longrightarrow> \<exists>y. find P xs = Some y"
  by (metis find_none not_Some_eq)

lemma find_append: "find P (xs @ ys) = (case find P xs of None \<Rightarrow> find P ys | Some x \<Rightarrow> Some x)"
  by (induction xs) auto

lemma find_cong_set: "(\<And>x. x \<in> set xs \<Longrightarrow> P x = Q x) \<Longrightarrow> find P xs = find Q xs"
  by (induction xs) auto

text \<open>With pairwise different keys a lookup finds the one document that has the key.\<close>

lemma find_key:
  assumes "distinct (map k xs)" and "x \<in> set xs"
  shows "find (\<lambda>y. k y = k x) xs = Some x"
  using assms by (induction xs) (auto simp: image_iff)

lemma find_key_narrow:
  assumes "distinct (map k xs)" and "find (\<lambda>y. k y = i \<and> Q y) xs = Some x"
  shows "find (\<lambda>y. k y = i) xs = Some x"
  using assms find_key [of k xs x] find_member [OF assms(2)] by simp

lemma find_update_first [store_simps]:
  assumes "\<And>x. P x \<Longrightarrow> P (f x)"
  shows "find P (update_first P f xs) = map_option f (find P xs)"
  using assms by (induction xs) auto

lemma find_update_other:
  assumes "\<And>x. P x \<Longrightarrow> \<not> Q x" and "\<And>x. P x \<Longrightarrow> \<not> Q (f x)"
  shows "find Q (update_first P f xs) = find Q xs"
  using assms by (induction xs) auto

lemma length_update_first [simp]: "length (update_first P f xs) = length xs"
  by (induction xs) auto

lemma map_update_first:
  assumes "\<And>x. P x \<Longrightarrow> k (f x) = k x"
  shows "map k (update_first P f xs) = map k xs"
  using assms by (induction xs) auto

lemma update_first_id: "find P xs = None \<Longrightarrow> update_first P f xs = xs"
  by (induction xs) (auto split: if_splits)

lemma set_update_first:
  "y \<in> set (update_first P f xs) \<Longrightarrow> y \<in> set xs \<or> (\<exists>x \<in> set xs. P x \<and> y = f x)"
  by (induction xs) (auto split: if_splits)

text \<open>A property of all documents survives an update that keeps it on the documents it hits.\<close>

lemma update_first_all:
  assumes "\<forall>x \<in> set xs. R x" and "\<And>x. find P xs = Some x \<Longrightarrow> R x \<Longrightarrow> R (f x)"
  shows "\<forall>x \<in> set (update_first P f xs). R x"
  using assms by (induction xs) (auto split: if_splits)

lemma find_delete_first_other:
  assumes "\<And>x. P x \<Longrightarrow> \<not> Q x"
  shows "find Q (delete_first P xs) = find Q xs"
  using assms by (induction xs) auto

lemma find_delete_first:
  assumes "distinct (map k xs)"
  shows "find (\<lambda>x. k x = i) (delete_first (\<lambda>x. k x = i) xs) = None"
  using assms by (induction xs) (auto simp: find_none image_iff)

lemma set_delete_first: "set (delete_first P xs) \<subseteq> set xs"
  by (induction xs) auto

lemma delete_first_keeps: "x \<in> set xs \<Longrightarrow> \<not> P x \<Longrightarrow> x \<in> set (delete_first P xs)"
  by (induction xs) auto

lemma distinct_delete_first: "distinct (map k xs) \<Longrightarrow> distinct (map k (delete_first P xs))"
  using set_delete_first by (induction xs) (auto, fastforce)

lemma length_delete_first: "find P xs = Some x \<Longrightarrow> Suc (length (delete_first P xs)) = length xs"
  by (induction xs) (auto split: if_splits)

text \<open>Deleting right after appending a fresh document gives the old collection back.\<close>

lemma delete_first_append:
  assumes "find P xs = None" and "P x"
  shows "delete_first P (xs @ [x]) = xs"
  using assms by (induction xs) (auto split: if_splits)

lemma find_append_fresh [store_simps]:
  "find P xs = None \<Longrightarrow> find P (xs @ [x]) = (if P x then Some x else None)"
  by (simp add: find_append)

subsection \<open>Counting\<close>

definition count_docs :: "('a \<Rightarrow> bool) \<Rightarrow> 'a list \<Rightarrow> nat" where
  "count_docs P xs = length (filter P xs)"

lemma count_docs_append [simp]:
  "count_docs P (xs @ ys) = count_docs P xs + count_docs P ys"
  by (simp add: count_docs_def)

lemma count_docs_Nil [simp]: "count_docs P [] = 0"
  by (simp add: count_docs_def)

lemma count_docs_Cons [simp]:
  "count_docs P (x # xs) = (if P x then 1 else 0) + count_docs P xs"
  by (simp add: count_docs_def)

lemma count_docs_le: "count_docs P xs \<le> length xs"
  by (simp add: count_docs_def)

lemma count_docs_mono: "(\<And>x. P x \<Longrightarrow> Q x) \<Longrightarrow> count_docs P xs \<le> count_docs Q xs"
  by (induction xs) (auto simp: le_SucI)

lemma count_docs_update_first:
  "(\<And>x. S x \<Longrightarrow> P (f x) = P x) \<Longrightarrow> count_docs P (update_first S f xs) = count_docs P xs"
  by (induction xs) auto

subsection \<open>Options\<close>

text \<open>JavaScript's \<^verbatim>\<open>a || b\<close> on optional references.\<close>

fun or_else :: "'a option \<Rightarrow> 'a option \<Rightarrow> 'a option" where
  "or_else (Some x) b = Some x"
| "or_else None b = b"

lemma or_else_eq_None [simp]: "or_else a b = None \<longleftrightarrow> a = None \<and> b = None"
  by (cases a) auto

end
