(* ===== verification/Js.thy ===== *)
theory Js
  imports Prelude
begin

section \<open>JavaScript values, as far as the services use them\<close>

text \<open>
  The language fragment the services rely on: the value type of untyped request bodies with
  truthiness, \<^verbatim>\<open>typeof\<close>, \<^verbatim>\<open>Number()\<close>, \<^verbatim>\<open>String()\<close>, \<^verbatim>\<open>JSON.stringify\<close> and \<^verbatim>\<open>Math.min/max/round\<close>,
  the string methods (\<^verbatim>\<open>trim\<close>, \<^verbatim>\<open>toLowerCase\<close>, \<^verbatim>\<open>split\<close>) and the errors a handler may throw
  (\<^verbatim>\<open>utils/httpError.js\<close> and the built-in \<^verbatim>\<open>TypeError\<close>).

  Bounds of the fragment: a finite number is an exact rational (no rounding to 53 bits, no signed
  zero, no switch to exponent notation in \<^verbatim>\<open>String\<close>); a string is a list of 8-bit code units, and white
  space and case mapping are those of this range.
\<close>

subsection \<open>Numbers\<close>

datatype jsnum = Fin rat | PosInf | NegInf | NaN

fun is_finite :: "jsnum \<Rightarrow> bool" where
  "is_finite (Fin q) = True"
| "is_finite _ = False"

fun num_lt :: "jsnum \<Rightarrow> jsnum \<Rightarrow> bool" where
  "num_lt (Fin a) (Fin b) = (a < b)"
| "num_lt NegInf (Fin b) = True"
| "num_lt NegInf PosInf = True"
| "num_lt (Fin a) PosInf = True"
| "num_lt _ _ = False"

fun num_le :: "jsnum \<Rightarrow> jsnum \<Rightarrow> bool" where
  "num_le NaN _ = False"
| "num_le _ NaN = False"
| "num_le a b = (a = b \<or> num_lt a b)"

fun num_neg :: "jsnum \<Rightarrow> jsnum" where
  "num_neg (Fin a) = Fin (- a)"
| "num_neg PosInf = NegInf"
| "num_neg NegInf = PosInf"
| "num_neg NaN = NaN"

fun num_add :: "jsnum \<Rightarrow> jsnum \<Rightarrow> jsnum" where
  "num_add (Fin a) (Fin b) = Fin (a + b)"
| "num_add NaN b = NaN"
| "num_add a NaN = NaN"
| "num_add PosInf NegInf = NaN"
| "num_add NegInf PosInf = NaN"
| "num_add PosInf b = PosInf"
| "num_add NegInf b = NegInf"
| "num_add (Fin a) b = b"

definition num_sign_inf :: "rat \<Rightarrow> jsnum" where
  "num_sign_inf s = (if 0 < s then PosInf else if s < 0 then NegInf else NaN)"

fun num_mul :: "jsnum \<Rightarrow> jsnum \<Rightarrow> jsnum" where
  "num_mul (Fin a) (Fin b) = Fin (a * b)"
| "num_mul NaN b = NaN"
| "num_mul a NaN = NaN"
| "num_mul (Fin a) PosInf = num_sign_inf a"
| "num_mul (Fin a) NegInf = num_sign_inf (- a)"
| "num_mul PosInf (Fin b) = num_sign_inf b"
| "num_mul NegInf (Fin b) = num_sign_inf (- b)"
| "num_mul PosInf PosInf = PosInf"
| "num_mul NegInf NegInf = PosInf"
| "num_mul PosInf NegInf = NegInf"
| "num_mul NegInf PosInf = NegInf"

fun num_sub :: "jsnum \<Rightarrow> jsnum \<Rightarrow> jsnum" where
  "num_sub a b = num_add a (num_neg b)"

text \<open>\<^verbatim>\<open>Math.max\<close> and \<^verbatim>\<open>Math.min\<close> of two numbers: \<^verbatim>\<open>NaN\<close> wins.\<close>

definition num_max :: "jsnum \<Rightarrow> jsnum \<Rightarrow> jsnum" where
  "num_max a b = (if a = NaN \<or> b = NaN then NaN else if num_lt a b then b else a)"

definition num_min :: "jsnum \<Rightarrow> jsnum \<Rightarrow> jsnum" where
  "num_min a b = (if a = NaN \<or> b = NaN then NaN else if num_lt b a then b else a)"

text \<open>Truthiness of a number: zero and \<^verbatim>\<open>NaN\<close> are falsy.\<close>

fun num_truthy :: "jsnum \<Rightarrow> bool" where
  "num_truthy (Fin q) = (q \<noteq> 0)"
| "num_truthy NaN = False"
| "num_truthy _ = True"

text \<open>\<^verbatim>\<open>ToIntegerOrInfinity\<close> on a finite number: drop the fraction.\<close>

definition trunc :: "rat \<Rightarrow> int" where
  "trunc q = (if 0 \<le> q then \<lfloor>q\<rfloor> else \<lceil>q\<rceil>)"

lemma trunc_of_int [simp]: "trunc (of_int i) = i"
  by (simp add: trunc_def)

lemma trunc_numeral [simp]: "trunc (numeral n) = numeral n"
  by (simp add: trunc_def)

lemma trunc_mono:
  assumes ab: "a \<le> b"
  shows "trunc a \<le> trunc b"
proof (cases "0 \<le> a")
  case True
  with ab have "0 \<le> b" by simp
  with True ab show ?thesis by (simp add: trunc_def floor_mono)
next
  case a: False
  show ?thesis
  proof (cases "0 \<le> b")
    case True
    have "\<lceil>a\<rceil> \<le> 0" using a by (simp add: ceiling_le_iff)
    also have "0 \<le> \<lfloor>b\<rfloor>" using True by simp
    finally show ?thesis using a True by (simp add: trunc_def)
  next
    case False
    with a ab show ?thesis by (simp add: trunc_def ceiling_mono)
  qed
qed

lemma trunc_min: "trunc (min a b) = min (trunc a) (trunc b)"
  using trunc_mono [of a b] trunc_mono [of b a] by (auto simp: min_def)

lemma trunc_add_int: "0 \<le> q \<Longrightarrow> 0 \<le> i \<Longrightarrow> trunc (of_int i + q) = i + trunc q"
  by (simp add: trunc_def)

text \<open>
  \<^verbatim>\<open>new Date(n)\<close>: the instant, or an invalid date (\<open>None\<close>) when \<open>n\<close> is not a number or lies outside
  the range of ECMAScript's \<^verbatim>\<open>TimeClip\<close>. A comparison with an invalid date is false.
\<close>

fun date_of :: "jsnum \<Rightarrow> time option" where
  "date_of (Fin q) = (if \<bar>q\<bar> \<le> 8640000000000000 then Some (trunc q) else None)"
| "date_of _ = None"

fun date_lt :: "time option \<Rightarrow> time option \<Rightarrow> bool" where
  "date_lt (Some a) (Some b) = (a < b)"
| "date_lt _ _ = False"

text \<open>\<^verbatim>\<open>Math.round\<close> and \<^verbatim>\<open>Number(x.toFixed(k))\<close> on finite numbers.\<close>

definition js_round :: "rat \<Rightarrow> int" where
  "js_round q = \<lfloor>q + 1 / 2\<rfloor>"

definition to_fixed :: "nat \<Rightarrow> rat \<Rightarrow> rat" where
  "to_fixed k q = (if 0 \<le> q then of_int \<lfloor>q * 10 ^ k + 1 / 2\<rfloor> / 10 ^ k
                   else - (of_int \<lfloor>- q * 10 ^ k + 1 / 2\<rfloor> / 10 ^ k))"

lemma to_fixed_nonneg: "0 \<le> q \<Longrightarrow> 0 \<le> to_fixed k q"
  by (simp add: to_fixed_def)

lemma to_fixed_int: "0 \<le> i \<Longrightarrow> to_fixed k (of_int i) = of_int i"
proof -
  assume i: "0 \<le> i"
  have eq: "of_int i * 10 ^ k + 1 / 2 = of_int (i * 10 ^ k) + (1 / 2 :: rat)" by simp
  have "\<lfloor>of_int i * 10 ^ k + 1 / 2 :: rat\<rfloor> = i * 10 ^ k"
    unfolding eq by (rule floor_unique) simp_all
  with i show ?thesis by (simp add: to_fixed_def)
qed

lemma to_fixed_mono: "0 \<le> p \<Longrightarrow> p \<le> q \<Longrightarrow> to_fixed k p \<le> to_fixed k q"
  by (simp add: to_fixed_def divide_right_mono floor_mono)

text \<open>A fixed-point rendering stays between two integers that bound the number.\<close>

lemma to_fixed_bounds:
  assumes "of_int a \<le> q" and "q \<le> of_int b" and "0 \<le> a"
  shows "of_int a \<le> to_fixed k q \<and> to_fixed k q \<le> of_int b"
proof -
  have q0: "0 \<le> q" using assms by (meson of_int_0_le_iff order_trans)
  then have b0: "0 \<le> b" using assms(2) by (meson of_int_0_le_iff order_trans)
  have "to_fixed k (of_int a) \<le> to_fixed k q" using assms by (intro to_fixed_mono) auto
  moreover have "to_fixed k q \<le> to_fixed k (of_int b)" using q0 assms(2) by (intro to_fixed_mono)
  ultimately show ?thesis using assms(3) b0 by (simp add: to_fixed_int)
qed

subsection \<open>Strings\<close>

definition is_ws :: "char \<Rightarrow> bool" where
  "is_ws c \<longleftrightarrow> of_char c \<in> {9, 10, 11, 12, 13, 32, 160 :: nat}"

definition js_trim :: "string \<Rightarrow> string" where
  "js_trim s = rev (dropWhile is_ws (rev (dropWhile is_ws s)))"

definition is_lower :: "char \<Rightarrow> bool" where
  "is_lower c \<longleftrightarrow> 97 \<le> (of_char c :: nat) \<and> (of_char c :: nat) \<le> 122"

definition is_upper :: "char \<Rightarrow> bool" where
  "is_upper c \<longleftrightarrow> 65 \<le> (of_char c :: nat) \<and> (of_char c :: nat) \<le> 90"

definition is_digit :: "char \<Rightarrow> bool" where
  "is_digit c \<longleftrightarrow> 48 \<le> (of_char c :: nat) \<and> (of_char c :: nat) \<le> 57"

definition lower_char :: "char \<Rightarrow> char" where
  "lower_char c =
     (if is_upper c \<or> (192 \<le> (of_char c :: nat) \<and> (of_char c :: nat) \<le> 222 \<and> (of_char c :: nat) \<noteq> 215)
      then char_of ((of_char c :: nat) + 32) else c)"

definition js_lower :: "string \<Rightarrow> string" where
  "js_lower s = map lower_char s"

lemma length_dropWhile_le [simp]: "length (dropWhile P xs) \<le> length xs"
  by (induction xs) auto

lemma length_js_trim: "length (js_trim s) \<le> length s"
proof -
  have "length (dropWhile is_ws (rev (dropWhile is_ws s))) \<le> length (rev (dropWhile is_ws s))"
    by (rule length_dropWhile_le)
  also have "\<dots> \<le> length s" by simp
  finally show ?thesis by (simp add: js_trim_def)
qed

lemma dropWhile_hd: "dropWhile P xs = y # ys \<Longrightarrow> \<not> P y"
  by (induction xs) (auto split: if_splits)

lemma dropWhile_idem: "dropWhile P (dropWhile P xs) = dropWhile P xs"
  by (induction xs) auto

lemma js_trim_idem [simp]: "js_trim (js_trim s) = js_trim s"
proof -
  define t where "t = dropWhile is_ws s"
  define u where "u = dropWhile is_ws (rev t)"
  have "dropWhile is_ws (rev u) = rev u"
  proof (cases "rev u")
    case (Cons c cs)
    have "rev t = takeWhile is_ws (rev t) @ u"
      by (simp add: u_def)
    then have "t = rev u @ rev (takeWhile is_ws (rev t))"
      by (metis rev_append rev_rev_ident)
    with Cons have "t = c # (cs @ rev (takeWhile is_ws (rev t)))" by simp
    then have "\<not> is_ws c" using dropWhile_hd t_def by metis
    with Cons show ?thesis by simp
  qed simp
  moreover have "dropWhile is_ws u = u" by (simp add: u_def dropWhile_idem)
  moreover have "js_trim s = rev u" by (simp add: js_trim_def u_def t_def)
  ultimately show ?thesis by (simp add: js_trim_def)
qed

fun split_on :: "char \<Rightarrow> string \<Rightarrow> string list" where
  "split_on d [] = [[]]"
| "split_on d (c # cs) =
     (if c = d then [] # split_on d cs
      else (case split_on d cs of [] \<Rightarrow> [[c]] | w # ws \<Rightarrow> (c # w) # ws))"

fun join_with :: "string \<Rightarrow> string list \<Rightarrow> string" where
  "join_with sep [] = []"
| "join_with sep [s] = s"
| "join_with sep (s # t # ss) = s @ sep @ join_with sep (t # ss)"

fun starts_with :: "string \<Rightarrow> string \<Rightarrow> bool" where
  "starts_with [] s = True"
| "starts_with (p # ps) [] = False"
| "starts_with (p # ps) (c # cs) = (p = c \<and> starts_with ps cs)"

fun includes_str :: "string \<Rightarrow> string \<Rightarrow> bool" where
  "includes_str p [] = (p = [])"
| "includes_str p (c # cs) = (starts_with p (c # cs) \<or> includes_str p cs)"

text \<open>Case-insensitive substring search, what \<^verbatim>\<open>$regex\<close> with \<^verbatim>\<open>$options: 'i'\<close> does on a literal pattern.\<close>

definition includes_ci :: "string \<Rightarrow> string \<Rightarrow> bool" where
  "includes_ci p s = includes_str (js_lower p) (js_lower s)"

subsection \<open>Numbers as text\<close>

definition digit_char :: "nat \<Rightarrow> char" where
  "digit_char d = ''0123456789'' ! d"

fun show_nat :: "nat \<Rightarrow> string" where
  "show_nat n = (if n < 10 then [digit_char n] else show_nat (n div 10) @ [digit_char (n mod 10)])"

declare show_nat.simps [simp del]

definition digit_val :: "char \<Rightarrow> nat" where
  "digit_val c = of_char c - 48"

definition nat_of_digits :: "string \<Rightarrow> nat" where
  "nat_of_digits s = foldl (\<lambda>n c. 10 * n + digit_val c) 0 s"

lemma digit_char_val: "d < 10 \<Longrightarrow> digit_val (digit_char d) = d \<and> is_digit (digit_char d)"
proof -
  assume "d < 10"
  then have "d \<in> {0, 1, 2, 3, 4, 5, 6, 7, 8, 9}" by auto
  then show ?thesis by (auto simp: digit_char_def digit_val_def is_digit_def)
qed

lemma show_nat_digits: "list_all is_digit (show_nat n)"
proof (induction n rule: show_nat.induct)
  case (1 n)
  show ?case
    using 1 digit_char_val [of "n mod 10"] digit_char_val [of n]
    by (subst show_nat.simps) auto
qed

lemma show_nat_nonempty: "show_nat n \<noteq> []"
  by (subst show_nat.simps) simp

lemma nat_of_digits_show_nat [simp]: "nat_of_digits (show_nat n) = n"
proof (induction n rule: show_nat.induct)
  case (1 n)
  show ?case
  proof (cases "n < 10")
    case True
    then show ?thesis
      using digit_char_val [of n] by (subst show_nat.simps) (simp add: nat_of_digits_def)
  next
    case False
    with 1 have "nat_of_digits (show_nat (n div 10)) = n div 10" by simp
    with False show ?thesis
      using digit_char_val [of "n mod 10"] by (subst show_nat.simps) (simp add: nat_of_digits_def)
  qed
qed

lemma show_nat_inj [simp]: "show_nat m = show_nat n \<longleftrightarrow> m = n"
  by (metis nat_of_digits_show_nat)

definition show_int :: "int \<Rightarrow> string" where
  "show_int i = (if i < 0 then CHR ''-'' # show_nat (nat (- i)) else show_nat (nat i))"

end
