(* ===== verification/Js_Value.thy ===== *)
theory Js_Value
  imports Js
begin

section \<open>Untyped values, conversions and errors\<close>

text \<open>
  The dynamically typed values that reach the services in request bodies, query strings and
  judge responses, with the conversions the source applies to them, and the errors a handler can
  throw. \<open>oget v k\<close> is the optional access \<^verbatim>\<open>v?.k\<close>; where the source writes \<^verbatim>\<open>v.k\<close> on a value that may
  be \<^verbatim>\<open>null\<close>, the model tests \<open>nullish\<close> first and throws the \<open>TypeError\<close>.
\<close>

datatype jsval =
    JUndef
  | JNull
  | JBool bool
  | JNum jsnum
  | JStr string
  | JArr "jsval list"
  | JObj "(string \<times> jsval) list"

abbreviation jint :: "int \<Rightarrow> jsval" where
  "jint i \<equiv> JNum (Fin (of_int i))"

abbreviation jnat :: "nat \<Rightarrow> jsval" where
  "jnat n \<equiv> JNum (Fin (of_nat n))"

fun truthy :: "jsval \<Rightarrow> bool" where
  "truthy JUndef = False"
| "truthy JNull = False"
| "truthy (JBool b) = b"
| "truthy (JNum n) = num_truthy n"
| "truthy (JStr s) = (s \<noteq> [])"
| "truthy (JArr vs) = True"
| "truthy (JObj kvs) = True"

fun nullish :: "jsval \<Rightarrow> bool" where
  "nullish JUndef = True"
| "nullish JNull = True"
| "nullish _ = False"

fun typeof :: "jsval \<Rightarrow> string" where
  "typeof JUndef = ''undefined''"
| "typeof JNull = ''object''"
| "typeof (JBool b) = ''boolean''"
| "typeof (JNum n) = ''number''"
| "typeof (JStr s) = ''string''"
| "typeof (JArr vs) = ''object''"
| "typeof (JObj kvs) = ''object''"

fun is_array :: "jsval \<Rightarrow> bool" where
  "is_array (JArr vs) = True"
| "is_array _ = False"

fun elems :: "jsval \<Rightarrow> jsval list" where
  "elems (JArr vs) = vs"
| "elems _ = []"

fun is_str :: "jsval \<Rightarrow> bool" where
  "is_str (JStr s) = True"
| "is_str _ = False"

fun str_of :: "jsval \<Rightarrow> string" where
  "str_of (JStr s) = s"
| "str_of _ = []"

fun oget :: "jsval \<Rightarrow> string \<Rightarrow> jsval" where
  "oget (JObj kvs) k = (case map_of kvs k of Some v \<Rightarrow> v | None \<Rightarrow> JUndef)"
| "oget _ k = JUndef"

fun has_key :: "jsval \<Rightarrow> string \<Rightarrow> bool" where
  "has_key (JObj kvs) k = (map_of kvs k \<noteq> None)"
| "has_key _ k = False"

definition coalesce :: "jsval \<Rightarrow> jsval \<Rightarrow> jsval" where
  "coalesce a b = (if nullish a then b else a)"

definition or_val :: "jsval \<Rightarrow> jsval \<Rightarrow> jsval" where
  "or_val a b = (if truthy a then a else b)"

text \<open>Assigning a property keeps the position of an existing key and appends a new one.\<close>

fun obj_put :: "string \<Rightarrow> jsval \<Rightarrow> (string \<times> jsval) list \<Rightarrow> (string \<times> jsval) list" where
  "obj_put k v [] = [(k, v)]"
| "obj_put k v ((k', v') # kvs) = (if k = k' then (k, v) # kvs else (k', v') # obj_put k v kvs)"

definition obj_delete :: "string \<Rightarrow> (string \<times> jsval) list \<Rightarrow> (string \<times> jsval) list" where
  "obj_delete k kvs = filter (\<lambda>(k', v). k' \<noteq> k) kvs"

fun oset :: "jsval \<Rightarrow> string \<Rightarrow> jsval \<Rightarrow> jsval" where
  "oset (JObj kvs) k v = JObj (obj_put k v kvs)"
| "oset u k v = u"

lemma map_of_obj_put [simp]: "map_of (obj_put k v kvs) = (map_of kvs)(k \<mapsto> v)"
  by (induction k v kvs rule: obj_put.induct) (auto simp: fun_eq_iff)

lemma map_of_obj_delete [simp]: "map_of (obj_delete k kvs) = (map_of kvs)(k := None)"
  by (induction kvs) (auto simp: obj_delete_def fun_eq_iff)

lemma oget_oset [simp]:
  "oget (oset (JObj kvs) k v) k' = (if k' = k then v else oget (JObj kvs) k')"
  by simp

subsection \<open>\<^verbatim>\<open>String()\<close> and \<^verbatim>\<open>Number()\<close>\<close>

fun frac_digits :: "nat \<Rightarrow> rat \<Rightarrow> string" where
  "frac_digits 0 q = []"
| "frac_digits (Suc k) q =
     (if q = 0 then [] else digit_char (nat \<lfloor>10 * q\<rfloor>) # frac_digits k (10 * q - of_int \<lfloor>10 * q\<rfloor>))"

definition show_pos_rat :: "rat \<Rightarrow> string" where
  "show_pos_rat q =
     (if of_int \<lfloor>q\<rfloor> = q then show_nat (nat \<lfloor>q\<rfloor>)
      else show_nat (nat \<lfloor>q\<rfloor>) @ ''.'' @ frac_digits 17 (q - of_int \<lfloor>q\<rfloor>))"

fun num_to_string :: "jsnum \<Rightarrow> string" where
  "num_to_string (Fin q) = (if q < 0 then CHR ''-'' # show_pos_rat (- q) else show_pos_rat q)"
| "num_to_string PosInf = ''Infinity''"
| "num_to_string NegInf = ''-Infinity''"
| "num_to_string NaN = ''NaN''"

fun to_str :: "jsval \<Rightarrow> string" where
  "to_str JUndef = ''undefined''"
| "to_str JNull = ''null''"
| "to_str (JBool b) = (if b then ''true'' else ''false'')"
| "to_str (JNum n) = num_to_string n"
| "to_str (JStr s) = s"
| "to_str (JArr vs) = join_with '','' (map (\<lambda>v. if nullish v then [] else to_str v) vs)"
| "to_str (JObj kvs) = ''[object Object]''"

definition parse_decimal :: "string \<Rightarrow> rat option" where
  "parse_decimal s =
     (let i = takeWhile is_digit s; r = dropWhile is_digit s;
          f = (case r of c # t \<Rightarrow> if c = CHR ''.'' then takeWhile is_digit t else [] | [] \<Rightarrow> []);
          r' = (case r of c # t \<Rightarrow> if c = CHR ''.'' then dropWhile is_digit t else r | [] \<Rightarrow> []);
          m = of_nat (nat_of_digits (i @ f)) / 10 ^ length f
      in if i = [] \<and> f = [] then None
         else case r' of
             [] \<Rightarrow> Some m
           | c # t \<Rightarrow>
               if c \<noteq> CHR ''e'' \<and> c \<noteq> CHR ''E'' then None
               else (let neg = (t \<noteq> [] \<and> hd t = CHR ''-'');
                         ds = (if t \<noteq> [] \<and> (hd t = CHR ''-'' \<or> hd t = CHR ''+'') then tl t else t)
                     in if ds = [] \<or> \<not> list_all is_digit ds then None
                        else if neg then Some (m / 10 ^ nat_of_digits ds)
                        else Some (m * 10 ^ nat_of_digits ds)))"

definition radix_digit :: "char \<Rightarrow> nat" where
  "radix_digit c =
     (if is_digit c then digit_val c
      else if is_lower c then of_char c - 87
      else if is_upper c then of_char c - 55 else 99)"

definition parse_radix :: "nat \<Rightarrow> string \<Rightarrow> jsnum" where
  "parse_radix b s =
     (if s = [] \<or> \<not> list_all (\<lambda>c. radix_digit c < b) s then NaN
      else Fin (of_nat (foldl (\<lambda>n c. b * n + radix_digit c) 0 s)))"

definition str_decimal :: "string \<Rightarrow> jsnum" where
  "str_decimal s =
     (if s = ''Infinity'' then PosInf else case parse_decimal s of Some q \<Rightarrow> Fin q | None \<Rightarrow> NaN)"

definition str_to_num :: "string \<Rightarrow> jsnum" where
  "str_to_num s =
     (case js_trim s of
        [] \<Rightarrow> Fin 0
      | c # t \<Rightarrow>
          if c = CHR ''-'' then num_neg (str_decimal t)
          else if c = CHR ''+'' then str_decimal t
          else if c = CHR ''0'' \<and> t \<noteq> [] \<and> hd t \<in> set ''xX'' then parse_radix 16 (tl t)
          else if c = CHR ''0'' \<and> t \<noteq> [] \<and> hd t \<in> set ''oO'' then parse_radix 8 (tl t)
          else if c = CHR ''0'' \<and> t \<noteq> [] \<and> hd t \<in> set ''bB'' then parse_radix 2 (tl t)
          else str_decimal (c # t))"

fun to_num :: "jsval \<Rightarrow> jsnum" where
  "to_num JUndef = NaN"
| "to_num JNull = Fin 0"
| "to_num (JBool b) = (if b then Fin 1 else Fin 0)"
| "to_num (JNum n) = n"
| "to_num (JStr s) = str_to_num s"
| "to_num (JArr vs) = str_to_num (to_str (JArr vs))"
| "to_num (JObj kvs) = NaN"

text \<open>A decimal numeral is read back as the number it prints.\<close>

lemma takeWhile_digits [simp]: "list_all is_digit s \<Longrightarrow> takeWhile is_digit s = s"
  by (simp add: list_all_iff takeWhile_eq_all_conv)

lemma dropWhile_digits [simp]: "list_all is_digit s \<Longrightarrow> dropWhile is_digit s = []"
  by (simp add: list_all_iff)

lemma parse_decimal_show_nat: "parse_decimal (show_nat n) = Some (of_nat n)"
  using show_nat_digits [of n] show_nat_nonempty [of n] by (simp add: parse_decimal_def)

subsection \<open>\<^verbatim>\<open>JSON.stringify\<close>\<close>

definition hex_char :: "nat \<Rightarrow> char" where
  "hex_char d = ''0123456789abcdef'' ! d"

definition json_char :: "char \<Rightarrow> string" where
  "json_char c =
     (let n = (of_char c :: nat) in
      if n = 34 \<or> n = 92 then [CHR 0x5C, c]
      else if n = 8 then [CHR 0x5C, CHR ''b'']
      else if n = 9 then [CHR 0x5C, CHR ''t'']
      else if n = 10 then [CHR 0x5C, CHR ''n'']
      else if n = 12 then [CHR 0x5C, CHR ''f'']
      else if n = 13 then [CHR 0x5C, CHR ''r'']
      else if n < 32 then [CHR 0x5C, CHR ''u'', CHR ''0'', CHR ''0'', hex_char (n div 16), hex_char (n mod 16)]
      else [c])"

definition json_string :: "string \<Rightarrow> string" where
  "json_string s = [CHR 0x22] @ concat (map json_char s) @ [CHR 0x22]"

fun json_str :: "jsval \<Rightarrow> string option" and
    json_elems :: "jsval list \<Rightarrow> string list" and
    json_fields :: "(string \<times> jsval) list \<Rightarrow> string list" where
  "json_str JUndef = None"
| "json_str JNull = Some ''null''"
| "json_str (JBool b) = Some (if b then ''true'' else ''false'')"
| "json_str (JNum n) = Some (if is_finite n then num_to_string n else ''null'')"
| "json_str (JStr s) = Some (json_string s)"
| "json_str (JArr vs) = Some (''['' @ join_with '','' (json_elems vs) @ '']'')"
| "json_str (JObj kvs) = Some (''{'' @ join_with '','' (json_fields kvs) @ ''}'')"
| "json_elems [] = []"
| "json_elems (v # vs) = (case json_str v of None \<Rightarrow> ''null'' | Some s \<Rightarrow> s) # json_elems vs"
| "json_fields [] = []"
| "json_fields ((k, v) # kvs) =
     (case json_str v of None \<Rightarrow> json_fields kvs
      | Some s \<Rightarrow> (json_string k @ '':'' @ s) # json_fields kvs)"

subsection \<open>Errors\<close>

text \<open>
  \<open>HttpError status message body\<close> is \<^verbatim>\<open>new HttpError(status, message, body)\<close> (\<open>JUndef\<close> when the third
  argument is absent) and any \<^verbatim>\<open>Error\<close> the services decorate with \<^verbatim>\<open>status\<close> and \<^verbatim>\<open>body\<close> themselves. The
  other constructors carry no \<^verbatim>\<open>status\<close>: a \<open>TypeError\<close> raised by the language, an error raised by
  Mongoose or a driver, and a plain \<^verbatim>\<open>throw new Error(message)\<close>.
\<close>

datatype js_error =
    HttpError nat string jsval
  | TypeError string
  | DriverError string
  | PlainError string

type_synonym 'a result = "js_error + 'a"

fun error_status :: "js_error \<Rightarrow> nat option" where
  "error_status (HttpError st m b) = Some st"
| "error_status _ = None"

fun error_message :: "js_error \<Rightarrow> string" where
  "error_message (HttpError st m b) = m"
| "error_message (TypeError m) = m"
| "error_message (DriverError m) = m"
| "error_message (PlainError m) = m"

abbreviation http :: "nat \<Rightarrow> string \<Rightarrow> 'a result" where
  "http st m \<equiv> Inl (HttpError st m JUndef)"

abbreviation http_body :: "nat \<Rightarrow> string \<Rightarrow> string \<Rightarrow> string \<Rightarrow> 'a result" where
  "http_body st m k b \<equiv> Inl (HttpError st m (JObj [(k, JStr b)]))"

fun is_ok :: "'a result \<Rightarrow> bool" where
  "is_ok (Inr x) = True"
| "is_ok (Inl e) = False"

fun has_status :: "nat \<Rightarrow> 'a result \<Rightarrow> bool" where
  "has_status st (Inl (HttpError st' m b)) = (st = st')"
| "has_status st _ = False"

text \<open>The keys every plain object inherits from \<^verbatim>\<open>Object.prototype\<close>.\<close>

definition object_prototype_keys :: "string list" where
  "object_prototype_keys =
     [''constructor'', ''__defineGetter__'', ''__defineSetter__'', ''hasOwnProperty'',
      ''__lookupGetter__'', ''__lookupSetter__'', ''isPrototypeOf'', ''propertyIsEnumerable'',
      ''toString'', ''valueOf'', ''__proto__'', ''toLocaleString'']"

text \<open>Reading property \<open>k\<close> of \<^verbatim>\<open>null\<close> or \<^verbatim>\<open>undefined\<close>.\<close>

definition null_deref :: "string \<Rightarrow> js_error" where
  "null_deref k = TypeError (''Cannot read properties of null or undefined (reading '' @ k @ '')'')"

lemma is_ok_iff: "is_ok r \<longleftrightarrow> (\<exists>x. r = Inr x)"
  by (cases r) auto

subsection \<open>Paging\<close>

text \<open>
  The paging arithmetic every list operation repeats:
  \<^verbatim>\<open>page = Math.max(1, Number(query.page || 1))\<close>, \<^verbatim>\<open>limit = Math.min(100, Math.max(1, Number(query.limit || 50)))\<close>
  and \<^verbatim>\<open>skip = (page - 1) * limit\<close>.
\<close>

definition page_of :: "jsval \<Rightarrow> jsnum" where
  "page_of query = num_max (Fin 1) (to_num (or_val (oget query ''page'') (jnat 1)))"

definition limit_of :: "jsval \<Rightarrow> jsnum" where
  "limit_of query =
     num_min (Fin 100) (num_max (Fin 1) (to_num (or_val (oget query ''limit'') (jnat 50))))"

definition skip_of :: "jsval \<Rightarrow> jsnum" where
  "skip_of query = num_mul (num_sub (page_of query) (Fin 1)) (limit_of query)"

text \<open>
  The database takes whole, non-negative numbers for \<^verbatim>\<open>skip\<close> and \<^verbatim>\<open>limit\<close> and rejects anything else.
\<close>

fun whole :: "jsnum \<Rightarrow> nat option" where
  "whole (Fin q) = (if 0 \<le> q \<and> of_int \<lfloor>q\<rfloor> = q then Some (nat \<lfloor>q\<rfloor>) else None)"
| "whole _ = None"

definition page_slice :: "jsnum \<Rightarrow> jsnum \<Rightarrow> 'a list \<Rightarrow> 'a list result" where
  "page_slice sk lmt xs =
     (case whole sk of
        None \<Rightarrow> Inl (DriverError ''skip must be a whole number'')
      | Some s \<Rightarrow>
          (case whole lmt of
             None \<Rightarrow> Inl (DriverError ''limit must be a whole number'')
           | Some l \<Rightarrow> Inr (take l (drop s xs))))"

lemma limit_of_range:
  "limit_of query = NaN \<or> (\<exists>q. limit_of query = Fin q \<and> 1 \<le> q \<and> q \<le> 100)"
  by (cases "to_num (or_val (oget query ''limit'') (jnat 50))")
     (auto simp: limit_of_def num_min_def num_max_def)

lemma page_of_range:
  "page_of query = NaN \<or> page_of query = PosInf \<or> (\<exists>q. page_of query = Fin q \<and> 1 \<le> q)"
  by (cases "to_num (or_val (oget query ''page'') (jnat 1))")
     (auto simp: page_of_def num_max_def)

lemma page_slice_bound:
  assumes "page_slice (skip_of query) (limit_of query) xs = Inr ys"
  shows "length ys \<le> 100 \<and> set ys \<subseteq> set xs"
proof -
  obtain s l where l: "whole (limit_of query) = Some l" and ys: "ys = take l (drop s xs)"
    using assms by (auto simp: page_slice_def split: option.splits)
  from l obtain q where q: "limit_of query = Fin q" "l = nat \<lfloor>q\<rfloor>"
    by (cases "limit_of query") (auto split: if_splits)
  with limit_of_range [of query] have "q \<le> 100" by auto
  then have "\<lfloor>q\<rfloor> \<le> 100" by (simp add: floor_le_iff)
  then have "l \<le> 100" using q(2) by linarith
  with ys show ?thesis by (auto dest: in_set_takeD in_set_dropD)
qed

end
