(* ===== verification/Store.thy ===== *)
theory Store
  imports Js_Value
begin

section \<open>The documents, the database and the repositories\<close>

text \<open>
  The Mongoose models of \<^verbatim>\<open>assessment-api/models\<close>, one record per schema with an enumeration per
  \<^verbatim>\<open>enum\<close>, the \<open>world\<close> a handler reads and writes (every collection, the judge queue and Redis), and
  the repository modules of \<^verbatim>\<open>src/repositories\<close>. Two repositories scope a lookup to a college; their
  common contract is the locale \<open>scoped_repository\<close>, interpreted for each of them at the end.

  A schema field with a default always has a value; one without is an \<open>option\<close> (\<open>None\<close> is an absent
  field); a \<^verbatim>\<open>Mixed\<close> field is a \<open>jsval\<close>. \<^verbatim>\<open>Number\<close> fields hold rationals, except those that a handler fills
  with an unchecked number (\<^verbatim>\<open>graceMinutes\<close>, the limits and the tolerance of a problem).
\<close>

subsection \<open>Users and colleges\<close>

datatype role = Superadmin | Admin | Faculty | Student

record user =
  u_id :: oid
  u_name :: string
  u_email :: string
  u_password :: string
  u_role :: role
  u_usn :: "string option"
  u_section :: "string option"
  u_college :: "oid option"
  u_created :: time

datatype sub_status = SubNone | Trialing | SubActive | PastDue | Canceled

record college =
  co_id :: oid
  co_name :: string
  co_slug :: string
  co_plan :: string
  co_customer :: "string option"
  co_subscription :: "string option"
  co_status :: sub_status
  co_period_end :: "time option"

subsection \<open>Problems and questions\<close>

datatype difficulty = Easy | Medium | Hard

datatype problem_type = FunctionProblem | StdinProblem

datatype compare_mode = EXACT | STRUCTURAL

record compare_config =
  cc_mode :: compare_mode
  cc_tolerance :: jsnum
  cc_order_insensitive :: bool
  cc_deep_copy :: bool

record test_case =
  tc_inputs :: "jsval list"
  tc_expected :: jsval
  tc_sample :: "bool option"
  tc_hidden :: "bool option"

record problem =
  pr_id :: oid
  pr_title :: string
  pr_description :: string
  pr_difficulty :: difficulty
  pr_type :: problem_type
  pr_external :: "string option"
  pr_input_format :: "string option"
  pr_output_format :: "string option"
  pr_function :: "string option"
  pr_params :: "(string \<times> string) list"
  pr_return :: "string option"
  pr_time_limit :: jsnum
  pr_memory_limit :: jsnum
  pr_compare :: compare_config
  pr_tests :: "test_case list"
  pr_tests_json :: "string option"
  pr_tags :: "string list"
  pr_premium :: bool
  pr_submissions :: nat
  pr_accepted :: nat
  pr_created :: time

datatype visibility = Private | CollegeWide | Public

record question =
  qu_id :: oid
  qu_title :: string
  qu_description :: "string option"
  qu_difficulty :: difficulty
  qu_tags :: "string list"
  qu_marks :: rat
  qu_time_limit :: rat
  qu_memory_limit :: rat
  qu_author :: "oid option"
  qu_college :: "oid option"
  qu_visibility :: visibility
  qu_created :: time

subsection \<open>Assessments and attempts\<close>

datatype assessment_status = Draft | Published | Completed

record problem_entry =
  pe_problem :: oid
  pe_max_score :: rat

record announcement =
  an_message :: string
  an_sent_at :: time

record assessment =
  as_id :: oid
  as_title :: string
  as_description :: "string option"
  as_start :: time
  as_end :: time
  as_duration :: rat
  as_languages :: "string list"
  as_problems :: "problem_entry list"
  as_created_by :: oid
  as_college :: "oid option"
  as_status :: assessment_status
  as_locked :: bool
  as_announcements :: "announcement list"

datatype attempt_status = Active | Submitted | TimedOut

datatype challenge_status = NoChallenge | Raised | Accepted | Rejected

record challenge =
  ch_status :: challenge_status
  ch_reason :: jsval
  ch_comment :: jsval
  ch_raised_at :: "time option"
  ch_resolved_at :: "time option"

record timeline_event =
  ev_event :: string
  ev_at :: time
  ev_details :: jsval

record attempt =
  at_id :: oid
  at_assessment :: oid
  at_student :: oid
  at_college :: "oid option"
  at_started :: time
  at_submitted :: "time option"
  at_score :: rat
  at_status :: attempt_status
  at_grace :: jsnum
  at_drafts :: jsval
  at_challenge :: challenge
  at_tabs :: nat
  at_copies :: nat
  at_pastes :: nat
  at_exits :: nat
  at_order :: "oid list"
  at_timeline :: "timeline_event list"

subsection \<open>Submissions, usage, logs and settings\<close>

datatype sub_verdict = Pending | Running | Success | Fail | ErrorVerdict

record submission =
  su_id :: oid
  su_problem :: oid
  su_user :: oid
  su_assessment :: "oid option"
  su_attempt :: "oid option"
  su_college :: "oid option"
  su_score :: rat
  su_code :: string
  su_language :: string
  su_status :: sub_verdict
  su_output :: "string option"
  su_result :: jsval
  su_ext_student :: "string option"
  su_ext_assessment :: "string option"
  su_created :: time

record usage_event =
  ue_college :: "oid option"
  ue_user :: "oid option"
  ue_submission :: "oid option"
  ue_language :: string
  ue_status :: string
  ue_elapsed :: rat
  ue_created :: time

record audit_info =
  ai_ip :: "string option"
  ai_agent :: "string option"

record audit_log =
  al_event :: string
  al_user :: "oid option"
  al_details :: jsval
  al_info :: audit_info
  al_created :: time

record system_setting =
  ss_key :: string
  ss_value :: jsval

subsection \<open>The judge queue and Redis\<close>

record judge_test =
  jt_inputs :: "jsval list"
  jt_expected :: jsval
  jt_hidden :: bool
  jt_sample :: bool

record judge_message =
  jm_submission :: oid
  jm_problem :: oid
  jm_language :: string
  jm_code :: string
  jm_tests :: "judge_test list"
  jm_type :: problem_type
  jm_mode :: compare_mode
  jm_request :: "string option"
  jm_function :: "string option"
  jm_college :: "oid option"

text \<open>
  Redis, when connected: string keys with an expiry instant. The services keep two kinds of value
  there, cached submissions and counters.
\<close>

record redis =
  rd_cache :: "(string \<times> submission \<times> time) list"
  rd_counters :: "(string \<times> nat \<times> time option) list"

text \<open>
  \<open>w_redis\<close> is \<open>None\<close> when \<^verbatim>\<open>getRedis()\<close> has no client; \<open>w_queue_up\<close> tells whether RabbitMQ can be
  reached, \<open>w_queue\<close> holds the messages of \<^verbatim>\<open>submission_queue\<close> that no judge has taken yet.
\<close>

record world =
  w_users :: "user list"
  w_colleges :: "college list"
  w_problems :: "problem list"
  w_questions :: "question list"
  w_assessments :: "assessment list"
  w_attempts :: "attempt list"
  w_submissions :: "submission list"
  w_usage :: "usage_event list"
  w_logs :: "audit_log list"
  w_settings :: "system_setting list"
  w_queue :: "judge_message list"
  w_queue_up :: bool
  w_redis :: "redis option"

subsection \<open>Scoped lookups\<close>

text \<open>
  The repositories' \<^verbatim>\<open>collegeId ? { _id: id, collegeId } : { _id: id }\<close>: with a college the document
  must carry that college, without one any document qualifies.
\<close>

definition in_scope :: "oid option \<Rightarrow> oid option \<Rightarrow> bool" where
  "in_scope scope coll = (case scope of None \<Rightarrow> True | Some c \<Rightarrow> coll = Some c)"

lemma in_scope_None [simp]: "in_scope None coll"
  by (simp add: in_scope_def)

lemma in_scope_Some [simp]: "in_scope (Some c) coll \<longleftrightarrow> coll = Some c"
  by (simp add: in_scope_def)

text \<open>\<^verbatim>\<open>find(filter, null, { sort: { key: -1 }, skip, limit })\<close>; documents with equal keys keep their order.\<close>

definition find_page ::
    "('a \<Rightarrow> bool) \<Rightarrow> ('a \<Rightarrow> time) \<Rightarrow> jsnum \<Rightarrow> jsnum \<Rightarrow> 'a list \<Rightarrow> 'a list result" where
  "find_page P key sk lmt xs = page_slice sk lmt (sort_key (\<lambda>x. - key x) (filter P xs))"

lemma find_page_sound:
  assumes "find_page P key (skip_of query) (limit_of query) xs = Inr ys"
  shows "length ys \<le> 100 \<and> (\<forall>y \<in> set ys. y \<in> set xs \<and> P y)"
  using page_slice_bound [OF assms [unfolded find_page_def]] by auto

subsection \<open>\<^verbatim>\<open>assessmentAttempts.repo.js\<close>\<close>

definition attempts_find :: "world \<Rightarrow> oid \<Rightarrow> oid option \<Rightarrow> attempt option" where
  "attempts_find w i scope = find (\<lambda>a. at_id a = i \<and> in_scope scope (at_college a)) (w_attempts w)"

definition attempts_find_one :: "world \<Rightarrow> oid \<Rightarrow> oid \<Rightarrow> attempt option" where
  "attempts_find_one w aid sid =
     find (\<lambda>a. at_assessment a = aid \<and> at_student a = sid) (w_attempts w)"

text \<open>The unique index on \<^verbatim>\<open>{ assessmentId, studentId }\<close> rejects a second attempt with code 11000.\<close>

definition duplicate_key :: js_error where
  "duplicate_key = DriverError ''E11000''"

definition attempts_create :: "attempt \<Rightarrow> world \<Rightarrow> attempt result \<times> world" where
  "attempts_create a w =
     (case attempts_find_one w (at_assessment a) (at_student a) of
        Some b \<Rightarrow> (Inl duplicate_key, w)
      | None \<Rightarrow> (Inr a, w\<lparr>w_attempts := w_attempts w @ [a]\<rparr>))"

definition attempts_update ::
    "oid \<Rightarrow> (attempt \<Rightarrow> attempt) \<Rightarrow> oid option \<Rightarrow> world \<Rightarrow> attempt option \<times> world" where
  "attempts_update i f scope w =
     (let w' = w\<lparr>w_attempts :=
            update_first (\<lambda>a. at_id a = i \<and> in_scope scope (at_college a)) f (w_attempts w)\<rparr>
      in (map_option f (attempts_find w i scope), w'))"

subsection \<open>\<^verbatim>\<open>assessments.repo.js\<close>\<close>

definition assessments_find :: "world \<Rightarrow> oid \<Rightarrow> oid option \<Rightarrow> assessment option" where
  "assessments_find w i scope =
     find (\<lambda>a. as_id a = i \<and> in_scope scope (as_college a)) (w_assessments w)"

definition assessments_create :: "assessment \<Rightarrow> world \<Rightarrow> assessment \<times> world" where
  "assessments_create a w = (a, w\<lparr>w_assessments := w_assessments w @ [a]\<rparr>)"

definition assessments_update ::
    "oid \<Rightarrow> (assessment \<Rightarrow> assessment) \<Rightarrow> oid option \<Rightarrow> world \<Rightarrow> assessment option \<times> world" where
  "assessments_update i f scope w =
     (let w' = w\<lparr>w_assessments :=
            update_first (\<lambda>a. as_id a = i \<and> in_scope scope (as_college a)) f (w_assessments w)\<rparr>
      in (map_option f (assessments_find w i scope), w'))"

definition assessments_delete :: "oid \<Rightarrow> oid option \<Rightarrow> world \<Rightarrow> assessment option \<times> world" where
  "assessments_delete i scope w =
     (assessments_find w i scope,
      w\<lparr>w_assessments :=
          delete_first (\<lambda>a. as_id a = i \<and> in_scope scope (as_college a)) (w_assessments w)\<rparr>)"

subsection \<open>\<^verbatim>\<open>problems.repo.js\<close>, \<^verbatim>\<open>questions.repo.js\<close>, \<^verbatim>\<open>submissions.repo.js\<close> and users\<close>

definition problems_find :: "world \<Rightarrow> oid \<Rightarrow> problem option" where
  "problems_find w i = find (\<lambda>p. pr_id p = i) (w_problems w)"

definition problems_find_external :: "world \<Rightarrow> string \<Rightarrow> problem option" where
  "problems_find_external w x = find (\<lambda>p. pr_external p = Some x) (w_problems w)"

definition problems_create :: "problem \<Rightarrow> world \<Rightarrow> problem result \<times> world" where
  "problems_create p w =
     (if pr_external p \<noteq> None \<and> (\<exists>q \<in> set (w_problems w). pr_external q = pr_external p)
      then (Inl duplicate_key, w)
      else (Inr p, w\<lparr>w_problems := w_problems w @ [p]\<rparr>))"

definition problems_delete :: "oid \<Rightarrow> world \<Rightarrow> problem option \<times> world" where
  "problems_delete i w =
     (problems_find w i, w\<lparr>w_problems := delete_first (\<lambda>p. pr_id p = i) (w_problems w)\<rparr>)"

definition problems_update :: "oid \<Rightarrow> (problem \<Rightarrow> problem) \<Rightarrow> world \<Rightarrow> problem option \<times> world" where
  "problems_update i f w =
     (map_option f (problems_find w i),
      w\<lparr>w_problems := update_first (\<lambda>p. pr_id p = i) f (w_problems w)\<rparr>)"

definition questions_find :: "world \<Rightarrow> oid \<Rightarrow> question option" where
  "questions_find w i = find (\<lambda>q. qu_id q = i) (w_questions w)"

definition questions_create :: "question \<Rightarrow> world \<Rightarrow> question \<times> world" where
  "questions_create q w = (q, w\<lparr>w_questions := w_questions w @ [q]\<rparr>)"

definition questions_update :: "oid \<Rightarrow> (question \<Rightarrow> question) \<Rightarrow> world \<Rightarrow> question option \<times> world" where
  "questions_update i f w =
     (map_option f (questions_find w i),
      w\<lparr>w_questions := update_first (\<lambda>q. qu_id q = i) f (w_questions w)\<rparr>)"

definition questions_delete :: "oid \<Rightarrow> world \<Rightarrow> question option \<times> world" where
  "questions_delete i w =
     (questions_find w i, w\<lparr>w_questions := delete_first (\<lambda>q. qu_id q = i) (w_questions w)\<rparr>)"

definition submissions_find :: "world \<Rightarrow> oid \<Rightarrow> oid option \<Rightarrow> submission option" where
  "submissions_find w i scope =
     find (\<lambda>s. su_id s = i \<and> in_scope scope (su_college s)) (w_submissions w)"

definition submissions_create :: "submission \<Rightarrow> world \<Rightarrow> submission \<times> world" where
  "submissions_create s w = (s, w\<lparr>w_submissions := w_submissions w @ [s]\<rparr>)"

definition submissions_save :: "submission \<Rightarrow> world \<Rightarrow> world" where
  "submissions_save s w =
     w\<lparr>w_submissions := update_first (\<lambda>t. su_id t = su_id s) (\<lambda>t. s) (w_submissions w)\<rparr>"

definition submissions_by_user :: "world \<Rightarrow> oid \<Rightarrow> jsnum \<Rightarrow> jsnum \<Rightarrow> submission list result" where
  "submissions_by_user w u sk lmt =
     find_page (\<lambda>s. su_user s = u) su_created sk lmt (w_submissions w)"

definition users_find :: "world \<Rightarrow> oid \<Rightarrow> user option" where
  "users_find w i = find (\<lambda>u. u_id u = i) (w_users w)"

definition users_by_email :: "world \<Rightarrow> string \<Rightarrow> user option" where
  "users_by_email w e = find (\<lambda>u. u_email u = e) (w_users w)"

definition users_by_usn :: "world \<Rightarrow> string \<Rightarrow> user option" where
  "users_by_usn w x = find (\<lambda>u. u_usn u = Some x) (w_users w)"

text \<open>The unique index on \<^verbatim>\<open>email\<close> and the unique sparse index on \<^verbatim>\<open>usn\<close>.\<close>

definition users_create :: "user \<Rightarrow> world \<Rightarrow> user result \<times> world" where
  "users_create u w =
     (if users_by_email w (u_email u) \<noteq> None
          \<or> (case u_usn u of None \<Rightarrow> False | Some x \<Rightarrow> users_by_usn w x \<noteq> None)
      then (Inl duplicate_key, w)
      else (Inr u, w\<lparr>w_users := w_users w @ [u]\<rparr>))"

definition colleges_find :: "world \<Rightarrow> oid \<Rightarrow> college option" where
  "colleges_find w i = find (\<lambda>c. co_id c = i) (w_colleges w)"

definition colleges_save :: "college \<Rightarrow> world \<Rightarrow> world" where
  "colleges_save c w =
     w\<lparr>w_colleges := update_first (\<lambda>d. co_id d = co_id c) (\<lambda>d. c) (w_colleges w)\<rparr>"

subsection \<open>\<^verbatim>\<open>audit.service.js\<close>\<close>

text \<open>
  \<^verbatim>\<open>logEvent\<close> swallows the database's errors; \<open>ok\<close> tells whether the insertion succeeds.
  \<^verbatim>\<open>listLogs\<close> is called with the client's query as its filter, so the filter is a parameter.
\<close>

definition logEvent ::
    "bool \<Rightarrow> time \<Rightarrow> string \<Rightarrow> oid option \<Rightarrow> jsval \<Rightarrow> audit_info \<Rightarrow> world \<Rightarrow> world" where
  "logEvent ok now event uid details info w =
     (if ok then w\<lparr>w_logs := w_logs w @ [\<lparr>al_event = event, al_user = uid, al_details = details,
                                          al_info = info, al_created = now\<rparr>]\<rparr>
      else w)"

definition listLogs :: "(audit_log \<Rightarrow> bool) \<Rightarrow> nat \<Rightarrow> world \<Rightarrow> audit_log list" where
  "listLogs match lmt w = take lmt (sort_key (\<lambda>l. - al_created l) (filter match (w_logs w)))"

end
