(* ===== verification/Repositories.thy ===== *)
theory Repositories
  imports Store
begin

section \<open>The contract of a tenant-scoped repository\<close>

text \<open>
  The assessment and attempt repositories offer the same two operations, a lookup and an update of
  one document, each with an optional college that narrows the lookup. The locale states what both
  promise; the lemmas inside it are what the services rely on: a scoped read never returns another
  college's document and a scoped update never touches one. \<open>store_ok\<close> collects the uniqueness
  constraints of the database (object ids and the unique indexes of the schemas).
\<close>

definition attempt_key :: "attempt \<Rightarrow> oid \<times> oid" where
  "attempt_key a = (at_assessment a, at_student a)"

definition store_ok :: "world \<Rightarrow> bool" where
  "store_ok w \<longleftrightarrow>
     distinct (map u_id (w_users w)) \<and> distinct (map u_email (w_users w)) \<and>
     distinct (map co_id (w_colleges w)) \<and> distinct (map pr_id (w_problems w)) \<and>
     distinct (map as_id (w_assessments w)) \<and> distinct (map at_id (w_attempts w)) \<and>
     distinct (map attempt_key (w_attempts w)) \<and> distinct (map su_id (w_submissions w))"

locale scoped_repository =
  fixes doc_id :: "'d \<Rightarrow> oid"
    and doc_college :: "'d \<Rightarrow> oid option"
    and docs :: "world \<Rightarrow> 'd list"
    and find_doc :: "world \<Rightarrow> oid \<Rightarrow> oid option \<Rightarrow> 'd option"
    and update_doc :: "oid \<Rightarrow> ('d \<Rightarrow> 'd) \<Rightarrow> oid option \<Rightarrow> world \<Rightarrow> 'd option \<times> world"
  assumes find_sound: "find_doc w i s = Some d \<Longrightarrow> d \<in> set (docs w) \<and> doc_id d = i \<and> in_scope s (doc_college d)"
    and find_complete: "distinct (map doc_id (docs w)) \<Longrightarrow> d \<in> set (docs w) \<Longrightarrow> in_scope s (doc_college d)
          \<Longrightarrow> find_doc w (doc_id d) s = Some d"
    and update_result: "fst (update_doc i f s w) = map_option f (find_doc w i s)"
    and update_miss: "find_doc w i s = None \<Longrightarrow> snd (update_doc i f s w) = w"
    and update_docs: "find_doc w i s = Some d \<Longrightarrow> distinct (map doc_id (docs w))
          \<Longrightarrow> docs (snd (update_doc i f s w)) = map (\<lambda>x. if doc_id x = i then f x else x) (docs w)"
begin

lemma find_widen:
  assumes "distinct (map doc_id (docs w))" and "find_doc w i s = Some d"
  shows "find_doc w i None = Some d"
  using find_sound [OF assms(2)] find_complete [OF assms(1), of d None] by simp

lemma find_narrow:
  assumes "distinct (map doc_id (docs w))" and "find_doc w i None = Some d"
  shows "find_doc w i s = (if in_scope s (doc_college d) then Some d else None)"
proof (cases "find_doc w i s")
  case None
  with find_sound [OF assms(2)] find_complete [OF assms(1), of d s] show ?thesis by auto
next
  case (Some e)
  with find_widen [OF assms(1) Some] assms(2) find_sound [OF Some] show ?thesis by simp
qed

text \<open>A read scoped to a college returns documents of that college only.\<close>

lemma scoped_read: "find_doc w i (Some c) = Some d \<Longrightarrow> doc_college d = Some c"
  using find_sound [of w i "Some c" d] by simp

lemma foreign_read_none:
  assumes "distinct (map doc_id (docs w))" and "find_doc w i None = Some d" and "doc_college d \<noteq> Some c"
  shows "find_doc w i (Some c) = None"
  using find_narrow [OF assms(1,2), of "Some c"] assms(3) by simp

lemma update_ids:
  assumes "distinct (map doc_id (docs w))" and "\<And>x. doc_id (f x) = doc_id x"
  shows "map doc_id (docs (snd (update_doc i f s w))) = map doc_id (docs w)"
  using assms update_docs [of w i s _ f] update_miss [of w i s f]
  by (cases "find_doc w i s") auto

lemma update_find_same:
  assumes ok: "distinct (map doc_id (docs w))" and d: "find_doc w i s = Some d"
    and keep: "\<And>x. doc_id (f x) = doc_id x" "\<And>x. doc_college (f x) = doc_college x"
  shows "find_doc (snd (update_doc i f s w)) i s = Some (f d)"
proof -
  have "f d \<in> set (docs (snd (update_doc i f s w)))"
    using update_docs [OF d ok, of f] find_sound [OF d] by force
  moreover have "distinct (map doc_id (docs (snd (update_doc i f s w))))"
    using update_ids [OF ok, of f i s] keep ok by simp
  ultimately show ?thesis
    using find_complete [of _ "f d" s] find_sound [OF d] keep by simp
qed

lemma update_find_other:
  assumes ok: "distinct (map doc_id (docs w))" and j: "j \<noteq> i"
    and e: "find_doc w j t = Some e"
    and keep: "\<And>x. doc_id (f x) = doc_id x"
  shows "find_doc (snd (update_doc i f s w)) j t = Some e"
proof (cases "find_doc w i s")
  case None
  with e show ?thesis by (simp add: update_miss)
next
  case (Some d)
  have "e \<in> set (docs (snd (update_doc i f s w)))"
    using update_docs [OF Some ok, of f] find_sound [OF e] j by force
  moreover have "distinct (map doc_id (docs (snd (update_doc i f s w))))"
    using update_ids [OF ok, of f i s] keep ok by simp
  ultimately show ?thesis
    using find_complete [of _ e t] find_sound [OF e] by simp
qed

text \<open>An update scoped to a college leaves the documents of all other colleges as they are.\<close>

lemma scoped_write:
  assumes ok: "distinct (map doc_id (docs w))" and e: "find_doc w j None = Some e"
    and foreign: "doc_college e \<noteq> Some c" and keep: "\<And>x. doc_id (f x) = doc_id x"
  shows "find_doc (snd (update_doc i f (Some c) w)) j None = Some e"
proof (cases "j = i")
  case True
  with foreign_read_none [OF ok e foreign] e show ?thesis by (simp add: update_miss)
next
  case False
  show ?thesis by (rule update_find_other [OF ok False e keep])
qed

end

subsection \<open>The two repositories keep the contract\<close>

lemma distinct_update_first_map:
  assumes "distinct (map k xs)" and "find (\<lambda>x. k x = i \<and> Q x) xs = Some d"
  shows "update_first (\<lambda>x. k x = i \<and> Q x) f xs = map (\<lambda>x. if k x = i then f x else x) xs"
  using assms
proof (induction xs)
  case (Cons x xs)
  show ?case
  proof (cases "k x = i")
    case True
    with Cons.prems(1) have "\<forall>y \<in> set xs. k y \<noteq> i" by (auto simp: image_iff)
    then have "find (\<lambda>x. k x = i \<and> Q x) xs = None" and "map (\<lambda>x. if k x = i then f x else x) xs = xs"
      by (auto simp: find_none map_idI)
    with Cons.prems True show ?thesis by (auto split: if_splits)
  qed (use Cons in simp)
qed simp

interpretation attempts_repo: scoped_repository at_id at_college w_attempts attempts_find attempts_update
proof unfold_locales
  fix w i s d f
  show "attempts_find w i s = Some d \<Longrightarrow> d \<in> set (w_attempts w) \<and> at_id d = i \<and> in_scope s (at_college d)"
    unfolding attempts_find_def by (drule find_member) simp
  show "fst (attempts_update i f s w) = map_option f (attempts_find w i s)"
    by (simp add: attempts_update_def Let_def)
  show "attempts_find w i s = None \<Longrightarrow> snd (attempts_update i f s w) = w"
    by (simp add: attempts_update_def attempts_find_def update_first_id)
  show "attempts_find w i s = Some d \<Longrightarrow> distinct (map at_id (w_attempts w)) \<Longrightarrow>
      w_attempts (snd (attempts_update i f s w)) = map (\<lambda>x. if at_id x = i then f x else x) (w_attempts w)"
    unfolding attempts_find_def by (simp add: attempts_update_def Let_def distinct_update_first_map)
next
  fix w :: world and s and d :: attempt
  assume d: "distinct (map at_id (w_attempts w))" "d \<in> set (w_attempts w)" "in_scope s (at_college d)"
  obtain e where "attempts_find w (at_id d) s = Some e"
    using find_some_ex [OF d(2)] d(3) unfolding attempts_find_def by (metis (mono_tags, lifting))
  then show "attempts_find w (at_id d) s = Some d"
    unfolding attempts_find_def using find_key_narrow [OF d(1)] find_key [OF d(1,2)] by fastforce
qed

interpretation assessments_repo:
  scoped_repository as_id as_college w_assessments assessments_find assessments_update
proof unfold_locales
  fix w i s d f
  show "assessments_find w i s = Some d \<Longrightarrow> d \<in> set (w_assessments w) \<and> as_id d = i \<and> in_scope s (as_college d)"
    unfolding assessments_find_def by (drule find_member) simp
  show "fst (assessments_update i f s w) = map_option f (assessments_find w i s)"
    by (simp add: assessments_update_def Let_def)
  show "assessments_find w i s = None \<Longrightarrow> snd (assessments_update i f s w) = w"
    by (simp add: assessments_update_def assessments_find_def update_first_id)
  show "assessments_find w i s = Some d \<Longrightarrow> distinct (map as_id (w_assessments w)) \<Longrightarrow>
      w_assessments (snd (assessments_update i f s w))
        = map (\<lambda>x. if as_id x = i then f x else x) (w_assessments w)"
    unfolding assessments_find_def by (simp add: assessments_update_def Let_def distinct_update_first_map)
next
  fix w :: world and s and d :: assessment
  assume d: "distinct (map as_id (w_assessments w))" "d \<in> set (w_assessments w)" "in_scope s (as_college d)"
  obtain e where "assessments_find w (as_id d) s = Some e"
    using find_some_ex [OF d(2)] d(3) unfolding assessments_find_def by (metis (mono_tags, lifting))
  then show "assessments_find w (as_id d) s = Some d"
    unfolding assessments_find_def using find_key_narrow [OF d(1)] find_key [OF d(1,2)] by fastforce
qed

subsection \<open>Stores without a scope\<close>

text \<open>
  Problems and questions are looked up by id alone. A store that also deletes extends the contract; a scoped
  repository used without a college keeps it, so that its lemmas hold there too.
\<close>

locale document_store =
  fixes key :: "'d \<Rightarrow> oid"
    and content :: "world \<Rightarrow> 'd list"
    and find_one :: "world \<Rightarrow> oid \<Rightarrow> 'd option"
    and change :: "oid \<Rightarrow> ('d \<Rightarrow> 'd) \<Rightarrow> world \<Rightarrow> 'd option \<times> world"
  assumes lookup_sound: "find_one w i = Some d \<Longrightarrow> d \<in> set (content w) \<and> key d = i"
    and lookup_complete: "distinct (map key (content w)) \<Longrightarrow> d \<in> set (content w) \<Longrightarrow> find_one w (key d) = Some d"
    and change_result: "fst (change i f w) = map_option f (find_one w i)"
    and change_content: "distinct (map key (content w))
          \<Longrightarrow> content (snd (change i f w)) = map (\<lambda>d. if key d = i then f d else d) (content w)"
begin

lemma lookup_none: "distinct (map key (content w)) \<Longrightarrow> find_one w i = None \<longleftrightarrow> i \<notin> key ` set (content w)"
  using lookup_sound [of w i] lookup_complete [of w] by (cases "find_one w i") auto

lemma lookup_unique:
  assumes "distinct (map key (content w))" and "d \<in> set (content w)" and "key d = i"
  shows "find_one w i = Some d"
  using lookup_complete [OF assms(1,2)] assms(3) by simp

lemma change_keys:
  assumes "distinct (map key (content w))" and "\<And>d. key (f d) = key d"
  shows "map key (content (snd (change i f w))) = map key (content w)"
  using assms by (simp add: change_content)

lemma change_lookup:
  assumes ok: "distinct (map key (content w))" and keep: "\<And>d. key (f d) = key d"
  shows "find_one (snd (change i f w)) j = (if j = i then map_option f (find_one w i) else find_one w j)"
proof -
  have ok': "distinct (map key (content (snd (change i f w))))" using change_keys [OF ok keep] ok by simp
  show ?thesis
  proof (cases "find_one w j")
    case None
    then have "j \<notin> key ` set (content w)" using lookup_none [OF ok] by simp
    then have "j \<notin> key ` set (content (snd (change i f w)))" using change_keys [OF ok keep] by (metis list.set_map)
    then have "find_one (snd (change i f w)) j = None" using lookup_none [OF ok'] by simp
    with None show ?thesis by (cases "j = i") simp_all
  next
    case (Some d)
    note d = lookup_sound [OF Some]
    have "(if j = i then f d else d) \<in> set (content (snd (change i f w)))"
      using d by (auto simp: change_content [OF ok] image_iff)
    from lookup_unique [OF ok' this, of j] keep d Some show ?thesis by auto
  qed
qed

end

locale deletable_store = document_store +
  fixes delete :: "oid \<Rightarrow> world \<Rightarrow> 'a option \<times> world"
  assumes delete_result: "fst (delete i w) = find_one w i"
    and delete_content: "distinct (map key (content w))
          \<Longrightarrow> content (snd (delete i w)) = filter (\<lambda>d. key d \<noteq> i) (content w)"
begin

lemma delete_lookup:
  assumes ok: "distinct (map key (content w))"
  shows "find_one (snd (delete i w)) j = (if j = i then None else find_one w j)"
proof -
  have ok': "distinct (map key (content (snd (delete i w))))"
    using ok by (simp add: delete_content distinct_map_filter)
  show ?thesis
  proof (cases "find_one w j")
    case None
    then show ?thesis using lookup_none [OF ok, of j] lookup_none [OF ok', of j] ok by (auto simp: delete_content)
  next
    case (Some d)
    note d = lookup_sound [OF Some]
    show ?thesis
    proof (cases "j = i")
      case True
      then show ?thesis using lookup_none [OF ok', of j] ok by (auto simp: delete_content)
    next
      case False
      with d ok have "d \<in> set (content (snd (delete i w)))" by (simp add: delete_content)
      from lookup_unique [OF ok' this] d False Some show ?thesis by simp
    qed
  qed
qed

end

sublocale scoped_repository \<subseteq> unscoped: document_store doc_id docs "\<lambda>w i. find_doc w i None"
  "\<lambda>i f. update_doc i f None"
proof unfold_locales
  fix w i d f
  show "find_doc w i None = Some d \<Longrightarrow> d \<in> set (docs w) \<and> doc_id d = i" using find_sound by blast
  show "distinct (map doc_id (docs w)) \<Longrightarrow> d \<in> set (docs w) \<Longrightarrow> find_doc w (doc_id d) None = Some d"
    by (rule find_complete) simp_all
  show "fst (update_doc i f None w) = map_option f (find_doc w i None)" by (rule update_result)
  assume ok: "distinct (map doc_id (docs w))"
  show "docs (snd (update_doc i f None w)) = map (\<lambda>d. if doc_id d = i then f d else d) (docs w)"
  proof (cases "find_doc w i None")
    case None
    have "\<forall>d \<in> set (docs w). doc_id d \<noteq> i" using None find_complete [OF ok, of _ None] by auto
    then show ?thesis using update_miss [OF None] by (simp add: map_idI)
  next
    case (Some d)
    then show ?thesis by (rule update_docs [OF _ ok])
  qed
qed

lemma delete_first_key:
  assumes "distinct (map k xs)"
  shows "delete_first (\<lambda>x. k x = i) xs = filter (\<lambda>x. k x \<noteq> i) xs"
  using assms
proof (induction xs)
  case (Cons x xs)
  then have "filter (\<lambda>y. k y \<noteq> k x) xs = xs" by (auto simp: filter_id_conv image_iff)
  with Cons show ?case by auto
qed simp

lemma update_first_key:
  assumes "distinct (map k xs)"
  shows "update_first (\<lambda>x. k x = i) f xs = map (\<lambda>x. if k x = i then f x else x) xs"
  using assms
proof (induction xs)
  case (Cons x xs)
  then have "k x = i \<Longrightarrow> map (\<lambda>y. if k y = i then f y else y) xs = xs" by (auto simp: image_iff intro!: map_idI)
  with Cons show ?case by auto
qed simp

interpretation problems_store: deletable_store pr_id w_problems problems_find problems_update problems_delete
  by unfold_locales
    (auto simp: problems_find_def problems_update_def problems_delete_def update_first_key delete_first_key
      find_key dest: find_member)

interpretation questions_store: deletable_store qu_id w_questions questions_find questions_update questions_delete
  by unfold_locales
    (auto simp: questions_find_def questions_update_def questions_delete_def update_first_key delete_first_key
      find_key dest: find_member)

end
