(* ===== verification/Access.thy ===== *)
theory Access
  imports Repositories
begin

section \<open>Authentication, authorization and the routing table\<close>

text \<open>
  The request pipeline in front of the handlers: the CSRF check and the mounts of
  \<^verbatim>\<open>src/app.js\<close>, the guards of \<^verbatim>\<open>src/middleware\<close> (\<^verbatim>\<open>auth.mjs\<close>, \<^verbatim>\<open>integration.mjs\<close>,
  \<^verbatim>\<open>arventiq.mjs\<close>, \<^verbatim>\<open>errorHandler.js\<close>), \<^verbatim>\<open>utils/safeCompare.js\<close> and the router files of
  \<^verbatim>\<open>src/routes\<close> as tables, with Express's first-match dispatch. JWT verification, the JSON schema
  validator and password hashing are parameters. Rate limits, CORS, body parsers and logging are
  not modelled.
\<close>

subsection \<open>The authenticated user\<close>

text \<open>
  \<^verbatim>\<open>req.user\<close>: the verified claims of a token (\<open>au_jwt_id\<close> is the claim \<^verbatim>\<open>id\<close>) or the user a service
  guard makes up, which may lack an id.
\<close>

record auth =
  au_jwt_id :: "oid option"
  au_id :: "oid option"
  au_role :: role
  au_college :: "oid option"
  au_service :: bool

record request =
  rq_method :: string
  rq_path :: "string list"
  rq_cookie :: "string option"
  rq_authorization :: "string option"
  rq_requested_with :: "string option"
  rq_service_key :: "string option"
  rq_rapid_key :: "string option"
  rq_body :: jsval
  rq_query :: jsval
  rq_user :: "auth option"

text \<open>The secrets of \<^verbatim>\<open>config/env.js\<close> and the third-party functions the guards call.\<close>

record environment =
  ev_service_key :: "string option"
  ev_arventiq_secret :: "string option"
  ev_codeassess_key :: "string option"
  ev_jwt_verify :: "string \<Rightarrow> auth option"
  ev_schema_errors :: "string \<Rightarrow> jsval \<Rightarrow> string list"

type_synonym response = "nat \<times> string"

text \<open>
  \<^verbatim>\<open>config/env.js\<close>: a secret is the environment variable, a development default outside production,
  and nothing in production; the module throws when a production secret is missing.
\<close>

definition env_secret :: "string option \<Rightarrow> bool \<Rightarrow> string \<Rightarrow> string option" where
  "env_secret var production dflt =
     (case var of
        Some s \<Rightarrow> if s \<noteq> [] then Some s else if production then None else Some dflt
      | None \<Rightarrow> if production then None else Some dflt)"

definition env_boots :: "bool \<Rightarrow> string option list \<Rightarrow> bool" where
  "env_boots production secrets \<longleftrightarrow> \<not> (production \<and> None \<in> set secrets)"

text \<open>\<^verbatim>\<open>safeCompare\<close>; \<open>None\<close> is a value that is not a string.\<close>

fun safeCompare :: "string option \<Rightarrow> string option \<Rightarrow> bool" where
  "safeCompare (Some a) (Some b) =
     (if a = [] \<or> b = [] then False else if length a \<noteq> length b then False else a = b)"
| "safeCompare _ _ = False"

lemma safeCompare_iff: "safeCompare a b \<longleftrightarrow> (\<exists>s. a = Some s \<and> b = Some s \<and> s \<noteq> [])"
  by (cases a; cases b) auto

subsection \<open>\<^verbatim>\<open>auth.mjs\<close>\<close>

definition bearer :: string where
  "bearer = ''Bearer ''"

definition header_token :: "string option \<Rightarrow> string option" where
  "header_token authorization =
     (let h = (case authorization of Some s \<Rightarrow> s | None \<Rightarrow> [])
      in if starts_with bearer h then Some (split_on (CHR '' '') h ! 1) else None)"

definition extractToken :: "request \<Rightarrow> string option" where
  "extractToken req =
     (case rq_cookie req of
        Some t \<Rightarrow> if t \<noteq> [] then Some t else header_token (rq_authorization req)
      | None \<Rightarrow> header_token (rq_authorization req))"

definition token_of :: "request \<Rightarrow> string option" where
  "token_of req = (case extractToken req of Some t \<Rightarrow> if t = [] then None else Some t | None \<Rightarrow> None)"

definition normalizeUser :: "auth \<Rightarrow> auth" where
  "normalizeUser u = (if au_jwt_id u \<noteq> None \<and> au_id u = None then u\<lparr>au_id := au_jwt_id u\<rparr> else u)"

definition verifyToken :: "environment \<Rightarrow> request \<Rightarrow> response + request" where
  "verifyToken env req =
     (case token_of req of
        None \<Rightarrow> Inl (401, ''No token'')
      | Some t \<Rightarrow>
          (case ev_jwt_verify env t of
             None \<Rightarrow> Inl (401, ''Invalid token'')
           | Some claims \<Rightarrow> Inr (req\<lparr>rq_user := Some (normalizeUser claims)\<rparr>)))"

definition optionalVerifyToken :: "environment \<Rightarrow> request \<Rightarrow> response + request" where
  "optionalVerifyToken env req =
     (case token_of req of
        None \<Rightarrow> Inr req
      | Some t \<Rightarrow>
          (case ev_jwt_verify env t of
             None \<Rightarrow> Inr req
           | Some claims \<Rightarrow> Inr (req\<lparr>rq_user := Some (normalizeUser claims)\<rparr>)))"

definition authorizeRoles :: "role list \<Rightarrow> request \<Rightarrow> response + request" where
  "authorizeRoles roles req =
     (case rq_user req of
        None \<Rightarrow> Inl (403, ''Forbidden'')
      | Some u \<Rightarrow> if au_role u \<in> set roles then Inr req else Inl (403, ''Forbidden''))"

subsection \<open>\<^verbatim>\<open>integration.mjs\<close>, \<^verbatim>\<open>codeAssessShim.routes.js\<close> and \<^verbatim>\<open>arventiq.mjs\<close>\<close>

definition service_user :: auth where
  "service_user = \<lparr>au_jwt_id = None, au_id = None, au_role = Admin, au_college = None, au_service = True\<rparr>"

definition verifyService :: "environment \<Rightarrow> request \<Rightarrow> response + request" where
  "verifyService env req =
     (if \<not> safeCompare (rq_service_key req) (ev_service_key env) then Inl (401, ''Unauthorized service'')
      else Inr (case rq_user req of None \<Rightarrow> req\<lparr>rq_user := Some service_user\<rparr> | Some u \<Rightarrow> req))"

definition verifyCodeAssessKey :: "environment \<Rightarrow> request \<Rightarrow> response + request" where
  "verifyCodeAssessKey env req =
     (if safeCompare (rq_rapid_key req) (ev_codeassess_key env) then Inr req
      else Inl (401, ''Unauthorized''))"

definition service_account_email :: string where
  "service_account_email = ''arventiq-service@system.internal''"

text \<open>
  \<^verbatim>\<open>getOrCreateServiceUserId\<close>. The id of the shared account is memoised in a promise that is dropped
  when it rejects; a resolved promise and a second lookup give the same id, so the model looks the
  account up each time. \<open>nid\<close> is the id a new account gets and \<open>pw\<close> its unguessable password hash.
\<close>

definition getOrCreateServiceUserId :: "oid \<Rightarrow> string \<Rightarrow> time \<Rightarrow> world \<Rightarrow> oid result \<times> world" where
  "getOrCreateServiceUserId nid pw now w =
     (case users_by_email w service_account_email of
        Some u \<Rightarrow> (Inr (u_id u), w)
      | None \<Rightarrow>
          (case users_create \<lparr>u_id = nid, u_name = ''Arventiq Service Account'',
                              u_email = service_account_email, u_password = pw, u_role = Admin,
                              u_usn = None, u_section = None, u_college = None, u_created = now\<rparr> w of
             (Inl e, w') \<Rightarrow> (Inl e, w')
           | (Inr u, w') \<Rightarrow> (Inr (u_id u), w')))"

definition arventiq_user :: "oid \<Rightarrow> auth" where
  "arventiq_user i =
     \<lparr>au_jwt_id = Some i, au_id = Some i, au_role = Admin, au_college = None, au_service = True\<rparr>"

definition arventiq_token :: "request \<Rightarrow> string option" where
  "arventiq_token req =
     (let h = (case rq_authorization req of Some s \<Rightarrow> s | None \<Rightarrow> [])
      in if starts_with bearer h then Some (js_trim (drop 7 h)) else None)"

subsection \<open>Errors as responses\<close>

definition safeErrorMessage :: "js_error \<Rightarrow> string" where
  "safeErrorMessage e =
     (case error_status e of Some st \<Rightarrow> error_message e | None \<Rightarrow> ''Internal server error'')"

definition error_body :: "js_error \<Rightarrow> jsval" where
  "error_body e = (case e of HttpError st m b \<Rightarrow> b | _ \<Rightarrow> JUndef)"

definition errorHandler :: "js_error \<Rightarrow> nat \<times> jsval" where
  "errorHandler e =
     (let status = (case error_status e of Some st \<Rightarrow> st | None \<Rightarrow> 500);
          message = JStr (safeErrorMessage e);
          fill = (\<lambda>k v. if truthy (oget v k) then v else oset v k message)
      in if error_status e \<noteq> None \<and> truthy (error_body e)
         then (let body = (if typeof (error_body e) = ''object'' then error_body e
                           else JObj [(''body'', error_body e)])
               in (status, fill ''message'' (fill ''msg'' body)))
         else (status, JObj [(''message'', message), (''msg'', message)]))"

subsection \<open>Guards and routes\<close>

datatype guard =
    VerifyToken
  | OptionalToken
  | AuthorizeRoles "role list"
  | ValidateBody string
  | VerifyService
  | VerifyArventiq
  | VerifyCodeAssess

datatype segment = Lit string | Param string

datatype route = Route (http_verb: string) (segments: "segment list") (guards: "guard list") (handler: string)

fun run_guard ::
    "environment \<Rightarrow> oid \<Rightarrow> string \<Rightarrow> time \<Rightarrow> guard \<Rightarrow> request \<Rightarrow> world \<Rightarrow> (response + request) \<times> world" where
  "run_guard env nid pw now VerifyToken req w = (verifyToken env req, w)"
| "run_guard env nid pw now OptionalToken req w = (optionalVerifyToken env req, w)"
| "run_guard env nid pw now (AuthorizeRoles rs) req w = (authorizeRoles rs req, w)"
| "run_guard env nid pw now (ValidateBody schema) req w =
     ((case ev_schema_errors env schema (rq_body req) of
         [] \<Rightarrow> Inr req
       | errs \<Rightarrow> Inl (400, join_with '', '' errs)), w)"
| "run_guard env nid pw now VerifyService req w = (verifyService env req, w)"
| "run_guard env nid pw now VerifyCodeAssess req w = (verifyCodeAssessKey env req, w)"
| "run_guard env nid pw now VerifyArventiq req w =
     (if \<not> safeCompare (arventiq_token req) (ev_arventiq_secret env)
      then (Inl (401, ''Unauthorized: invalid Arventiq credentials''), w)
      else (case getOrCreateServiceUserId nid pw now w of
              (Inl e, w') \<Rightarrow> (Inl (500, safeErrorMessage e), w')
            | (Inr i, w') \<Rightarrow> (Inr (req\<lparr>rq_user := Some (arventiq_user i)\<rparr>), w')))"

fun run_guards ::
    "environment \<Rightarrow> oid \<Rightarrow> string \<Rightarrow> time \<Rightarrow> guard list \<Rightarrow> request \<Rightarrow> world \<Rightarrow> (response + request) \<times> world" where
  "run_guards env nid pw now [] req w = (Inr req, w)"
| "run_guards env nid pw now (g # gs) req w =
     (case run_guard env nid pw now g req w of
        (Inl r, w') \<Rightarrow> (Inl r, w')
      | (Inr req', w') \<Rightarrow> run_guards env nid pw now gs req' w')"

definition problems_routes :: "route list" where
  "problems_routes =
    [Route ''GET'' []
       [OptionalToken] ''listProblems'',
     Route ''GET'' [Param ''_id'']
       [OptionalToken] ''getProblemById'',
     Route ''GET'' [Param ''_id'', Lit ''stats'']
       [OptionalToken] ''getProblemStats'',
     Route ''POST'' [Param ''_id'', Lit ''run'']
       [VerifyToken] ''runProblem'',
     Route ''POST'' []
       [VerifyToken, AuthorizeRoles [Admin, Faculty, Superadmin], ValidateBody ''problem''] ''createProblem'',
     Route ''PUT'' [Param ''_id'']
       [VerifyToken, AuthorizeRoles [Admin, Faculty, Superadmin], ValidateBody ''problem''] ''updateProblem'',
     Route ''DELETE'' [Param ''_id'']
       [VerifyToken, AuthorizeRoles [Admin, Superadmin]] ''deleteProblem'']"

definition assessments_routes :: "route list" where
  "assessments_routes =
    [Route ''GET'' []
       [OptionalToken] ''listAssessments'',
     Route ''POST'' []
       [VerifyToken, AuthorizeRoles [Admin, Faculty, Superadmin]] ''createAssessment'',
     Route ''GET'' [Param ''_id'']
       [VerifyToken] ''getAssessmentById'',
     Route ''GET'' [Param ''_id'', Lit ''my-attempt'']
       [VerifyToken] ''getMyAssessmentAttempt'',
     Route ''PUT'' [Param ''_id'']
       [VerifyToken, AuthorizeRoles [Admin, Faculty, Superadmin]] ''updateAssessment'',
     Route ''DELETE'' [Param ''_id'']
       [VerifyToken, AuthorizeRoles [Admin, Superadmin]] ''deleteAssessment'',
     Route ''POST'' [Param ''_id'', Lit ''start'']
       [VerifyToken, AuthorizeRoles [Student]] ''startAssessment'',
     Route ''POST'' [Lit ''attempts'', Param ''attemptId'', Lit ''submit'']
       [VerifyToken, AuthorizeRoles [Student, Admin, Faculty, Superadmin]] ''submitAssessment'',
     Route ''POST'' [Lit ''attempts'', Param ''attemptId'', Lit ''log-event'']
       [VerifyToken, AuthorizeRoles [Student]] ''logAntiCheatingEvent'',
     Route ''GET'' [Param ''_id'', Lit ''attempts'']
       [VerifyToken, AuthorizeRoles [Admin, Faculty, Superadmin]] ''listAssessmentAttempts'',
     Route ''GET'' [Param ''_id'', Lit ''attendance'']
       [VerifyToken, AuthorizeRoles [Admin, Faculty, Superadmin]] ''getAssessmentAttendance'',
     Route ''GET'' [Param ''_id'', Lit ''analytics'']
       [VerifyToken, AuthorizeRoles [Admin, Faculty, Superadmin]] ''getAssessmentAnalytics'',
     Route ''GET'' [Lit ''attempts'', Param ''attemptId'']
       [VerifyToken] ''getAssessmentAttemptById'',
     Route ''GET'' [Lit ''attempts'', Param ''attemptId'', Lit ''submissions'']
       [VerifyToken] ''getAttemptSubmissions'',
     Route ''GET'' [Param ''_id'', Lit ''announcements'']
       [VerifyToken] ''getAnnouncements'',
     Route ''POST'' [Param ''_id'', Lit ''announcements'']
       [VerifyToken, AuthorizeRoles [Admin, Faculty, Superadmin]] ''createAnnouncement'',
     Route ''POST'' [Lit ''attempts'', Param ''attemptId'', Lit ''draft'']
       [VerifyToken, AuthorizeRoles [Student, Admin, Faculty, Superadmin]] ''saveDraft'',
     Route ''POST'' [Param ''_id'', Lit ''lock'']
       [VerifyToken, AuthorizeRoles [Admin, Faculty, Superadmin]] ''lockAssessment'',
     Route ''POST'' [Param ''_id'', Lit ''unlock'']
       [VerifyToken, AuthorizeRoles [Admin, Faculty, Superadmin]] ''unlockAssessment'',
     Route ''POST'' [Lit ''attempts'', Param ''attemptId'', Lit ''grace'']
       [VerifyToken, AuthorizeRoles [Admin, Faculty, Superadmin]] ''addGraceTime'',
     Route ''POST'' [Lit ''attempts'', Param ''attemptId'', Lit ''challenge'']
       [VerifyToken, AuthorizeRoles [Student]] ''raiseChallenge'',
     Route ''POST'' [Lit ''attempts'', Param ''attemptId'', Lit ''challenge'', Lit ''resolve'']
       [VerifyToken, AuthorizeRoles [Admin, Faculty, Superadmin]] ''resolveChallenge'']"

definition submissions_routes :: "route list" where
  "submissions_routes =
    [Route ''POST'' []
       [VerifyToken, ValidateBody ''submission''] ''submitSolution'',
     Route ''GET'' [Lit ''my'']
       [VerifyToken] ''getMySubmissions'',
     Route ''GET'' [Lit ''analytics'', Lit ''my'']
       [VerifyToken] ''getMyAnalytics'',
     Route ''GET'' [Param ''_id'']
       [VerifyToken] ''getSubmissionById'']"

definition preview_routes :: "route list" where
  "preview_routes =
    [Route ''POST'' []
       [VerifyToken, AuthorizeRoles [Admin, Faculty, Superadmin]] ''previewWrapper'',
     Route ''POST'' [Lit ''validate'']
       [VerifyToken, AuthorizeRoles [Admin, Faculty, Superadmin]] ''validateProblem'']"

definition auth_routes :: "route list" where
  "auth_routes =
    [Route ''POST'' [Lit ''register'']
       [VerifyToken, AuthorizeRoles [Superadmin]] ''register'',
     Route ''POST'' [Lit ''signup'']
       [] ''signup'',
     Route ''POST'' [Lit ''login'']
       [] ''login'',
     Route ''POST'' [Lit ''logout'']
       [] ''logout'']"

definition health_routes :: "route list" where
  "health_routes =
    [Route ''GET'' [Lit ''banner'']
       [] ''getBanner'',
     Route ''GET'' []
       [] ''health'',
     Route ''GET'' [Lit ''ready'']
       [] ''ready'']"

definition admin_routes :: "route list" where
  "admin_routes =
    [Route ''GET'' [Lit ''audit-logs'']
       [VerifyToken, AuthorizeRoles [Admin, Superadmin, Faculty]] ''auditLogs'',
     Route ''GET'' [Lit ''users'']
       [VerifyToken, AuthorizeRoles [Admin, Superadmin, Faculty]] ''listUsers'',
     Route ''POST'' [Lit ''users'', Param ''userId'', Lit ''reset-password'']
       [VerifyToken, AuthorizeRoles [Admin, Superadmin, Faculty]] ''resetPassword'',
     Route ''POST'' [Lit ''bulk-import-students'']
       [VerifyToken, AuthorizeRoles [Admin, Superadmin, Faculty]] ''bulkImportStudents'',
     Route ''GET'' [Lit ''system-stats'']
       [VerifyToken, AuthorizeRoles [Admin, Superadmin]] ''systemStats'',
     Route ''POST'' [Lit ''rejudge'', Lit ''submission'', Param ''submissionId'']
       [VerifyToken, AuthorizeRoles [Admin, Superadmin, Faculty]] ''rejudgeSubmission'',
     Route ''POST'' [Lit ''rejudge'', Lit ''problem'', Param ''problemId'']
       [VerifyToken, AuthorizeRoles [Admin, Superadmin, Faculty]] ''rejudgeProblem'',
     Route ''POST'' [Lit ''rejudge'', Lit ''assessment'', Param ''assessmentId'']
       [VerifyToken, AuthorizeRoles [Admin, Superadmin, Faculty]] ''rejudgeAssessment'',
     Route ''POST'' [Lit ''banner'']
       [VerifyToken, AuthorizeRoles [Admin, Superadmin, Faculty]] ''updateBanner'',
     Route ''GET'' [Lit ''backup'']
       [VerifyToken, AuthorizeRoles [Superadmin]] ''backup'',
     Route ''POST'' [Lit ''restore'']
       [VerifyToken, AuthorizeRoles [Superadmin]] ''restore'']"

definition integration_routes :: "route list" where
  "integration_routes =
    [Route ''POST'' [Lit ''assessments'']
       [] ''createAssessment'',
     Route ''GET'' [Lit ''assessments'', Param ''_id'']
       [VerifyToken] ''getAssessmentById'',
     Route ''POST'' [Lit ''assessments'', Param ''_id'', Lit ''start'']
       [VerifyToken] ''startAssessment'',
     Route ''POST'' [Lit ''submissions'']
       [VerifyToken, ValidateBody ''submission''] ''submitSolution'',
     Route ''GET'' [Lit ''submissions'', Param ''_id'']
       [VerifyToken] ''getSubmissionById'',
     Route ''GET'' [Lit ''results'', Param ''_id'']
       [] ''listAssessmentAttempts'']"

definition questions_routes :: "route list" where
  "questions_routes =
    [Route ''GET'' []
       [VerifyToken, AuthorizeRoles [Faculty, Admin, Superadmin]] ''listQuestions'',
     Route ''GET'' [Lit ''tags'']
       [VerifyToken, AuthorizeRoles [Faculty, Admin, Superadmin]] ''getTags'',
     Route ''POST'' [Lit ''select'']
       [VerifyToken, AuthorizeRoles [Faculty, Admin, Superadmin]] ''selectQuestions'',
     Route ''GET'' [Param ''_id'']
       [VerifyToken, AuthorizeRoles [Faculty, Admin, Superadmin]] ''getQuestion'',
     Route ''POST'' []
       [VerifyToken, AuthorizeRoles [Faculty, Admin, Superadmin]] ''createQuestion'',
     Route ''PUT'' [Param ''_id'']
       [VerifyToken, AuthorizeRoles [Faculty, Admin, Superadmin]] ''updateQuestion'',
     Route ''DELETE'' [Param ''_id'']
       [VerifyToken, AuthorizeRoles [Faculty, Admin, Superadmin]] ''deleteQuestion'']"

text \<open>A handler is named like the function; \<^verbatim>\<open>submitSolution\<close> of \<^verbatim>\<open>arventiq.controller.js\<close> is \<open>arventiqSubmit\<close> here.\<close>

definition arventiq_routes :: "route list" where
  "arventiq_routes =
    [Route ''POST'' [Lit ''problems'']
       [] ''syncProblem'',
     Route ''POST'' [Lit ''run'']
       [] ''runCode'',
     Route ''POST'' [Lit ''submissions'']
       [] ''arventiqSubmit'',
     Route ''GET'' [Lit ''submissions'', Param ''_id'']
       [] ''getSubmissionResult'']"

definition codeAssess_routes :: "route list" where
  "codeAssess_routes =
    [Route ''POST'' [Lit ''submissions'']
       [] ''submitRawExecution'',
     Route ''GET'' [Lit ''submissions'', Param ''token'']
       [] ''getRawExecution'']"

definition billing_routes :: "route list" where
  "billing_routes =
    [Route ''GET'' [Lit ''status'']
       [VerifyToken] ''billingStatus'',
     Route ''POST'' [Lit ''checkout'']
       [VerifyToken, AuthorizeRoles [Admin, Superadmin]] ''checkout'',
     Route ''POST'' [Lit ''portal'']
       [VerifyToken, AuthorizeRoles [Admin, Superadmin]] ''portal'',
     Route ''GET'' [Lit ''colleges'']
       [VerifyToken, AuthorizeRoles [Superadmin]] ''listColleges'',
     Route ''PATCH'' [Lit ''colleges'', Param ''collegeId'', Lit ''plan'']
       [VerifyToken, AuthorizeRoles [Superadmin]] ''setCollegePlan'',
     Route ''POST'' [Lit ''webhook'']
       [] ''stripeWebhook'']"

subsection \<open>Mounts and dispatch\<close>

text \<open>\<^verbatim>\<open>routes/index.js\<close>: a prefix, the guards of \<^verbatim>\<open>router.use\<close> and the routes of the router.\<close>

datatype mount = Mount (prefix: string) (mount_guards: "guard list") (routes: "route list")

definition mounts :: "mount list" where
  "mounts =
    [Mount ''problems'' [] problems_routes,
     Mount ''assessments'' [] assessments_routes,
     Mount ''submissions'' [] submissions_routes,
     Mount ''preview'' [] preview_routes,
     Mount ''auth'' [] auth_routes,
     Mount ''health'' [] health_routes,
     Mount ''admin'' [] admin_routes,
     Mount ''integration'' [VerifyService] integration_routes,
     Mount ''questions'' [] questions_routes,
     Mount ''arventiq'' [VerifyArventiq] arventiq_routes,
     Mount ''codeAssess'' [VerifyCodeAssess] codeAssess_routes,
     Mount ''billing'' [] billing_routes]"

text \<open>Express compares literal path segments without regard to case.\<close>

fun match_path :: "segment list \<Rightarrow> string list \<Rightarrow> bool" where
  "match_path [] [] = True"
| "match_path (Lit s # ss) (p # ps) = (js_lower s = js_lower p \<and> match_path ss ps)"
| "match_path (Param x # ss) (p # ps) = match_path ss ps"
| "match_path _ _ = False"

definition find_route :: "route list \<Rightarrow> string \<Rightarrow> string list \<Rightarrow> route option" where
  "find_route rs meth ps = find (\<lambda>r. http_verb r = meth \<and> match_path (segments r) ps) rs"

text \<open>The CSRF check of \<^verbatim>\<open>app.js\<close>.\<close>

definition state_changing_methods :: "string list" where
  "state_changing_methods = [''POST'', ''PUT'', ''PATCH'', ''DELETE'']"

definition csrf_check :: "request \<Rightarrow> response option" where
  "csrf_check req =
     (if rq_method req \<in> set state_changing_methods
          \<and> (case rq_cookie req of Some t \<Rightarrow> t \<noteq> [] | None \<Rightarrow> False)
          \<and> rq_requested_with req \<noteq> Some ''XMLHttpRequest''
      then Some (403, ''Missing required request header'') else None)"

text \<open>The routers are mounted under \<^verbatim>\<open>/api/v1\<close> and again under \<^verbatim>\<open>/api\<close>.\<close>

fun api_path :: "string list \<Rightarrow> string list option" where
  "api_path (a # b # ps) =
     (if js_lower a \<noteq> ''api'' then None else if js_lower b = ''v1'' then Some ps else Some (b # ps))"
| "api_path [a] = (if js_lower a = ''api'' then Some [] else None)"
| "api_path [] = None"

definition not_found :: response where
  "not_found = (404, ''Not Found'')"

definition serve_mount ::
    "environment \<Rightarrow> oid \<Rightarrow> string \<Rightarrow> time \<Rightarrow> mount \<Rightarrow> string list \<Rightarrow> request \<Rightarrow> world
       \<Rightarrow> (response + string \<times> request) \<times> world" where
  "serve_mount env nid pw now m ps req w =
     (case run_guards env nid pw now (mount_guards m) req w of
        (Inl r, w') \<Rightarrow> (Inl r, w')
      | (Inr req1, w1) \<Rightarrow>
          (case find_route (routes m) (rq_method req) ps of
             None \<Rightarrow> (Inl not_found, w1)
           | Some r \<Rightarrow>
               (case run_guards env nid pw now (guards r) req1 w1 of
                  (Inl resp, w2) \<Rightarrow> (Inl resp, w2)
                | (Inr req2, w2) \<Rightarrow> (Inr (handler r, req2), w2))))"

definition serve ::
    "environment \<Rightarrow> oid \<Rightarrow> string \<Rightarrow> time \<Rightarrow> request \<Rightarrow> world \<Rightarrow> (response + string \<times> request) \<times> world" where
  "serve env nid pw now req w =
     (case csrf_check req of
        Some r \<Rightarrow> (Inl r, w)
      | None \<Rightarrow>
          (case api_path (rq_path req) of
             None \<Rightarrow> (Inl not_found, w)
           | Some [] \<Rightarrow> (Inl not_found, w)
           | Some (p # ps) \<Rightarrow>
               (case find (\<lambda>m. js_lower (prefix m) = js_lower p) mounts of
                  None \<Rightarrow> (Inl not_found, w)
                | Some m \<Rightarrow> serve_mount env nid pw now m ps req w)))"

subsection \<open>What the guards guarantee\<close>

text \<open>The user of a request stems from a verified token.\<close>

definition token_verified :: "environment \<Rightarrow> request \<Rightarrow> auth \<Rightarrow> bool" where
  "token_verified env req u \<longleftrightarrow>
     (\<exists>t claims. token_of req = Some t \<and> ev_jwt_verify env t = Some claims \<and> u = normalizeUser claims)"

lemma verifyToken_Inr:
  assumes "verifyToken env req = Inr req'"
  shows "\<exists>u. rq_user req' = Some u \<and> token_verified env req u
             \<and> rq_cookie req' = rq_cookie req \<and> rq_authorization req' = rq_authorization req"
  using assms by (auto simp: verifyToken_def token_verified_def split: option.splits)

lemma authorizeRoles_Inr:
  "authorizeRoles rs req = Inr req' \<Longrightarrow> req' = req \<and> (\<exists>u. rq_user req = Some u \<and> au_role u \<in> set rs)"
  by (auto simp: authorizeRoles_def split: option.splits if_splits)

lemma run_guards_append:
  "run_guards env nid pw now (gs @ hs) req w =
     (case run_guards env nid pw now gs req w of
        (Inl r, w') \<Rightarrow> (Inl r, w')
      | (Inr req', w') \<Rightarrow> run_guards env nid pw now hs req' w')"
  by (induction gs arbitrary: req w) (auto split: prod.splits sum.splits)

text \<open>A dispatched handler is the handler of a route whose guards all passed.\<close>

lemma serve_route:
  assumes "serve env nid pw now req w = (Inr (h, req'), w')"
  shows "csrf_check req = None \<and>
         (\<exists>m \<in> set mounts. \<exists>r \<in> set (routes m). handler r = h \<and> http_verb r = rq_method req \<and>
            run_guards env nid pw now (mount_guards m @ guards r) req w = (Inr req', w'))"
proof -
  from assms have csrf: "csrf_check req = None"
    by (auto simp: serve_def split: option.splits)
  with assms obtain m ps where m: "m \<in> set mounts"
      and s: "serve_mount env nid pw now m ps req w = (Inr (h, req'), w')"
    by (auto simp: serve_def split: option.splits list.splits dest!: find_member)
  from s obtain r req1 w1 where r: "find_route (routes m) (rq_method req) ps = Some r"
      and g1: "run_guards env nid pw now (mount_guards m) req w = (Inr req1, w1)"
      and g2: "run_guards env nid pw now (guards r) req1 w1 = (Inr req', w')" and "handler r = h"
    by (auto simp: serve_mount_def split: prod.splits sum.splits option.splits)
  moreover have "r \<in> set (routes m)" "http_verb r = rq_method req"
    using r find_member by (fastforce simp: find_route_def)+
  moreover have "run_guards env nid pw now (mount_guards m @ guards r) req w = (Inr req', w')"
    by (simp add: run_guards_append g1 g2)
  ultimately show ?thesis using csrf m by blast
qed

lemmas route_tables = mounts_def problems_routes_def assessments_routes_def submissions_routes_def
  preview_routes_def auth_routes_def health_routes_def admin_routes_def integration_routes_def
  questions_routes_def arventiq_routes_def codeAssess_routes_def billing_routes_def

text \<open>Handlers that only a superadmin may reach, and those reachable with no credential at all.\<close>

definition superadmin_handlers :: "string list" where
  "superadmin_handlers = [''backup'', ''restore'', ''register'', ''listColleges'', ''setCollegePlan'']"

definition public_handlers :: "string list" where
  "public_handlers =
     [''signup'', ''login'', ''logout'', ''getBanner'', ''health'', ''ready'', ''stripeWebhook'',
      ''listProblems'', ''getProblemById'', ''getProblemStats'', ''listAssessments'']"

lemma superadmin_routes:
  "\<forall>m \<in> set mounts. \<forall>r \<in> set (routes m). handler r \<in> set superadmin_handlers \<longrightarrow>
     mount_guards m = [] \<and> guards r = [VerifyToken, AuthorizeRoles [Superadmin]]"
  by (simp add: route_tables superadmin_handlers_def)

text \<open>A guard that lets a request through changes nothing but its user.\<close>

lemma run_guard_user:
  "run_guard env nid pw now g req w = (Inr req', w') \<Longrightarrow> \<exists>u. req' = req\<lparr>rq_user := u\<rparr>"
  by (cases g)
     (auto simp: verifyToken_def optionalVerifyToken_def authorizeRoles_def verifyService_def
        verifyCodeAssessKey_def split: option.splits if_splits list.splits prod.splits sum.splits
        intro: exI [of _ "rq_user req"])

definition credential :: "environment \<Rightarrow> request \<Rightarrow> bool" where
  "credential env req \<longleftrightarrow>
     (\<exists>u. token_verified env req u) \<or> safeCompare (rq_service_key req) (ev_service_key env) \<or>
     safeCompare (rq_rapid_key req) (ev_codeassess_key env) \<or>
     safeCompare (arventiq_token req) (ev_arventiq_secret env)"

lemma token_of_user [simp]: "token_of (req\<lparr>rq_user := u\<rparr>) = token_of req"
  by (cases "rq_cookie req") (simp_all add: token_of_def extractToken_def)

lemma credential_user [simp]: "credential env (req\<lparr>rq_user := u\<rparr>) = credential env req"
  by (simp add: credential_def token_verified_def arventiq_token_def)

fun checks_credential :: "guard \<Rightarrow> bool" where
  "checks_credential VerifyToken = True"
| "checks_credential VerifyService = True"
| "checks_credential VerifyArventiq = True"
| "checks_credential VerifyCodeAssess = True"
| "checks_credential _ = False"

lemma run_guard_credential:
  "run_guard env nid pw now g req w = (Inr req', w') \<Longrightarrow> checks_credential g \<Longrightarrow> credential env req"
  by (cases g)
     (auto simp: verifyToken_def verifyService_def verifyCodeAssessKey_def credential_def
        token_verified_def split: option.splits if_splits)

lemma run_guards_credential:
  "run_guards env nid pw now gs req w = (Inr req', w') \<Longrightarrow> \<exists>g \<in> set gs. checks_credential g
     \<Longrightarrow> credential env req"
proof (induction gs arbitrary: req w)
  case (Cons g gs)
  then obtain req1 w1 where g: "run_guard env nid pw now g req w = (Inr req1, w1)"
      and gs: "run_guards env nid pw now gs req1 w1 = (Inr req', w')"
    by (auto split: prod.splits sum.splits)
  from run_guard_user [OF g] obtain u where "req1 = req\<lparr>rq_user := u\<rparr>" ..
  with Cons.IH [OF gs] Cons.prems(2) run_guard_credential [OF g] show ?case by auto
qed simp

lemma guarded_routes:
  "\<forall>m \<in> set mounts. \<forall>r \<in> set (routes m). handler r \<notin> set public_handlers \<longrightarrow>
     list_ex checks_credential (mount_guards m @ guards r)"
  by (simp add: route_tables public_handlers_def)

text \<open>The handlers that read or overwrite every tenant's data (\<^verbatim>\<open>/admin/backup\<close>,
  \<^verbatim>\<open>/admin/restore\<close>), create arbitrary accounts or set any college's plan run only for a request
  whose token verifies and names a superadmin, whatever the path, method and headers.\<close>

theorem superadmin_only:
  assumes "serve env nid pw now req w = (Inr (h, req'), w')" and "h \<in> set superadmin_handlers"
  shows "\<exists>u. rq_user req' = Some u \<and> au_role u = Superadmin \<and> token_verified env req u"
proof -
  from serve_route [OF assms(1)] superadmin_routes assms(2)
  have "run_guards env nid pw now [VerifyToken, AuthorizeRoles [Superadmin]] req w = (Inr req', w')"
    by fastforce
  then obtain req1 where "verifyToken env req = Inr req1" "authorizeRoles [Superadmin] req1 = Inr req'"
    by (auto split: sum.splits)
  then show ?thesis using verifyToken_Inr authorizeRoles_Inr by fastforce
qed

definition sample_env :: environment where
  "sample_env =
     \<lparr>ev_service_key = Some ''svc'', ev_arventiq_secret = Some ''arv'', ev_codeassess_key = Some ''ca'',
      ev_jwt_verify = (\<lambda>t. if t = ''root'' then Some \<lparr>au_jwt_id = Some 1, au_id = None,
          au_role = Superadmin, au_college = None, au_service = False\<rparr> else None),
      ev_schema_errors = (\<lambda>s b. [])\<rparr>"

definition sample_request :: "string \<Rightarrow> string list \<Rightarrow> request" where
  "sample_request meth path =
     \<lparr>rq_method = meth, rq_path = path, rq_cookie = Some ''root'', rq_authorization = None,
      rq_requested_with = Some ''XMLHttpRequest'', rq_service_key = None, rq_rapid_key = None,
      rq_body = JUndef, rq_query = JObj [], rq_user = None\<rparr>"

definition empty_world :: world where
  "empty_world = \<lparr>w_users = [], w_colleges = [], w_problems = [], w_questions = [], w_assessments = [],
     w_attempts = [], w_submissions = [], w_usage = [], w_logs = [], w_settings = [], w_queue = [],
     w_queue_up = True, w_redis = None\<rparr>"

lemmas access_eval = serve_def serve_mount_def csrf_check_def find_route_def state_changing_methods_def
  sample_env_def sample_request_def route_tables verifyToken_def token_of_def extractToken_def
  authorizeRoles_def normalizeUser_def js_lower_def lower_char_def is_upper_def

lemma superadmin_only_witness:
  "\<exists>u. rq_user (sample_request ''POST'' [''api'', ''admin'', ''restore'']
          \<lparr>rq_user := Some \<lparr>au_jwt_id = Some 1, au_id = Some 1, au_role = Superadmin,
                            au_college = None, au_service = False\<rparr>\<rparr>) = Some u
       \<and> au_role u = Superadmin
       \<and> token_verified sample_env (sample_request ''POST'' [''api'', ''admin'', ''restore'']) u"
  by (rule superadmin_only [where nid = 0 and pw = "[]" and now = 0 and w = empty_world
        and w' = empty_world and h = "''restore''"])
     (simp_all add: access_eval superadmin_handlers_def)

text \<open>C5: no handler outside the public list runs without a credential: a token that verifies or one
  of the three shared secrets; and a state-changing request that carries the auth cookie reaches a
  handler only with the \<^verbatim>\<open>X-Requested-With: XMLHttpRequest\<close> header.\<close>

theorem handlers_need_credentials:
  assumes "serve env nid pw now req w = (Inr (h, req'), w')"
  shows "(h \<in> set public_handlers \<or> credential env req) \<and>
         (rq_method req \<in> {''POST'', ''PUT'', ''PATCH'', ''DELETE''} \<longrightarrow> rq_cookie req \<notin> {None, Some []}
            \<longrightarrow> rq_requested_with req = Some ''XMLHttpRequest'')"
proof
  from serve_route [OF assms] obtain m r where mr: "m \<in> set mounts" "r \<in> set (routes m)" "handler r = h"
      and g: "run_guards env nid pw now (mount_guards m @ guards r) req w = (Inr req', w')" by blast
  show "h \<in> set public_handlers \<or> credential env req"
    using guarded_routes mr run_guards_credential [OF g] by (auto simp: list_ex_iff)
  show "rq_method req \<in> {''POST'', ''PUT'', ''PATCH'', ''DELETE''} \<longrightarrow> rq_cookie req \<notin> {None, Some []}
            \<longrightarrow> rq_requested_with req = Some ''XMLHttpRequest''"
    using serve_route [OF assms]
    by (auto simp: csrf_check_def state_changing_methods_def split: if_splits option.splits)
qed

lemma handlers_need_credentials_witness:
  "''createProblem'' \<in> set public_handlers
     \<or> credential sample_env (sample_request ''POST'' [''api'', ''v1'', ''problems''])"
  by (rule conjunct1, rule handlers_need_credentials [where nid = 0 and pw = "[]" and now = 0
        and w = empty_world and w' = empty_world and req' = "sample_request ''POST'' [''api'', ''v1'', ''problems'']
          \<lparr>rq_user := Some \<lparr>au_jwt_id = Some 1, au_id = Some 1, au_role = Superadmin,
                            au_college = None, au_service = False\<rparr>\<rparr>"])
     (simp add: access_eval)

end
