(* ===== verification/Assessments.thy ===== *)
theory Assessments
  imports Access
begin

section \<open>The assessment service\<close>

text \<open>
  \<^verbatim>\<open>src/services/assessments.service.js\<close> without its analytics: one definition per exported handler,
  taking the arguments of the source, the readings of the clock (\<open>clk k\<close> is the \<open>k\<close>-th \<^verbatim>\<open>new Date()\<close>
  of the call) and the world, and returning the result or the error together with the new world.

  Mongoose's casts of request data are parameters: \<open>mk\<close> builds a document from a payload, \<open>cast\<close>
  turns a payload into an update or a value. An id of a deleted document is populated as \<^verbatim>\<open>null\<close>,
  and reading \<^verbatim>\<open>_id\<close> from it is the \<open>TypeError\<close> of \<open>student_ref\<close> and \<open>problem_ref\<close>.
\<close>

definition collegeScopeFor :: "auth option \<Rightarrow> oid option" where
  "collegeScopeFor user =
     (case user of None \<Rightarrow> None | Some u \<Rightarrow> if au_role u = Superadmin then None else au_college u)"

abbreviation scope_of :: "auth \<Rightarrow> oid option" where
  "scope_of u \<equiv> collegeScopeFor (Some u)"

definition is_user :: "auth \<Rightarrow> oid \<Rightarrow> bool" where
  "is_user u i \<longleftrightarrow> au_id u = Some i"

text \<open>\<^verbatim>\<open>attempt.studentId._id || attempt.studentId\<close> and \<^verbatim>\<open>p.problemId._id || p.problemId\<close> on populated references.\<close>

definition student_ref :: "world \<Rightarrow> attempt \<Rightarrow> oid result" where
  "student_ref w a =
     (case users_find w (at_student a) of
        None \<Rightarrow> Inl (null_deref ''_id'')
      | Some u \<Rightarrow> Inr (u_id u))"

definition problem_ref :: "world \<Rightarrow> problem_entry \<Rightarrow> oid result" where
  "problem_ref w e =
     (case problems_find w (pe_problem e) of
        None \<Rightarrow> Inl (null_deref ''_id'')
      | Some p \<Rightarrow> Inr (pr_id p))"

lemma student_ref_Inr: "student_ref w a = Inr i \<Longrightarrow> i = at_student a"
  by (auto simp: student_ref_def users_find_def dest!: find_holds split: option.splits)

lemma problem_ref_Inr: "problem_ref w e = Inr i \<Longrightarrow> i = pe_problem e"
  by (auto simp: problem_ref_def problems_find_def dest!: find_holds split: option.splits)

fun problem_refs :: "world \<Rightarrow> problem_entry list \<Rightarrow> oid list result" where
  "problem_refs w [] = Inr []"
| "problem_refs w (e # es) =
     (case problem_ref w e of
        Inl err \<Rightarrow> Inl err
      | Inr i \<Rightarrow> (case problem_refs w es of Inl err \<Rightarrow> Inl err | Inr is \<Rightarrow> Inr (i # is)))"

lemma problem_refs_Inr: "problem_refs w es = Inr is \<Longrightarrow> is = map pe_problem es"
  by (induction es arbitrary: "is") (auto split: sum.splits dest: problem_ref_Inr)

text \<open>A reference to a deleted problem makes the whole traversal throw.\<close>

definition problems_present :: "world \<Rightarrow> problem_entry list \<Rightarrow> bool" where
  "problems_present w es \<longleftrightarrow> (\<forall>e \<in> set es. problems_find w (pe_problem e) \<noteq> None)"

lemma problem_ref_present: "problems_find w (pe_problem e) \<noteq> None \<Longrightarrow> problem_ref w e = Inr (pe_problem e)"
  using problem_ref_Inr by (fastforce simp: problem_ref_def split: option.splits)

lemma problem_refs_present: "problems_present w es \<Longrightarrow> problem_refs w es = Inr (map pe_problem es)"
  by (induction es) (auto simp: problems_present_def problem_ref_present)

lemma problem_refs_missing:
  "\<not> problems_present w es \<Longrightarrow> problem_refs w es = Inl (null_deref ''_id'')"
  by (induction es) (fastforce simp: problems_present_def problem_ref_def split: option.splits)+

subsection \<open>Reading assessments\<close>

definition listAssessments :: "jsval \<Rightarrow> auth option \<Rightarrow> world \<Rightarrow> assessment list result" where
  "listAssessments query user w =
     find_page
       (\<lambda>a. (user = None \<or> (\<exists>u. user = Some u \<and> au_role u = Student)
               \<longrightarrow> as_status a = Published \<or> as_status a = Completed)
            \<and> in_scope (collegeScopeFor user) (as_college a))
       as_start (skip_of query) (limit_of query) (w_assessments w)"

definition getAssessmentById :: "oid \<Rightarrow> auth \<Rightarrow> world \<Rightarrow> assessment option" where
  "getAssessmentById i u w =
     (case assessments_find w i (scope_of u) of
        None \<Rightarrow> None
      | Some a \<Rightarrow> if au_role u = Student \<and> as_status a = Draft then None else Some a)"

definition getMyAssessmentAttempt :: "oid \<Rightarrow> oid option \<Rightarrow> world \<Rightarrow> attempt option" where
  "getMyAssessmentAttempt aid uid w =
     (case uid of None \<Rightarrow> None | Some i \<Rightarrow> attempts_find_one w aid i)"

subsection \<open>Creating and changing assessments\<close>

text \<open>
  \<^verbatim>\<open>new Date(v)\<close>. \<open>parse\<close> is \<^verbatim>\<open>Date.parse\<close>, whose accepted formats beyond ISO 8601 the standard
  leaves to the implementation.
\<close>

fun js_date :: "(string \<Rightarrow> time option) \<Rightarrow> jsval \<Rightarrow> time option" where
  "js_date parse (JNum n) = date_of n"
| "js_date parse JNull = Some 0"
| "js_date parse (JBool b) = Some (if b then 1 else 0)"
| "js_date parse JUndef = None"
| "js_date parse v = parse (to_str v)"

definition positive_num :: "jsval \<Rightarrow> bool" where
  "positive_num v \<longleftrightarrow> is_finite (to_num v) \<and> num_lt (Fin 0) (to_num v)"

definition problem_errors :: "jsval \<Rightarrow> string list result" where
  "problem_errors problems =
     (case problems of
        JArr (p # ps) \<Rightarrow>
          if list_ex nullish (p # ps)
          then Inl (null_deref ''problemId'')
          else (let ids = map (\<lambda>q. to_str (oget q ''problemId'')) (p # ps)
                in Inr ((if distinct ids then [] else [''An assessment cannot contain duplicate problems'']) @
                        (if list_ex (\<lambda>q. oget q ''maxScore'' \<noteq> JUndef \<and> \<not> positive_num (oget q ''maxScore'')) (p # ps)
                         then [''Every problem max score must be greater than zero''] else [])))
      | _ \<Rightarrow> Inr [''At least one problem is required''])"

definition payload_errors :: "(string \<Rightarrow> time option) \<Rightarrow> jsval \<Rightarrow> string list result" where
  "payload_errors parse payload =
     (if nullish payload then Inl (null_deref ''title'')
      else (case problem_errors (oget payload ''problems'') of
              Inl e \<Rightarrow> Inl e
            | Inr perrs \<Rightarrow>
                (let start = oget payload ''startTime''; stop = oget payload ''endTime'' in
                 Inr ((if truthy (oget payload ''title'') then [] else [''Title is required'']) @
                      (if truthy start then [] else [''Start time is required'']) @
                      (if truthy stop then [] else [''End time is required'']) @
                      (if positive_num (oget payload ''durationMinutes'') then []
                       else [''Duration must be greater than zero'']) @
                      (if truthy start \<and> truthy stop \<and>
                          (\<exists>s e. js_date parse start = Some s \<and> js_date parse stop = Some e \<and> e \<le> s)
                       then [''End time must be after start time''] else []) @
                      perrs))))"

definition validateAssessmentPayload :: "(string \<Rightarrow> time option) \<Rightarrow> jsval \<Rightarrow> unit result" where
  "validateAssessmentPayload parse payload =
     (case payload_errors parse payload of
        Inl e \<Rightarrow> Inl e
      | Inr [] \<Rightarrow> Inr ()
      | Inr errs \<Rightarrow> Inl (HttpError 400 ''Validation failed'' (JObj [(''errors'', JArr (map JStr errs))])))"

text \<open>
  The college of a new assessment: a superadmin's comes from the payload (\<^verbatim>\<open>payload.collegeId || undefined\<close>),
  everybody else's from the token.
\<close>

fun opt_id :: "oid option \<Rightarrow> jsval" where
  "opt_id None = JUndef"
| "opt_id (Some i) = jnat i"

definition create_college :: "jsval \<Rightarrow> auth \<Rightarrow> jsval" where
  "create_college payload u =
     (if au_role u = Superadmin then or_val (oget payload ''collegeId'') JUndef
      else opt_id (au_college u))"

definition createAssessment ::
    "(string \<Rightarrow> time option) \<Rightarrow> (jsval \<Rightarrow> oid option \<Rightarrow> jsval \<Rightarrow> assessment result) \<Rightarrow> jsval \<Rightarrow> auth
       \<Rightarrow> world \<Rightarrow> assessment result \<times> world" where
  "createAssessment parse mk payload u w =
     (case validateAssessmentPayload parse payload of
        Inl e \<Rightarrow> (Inl e, w)
      | Inr _ \<Rightarrow>
          (case mk payload (au_id u) (create_college payload u) of
             Inl e \<Rightarrow> (Inl e, w)
           | Inr a \<Rightarrow> (case assessments_create a w of (b, w') \<Rightarrow> (Inr b, w'))))"

definition without_college :: "jsval \<Rightarrow> jsval" where
  "without_college payload =
     (case payload of JObj kvs \<Rightarrow> JObj (obj_delete ''collegeId'' kvs) | v \<Rightarrow> v)"

definition updateAssessment ::
    "(string \<Rightarrow> time option) \<Rightarrow> (jsval \<Rightarrow> (assessment \<Rightarrow> assessment) result) \<Rightarrow> oid \<Rightarrow> jsval \<Rightarrow> auth
       \<Rightarrow> world \<Rightarrow> assessment result \<times> world" where
  "updateAssessment parse cast i payload u w =
     (case validateAssessmentPayload parse payload of
        Inl e \<Rightarrow> (Inl e, w)
      | Inr _ \<Rightarrow>
          (case cast (without_college payload) of
             Inl e \<Rightarrow> (Inl e, w)
           | Inr f \<Rightarrow>
               (case assessments_update i f (scope_of u) w of
                  (None, w') \<Rightarrow> (http 404 ''Assessment not found'', w')
                | (Some a, w') \<Rightarrow> (Inr a, w'))))"

definition deleteAssessment :: "oid \<Rightarrow> auth \<Rightarrow> world \<Rightarrow> assessment result \<times> world" where
  "deleteAssessment i u w =
     (case assessments_delete i (scope_of u) w of
        (None, w') \<Rightarrow> (http 404 ''Assessment not found'', w')
      | (Some a, w') \<Rightarrow> (Inr a, w'))"

definition lockAssessment :: "oid \<Rightarrow> auth \<Rightarrow> world \<Rightarrow> assessment result \<times> world" where
  "lockAssessment i u w =
     (if au_role u = Student then (http 403 ''Forbidden'', w)
      else (case assessments_update i (\<lambda>a. a\<lparr>as_locked := True\<rparr>) (scope_of u) w of
              (None, w') \<Rightarrow> (http 404 ''Assessment not found'', w')
            | (Some a, w') \<Rightarrow> (Inr a, w')))"

definition unlockAssessment :: "oid \<Rightarrow> auth \<Rightarrow> world \<Rightarrow> assessment result \<times> world" where
  "unlockAssessment i u w =
     (if au_role u = Student then (http 403 ''Forbidden'', w)
      else (case assessments_update i (\<lambda>a. a\<lparr>as_locked := False\<rparr>) (scope_of u) w of
              (None, w') \<Rightarrow> (http 404 ''Assessment not found'', w')
            | (Some a, w') \<Rightarrow> (Inr a, w')))"

definition getAnnouncements :: "oid \<Rightarrow> auth \<Rightarrow> world \<Rightarrow> announcement list result" where
  "getAnnouncements i u w =
     (case assessments_find w i (scope_of u) of
        None \<Rightarrow> http 404 ''Assessment not found''
      | Some a \<Rightarrow> Inr (as_announcements a))"

definition createAnnouncement ::
    "oid \<Rightarrow> jsval \<Rightarrow> auth \<Rightarrow> clock \<Rightarrow> world \<Rightarrow> announcement result \<times> world" where
  "createAnnouncement i message u clk w =
     (if \<not> truthy message \<or> typeof message \<noteq> ''string'' \<or> js_trim (str_of message) = []
      then (http 400 ''Message must be a non-empty string'', w)
      else (case assessments_find w i (scope_of u) of
              None \<Rightarrow> (http 404 ''Assessment not found'', w)
            | Some a \<Rightarrow>
                (let an = \<lparr>an_message = js_trim (str_of message), an_sent_at = clk 0\<rparr>;
                     w' = snd (assessments_update i
                            (\<lambda>b. b\<lparr>as_announcements := as_announcements b @ [an]\<rparr>) (scope_of u) w)
                 in (Inr an, w'))))"

subsection \<open>Deadlines and scores\<close>

definition grace_ms :: "attempt \<Rightarrow> jsnum" where
  "grace_ms a = num_mul (if num_truthy (at_grace a) then at_grace a else Fin 0) (Fin 60000)"

definition getExpirationTime :: "attempt \<Rightarrow> assessment \<Rightarrow> time option" where
  "getExpirationTime a s =
     (let durationMs = num_add (Fin (as_duration s * 60000)) (grace_ms a);
          relativeExpiry = date_of (num_add (Fin (of_int (at_started a))) durationMs);
          absoluteExpiry = date_of (num_add (Fin (of_int (as_end s))) (grace_ms a))
      in if date_lt relativeExpiry absoluteExpiry then relativeExpiry else absoluteExpiry)"

definition isAttemptExpired :: "time \<Rightarrow> attempt \<Rightarrow> assessment \<Rightarrow> bool" where
  "isAttemptExpired now a s = date_lt (getExpirationTime a s) (Some now)"

fun total_score :: "world \<Rightarrow> oid list \<Rightarrow> problem_entry list \<Rightarrow> rat \<Rightarrow> rat result" where
  "total_score w solved [] acc = Inr acc"
| "total_score w solved (e # es) acc =
     (case problem_ref w e of
        Inl err \<Rightarrow> Inl err
      | Inr i \<Rightarrow> total_score w solved es (if i \<in> set solved then acc + pe_max_score e else acc))"

definition solved_problems :: "world \<Rightarrow> oid \<Rightarrow> oid list" where
  "solved_problems w i =
     map su_problem (filter (\<lambda>s. su_attempt s = Some i \<and> su_status s = Success) (w_submissions w))"

definition recalculateAttemptScore :: "oid \<Rightarrow> world \<Rightarrow> unit result \<times> world" where
  "recalculateAttemptScore i w =
     (case attempts_find w i None of
        None \<Rightarrow> (Inr (), w)
      | Some a \<Rightarrow>
          (case assessments_find w (at_assessment a) None of
             None \<Rightarrow> (Inr (), w)
           | Some s \<Rightarrow>
               (case total_score w (solved_problems w (at_id a)) (as_problems s) 0 of
                  Inl e \<Rightarrow> (Inl e, w)
                | Inr sc \<Rightarrow>
                    (Inr (), if at_score a \<noteq> sc
                             then snd (attempts_update i (\<lambda>b. b\<lparr>at_score := sc\<rparr>) None w) else w))))"

subsection \<open>Starting an attempt\<close>

text \<open>
  The handler in its two steps: \<open>start_read\<close> up to the point where the new document is built, and
  \<open>start_write\<close>, the insertion with its duplicate-key branch. \<open>shuffle\<close> is the sort with the random
  comparator, \<open>nid\<close> the id of the new attempt.
\<close>

datatype start_decision =
    Refuse js_error
  | Existing attempt
  | Proceed attempt

definition empty_challenge :: challenge where
  "empty_challenge = \<lparr>ch_status = NoChallenge, ch_reason = JUndef, ch_comment = JUndef,
                      ch_raised_at = None, ch_resolved_at = None\<rparr>"

definition plain_event :: "string \<Rightarrow> time \<Rightarrow> timeline_event" where
  "plain_event e t = \<lparr>ev_event = e, ev_at = t, ev_details = JUndef\<rparr>"

definition new_attempt :: "oid \<Rightarrow> oid \<Rightarrow> oid \<Rightarrow> oid option \<Rightarrow> time \<Rightarrow> oid list \<Rightarrow> attempt" where
  "new_attempt nid aid sid coll now order =
     \<lparr>at_id = nid, at_assessment = aid, at_student = sid, at_college = coll, at_started = now,
      at_submitted = None, at_score = 0, at_status = Active, at_grace = Fin 0, at_drafts = JObj [],
      at_challenge = empty_challenge, at_tabs = 0, at_copies = 0, at_pastes = 0, at_exits = 0,
      at_order = order, at_timeline = [plain_event ''START'' now]\<rparr>"

definition start_read ::
    "(oid list \<Rightarrow> oid list) \<Rightarrow> oid \<Rightarrow> oid \<Rightarrow> auth \<Rightarrow> time \<Rightarrow> world \<Rightarrow> start_decision" where
  "start_read shuffle nid aid u now w =
     (case assessments_find w aid (scope_of u) of
        None \<Rightarrow> Refuse (HttpError 404 ''Assessment not found'' JUndef)
      | Some s \<Rightarrow>
          if as_status s \<noteq> Published then Refuse (HttpError 400 ''Assessment is not active'' JUndef)
          else if as_locked s then Refuse (HttpError 409 ''Assessment is locked by the faculty'' JUndef)
          else if now < as_start s then Refuse (HttpError 400 ''Assessment has not started yet'' JUndef)
          else if as_end s < now then Refuse (HttpError 400 ''Assessment has already ended'' JUndef)
          else (case (case au_id u of None \<Rightarrow> None | Some sid \<Rightarrow> attempts_find_one w aid sid) of
                  Some a \<Rightarrow> Existing a
                | None \<Rightarrow>
                    (case problem_refs w (as_problems s) of
                       Inl e \<Rightarrow> Refuse e
                     | Inr ids \<Rightarrow>
                         (case au_id u of
                            None \<Rightarrow> Refuse (DriverError ''ValidationError'')
                          | Some sid \<Rightarrow>
                              Proceed (new_attempt nid aid sid (or_else (as_college s) (au_college u))
                                         now (shuffle ids))))))"

definition start_write ::
    "attempt \<Rightarrow> bool \<Rightarrow> time \<Rightarrow> audit_info \<Rightarrow> world \<Rightarrow> attempt option result \<times> world" where
  "start_write a log_ok now info w =
     (case attempts_create a w of
        (Inl e, w') \<Rightarrow>
          if e = duplicate_key then (Inr (attempts_find_one w' (at_assessment a) (at_student a)), w')
          else (Inl e, w')
      | (Inr b, w') \<Rightarrow>
          (Inr (Some b),
           logEvent log_ok now ''ASSESSMENT_STARTED'' (Some (at_student a))
             (JObj [(''assessmentId'', jnat (at_assessment a)), (''attemptId'', jnat (at_id b))]) info w'))"

definition startAssessment ::
    "(oid list \<Rightarrow> oid list) \<Rightarrow> oid \<Rightarrow> oid \<Rightarrow> auth \<Rightarrow> bool \<Rightarrow> clock \<Rightarrow> audit_info \<Rightarrow> world
       \<Rightarrow> attempt option result \<times> world" where
  "startAssessment shuffle nid aid u log_ok clk info w =
     (case start_read shuffle nid aid u (clk 0) w of
        Refuse e \<Rightarrow> (Inl e, w)
      | Existing a \<Rightarrow> (Inr (Some a), w)
      | Proceed a \<Rightarrow> start_write a log_ok (clk 1) info w)"

subsection \<open>During an attempt\<close>

definition push_event :: "timeline_event \<Rightarrow> attempt \<Rightarrow> attempt" where
  "push_event ev a = a\<lparr>at_timeline := at_timeline a @ [ev]\<rparr>"

text \<open>The counter an event type increments; \<open>None\<close> is the \<^verbatim>\<open>default\<close> branch of the switch.\<close>

definition count_event :: "jsval \<Rightarrow> (attempt \<Rightarrow> attempt) option" where
  "count_event ty =
     (if ty = JStr ''TAB_SWITCH'' then Some (\<lambda>a. a\<lparr>at_tabs := at_tabs a + 1\<rparr>)
      else if ty = JStr ''COPY'' then Some (\<lambda>a. a\<lparr>at_copies := at_copies a + 1\<rparr>)
      else if ty = JStr ''PASTE'' then Some (\<lambda>a. a\<lparr>at_pastes := at_pastes a + 1\<rparr>)
      else if ty = JStr ''FULLSCREEN_EXIT'' then Some (\<lambda>a. a\<lparr>at_exits := at_exits a + 1\<rparr>)
      else if ty = JStr ''RETURN'' then Some (\<lambda>a. a)
      else None)"

definition logAntiCheatingEvent ::
    "oid \<Rightarrow> jsval \<Rightarrow> auth \<Rightarrow> clock \<Rightarrow> world \<Rightarrow> attempt option result \<times> world" where
  "logAntiCheatingEvent i ty u clk w =
     (case attempts_find w i (scope_of u) of
        None \<Rightarrow> (http 404 ''Attempt not found'', w)
      | Some a \<Rightarrow>
          (case student_ref w a of
             Inl e \<Rightarrow> (Inl e, w)
           | Inr sid \<Rightarrow>
               if \<not> is_user u sid then (http 403 ''Forbidden'', w)
               else if at_status a \<noteq> Active then (Inr (Some a), w)
               else (case count_event ty of
                       None \<Rightarrow> (http 400 ''Invalid event type'', w)
                     | Some f \<Rightarrow>
                         (case attempts_update i (\<lambda>b. push_event (plain_event (str_of ty) (clk 0)) (f b)) None w of
                            (r, w') \<Rightarrow> (Inr r, w')))))"

text \<open>
  \<^verbatim>\<open>submitAssessment\<close>. The score is recomputed before the status changes; an exception there leaves
  the attempt as it was. \<open>clk 0\<close> is read by the expiry check, \<open>clk 1\<close> and \<open>clk 2\<close> by the update.
\<close>

definition attempt_details :: "oid \<Rightarrow> oid \<Rightarrow> (string \<times> jsval) list \<Rightarrow> jsval" where
  "attempt_details i aid extra = JObj ([(''attemptId'', jnat i), (''assessmentId'', jnat aid)] @ extra)"

definition timeout_update :: "time option \<Rightarrow> attempt \<Rightarrow> attempt" where
  "timeout_update t a =
     push_event (plain_event ''TIMED_OUT'' (case t of Some x \<Rightarrow> x | None \<Rightarrow> 0))
       (a\<lparr>at_status := TimedOut, at_submitted := t\<rparr>)"

definition submit_update :: "time \<Rightarrow> time \<Rightarrow> attempt \<Rightarrow> attempt" where
  "submit_update t1 t2 a =
     push_event (plain_event ''SUBMIT'' t2) (a\<lparr>at_status := Submitted, at_submitted := Some t1\<rparr>)"

definition finish_attempt ::
    "oid \<Rightarrow> attempt \<Rightarrow> assessment \<Rightarrow> auth \<Rightarrow> bool \<Rightarrow> clock \<Rightarrow> audit_info \<Rightarrow> world
       \<Rightarrow> attempt option result \<times> world" where
  "finish_attempt i a s u log_ok clk info w =
     (let expired = isAttemptExpired (clk 0) a s in
      case recalculateAttemptScore i w of
        (Inl e, w1) \<Rightarrow> (Inl e, w1)
      | (Inr _, w1) \<Rightarrow>
          if expired
          then (case attempts_update i (timeout_update (getExpirationTime a s)) None w1 of
                  (r, w2) \<Rightarrow>
                    (Inr r, logEvent log_ok (clk 1) ''ASSESSMENT_TIMEOUT'' (au_id u)
                              (attempt_details i (at_assessment a) []) info w2))
          else (case attempts_update i (submit_update (clk 1) (clk 2)) None w1 of
                  (None, w2) \<Rightarrow> (Inl (null_deref ''score''), w2)
                | (Some b, w2) \<Rightarrow>
                    (Inr (Some b),
                     logEvent log_ok (clk 3) ''ASSESSMENT_SUBMITTED'' (au_id u)
                       (attempt_details i (at_assessment a) [(''score'', JNum (Fin (at_score b)))]) info w2)))"

definition submitAssessment ::
    "oid \<Rightarrow> auth \<Rightarrow> bool \<Rightarrow> clock \<Rightarrow> audit_info \<Rightarrow> world \<Rightarrow> attempt option result \<times> world" where
  "submitAssessment i u log_ok clk info w =
     (case attempts_find w i (scope_of u) of
        None \<Rightarrow> (http 404 ''Attempt not found'', w)
      | Some a \<Rightarrow>
          (case assessments_find w (at_assessment a) (scope_of u) of
             None \<Rightarrow> (http 404 ''Assessment not found'', w)
           | Some s \<Rightarrow>
               (case student_ref w a of
                  Inl e \<Rightarrow> (Inl e, w)
                | Inr sid \<Rightarrow>
                    if au_role u = Student \<and> \<not> is_user u sid then (http 403 ''Forbidden'', w)
                    else if at_status a \<noteq> Active then (Inr (Some a), w)
                    else finish_attempt i a s u log_ok clk info w)))"

definition status_name :: "attempt_status \<Rightarrow> string" where
  "status_name st = (case st of Active \<Rightarrow> ''Active'' | Submitted \<Rightarrow> ''Submitted'' | TimedOut \<Rightarrow> ''TimedOut'')"

text \<open>An absent \<^verbatim>\<open>codeDrafts\<close> leaves the stored drafts as they are.\<close>

definition saveDraft :: "oid \<Rightarrow> jsval \<Rightarrow> auth \<Rightarrow> world \<Rightarrow> attempt option result \<times> world" where
  "saveDraft i drafts u w =
     (case attempts_find w i (scope_of u) of
        None \<Rightarrow> (http 404 ''Attempt not found'', w)
      | Some a \<Rightarrow>
          if at_status a \<noteq> Active
          then (http 409 (''Attempt is '' @ js_lower (status_name (at_status a)) @ '' and cannot save draft''), w)
          else (case student_ref w a of
                  Inl e \<Rightarrow> (Inl e, w)
                | Inr sid \<Rightarrow>
                    if au_role u = Student \<and> \<not> is_user u sid then (http 403 ''Forbidden'', w)
                    else (case attempts_update i
                                 (\<lambda>b. if drafts = JUndef then b else b\<lparr>at_drafts := drafts\<rparr>) None w of
                            (r, w') \<Rightarrow> (Inr r, w'))))"

text \<open>
  \<^verbatim>\<open>addGraceTime\<close>. Mongoose refuses to store \<^verbatim>\<open>NaN\<close> in a \<^verbatim>\<open>Number\<close> field.
\<close>

definition grace_event :: "time \<Rightarrow> jsnum \<Rightarrow> jsnum \<Rightarrow> timeline_event" where
  "grace_event t added new =
     \<lparr>ev_event = ''GRACE_TIME_ADDED'', ev_at = t,
      ev_details = JObj [(''addedMinutes'', JNum added), (''totalGraceMinutes'', JNum new)]\<rparr>"

definition grace_update :: "timeline_event \<Rightarrow> jsnum \<Rightarrow> bool \<Rightarrow> attempt \<Rightarrow> attempt" where
  "grace_update ev new reactivate a =
     push_event ev
       (if reactivate then a\<lparr>at_grace := new, at_status := Active, at_submitted := None\<rparr>
        else a\<lparr>at_grace := new\<rparr>)"

definition addGraceTime :: "oid \<Rightarrow> jsval \<Rightarrow> auth \<Rightarrow> clock \<Rightarrow> world \<Rightarrow> attempt option result \<times> world" where
  "addGraceTime i minutes u clk w =
     (if au_role u = Student then (http 403 ''Forbidden'', w)
      else (case attempts_find w i (scope_of u) of
              None \<Rightarrow> (http 404 ''Attempt not found'', w)
            | Some a \<Rightarrow>
                (let new = num_add (if num_truthy (at_grace a) then at_grace a else Fin 0) (to_num minutes) in
                 if new = NaN then (Inl (DriverError ''CastError''), w)
                 else (case attempts_update i
                              (grace_update (grace_event (clk 0) (to_num minutes) new) new
                                 (at_status a = TimedOut)) None w of
                         (r, w') \<Rightarrow> (Inr r, w')))))"

subsection \<open>Challenging a result\<close>

text \<open>\<open>cast v\<close> is Mongoose's cast of \<open>v\<close> to a \<^verbatim>\<open>String\<close> field; an absent value leaves the field alone.\<close>

definition put_value :: "jsval \<Rightarrow> jsval \<Rightarrow> jsval" where
  "put_value old v = (if v = JUndef then old else v)"

definition raise_update :: "jsval \<Rightarrow> jsval \<Rightarrow> time \<Rightarrow> time \<Rightarrow> attempt \<Rightarrow> attempt" where
  "raise_update stored reason t1 t2 a =
     push_event \<lparr>ev_event = ''CHALLENGE_RAISED'', ev_at = t2, ev_details = JObj [(''reason'', reason)]\<rparr>
       (a\<lparr>at_challenge := (at_challenge a)
            \<lparr>ch_status := Raised, ch_reason := put_value (ch_reason (at_challenge a)) stored,
             ch_raised_at := Some t1, ch_comment := JStr []\<rparr>\<rparr>)"

definition raiseChallenge ::
    "(jsval \<Rightarrow> jsval result) \<Rightarrow> oid \<Rightarrow> jsval \<Rightarrow> auth \<Rightarrow> clock \<Rightarrow> world \<Rightarrow> attempt option result \<times> world" where
  "raiseChallenge cast i reason u clk w =
     (case attempts_find w i None of
        None \<Rightarrow> (http 404 ''Attempt not found'', w)
      | Some a \<Rightarrow>
          (case student_ref w a of
             Inl e \<Rightarrow> (Inl e, w)
           | Inr sid \<Rightarrow>
               if \<not> is_user u sid then (http 403 ''Forbidden'', w)
               else if at_status a = Active then (http 400 ''Cannot challenge an active assessment attempt'', w)
               else if ch_status (at_challenge a) \<noteq> NoChallenge
                 then (http 409 ''A challenge has already been raised for this attempt'', w)
               else (case cast reason of
                       Inl e \<Rightarrow> (Inl e, w)
                     | Inr stored \<Rightarrow>
                         (case attempts_update i (raise_update stored reason (clk 0) (clk 1)) None w of
                            (r, w') \<Rightarrow> (Inr r, w')))))"

definition resolve_update ::
    "challenge_status \<Rightarrow> string \<Rightarrow> jsval \<Rightarrow> jsval \<Rightarrow> time \<Rightarrow> time \<Rightarrow> attempt \<Rightarrow> attempt" where
  "resolve_update st name stored comment t1 t2 a =
     push_event \<lparr>ev_event = ''CHALLENGE_'' @ name, ev_at = t2, ev_details = JObj [(''facultyComment'', comment)]\<rparr>
       (a\<lparr>at_challenge := (at_challenge a)
            \<lparr>ch_status := st, ch_comment := put_value (ch_comment (at_challenge a)) stored,
             ch_resolved_at := Some t1\<rparr>\<rparr>)"

definition resolution :: "jsval \<Rightarrow> (challenge_status \<times> string) option" where
  "resolution status =
     (if status = JStr ''Accepted'' then Some (Accepted, ''ACCEPTED'')
      else if status = JStr ''Rejected'' then Some (Rejected, ''REJECTED'') else None)"

definition resolveChallenge ::
    "(jsval \<Rightarrow> jsval result) \<Rightarrow> oid \<Rightarrow> jsval \<Rightarrow> jsval \<Rightarrow> auth \<Rightarrow> clock \<Rightarrow> world
       \<Rightarrow> attempt option result \<times> world" where
  "resolveChallenge cast i status comment u clk w =
     (case attempts_find w i (scope_of u) of
        None \<Rightarrow> (http 404 ''Attempt not found'', w)
      | Some a \<Rightarrow>
          if ch_status (at_challenge a) \<noteq> Raised
          then (http 400 ''No active challenge found to resolve'', w)
          else (case resolution status of
                  None \<Rightarrow> (http 400 ''Invalid status. Must be Accepted or Rejected'', w)
                | Some (st, name) \<Rightarrow>
                    (case cast (or_val comment (JStr [])) of
                       Inl e \<Rightarrow> (Inl e, w)
                     | Inr stored \<Rightarrow>
                         (case attempts_update i (resolve_update st name stored comment (clk 0) (clk 1)) None w of
                            (r, w') \<Rightarrow> (Inr r, w')))))"

subsection \<open>Viewing attempts\<close>

text \<open>
  The position \<^verbatim>\<open>orderMap\<close> gives a problem: its last position in \<^verbatim>\<open>problemOrder\<close>, and 999 when it does
  not occur there.
\<close>

fun last_index :: "oid \<Rightarrow> oid list \<Rightarrow> nat \<Rightarrow> nat option" where
  "last_index x [] n = None"
| "last_index x (y # ys) n =
     (case last_index x ys (n + 1) of Some k \<Rightarrow> Some k | None \<Rightarrow> if x = y then Some n else None)"

definition order_index :: "oid list \<Rightarrow> oid \<Rightarrow> nat" where
  "order_index order x = (case last_index x order 0 of Some k \<Rightarrow> k | None \<Rightarrow> 999)"

text \<open>
  \<^verbatim>\<open>getAssessmentAttemptById\<close>. The auto-timeout and the new score are written before the ownership
  check. The result pairs the attempt with the assessment whose problems are put in the attempt's
  order (\<open>None\<close> when it has no order).
\<close>

definition view_timeout :: "time \<Rightarrow> oid \<Rightarrow> attempt \<Rightarrow> assessment \<Rightarrow> world \<Rightarrow> world" where
  "view_timeout now i a s w =
     (if at_status a = Active \<and> isAttemptExpired now a s
      then snd (attempts_update i
             (\<lambda>b. b\<lparr>at_status := TimedOut, at_submitted := getExpirationTime a s\<rparr>) None w)
      else w)"

definition view_attempt ::
    "oid \<Rightarrow> auth \<Rightarrow> assessment \<Rightarrow> world \<Rightarrow> (attempt \<times> assessment option) option result" where
  "view_attempt i u s w =
     (case attempts_find w i None of
        None \<Rightarrow> Inl (null_deref ''studentId'')
      | Some a \<Rightarrow>
          (case student_ref w a of
             Inl e \<Rightarrow> Inl e
           | Inr sid \<Rightarrow>
               if au_role u = Student \<and> \<not> is_user u sid then http 403 ''Forbidden''
               else if at_order a = [] then Inr (Some (a, None))
               else (case problem_refs w (as_problems s) of
                       Inl e \<Rightarrow> Inl e
                     | Inr _ \<Rightarrow>
                         Inr (Some (a, Some (s\<lparr>as_problems :=
                           sort_key (\<lambda>e. order_index (at_order a) (pe_problem e)) (as_problems s)\<rparr>))))))"

definition getAssessmentAttemptById ::
    "oid \<Rightarrow> auth \<Rightarrow> clock \<Rightarrow> world \<Rightarrow> (attempt \<times> assessment option) option result \<times> world" where
  "getAssessmentAttemptById i u clk w =
     (case attempts_find w i (scope_of u) of
        None \<Rightarrow> (Inr None, w)
      | Some a \<Rightarrow>
          (case assessments_find w (at_assessment a) (scope_of u) of
             None \<Rightarrow> (Inr None, w)
           | Some s \<Rightarrow>
               (let w1 = view_timeout (clk 0) i a s w in
                case recalculateAttemptScore i w1 of
                  (Inl e, w2) \<Rightarrow> (Inl e, w2)
                | (Inr _, w2) \<Rightarrow> (view_attempt i u s w2, w2))))"

definition listAssessmentAttempts :: "oid \<Rightarrow> auth \<Rightarrow> jsval \<Rightarrow> world \<Rightarrow> attempt list result" where
  "listAssessmentAttempts aid u query w =
     (if au_role u = Student then http 403 ''Forbidden''
      else find_page (\<lambda>a. at_assessment a = aid \<and> in_scope (scope_of u) (at_college a))
             at_started (skip_of query) (limit_of query) (w_attempts w))"

definition getAttemptSubmissions :: "oid \<Rightarrow> auth \<Rightarrow> jsval \<Rightarrow> world \<Rightarrow> submission list result" where
  "getAttemptSubmissions i u query w =
     (case attempts_find w i (scope_of u) of
        None \<Rightarrow> http 404 ''Attempt not found''
      | Some a \<Rightarrow>
          (case student_ref w a of
             Inl e \<Rightarrow> Inl e
           | Inr sid \<Rightarrow>
               if au_role u = Student \<and> \<not> is_user u sid then http 403 ''Forbidden''
               else find_page (\<lambda>s. su_attempt s = Some i) su_created
                      (skip_of query) (limit_of query) (w_submissions w)))"

record attendance_row =
  ar_student :: oid
  ar_name :: string
  ar_email :: string
  ar_usn :: string
  ar_section :: string
  ar_status :: string
  ar_attempt :: "oid option"
  ar_score :: rat
  ar_started :: "time option"
  ar_submitted :: "time option"
  ar_counters :: "nat list"
  ar_challenge :: challenge

text \<open>\<^verbatim>\<open>attempts.find\<close> compares the populated student of each attempt up to the first match.\<close>

fun find_student_attempt :: "world \<Rightarrow> oid \<Rightarrow> attempt list \<Rightarrow> attempt option result" where
  "find_student_attempt w sid [] = Inr None"
| "find_student_attempt w sid (a # as) =
     (case student_ref w a of
        Inl e \<Rightarrow> Inl e
      | Inr i \<Rightarrow> if i = sid then Inr (Some a) else find_student_attempt w sid as)"

definition text_of :: "string option \<Rightarrow> string" where
  "text_of s = (case s of Some t \<Rightarrow> t | None \<Rightarrow> [])"

definition attendance_row_of :: "user \<Rightarrow> attempt option \<Rightarrow> attendance_row" where
  "attendance_row_of st att =
     \<lparr>ar_student = u_id st, ar_name = u_name st, ar_email = u_email st,
      ar_usn = text_of (u_usn st), ar_section = text_of (u_section st),
      ar_status = (case att of Some a \<Rightarrow> status_name (at_status a) | None \<Rightarrow> ''Not Started''),
      ar_attempt = map_option at_id att,
      ar_score = (case att of Some a \<Rightarrow> at_score a | None \<Rightarrow> 0),
      ar_started = map_option at_started att,
      ar_submitted = (case att of Some a \<Rightarrow> at_submitted a | None \<Rightarrow> None),
      ar_counters = (case att of Some a \<Rightarrow> [at_tabs a, at_copies a, at_pastes a, at_exits a]
                     | None \<Rightarrow> [0, 0, 0, 0]),
      ar_challenge = (case att of Some a \<Rightarrow> at_challenge a | None \<Rightarrow> empty_challenge)\<rparr>"

fun attendance_rows :: "world \<Rightarrow> attempt list \<Rightarrow> user list \<Rightarrow> attendance_row list result" where
  "attendance_rows w as [] = Inr []"
| "attendance_rows w as (st # sts) =
     (case find_student_attempt w (u_id st) as of
        Inl e \<Rightarrow> Inl e
      | Inr att \<Rightarrow>
          (case attendance_rows w as sts of
             Inl e \<Rightarrow> Inl e
           | Inr rows \<Rightarrow> Inr (attendance_row_of st att # rows)))"

definition college_students :: "assessment \<Rightarrow> world \<Rightarrow> user list" where
  "college_students s w =
     filter (\<lambda>u. u_role u = Student \<and> in_scope (as_college s) (u_college u)) (w_users w)"

definition attempts_of :: "oid \<Rightarrow> world \<Rightarrow> attempt list" where
  "attempts_of aid w = filter (\<lambda>a. at_assessment a = aid) (w_attempts w)"

definition getAssessmentAttendance :: "oid \<Rightarrow> auth \<Rightarrow> world \<Rightarrow> attendance_row list result" where
  "getAssessmentAttendance aid u w =
     (if au_role u = Student then http 403 ''Forbidden''
      else (case assessments_find w aid (scope_of u) of
              None \<Rightarrow> http 404 ''Assessment not found''
            | Some s \<Rightarrow> attendance_rows w (attempts_of aid w) (college_students s w)))"

end
