(* ===== verification/Billing.thy ===== *)
theory Billing
  imports Access "HOL-Library.List_Lexorder" "HOL-Library.Char_ord"
begin

section \<open>Plans, quotas and billing\<close>

text \<open>
  \<^verbatim>\<open>config/plans.js\<close>, \<^verbatim>\<open>quota.service.js\<close>, \<^verbatim>\<open>billing.service.js\<close>, the webhook of
  \<^verbatim>\<open>billing.routes.js\<close> and \<^verbatim>\<open>assertSeatCapacity\<close> of \<^verbatim>\<open>auth.service.js\<close>. Stripe's client, its
  signature check, Mongoose's casts and the start of the month in the server's time zone are
  parameters.
\<close>

subsection \<open>Plans\<close>

text \<open>
  A plan's fields are untyped because \<^verbatim>\<open>PLANS[planId]\<close> also finds what an object inherits from
  \<^verbatim>\<open>Object.prototype\<close>: such a "plan" is truthy and has none of the fields.
\<close>

record plan =
  pl_label :: jsval
  pl_price :: jsval
  pl_seats :: jsval
  pl_submissions :: jsval
  pl_premium :: jsval

definition free_plan :: plan where
  "free_plan = \<lparr>pl_label = JStr ''Free'', pl_price = JNull, pl_seats = jnat 15,
                pl_submissions = jnat 500, pl_premium = JBool False\<rparr>"

definition pro_plan :: "jsval \<Rightarrow> plan" where
  "pro_plan price = \<lparr>pl_label = JStr ''Pro'', pl_price = price, pl_seats = JNum PosInf,
                     pl_submissions = JNum PosInf, pl_premium = JBool True\<rparr>"

definition inherited :: plan where
  "inherited = \<lparr>pl_label = JUndef, pl_price = JUndef, pl_seats = JUndef,
                pl_submissions = JUndef, pl_premium = JUndef\<rparr>"

definition PLANS :: "jsval \<Rightarrow> string \<Rightarrow> plan option" where
  "PLANS price key =
     (if key = ''free'' then Some free_plan
      else if key = ''pro'' then Some (pro_plan price)
      else if key \<in> set object_prototype_keys then Some inherited
      else None)"

definition getPlan :: "jsval \<Rightarrow> string \<Rightarrow> plan" where
  "getPlan price key = (case PLANS price key of Some p \<Rightarrow> p | None \<Rightarrow> free_plan)"

text \<open>\<^verbatim>\<open>Number.isFinite\<close>, which converts nothing.\<close>

fun finite_number :: "jsval \<Rightarrow> rat option" where
  "finite_number (JNum (Fin q)) = Some q"
| "finite_number _ = None"

lemma finite_number_jnat [simp]: "finite_number (jnat n) = Some (of_nat n)"
  by simp

subsection \<open>The fixed-window counters\<close>

text \<open>
  Redis \<^verbatim>\<open>INCR\<close> and \<^verbatim>\<open>EXPIRE\<close>: an expired key counts as absent, \<^verbatim>\<open>INCR\<close> keeps the expiry of a live key.
\<close>

definition live_counter :: "string \<Rightarrow> time \<Rightarrow> redis \<Rightarrow> (nat \<times> time option) option" where
  "live_counter key now r =
     (case map_of (rd_counters r) key of
        None \<Rightarrow> None
      | Some (n, e) \<Rightarrow> (case e of None \<Rightarrow> Some (n, e) | Some t \<Rightarrow> if now < t then Some (n, e) else None))"

definition put_counter :: "string \<Rightarrow> nat \<Rightarrow> time option \<Rightarrow> redis \<Rightarrow> redis" where
  "put_counter key n e r = r\<lparr>rd_counters := (key, n, e) # filter (\<lambda>(k, v). k \<noteq> key) (rd_counters r)\<rparr>"

definition redis_incr :: "string \<Rightarrow> time \<Rightarrow> redis \<Rightarrow> nat \<times> redis" where
  "redis_incr key now r =
     (case live_counter key now r of
        None \<Rightarrow> (1, put_counter key 1 None r)
      | Some (n, e) \<Rightarrow> (n + 1, put_counter key (n + 1) e r))"

definition redis_expire :: "string \<Rightarrow> nat \<Rightarrow> time \<Rightarrow> redis \<Rightarrow> redis" where
  "redis_expire key seconds now r =
     (case live_counter key now r of
        None \<Rightarrow> r
      | Some (n, e) \<Rightarrow> put_counter key n (Some (now + int seconds * 1000)) r)"

record quota_result =
  qr_allowed :: bool
  qr_limit :: nat
  qr_count :: nat

definition quota_open :: quota_result where
  "quota_open = \<lparr>qr_allowed = True, qr_limit = 0, qr_count = 0\<rparr>"

definition window_start :: "nat \<Rightarrow> time \<Rightarrow> int" where
  "window_start seconds now = \<lfloor>of_int now / 1000 / (of_nat seconds :: rat)\<rfloor>"

definition quota_key :: "string \<Rightarrow> oid \<Rightarrow> int \<Rightarrow> string" where
  "quota_key pre scope start = pre @ '':'' @ show_nat scope @ '':'' @ show_int start"

text \<open>
  \<^verbatim>\<open>checkFixedWindowQuota\<close>. \<open>fault\<close> is the Redis command that fails, if any (1 is \<^verbatim>\<open>INCR\<close>, 2 is
  \<^verbatim>\<open>EXPIRE\<close>); the limits and windows of the environment are whole numbers. The fields \<open>qr_limit\<close> and
  \<open>qr_count\<close> are meaningless when the check fails open.
\<close>

definition checkFixedWindowQuota ::
    "string \<Rightarrow> oid option \<Rightarrow> nat \<Rightarrow> nat \<Rightarrow> nat \<Rightarrow> time \<Rightarrow> world \<Rightarrow> quota_result \<times> world" where
  "checkFixedWindowQuota pre scope lmt seconds fault now w =
     (case w_redis w of
        None \<Rightarrow> (quota_open, w)
      | Some r \<Rightarrow>
          (case scope of
             None \<Rightarrow> (quota_open, w)
           | Some s \<Rightarrow>
               (let key = quota_key pre s (window_start seconds now) in
                if fault = 1 then (quota_open, w)
                else (case redis_incr key now r of
                        (n, r1) \<Rightarrow>
                          if n = 1 \<and> fault = 2 then (quota_open, w\<lparr>w_redis := Some r1\<rparr>)
                          else (\<lparr>qr_allowed = (n \<le> lmt), qr_limit = lmt, qr_count = n\<rparr>,
                                w\<lparr>w_redis := Some (if n = 1 then redis_expire key seconds now r1 else r1)\<rparr>)))))"

record quota_config =
  qc_college_limit :: nat
  qc_college_window :: nat
  qc_student_limit :: nat
  qc_student_window :: nat

definition checkCollegeSubmissionQuota ::
    "quota_config \<Rightarrow> nat \<Rightarrow> time \<Rightarrow> oid option \<Rightarrow> world \<Rightarrow> quota_result \<times> world" where
  "checkCollegeSubmissionQuota cfg fault now collegeId w =
     checkFixedWindowQuota ''submission_quota'' collegeId
       (qc_college_limit cfg) (qc_college_window cfg) fault now w"

definition checkStudentSubmissionQuota ::
    "quota_config \<Rightarrow> nat \<Rightarrow> time \<Rightarrow> oid option \<Rightarrow> world \<Rightarrow> quota_result \<times> world" where
  "checkStudentSubmissionQuota cfg fault now userId w =
     checkFixedWindowQuota ''student_submission_quota'' userId
       (qc_student_limit cfg) (qc_student_window cfg) fault now w"

subsection \<open>Seats and monthly usage\<close>

definition seats_used :: "world \<Rightarrow> oid \<Rightarrow> nat" where
  "seats_used w c = count_docs (\<lambda>u. u_college u = Some c) (w_users w)"

definition usage_since :: "world \<Rightarrow> oid \<Rightarrow> time \<Rightarrow> nat" where
  "usage_since w c t = count_docs (\<lambda>e. ue_college e = Some c \<and> t \<le> ue_created e) (w_usage w)"

definition assertSeatCapacity :: "jsval \<Rightarrow> oid option \<Rightarrow> nat \<Rightarrow> world \<Rightarrow> unit result" where
  "assertSeatCapacity price collegeId incoming w =
     (case collegeId of
        None \<Rightarrow> Inr ()
      | Some c \<Rightarrow>
          (case colleges_find w c of
             None \<Rightarrow> Inr ()
           | Some col \<Rightarrow>
               (case finite_number (pl_seats (getPlan price (co_plan col))) of
                  None \<Rightarrow> Inr ()
                | Some lmt \<Rightarrow>
                    if lmt < of_nat (seats_used w c + incoming)
                    then http_body 402 ''Seat limit reached for your plan'' ''message''
                           (''Seat limit reached for your plan ('' @
                              to_str (pl_seats (getPlan price (co_plan col))) @
                              '' seats). Upgrade to add more users.'')
                    else Inr ())))"

text \<open>\<open>db_ok\<close> is whether the database answers; the check fails open otherwise.\<close>

definition checkPlanUsageLimit ::
    "jsval \<Rightarrow> (time \<Rightarrow> time) \<Rightarrow> bool \<Rightarrow> time \<Rightarrow> oid option \<Rightarrow> world \<Rightarrow> bool \<times> jsval" where
  "checkPlanUsageLimit price startOfMonth db_ok now collegeId w =
     (case collegeId of
        None \<Rightarrow> (True, JUndef)
      | Some c \<Rightarrow>
          if \<not> db_ok then (True, JUndef)
          else (case colleges_find w c of
                  None \<Rightarrow> (True, JUndef)
                | Some col \<Rightarrow>
                    (let quota = pl_submissions (getPlan price (co_plan col)) in
                     case finite_number quota of
                       None \<Rightarrow> (True, quota)
                     | Some lmt \<Rightarrow> (of_nat (usage_since w c (startOfMonth now)) < lmt, quota))))"

definition collegeAllowsPremium :: "jsval \<Rightarrow> oid option \<Rightarrow> world \<Rightarrow> bool" where
  "collegeAllowsPremium price collegeId w =
     (case collegeId of
        None \<Rightarrow> False
      | Some c \<Rightarrow>
          (case colleges_find w c of
             None \<Rightarrow> False
           | Some col \<Rightarrow> truthy (pl_premium (getPlan price (co_plan col)))))"

subsection \<open>Billing status and administration\<close>

record billing_status =
  bs_plan :: string
  bs_label :: jsval
  bs_status :: sub_status
  bs_period_end :: "time option"
  bs_seats_used :: nat
  bs_seat_limit :: jsval
  bs_submissions :: nat
  bs_quota :: jsval
  bs_premium :: jsval

definition getBillingStatus ::
    "jsval \<Rightarrow> (time \<Rightarrow> time) \<Rightarrow> time \<Rightarrow> oid option \<Rightarrow> world \<Rightarrow> billing_status result" where
  "getBillingStatus price startOfMonth now collegeId w =
     (case collegeId of
        None \<Rightarrow>
          (let p = getPlan price ''free'' in
           Inr \<lparr>bs_plan = ''free'', bs_label = pl_label p, bs_status = SubNone, bs_period_end = None,
                bs_seats_used = 0, bs_seat_limit = pl_seats p, bs_submissions = 0,
                bs_quota = pl_submissions p, bs_premium = pl_premium p\<rparr>)
      | Some c \<Rightarrow>
          (case colleges_find w c of
             None \<Rightarrow> http_body 404 ''College not found'' ''message'' ''College not found''
           | Some col \<Rightarrow>
               (let p = getPlan price (co_plan col) in
                Inr \<lparr>bs_plan = co_plan col, bs_label = pl_label p, bs_status = co_status col,
                     bs_period_end = co_period_end col, bs_seats_used = seats_used w c,
                     bs_seat_limit = pl_seats p, bs_submissions = usage_since w c (startOfMonth now),
                     bs_quota = pl_submissions p, bs_premium = pl_premium p\<rparr>)))"

text \<open>
  The Stripe client: \<open>st_key\<close> is whether the secret key is configured, the functions are the three
  API calls (the customer id, the checkout URL and the portal URL they return, or their error).
\<close>

record stripe =
  st_key :: bool
  st_webhook :: bool
  st_customer :: "college \<Rightarrow> string result"
  st_checkout :: "string \<Rightarrow> jsval \<Rightarrow> oid \<Rightarrow> string \<Rightarrow> string result"
  st_portal :: "string \<Rightarrow> string result"

definition getStripeClient :: "stripe \<Rightarrow> unit result" where
  "getStripeClient st =
     (if \<not> st_key st then http_body 503 ''Billing is not configured'' ''message'' ''Billing is not configured''
      else Inr ())"

definition ensure_customer :: "stripe \<Rightarrow> college \<Rightarrow> world \<Rightarrow> string result \<times> world" where
  "ensure_customer st col w =
     (case co_customer col of
        Some cus \<Rightarrow> (Inr cus, w)
      | None \<Rightarrow>
          (case st_customer st col of
             Inl e \<Rightarrow> (Inl e, w)
           | Inr cus \<Rightarrow> (Inr cus, colleges_save (col\<lparr>co_customer := Some cus\<rparr>) w)))"

definition createCheckoutSession ::
    "jsval \<Rightarrow> stripe \<Rightarrow> oid \<Rightarrow> jsval \<Rightarrow> world \<Rightarrow> string result \<times> world" where
  "createCheckoutSession price st collegeId planId w =
     (let p = getPlan price (to_str planId) in
      if \<not> truthy (pl_price p)
      then (http_body 400 ''This plan is not purchasable yet'' ''message'' ''This plan is not purchasable yet'', w)
      else (case colleges_find w collegeId of
              None \<Rightarrow> (http_body 404 ''College not found'' ''message'' ''College not found'', w)
            | Some col \<Rightarrow>
                (case getStripeClient st of
                   Inl e \<Rightarrow> (Inl e, w)
                 | Inr _ \<Rightarrow>
                     (case ensure_customer st col w of
                        (Inl e, w') \<Rightarrow> (Inl e, w')
                      | (Inr cus, w') \<Rightarrow> (st_checkout st cus (pl_price p) (co_id col) (to_str planId), w')))))"

definition createPortalSession :: "stripe \<Rightarrow> oid \<Rightarrow> world \<Rightarrow> string result" where
  "createPortalSession st collegeId w =
     (case colleges_find w collegeId of
        None \<Rightarrow> http_body 404 ''College not found'' ''message'' ''College not found''
      | Some col \<Rightarrow>
          (case co_customer col of
             None \<Rightarrow> http_body 400 ''No billing account yet'' ''message'' ''Subscribe to a plan before managing billing''
           | Some cus \<Rightarrow>
               (case getStripeClient st of Inl e \<Rightarrow> Inl e | Inr _ \<Rightarrow> st_portal st cus)))"

text \<open>The enumeration of \<^verbatim>\<open>subscriptionStatus\<close>: a save with any other value is rejected.\<close>

definition parse_sub_status :: "jsval \<Rightarrow> sub_status option" where
  "parse_sub_status v =
     (if v = JStr ''none'' then Some SubNone else if v = JStr ''trialing'' then Some Trialing
      else if v = JStr ''active'' then Some SubActive else if v = JStr ''past_due'' then Some PastDue
      else if v = JStr ''canceled'' then Some Canceled else None)"

definition setCollegePlan ::
    "jsval \<Rightarrow> (time \<Rightarrow> time) \<Rightarrow> time \<Rightarrow> oid \<Rightarrow> jsval \<Rightarrow> jsval \<Rightarrow> world \<Rightarrow> billing_status result \<times> world" where
  "setCollegePlan price startOfMonth now collegeId planId status w =
     (if \<not> truthy planId \<or> PLANS price (to_str planId) = None
      then (http_body 400 ''Unknown planId'' ''message'' ''planId must be one of: free, pro'', w)
      else (case colleges_find w collegeId of
              None \<Rightarrow> (http_body 404 ''College not found'' ''message'' ''College not found'', w)
            | Some col \<Rightarrow>
                (let wanted = or_val status (if planId = JStr ''free'' then JStr ''none'' else JStr ''active'') in
                 case (if is_str planId then parse_sub_status wanted else None) of
                   None \<Rightarrow> (Inl (DriverError ''ValidationError''), w)
                 | Some s \<Rightarrow>
                     (let w' = colleges_save (col\<lparr>co_plan := to_str planId, co_status := s\<rparr>) w
                      in (getBillingStatus price startOfMonth now (Some collegeId) w', w')))))"

record college_row =
  cr_college :: college
  cr_seats :: nat

text \<open>\<^verbatim>\<open>sort({ name: 1 })\<close> and one count per college id that some user carries.\<close>

definition listCollegesForBilling :: "world \<Rightarrow> college_row list" where
  "listCollegesForBilling w =
     map (\<lambda>c. \<lparr>cr_college = c, cr_seats = seats_used w (co_id c)\<rparr>) (sort_key co_name (w_colleges w))"

subsection \<open>Stripe's events\<close>

text \<open>
  \<^verbatim>\<open>handleStripeEvent\<close> on an event whose signature has been checked. \<open>cast_id\<close> and \<open>cast_str\<close> are
  Mongoose's casts of the metadata; an absent value leaves a field alone.
\<close>

definition truthy_update :: "(jsval \<Rightarrow> string result) \<Rightarrow> jsval \<Rightarrow> string option result" where
  "truthy_update cast_str v =
     (if truthy v then (case cast_str v of Inl e \<Rightarrow> Inl e | Inr s \<Rightarrow> Inr (Some s)) else Inr None)"

definition checkout_completed ::
    "(jsval \<Rightarrow> oid result) \<Rightarrow> (jsval \<Rightarrow> string result) \<Rightarrow> jsval \<Rightarrow> world \<Rightarrow> unit result \<times> world" where
  "checkout_completed cast_id cast_str session w =
     (let meta = oget session ''metadata''; collegeId = oget meta ''collegeId'' in
      if \<not> truthy collegeId then (Inr (), w)
      else (case cast_id collegeId of
              Inl e \<Rightarrow> (Inl e, w)
            | Inr i \<Rightarrow>
                (case truthy_update cast_str (oget session ''subscription'') of
                   Inl e \<Rightarrow> (Inl e, w)
                 | Inr sub \<Rightarrow>
                     (case truthy_update cast_str (oget meta ''planId'') of
                        Inl e \<Rightarrow> (Inl e, w)
                      | Inr pl \<Rightarrow>
                          (Inr (), w\<lparr>w_colleges := update_first (\<lambda>c. co_id c = i)
                             (\<lambda>c. c\<lparr>co_subscription := or_else sub (co_subscription c),
                                    co_plan := (case pl of Some p \<Rightarrow> p | None \<Rightarrow> co_plan c),
                                    co_status := SubActive\<rparr>) (w_colleges w)\<rparr>)))))"

definition college_of_customer :: "jsval \<Rightarrow> world \<Rightarrow> college option" where
  "college_of_customer v w = find (\<lambda>c. co_customer c = Some (to_str v)) (w_colleges w)"

definition subscription_updated :: "jsval \<Rightarrow> world \<Rightarrow> unit result \<times> world" where
  "subscription_updated subscription w =
     (case college_of_customer (oget subscription ''customer'') w of
        None \<Rightarrow> (Inr (), w)
      | Some c \<Rightarrow>
          (let ends = oget subscription ''current_period_end'';
               ends_at = date_of (num_mul (to_num ends) (Fin 1000)) in
           case parse_sub_status (oget subscription ''status'') of
             None \<Rightarrow> (Inl (DriverError ''ValidationError''), w)
           | Some s \<Rightarrow>
               if truthy ends \<and> ends_at = None then (Inl (DriverError ''ValidationError''), w)
               else (Inr (), colleges_save
                      (c\<lparr>co_status := s, co_period_end := (if truthy ends then ends_at else co_period_end c)\<rparr>) w)))"

definition subscription_deleted :: "jsval \<Rightarrow> world \<Rightarrow> unit result \<times> world" where
  "subscription_deleted subscription w =
     (case college_of_customer (oget subscription ''customer'') w of
        None \<Rightarrow> (Inr (), w)
      | Some c \<Rightarrow>
          (Inr (), colleges_save (c\<lparr>co_plan := ''free'', co_status := Canceled, co_subscription := None\<rparr>) w))"

definition handleStripeEvent ::
    "(jsval \<Rightarrow> oid result) \<Rightarrow> (jsval \<Rightarrow> string result) \<Rightarrow> string \<Rightarrow> jsval \<Rightarrow> world
       \<Rightarrow> unit result \<times> world" where
  "handleStripeEvent cast_id cast_str ty object w =
     (if ty = ''checkout.session.completed'' then checkout_completed cast_id cast_str object w
      else if ty = ''customer.subscription.updated'' then subscription_updated object w
      else if ty = ''customer.subscription.deleted'' then subscription_deleted object w
      else (Inr (), w))"

text \<open>
  The webhook route: \<open>verified\<close> is what the signature check makes of the raw body, its error message
  or the event's type and object.
\<close>

definition stripe_webhook ::
    "stripe \<Rightarrow> (jsval \<Rightarrow> oid result) \<Rightarrow> (jsval \<Rightarrow> string result) \<Rightarrow> string + string \<times> jsval \<Rightarrow> world
       \<Rightarrow> response \<times> world" where
  "stripe_webhook st cast_id cast_str verified w =
     (if \<not> st_webhook st \<or> \<not> st_key st then ((503, ''Billing is not configured''), w)
      else (case verified of
              Inl msg \<Rightarrow> ((400, ''Webhook signature verification failed: '' @ msg), w)
            | Inr (ty, object) \<Rightarrow>
                (case handleStripeEvent cast_id cast_str ty object w of
                   (Inr _, w') \<Rightarrow> ((200, ''received''), w')
                 | (Inl e, w') \<Rightarrow> ((500, ''Failed to process webhook event''), w'))))"

subsection \<open>What the window counters guarantee\<close>

text \<open>A series of checks of one scope, one per instant.\<close>

fun run_checks :: "string \<Rightarrow> oid \<Rightarrow> nat \<Rightarrow> nat \<Rightarrow> time list \<Rightarrow> world \<Rightarrow> bool list \<times> world" where
  "run_checks pre s lmt seconds [] w = ([], w)"
| "run_checks pre s lmt seconds (t # ts) w =
     (case checkFixedWindowQuota pre (Some s) lmt seconds 0 t w of
        (q, w1) \<Rightarrow> (case run_checks pre s lmt seconds ts w1 of (bs, w2) \<Rightarrow> (qr_allowed q # bs, w2)))"

lemma live_put_same [simp]:
  "live_counter key now (put_counter key n e r)
     = (case e of None \<Rightarrow> Some (n, e) | Some t \<Rightarrow> if now < t then Some (n, e) else None)"
  by (simp add: live_counter_def put_counter_def)

lemma window_bounds:
  assumes "0 < seconds" and "window_start seconds t = k"
  shows "k * (int seconds * 1000) \<le> t \<and> t < (k + 1) * (int seconds * 1000)"
proof -
  let ?q = "of_int t / 1000 / (of_nat seconds :: rat)"
  have q: "of_int k \<le> ?q" "?q < of_int k + 1"
    using assms(2) floor_correct [of ?q] by (auto simp: window_start_def)
  have s: "0 < (of_nat seconds :: rat) * 1000" using assms(1) by simp
  have "of_int k * (of_nat seconds * 1000) \<le> (of_int t :: rat)"
    using q(1) assms(1) by (simp add: field_simps)
  moreover have "(of_int t :: rat) < (of_int k + 1) * (of_nat seconds * 1000)"
    using q(2) assms(1) by (simp add: field_simps)
  ultimately have "(of_int (k * (int seconds * 1000)) :: rat) \<le> of_int t"
      and "(of_int t :: rat) < of_int ((k + 1) * (int seconds * 1000))" by simp_all
  then show ?thesis by (simp only: of_int_le_iff of_int_less_iff)
qed

lemma check_first:
  assumes "w_redis w = Some r" and "live_counter (quota_key pre s (window_start seconds t)) t r = None"
    and "0 < seconds"
  shows "\<exists>r'. checkFixedWindowQuota pre (Some s) lmt seconds 0 t w
           = (\<lparr>qr_allowed = (1 \<le> lmt), qr_limit = lmt, qr_count = 1\<rparr>, w\<lparr>w_redis := Some r'\<rparr>)
         \<and> (\<forall>t'. t' < t + int seconds * 1000 \<longrightarrow>
              live_counter (quota_key pre s (window_start seconds t)) t' r'
                = Some (1, Some (t + int seconds * 1000)))"
  using assms
  by (auto simp: checkFixedWindowQuota_def redis_incr_def redis_expire_def Let_def split: prod.splits)

lemma check_next:
  assumes "w_redis w = Some r"
    and "live_counter (quota_key pre s (window_start seconds t)) t r = Some (n, Some e)" and "0 < n"
  shows "\<exists>r'. checkFixedWindowQuota pre (Some s) lmt seconds 0 t w
           = (\<lparr>qr_allowed = (n + 1 \<le> lmt), qr_limit = lmt, qr_count = n + 1\<rparr>, w\<lparr>w_redis := Some r'\<rparr>)
         \<and> (\<forall>t'. t' < e \<longrightarrow>
              live_counter (quota_key pre s (window_start seconds t)) t' r' = Some (n + 1, Some e))"
  using assms
  by (auto simp: checkFixedWindowQuota_def redis_incr_def Let_def split: prod.splits)

lemma run_checks_running:
  assumes "\<forall>t \<in> set ts. window_start seconds t = k" and "w_redis w = Some r" and "0 < n"
    and "\<forall>t. t < e \<longrightarrow> live_counter (quota_key pre s k) t r = Some (n, Some e)"
    and "\<forall>t \<in> set ts. t < e"
  shows "fst (run_checks pre s lmt seconds ts w) = map (\<lambda>i. n + i < lmt) [0..<length ts]"
  using assms
proof (induction ts arbitrary: w r n)
  case (Cons t ts)
  then obtain r' where c: "checkFixedWindowQuota pre (Some s) lmt seconds 0 t w
           = (\<lparr>qr_allowed = (n + 1 \<le> lmt), qr_limit = lmt, qr_count = n + 1\<rparr>, w\<lparr>w_redis := Some r'\<rparr>)"
      and live: "\<forall>t'. t' < e \<longrightarrow> live_counter (quota_key pre s k) t' r' = Some (n + 1, Some e)"
    using check_next [of w r pre s seconds t n e lmt] by auto
  have "fst (run_checks pre s lmt seconds ts (w\<lparr>w_redis := Some r'\<rparr>))
          = map (\<lambda>i. n + 1 + i < lmt) [0..<length ts]"
    using Cons.prems live by (intro Cons.IH [where r = r' and n = "n + 1"]) auto
  moreover have "map (\<lambda>i. n + i < lmt) [0..<length (t # ts)]
      = (n < lmt) # map (\<lambda>i. n + 1 + i < lmt) [0..<length ts]"
    by (simp add: upt_conv_Cons map_Suc_upt [symmetric] del: upt_Suc)
  ultimately show ?case using c by (auto split: prod.splits)
qed simp

text \<open>C10: within one fixed window the quota counter admits exactly the first \<open>limit\<close> requests of a
  scope and refuses all further ones, as long as Redis answers; the counter cannot expire before its
  window ends.\<close>

theorem quota_window_exact:
  assumes "0 < seconds" and "w_redis w = Some r"
    and "\<forall>t \<in> set ts. window_start seconds t = k"
    and "\<forall>t \<in> set ts. live_counter (quota_key pre s k) t r = None"
  shows "fst (run_checks pre s lmt seconds ts w) = map (\<lambda>i. i < lmt) [0..<length ts]"
proof (cases ts)
  case (Cons t us)
  define e where "e = t + int seconds * 1000"
  from Cons assms obtain r' where c: "checkFixedWindowQuota pre (Some s) lmt seconds 0 t w
           = (\<lparr>qr_allowed = (1 \<le> lmt), qr_limit = lmt, qr_count = 1\<rparr>, w\<lparr>w_redis := Some r'\<rparr>)"
      and live: "\<forall>t'. t' < e \<longrightarrow> live_counter (quota_key pre s k) t' r' = Some (1, Some e)"
    using check_first [of w r pre s seconds t lmt] by (auto simp: e_def)
  have "u < e" if "u \<in> set us" for u
    using window_bounds [OF assms(1), of t k] window_bounds [OF assms(1), of u k] assms(3) Cons that
    by (simp add: e_def algebra_simps)
  then have "fst (run_checks pre s lmt seconds us (w\<lparr>w_redis := Some r'\<rparr>))
      = map (\<lambda>i. 1 + i < lmt) [0..<length us]"
    using assms(3) Cons live by (intro run_checks_running [where r = r' and n = 1]) auto
  moreover have "map (\<lambda>i. i < lmt) [0..<length (t # us)]
      = (0 < lmt) # map (\<lambda>i. 1 + i < lmt) [0..<length us]"
    by (simp add: upt_conv_Cons map_Suc_upt [symmetric] del: upt_Suc)
  ultimately show ?thesis using Cons c by (auto split: prod.splits)
qed simp

lemma quota_window_exact_witness:
  "fst (run_checks ''q'' 7 2 60 [120000, 130000, 179999]
          (empty_world\<lparr>w_redis := Some \<lparr>rd_cache = [], rd_counters = []\<rparr>\<rparr>)) = [True, True, False]"
proof -
  have "\<forall>t \<in> set [120000, 130000, 179999]. window_start 60 t = 2"
    by (simp add: window_start_def floor_eq_iff)
  then show ?thesis
    using quota_window_exact [of 60 "empty_world\<lparr>w_redis := Some \<lparr>rd_cache = [], rd_counters = []\<rparr>\<rparr>"
        "\<lparr>rd_cache = [], rd_counters = []\<rparr>" "[120000, 130000, 179999]" 2 "''q''" 7 2]
    by (simp add: live_counter_def upt_rec del: run_checks.simps)
qed

subsection \<open>Seats, plans and subscription events\<close>

lemma assertSeatCapacity_Inr:
  assumes "assertSeatCapacity price (Some c) k w = Inr ()" and "colleges_find w c = Some col"
    and "finite_number (pl_seats (getPlan price (co_plan col))) = Some lmt"
  shows "of_nat (seats_used w c + k) \<le> lmt"
  using assms by (auto simp: assertSeatCapacity_def split: if_splits)

lemma assertSeatCapacity_error:
  "assertSeatCapacity price c k w = Inl e \<Longrightarrow> \<exists>m b. e = HttpError 402 m b"
  by (auto simp: assertSeatCapacity_def split: option.splits if_splits)

lemma map_id_update_first [simp]:
  "map co_id (update_first (\<lambda>c. co_id c = i)
      (\<lambda>c. c\<lparr>co_subscription := f c, co_plan := g c, co_status := st\<rparr>) cs) = map co_id cs"
  by (rule map_update_first) simp

lemma colleges_save_find:
  assumes "colleges_find w (co_id c) \<noteq> None"
  shows "colleges_find (colleges_save c w) i = (if i = co_id c then Some c else colleges_find w i)"
proof (cases "i = co_id c")
  case True
  with assms show ?thesis
    by (auto simp: colleges_find_def colleges_save_def find_update_first)
next
  case False
  then have "find (\<lambda>d. co_id d = i) (update_first (\<lambda>d. co_id d = co_id c) (\<lambda>d. c) (w_colleges w))
      = find (\<lambda>d. co_id d = i) (w_colleges w)"
    by (intro find_update_other) auto
  with False show ?thesis by (simp add: colleges_find_def colleges_save_def)
qed

lemma college_of_customer_Some:
  assumes "college_of_customer v w = Some c"
  shows "colleges_find w (co_id c) \<noteq> None \<and> co_customer c = Some (to_str v)"
  using assms find_member [of _ "w_colleges w" c]
  by (auto simp: college_of_customer_def colleges_find_def find_none)

text \<open>A cancelled subscription puts exactly the college that owns the customer back on the free
  plan with status canceled and without subscription; every other college keeps its record.\<close>

theorem subscription_deleted_effect:
  assumes "college_of_customer (oget object ''customer'') w = Some c"
  shows "let (r, w') = handleStripeEvent cast_id cast_str ''customer.subscription.deleted'' object w in
         r = Inr () \<and>
         colleges_find w' (co_id c) = Some (c\<lparr>co_plan := ''free'', co_status := Canceled, co_subscription := None\<rparr>) \<and>
         (\<forall>i. i \<noteq> co_id c \<longrightarrow> colleges_find w' i = colleges_find w i)"
  using assms college_of_customer_Some [OF assms]
  by (simp add: handleStripeEvent_def subscription_deleted_def colleges_save_find)

definition sample_college :: college where
  "sample_college = \<lparr>co_id = 4, co_name = ''C'', co_slug = ''c'', co_plan = ''pro'', co_customer = Some ''cus'',
     co_subscription = Some ''sub'', co_status = SubActive, co_period_end = None\<rparr>"

lemma subscription_deleted_effect_witness:
  "colleges_find (snd (handleStripeEvent (\<lambda>v. Inr 0) (\<lambda>v. Inr []) ''customer.subscription.deleted''
       (JObj [(''customer'', JStr ''cus'')]) (empty_world\<lparr>w_colleges := [sample_college]\<rparr>))) 4
     = Some (sample_college\<lparr>co_plan := ''free'', co_status := Canceled, co_subscription := None\<rparr>)"
  using subscription_deleted_effect [of "JObj [(''customer'', JStr ''cus'')]"
      "empty_world\<lparr>w_colleges := [sample_college]\<rparr>" sample_college "\<lambda>v. Inr 0" "\<lambda>v. Inr []"]
  by (simp add: college_of_customer_def sample_college_def split: prod.splits)

text \<open>A plan id is accepted exactly when it is an own plan or a name every object inherits, such as
  \<^verbatim>\<open>toString\<close>; with an inherited name the college has no seat limit and no submission limit at all.\<close>

theorem inherited_plan_unlimited:
  assumes "colleges_find w c = Some col" and "key \<in> set object_prototype_keys"
  shows "let (r, w') = setCollegePlan price som now c (JStr key) JUndef w in
         is_ok r \<and> assertSeatCapacity price (Some c) n w' = Inr () \<and>
         fst (checkPlanUsageLimit price som db now' (Some c) w')"
proof -
  have key: "key \<noteq> []" "key \<noteq> ''free''" "key \<noteq> ''pro''"
    using assms(2) by (auto simp: object_prototype_keys_def)
  have id: "co_id col = c" using assms(1) by (auto simp: colleges_find_def dest: find_holds)
  define w' where "w' = colleges_save (col\<lparr>co_plan := key, co_status := SubActive\<rparr>) w"
  have found: "colleges_find w' c = Some (col\<lparr>co_plan := key, co_status := SubActive\<rparr>)"
    using colleges_save_find [of w "col\<lparr>co_plan := key, co_status := SubActive\<rparr>" c] assms(1) id
    by (simp add: w'_def)
  have plan: "getPlan price key = inherited"
    using key assms(2) by (simp add: getPlan_def PLANS_def)
  have "setCollegePlan price som now c (JStr key) JUndef w = (getBillingStatus price som now (Some c) w', w')"
    using assms key by (simp add: setCollegePlan_def PLANS_def or_val_def parse_sub_status_def w'_def Let_def)
  then show ?thesis
    using found plan
    by (simp add: getBillingStatus_def assertSeatCapacity_def checkPlanUsageLimit_def inherited_def Let_def)
qed

lemma inherited_plan_unlimited_witness:
  "assertSeatCapacity JNull (Some 4) 1000
     (snd (setCollegePlan JNull (\<lambda>t. t) 0 4 (JStr ''toString'') JUndef
             (empty_world\<lparr>w_colleges := [sample_college]\<rparr>))) = Inr ()"
  using inherited_plan_unlimited [of "empty_world\<lparr>w_colleges := [sample_college]\<rparr>" 4 sample_college
      "''toString''" JNull "\<lambda>t. t" 0 1000 True 0]
  by (simp add: colleges_find_def sample_college_def object_prototype_keys_def split: prod.splits)

end
