(* ===== verification/Json.thy ===== *)
theory Json
  imports Js_Value
begin

section \<open>\<^verbatim>\<open>JSON.parse\<close>\<close>

text \<open>
  The inverse of \<^verbatim>\<open>JSON.stringify\<close> that \<^verbatim>\<open>submissions.service.js\<close> and \<^verbatim>\<open>problems.service.js\<close> apply to
  the judge's output: a recursive-descent parser of RFC 8259 with fuel. That twice the length
  of the text and two more is enough is shown in theory \<open>Json_Fuel\<close>. An escape \<^verbatim>\<open>\uXXXX\<close> above \<^verbatim>\<open>00FF\<close> lies
  outside the modelled characters and is rejected.
\<close>

definition json_ws :: "char \<Rightarrow> bool" where
  "json_ws c \<longleftrightarrow> of_char c \<in> {9, 10, 13, 32 :: nat}"

definition skip_ws :: "string \<Rightarrow> string" where
  "skip_ws s = dropWhile json_ws s"

definition simple_escape :: "char \<Rightarrow> char option" where
  "simple_escape c =
     (let n = (of_char c :: nat) in
      if n = 34 \<or> n = 92 \<or> n = 47 then Some c
      else if n = 98 then Some (char_of (8 :: nat)) else if n = 102 then Some (char_of (12 :: nat))
      else if n = 110 then Some (char_of (10 :: nat)) else if n = 114 then Some (char_of (13 :: nat))
      else if n = 116 then Some (char_of (9 :: nat)) else None)"

definition hex_escape :: "string \<Rightarrow> char option" where
  "hex_escape ds =
     (if length ds = 4 \<and> list_all (\<lambda>c. radix_digit c < 16) ds
      then (let n = foldl (\<lambda>n c. 16 * n + radix_digit c) 0 ds
            in if n < 256 then Some (char_of n) else None)
      else None)"

definition cons_char :: "char \<Rightarrow> (string \<times> string) option \<Rightarrow> (string \<times> string) option" where
  "cons_char c r = map_option (\<lambda>(s, rest). (c # s, rest)) r"

text \<open>The rest of a string literal after its opening quote.\<close>

fun json_chars :: "nat \<Rightarrow> string \<Rightarrow> (string \<times> string) option" where
  "json_chars 0 s = None"
| "json_chars (Suc n) [] = None"
| "json_chars (Suc n) (c # cs) =
     (if of_char c = (34 :: nat) then Some ([], cs)
      else if of_char c = (92 :: nat)
        then (case cs of
                [] \<Rightarrow> None
              | e # es \<Rightarrow>
                  if e = CHR ''u''
                  then (case hex_escape (take 4 es) of
                          None \<Rightarrow> None
                        | Some d \<Rightarrow> cons_char d (json_chars n (drop 4 es)))
                  else (case simple_escape e of
                          None \<Rightarrow> None
                        | Some d \<Rightarrow> cons_char d (json_chars n es)))
      else if of_char c < (32 :: nat) then None
      else cons_char c (json_chars n cs))"

definition num_char :: "char \<Rightarrow> bool" where
  "num_char c \<longleftrightarrow> is_digit c \<or> c \<in> set ''+-.eE''"

text \<open>JSON numbers have no leading plus, no leading zero and digits on both sides of the point.\<close>

definition json_number :: "string \<Rightarrow> rat option" where
  "json_number s =
     (let neg = (s \<noteq> [] \<and> hd s = CHR ''-''); t = (if neg then tl s else s);
          i = takeWhile is_digit t; r = dropWhile is_digit t
      in if i = [] \<or> (hd i = CHR ''0'' \<and> length i > 1) \<or>
            (r \<noteq> [] \<and> hd r = CHR ''.'' \<and> (tl r = [] \<or> \<not> is_digit (hd (tl r))))
         then None
         else map_option (\<lambda>q. if neg then - q else q) (parse_decimal t))"

fun json_value :: "nat \<Rightarrow> string \<Rightarrow> (jsval \<times> string) option" and
    json_items :: "nat \<Rightarrow> string \<Rightarrow> (jsval list \<times> string) option" and
    json_members :: "nat \<Rightarrow> string \<Rightarrow> ((string \<times> jsval) list \<times> string) option" where
  "json_value 0 s = None"
| "json_value (Suc n) s =
     (case skip_ws s of
        [] \<Rightarrow> None
      | c # cs \<Rightarrow>
          if of_char c = (34 :: nat)
          then map_option (\<lambda>(t, rest). (JStr t, rest)) (json_chars (Suc (length cs)) cs)
          else if c = CHR ''[''
          then (case skip_ws cs of
                  [] \<Rightarrow> None
                | d # ds \<Rightarrow>
                    if d = CHR '']'' then Some (JArr [], ds)
                    else map_option (\<lambda>(vs, rest). (JArr vs, rest)) (json_items n cs))
          else if c = CHR ''{''
          then (case skip_ws cs of
                  [] \<Rightarrow> None
                | d # ds \<Rightarrow>
                    if d = CHR ''}'' then Some (JObj [], ds)
                    else map_option (\<lambda>(kvs, rest). (JObj (foldl (\<lambda>acc (k, v). obj_put k v acc) [] kvs), rest))
                           (json_members n cs))
          else if starts_with ''true'' (c # cs) then Some (JBool True, drop 4 (c # cs))
          else if starts_with ''false'' (c # cs) then Some (JBool False, drop 5 (c # cs))
          else if starts_with ''null'' (c # cs) then Some (JNull, drop 4 (c # cs))
          else map_option (\<lambda>q. (JNum (Fin q), dropWhile num_char (c # cs)))
                 (json_number (takeWhile num_char (c # cs))))"
| "json_items 0 s = None"
| "json_items (Suc n) s =
     (case json_value n s of
        None \<Rightarrow> None
      | Some (v, r) \<Rightarrow>
          (case skip_ws r of
             [] \<Rightarrow> None
           | d # ds \<Rightarrow>
               if d = CHR '']'' then Some ([v], ds)
               else if d = CHR '',''
               then map_option (\<lambda>(vs, rest). (v # vs, rest)) (json_items n ds)
               else None))"
| "json_members 0 s = None"
| "json_members (Suc n) s =
     (case skip_ws s of
        [] \<Rightarrow> None
      | q # qs \<Rightarrow>
          if of_char q \<noteq> (34 :: nat) then None
          else (case json_chars (Suc (length qs)) qs of
                  None \<Rightarrow> None
                | Some (k, r) \<Rightarrow>
                    (case skip_ws r of
                       [] \<Rightarrow> None
                     | d # ds \<Rightarrow>
                         if d \<noteq> CHR '':'' then None
                         else (case json_value n ds of
                                 None \<Rightarrow> None
                               | Some (v, r2) \<Rightarrow>
                                   (case skip_ws r2 of
                                      [] \<Rightarrow> None
                                    | e # es \<Rightarrow>
                                        if e = CHR ''}'' then Some ([(k, v)], es)
                                        else if e = CHR '',''
                                        then map_option (\<lambda>(kvs, rest). ((k, v) # kvs, rest)) (json_members n es)
                                        else None)))))"

definition json_parse :: "string \<Rightarrow> jsval option" where
  "json_parse s =
     (case json_value (2 * length s + 2) s of
        Some (v, rest) \<Rightarrow> if skip_ws rest = [] then Some v else None
      | None \<Rightarrow> None)"

text \<open>A string literal of plain characters is read up to its closing quote.\<close>

lemma json_chars_plain:
  assumes "list_all (\<lambda>c. of_char c \<noteq> (34 :: nat) \<and> of_char c \<noteq> (92 :: nat) \<and> 32 \<le> (of_char c :: nat)) s"
    and "length s < n"
  shows "json_chars n (s @ CHR 0x22 # rest) = Some (s, rest)"
  using assms
proof (induction s arbitrary: n)
  case Nil
  then show ?case by (cases n) simp_all
next
  case (Cons c s)
  then obtain m where "n = Suc m" by (cases n) auto
  with Cons show ?case by (simp add: cons_char_def)
qed

end
