(* ===== verification/Submissions.thy ===== *)
theory Submissions
  imports Assessments Billing Json
begin

section \<open>Submissions, judging and what a student may see\<close>

text \<open>
  \<^verbatim>\<open>submissions.service.js\<close>, \<^verbatim>\<open>evaluation.service.js\<close> (the judge queue with its backpressure) and
  \<^verbatim>\<open>cache.service.js\<close>. A submission request carries ids that Mongoose accepts; the code and the
  language are strings, as the request schema demands. \<open>submit_env\<close> collects the configuration
  and the faults the handler tolerates.
\<close>

record submit_env =
  se_quota :: quota_config
  se_price :: jsval
  se_month :: "time \<Rightarrow> time"
  se_db_ok :: bool
  se_student_fault :: nat
  se_college_fault :: nat
  se_timeline_ok :: bool

record submit_request =
  sr_problem :: oid
  sr_code :: string
  sr_language :: string
  sr_user :: oid
  sr_college :: "oid option"
  sr_assessment :: "oid option"
  sr_attempt :: "oid option"
  sr_request :: "string option"
  sr_ext_student :: "string option"
  sr_ext_assessment :: "string option"

subsection \<open>Test cases and the judge's message\<close>

definition isSampleTestCase :: "test_case \<Rightarrow> bool" where
  "isSampleTestCase tc =
     (case tc_sample tc of
        Some b \<Rightarrow> b
      | None \<Rightarrow> (case tc_hidden tc of Some h \<Rightarrow> \<not> h | None \<Rightarrow> False))"

definition buildJudgeTests :: "problem \<Rightarrow> judge_test list" where
  "buildJudgeTests p =
     map (\<lambda>tc. \<lparr>jt_inputs = tc_inputs tc, jt_expected = tc_expected tc,
                jt_hidden = \<not> isSampleTestCase tc, jt_sample = isSampleTestCase tc\<rparr>) (pr_tests p)"

definition function_name_of :: "problem \<Rightarrow> string" where
  "function_name_of p =
     (case pr_function p of Some f \<Rightarrow> if f = [] then ''solution'' else f | None \<Rightarrow> ''solution'')"

definition buildJudgeMessageBody ::
    "oid \<Rightarrow> problem \<Rightarrow> string \<Rightarrow> string \<Rightarrow> string option \<Rightarrow> judge_message" where
  "buildJudgeMessageBody sid p language code requestId =
     \<lparr>jm_submission = sid, jm_problem = pr_id p, jm_language = language, jm_code = code,
      jm_tests = buildJudgeTests p, jm_type = pr_type p, jm_mode = cc_mode (pr_compare p),
      jm_request = requestId,
      jm_function = (if pr_type p \<noteq> StdinProblem then Some (function_name_of p) else None),
      jm_college = None\<rparr>"

definition validateSubmissionMessage :: "judge_message \<Rightarrow> bool" where
  "validateSubmissionMessage m \<longleftrightarrow>
     jm_language m \<noteq> [] \<and> jm_code m \<noteq> [] \<and>
     (jm_type m = StdinProblem \<or> (jm_function m \<noteq> None \<and> jm_function m \<noteq> Some []))"

subsection \<open>\<^verbatim>\<open>evaluation.service.js\<close>\<close>

definition MAX_QUEUE_DEPTH :: nat where
  "MAX_QUEUE_DEPTH = 5000"

definition overloaded_error :: js_error where
  "overloaded_error = HttpError 503 ''Service Overloaded: Too many pending submissions''
     (JObj [(''msg'', JStr ''System overloaded with pending submissions. Please try again in a few moments.''),
            (''retryAfter'', jnat 60)])"

definition queue_unavailable :: js_error where
  "queue_unavailable = HttpError 503 ''Queue Service Unavailable''
     (JObj [(''msg'', JStr ''Submission queue is temporarily unavailable. Please try again.''),
            (''retryAfter'', jnat 30)])"

definition publishSubmissionMessage :: "judge_message \<Rightarrow> world \<Rightarrow> unit result \<times> world" where
  "publishSubmissionMessage m w =
     (if \<not> w_queue_up w then (Inl queue_unavailable, w)
      else if MAX_QUEUE_DEPTH \<le> length (w_queue w) then (Inl overloaded_error, w)
      else (Inr (), w\<lparr>w_queue := w_queue w @ [m]\<rparr>))"

subsection \<open>Who may see a submission\<close>

record viewer =
  vw_user :: "oid option"
  vw_role :: "role option"
  vw_college :: "oid option"

definition canAccessSubmission :: "submission \<Rightarrow> viewer \<Rightarrow> bool" where
  "canAccessSubmission s v =
     (if vw_user v = None then False
      else if vw_role v = Some Superadmin then True
      else if vw_role v = Some Admin \<or> vw_role v = Some Faculty
        then (su_college s = None \<or> su_college s = vw_college v)
      else vw_user v = Some (su_user s))"

definition isPrivilegedRole :: "role option \<Rightarrow> bool" where
  "isPrivilegedRole r \<longleftrightarrow> r = Some Admin \<or> r = Some Faculty \<or> r = Some Superadmin"

subsection \<open>Sanitizing the judge's details\<close>

text \<open>\<^verbatim>\<open>{ ...v }\<close>: the own enumerable properties of a value.\<close>

definition index_props :: "jsval list \<Rightarrow> (string \<times> jsval) list" where
  "index_props vs = map (\<lambda>(i, v). (show_nat i, v)) (zip [0..<length vs] vs)"

fun spread :: "jsval \<Rightarrow> (string \<times> jsval) list" where
  "spread (JObj kvs) = kvs"
| "spread (JArr vs) = index_props vs"
| "spread (JStr s) = index_props (map (\<lambda>c. JStr [c]) s)"
| "spread _ = []"

fun put_all :: "(string \<times> jsval) list \<Rightarrow> (string \<times> jsval) list \<Rightarrow> (string \<times> jsval) list" where
  "put_all [] acc = acc"
| "put_all ((k, v) # kvs) acc = put_all kvs (obj_put k v acc)"

text \<open>\<^verbatim>\<open>d.a ?? d.b ?? ...\<close>: the first of the properties that is neither \<^verbatim>\<open>null\<close> nor \<^verbatim>\<open>undefined\<close>, else the last.\<close>

fun first_of :: "jsval \<Rightarrow> string list \<Rightarrow> jsval" where
  "first_of d [] = JUndef"
| "first_of d [k] = oget d k"
| "first_of d (k # l # ks) = coalesce (oget d k) (first_of d (l # ks))"

definition passed_of :: "jsval \<Rightarrow> jsval" where
  "passed_of d = coalesce (first_of d [''passed'', ''ok'', ''Passed'', ''Ok'']) (JBool False)"

definition console_fields :: "jsval \<Rightarrow> (string \<times> jsval) list" where
  "console_fields d =
     [(''stdout'', first_of d [''stdout'', ''Stdout'']),
      (''stderr'', first_of d [''stderr'', ''Stderr'']),
      (''traceback'', first_of d [''traceback'', ''Traceback''])]"

definition visible_detail :: "jsval \<Rightarrow> jsval" where
  "visible_detail d =
     JObj (put_all
       ([(''inputs'', first_of d [''inputs'', ''input'', ''Input'']),
         (''expected'', first_of d [''expected'', ''Expected'']),
         (''output'', first_of d [''output'', ''Output'']),
         (''passed'', passed_of d), (''ok'', passed_of d)] @
        console_fields d @ [(''timeMs'', first_of d [''timeMs'', ''TimeMs''])]) (spread d))"

definition hidden_detail :: "bool \<Rightarrow> jsval \<Rightarrow> jsval" where
  "hidden_detail isAssessment d =
     JObj ([(''test'', first_of d [''test'', ''Test'']), (''passed'', passed_of d), (''ok'', passed_of d),
            (''isHidden'', JBool True), (''timeMs'', first_of d [''timeMs'', ''TimeMs''])] @
           (if isAssessment then [] else console_fields d))"

text \<open>
  The test case a detail belongs to: its own number when that is an integer, its position otherwise.
  A number that is no index of the test cases finds none, and the detail counts as visible.
\<close>

definition test_index :: "nat \<Rightarrow> jsval \<Rightarrow> int" where
  "test_index idx d =
     (case first_of d [''test'', ''Test''] of
        JNum (Fin q) \<Rightarrow> if of_int \<lfloor>q\<rfloor> = q then \<lfloor>q\<rfloor> - 1 else int idx
      | _ \<Rightarrow> int idx)"

definition test_case_of :: "nat \<Rightarrow> jsval \<Rightarrow> test_case list \<Rightarrow> test_case option" where
  "test_case_of idx d tcs =
     (let i = test_index idx d in if 0 \<le> i \<and> nat i < length tcs then Some (tcs ! nat i) else None)"

definition is_hidden_detail :: "nat \<Rightarrow> jsval \<Rightarrow> test_case list \<Rightarrow> bool" where
  "is_hidden_detail idx d tcs =
     (case test_case_of idx d tcs of Some tc \<Rightarrow> \<not> isSampleTestCase tc | None \<Rightarrow> False)"

definition sanitize_detail :: "test_case list \<Rightarrow> bool \<Rightarrow> nat \<Rightarrow> jsval \<Rightarrow> jsval" where
  "sanitize_detail tcs isAssessment idx d =
     (if is_hidden_detail idx d tcs then hidden_detail isAssessment d else visible_detail d)"

fun sanitize_from :: "test_case list \<Rightarrow> bool \<Rightarrow> nat \<Rightarrow> jsval list \<Rightarrow> jsval list result" where
  "sanitize_from tcs isA idx [] = Inr []"
| "sanitize_from tcs isA idx (d # ds) =
     (if nullish d then Inl (null_deref ''test'')
      else (case sanitize_from tcs isA (Suc idx) ds of
              Inl e \<Rightarrow> Inl e
            | Inr rs \<Rightarrow> Inr (sanitize_detail tcs isA idx d # rs)))"

definition sanitizeResultDetails :: "jsval list \<Rightarrow> test_case list \<Rightarrow> bool \<Rightarrow> jsval list result" where
  "sanitizeResultDetails details tcs isAssessment = sanitize_from tcs isAssessment 0 details"

definition parseOutputJSON :: "string option \<Rightarrow> jsval" where
  "parseOutputJSON output =
     (case output of
        None \<Rightarrow> JNull
      | Some s \<Rightarrow> if s = [] then JNull else (case json_parse s of None \<Rightarrow> JNull | Some v \<Rightarrow> v))"

definition sanitize_value :: "jsval \<Rightarrow> test_case list \<Rightarrow> bool \<Rightarrow> jsval result" where
  "sanitize_value v tcs isAssessment =
     (if truthy v \<and> is_array (oget v ''details'')
      then (case sanitizeResultDetails (elems (oget v ''details'')) tcs isAssessment of
              Inl e \<Rightarrow> Inl e
            | Inr ds \<Rightarrow> Inr (oset v ''details'' (JArr ds)))
      else Inr v)"

definition sanitizeSubmissionForStudent :: "submission \<Rightarrow> problem option \<Rightarrow> submission result" where
  "sanitizeSubmissionForStudent s problem =
     (case problem of
        None \<Rightarrow> Inr s
      | Some p \<Rightarrow>
          (let isAssessment = (su_assessment s \<noteq> None); parsed = parseOutputJSON (su_output s) in
           case sanitize_value parsed (pr_tests p) isAssessment of
             Inl e \<Rightarrow> Inl e
           | Inr out \<Rightarrow>
               (case sanitize_value (su_result s) (pr_tests p) isAssessment of
                  Inl e \<Rightarrow> Inl e
                | Inr res \<Rightarrow>
                    Inr (s\<lparr>su_output := (if truthy parsed \<and> is_array (oget parsed ''details'')
                                          then json_str out else su_output s),
                           su_result := res\<rparr>))))"

subsection \<open>Submitting\<close>

definition getAttemptExpiration :: "attempt \<Rightarrow> assessment \<Rightarrow> time option" where
  "getAttemptExpiration a s =
     (let graceMs = num_mul (num_mul (if num_truthy (at_grace a) then at_grace a else Fin 0) (Fin 60)) (Fin 1000);
          durationExpiry = num_add (num_add (Fin (of_int (at_started a))) (Fin (as_duration s * 60 * 1000))) graceMs
      in date_of (num_min durationExpiry (num_add (Fin (of_int (as_end s))) graceMs)))"

definition includes_problem :: "world \<Rightarrow> assessment \<Rightarrow> oid \<Rightarrow> bool" where
  "includes_problem w s pid \<longleftrightarrow>
     list_ex (\<lambda>e. pe_problem e = pid \<and> problems_find w (pe_problem e) \<noteq> None) (as_problems s)"

definition check_open_attempt ::
    "submit_request \<Rightarrow> attempt \<Rightarrow> assessment \<Rightarrow> time \<Rightarrow> world \<Rightarrow> unit result \<times> world" where
  "check_open_attempt rq a s now w =
     (if as_locked s
      then (http 409 ''Assessment is locked by the faculty and no longer accepts submissions'', w)
      else if at_status a \<noteq> Active
      then (http 409 (''Attempt is '' @ js_lower (status_name (at_status a)) @ '' and no longer accepts submissions''), w)
      else if (case getAttemptExpiration a s of Some t \<Rightarrow> t \<le> now | None \<Rightarrow> False)
      then (http 409 ''Attempt has timed out and no longer accepts submissions'',
            snd (attempts_update (at_id a)
              (\<lambda>b. b\<lparr>at_status := TimedOut, at_submitted := getAttemptExpiration a s\<rparr>) None w))
      else if \<not> includes_problem w s (sr_problem rq)
      then (http 400 ''Problem is not part of this assessment'', w)
      else if as_languages s \<noteq> [] \<and> sr_language rq \<notin> set (as_languages s)
      then (http 400 ''Language is not allowed for this assessment'', w)
      else (Inr (), w))"

text \<open>
  A reference whose document is gone is \<^verbatim>\<open>null\<close> here, and its string \<^verbatim>\<open>null\<close> equals no id.
\<close>

definition validateAssessmentSubmission ::
    "submit_request \<Rightarrow> time \<Rightarrow> world \<Rightarrow> unit result \<times> world" where
  "validateAssessmentSubmission rq now w =
     (case (sr_assessment rq, sr_attempt rq) of
        (None, None) \<Rightarrow> (Inr (), w)
      | (Some aid, Some i) \<Rightarrow>
          (case attempts_find w i None of
             None \<Rightarrow> (http 404 ''Attempt not found'', w)
           | Some a \<Rightarrow>
               if users_find w (at_student a) = None \<or> at_student a \<noteq> sr_user rq
               then (http 403 ''Forbidden: You do not own this attempt'', w)
               else if assessments_find w (at_assessment a) None = None \<or> at_assessment a \<noteq> aid
               then (http 400 ''Attempt does not belong to this assessment'', w)
               else (case assessments_find w aid None of
                       None \<Rightarrow> (http 404 ''Assessment not found'', w)
                     | Some s \<Rightarrow> check_open_attempt rq a s now w))
      | _ \<Rightarrow> (http 400 ''Assessment submissions require both assessmentId and attemptId'', w))"

definition student_quota_error :: "quota_config \<Rightarrow> js_error" where
  "student_quota_error q = HttpError 429 ''Submission quota exceeded''
     (JObj [(''msg'', JStr (''You've submitted too many times in a short period ('' @
        show_nat (qc_student_limit q) @ '' per '' @ show_nat (qc_student_window q) @
        ''s). Please wait a moment and try again.''))])"

definition college_quota_error :: "quota_config \<Rightarrow> js_error" where
  "college_quota_error q = HttpError 429 ''Submission quota exceeded''
     (JObj [(''msg'', JStr (''Submission quota exceeded for this college ('' @
        show_nat (qc_college_limit q) @ '' per '' @ show_nat (qc_college_window q) @
        ''s). Please try again shortly.''))])"

text \<open>The quota checks, in order: the student's window, the college's window, the plan's month.\<close>

definition check_quotas :: "submit_env \<Rightarrow> submit_request \<Rightarrow> clock \<Rightarrow> world \<Rightarrow> unit result \<times> world" where
  "check_quotas env rq clk w =
     (case checkStudentSubmissionQuota (se_quota env) (se_student_fault env) (clk 1) (Some (sr_user rq)) w of
        (q1, w1) \<Rightarrow>
          if \<not> qr_allowed q1 then (Inl (student_quota_error (se_quota env)), w1)
          else if sr_college rq = None then (Inr (), w1)
          else (case checkCollegeSubmissionQuota (se_quota env) (se_college_fault env) (clk 2) (sr_college rq) w1 of
                  (q2, w2) \<Rightarrow>
                    if \<not> qr_allowed q2 then (Inl (college_quota_error (se_quota env)), w2)
                    else (case checkPlanUsageLimit (se_price env) (se_month env) (se_db_ok env) (clk 3)
                                 (sr_college rq) w2 of
                            (allowed, lmt) \<Rightarrow>
                              if \<not> allowed
                              then (http_body 402 ''Plan usage limit exceeded'' ''msg''
                                      (''This college has used its plan's monthly submission allowance ('' @
                                       to_str lmt @ ''). Upgrade to continue.''), w2)
                              else (Inr (), w2))))"

definition new_submission :: "submit_request \<Rightarrow> oid \<Rightarrow> time \<Rightarrow> submission" where
  "new_submission rq nid now =
     \<lparr>su_id = nid, su_problem = sr_problem rq, su_user = sr_user rq, su_assessment = sr_assessment rq,
      su_attempt = sr_attempt rq, su_college = sr_college rq, su_score = 0, su_code = sr_code rq,
      su_language = sr_language rq, su_status = Pending, su_output = None, su_result = JUndef,
      su_ext_student = sr_ext_student rq, su_ext_assessment = sr_ext_assessment rq, su_created = now\<rparr>"

definition submit_problem_event :: "problem \<Rightarrow> submission \<Rightarrow> time \<Rightarrow> timeline_event" where
  "submit_problem_event p s t =
     \<lparr>ev_event = ''SUBMIT_PROBLEM'', ev_at = t,
      ev_details = JObj [(''problemId'', jnat (su_problem s)), (''problemTitle'', JStr (pr_title p)),
                         (''submissionId'', jnat (su_id s))]\<rparr>"

text \<open>The timeline entry is best effort: a failed write is logged and ignored.\<close>

definition log_submission :: "bool \<Rightarrow> problem \<Rightarrow> submission \<Rightarrow> time \<Rightarrow> world \<Rightarrow> world" where
  "log_submission ok p s t w =
     (case su_attempt s of
        None \<Rightarrow> w
      | Some i \<Rightarrow>
          if ok then snd (attempts_update i (push_event (submit_problem_event p s t)) None w) else w)"

definition enqueue :: "submit_request \<Rightarrow> problem \<Rightarrow> submission \<Rightarrow> world \<Rightarrow> submission option result \<times> world" where
  "enqueue rq p s w =
     (let m = (buildJudgeMessageBody (su_id s) p (sr_language rq) (sr_code rq) (sr_request rq))
                 \<lparr>jm_college := sr_college rq\<rparr> in
      if \<not> validateSubmissionMessage m
      then (http_body 500 ''Invalid submission message'' ''msg'' ''Internal server error: invalid submission message'', w)
      else (case publishSubmissionMessage m w of
              (Inl e, w') \<Rightarrow> (Inl e, w')
            | (Inr _, w') \<Rightarrow> (Inr (Some s), w')))"

definition create_submission ::
    "submit_env \<Rightarrow> oid \<Rightarrow> submit_request \<Rightarrow> clock \<Rightarrow> world \<Rightarrow> submission option result \<times> world" where
  "create_submission env nid rq clk w =
     (case problems_find w (sr_problem rq) of
        None \<Rightarrow> (Inr None, w)
      | Some p \<Rightarrow>
          if pr_premium p \<and> sr_college rq \<noteq> None \<and> \<not> collegeAllowsPremium (se_price env) (sr_college rq) w
          then (http_body 402 ''Upgrade required for premium problems'' ''msg''
                  ''This problem is only available on a paid plan.'', w)
          else if sr_code rq = [] \<or> sr_language rq = [] then (Inl (DriverError ''ValidationError''), w)
          else (case submissions_create (new_submission rq nid (clk 4)) w of
                  (s, w1) \<Rightarrow> enqueue rq p s (log_submission (se_timeline_ok env) p s (clk 5) w1)))"

text \<open>\<^verbatim>\<open>submitSolution\<close>; \<open>Inr None\<close> is the outcome \<^verbatim>\<open>{ notFound: true }\<close>.\<close>

definition submitSolution ::
    "submit_env \<Rightarrow> oid \<Rightarrow> submit_request \<Rightarrow> clock \<Rightarrow> world \<Rightarrow> submission option result \<times> world" where
  "submitSolution env nid rq clk w =
     (case validateAssessmentSubmission rq (clk 0) w of
        (Inl e, w1) \<Rightarrow> (Inl e, w1)
      | (Inr _, w1) \<Rightarrow>
          (case check_quotas env rq clk w1 of
             (Inl e, w2) \<Rightarrow> (Inl e, w2)
           | (Inr _, w2) \<Rightarrow> create_submission env nid rq clk w2))"

subsection \<open>Reading a submission, through the cache\<close>

text \<open>
  \<^verbatim>\<open>cache.service.js\<close> for the keys \<^verbatim>\<open>submission:<id>\<close>: the value is a snapshot of the document (it goes
  through JSON and keeps all fields), the entry lives for an hour.
\<close>

definition cache_key :: "oid \<Rightarrow> string" where
  "cache_key i = ''submission:'' @ show_nat i"

definition getCacheJSON :: "string \<Rightarrow> time \<Rightarrow> world \<Rightarrow> submission option" where
  "getCacheJSON key now w =
     (case w_redis w of
        None \<Rightarrow> None
      | Some r \<Rightarrow>
          (case map_of (rd_cache r) key of
             None \<Rightarrow> None
           | Some (s, expires) \<Rightarrow> if now < expires then Some s else None))"

definition setCacheJSON :: "string \<Rightarrow> submission \<Rightarrow> nat \<Rightarrow> time \<Rightarrow> world \<Rightarrow> world" where
  "setCacheJSON key s ttl now w =
     (case w_redis w of
        None \<Rightarrow> w
      | Some r \<Rightarrow> w\<lparr>w_redis := Some (r\<lparr>rd_cache :=
          (key, s, now + int ttl * 1000) # filter (\<lambda>(k, v). k \<noteq> key) (rd_cache r)\<rparr>)\<rparr>)"

datatype submission_view =
    ViewNotFound
  | ViewForbidden
  | View submission

definition present :: "submission \<Rightarrow> viewer \<Rightarrow> world \<Rightarrow> submission_view result" where
  "present s v w =
     (if isPrivilegedRole (vw_role v) then Inr (View s)
      else (case sanitizeSubmissionForStudent s (problems_find w (su_problem s)) of
              Inl e \<Rightarrow> Inl e
            | Inr t \<Rightarrow> Inr (View t)))"

definition getSubmissionById ::
    "oid \<Rightarrow> viewer \<Rightarrow> clock \<Rightarrow> world \<Rightarrow> submission_view result \<times> world" where
  "getSubmissionById i v clk w =
     (case getCacheJSON (cache_key i) (clk 0) w of
        Some s \<Rightarrow> if \<not> canAccessSubmission s v then (Inr ViewForbidden, w) else (present s v w, w)
      | None \<Rightarrow>
          (case submissions_find w i None of
             None \<Rightarrow> (Inr ViewNotFound, w)
           | Some s \<Rightarrow>
               if \<not> canAccessSubmission s v then (Inr ViewForbidden, w)
               else (let w' = (if su_status s = Success \<or> su_status s = Fail
                               then setCacheJSON (cache_key i) s 3600 (clk 1) w else w)
                     in (present s v w', w'))))"

definition getMySubmissions :: "oid \<Rightarrow> jsval \<Rightarrow> world \<Rightarrow> submission list result" where
  "getMySubmissions uid query w = submissions_by_user w uid (skip_of query) (limit_of query)"

subsection \<open>Rejudging\<close>

definition reset_submission :: "submission \<Rightarrow> submission" where
  "reset_submission s = s\<lparr>su_status := Pending, su_score := 0, su_output := None, su_result := JUndef\<rparr>"

definition rejudge_message :: "submission \<Rightarrow> problem \<Rightarrow> judge_message" where
  "rejudge_message s p = buildJudgeMessageBody (su_id s) p (su_language s) (su_code s) None"

definition rejudgeSubmission :: "oid \<Rightarrow> world \<Rightarrow> submission result \<times> world" where
  "rejudgeSubmission i w =
     (case submissions_find w i None of
        None \<Rightarrow> (http 404 ''Submission not found'', w)
      | Some s \<Rightarrow>
          (case problems_find w (su_problem s) of
             None \<Rightarrow> (http 404 ''Problem not found for this submission'', w)
           | Some p \<Rightarrow>
               (let s' = reset_submission s; w1 = submissions_save s' w in
                if \<not> validateSubmissionMessage (rejudge_message s' p)
                then (http 500 ''Invalid submission message configuration'', w1)
                else (case publishSubmissionMessage (rejudge_message s' p) w1 of
                        (Inl e, w2) \<Rightarrow> (Inl e, w2)
                      | (Inr _, w2) \<Rightarrow> (Inr s', w2)))))"

text \<open>One pass of the loop of the two bulk operations; the first queue error ends the loop.\<close>

fun rejudge_each :: "(world \<Rightarrow> oid \<Rightarrow> problem option) \<Rightarrow> submission list \<Rightarrow> world \<Rightarrow> unit result \<times> world" where
  "rejudge_each prob [] w = (Inr (), w)"
| "rejudge_each prob (s # ss) w =
     (case prob w (su_problem s) of
        None \<Rightarrow> rejudge_each prob ss w
      | Some p \<Rightarrow>
          (let s' = reset_submission s; w1 = submissions_save s' w in
           case publishSubmissionMessage (rejudge_message s' p) w1 of
             (Inl e, w2) \<Rightarrow> (Inl e, w2)
           | (Inr _, w2) \<Rightarrow> rejudge_each prob ss w2))"

definition rejudgeProblemSubmissions :: "oid \<Rightarrow> oid option \<Rightarrow> world \<Rightarrow> nat result \<times> world" where
  "rejudgeProblemSubmissions pid aid w =
     (case problems_find w pid of
        None \<Rightarrow> (http 404 ''Problem not found'', w)
      | Some p \<Rightarrow>
          (let ss = filter (\<lambda>s. su_problem s = pid \<and> (aid = None \<or> su_assessment s = aid)) (w_submissions w) in
           case rejudge_each (\<lambda>w' i. Some p) ss w of
             (Inl e, w') \<Rightarrow> (Inl e, w')
           | (Inr _, w') \<Rightarrow> (Inr (length ss), w')))"

text \<open>
  The source caches each problem it has looked up; nothing in the loop changes problems, so the
  model looks it up again.
\<close>

definition rejudgeAssessmentSubmissions :: "oid \<Rightarrow> world \<Rightarrow> nat result \<times> world" where
  "rejudgeAssessmentSubmissions aid w =
     (case assessments_find w aid None of
        None \<Rightarrow> (http 404 ''Assessment not found'', w)
      | Some _ \<Rightarrow>
          (let ss = filter (\<lambda>s. su_assessment s = Some aid) (w_submissions w) in
           case rejudge_each problems_find ss w of
             (Inl e, w') \<Rightarrow> (Inl e, w')
           | (Inr _, w') \<Rightarrow> (Inr (length ss), w')))"

subsection \<open>A student's analytics\<close>

text \<open>
  \<^verbatim>\<open>Object.keys\<close> lists the keys that are array indices first, in ascending order, then the others in
  insertion order.
\<close>

definition is_index_key :: "string \<Rightarrow> bool" where
  "is_index_key s \<longleftrightarrow> s \<noteq> [] \<and> list_all is_digit s \<and> show_nat (nat_of_digits s) = s \<and> nat_of_digits s < 4294967295"

definition key_order :: "('a \<Rightarrow> string) \<Rightarrow> 'a list \<Rightarrow> 'a list" where
  "key_order k xs =
     sort_key (\<lambda>x. nat_of_digits (k x)) (filter (\<lambda>x. is_index_key (k x)) xs) @
     filter (\<lambda>x. \<not> is_index_key (k x)) xs"

record tag_stat =
  ts_tag :: string
  ts_attempted :: nat
  ts_solved :: nat

fun bump_tag :: "bool \<Rightarrow> string \<Rightarrow> tag_stat list \<Rightarrow> tag_stat list" where
  "bump_tag ok t [] = [\<lparr>ts_tag = t, ts_attempted = 1, ts_solved = (if ok then 1 else 0)\<rparr>]"
| "bump_tag ok t (s # ss) =
     (if ts_tag s = t
      then s\<lparr>ts_attempted := ts_attempted s + 1, ts_solved := ts_solved s + (if ok then 1 else 0)\<rparr> # ss
      else s # bump_tag ok t ss)"

definition success_rate :: "tag_stat \<Rightarrow> int" where
  "success_rate t = js_round (of_nat (ts_solved t) / of_nat (ts_attempted t) * 100)"

record analytics_state =
  ay_attempted :: nat
  ay_solved :: "oid list"
  ay_levels :: "difficulty list"
  ay_tags :: "tag_stat list"

text \<open>
  One submission of the loop. Its populated problem has only a title, so the tags and difficulty come
  from a second lookup; a deleted problem is \<^verbatim>\<open>null\<close> and skips the submission.
\<close>

definition analyse_submission :: "world \<Rightarrow> submission \<Rightarrow> analytics_state \<Rightarrow> analytics_state" where
  "analyse_submission w s st =
     (case problems_find w (su_problem s) of
        None \<Rightarrow> st
      | Some p \<Rightarrow>
          (let ok = (su_status s = Success) in
           \<lparr>ay_attempted = ay_attempted st + 1,
            ay_solved = (if ok then List.insert (su_problem s) (ay_solved st) else ay_solved st),
            ay_levels = (if ok then ay_levels st @ [pr_difficulty p] else ay_levels st),
            ay_tags = fold (bump_tag ok) (filter (\<lambda>t. t \<notin> set object_prototype_keys) (pr_tags p)) (ay_tags st)\<rparr>))"

record my_analytics =
  my_attempted :: nat
  my_solved :: nat
  my_difficulty :: difficulty
  my_strong :: "tag_stat list"
  my_weak :: "tag_stat list"
  my_tags :: "tag_stat list"

definition average_difficulty :: "difficulty list \<Rightarrow> difficulty" where
  "average_difficulty ls =
     (let e = count_list ls Easy; m = count_list ls Medium; h = count_list ls Hard in
      if m < h \<and> e < h then Hard else if m < e \<and> h < e then Easy else Medium)"

definition getMyAnalytics :: "oid \<Rightarrow> world \<Rightarrow> my_analytics" where
  "getMyAnalytics uid w =
     (let subs = take 1000 (sort_key (\<lambda>s. - su_created s) (filter (\<lambda>s. su_user s = uid) (w_submissions w)));
          st = fold (analyse_submission w) subs
                 \<lparr>ay_attempted = 0, ay_solved = [], ay_levels = [], ay_tags = []\<rparr>;
          tags = sort_key (\<lambda>t. - success_rate t) (key_order ts_tag (ay_tags st))
      in \<lparr>my_attempted = ay_attempted st, my_solved = length (ay_solved st),
          my_difficulty = average_difficulty (ay_levels st),
          my_strong = take 3 (filter (\<lambda>t. 2 \<le> ts_attempted t \<and> 70 \<le> success_rate t) tags),
          my_weak = take 3 (filter (\<lambda>t. 2 \<le> ts_attempted t \<and> success_rate t < 50) (rev tags)),
          my_tags = tags\<rparr>)"

subsection \<open>Hidden tests stay hidden\<close>

text \<open>The fields of a hidden test's detail a student may learn.\<close>

definition public_keys :: "bool \<Rightarrow> string list" where
  "public_keys isAssessment =
     [''test'', ''Test'', ''passed'', ''ok'', ''Passed'', ''Ok'', ''timeMs'', ''TimeMs''] @
     (if isAssessment then [] else [''stdout'', ''Stdout'', ''stderr'', ''Stderr'', ''traceback'', ''Traceback''])"

definition agree_publicly :: "bool \<Rightarrow> jsval \<Rightarrow> jsval \<Rightarrow> bool" where
  "agree_publicly isAssessment d d' \<longleftrightarrow>
     nullish d = nullish d' \<and> (\<forall>k \<in> set (public_keys isAssessment). oget d k = oget d' k)"

lemma agree_hidden_detail: "agree_publicly isA d d' \<Longrightarrow> hidden_detail isA d = hidden_detail isA d'"
  by (simp add: agree_publicly_def public_keys_def hidden_detail_def passed_of_def console_fields_def)

lemma agree_is_hidden: "agree_publicly isA d d' \<Longrightarrow> is_hidden_detail i d tcs = is_hidden_detail i d' tcs"
  by (simp add: agree_publicly_def public_keys_def is_hidden_detail_def test_case_of_def test_index_def)

lemma sanitize_from_agree:
  assumes "length ds = length ds'"
    and "\<forall>i < length ds. ds ! i = ds' ! i
           \<or> (agree_publicly isA (ds ! i) (ds' ! i) \<and> is_hidden_detail (j + i) (ds ! i) tcs)"
  shows "sanitize_from tcs isA j ds = sanitize_from tcs isA j ds'"
  using assms
proof (induction ds ds' arbitrary: j rule: list_induct2)
  case (Cons d ds d' ds')
  have "sanitize_from tcs isA (Suc j) ds = sanitize_from tcs isA (Suc j) ds'"
    using Cons.prems by (intro Cons.IH) (auto dest: spec [of _ "Suc _"])
  moreover have "sanitize_detail tcs isA j d = sanitize_detail tcs isA j d'" "nullish d = nullish d'"
    using Cons.prems [rule_format, of 0] agree_hidden_detail agree_is_hidden
    by (auto simp: sanitize_detail_def agree_publicly_def)
  ultimately show ?case by (simp del: nullish.simps split: sum.split)
qed simp

text \<open>C6: what a student is shown of the judge's details does not depend on the inputs, the expected
  value, the output or any other non-public field of a hidden test: two runs that differ only there
  give the same result, with the console output also withheld in an assessment.\<close>

theorem hidden_tests_noninterference:
  assumes "length ds = length ds'"
    and "\<forall>i < length ds. ds ! i = ds' ! i
           \<or> (agree_publicly isA (ds ! i) (ds' ! i) \<and> is_hidden_detail i (ds ! i) tcs)"
  shows "sanitizeResultDetails ds tcs isA = sanitizeResultDetails ds' tcs isA"
  using sanitize_from_agree [of ds ds' isA 0 tcs] assms by (simp add: sanitizeResultDetails_def)

definition hidden_case :: test_case where
  "hidden_case = \<lparr>tc_inputs = [jint 1], tc_expected = jint 2, tc_sample = Some False, tc_hidden = Some True\<rparr>"

lemma hidden_tests_noninterference_witness:
  "sanitizeResultDetails [JObj [(''test'', jint 1), (''ok'', JBool True), (''expected'', JStr ''secret'')]] [hidden_case] True
     = sanitizeResultDetails [JObj [(''test'', jint 1), (''ok'', JBool True), (''stdout'', JStr ''x'')]] [hidden_case] True"
  by (rule hidden_tests_noninterference)
     (simp_all add: agree_publicly_def public_keys_def is_hidden_detail_def test_case_of_def test_index_def
        hidden_case_def isSampleTestCase_def coalesce_def)

subsection \<open>One deadline for both services\<close>

text \<open>The two deadlines an attempt has, in milliseconds, when its grace time is the finite number \<open>g\<close>.\<close>

definition own_deadline :: "attempt \<Rightarrow> assessment \<Rightarrow> rat \<Rightarrow> rat" where
  "own_deadline a s g = of_int (at_started a) + as_duration s * 60000 + g * 60000"

definition hard_deadline :: "assessment \<Rightarrow> rat \<Rightarrow> rat" where
  "hard_deadline s g = of_int (as_end s) + g * 60000"

definition in_date_range :: "rat \<Rightarrow> bool" where
  "in_date_range q \<longleftrightarrow> \<bar>q\<bar> \<le> 8640000000000000"

lemma grace_or_zero: "(if num_truthy (Fin g) then Fin g else Fin 0) = Fin g"
  by simp

lemma date_of_in_range: "in_date_range q \<Longrightarrow> date_of (Fin q) = Some (trunc q)"
  by (simp add: in_date_range_def)

lemma getExpirationTime_finite:
  assumes "at_grace a = Fin g" and "in_date_range (own_deadline a s g)" and "in_date_range (hard_deadline s g)"
  shows "getExpirationTime a s = Some (trunc (min (own_deadline a s g) (hard_deadline s g)))"
proof -
  have "num_add (Fin (of_int (at_started a))) (num_add (Fin (as_duration s * 60000)) (grace_ms a))
          = Fin (own_deadline a s g)"
    and "num_add (Fin (of_int (as_end s))) (grace_ms a) = Fin (hard_deadline s g)"
    unfolding grace_ms_def assms(1) grace_or_zero
    by (simp_all add: own_deadline_def hard_deadline_def add.assoc)
  then show ?thesis
    using date_of_in_range [OF assms(2)] date_of_in_range [OF assms(3)] unfolding trunc_min
    by (auto simp: getExpirationTime_def Let_def min_def simp del: num_add.simps date_of.simps)
qed

lemma getAttemptExpiration_finite:
  assumes "at_grace a = Fin g" and "in_date_range (own_deadline a s g)" and "in_date_range (hard_deadline s g)"
  shows "getAttemptExpiration a s = Some (trunc (min (own_deadline a s g) (hard_deadline s g)))"
proof -
  let ?g = "num_mul (num_mul (Fin g) (Fin 60)) (Fin 1000)"
  have "num_add (num_add (Fin (of_int (at_started a))) (Fin (as_duration s * 60 * 1000))) ?g
          = Fin (own_deadline a s g)"
    and "num_add (Fin (of_int (as_end s))) ?g = Fin (hard_deadline s g)"
    by (simp_all add: own_deadline_def hard_deadline_def)
  moreover have "num_min (Fin p) (Fin q) = Fin (min p q)" for p q
    by (simp add: num_min_def min_def)
  ultimately show ?thesis
    using date_of_in_range [OF assms(2)] date_of_in_range [OF assms(3)]
    unfolding getAttemptExpiration_def assms(1) grace_or_zero Let_def
    by (simp add: min_def del: date_of.simps)
qed

text \<open>C11: the assessment service and the submission service compute the same deadline, the earlier of
  the attempt's own time and the assessment's end, both extended by the grace minutes.\<close>

theorem deadlines_agree:
  assumes "at_grace a = Fin g" and "in_date_range (own_deadline a s g)" and "in_date_range (hard_deadline s g)"
  shows "getAttemptExpiration a s = getExpirationTime a s
       \<and> getExpirationTime a s = Some (trunc (min (own_deadline a s g) (hard_deadline s g)))"
  using getExpirationTime_finite [OF assms] getAttemptExpiration_finite [OF assms] by simp

definition sample_assessment :: assessment where
  "sample_assessment =
     \<lparr>as_id = 10, as_title = ''T'', as_description = None, as_start = 0, as_end = 7200000, as_duration = 60,
      as_languages = [''python''], as_problems = [\<lparr>pe_problem = 20, pe_max_score = 50\<rparr>], as_created_by = 1,
      as_college = Some 4, as_status = Published, as_locked = False, as_announcements = []\<rparr>"

definition sample_attempt :: attempt where
  "sample_attempt = (new_attempt 30 10 2 (Some 4) 1000 [20])\<lparr>at_grace := Fin 5\<rparr>"

lemma deadlines_agree_witness:
  "getAttemptExpiration sample_attempt sample_assessment = getExpirationTime sample_attempt sample_assessment
     \<and> getExpirationTime sample_attempt sample_assessment = Some 3901000"
  using deadlines_agree [of sample_attempt 5 sample_assessment]
  by (simp add: sample_attempt_def sample_assessment_def new_attempt_def own_deadline_def hard_deadline_def
      in_date_range_def)

end
