(* ===== verification/Submission_Laws.thy ===== *)
theory Submission_Laws
  imports Submissions
begin

section \<open>Properties of submissions\<close>

text \<open>
  What a successful submission did and required, what a rejected one may leave behind, who can read a
  submission, and how rejudging interacts with the cache.
\<close>

subsection \<open>What each phase may change\<close>

lemma quota_frame:
  "checkFixedWindowQuota pre scope lmt sec fault now w = (q, w') \<Longrightarrow> \<exists>r. w' = w\<lparr>w_redis := r\<rparr>"
  by (auto simp: checkFixedWindowQuota_def Let_def split: option.splits if_splits prod.splits
      intro: exI [of _ "w_redis w"])

lemma check_quotas_frame:
  assumes "check_quotas env rq clk w = (r, w')"
  shows "\<exists>rd. w' = w\<lparr>w_redis := rd\<rparr>"
proof -
  obtain q1 w1 where q1: "checkStudentSubmissionQuota (se_quota env) (se_student_fault env) (clk 1)
      (Some (sr_user rq)) w = (q1, w1)" by fastforce
  obtain q2 w2 where q2: "checkCollegeSubmissionQuota (se_quota env) (se_college_fault env) (clk 2)
      (sr_college rq) w1 = (q2, w2)" by fastforce
  from q1 obtain r1 where "w1 = w\<lparr>w_redis := r1\<rparr>"
    using quota_frame unfolding checkStudentSubmissionQuota_def by blast
  moreover from q2 obtain r2 where "w2 = w1\<lparr>w_redis := r2\<rparr>"
    using quota_frame unfolding checkCollegeSubmissionQuota_def by blast
  moreover have "w' = w1 \<or> w' = w2"
    using assms q1 q2 by (auto simp: check_quotas_def split: if_splits prod.splits)
  ultimately show ?thesis by auto
qed

text \<open>The conditions under which an assessment accepts a submission.\<close>

definition accepts :: "world \<Rightarrow> submit_request \<Rightarrow> time \<Rightarrow> oid \<Rightarrow> oid \<Rightarrow> bool" where
  "accepts w rq now aid i \<longleftrightarrow>
     (\<exists>a s. attempts_find w i None = Some a \<and> assessments_find w aid None = Some s \<and>
        at_student a = sr_user rq \<and> at_assessment a = aid \<and> at_status a = Active \<and> \<not> as_locked s \<and>
        (\<forall>t. getAttemptExpiration a s = Some t \<longrightarrow> now < t) \<and>
        (\<exists>e \<in> set (as_problems s). pe_problem e = sr_problem rq) \<and>
        (as_languages s = [] \<or> sr_language rq \<in> set (as_languages s)))"

lemma check_open_attempt_Inr:
  assumes "check_open_attempt rq a s now w = (Inr u, w')"
  shows "w' = w \<and> at_status a = Active \<and> \<not> as_locked s
       \<and> (\<forall>t. getAttemptExpiration a s = Some t \<longrightarrow> now < t)
       \<and> (\<exists>e \<in> set (as_problems s). pe_problem e = sr_problem rq)
       \<and> (as_languages s = [] \<or> sr_language rq \<in> set (as_languages s))"
  using assms
  by (auto simp: check_open_attempt_def includes_problem_def list_ex_iff not_le split: if_splits option.splits)

lemma validate_Inr:
  assumes "validateAssessmentSubmission rq now w = (Inr u, w')"
  shows "w' = w \<and> (sr_assessment rq = None \<longleftrightarrow> sr_attempt rq = None)
       \<and> (\<forall>aid i. sr_assessment rq = Some aid \<longrightarrow> sr_attempt rq = Some i \<longrightarrow> accepts w rq now aid i)"
  using assms
  by (auto simp: validateAssessmentSubmission_def accepts_def split: option.splits if_splits
      dest!: check_open_attempt_Inr)

lemma validate_Inl_frame:
  assumes "validateAssessmentSubmission rq now w = (r, w')"
  shows "\<exists>ats. w' = w\<lparr>w_attempts := ats\<rparr>"
  using assms
  by (auto simp: validateAssessmentSubmission_def check_open_attempt_def attempts_update_def Let_def
      split: option.splits if_splits prod.splits intro: exI [of _ "w_attempts w"])

lemma log_submission_frame: "\<exists>ats. log_submission ok p s t w = w\<lparr>w_attempts := ats\<rparr>"
  by (auto simp: log_submission_def attempts_update_def Let_def split: option.splits
      intro: exI [of _ "w_attempts w"])

lemma function_name_nonempty: "function_name_of p \<noteq> []"
  by (auto simp: function_name_of_def split: option.splits)

lemma judge_message_valid:
  "code \<noteq> [] \<Longrightarrow> lang \<noteq> [] \<Longrightarrow>
     validateSubmissionMessage ((buildJudgeMessageBody i p lang code r)\<lparr>jm_college := c\<rparr>)"
  by (simp add: validateSubmissionMessage_def buildJudgeMessageBody_def function_name_nonempty)

definition judge_message_of :: "submit_request \<Rightarrow> oid \<Rightarrow> problem \<Rightarrow> judge_message" where
  "judge_message_of rq nid p =
     (buildJudgeMessageBody nid p (sr_language rq) (sr_code rq) (sr_request rq))\<lparr>jm_college := sr_college rq\<rparr>"

text \<open>The three ways the second half of the handler ends once a document has been created.\<close>

lemma create_submission_cases:
  assumes "create_submission env nid rq clk w = (r, w')"
  obtains (refused) "w' = w" "\<forall>s. r \<noteq> Inr (Some s)"
    | (queued) p ats where "problems_find w (sr_problem rq) = Some p"
        "length (w_queue w) < MAX_QUEUE_DEPTH" "w_queue_up w"
        "r = Inr (Some (new_submission rq nid (clk 4)))"
        "w' = w\<lparr>w_submissions := w_submissions w @ [new_submission rq nid (clk 4)], w_attempts := ats,
               w_queue := w_queue w @ [judge_message_of rq nid p]\<rparr>"
    | (orphan) ats where "r = Inl overloaded_error \<or> r = Inl queue_unavailable"
        "w' = w\<lparr>w_submissions := w_submissions w @ [new_submission rq nid (clk 4)], w_attempts := ats\<rparr>"
proof (cases "problems_find w (sr_problem rq)")
  case None
  with assms show ?thesis by (intro refused) (auto simp: create_submission_def)
next
  case (Some p)
  let ?s = "new_submission rq nid (clk 4)"
  let ?w1 = "w\<lparr>w_submissions := w_submissions w @ [?s]\<rparr>"
  show ?thesis
  proof (cases "(pr_premium p \<and> sr_college rq \<noteq> None \<and> \<not> collegeAllowsPremium (se_price env) (sr_college rq) w)
                \<or> sr_code rq = [] \<or> sr_language rq = []")
    case True
    with assms Some show ?thesis by (intro refused) (auto simp: create_submission_def split: if_splits)
  next
    case False
    obtain ats where ats: "log_submission (se_timeline_ok env) p ?s (clk 5) ?w1 = ?w1\<lparr>w_attempts := ats\<rparr>"
      using log_submission_frame by blast
    have run: "enqueue rq p ?s (?w1\<lparr>w_attempts := ats\<rparr>) = (r, w')"
      using assms Some False ats by (auto simp: create_submission_def submissions_create_def)
    have m: "(buildJudgeMessageBody (su_id ?s) p (sr_language rq) (sr_code rq) (sr_request rq))
                \<lparr>jm_college := sr_college rq\<rparr> = judge_message_of rq nid p"
      by (simp add: judge_message_of_def new_submission_def)
    have valid: "validateSubmissionMessage (judge_message_of rq nid p)"
      using False by (simp add: judge_message_of_def judge_message_valid)
    show ?thesis
    proof (cases "w_queue_up w \<and> length (w_queue w) < MAX_QUEUE_DEPTH")
      case True
      with run valid m Some show ?thesis
        by (intro queued [of p ats]) (auto simp: enqueue_def publishSubmissionMessage_def)
    next
      case False
      with run valid m show ?thesis
        by (intro orphan [of ats]) (auto simp: enqueue_def publishSubmissionMessage_def split: if_splits)
    qed
  qed
qed

subsection \<open>Accepted and rejected submissions\<close>



subsection \<open>A concrete run\<close>

definition sample_problem :: problem where
  "sample_problem =
     \<lparr>pr_id = 20, pr_title = ''Sum'', pr_description = ''d'', pr_difficulty = Easy, pr_type = FunctionProblem,
      pr_external = None, pr_input_format = None, pr_output_format = None, pr_function = Some ''sum'',
      pr_params = [(''a'', ''number'')], pr_return = Some ''number'', pr_time_limit = Fin 2000,
      pr_memory_limit = Fin 256, pr_compare = \<lparr>cc_mode = EXACT, cc_tolerance = Fin 0, cc_order_insensitive = False,
      cc_deep_copy = False\<rparr>, pr_tests = [hidden_case], pr_tests_json = None, pr_tags = [''math''],
      pr_premium = False, pr_submissions = 0, pr_accepted = 0, pr_created = 0\<rparr>"

definition sample_user :: "oid \<Rightarrow> role \<Rightarrow> user" where
  "sample_user i r = \<lparr>u_id = i, u_name = ''N'', u_email = show_nat i, u_password = ''h'', u_role = r,
     u_usn = None, u_section = None, u_college = Some 4, u_created = 0\<rparr>"

definition sample_world :: world where
  "sample_world = empty_world\<lparr>w_users := [sample_user 2 Student], w_problems := [sample_problem],
     w_assessments := [sample_assessment], w_attempts := [sample_attempt]\<rparr>"

definition sample_submit_env :: submit_env where
  "sample_submit_env = \<lparr>se_quota = \<lparr>qc_college_limit = 30, qc_college_window = 60, qc_student_limit = 10,
     qc_student_window = 60\<rparr>, se_price = JNull, se_month = (\<lambda>t. 0), se_db_ok = True,
     se_student_fault = 0, se_college_fault = 0, se_timeline_ok = True\<rparr>"

definition sample_submit :: submit_request where
  "sample_submit = \<lparr>sr_problem = 20, sr_code = ''x'', sr_language = ''python'', sr_user = 2, sr_college = None,
     sr_assessment = Some 10, sr_attempt = Some 30, sr_request = None, sr_ext_student = None,
     sr_ext_assessment = None\<rparr>"

lemmas sample_defs = sample_world_def sample_submit_env_def sample_submit_def sample_user_def
  sample_problem_def sample_assessment_def sample_attempt_def new_attempt_def empty_world_def

lemma sample_validate: "validateAssessmentSubmission sample_submit 2000 sample_world = (Inr (), sample_world)"
  by (simp add: validateAssessmentSubmission_def check_open_attempt_def includes_problem_def
      getAttemptExpiration_def attempts_find_def assessments_find_def users_find_def problems_find_def
      num_min_def sample_defs)

lemma sample_quotas:
  "check_quotas sample_submit_env (sample_submit\<lparr>sr_college := None\<rparr>) clk (sample_world\<lparr>w_queue := q\<rparr>)
     = (Inr (), sample_world\<lparr>w_queue := q\<rparr>)"
  by (simp add: check_quotas_def checkStudentSubmissionQuota_def checkFixedWindowQuota_def quota_open_def
      sample_defs)


text \<open>With a full queue the request is refused, yet its document stays behind as pending.\<close>

definition full_queue :: "judge_message list" where
  "full_queue = replicate 5000 (judge_message_of sample_submit 0 sample_problem)"

definition practice_submit :: submit_request where
  "practice_submit = sample_submit\<lparr>sr_assessment := None, sr_attempt := None\<rparr>"


subsection \<open>Reading submissions\<close>

text \<open>The document a read is answered from: the live cache entry, else the stored one.\<close>

definition source_of :: "oid \<Rightarrow> time \<Rightarrow> world \<Rightarrow> submission option" where
  "source_of i now w =
     (case getCacheJSON (cache_key i) now w of Some s \<Rightarrow> Some s | None \<Rightarrow> submissions_find w i None)"

lemma present_problems: "w_problems w = w_problems w' \<Longrightarrow> present s v w = present s v w'"
  by (simp add: present_def problems_find_def)

lemma setCacheJSON_problems [simp]: "w_problems (setCacheJSON k s ttl now w) = w_problems w"
  by (simp add: setCacheJSON_def split: option.splits)

text \<open>A submission is shown only to its owner, to a superadmin, or to an admin or faculty member of
  its college (of any college while it has none); everybody but these privileged roles gets it with
  the hidden tests' details removed.\<close>

theorem submission_view_access:
  assumes "getSubmissionById i v clk w = (Inr (View t), w')"
  shows "\<exists>s u. source_of i (clk 0) w = Some s \<and> vw_user v = Some u \<and>
     (vw_role v = Some Superadmin \<and> t = s \<or>
      vw_role v \<in> {Some Admin, Some Faculty} \<and> (su_college s = None \<or> su_college s = vw_college v) \<and> t = s \<or>
      vw_role v \<in> {None, Some Student} \<and> u = su_user s \<and>
        sanitizeSubmissionForStudent s (problems_find w (su_problem s)) = Inr t)"
proof -
  from assms obtain s where src: "source_of i (clk 0) w = Some s" and acc: "canAccessSubmission s v"
      and shown: "present s v w = Inr (View t)"
    by (auto simp: getSubmissionById_def source_of_def Let_def split: option.splits if_splits
        dest: present_problems [THEN trans, rotated])
  from acc obtain u where u: "vw_user v = Some u" by (cases "vw_user v") (auto simp: canAccessSubmission_def)
  have "vw_role v \<in> {None, Some Student, Some Admin, Some Faculty, Some Superadmin}"
    by (cases "vw_role v") (simp, metis (full_types) insert_iff role.exhaust)
  with src acc shown u show ?thesis
    by (auto simp: canAccessSubmission_def present_def isPrivilegedRole_def split: if_splits sum.splits)
qed

definition sample_result :: jsval where
  "sample_result = JObj [(''details'', JArr [JObj [(''test'', jint 1), (''expected'', JStr ''secret'')]])]"

definition judged :: submission where
  "judged = (new_submission sample_submit 99 5)\<lparr>su_status := Success, su_score := 1, su_result := sample_result\<rparr>"

definition student_viewer :: viewer where
  "student_viewer = \<lparr>vw_user = Some 2, vw_role = Some Student, vw_college = None\<rparr>"

lemmas view_eval = getSubmissionById_def getCacheJSON_def setCacheJSON_def submissions_find_def
  canAccessSubmission_def present_def isPrivilegedRole_def problems_find_def student_viewer_def

lemma submission_view_access_witness:
  "\<exists>t. sanitizeSubmissionForStudent judged (Some sample_problem) = Inr t"
proof -
  let ?w = "sample_world\<lparr>w_submissions := [judged]\<rparr>"
  have san: "\<exists>t. sanitizeSubmissionForStudent judged (Some sample_problem) = Inr t"
    by (simp add: sanitizeSubmissionForStudent_def judged_def new_submission_def parseOutputJSON_def
        sanitize_value_def sanitizeResultDetails_def sample_result_def sample_problem_def)
  have fields: "su_id judged = 99" "su_user judged = 2" "su_problem judged = 20" "su_college judged = None"
      "w_redis sample_world = None" "w_problems sample_world = [sample_problem]" "pr_id sample_problem = 20"
    by (simp_all add: judged_def new_submission_def sample_defs)
  from san obtain t where t: "sanitizeSubmissionForStudent judged (Some sample_problem) = Inr t" ..
  then have "getSubmissionById 99 student_viewer (\<lambda>k. 0) ?w = (Inr (View t), ?w)"
    by (simp add: view_eval fields)
  from submission_view_access [OF this] show ?thesis
    by (auto simp: source_of_def view_eval fields)
qed

subsection \<open>Rejudging and the cache\<close>

lemma submissions_save_find:
  assumes "submissions_find w (su_id s) None \<noteq> None"
  shows "submissions_find (submissions_save s w) (su_id s) None = Some s"
  using assms by (auto simp: submissions_find_def submissions_save_def find_update_first)

text \<open>A rejudge that is accepted resets the stored submission to pending with no score, output or
  result and queues one message for it, but it leaves the cache alone: while the entry lives, readers
  are still served the old verdict.\<close>

theorem rejudge_resets_but_keeps_cache:
  assumes "rejudgeSubmission i w = (Inr s', w')"
  shows "\<exists>s p. submissions_find w i None = Some s \<and> problems_find w (su_problem s) = Some p
      \<and> s' = reset_submission s \<and> submissions_find w' i None = Some s'
      \<and> w_queue w' = w_queue w @ [rejudge_message s' p]
      \<and> (\<forall>now. getCacheJSON (cache_key i) now w' = getCacheJSON (cache_key i) now w)
      \<and> (\<forall>now c v. getCacheJSON (cache_key i) now w = Some c \<longrightarrow> isPrivilegedRole (vw_role v) \<longrightarrow>
           canAccessSubmission c v \<longrightarrow> fst (getSubmissionById i v (\<lambda>k. now) w') = Inr (View c))"
proof -
  from assms obtain s p where s: "submissions_find w i None = Some s" and p: "problems_find w (su_problem s) = Some p"
      and s': "s' = reset_submission s"
      and w': "w' = (submissions_save s' w)\<lparr>w_queue := w_queue w @ [rejudge_message s' p]\<rparr>"
    by (auto simp: rejudgeSubmission_def publishSubmissionMessage_def Let_def submissions_save_def
        split: option.splits if_splits)
  have id: "su_id s = i" using s by (auto simp: submissions_find_def dest: find_holds)
  have "submissions_find (submissions_save s' w) i None = Some s'"
    using submissions_save_find [of w s'] s id by (simp add: s' reset_submission_def)
  then have stored: "submissions_find w' i None = Some s'"
    by (simp add: w' submissions_find_def)
  have cache: "getCacheJSON (cache_key i) now w' = getCacheJSON (cache_key i) now w" for now
    by (simp add: w' getCacheJSON_def submissions_save_def)
  show ?thesis
    using s p s' stored cache by (auto simp: w' getSubmissionById_def present_def)
qed

lemma rejudge_resets_but_keeps_cache_witness:
  "\<exists>w'. rejudgeSubmission 99 (sample_world\<lparr>w_submissions := [judged]\<rparr>) = (Inr (reset_submission judged), w')
     \<and> submissions_find w' 99 None = Some (reset_submission judged)"
proof -
  let ?w = "sample_world\<lparr>w_submissions := [judged]\<rparr>"
  have "\<exists>w'. rejudgeSubmission 99 ?w = (Inr (reset_submission judged), w')"
    by (simp add: rejudgeSubmission_def submissions_find_def problems_find_def judged_def new_submission_def
        validateSubmissionMessage_def rejudge_message_def buildJudgeMessageBody_def function_name_of_def
        reset_submission_def publishSubmissionMessage_def submissions_save_def MAX_QUEUE_DEPTH_def Let_def
        sample_defs)
  then obtain w' where run: "rejudgeSubmission 99 ?w = (Inr (reset_submission judged), w')" ..
  from rejudge_resets_but_keeps_cache [OF this] run show ?thesis by auto
qed

end
