(* ===== verification/Type_Grammar.thy ===== *)
theory Type_Grammar
  imports Js_Value
begin

section \<open>The platform's type grammar\<close>

text \<open>
  \<^verbatim>\<open>utils/typeValidator.mjs\<close>: \<open>isValidType\<close>, which decides whether a string is a type of the platform, and
  \<open>validateData\<close>, which checks a JSON value against such a string. Both work on the text with a regular
  expression; the abstract syntax \<open>ty\<close> and the typing \<open>has_type\<close> say what they mean, and the theorems
  show that the text-based routines decide exactly that.
\<close>

subsection \<open>The pattern \<^verbatim>\<open>^([a-z]+)(?:<(.+)>)?$\<close>\<close>

text \<open>A dot of the pattern matches everything but a line terminator.\<close>

definition is_newline :: "char \<Rightarrow> bool" where
  "is_newline c \<longleftrightarrow> of_char c \<in> {10, 13 :: nat}"

definition match_type :: "string \<Rightarrow> (string \<times> string option) option" where
  "match_type s =
     (let k = takeWhile is_lower s; r = dropWhile is_lower s in
      if k = [] then None
      else if r = [] then Some (k, None)
      else if hd r = CHR ''<'' \<and> last r = CHR ''>'' \<and> 3 \<le> length r \<and>
              list_all (\<lambda>c. \<not> is_newline c) (butlast (tl r))
      then Some (k, Some (butlast (tl r)))
      else None)"

definition VALID_KINDS :: "string list" where
  "VALID_KINDS = [''number'', ''string'', ''boolean'', ''array'', ''matrix'', ''tree'', ''linkedlist'', ''graph'', ''void'']"

definition GENERIC_KINDS :: "string list" where
  "GENERIC_KINDS = [''array'', ''matrix'', ''tree'', ''linkedlist'', ''graph'']"

lemma match_type_length: "match_type s = Some (k, Some i) \<Longrightarrow> length i < length s"
proof -
  assume "match_type s = Some (k, Some i)"
  then have "length i = length (dropWhile is_lower s) - 2" "3 \<le> length (dropWhile is_lower s)"
    by (auto simp: match_type_def Let_def split: if_splits)
  moreover have "length (dropWhile is_lower s) \<le> length s" by (rule length_dropWhile_le)
  ultimately show ?thesis by linarith
qed

lemma match_type_empty [simp]: "match_type (js_trim []) = None"
  by (simp add: match_type_def js_trim_def)

lemma match_type_trim_length:
  "match_type (js_trim s) = Some (k, Some i) \<Longrightarrow> length i < length s"
  using match_type_length [of "js_trim s" k i] length_js_trim [of s] by simp

function isValidType_text :: "string \<Rightarrow> bool" where
  "isValidType_text s =
     (if s = [] \<or> js_trim s = [] then False
      else (case match_type (js_trim s) of
              None \<Rightarrow> False
            | Some (kind, None) \<Rightarrow> kind \<in> set VALID_KINDS \<and> kind \<notin> set GENERIC_KINDS
            | Some (kind, Some i) \<Rightarrow>
                kind \<in> set VALID_KINDS \<and> kind \<in> set GENERIC_KINDS \<and> isValidType_text i))"
  by pat_completeness auto
termination
  by (relation "measure length") (auto dest: match_type_trim_length)

declare isValidType_text.simps [simp del]

definition isValidType :: "jsval \<Rightarrow> bool" where
  "isValidType v = (case v of JStr s \<Rightarrow> isValidType_text s | _ \<Rightarrow> False)"

subsection \<open>Checking a value\<close>

text \<open>The loops return at the first element with an error.\<close>

fun first_error :: "(nat \<Rightarrow> 'a \<Rightarrow> string option) \<Rightarrow> nat \<Rightarrow> 'a list \<Rightarrow> string option" where
  "first_error f i [] = None"
| "first_error f i (x # xs) = (case f i x of Some e \<Rightarrow> Some e | None \<Rightarrow> first_error f (Suc i) xs)"

lemma first_error_cong [fundef_cong]:
  assumes "xs = ys" and "i = j" and "\<And>k x. x \<in> set ys \<Longrightarrow> f k x = g k x"
  shows "first_error f i xs = first_error g j ys"
  using assms(3) unfolding assms(1,2) by (induction ys arbitrary: j) (auto split: option.splits)

definition prefix_error :: "string \<Rightarrow> string option \<Rightarrow> string option" where
  "prefix_error p = map_option (\<lambda>e. p @ e)"

definition index_text :: "nat \<Rightarrow> string" where
  "index_text i = ''['' @ show_nat i @ '']''"

definition expected_got :: "string \<Rightarrow> jsval \<Rightarrow> string option" where
  "expected_got what data = Some (''Expected '' @ what @ '', got '' @ typeof data)"

text \<open>
  The kinds whose values are arrays of arrays (\<^verbatim>\<open>matrix\<close> and \<^verbatim>\<open>graph\<close>) share one loop, the other
  containers another; \<open>chk\<close> is the recursive call on the inner type.
\<close>

definition check_items ::
    "string \<Rightarrow> string \<Rightarrow> bool \<Rightarrow> (jsval \<Rightarrow> string option) \<Rightarrow> jsval \<Rightarrow> string option" where
  "check_items what item nullable chk data =
     (if \<not> is_array data then expected_got what data
      else first_error (\<lambda>i d. if nullable \<and> d = JNull then None
                              else prefix_error (item @ '' at '' @ index_text i @ '': '') (chk d)) 0 (elems data))"

definition check_rows ::
    "string \<Rightarrow> string \<Rightarrow> string \<Rightarrow> (jsval \<Rightarrow> string option) \<Rightarrow> jsval \<Rightarrow> string option" where
  "check_rows what row item chk data =
     (if \<not> is_array data then expected_got what data
      else first_error (\<lambda>i d. if \<not> is_array d then Some (row @ '' at '' @ index_text i @ '' is not an array'')
             else first_error (\<lambda>j e. prefix_error (item @ '' at '' @ index_text i @ index_text j @ '': '') (chk e)) 0 (elems d))
             0 (elems data))"

lemma first_error_all:
  assumes "\<And>k x. f k x = None \<longleftrightarrow> P x"
  shows "first_error f i xs = None \<longleftrightarrow> (\<forall>x \<in> set xs. P x)"
proof (induction xs arbitrary: i)
  case (Cons x xs)
  then show ?case using assms [of i x] by (cases "f i x") auto
qed simp

lemma check_items_None:
  "check_items what item nullable chk data = None \<longleftrightarrow>
     is_array data \<and> (\<forall>x \<in> set (elems data). (nullable \<and> x = JNull) \<or> chk x = None)"
proof -
  have "first_error (\<lambda>i d. if nullable \<and> d = JNull then None
      else prefix_error (item @ '' at '' @ index_text i @ '': '') (chk d)) 0 (elems data) = None
    \<longleftrightarrow> (\<forall>x \<in> set (elems data). (nullable \<and> x = JNull) \<or> chk x = None)"
    by (rule first_error_all) (auto simp: prefix_error_def)
  then show ?thesis by (simp add: check_items_def expected_got_def)
qed

lemma check_rows_None:
  "check_rows what row item chk data = None \<longleftrightarrow>
     is_array data \<and> (\<forall>r \<in> set (elems data). is_array r \<and> (\<forall>x \<in> set (elems r). chk x = None))"
proof -
  have inner: "first_error (\<lambda>j e. prefix_error (item @ '' at '' @ index_text i @ index_text j @ '': '') (chk e)) 0 (elems d)
      = None \<longleftrightarrow> (\<forall>x \<in> set (elems d). chk x = None)" for i d
    by (rule first_error_all) (simp add: prefix_error_def)
  have "first_error (\<lambda>i d. if \<not> is_array d then Some (row @ '' at '' @ index_text i @ '' is not an array'')
      else first_error (\<lambda>j e. prefix_error (item @ '' at '' @ index_text i @ index_text j @ '': '') (chk e)) 0 (elems d))
      0 (elems data) = None \<longleftrightarrow> (\<forall>r \<in> set (elems data). is_array r \<and> (\<forall>x \<in> set (elems r). chk x = None))"
    by (rule first_error_all) (metis (no_types, lifting) inner option.distinct(1))
  then show ?thesis by (simp add: check_rows_def expected_got_def)
qed

lemma check_items_cong [fundef_cong]:
  assumes "data = data'" and "what = what'" and "item = item'" and "nullable = nullable'"
    and "\<And>d. chk d = chk' d"
  shows "check_items what item nullable chk data = check_items what' item' nullable' chk' data'"
proof -
  have "chk = chk'" using assms(5) by (rule ext)
  then show ?thesis by (simp add: assms(1-4))
qed

lemma check_rows_cong [fundef_cong]:
  assumes "data = data'" and "what = what'" and "row = row'" and "item = item'" and "\<And>d. chk d = chk' d"
  shows "check_rows what row item chk data = check_rows what' row' item' chk' data'"
proof -
  have "chk = chk'" using assms(5) by (rule ext)
  then show ?thesis by (simp add: assms(1-4))
qed

text \<open>\<^verbatim>\<open>validateData(data, typeStr)\<close>; \<open>None\<close> is \<^verbatim>\<open>{ valid: true }\<close>. An absent inner type is \<open>None\<close>.\<close>

function validateData :: "jsval \<Rightarrow> string option \<Rightarrow> string option" where
  "validateData data ts =
     (case match_type (js_trim (case ts of Some s \<Rightarrow> s | None \<Rightarrow> [])) of
        None \<Rightarrow> Some (''Invalid type string: '' @ (case ts of Some s \<Rightarrow> s | None \<Rightarrow> ''undefined''))
      | Some (kind, i) \<Rightarrow>
          if kind = ''number'' then (if typeof data \<noteq> ''number'' then expected_got ''number'' data else None)
          else if kind = ''string'' then (if typeof data \<noteq> ''string'' then expected_got ''string'' data else None)
          else if kind = ''boolean'' then (if typeof data \<noteq> ''boolean'' then expected_got ''boolean'' data else None)
          else if kind = ''void''
          then (if data \<noteq> JNull \<and> data \<noteq> JUndef \<and> data \<noteq> JStr [] then expected_got ''void (null/empty)'' data else None)
          else if kind = ''array'' then check_items ''array'' ''Array item'' False (\<lambda>d. validateData d i) data
          else if kind = ''matrix''
          then check_rows ''matrix (array)'' ''Matrix row'' ''Matrix item'' (\<lambda>d. validateData d i) data
          else if kind = ''tree''
          then check_items ''tree representation as array'' ''Tree node'' True (\<lambda>d. validateData d i) data
          else if kind = ''linkedlist''
          then check_items ''linked list representation as array'' ''Linked list node'' False (\<lambda>d. validateData d i) data
          else if kind = ''graph''
          then check_rows ''graph representation as adjacency list (array)'' ''Graph adjacency list''
                 ''Graph neighbor value'' (\<lambda>d. validateData d i) data
          else Some (''Unsupported validation for kind: '' @ kind))"
  by pat_completeness auto
termination
proof (relation "measure (\<lambda>(d, ts). case ts of None \<Rightarrow> 0 | Some s \<Rightarrow> Suc (length s))")
qed (auto split: option.splits dest: match_type_trim_length match_type_length)

declare validateData.simps [simp del]

subsection \<open>What the routines mean\<close>

datatype ty = TNumber | TString | TBool | TVoid | TArray ty | TMatrix ty | TTree ty | TList ty | TGraph ty

definition one_line :: "string \<Rightarrow> bool" where
  "one_line s \<longleftrightarrow> s \<noteq> [] \<and> list_all (\<lambda>c. \<not> is_newline c) s"

text \<open>\<open>spelled s t\<close>: the text \<open>s\<close> is a spelling of the type \<open>t\<close>; white space around a type does not count.\<close>

definition plain_type :: "string \<Rightarrow> ty option" where
  "plain_type k =
     (if k = ''number'' then Some TNumber else if k = ''string'' then Some TString
      else if k = ''boolean'' then Some TBool else if k = ''void'' then Some TVoid else None)"

definition container :: "string \<Rightarrow> (ty \<Rightarrow> ty) option" where
  "container k =
     (if k = ''array'' then Some TArray else if k = ''matrix'' then Some TMatrix
      else if k = ''tree'' then Some TTree else if k = ''linkedlist'' then Some TList
      else if k = ''graph'' then Some TGraph else None)"

inductive spelled :: "string \<Rightarrow> ty \<Rightarrow> bool" where
  plain: "plain_type (js_trim s) = Some t \<Longrightarrow> spelled s t"
| inner: "container k = Some c \<Longrightarrow> js_trim s = k @ CHR ''<'' # i @ [CHR ''>''] \<Longrightarrow> one_line i \<Longrightarrow> spelled i t
     \<Longrightarrow> spelled s (c t)"

fun has_type :: "jsval \<Rightarrow> ty \<Rightarrow> bool" where
  "has_type d TNumber = (typeof d = ''number'')"
| "has_type d TString = (typeof d = ''string'')"
| "has_type d TBool = (typeof d = ''boolean'')"
| "has_type d TVoid = (d = JNull \<or> d = JUndef \<or> d = JStr [])"
| "has_type d (TArray t) = (is_array d \<and> (\<forall>x \<in> set (elems d). has_type x t))"
| "has_type d (TMatrix t) =
     (is_array d \<and> (\<forall>r \<in> set (elems d). is_array r \<and> (\<forall>x \<in> set (elems r). has_type x t)))"
| "has_type d (TTree t) = (is_array d \<and> (\<forall>x \<in> set (elems d). x = JNull \<or> has_type x t))"
| "has_type d (TList t) = (is_array d \<and> (\<forall>x \<in> set (elems d). has_type x t))"
| "has_type d (TGraph t) =
     (is_array d \<and> (\<forall>r \<in> set (elems d). is_array r \<and> (\<forall>x \<in> set (elems r). has_type x t)))"

text \<open>How the pattern reads a kind with and without an inner type.\<close>

lemma match_plain: "k \<noteq> [] \<Longrightarrow> list_all is_lower k \<Longrightarrow> match_type k = Some (k, None)"
proof -
  assume a: "k \<noteq> []" "list_all is_lower k"
  then have t: "takeWhile is_lower k = k" by (simp add: list_all_iff)
  from a show ?thesis unfolding match_type_def Let_def t by (simp add: list_all_iff)
qed

lemma angle_not_lower [simp]: "\<not> is_lower (CHR ''<'')"
  by (simp add: is_lower_def)

lemma match_generic:
  assumes "k \<noteq> []" and "list_all is_lower k" and "one_line i"
  shows "match_type (k @ CHR ''<'' # i @ [CHR ''>'']) = Some (k, Some i)"
proof -
  have all: "\<forall>c \<in> set k. is_lower c" using assms(2) by (simp add: list_all_iff)
  have "takeWhile is_lower (k @ CHR ''<'' # i @ [CHR ''>'']) = k"
      "dropWhile is_lower (k @ CHR ''<'' # i @ [CHR ''>'']) = CHR ''<'' # i @ [CHR ''>'']"
    using all by (simp_all add: takeWhile_append2 dropWhile_append2)
  with assms(1,3) show ?thesis
    by (cases i) (simp_all add: match_type_def Let_def one_line_def butlast_append)
qed

lemma match_type_None:
  assumes "match_type s = Some (k, None)"
  shows "s = k \<and> k \<noteq> []"
proof -
  have "dropWhile is_lower s = []" "k = takeWhile is_lower s" "k \<noteq> []"
    using assms by (auto simp: match_type_def Let_def split: if_splits)
  then show ?thesis by (metis append_Nil2 takeWhile_dropWhile_id)
qed

lemma match_type_Some:
  assumes "match_type s = Some (k, Some i)"
  shows "s = k @ CHR ''<'' # i @ [CHR ''>''] \<and> one_line i"
proof -
  let ?r = "dropWhile is_lower s"
  have r: "hd ?r = CHR ''<''" "last ?r = CHR ''>''" "3 \<le> length ?r" "list_all (\<lambda>c. \<not> is_newline c) (butlast (tl ?r))"
      and k: "k = takeWhile is_lower s" "i = butlast (tl ?r)"
    using assms by (auto simp: match_type_def Let_def split: if_splits)
  obtain c t where ct: "?r = c # t" using r(3) by (cases ?r) auto
  then have "t \<noteq> []" using r(3) by auto
  then have "t = butlast t @ [last t]" by (rule append_butlast_last_id [symmetric])
  moreover have "last t = CHR ''>''" using r(2) \<open>t \<noteq> []\<close> unfolding ct by simp
  moreover have i: "i = butlast t" unfolding k(2) ct by simp
  ultimately have t: "t = i @ [CHR ''>'']" by metis
  then have "i \<noteq> []" using r(3) unfolding ct by auto
  moreover have "?r = CHR ''<'' # i @ [CHR ''>'']" using r(1) t unfolding ct by simp
  then have "s = k @ CHR ''<'' # i @ [CHR ''>'']" by (metis k(1) takeWhile_dropWhile_id)
  moreover have "list_all (\<lambda>c. \<not> is_newline c) i" using r(4) unfolding k(2) .
  ultimately show ?thesis unfolding one_line_def by blast
qed

lemma plain_types:
  "plain_type k = Some t \<Longrightarrow> match_type k = Some (k, None) \<and> k \<in> set VALID_KINDS \<and> k \<notin> set GENERIC_KINDS"
  by (auto simp: plain_type_def VALID_KINDS_def GENERIC_KINDS_def match_plain is_lower_def split: if_splits)

lemma containers:
  "container k = Some c \<Longrightarrow> k \<noteq> [] \<and> list_all is_lower k \<and> k \<in> set VALID_KINDS \<and> k \<in> set GENERIC_KINDS"
  by (auto simp: container_def VALID_KINDS_def GENERIC_KINDS_def is_lower_def split: if_splits)

lemma kind_lists:
  "k \<in> set VALID_KINDS \<Longrightarrow> k \<notin> set GENERIC_KINDS \<Longrightarrow> \<exists>t. plain_type k = Some t"
  "k \<in> set GENERIC_KINDS \<Longrightarrow> \<exists>c. container k = Some c"
  by (auto simp: plain_type_def container_def VALID_KINDS_def GENERIC_KINDS_def)

lemma isValidType_spelled:
  "isValidType v \<longleftrightarrow> (\<exists>s t. v = JStr s \<and> spelled s t)"
proof -
  have fwd: "\<exists>t. spelled s t" if "isValidType_text s" for s
    using that
  proof (induction s rule: isValidType_text.induct)
    case (1 s)
    from 1(2) have ne: "\<not> (s = [] \<or> js_trim s = [])" by (subst (asm) isValidType_text.simps) (auto split: if_splits)
    show ?case
    proof (cases "match_type (js_trim s)")
      case None
      with 1(2) ne show ?thesis by (subst (asm) isValidType_text.simps) simp
    next
      case (Some m)
      obtain kind i where m: "m = (kind, i)" by (cases m)
      show ?thesis
      proof (cases i)
        case None
        with Some m 1(2) ne have "kind \<in> set VALID_KINDS" "kind \<notin> set GENERIC_KINDS"
          by (simp_all add: isValidType_text.simps [of s])
        from kind_lists(1) [OF this] match_type_None [of "js_trim s" kind] Some m None show ?thesis
          by (auto intro: plain)
      next
        case (Some j)
        with \<open>match_type (js_trim s) = Some m\<close> m 1(2) ne have k: "kind \<in> set GENERIC_KINDS" "isValidType_text j"
          by (simp_all add: isValidType_text.simps [of s])
        from 1(1) [OF ne \<open>match_type (js_trim s) = Some m\<close> m [symmetric] Some] k(2) obtain t where t: "spelled j t" by blast
        from match_type_Some [of "js_trim s" kind j] \<open>match_type (js_trim s) = Some m\<close> m Some
        have "js_trim s = kind @ CHR ''<'' # j @ [CHR ''>'']" "one_line j" by simp_all
        with kind_lists(2) [OF k(1)] t show ?thesis by (blast intro: inner)
      qed
    qed
  qed
  have bwd: "isValidType_text s" if "spelled s t" for s t
    using that
  proof (induction rule: spelled.induct)
    case (plain s t)
    then have "js_trim s \<noteq> []" by (auto simp: plain_type_def)
    moreover from this have "s \<noteq> []" by (auto simp: js_trim_def)
    ultimately have "s \<noteq> []" "js_trim s \<noteq> []" by simp_all
    with plain_types [OF plain] show ?case by (simp add: isValidType_text.simps [of s])
  next
    case (inner k c s i t)
    note c = containers [OF inner(1)]
    have ne: "js_trim s \<noteq> []" using inner(2) by simp
    then have "s \<noteq> []" by (auto simp: js_trim_def)
    moreover note ne
    moreover have "match_type (js_trim s) = Some (k, Some i)"
      unfolding inner(2) using c inner(3) by (intro match_generic) simp_all
    ultimately show ?case using c inner.IH by (simp add: isValidType_text.simps [of s])
  qed
  from fwd bwd show ?thesis by (cases v) (auto simp: isValidType_def)
qed

lemma validateData_typed:
  assumes "spelled s t"
  shows "validateData d (Some s) = None \<longleftrightarrow> has_type d t"
  using assms
proof (induction arbitrary: d rule: spelled.induct)
  case (plain s t)
  note m = conjunct1 [OF plain_types [OF plain]]
  show ?case
    using plain by (auto simp: validateData.simps [of d] m plain_type_def expected_got_def split: if_splits)
next
  case (inner k c s i t)
  note k = containers [OF inner(1)]
  have m: "match_type (js_trim s) = Some (k, Some i)"
    unfolding inner(2) using k inner(3) by (intro match_generic) simp_all
  from inner(1) consider "k = ''array''" "c = TArray" | "k = ''matrix''" "c = TMatrix" | "k = ''tree''" "c = TTree"
      | "k = ''linkedlist''" "c = TList" | "k = ''graph''" "c = TGraph"
    by (auto simp: container_def split: if_splits)
  then show ?case
    by cases (simp_all add: validateData.simps [of d] m check_items_None check_rows_None inner.IH)
qed

text \<open>A value is accepted as a type exactly when it is a string that spells a type of the grammar: a plain
  kind, or a container kind with a type between angle brackets, to any depth.\<close>

theorem valid_types_exact:
  "isValidType v \<longleftrightarrow> (\<exists>s t. v = JStr s \<and> spelled s t)"
  by (rule isValidType_spelled)

text \<open>C19: checking a value against a spelling of a type accepts exactly the values of that type, however deeply
  the type and the value are nested.\<close>

theorem validate_data_exact:
  assumes "spelled s t"
  shows "validateData d (Some s) = None \<longleftrightarrow> has_type d t"
  using assms by (rule validateData_typed)

lemma validate_data_exact_witness:
  "validateData (JArr [JArr [jint 1, JNull]]) (Some ''array< tree<number> >'') = None \<and>
   validateData (JArr [JArr [JStr ''x'']]) (Some ''array< tree<number> >'') \<noteq> None"
proof -
  have number: "spelled ''number'' TNumber" by (rule plain) code_simp
  have tree: "spelled '' tree<number> '' (TTree TNumber)"
    by (rule inner [OF _ _ _ number, where k = "''tree''"]) (simp add: container_def, code_simp+)
  have "spelled ''array< tree<number> >'' (TArray (TTree TNumber))"
    by (rule inner [OF _ _ _ tree, where k = "''array''"]) (simp add: container_def, code_simp+)
  from validate_data_exact [OF this] show ?thesis by simp
qed

end
