(* ===== verification/Preview.thy ===== *)
theory Preview
  imports Type_Grammar
begin

section \<open>Deep validation of a problem and the wrapper preview\<close>

text \<open>
  \<^verbatim>\<open>preview.service.js\<close>: the four stages a problem passes before it is stored (schema, types and data,
  wrapper generation, reference solution) and the preview of a language wrapper. The compiled JSON schema
  (Ajv), the template files and the judge's HTTP interface are parameters. A field the schema has
  established as an array is read with \<open>elems\<close>.
\<close>

text \<open>
  What a call of the judge gives: no answer (with the error's message), an answer with an error status and
  its text, one whose body is no JSON (with the parser's message), or one whose body is a JSON value.
\<close>

datatype judge_reply =
    Unreachable string
  | Refused nat string
  | Garbled string
  | Replied jsval

record preview_env =
  pv_schema :: "jsval \<Rightarrow> string list"
  pv_template :: "string \<Rightarrow> string option"
  pv_judge :: "jsval \<Rightarrow> judge_reply"

record validation_report =
  vr_schema :: bool
  vr_types :: bool
  vr_wrapper :: bool
  vr_reference :: bool
  vr_errors :: "string list"

subsection \<open>Wrappers\<close>

text \<open>
  \<^verbatim>\<open>s.replace(/pattern/g, replacement)\<close> with a literal pattern. In the replacement \<^verbatim>\<open>$$\<close>, \<^verbatim>\<open>$&\<close>, \<^verbatim>\<open>$`\<close> and \<^verbatim>\<open>$'\<close>
  stand for a dollar, the match, the text before it and the text after it.
\<close>

fun expand_dollars :: "string \<Rightarrow> string \<Rightarrow> string \<Rightarrow> string \<Rightarrow> string" where
  "expand_dollars before m after [] = []"
| "expand_dollars before m after [c] = [c]"
| "expand_dollars before m after (c # d # r) =
     (if c \<noteq> CHR ''$'' then c # expand_dollars before m after (d # r)
      else if d = CHR ''$'' then CHR ''$'' # expand_dollars before m after r
      else if d = CHR ''&'' then m @ expand_dollars before m after r
      else if d = CHR 0x60 then before @ expand_dollars before m after r
      else if d = CHR 0x27 then after @ expand_dollars before m after r
      else c # expand_dollars before m after (d # r))"

function replace_from :: "string \<Rightarrow> string \<Rightarrow> string \<Rightarrow> string \<Rightarrow> string" where
  "replace_from pat rep passed [] = []"
| "replace_from pat rep passed (c # cs) =
     (if pat \<noteq> [] \<and> starts_with pat (c # cs)
      then expand_dollars passed pat (drop (length pat) (c # cs)) rep @
           replace_from pat rep (passed @ pat) (drop (length pat) (c # cs))
      else c # replace_from pat rep (passed @ [c]) cs)"
  by pat_completeness auto
termination
  by (relation "measure (\<lambda>(pat, rep, passed, s). length s)") (auto simp: neq_Nil_conv)

definition replace_all :: "string \<Rightarrow> string \<Rightarrow> string \<Rightarrow> string" where
  "replace_all pat rep s = replace_from pat rep [] s"

definition template_file :: "string \<Rightarrow> string" where
  "template_file lang =
     (if lang = ''python'' then ''python_wrapper.tpl'' else if lang = ''java'' then ''java_wrapper.tpl''
      else if lang = ''c'' then ''c_wrapper.tpl'' else if lang = ''csharp'' then ''csharp_wrapper.tpl''
      else if lang = ''go'' then ''go_wrapper.tpl'' else ''js_wrapper.tpl'')"

definition line_break :: string where
  "line_break = [CHR 0x0A]"

definition fallback_template :: "string \<Rightarrow> string" where
  "fallback_template lang =
     (if lang = ''python''
      then ''# wrapper preview for python'' @ line_break @ ''# TESTS: {{TESTS_JSON}}'' @ line_break @
           ''# FUNCTION: {{FUNCTION_NAME}}'' @ line_break @ ''# USER_CODE_MARKER''
      else if lang = ''java''
      then ''// wrapper preview for java'' @ line_break @ ''// TESTS: {{TESTS_JSON}}'' @ line_break @
           ''// FUNCTION: {{FUNCTION_NAME}}'' @ line_break @ ''// CLASS: {{CLASS_NAME}}'' @ line_break @
           ''// USER_CODE_MARKER''
      else ''// wrapper preview for js'' @ line_break @ ''// TESTS: {{TESTS_JSON}}'' @ line_break @
           ''// FUNCTION: {{FUNCTION_NAME}}'' @ line_break @ ''// USER_CODE_MARKER'')"

definition preview_test :: "jsval \<Rightarrow> jsval" where
  "preview_test tc = JObj [(''inputs'', oget tc ''inputs''), (''expected'', oget tc ''expected''),
                           (''isHidden'', JBool (truthy (oget tc ''isHidden'')))]"

definition fill_template :: "string \<Rightarrow> string \<Rightarrow> string \<Rightarrow> string" where
  "fill_template tests fname tpl =
     replace_all ''{{CLASS_NAME}}'' fname
       (replace_all ''{{FUNCTION_NAME}}'' fname (replace_all ''{{TESTS_JSON}}'' tests tpl))"

definition json_text :: "jsval \<Rightarrow> string" where
  "json_text v = (case json_str v of Some s \<Rightarrow> s | None \<Rightarrow> ''undefined'')"

text \<open>
  The preview handler passes the request's fields on as they are: test cases that are no array, a \<^verbatim>\<open>null\<close> test
  case and a language named like a property of \<^verbatim>\<open>Object.prototype\<close> (the table of template files is a plain
  object, and \<^verbatim>\<open>path.join\<close> takes strings only) are \<open>TypeError\<close>s.
\<close>

definition buildPreview :: "preview_env \<Rightarrow> jsval \<Rightarrow> jsval \<Rightarrow> (string \<times> jsval list) result" where
  "buildPreview env problem language =
     (if \<not> truthy problem \<or> \<not> truthy language
      then http_body 400 ''Missing problem or language in request'' ''msg'' ''Missing problem or language in request''
      else
        (let lang = to_str language; cases = or_val (oget problem ''testCases'') (JArr []) in
         if lang \<in> set object_prototype_keys then Inl (TypeError ''The path argument must be of type string'')
         else if \<not> is_array cases then Inl (TypeError ''(problem.testCases || []).map is not a function'')
         else if list_ex nullish (elems cases) then Inl (null_deref ''inputs'')
         else
           (let tpl = (case pv_template env (template_file lang) of Some t \<Rightarrow> t | None \<Rightarrow> fallback_template lang);
                tests = map preview_test (elems cases);
                fname = to_str (or_val (oget problem ''functionName'') (JStr ''solution''))
            in Inr (fill_template (json_text (JArr tests)) fname tpl, tests))))"

subsection \<open>Stage 2: types and data\<close>

definition type_text :: "jsval \<Rightarrow> string option" where
  "type_text v = (case v of JStr s \<Rightarrow> Some s | _ \<Rightarrow> None)"

definition type_errors :: "jsval \<Rightarrow> string list" where
  "type_errors problem =
     map (\<lambda>p. ''Invalid type string for parameter ''@ [CHR 0x27] @ to_str (oget p ''name'') @ [CHR 0x27] @ '': '' @ to_str (oget p ''type''))
       (filter (\<lambda>p. \<not> isValidType (oget p ''type'')) (elems (oget problem ''parameters''))) @
     (if isValidType (oget problem ''returnType'') then []
      else [''Invalid returnType string: '' @ to_str (oget problem ''returnType'')])"

definition input_errors :: "nat \<Rightarrow> jsval list \<Rightarrow> jsval list \<Rightarrow> string list" where
  "input_errors i inputs params =
     concat (map (\<lambda>(d, p). case validateData d (type_text (oget p ''type'')) of
         None \<Rightarrow> []
       | Some e \<Rightarrow> [''Test case '' @ index_text i @ '' parameter '' @ [CHR 0x27] @ to_str (oget p ''name'') @ [CHR 0x27] @ '': '' @ e])
       (zip inputs params))"

definition case_errors :: "jsval \<Rightarrow> nat \<Rightarrow> jsval \<Rightarrow> string list" where
  "case_errors problem i tc =
     (let params = elems (oget problem ''parameters''); inputs = elems (oget tc ''inputs'') in
      if length inputs \<noteq> length params
      then [''Test case '' @ index_text i @ '': expected '' @ show_nat (length params) @ '' inputs, got '' @ show_nat (length inputs)]
      else input_errors i inputs params @
           (case validateData (oget tc ''expected'') (type_text (oget problem ''returnType'')) of
              None \<Rightarrow> []
            | Some e \<Rightarrow> [''Test case '' @ index_text i @ '' expected output: '' @ e]))"

fun cases_errors :: "jsval \<Rightarrow> nat \<Rightarrow> jsval list \<Rightarrow> string list" where
  "cases_errors problem i [] = []"
| "cases_errors problem i (tc # tcs) = case_errors problem i tc @ cases_errors problem (Suc i) tcs"

definition typing_errors :: "jsval \<Rightarrow> string list" where
  "typing_errors problem =
     (let errs = type_errors problem in
      if errs = [] then cases_errors problem 0 (elems (oget problem ''testCases'')) else errs)"

subsection \<open>Stage 4: the reference solution\<close>

definition judge_case :: "jsval \<Rightarrow> jsval" where
  "judge_case tc = JObj [(''inputs'', oget tc ''inputs''), (''expected'', oget tc ''expected''),
                         (''isHidden'', JBool (truthy (oget tc ''isHidden'')))]"

definition certification_message :: "time \<Rightarrow> jsval \<Rightarrow> jsval" where
  "certification_message now problem =
     JObj [(''schemaVersion'', JStr ''1''),
           (''submissionId'', JStr (''cert-'' @ show_int now)),
           (''problemId'', or_val (oget problem ''_id'') (JStr ''temp'')),
           (''language'', oget problem ''solutionLanguage''),
           (''code'', oget problem ''referenceSolution''),
           (''functionName'', oget problem ''functionName''),
           (''parameters'', oget problem ''parameters''),
           (''returnType'', oget problem ''returnType''),
           (''compareMode'', or_val (oget (oget problem ''compareConfig'') ''mode'') (JStr ''STRUCTURAL'')),
           (''floatTolerance'', or_val (oget (oget problem ''compareConfig'') ''floatTolerance'') (jnat 0)),
           (''orderInsensitive'', JBool (truthy (oget (oget problem ''compareConfig'') ''orderInsensitive''))),
           (''tests'', JArr (map judge_case (elems (oget problem ''testCases''))))]"

definition is_accepted :: "jsval \<Rightarrow> bool" where
  "is_accepted status \<longleftrightarrow> status = JStr ''Success'' \<or> status = JStr ''Accepted''"

definition crash_message :: "string \<Rightarrow> string" where
  "crash_message e = ''Reference solution verification crashed: '' @ e"

text \<open>The loop over the judge's test results; a \<^verbatim>\<open>null\<close> entry ends it with a \<^verbatim>\<open>TypeError\<close>, which is reported.\<close>

fun result_errors :: "nat \<Rightarrow> jsval list \<Rightarrow> string list" where
  "result_errors i [] = []"
| "result_errors i (r # rs) =
     (if nullish r then [crash_message (error_message (null_deref ''status''))]
      else (if is_accepted (oget r ''status'') then []
            else [''Test case '' @ show_nat (i + 1) @ '' ('' @
                  (if truthy (oget r ''isHidden'') then ''Hidden'' else ''Sample'') @ ''): '' @
                  to_str (or_val (oget r ''message'') (oget r ''status''))]) @
           result_errors (Suc i) rs)"

definition reference_errors :: "jsval \<Rightarrow> string list" where
  "reference_errors res =
     (if nullish res then [crash_message (error_message (null_deref ''status''))]
      else if is_accepted (oget res ''status'') then []
      else (''Reference solution failed: '' @
            to_str (or_val (oget res ''message'') (JStr ''Reference solution failed one or more tests''))) #
           (if \<not> truthy (oget res ''testResults'') then []
            else if \<not> is_array (oget res ''testResults'')
            then [crash_message ''result.testResults.forEach is not a function'']
            else result_errors 0 (elems (oget res ''testResults''))))"

definition judge_errors :: "judge_reply \<Rightarrow> string list" where
  "judge_errors reply =
     (case reply of
        Unreachable e \<Rightarrow> [crash_message e]
      | Refused st txt \<Rightarrow> [''Judge service error during certification: '' @ txt]
      | Garbled e \<Rightarrow> [crash_message e]
      | Replied res \<Rightarrow> reference_errors res)"

subsection \<open>The report\<close>

definition wrapper_languages :: "string list" where
  "wrapper_languages = [''javascript'', ''python'', ''java'', ''go'']"

text \<open>The error of the first language whose preview fails.\<close>

definition wrapper_failure :: "preview_env \<Rightarrow> jsval \<Rightarrow> js_error option" where
  "wrapper_failure env problem =
     (case filter (\<lambda>l. \<not> is_ok (buildPreview env problem (JStr l))) wrapper_languages of
        [] \<Rightarrow> None
      | l # ls \<Rightarrow> (case buildPreview env problem (JStr l) of Inl e \<Rightarrow> Some e | Inr v \<Rightarrow> None))"

definition validateProblemDefinition :: "preview_env \<Rightarrow> time \<Rightarrow> jsval \<Rightarrow> validation_report" where
  "validateProblemDefinition env now problem =
     (let none = \<lparr>vr_schema = False, vr_types = False, vr_wrapper = False, vr_reference = False, vr_errors = []\<rparr> in
      if pv_schema env problem \<noteq> [] then none\<lparr>vr_errors := pv_schema env problem\<rparr>
      else if typing_errors problem \<noteq> []
      then none\<lparr>vr_schema := True, vr_errors := typing_errors problem\<rparr>
      else
        (let typed = none\<lparr>vr_schema := True, vr_types := True\<rparr> in
         case wrapper_failure env problem of
           Some e \<Rightarrow> typed\<lparr>vr_errors := [''Wrapper generation failed: '' @ error_message e]\<rparr>
         | None \<Rightarrow>
           (let wrapped = typed\<lparr>vr_wrapper := True\<rparr> in
            if truthy (oget problem ''referenceSolution'') \<and> truthy (oget problem ''solutionLanguage'')
            then (let errs = judge_errors (pv_judge env (certification_message now problem)) in
                  wrapped\<lparr>vr_reference := (errs = []), vr_errors := errs\<rparr>)
            else wrapped\<lparr>vr_errors := [''referenceSolution and solutionLanguage are required to pass deep validation.'']\<rparr>)))"

text \<open>All four stages passed.\<close>

definition certified :: "validation_report \<Rightarrow> bool" where
  "certified r \<longleftrightarrow> vr_schema r \<and> vr_types r \<and> vr_wrapper r \<and> vr_reference r"

subsection \<open>A certified problem is well typed\<close>

definition type_of_field :: "jsval \<Rightarrow> string \<Rightarrow> ty \<Rightarrow> bool" where
  "type_of_field v k t \<longleftrightarrow> (\<exists>s. oget v k = JStr s \<and> spelled s t)"

text \<open>The inputs of a test case match the parameters one by one, and its expected value the return type.\<close>

definition well_typed_case :: "ty list \<Rightarrow> ty \<Rightarrow> jsval \<Rightarrow> bool" where
  "well_typed_case ts t tc \<longleftrightarrow> list_all2 has_type (elems (oget tc ''inputs'')) ts \<and> has_type (oget tc ''expected'') t"

definition well_typed_problem :: "jsval \<Rightarrow> bool" where
  "well_typed_problem problem \<longleftrightarrow>
     (\<exists>ts t. list_all2 (\<lambda>p. type_of_field p ''type'') (elems (oget problem ''parameters'')) ts \<and>
             type_of_field problem ''returnType'' t \<and>
             (\<forall>tc \<in> set (elems (oget problem ''testCases'')). well_typed_case ts t tc))"

lemma valid_field: "isValidType (oget v k) \<longleftrightarrow> (\<exists>t. type_of_field v k t)"
  by (auto simp: type_of_field_def isValidType_spelled)

lemma field_data:
  "type_of_field v k t \<Longrightarrow> validateData d (type_text (oget v k)) = None \<longleftrightarrow> has_type d t"
  by (auto simp: type_of_field_def type_text_def validateData_typed)

lemma input_errors_none:
  assumes "list_all2 (\<lambda>p. type_of_field p ''type'') params ts" and "length inputs = length params"
  shows "input_errors i inputs params = [] \<longleftrightarrow> list_all2 has_type inputs ts"
  using assms
proof (induction params ts arbitrary: inputs rule: list_all2_induct)
  case (Cons p ps t ts)
  then obtain d ds where ds: "inputs = d # ds" "length ds = length ps" by (cases inputs) auto
  show ?case
    using Cons.IH [OF ds(2)] field_data [OF Cons(1), of d] unfolding ds(1) input_errors_def
    by (cases "validateData d (type_text (oget p ''type''))") auto
qed (simp add: input_errors_def)

lemma cases_errors_none:
  "cases_errors problem i tcs = [] \<Longrightarrow> tc \<in> set tcs \<Longrightarrow> \<exists>j. case_errors problem j tc = []"
proof (induction tcs arbitrary: i)
  case (Cons a tcs)
  from Cons.prems(1) have "case_errors problem i a = []" "cases_errors problem (Suc i) tcs = []" by simp_all
  with Cons.IH Cons.prems(2) show ?case by (cases "tc = a") auto
qed simp

lemma case_errors_none:
  assumes "case_errors problem i tc = []"
    and "list_all2 (\<lambda>p. type_of_field p ''type'') (elems (oget problem ''parameters'')) ts"
    and "type_of_field problem ''returnType'' t"
  shows "well_typed_case ts t tc"
  using assms(1) input_errors_none [OF assms(2)] field_data [OF assms(3)]
  by (auto simp: case_errors_def well_typed_case_def Let_def split: if_splits option.splits)

lemma list_choice: "\<forall>x \<in> set xs. \<exists>y. P x y \<Longrightarrow> \<exists>ys. list_all2 P xs ys"
  by (induction xs) (auto intro: exI [of _ "_ # _"] simp: list_all2_Cons1)

lemma typing_sound:
  assumes "typing_errors problem = []"
  shows "well_typed_problem problem"
proof -
  have none: "type_errors problem = []" "cases_errors problem 0 (elems (oget problem ''testCases'')) = []"
    using assms by (auto simp: typing_errors_def Let_def split: if_splits)
  then have valid: "\<forall>p \<in> set (elems (oget problem ''parameters'')). isValidType (oget p ''type'')"
    "isValidType (oget problem ''returnType'')"
    by (simp_all add: type_errors_def filter_empty_conv split: if_splits)
  from valid(1) have "\<forall>p \<in> set (elems (oget problem ''parameters'')). \<exists>t. type_of_field p ''type'' t"
    using valid_field by blast
  from list_choice [OF this]
  obtain ts where ts: "list_all2 (\<lambda>p. type_of_field p ''type'') (elems (oget problem ''parameters'')) ts" ..
  obtain t where t: "type_of_field problem ''returnType'' t"
    using valid(2) valid_field by blast
  have "well_typed_case ts t tc" if "tc \<in> set (elems (oget problem ''testCases''))" for tc
    using cases_errors_none [OF none(2) that] case_errors_none [OF _ ts t] by blast
  with ts t show ?thesis unfolding well_typed_problem_def by blast
qed

lemma judge_errors_none:
  "judge_errors reply = [] \<Longrightarrow> \<exists>res. reply = Replied res \<and> is_accepted (oget res ''status'')"
  by (cases reply) (auto simp: judge_errors_def reference_errors_def split: if_splits)

lemma certified_outcome:
  assumes "certified (validateProblemDefinition env now problem)"
  shows "pv_schema env problem = [] \<and> well_typed_problem problem \<and>
         (\<exists>res. pv_judge env (certification_message now problem) = Replied res \<and> is_accepted (oget res ''status'')) \<and>
         vr_errors (validateProblemDefinition env now problem) = []"
proof -
  have "pv_schema env problem = []" "typing_errors problem = []" "wrapper_failure env problem = None"
    "judge_errors (pv_judge env (certification_message now problem)) = []"
    "vr_errors (validateProblemDefinition env now problem) = []"
    using assms
    by (auto simp: certified_def validateProblemDefinition_def Let_def split: if_splits option.splits)
  with typing_sound judge_errors_none show ?thesis by blast
qed

text \<open>C14: a problem passes the deep validation only when it satisfies the schema, its parameter and return types are
  spelled in the grammar, every test case, hidden ones included, is well typed for them, and the judge accepted
  the reference solution on exactly these test cases.\<close>

theorem certified_is_typed:
  assumes "certified (validateProblemDefinition env now problem)"
  shows "pv_schema env problem = [] \<and> well_typed_problem problem \<and>
         (\<exists>res. pv_judge env (certification_message now problem) = Replied res \<and> is_accepted (oget res ''status'')) \<and>
         vr_errors (validateProblemDefinition env now problem) = []"
  using assms by (rule certified_outcome)

definition sample_problem :: jsval where
  "sample_problem =
     JObj [(''parameters'', JArr [JObj [(''name'', JStr ''xs''), (''type'', JStr ''array<number>'')]]),
           (''returnType'', JStr ''number''), (''functionName'', JStr ''sum''),
           (''referenceSolution'', JStr ''code''), (''solutionLanguage'', JStr ''python''),
           (''testCases'', JArr [JObj [(''inputs'', JArr [JArr [jint 1, jint 2]]), (''expected'', jint 3)]])]"

definition sample_preview_env :: preview_env where
  "sample_preview_env =
     \<lparr>pv_schema = \<lambda>p. [], pv_template = \<lambda>f. None,
      pv_judge = \<lambda>m. Replied (JObj [(''status'', JStr (if is_array (oget m ''tests'') then ''Accepted'' else ''Error''))])\<rparr>"

text \<open>The wrapper stage cannot fail for a problem whose test cases are objects.\<close>

lemma wrappers_total:
  assumes "truthy problem" and "is_array (or_val (oget problem ''testCases'') (JArr []))"
    and "\<not> list_ex nullish (elems (or_val (oget problem ''testCases'') (JArr [])))"
  shows "wrapper_failure env problem = None"
  using assms
  by (simp add: wrapper_failure_def buildPreview_def Let_def wrapper_languages_def object_prototype_keys_def)

lemma certified_witness:
  assumes "pv_schema env problem = []" and "typing_errors problem = []" and "wrapper_failure env problem = None"
    and "truthy (oget problem ''referenceSolution'')" and "truthy (oget problem ''solutionLanguage'')"
    and "judge_errors (pv_judge env (certification_message now problem)) = []"
  shows "certified (validateProblemDefinition env now problem)"
  using assms by (simp add: validateProblemDefinition_def certified_def Let_def)

lemma certified_is_typed_witness:
  "certified (validateProblemDefinition sample_preview_env 0 sample_problem) \<and> well_typed_problem sample_problem"
proof -
  have "wrapper_failure sample_preview_env sample_problem = None" by (rule wrappers_total) code_simp+
  then have "certified (validateProblemDefinition sample_preview_env 0 sample_problem)"
    by (rule certified_witness [rotated 2]) code_simp+
  with certified_is_typed [of sample_preview_env 0 sample_problem] show ?thesis by blast
qed

end
