(* ===== verification/Problems.thy ===== *)
theory Problems
  imports Submission_Laws Preview
begin

section \<open>Problems: authoring, listing and practice runs\<close>

text \<open>
  \<^verbatim>\<open>problems.service.js\<close>. A request body is an untyped value; Mongoose's cast of a validated payload to a
  document (\<^verbatim>\<open>new Problem(data)\<close>, \<^verbatim>\<open>findByIdAndUpdate\<close>) is a parameter. \<^verbatim>\<open>isSampleTestCase\<close>,
  \<^verbatim>\<open>isPrivilegedRole\<close> and \<^verbatim>\<open>sanitizeResultDetails\<close> repeat the text of the functions of the same name in
  \<^verbatim>\<open>submissions.service.js\<close> and are theirs.
\<close>

subsection \<open>Normalising a payload\<close>

definition id_start :: "char \<Rightarrow> bool" where
  "id_start c \<longleftrightarrow> is_lower c \<or> is_upper c \<or> c = CHR ''_''"

fun is_identifier :: "string \<Rightarrow> bool" where
  "is_identifier [] = False"
| "is_identifier (c # cs) = (id_start c \<and> list_all (\<lambda>d. id_start d \<or> is_digit d) cs)"

definition trimmed :: "jsval \<Rightarrow> jsval" where
  "trimmed v = (case v of JStr s \<Rightarrow> JStr (js_trim s) | _ \<Rightarrow> v)"

text \<open>\<^verbatim>\<open>if (typeof o.k === "string") o.k = o.k.trim()\<close>.\<close>

definition trim_field :: "string \<Rightarrow> jsval \<Rightarrow> jsval" where
  "trim_field k v = (if is_str (oget v k) then oset v k (trimmed (oget v k)) else v)"

text \<open>A parameter default \<^verbatim>\<open>(p = {})\<close> replaces \<^verbatim>\<open>undefined\<close> only.\<close>

definition or_empty :: "jsval \<Rightarrow> jsval" where
  "or_empty v = (if v = JUndef then JObj [] else v)"

definition normal_param :: "jsval \<Rightarrow> jsval result" where
  "normal_param q =
     (let p = or_empty q in
      if p = JNull then Inl (null_deref ''name'')
      else Inr (JObj (put_all [(''name'', trimmed (oget p ''name'')), (''type'', trimmed (oget p ''type''))] (spread p))))"

definition normal_case :: "jsval \<Rightarrow> jsval result" where
  "normal_case t =
     (let tc = or_empty t; sample = (oget tc ''isSample'' = JBool True) in
      if tc = JNull then Inl (null_deref ''isSample'')
      else Inr (JObj [(''inputs'', oget tc ''inputs''), (''expected'', oget tc ''expected''),
                      (''isSample'', JBool sample), (''isHidden'', JBool (\<not> sample))]))"

fun map_result :: "('a \<Rightarrow> 'b result) \<Rightarrow> 'a list \<Rightarrow> 'b list result" where
  "map_result f [] = Inr []"
| "map_result f (x # xs) =
     (case f x of
        Inl e \<Rightarrow> Inl e
      | Inr y \<Rightarrow> (case map_result f xs of Inl e \<Rightarrow> Inl e | Inr ys \<Rightarrow> Inr (y # ys)))"

definition map_field :: "(jsval \<Rightarrow> jsval result) \<Rightarrow> string \<Rightarrow> jsval \<Rightarrow> jsval result" where
  "map_field f k v =
     (if is_array (oget v k)
      then (case map_result f (elems (oget v k)) of Inl e \<Rightarrow> Inl e | Inr xs \<Rightarrow> Inr (oset v k (JArr xs)))
      else Inr v)"

definition normal_compare :: "jsval \<Rightarrow> jsval" where
  "normal_compare cc =
     (let tol = to_num (oget cc ''floatTolerance'') in
      JObj [(''mode'', or_val (oget cc ''mode'') (JStr ''EXACT'')),
            (''floatTolerance'', if is_finite tol then JNum tol else jnat 0),
            (''orderInsensitive'', JBool (truthy (oget cc ''orderInsensitive'')))])"

definition normalizeProblemPayload :: "jsval \<Rightarrow> jsval result" where
  "normalizeProblemPayload payload =
     (let n = fold trim_field [''title'', ''description'', ''functionName'', ''returnType''] (JObj (spread payload)) in
      case map_field normal_param ''parameters'' n of
        Inl e \<Rightarrow> Inl e
      | Inr n' \<Rightarrow> map_field normal_case ''testCases'' (oset n' ''compareConfig'' (normal_compare (oget n' ''compareConfig''))))"

subsection \<open>Validating a payload\<close>

definition required_string :: "string \<Rightarrow> jsval \<Rightarrow> string list" where
  "required_string k payload = (if truthy (oget payload k) \<and> is_str (oget payload k) then [] else [k @ '' is required''])"

definition blank :: "jsval \<Rightarrow> bool" where
  "blank v \<longleftrightarrow> \<not> is_str v \<or> js_trim (str_of v) = []"

definition required_text_field :: "string \<Rightarrow> jsval \<Rightarrow> string list" where
  "required_text_field k payload = (if blank (oget payload k) then [k @ '' is required''] else [])"

definition difficulty_errors :: "jsval \<Rightarrow> string list" where
  "difficulty_errors payload =
     (let d = oget payload ''difficulty'' in
      if \<not> truthy d \<or> \<not> is_str d then [''difficulty is required'']
      else if d \<notin> {JStr ''Easy'', JStr ''Medium'', JStr ''Hard''}
      then [''difficulty must be Easy, Medium, or Hard''] else [])"

text \<open>\<^verbatim>\<open>xs.forEach((x, i) => ...)\<close>, collecting what every round pushes.\<close>

fun for_each :: "(nat \<Rightarrow> 'a \<Rightarrow> string list) \<Rightarrow> nat \<Rightarrow> 'a list \<Rightarrow> string list" where
  "for_each f i [] = []"
| "for_each f i (x # xs) = f i x @ for_each f (Suc i) xs"

definition at_index :: "string \<Rightarrow> nat \<Rightarrow> string" where
  "at_index k i = k @ ''['' @ show_nat i @ '']''"

definition test_case_errors :: "nat \<Rightarrow> jsval \<Rightarrow> string list" where
  "test_case_errors i tc =
     (if is_array (oget tc ''inputs'') then [] else [at_index ''testCases'' i @ ''.inputs must be an array'']) @
     (if nullish (oget tc ''expected'') then [at_index ''testCases'' i @ ''.expected is required''] else [])"

definition tests_errors :: "jsval \<Rightarrow> string list" where
  "tests_errors payload =
     (let tcs = oget payload ''testCases'' in
      if is_array tcs
      then (if elems tcs = [] then [''testCases must contain at least one test case''] else []) @
           for_each test_case_errors 0 (elems tcs)
      else [''testCases must be an array''])"

definition function_name_errors :: "jsval \<Rightarrow> string list" where
  "function_name_errors payload =
     (let f = oget payload ''functionName'' in
      if \<not> truthy f \<or> \<not> is_str f then [''functionName is required'']
      else if \<not> is_identifier (js_trim (str_of f)) then [''functionName must be a valid identifier''] else [])"

definition param_errors :: "nat \<Rightarrow> jsval \<Rightarrow> string list" where
  "param_errors i p =
     (if \<not> truthy p \<or> blank (oget p ''name'') then [at_index ''parameters'' i @ ''.name is required'']
      else if \<not> is_identifier (js_trim (str_of (oget p ''name'')))
      then [at_index ''parameters'' i @ ''.name: invalid format''] else []) @
     (if \<not> truthy p \<or> blank (oget p ''type'') then [at_index ''parameters'' i @ ''.type is required''] else [])"

definition params_errors :: "jsval \<Rightarrow> string list" where
  "params_errors payload =
     (let ps = oget payload ''parameters'' in
      if \<not> is_array ps then [''parameters must be an array'']
      else (if elems ps = [] then [''parameters must contain at least one parameter''] else []) @
           for_each param_errors 0 (elems ps))"

definition bad_tolerance :: "jsval \<Rightarrow> bool" where
  "bad_tolerance v \<longleftrightarrow> v \<noteq> JUndef \<and> (case v of JNum (Fin q) \<Rightarrow> q < 0 | _ \<Rightarrow> True)"

definition compare_errors :: "jsval \<Rightarrow> string list" where
  "compare_errors payload =
     (let cc = oget payload ''compareConfig''; mode = oget cc ''mode'' in
      if \<not> truthy cc then []
      else (if truthy mode \<and> mode \<noteq> JStr ''EXACT'' \<and> mode \<noteq> JStr ''STRUCTURAL''
            then [''compareConfig.mode must be EXACT or STRUCTURAL''] else []) @
           (if bad_tolerance (oget cc ''floatTolerance'')
            then [''compareConfig.floatTolerance must be a non-negative number''] else []))"

definition arity_errors :: "jsval \<Rightarrow> string list" where
  "arity_errors payload =
     (let ps = oget payload ''parameters''; tcs = oget payload ''testCases'' in
      if is_array ps \<and> is_array tcs
      then for_each (\<lambda>i tc. let ins = oget tc ''inputs'' in
             if is_array ins \<and> length (elems ins) \<noteq> length (elems ps)
             then [at_index ''testCases'' i @ ''.inputs length '' @ show_nat (length (elems ins)) @
                   '' does not match parameters length '' @ show_nat (length (elems ps))]
             else []) 0 (elems tcs)
      else [])"

definition sample_errors :: "jsval \<Rightarrow> string list" where
  "sample_errors payload =
     (let tcs = oget payload ''testCases'' in
      if is_array tcs \<and> \<not> list_ex (\<lambda>tc. oget tc ''isSample'' = JBool True) (elems tcs)
      then [''At least one test case must be marked as sample''] else [])"

definition validateProblemPayload :: "jsval \<Rightarrow> string list" where
  "validateProblemPayload payload =
     required_text_field ''title'' payload @ required_text_field ''description'' payload @
     difficulty_errors payload @ tests_errors payload @ function_name_errors payload @
     required_string ''returnType'' payload @ params_errors payload @ compare_errors payload @
     arity_errors payload @ sample_errors payload"

subsection \<open>Creating, updating and deleting\<close>

definition validation_failed :: "string list \<Rightarrow> js_error" where
  "validation_failed errs =
     HttpError 400 ''Validation failed''
       (JObj [(''error'', JStr (join_with '', '' errs)), (''errors'', JArr (map JStr errs))])"

definition deep_validation_failed :: "string list \<Rightarrow> js_error" where
  "deep_validation_failed errs =
     HttpError 400 ''Deep validation failed''
       (JObj [(''error'', JStr ''Problem failed deep validation checks (schema, types, wrappers, or reference solution).''),
              (''errors'', JArr (map JStr errs))])"

text \<open>Everything \<^verbatim>\<open>createProblem\<close> and \<^verbatim>\<open>updateProblem\<close> do before they write.\<close>

definition checked_payload :: "preview_env \<Rightarrow> time \<Rightarrow> jsval \<Rightarrow> jsval result" where
  "checked_payload env now payload =
     (case normalizeProblemPayload payload of
        Inl e \<Rightarrow> Inl e
      | Inr n \<Rightarrow>
          (let errs = validateProblemPayload n; report = validateProblemDefinition env now n in
           if errs \<noteq> [] then Inl (validation_failed errs)
           else if \<not> certified report then Inl (deep_validation_failed (vr_errors report))
           else Inr n))"

definition createProblem ::
    "preview_env \<Rightarrow> (jsval \<Rightarrow> problem result) \<Rightarrow> time \<Rightarrow> jsval \<Rightarrow> world \<Rightarrow> problem result \<times> world" where
  "createProblem env mk now payload w =
     (case checked_payload env now payload of
        Inl e \<Rightarrow> (Inl e, w)
      | Inr n \<Rightarrow> (case mk n of Inl e \<Rightarrow> (Inl e, w) | Inr p \<Rightarrow> problems_create p w))"

definition updateProblem ::
    "preview_env \<Rightarrow> (jsval \<Rightarrow> (problem \<Rightarrow> problem) result) \<Rightarrow> time \<Rightarrow> oid \<Rightarrow> jsval \<Rightarrow> world
       \<Rightarrow> problem option result \<times> world" where
  "updateProblem env cast now i payload w =
     (case checked_payload env now payload of
        Inl e \<Rightarrow> (Inl e, w)
      | Inr n \<Rightarrow>
          (case cast n of
             Inl e \<Rightarrow> (Inl e, w)
           | Inr f \<Rightarrow> (case problems_update i f w of (p, w') \<Rightarrow> (Inr p, w'))))"

definition deleteProblem :: "oid \<Rightarrow> world \<Rightarrow> problem option \<times> world" where
  "deleteProblem i w = problems_delete i w"

subsection \<open>What students see\<close>

definition sanitizeProblemForStudent :: "problem \<Rightarrow> problem" where
  "sanitizeProblemForStudent p =
     p\<lparr>pr_tests := map (\<lambda>tc. tc\<lparr>tc_sample := Some True, tc_hidden := Some False\<rparr>)
                       (filter isSampleTestCase (pr_tests p))\<rparr>"

record problem_view =
  vp_problem :: problem
  vp_locked :: bool

text \<open>A request without a user (\<^verbatim>\<open>user = null\<close>) has no role and no college.\<close>

definition role_of :: "auth option \<Rightarrow> role option" where
  "role_of u = map_option au_role u"

definition college_of :: "auth option \<Rightarrow> oid option" where
  "college_of u = (case u of None \<Rightarrow> None | Some a \<Rightarrow> au_college a)"

definition locked_for :: "jsval \<Rightarrow> auth option \<Rightarrow> problem \<Rightarrow> world \<Rightarrow> bool" where
  "locked_for price u p w \<longleftrightarrow> pr_premium p \<and> \<not> collegeAllowsPremium price (college_of u) w"

definition getProblemById :: "jsval \<Rightarrow> oid \<Rightarrow> auth option \<Rightarrow> world \<Rightarrow> problem_view option" where
  "getProblemById price i u w =
     (case problems_find w i of
        None \<Rightarrow> None
      | Some p \<Rightarrow>
          if isPrivilegedRole (role_of u) then Some \<lparr>vp_problem = p, vp_locked = False\<rparr>
          else Some \<lparr>vp_problem = sanitizeProblemForStudent p, vp_locked = locked_for price u p w\<rparr>)"

text \<open>
  A \<^verbatim>\<open>difficulty\<close> that is not a string is a MongoDB query object; what it selects is the parameter \<open>ops\<close>.
  The list is read without its test cases.
\<close>

definition difficulty_name :: "difficulty \<Rightarrow> string" where
  "difficulty_name d = (case d of Easy \<Rightarrow> ''Easy'' | Medium \<Rightarrow> ''Medium'' | Hard \<Rightarrow> ''Hard'')"

definition difficulty_matches :: "(jsval \<Rightarrow> difficulty \<Rightarrow> bool) \<Rightarrow> jsval \<Rightarrow> difficulty \<Rightarrow> bool" where
  "difficulty_matches ops v d \<longleftrightarrow>
     (truthy v \<longrightarrow> (case v of JStr s \<Rightarrow> difficulty_name d = s | _ \<Rightarrow> ops v d))"

definition tag_list :: "string \<Rightarrow> string list" where
  "tag_list s = filter (\<lambda>t. t \<noteq> []) (map js_trim (split_on CHR '','' s))"

definition query_tags :: "jsval \<Rightarrow> string list result" where
  "query_tags v =
     (if \<not> truthy v then Inr []
      else (case v of
              JArr vs \<Rightarrow> Inr (map to_str vs)
            | JStr s \<Rightarrow> Inr (tag_list s)
            | _ \<Rightarrow> Inl (TypeError ''query.tag.split is not a function'')))"

definition buildProblemFilter ::
    "(jsval \<Rightarrow> difficulty \<Rightarrow> bool) \<Rightarrow> jsval \<Rightarrow> (problem \<Rightarrow> bool) result" where
  "buildProblemFilter ops query =
     (case query_tags (oget query ''tag'') of
        Inl e \<Rightarrow> Inl e
      | Inr tags \<Rightarrow>
          Inr (\<lambda>p. difficulty_matches ops (oget query ''difficulty'') (pr_difficulty p) \<and>
                   (tags \<noteq> [] \<longrightarrow> list_ex (\<lambda>t. t \<in> set tags) (pr_tags p)) \<and>
                   (truthy (oget query ''search'') \<longrightarrow> includes_ci (to_str (oget query ''search'')) (pr_title p))))"

definition listProblems ::
    "(jsval \<Rightarrow> difficulty \<Rightarrow> bool) \<Rightarrow> jsval \<Rightarrow> jsval \<Rightarrow> auth option \<Rightarrow> world \<Rightarrow> problem_view list result" where
  "listProblems ops price query u w =
     (case buildProblemFilter ops query of
        Inl e \<Rightarrow> Inl e
      | Inr P \<Rightarrow>
          (case page_slice (skip_of query) (limit_of query) (filter P (w_problems w)) of
             Inl e \<Rightarrow> Inl e
           | Inr ps \<Rightarrow>
               Inr (map (\<lambda>p. \<lparr>vp_problem = p\<lparr>pr_tests := []\<rparr>,
                              vp_locked = \<not> isPrivilegedRole (role_of u) \<and> locked_for price u p w\<rparr>) ps)))"

subsection \<open>Statistics\<close>

text \<open>The elapsed time of a submission, from its stored result or else from its output.\<close>

definition elapsed_field :: "jsval \<Rightarrow> jsval" where
  "elapsed_field v = first_of v [''elapsedMs'', ''totalTimeMs'']"

definition elapsed_of :: "submission \<Rightarrow> jsnum option" where
  "elapsed_of s =
     (let v = (if truthy (su_result s) \<and> typeof (su_result s) = ''object'' then elapsed_field (su_result s)
               else elapsed_field (parseOutputJSON (su_output s)))
      in case v of JNum n \<Rightarrow> Some n | _ \<Rightarrow> None)"

fun num_over :: "jsnum \<Rightarrow> nat \<Rightarrow> jsnum" where
  "num_over (Fin q) n = Fin (q / of_nat n)"
| "num_over x n = x"

record problem_stats =
  pt_problem :: oid
  pt_total :: nat
  pt_accepted :: nat
  pt_rate :: rat
  pt_runtime :: "jsnum option"

definition getProblemStats :: "oid \<Rightarrow> world \<Rightarrow> problem_stats" where
  "getProblemStats i w =
     (let mine = filter (\<lambda>s. su_problem s = i) (w_submissions w);
          good = filter (\<lambda>s. su_status s = Success) mine;
          times = List.map_filter elapsed_of good
      in \<lparr>pt_problem = i, pt_total = length mine, pt_accepted = length good,
          pt_rate = (if mine = [] then 0 else of_nat (length good) / of_nat (length mine) * 100),
          pt_runtime = (if times = [] then None else Some (num_over (foldl num_add (Fin 0) times) (length times)))\<rparr>)"

subsection \<open>Practice runs\<close>

text \<open>
  The environment gives the clock and the judge's HTTP interface. The message is built as the JSON value
  that is sent; \<open>show_oid\<close> of the path's problem id is its decimal spelling here.
\<close>

definition compare_json :: "compare_config \<Rightarrow> jsval" where
  "compare_json cc =
     JObj [(''mode'', JStr (case cc_mode cc of EXACT \<Rightarrow> ''EXACT'' | STRUCTURAL \<Rightarrow> ''STRUCTURAL'')),
           (''floatTolerance'', JNum (cc_tolerance cc)),
           (''orderInsensitive'', JBool (cc_order_insensitive cc)),
           (''requireDeepCopy'', JBool (cc_deep_copy cc))]"

text \<open>The expected values by the JSON text of the inputs; a later test case with the same inputs wins.\<close>

definition fill_map :: "test_case list \<Rightarrow> string \<Rightarrow> jsval option" where
  "fill_map tcs = fold (\<lambda>tc m. case json_str (JArr (tc_inputs tc)) of None \<Rightarrow> m | Some k \<Rightarrow> m(k \<mapsto> tc_expected tc)) tcs Map.empty"

definition fill_test :: "test_case list \<Rightarrow> jsval \<Rightarrow> jsval" where
  "fill_test tcs t =
     (if nullish t \<or> \<not> nullish (oget t ''expected'') then t
      else (case json_str (oget t ''inputs'') of
              None \<Rightarrow> t
            | Some k \<Rightarrow> (case fill_map tcs k of None \<Rightarrow> t | Some v \<Rightarrow> oset t ''expected'' v)))"

definition fill_tests :: "test_case list \<Rightarrow> jsval \<Rightarrow> jsval" where
  "fill_tests tcs v = (if is_array v \<and> tcs \<noteq> [] then JArr (map (fill_test tcs) (elems v)) else v)"

definition run_message :: "time \<Rightarrow> oid \<Rightarrow> problem \<Rightarrow> jsval \<Rightarrow> jsval" where
  "run_message now i p payload =
     JObj ([(''schemaVersion'', JStr ''1''), (''submissionId'', JStr (''run-'' @ show_int now)),
            (''problemId'', JStr (show_nat i)),
            (''language'', oget payload ''language''), (''code'', oget payload ''code''),
            (''problemType'', JStr (case pr_type p of FunctionProblem \<Rightarrow> ''function'' | StdinProblem \<Rightarrow> ''stdin'')),
            (''compareMode'', oget (compare_json (pr_compare p)) ''mode''),
            (''compareConfig'', compare_json (pr_compare p)),
            (''tests'', fill_tests (pr_tests p) (or_val (oget payload ''customTests'') (JArr [])))] @
           (if pr_type p = StdinProblem then []
            else [(''functionName'', case pr_function p of Some f \<Rightarrow> JStr f | None \<Rightarrow> JUndef)]))"

text \<open>\<^verbatim>\<open>v && v.length > 0\<close>.\<close>

definition has_length :: "jsval \<Rightarrow> bool" where
  "has_length v \<longleftrightarrow> truthy v \<and>
     (case v of JArr xs \<Rightarrow> xs \<noteq> [] | JStr s \<Rightarrow> True | _ \<Rightarrow> num_lt (Fin 0) (to_num (oget v ''length'')))"

definition connect_failed :: js_error where
  "connect_failed = HttpError 500 ''Failed to connect to judge service'' JUndef"

text \<open>With custom tests every detail is shown; otherwise the details of hidden tests are cut down.\<close>

definition run_details :: "problem \<Rightarrow> jsval \<Rightarrow> jsval list \<Rightarrow> jsval list result" where
  "run_details p custom ds =
     (if has_length custom
      then (if list_ex nullish ds then Inl (null_deref ''inputs'') else Inr (map visible_detail ds))
      else sanitizeResultDetails ds (pr_tests p) False)"

text \<open>Any error but an \<^verbatim>\<open>HttpError\<close> raised after the request was sent is reported as a connection failure.\<close>

definition run_answer :: "problem \<Rightarrow> jsval \<Rightarrow> judge_reply \<Rightarrow> jsval result" where
  "run_answer p custom reply =
     (case reply of
        Unreachable e \<Rightarrow> Inl connect_failed
      | Refused st txt \<Rightarrow> http st (''Judge service error: '' @ txt)
      | Garbled e \<Rightarrow> Inl connect_failed
      | Replied res \<Rightarrow>
          if truthy res \<and> is_array (oget res ''details'')
          then (case run_details p custom (elems (oget res ''details'')) of
                  Inl e \<Rightarrow> Inl connect_failed
                | Inr ds \<Rightarrow> Inr (oset res ''details'' (JArr ds)))
          else Inr res)"

definition runProblem :: "(jsval \<Rightarrow> judge_reply) \<Rightarrow> time \<Rightarrow> oid \<Rightarrow> jsval \<Rightarrow> world \<Rightarrow> jsval result" where
  "runProblem judge now i payload w =
     (case problems_find w i of
        None \<Rightarrow> http 404 ''Problem not found''
      | Some p \<Rightarrow>
          if nullish payload then Inl (null_deref ''code'')
          else run_answer p (oget payload ''customTests'') (judge (run_message now i p payload)))"

end
