(* ===== verification/Accounts.thy ===== *)
theory Accounts
  imports Submission_Laws
begin

section \<open>Accounts: registration, bulk import, login and signup\<close>

text \<open>
  \<^verbatim>\<open>auth.service.js\<close>, \<^verbatim>\<open>college.service.js\<close> and the bulk import and password reset handlers of
  \<^verbatim>\<open>admin.routes.js\<close>. Hashing, comparing and signing (bcryptjs, jsonwebtoken), Mongoose's cast of a value
  to an object id and the random fallback password are the parameters \<open>account_services\<close>; request fields
  are untyped, so that every \<^verbatim>\<open>TypeError\<close> of a string method called on something else is a branch.
\<close>

subsection \<open>Parameters and public views\<close>

record account_services =
  ac_hash :: "string \<Rightarrow> string"
  ac_compare :: "string \<Rightarrow> string \<Rightarrow> bool"
  ac_sign :: "user \<Rightarrow> string"
  ac_cast :: "jsval \<Rightarrow> oid option"
  ac_random :: "nat \<Rightarrow> string"
  ac_price :: jsval

record public_user =
  pu_id :: oid
  pu_name :: string
  pu_email :: string
  pu_role :: role
  pu_usn :: "string option"
  pu_section :: "string option"
  pu_college :: "oid option"

definition non_empty :: "string option \<Rightarrow> string option" where
  "non_empty s = (if s = Some [] then None else s)"

definition toPublicUser :: "user \<Rightarrow> public_user" where
  "toPublicUser u =
     \<lparr>pu_id = u_id u, pu_name = u_name u, pu_email = u_email u, pu_role = u_role u,
      pu_usn = non_empty (u_usn u), pu_section = non_empty (u_section u), pu_college = u_college u\<rparr>"

text \<open>Calling a method of strings on a value.\<close>

fun need_str :: "string \<Rightarrow> jsval \<Rightarrow> string result" where
  "need_str k (JStr s) = Inr s"
| "need_str k v = Inl (if nullish v then null_deref k else TypeError (k @ '' is not a function''))"

definition illegal_arguments :: js_error where
  "illegal_arguments = PlainError ''Illegal arguments''"

text \<open>bcryptjs takes strings only.\<close>

definition hash_password :: "account_services \<Rightarrow> jsval \<Rightarrow> string result" where
  "hash_password ac v = (case v of JStr s \<Rightarrow> Inr (ac_hash ac s) | _ \<Rightarrow> Inl illegal_arguments)"

text \<open>
  \<^verbatim>\<open>User.create\<close> with the schema's rules: \<^verbatim>\<open>name\<close> and \<^verbatim>\<open>email\<close> are required and not empty, \<^verbatim>\<open>role\<close> is in its
  enumeration and defaults to student, \<^verbatim>\<open>email\<close> and \<^verbatim>\<open>usn\<close> are unique. (A \<^verbatim>\<open>null\<close> role counts as invalid here.)
\<close>

definition validation_error :: js_error where
  "validation_error = DriverError ''ValidationError''"

fun required_text :: "jsval \<Rightarrow> string option" where
  "required_text (JStr s) = (if s = [] then None else Some s)"
| "required_text (JNum n) = Some (num_to_string n)"
| "required_text (JBool b) = Some (to_str (JBool b))"
| "required_text _ = None"

definition parse_role :: "jsval \<Rightarrow> role option" where
  "parse_role v =
     (if v = JUndef \<or> v = JStr ''student'' then Some Student
      else if v = JStr ''faculty'' then Some Faculty
      else if v = JStr ''admin'' then Some Admin
      else if v = JStr ''superadmin'' then Some Superadmin else None)"

record new_user =
  nu_name :: jsval
  nu_email :: string
  nu_hash :: string
  nu_role :: jsval
  nu_usn :: "string option"
  nu_section :: "string option"
  nu_college :: "oid option"

definition create_user :: "oid \<Rightarrow> time \<Rightarrow> new_user \<Rightarrow> world \<Rightarrow> user result \<times> world" where
  "create_user nid now n w =
     (case required_text (nu_name n) of
        None \<Rightarrow> (Inl validation_error, w)
      | Some name \<Rightarrow>
          (case parse_role (nu_role n) of
             None \<Rightarrow> (Inl validation_error, w)
           | Some r \<Rightarrow>
               if nu_email n = [] then (Inl validation_error, w)
               else users_create \<lparr>u_id = nid, u_name = name, u_email = nu_email n, u_password = nu_hash n,
                      u_role = r, u_usn = nu_usn n, u_section = nu_section n, u_college = nu_college n,
                      u_created = now\<rparr> w))"

subsection \<open>Registration\<close>

record registration =
  rg_name :: jsval
  rg_email :: jsval
  rg_password :: jsval
  rg_role :: jsval
  rg_college :: jsval
  rg_usn :: jsval
  rg_section :: jsval

definition trim_college :: "jsval \<Rightarrow> jsval" where
  "trim_college v = (case v of JStr s \<Rightarrow> JStr (js_trim s) | _ \<Rightarrow> v)"

definition registration_college :: "account_services \<Rightarrow> jsval \<Rightarrow> oid option result" where
  "registration_college ac v =
     (let c = trim_college v in
      if truthy c
      then (case ac_cast ac c of
              None \<Rightarrow> http_body 400 ''Invalid collegeId'' ''message'' ''collegeId must be a valid Mongo ObjectId''
            | Some i \<Rightarrow> Inr (Some i))
      else Inr None)"

text \<open>\<^verbatim>\<open>v ? v.trim() : undefined\<close>.\<close>

definition optional_trim :: "jsval \<Rightarrow> string option result" where
  "optional_trim v =
     (if truthy v then (case need_str ''trim'' v of Inl e \<Rightarrow> Inl e | Inr s \<Rightarrow> Inr (Some (js_trim s))) else Inr None)"

definition taken_usn :: "string option \<Rightarrow> world \<Rightarrow> bool" where
  "taken_usn x w = (case x of None \<Rightarrow> False | Some s \<Rightarrow> users_by_usn w s \<noteq> None)"

text \<open>Everything \<^verbatim>\<open>register\<close> does before it inserts the document.\<close>

definition check_registration :: "account_services \<Rightarrow> registration \<Rightarrow> world \<Rightarrow> new_user result" where
  "check_registration ac rg w =
     (case registration_college ac (rg_college rg) of
        Inl e \<Rightarrow> Inl e
      | Inr coll \<Rightarrow>
     (case need_str ''toLowerCase'' (rg_email rg) of
        Inl e \<Rightarrow> Inl e
      | Inr email \<Rightarrow>
          if users_by_email w (js_lower email) \<noteq> None
          then http_body 409 ''Email already registered'' ''message'' ''Email already registered''
          else
     (case optional_trim (rg_usn rg) of
        Inl e \<Rightarrow> Inl e
      | Inr usn \<Rightarrow>
          if taken_usn usn w
          then http_body 409 ''USN already registered'' ''message'' ''USN already registered''
          else
     (case assertSeatCapacity (ac_price ac) coll 1 w of
        Inl e \<Rightarrow> Inl e
      | Inr _ \<Rightarrow>
     (case hash_password ac (rg_password rg) of
        Inl e \<Rightarrow> Inl e
      | Inr h \<Rightarrow>
     (case optional_trim (rg_section rg) of
        Inl e \<Rightarrow> Inl e
      | Inr sect \<Rightarrow>
          Inr \<lparr>nu_name = rg_name rg, nu_email = js_lower email, nu_hash = h, nu_role = rg_role rg,
               nu_usn = usn, nu_section = sect, nu_college = coll\<rparr>))))))"

definition register ::
    "account_services \<Rightarrow> oid \<Rightarrow> time \<Rightarrow> registration \<Rightarrow> world \<Rightarrow> (string \<times> public_user) result \<times> world" where
  "register ac nid now rg w =
     (case check_registration ac rg w of
        Inl e \<Rightarrow> (Inl e, w)
      | Inr n \<Rightarrow>
          (case create_user nid now n w of
             (Inl e, w') \<Rightarrow> (Inl e, w')
           | (Inr u, w') \<Rightarrow> (Inr (ac_sign ac u, toPublicUser u), w')))"

subsection \<open>Login and passwords\<close>

definition DUMMY_PASSWORD_HASH :: string where
  "DUMMY_PASSWORD_HASH = ''$2b$10$SHhjQgShaXsISHR6GrxOo.wWzSWSHx.SZEgIfGUxxS1BupxLT17ci''"

definition login ::
    "account_services \<Rightarrow> bool \<Rightarrow> time \<Rightarrow> audit_info \<Rightarrow> jsval \<Rightarrow> jsval \<Rightarrow> world
       \<Rightarrow> (string \<times> public_user) result \<times> world" where
  "login ac log_ok now info email password w =
     (case need_str ''toLowerCase'' email of
        Inl e \<Rightarrow> (Inl e, w)
      | Inr em \<Rightarrow>
          (let found = users_by_email w (js_lower em) in
           case password of
             JStr pw \<Rightarrow>
               (let ok = ac_compare ac pw (case found of Some u \<Rightarrow> u_password u | None \<Rightarrow> DUMMY_PASSWORD_HASH) in
                case (found, ok) of
                  (Some u, True) \<Rightarrow>
                    (Inr (ac_sign ac u, toPublicUser u),
                     logEvent log_ok now ''LOGIN_SUCCESS'' (Some (u_id u)) JUndef info w)
                | _ \<Rightarrow>
                    (http_body 401 ''Invalid credentials'' ''message'' ''Invalid credentials'',
                     logEvent log_ok now ''LOGIN_FAILED'' None (JObj [(''email'', JStr (js_lower em))]) info w))
           | _ \<Rightarrow> (Inl illegal_arguments, w)))"

definition resetUserPassword ::
    "account_services \<Rightarrow> bool \<Rightarrow> time \<Rightarrow> audit_info \<Rightarrow> oid \<Rightarrow> jsval \<Rightarrow> auth \<Rightarrow> world \<Rightarrow> string result \<times> world" where
  "resetUserPassword ac log_ok now info uid password admin w =
     (case users_find w uid of
        None \<Rightarrow> (http 404 ''User not found'', w)
      | Some u \<Rightarrow>
          (case hash_password ac password of
             Inl e \<Rightarrow> (Inl e, w)
           | Inr h \<Rightarrow>
               (Inr ''Password reset successful'',
                logEvent log_ok now ''USER_PASSWORD_RESET'' (au_id admin)
                  (JObj [(''targetUserId'', jnat uid), (''targetEmail'', JStr (u_email u))]) info
                  (w\<lparr>w_users := update_first (\<lambda>v. u_id v = uid) (\<lambda>v. v\<lparr>u_password := h\<rparr>) (w_users w)\<rparr>))))"

subsection \<open>Bulk import\<close>

record row_error =
  re_row :: nat
  re_email :: string
  re_usn :: string
  re_error :: string

record verified_user =
  vu_name :: string
  vu_email :: string
  vu_password :: jsval
  vu_usn :: "string option"
  vu_section :: "string option"

text \<open>\<^verbatim>\<open>v ? v.trim() : ""\<close>.\<close>

definition trim_or_empty :: "jsval \<Rightarrow> string result" where
  "trim_or_empty v = (case optional_trim v of Inl e \<Rightarrow> Inl e | Inr None \<Rightarrow> Inr [] | Inr (Some s) \<Rightarrow> Inr s)"

text \<open>The pattern of the source: no white space, one at sign, and a dot inside the part after it.\<close>

definition valid_email :: "string \<Rightarrow> bool" where
  "valid_email s =
     (let l = takeWhile (\<lambda>c. c \<noteq> CHR ''@'') s; d = tl (dropWhile (\<lambda>c. c \<noteq> CHR ''@'') s) in
      list_all (\<lambda>c. \<not> is_ws c) s \<and> CHR ''@'' \<in> set s \<and> l \<noteq> [] \<and> CHR ''@'' \<notin> set d \<and>
      list_ex (\<lambda>i. d ! i = CHR ''.'') [1..<length d - 1])"

fun text_or_none :: "string \<Rightarrow> string option" where
  "text_or_none [] = None"
| "text_or_none (c # cs) = Some (c # cs)"

record import_state =
  im_emails :: "string list"
  im_usns :: "string list"
  im_errors :: "row_error list"
  im_users :: "verified_user list"

definition reject_row :: "nat \<Rightarrow> string \<Rightarrow> string \<Rightarrow> string \<Rightarrow> import_state \<Rightarrow> import_state" where
  "reject_row i email usn msg st =
     st\<lparr>im_errors := im_errors st @ [\<lparr>re_row = i + 1, re_email = email, re_usn = usn, re_error = msg\<rparr>]\<rparr>"

text \<open>\<^verbatim>\<open>userData.password || defaultPassword\<close>, and a random password when both are missing.\<close>

definition plain_password :: "account_services \<Rightarrow> nat \<Rightarrow> jsval \<Rightarrow> jsval \<Rightarrow> jsval" where
  "plain_password ac i password dflt =
     (if truthy (or_val password dflt) then or_val password dflt else JStr (ac_random ac i))"

text \<open>One iteration of the validation loop, on the trimmed fields of row \<open>i\<close>.\<close>

definition check_row ::
    "account_services \<Rightarrow> world \<Rightarrow> jsval \<Rightarrow> nat \<Rightarrow> jsval \<Rightarrow> string \<Rightarrow> string \<Rightarrow> string \<Rightarrow> string
       \<Rightarrow> import_state \<Rightarrow> import_state" where
  "check_row ac w dflt i row email usn name sect st =
     (if name = [] then reject_row i email usn ''Name is required'' st
      else if email = [] then reject_row i email usn ''Email is required'' st
      else if \<not> valid_email email then reject_row i email usn ''Invalid email format'' st
      else if email \<in> set (im_emails st) then reject_row i email usn ''Duplicate email in upload batch'' st
      else (let st1 = st\<lparr>im_emails := email # im_emails st\<rparr> in
        if usn \<noteq> [] \<and> usn \<in> set (im_usns st1) then reject_row i email usn ''Duplicate USN in upload batch'' st1
        else (let st2 = (if usn = [] then st1 else st1\<lparr>im_usns := usn # im_usns st1\<rparr>) in
          if users_by_email w email \<noteq> None
          then reject_row i email usn ''Email already registered in system'' st2
          else if usn \<noteq> [] \<and> users_by_usn w usn \<noteq> None
          then reject_row i email usn ''USN already registered in system'' st2
          else st2\<lparr>im_users := im_users st2 @
                 [\<lparr>vu_name = name, vu_email = email, vu_password = plain_password ac i (oget row ''password'') dflt,
                   vu_usn = text_or_none usn, vu_section = text_or_none sect\<rparr>]\<rparr>)))"

fun check_rows ::
    "account_services \<Rightarrow> world \<Rightarrow> jsval \<Rightarrow> nat \<Rightarrow> jsval list \<Rightarrow> import_state \<Rightarrow> import_state result" where
  "check_rows ac w dflt i [] st = Inr st"
| "check_rows ac w dflt i (row # rows) st =
     (if nullish row then Inl (null_deref ''email'')
      else (case trim_or_empty (oget row ''email'') of
              Inl e \<Rightarrow> Inl e
            | Inr email \<Rightarrow>
           (case trim_or_empty (oget row ''usn'') of
              Inl e \<Rightarrow> Inl e
            | Inr usn \<Rightarrow>
           (case trim_or_empty (oget row ''name'') of
              Inl e \<Rightarrow> Inl e
            | Inr name \<Rightarrow>
           (case trim_or_empty (oget row ''section'') of
              Inl e \<Rightarrow> Inl e
            | Inr sect \<Rightarrow>
                check_rows ac w dflt (Suc i) rows
                  (check_row ac w dflt i row (js_lower email) usn name sect st))))))"

text \<open>
  The second phase: the verified users are hashed and inserted one after the other; any error deletes
  the users created so far.
\<close>

fun create_all ::
    "account_services \<Rightarrow> (nat \<Rightarrow> oid) \<Rightarrow> time \<Rightarrow> oid option \<Rightarrow> verified_user list \<Rightarrow> user list \<Rightarrow> world
       \<Rightarrow> (user list, user list) sum \<times> world" where
  "create_all ac ids now coll [] acc w = (Inr acc, w)"
| "create_all ac ids now coll (v # vs) acc w =
     (case hash_password ac (vu_password v) of
        Inl e \<Rightarrow> (Inl acc, w)
      | Inr h \<Rightarrow>
          (case create_user (ids (length acc)) now
                  \<lparr>nu_name = JStr (vu_name v), nu_email = vu_email v, nu_hash = h, nu_role = JStr ''student'',
                   nu_usn = vu_usn v, nu_section = vu_section v, nu_college = coll\<rparr> w of
             (Inl e, w') \<Rightarrow> (Inl acc, w')
           | (Inr u, w') \<Rightarrow> create_all ac ids now coll vs (acc @ [u]) w'))"

definition roll_back :: "user list \<Rightarrow> world \<Rightarrow> world" where
  "roll_back us w = w\<lparr>w_users := filter (\<lambda>u. u_id u \<notin> u_id ` set us) (w_users w)\<rparr>"

definition bulk_create ::
    "account_services \<Rightarrow> (nat \<Rightarrow> oid) \<Rightarrow> time \<Rightarrow> oid option \<Rightarrow> verified_user list \<Rightarrow> world
       \<Rightarrow> user list result \<times> world" where
  "bulk_create ac ids now coll vs w =
     (case create_all ac ids now coll vs [] w of
        (Inr us, w') \<Rightarrow> (Inr us, w')
      | (Inl us, w') \<Rightarrow>
          (http 500 ''Catastrophic error during bulk import. All modifications in this batch have been rolled back.'',
           roll_back us w'))"

record import_result =
  ir_created :: "(user \<times> jsval) list"
  ir_errors :: "row_error list"
  ir_count :: nat

text \<open>\<^verbatim>\<open>collegeId\<close> is cast by the first query that uses it.\<close>

definition import_college :: "account_services \<Rightarrow> jsval \<Rightarrow> oid option result" where
  "import_college ac v =
     (if truthy v then (case ac_cast ac v of None \<Rightarrow> Inl (DriverError ''CastError'') | Some i \<Rightarrow> Inr (Some i))
      else Inr None)"

definition bulkRegister ::
    "account_services \<Rightarrow> (nat \<Rightarrow> oid) \<Rightarrow> time \<Rightarrow> jsval list \<Rightarrow> jsval \<Rightarrow> jsval \<Rightarrow> world
       \<Rightarrow> import_result result \<times> world" where
  "bulkRegister ac ids now rows dflt collegeId w =
     (case check_rows ac w dflt 0 rows \<lparr>im_emails = [], im_usns = [], im_errors = [], im_users = []\<rparr> of
        Inl e \<Rightarrow> (Inl e, w)
      | Inr st \<Rightarrow>
          if im_users st = []
          then (Inr \<lparr>ir_created = [], ir_errors = im_errors st, ir_count = 0\<rparr>, w)
          else
     (case import_college ac collegeId of
        Inl e \<Rightarrow> (Inl e, w)
      | Inr coll \<Rightarrow>
     (case assertSeatCapacity (ac_price ac) coll (length (im_users st)) w of
        Inl e \<Rightarrow> (Inl e, w)
      | Inr _ \<Rightarrow>
     (case bulk_create ac ids now coll (im_users st) w of
        (Inl e, w') \<Rightarrow> (Inl e, w')
      | (Inr us, w') \<Rightarrow>
          (Inr \<lparr>ir_created = zip us (map vu_password (im_users st)), ir_errors = im_errors st,
                ir_count = length us\<rparr>, w')))))"

text \<open>The handler of \<^verbatim>\<open>POST /admin/bulk-import-students\<close>; the response is the status and the result.\<close>

definition bulk_import_students ::
    "account_services \<Rightarrow> (nat \<Rightarrow> oid) \<Rightarrow> time \<Rightarrow> jsval \<Rightarrow> auth \<Rightarrow> world \<Rightarrow> import_result result \<times> world" where
  "bulk_import_students ac ids now body u w =
     (if \<not> is_array (oget body ''users'') \<or> elems (oget body ''users'') = []
      then (http 400 ''Invalid or empty users list'', w)
      else if \<not> truthy (oget body ''defaultPassword'')
      then (http 400 ''Default password is required'', w)
      else bulkRegister ac ids now (elems (oget body ''users'')) (oget body ''defaultPassword'')
             (or_val (oget body ''collegeId'') (opt_id (au_college u))) w)"

subsection \<open>The user list\<close>

text \<open>
  A \<^verbatim>\<open>role\<close> that is not a string is a MongoDB query object; what it selects is the parameter \<open>ops\<close>.
  \<^verbatim>\<open>limit(0)\<close> means no limit and a negative limit counts without its sign.
\<close>

definition role_name :: "role \<Rightarrow> string" where
  "role_name r = (case r of Superadmin \<Rightarrow> ''superadmin'' | Admin \<Rightarrow> ''admin'' | Faculty \<Rightarrow> ''faculty'' | Student \<Rightarrow> ''student'')"

definition user_filter :: "(jsval \<Rightarrow> role \<Rightarrow> bool) \<Rightarrow> jsval \<Rightarrow> user \<Rightarrow> bool" where
  "user_filter ops query u \<longleftrightarrow>
     (truthy (oget query ''search'') \<longrightarrow>
        includes_ci (to_str (oget query ''search'')) (u_name u) \<or> includes_ci (to_str (oget query ''search'')) (u_email u)) \<and>
     (truthy (oget query ''role'') \<longrightarrow>
        (case oget query ''role'' of JStr s \<Rightarrow> role_name (u_role u) = s | v \<Rightarrow> ops v (u_role u)))"

definition with_default :: "jsval \<Rightarrow> nat \<Rightarrow> jsval" where
  "with_default v n = (if v = JUndef then jnat n else v)"

definition ceil_div :: "nat \<Rightarrow> jsnum \<Rightarrow> jsnum" where
  "ceil_div n l =
     (case l of
        Fin q \<Rightarrow> if q = 0 then (if n = 0 then NaN else PosInf) else Fin (of_int \<lceil>of_nat n / q\<rceil>)
      | NaN \<Rightarrow> NaN
      | _ \<Rightarrow> Fin 0)"

definition db_limit :: "jsnum \<Rightarrow> 'a list \<Rightarrow> 'a list result" where
  "db_limit l xs =
     (case l of
        Fin q \<Rightarrow>
          if of_int \<lfloor>q\<rfloor> \<noteq> q then Inl (DriverError ''limit must be a whole number'')
          else Inr (if q = 0 then xs else take (nat \<bar>\<lfloor>q\<rfloor>\<bar>) xs)
      | _ \<Rightarrow> Inl (DriverError ''limit must be a whole number''))"

record user_page =
  up_users :: "public_user list"
  up_total :: nat
  up_page :: jsnum
  up_pages :: jsnum

definition listUsers :: "(jsval \<Rightarrow> role \<Rightarrow> bool) \<Rightarrow> jsval \<Rightarrow> world \<Rightarrow> user_page result" where
  "listUsers ops query w =
     (let page = to_num (with_default (oget query ''page'') 1);
          lmt = to_num (with_default (oget query ''limit'') 50);
          found = filter (user_filter ops query) (w_users w)
      in case whole (num_mul (num_sub page (Fin 1)) lmt) of
           None \<Rightarrow> Inl (DriverError ''skip must be a whole number'')
         | Some sk \<Rightarrow>
             (case db_limit lmt (drop sk (sort_key (\<lambda>u. - u_created u) found)) of
                Inl e \<Rightarrow> Inl e
              | Inr us \<Rightarrow>
                  Inr \<lparr>up_users = map toPublicUser us, up_total = length found, up_page = page,
                       up_pages = ceil_div (length found) lmt\<rparr>))"

subsection \<open>Colleges\<close>

definition is_slug_char :: "char \<Rightarrow> bool" where
  "is_slug_char c \<longleftrightarrow> is_lower c \<or> is_digit c"

text \<open>Every run of other characters becomes one hyphen.\<close>

function hyphenate :: "string \<Rightarrow> string" where
  "hyphenate [] = []"
| "hyphenate (c # cs) =
     (if is_slug_char c then c # hyphenate cs
      else CHR ''-'' # hyphenate (dropWhile (\<lambda>d. \<not> is_slug_char d) cs))"
  by pat_completeness auto
termination
  by (relation "measure length") (auto simp: le_imp_less_Suc)

definition strip_hyphens :: "string \<Rightarrow> string" where
  "strip_hyphens s =
     rev (dropWhile (\<lambda>c. c = CHR ''-'') (rev (dropWhile (\<lambda>c. c = CHR ''-'') s)))"

definition slugify :: "string \<Rightarrow> string" where
  "slugify name =
     (let base = strip_hyphens (hyphenate (js_trim (js_lower name))) in if base = [] then ''college'' else base)"

text \<open>The slug \<^verbatim>\<open>uniqueSlug\<close> tries in its \<open>n\<close>-th round.\<close>

definition slug_of :: "string \<Rightarrow> nat \<Rightarrow> string" where
  "slug_of base n = (if n \<le> 1 then base else base @ ''-'' @ show_nat n)"

definition slug_used :: "world \<Rightarrow> string \<Rightarrow> bool" where
  "slug_used w s = (find (\<lambda>c. co_slug c = s) (w_colleges w) \<noteq> None)"

lemma slug_of_inj: "1 \<le> m \<Longrightarrow> 1 \<le> n \<Longrightarrow> slug_of base m = slug_of base n \<Longrightarrow> m = n"
  by (auto simp: slug_of_def split: if_splits)

text \<open>Only finitely many slugs are used, so some round finds a free one.\<close>

lemma used_rounds_finite: "finite {n. 1 \<le> n \<and> slug_used w (slug_of base n)}"
proof -
  let ?R = "{n. 1 \<le> n \<and> slug_used w (slug_of base n)}"
  have "slug_of base ` ?R \<subseteq> co_slug ` set (w_colleges w)"
    by (auto simp: slug_used_def find_Some_iff) (metis image_eqI nth_mem)
  then have "finite (slug_of base ` ?R)" by (rule finite_subset) simp
  moreover have "inj_on (slug_of base) ?R" using slug_of_inj unfolding inj_on_def by blast
  ultimately show ?thesis by (simp add: finite_image_iff)
qed

function unique_slug_from :: "world \<Rightarrow> string \<Rightarrow> nat \<Rightarrow> string" where
  "unique_slug_from w base n =
     (if slug_used w (slug_of base (Suc n)) then unique_slug_from w base (Suc n) else slug_of base (Suc n))"
  by pat_completeness auto
termination
proof (relation "measure (\<lambda>(w, base, n). card {k. Suc n \<le> k \<and> slug_used w (slug_of base k)})")
  fix w :: world and base n
  assume used: "slug_used w (slug_of base (Suc n))"
  let ?S = "\<lambda>m. {k. Suc m \<le> k \<and> slug_used w (slug_of base k)}"
  have "finite (?S n)" by (rule finite_subset [OF _ used_rounds_finite [of w base]]) auto
  moreover have "Suc n \<in> ?S n" "Suc n \<notin> ?S (Suc n)" "?S (Suc n) \<subseteq> ?S n" using used by auto
  then have "?S (Suc n) \<subset> ?S n" by blast
  ultimately show "((w, base, Suc n), w, base, n)
      \<in> measure (\<lambda>(w, base, n). card {k. Suc n \<le> k \<and> slug_used w (slug_of base k)})"
    by (simp add: psubset_card_mono)
qed simp

declare unique_slug_from.simps [simp del]

definition uniqueSlug :: "string \<Rightarrow> world \<Rightarrow> string" where
  "uniqueSlug base w = unique_slug_from w base 0"

definition new_college :: "oid \<Rightarrow> string \<Rightarrow> string \<Rightarrow> college" where
  "new_college cid name slug =
     \<lparr>co_id = cid, co_name = name, co_slug = slug, co_plan = ''free'', co_customer = None,
      co_subscription = None, co_status = SubNone, co_period_end = None\<rparr>"

definition colleges_create :: "college \<Rightarrow> world \<Rightarrow> college result \<times> world" where
  "colleges_create c w =
     (if slug_used w (co_slug c) then (Inl duplicate_key, w)
      else (Inr c, w\<lparr>w_colleges := w_colleges w @ [c]\<rparr>))"

definition colleges_delete :: "oid \<Rightarrow> world \<Rightarrow> world" where
  "colleges_delete i w = w\<lparr>w_colleges := delete_first (\<lambda>c. co_id c = i) (w_colleges w)\<rparr>"

definition signup ::
    "account_services \<Rightarrow> oid \<Rightarrow> oid \<Rightarrow> time \<Rightarrow> jsval \<Rightarrow> jsval \<Rightarrow> jsval \<Rightarrow> jsval \<Rightarrow> world
       \<Rightarrow> (string \<times> public_user) result \<times> world" where
  "signup ac cid nid now collegeName name email password w =
     (if \<not> truthy collegeName \<or> typeof collegeName \<noteq> ''string'' \<or> js_trim (str_of collegeName) = []
      then (http_body 400 ''College name is required'' ''message'' ''College name is required'', w)
      else if \<not> truthy name \<or> \<not> truthy email \<or> \<not> truthy password
      then (http_body 400 ''Name, email, and password are required'' ''message''
              ''Name, email, and password are required'', w)
      else
        (case colleges_create (new_college cid (js_trim (str_of collegeName))
                (uniqueSlug (slugify (str_of collegeName)) w)) w of
           (Inl e, w1) \<Rightarrow> (Inl e, w1)
         | (Inr c, w1) \<Rightarrow>
             (case register ac nid now
                     \<lparr>rg_name = name, rg_email = email, rg_password = password, rg_role = JStr ''admin'',
                      rg_college = JStr (show_nat (co_id c)), rg_usn = JUndef, rg_section = JUndef\<rparr> w1 of
                (Inl e, w2) \<Rightarrow> (Inl e, colleges_delete (co_id c) w2)
              | (Inr r, w2) \<Rightarrow> (Inr r, w2))))"

end
