(* ===== verification/Arventiq.thy ===== *)
theory Arventiq
  imports Problems Accounts
begin

section \<open>The Arventiq integration\<close>

text \<open>
  \<^verbatim>\<open>arventiq.service.js\<close> and \<^verbatim>\<open>arventiqLanguages.js\<close>: an external exam platform synchronises its problems,
  submits code for them, polls verdicts and runs code on custom input. Bodies and the judge's results are
  untyped values; the judge's HTTP interface is a parameter, as in \<open>Preview\<close>.
\<close>

subsection \<open>Languages\<close>

text \<open>
  \<^verbatim>\<open>ARVENTIQ_LANGUAGE_MAP[key]\<close> on a plain object: of the keys it inherits, two survive \<^verbatim>\<open>toLowerCase\<close>, and what
  they give, a function and an object, is truthy and no language. \<open>Inherited\<close> carries the text Mongoose
  casts it to (empty when the cast fails) and what JSON makes of it.
\<close>

datatype resolved =
    Unresolved
  | Language string
  | Inherited string jsval

definition ARVENTIQ_LANGUAGE_MAP :: "(string \<times> string) list" where
  "ARVENTIQ_LANGUAGE_MAP =
     [(''python'', ''python''), (''python3'', ''python''), (''javascript'', ''javascript''), (''js'', ''javascript''),
      (''node'', ''javascript''), (''typescript'', ''typescript''), (''ts'', ''typescript''), (''java'', ''java''),
      (''cpp'', ''cpp''), (''c++'', ''cpp''), (''c'', ''c''), (''csharp'', ''csharp''), (''c#'', ''csharp''),
      (''go'', ''go''), (''golang'', ''go'')]"

definition resolveArventiqLanguage :: "jsval \<Rightarrow> resolved" where
  "resolveArventiqLanguage v =
     (if \<not> truthy v \<or> \<not> is_str v then Unresolved
      else (let k = js_lower (js_trim (str_of v)) in
            case map_of ARVENTIQ_LANGUAGE_MAP k of
              Some l \<Rightarrow> Language l
            | None \<Rightarrow>
                if k = ''constructor'' then Inherited ''function Object() { [native code] }'' JUndef
                else if k = ''__proto__'' then Inherited [] (JObj [])
                else Unresolved))"

subsection \<open>Synchronising a problem\<close>

definition missing_id :: "jsval \<Rightarrow> bool" where
  "missing_id v \<longleftrightarrow> nullish v \<or> v = JStr []"

definition isArventiqTestHidden :: "jsval \<Rightarrow> bool" where
  "isArventiqTestHidden tc \<longleftrightarrow> truthy (oget tc ''is_hidden'') \<or> oget tc ''visibility'' = JStr ''hidden''"

definition arventiq_case_errors :: "nat \<Rightarrow> jsval \<Rightarrow> string list" where
  "arventiq_case_errors i tc =
     (if nullish (oget tc ''input'') then [at_index ''test_cases'' i @ ''.input is required''] else []) @
     (if nullish (oget tc ''expected_output'') then [at_index ''test_cases'' i @ ''.expected_output is required''] else [])"

definition language_errors :: "jsval \<Rightarrow> string list" where
  "language_errors v =
     (if \<not> truthy v \<or> \<not> is_str v then [''code_language is required'']
      else if resolveArventiqLanguage v = Unresolved
      then [''code_language '' @ [CHR 0x27] @ str_of v @ [CHR 0x27] @ '' is not a supported language''] else [])"

text \<open>A \<^verbatim>\<open>null\<close> test case ends the loop with a \<^verbatim>\<open>TypeError\<close>.\<close>

definition validateArventiqProblemPayload :: "jsval \<Rightarrow> string list result" where
  "validateArventiqProblemPayload payload =
     (let tcs = oget payload ''test_cases'' in
      if \<not> truthy payload \<or> typeof payload \<noteq> ''object'' then Inr [''request body must be an object'']
      else if is_array tcs \<and> list_ex nullish (elems tcs) then Inl (null_deref ''input'')
      else Inr (
        (if missing_id (oget payload ''id'') then [''id is required''] else []) @
        language_errors (oget payload ''code_language'') @
        (if \<not> truthy (oget payload ''question_text'') \<or> \<not> is_str (oget payload ''question_text'')
         then [''question_text is required''] else []) @
        (if elems tcs = [] then [''test_cases must be a non-empty array'']
         else for_each arventiq_case_errors 0 (elems tcs) @
              (if list_ex (\<lambda>tc. \<not> isArventiqTestHidden tc) (elems tcs) then []
               else [''at least one test case must be visible (is_hidden: 0 or visibility !== '' @
                     [CHR 0x27] @ ''hidden'' @ [CHR 0x27] @ '')'']))))"

definition sync_case :: "jsval \<Rightarrow> test_case" where
  "sync_case tc =
     \<lparr>tc_inputs = [JStr (to_str (coalesce (oget tc ''input'') (JStr [])))],
      tc_expected = JStr (to_str (coalesce (oget tc ''expected_output'') (JStr []))),
      tc_sample = Some (\<not> isArventiqTestHidden tc), tc_hidden = Some (isArventiqTestHidden tc)\<rparr>"

text \<open>Mongoose's cast to a \<^verbatim>\<open>String\<close>: arrays and plain objects are refused, \<^verbatim>\<open>null\<close> is kept as no value.\<close>

fun cast_string :: "jsval \<Rightarrow> string option result" where
  "cast_string (JStr s) = Inr (Some s)"
| "cast_string (JNum n) = Inr (Some (num_to_string n))"
| "cast_string (JBool b) = Inr (Some (to_str (JBool b)))"
| "cast_string JUndef = Inr None"
| "cast_string JNull = Inr None"
| "cast_string v = Inl validation_error"

text \<open>\<^verbatim>\<open>Number(v) || d\<close>.\<close>

definition num_or :: "jsval \<Rightarrow> jsnum \<Rightarrow> jsnum" where
  "num_or v d = (if num_truthy (to_num v) then to_num v else d)"

fun num_round :: "jsnum \<Rightarrow> jsnum" where
  "num_round (Fin q) = Fin (of_int (js_round q))"
| "num_round n = n"

definition kb_to_mb :: "jsval \<Rightarrow> jsnum" where
  "kb_to_mb v = num_max (Fin 1) (num_round (num_over (to_num v) 1024))"

definition memory_limit :: "jsval \<Rightarrow> jsnum" where
  "memory_limit v = (if truthy v then kb_to_mb v else Fin 256)"

record sync_doc =
  sd_external :: string
  sd_title :: "string option"
  sd_description :: string
  sd_input :: "string option"
  sd_output :: "string option"
  sd_time :: jsnum
  sd_memory :: jsnum
  sd_tolerance :: jsnum
  sd_tests :: "test_case list"

text \<open>The document with its fields cast; \<^verbatim>\<open>NaN\<close> and an empty title do not pass the schema.\<close>

definition sync_document :: "jsval \<Rightarrow> sync_doc result" where
  "sync_document payload =
     (let title = or_val (oget payload ''title'') (JStr (''Arventiq Question '' @ to_str (oget payload ''id''))) in
      case cast_string title of
        Inl e \<Rightarrow> Inl e
      | Inr t \<Rightarrow>
     (case cast_string (or_val (oget payload ''input_format'') (JStr [])) of
        Inl e \<Rightarrow> Inl e
      | Inr inp \<Rightarrow>
     (case cast_string (or_val (oget payload ''output_format'') (JStr [])) of
        Inl e \<Rightarrow> Inl e
      | Inr out \<Rightarrow>
          if memory_limit (oget payload ''memory_limit_kb'') = NaN then Inl validation_error
          else Inr \<lparr>sd_external = to_str (oget payload ''id''), sd_title = t,
                    sd_description = str_of (oget payload ''question_text''), sd_input = inp, sd_output = out,
                    sd_time = num_or (oget payload ''time_limit_ms'') (Fin 2000),
                    sd_memory = memory_limit (oget payload ''memory_limit_kb''),
                    sd_tolerance = num_or (oget payload ''float_tolerance'') (Fin 0),
                    sd_tests = map sync_case (elems (oget payload ''test_cases''))\<rparr>)))"

text \<open>\<^verbatim>\<open>Object.assign(existing, doc)\<close>: what the document does not name keeps its value.\<close>

definition assign_doc :: "sync_doc \<Rightarrow> problem \<Rightarrow> problem" where
  "assign_doc d p =
     p\<lparr>pr_external := Some (sd_external d), pr_title := (case sd_title d of Some t \<Rightarrow> t | None \<Rightarrow> []),
       pr_description := sd_description d, pr_difficulty := Medium, pr_type := StdinProblem,
       pr_input_format := sd_input d, pr_output_format := sd_output d,
       pr_time_limit := sd_time d, pr_memory_limit := sd_memory d, pr_tests := sd_tests d,
       pr_compare := \<lparr>cc_mode = EXACT, cc_tolerance = sd_tolerance d, cc_order_insensitive = False,
                      cc_deep_copy = False\<rparr>\<rparr>"

definition new_problem :: "oid \<Rightarrow> time \<Rightarrow> problem" where
  "new_problem nid now =
     \<lparr>pr_id = nid, pr_title = [], pr_description = [], pr_difficulty = Medium, pr_type = StdinProblem,
      pr_external = None, pr_input_format = None, pr_output_format = None, pr_function = None, pr_params = [],
      pr_return = None, pr_time_limit = Fin 2000, pr_memory_limit = Fin 256,
      pr_compare = \<lparr>cc_mode = EXACT, cc_tolerance = Fin 0, cc_order_insensitive = False, cc_deep_copy = False\<rparr>,
      pr_tests = [], pr_tests_json = None, pr_tags = [], pr_premium = False, pr_submissions = 0,
      pr_accepted = 0, pr_created = now\<rparr>"

definition invalid_payload :: "string list \<Rightarrow> js_error" where
  "invalid_payload errs =
     HttpError 400 ''Invalid Arventiq problem payload'' (JObj [(''errors'', JArr (map JStr errs))])"

definition store_synced :: "oid \<Rightarrow> time \<Rightarrow> sync_doc \<Rightarrow> world \<Rightarrow> problem result \<times> world" where
  "store_synced nid now d w =
     (case problems_find_external w (sd_external d) of
        Some p \<Rightarrow> (Inr (assign_doc d p), snd (problems_update (pr_id p) (assign_doc d) w))
      | None \<Rightarrow> problems_create (assign_doc d (new_problem nid now)) w)"

definition syncProblem :: "oid \<Rightarrow> time \<Rightarrow> jsval \<Rightarrow> world \<Rightarrow> problem result \<times> world" where
  "syncProblem nid now payload w =
     (case validateArventiqProblemPayload payload of
        Inl e \<Rightarrow> (Inl e, w)
      | Inr errs \<Rightarrow>
          if errs \<noteq> [] then (Inl (invalid_payload errs), w)
          else (case sync_document payload of
                  Inl e \<Rightarrow> (Inl e, w)
                | Inr d \<Rightarrow> store_synced nid now d w))"

subsection \<open>Submitting and running code\<close>

record arventiq_request =
  aq_question :: jsval
  aq_code :: jsval
  aq_language :: jsval
  aq_student :: jsval
  aq_assessment :: jsval
  aq_request :: "string option"

text \<open>
  The checks \<^verbatim>\<open>submitArventiqSolution\<close> and \<^verbatim>\<open>runArventiqCode\<close> share, down to the problem. (The message of the
  last error goes on with a hint after a dash, which the model leaves out.)
\<close>

definition arventiq_problem :: "arventiq_request \<Rightarrow> world \<Rightarrow> (resolved \<times> problem) result" where
  "arventiq_problem rq w =
     (if missing_id (aq_question rq) then http 400 ''questionId is required''
      else if \<not> is_str (aq_code rq) \<or> aq_code rq = JStr [] then http 400 ''code is required''
      else (let l = resolveArventiqLanguage (aq_language rq) in
        if l = Unresolved then http 400 (''Unsupported or missing codeLanguage: '' @ to_str (aq_language rq))
        else (case problems_find_external w (to_str (aq_question rq)) of
                None \<Rightarrow> http 404 (''Problem '' @ to_str (aq_question rq) @ '' not found'')
              | Some p \<Rightarrow> Inr (l, p))))"

definition opt_str :: "jsval \<Rightarrow> string option" where
  "opt_str v = (if nullish v then None else Some (to_str v))"

definition stored_language :: "resolved \<Rightarrow> string" where
  "stored_language l = (case l of Language s \<Rightarrow> s | Inherited s j \<Rightarrow> s | Unresolved \<Rightarrow> [])"

text \<open>The language of a queued message is absent (\<open>[]\<close>) when JSON drops it.\<close>

definition drop_language :: "resolved \<Rightarrow> world \<Rightarrow> world" where
  "drop_language l w =
     (case l of
        Inherited s j \<Rightarrow> w\<lparr>w_queue := butlast (w_queue w) @ map (\<lambda>m. m\<lparr>jm_language := []\<rparr>) (take 1 (rev (w_queue w)))\<rparr>
      | _ \<Rightarrow> w)"

definition submitArventiqSolution ::
    "submit_env \<Rightarrow> oid \<Rightarrow> oid \<Rightarrow> arventiq_request \<Rightarrow> clock \<Rightarrow> world \<Rightarrow> submission result \<times> world" where
  "submitArventiqSolution env nid uid rq clk w =
     (case arventiq_problem rq w of
        Inl e \<Rightarrow> (Inl e, w)
      | Inr (l, p) \<Rightarrow>
          (case submitSolution env nid
                  \<lparr>sr_problem = pr_id p, sr_code = str_of (aq_code rq), sr_language = stored_language l, sr_user = uid,
                   sr_college = None, sr_assessment = None, sr_attempt = None, sr_request = aq_request rq,
                   sr_ext_student = opt_str (aq_student rq), sr_ext_assessment = opt_str (aq_assessment rq)\<rparr> clk w of
             (Inl e, w') \<Rightarrow> (Inl e, w')
           | (Inr None, w') \<Rightarrow> (http 404 ''Problem not found'', w')
           | (Inr (Some s), w') \<Rightarrow> (Inr s, drop_language l w')))"

definition REAL_RUN_ERROR_TYPES :: "jsval list" where
  "REAL_RUN_ERROR_TYPES = [JStr ''timeout'', JStr ''runtime'', JStr ''memory_limit'']"

text \<open>\<^verbatim>\<open>a ?? b ?? c\<close> over the detail and the result as a whole.\<close>

definition first_detail :: "jsval \<Rightarrow> jsval" where
  "first_detail res =
     (case elems (oget res ''details'') of [] \<Rightarrow> JNull | d # ds \<Rightarrow> d)"

definition or_null :: "jsval \<Rightarrow> jsval" where
  "or_null v = or_val v JNull"

definition is_compilation_error :: "jsval \<Rightarrow> bool" where
  "is_compilation_error res \<longleftrightarrow> oget res ''status'' = JStr ''Compilation Error''"

definition is_real_error :: "jsval \<Rightarrow> bool" where
  "is_real_error res \<longleftrightarrow>
     \<not> is_compilation_error res \<and> oget (first_detail res) ''errorType'' \<in> set REAL_RUN_ERROR_TYPES"

definition mapRunResult :: "jsval \<Rightarrow> jsval" where
  "mapRunResult res =
     (let d = first_detail res; comp = is_compilation_error res; err = is_real_error res in
      JObj [(''stdout'', coalesce (oget d ''stdout'') (coalesce (oget res ''stdout'') (JStr []))),
            (''stderr'', if comp then JStr []
                         else coalesce (oget d ''stderr'') (coalesce (oget res ''stderr'') (JStr []))),
            (''compileOutput'', if comp then or_null (oget res ''stderr'') else JNull),
            (''error'', if err then or_null (oget d ''error'') else JNull),
            (''errorType'', if comp then JStr ''compilation_error'' else if err then oget d ''errorType'' else JNull),
            (''timeMs'', coalesce (oget d ''timeMs'') (coalesce (oget res ''maxTimeMs'') (jnat 0))),
            (''memoryKb'', coalesce (oget d ''memoryKb'') JNull),
            (''exitCode'', coalesce (oget d ''exitCode'') JNull)])"

definition custom_run_message :: "time \<Rightarrow> resolved \<Rightarrow> problem \<Rightarrow> jsval \<Rightarrow> jsval \<Rightarrow> jsval" where
  "custom_run_message now l p code customInput =
     JObj ([(''schemaVersion'', JStr ''1''), (''submissionId'', JStr (''arventiq-run-'' @ show_int now)),
            (''problemId'', JStr (show_nat (pr_id p))),
            (''language'', case l of Language s \<Rightarrow> JStr s | Inherited s j \<Rightarrow> j | Unresolved \<Rightarrow> JNull),
            (''code'', code),
            (''problemType'', JStr (case pr_type p of FunctionProblem \<Rightarrow> ''function'' | StdinProblem \<Rightarrow> ''stdin'')),
            (''tests'', JArr [JObj [(''inputs'', JArr [if is_str customInput then customInput else JStr []]),
                                    (''expected'', JStr [])]])] @
           (if pr_type p = StdinProblem then [] else [(''functionName'', JStr (function_name_of p))]))"

definition runArventiqCode ::
    "(jsval \<Rightarrow> judge_reply) \<Rightarrow> time \<Rightarrow> arventiq_request \<Rightarrow> jsval \<Rightarrow> world \<Rightarrow> jsval result" where
  "runArventiqCode judge now rq customInput w =
     (case arventiq_problem rq w of
        Inl e \<Rightarrow> Inl e
      | Inr (l, p) \<Rightarrow>
          (case judge (custom_run_message now l p (aq_code rq) customInput) of
             Unreachable e \<Rightarrow> http 503 (''Failed to connect to judge service: '' @ e)
           | Refused st txt \<Rightarrow> http st (''Judge service error: '' @ txt)
           | Garbled e \<Rightarrow> Inl (PlainError e)
           | Replied res \<Rightarrow> Inr (mapRunResult res)))"

subsection \<open>Verdicts\<close>

text \<open>A status named like an inherited property gives a function or an object; JSON turns neither into a text.\<close>

definition VERDICT_MAP :: "(string \<times> string) list" where
  "VERDICT_MAP =
     [(''Accepted'', ''accepted''), (''Wrong Answer'', ''wrong_answer''),
      (''Time Limit Exceeded'', ''time_limit_exceeded''), (''Memory Limit Exceeded'', ''memory_limit_exceeded''),
      (''Runtime Error'', ''runtime_error''), (''Compilation Error'', ''compilation_error'')]"

definition verdict_of :: "jsval \<Rightarrow> jsval" where
  "verdict_of status =
     (let k = to_str status in
      case map_of VERDICT_MAP k of
        Some v \<Rightarrow> JStr v
      | None \<Rightarrow> if k \<in> set object_prototype_keys then JObj [] else JStr ''runtime_error'')"

definition mapCaseVerdict :: "jsval \<Rightarrow> jsval \<Rightarrow> jsval" where
  "mapCaseVerdict d verdict =
     (if oget d ''error'' = JStr ''Time Limit Exceeded'' \<or> oget d ''errorType'' = JStr ''timeout''
      then JStr ''time_limit_exceeded''
      else if oget d ''errorType'' = JStr ''memory_limit'' then JStr ''memory_limit_exceeded''
      else if truthy (first_of d [''passed'', ''ok'']) then JStr ''accepted''
      else if oget d ''errorType'' = JStr ''wrong_answer'' then JStr ''wrong_answer''
      else if truthy (oget d ''error'') then JStr ''runtime_error''
      else verdict)"

definition map_case :: "jsval \<Rightarrow> nat \<Rightarrow> jsval \<Rightarrow> jsval" where
  "map_case verdict idx d =
     JObj [(''index'', coalesce (oget d ''test'') (jnat (idx + 1))), (''verdict'', mapCaseVerdict d verdict),
           (''time_ms'', coalesce (oget d ''timeMs'') (jnat 0)), (''memory_kb'', or_null (oget d ''memoryKb'')),
           (''weight'', jnat 1), (''group'', JNull), (''passed'', JBool (truthy (first_of d [''passed'', ''ok'']))),
           (''input'', oget d ''input''), (''expected'', oget d ''expected''),
           (''actual'', first_of d [''output'', ''stdout'']), (''stderr'', or_val (oget d ''stderr'') (JStr []))]"

fun map_cases :: "jsval \<Rightarrow> nat \<Rightarrow> jsval list \<Rightarrow> jsval list result" where
  "map_cases verdict idx [] = Inr []"
| "map_cases verdict idx (d # ds) =
     (if nullish d then Inl (null_deref ''test'')
      else (case map_cases verdict (Suc idx) ds of
              Inl e \<Rightarrow> Inl e
            | Inr cs \<Rightarrow> Inr (map_case verdict idx d # cs)))"

text \<open>\<^verbatim>\<open>total > 0 ? Number((passed / total).toFixed(4)) : 0\<close>.\<close>

fun num_div :: "jsnum \<Rightarrow> jsnum \<Rightarrow> jsnum" where
  "num_div (Fin p) (Fin t) = (if t = 0 then (if p = 0 then NaN else if 0 < p then PosInf else NegInf) else Fin (p / t))"
| "num_div (Fin p) NaN = NaN"
| "num_div (Fin p) t = Fin 0"
| "num_div NaN t = NaN"
| "num_div n (Fin t) = (if 0 \<le> t then n else num_neg n)"
| "num_div n t = NaN"

fun num_fixed :: "nat \<Rightarrow> jsnum \<Rightarrow> jsnum" where
  "num_fixed k (Fin q) = Fin (to_fixed k q)"
| "num_fixed k n = n"

definition score_of :: "jsval \<Rightarrow> jsval \<Rightarrow> jsnum" where
  "score_of passed n = (if num_lt (Fin 0) (to_num n) then num_fixed 4 (num_div (to_num passed) (to_num n)) else Fin 0)"

definition mapSubmissionToArventiqVerdict :: "submission \<Rightarrow> jsval option result" where
  "mapSubmissionToArventiqVerdict s =
     (let tr = su_result s; verdict = verdict_of (oget tr ''status'');
          n = coalesce (oget tr ''total'') (coalesce (oget tr ''totalCount'') (jnat 0));
          passed = coalesce (oget tr ''passed'') (coalesce (oget tr ''passedCount'') (jnat 0))
      in if \<not> truthy tr \<or> su_status s = Pending \<or> su_status s = Running then Inr None
         else (case map_cases verdict 0 (elems (oget tr ''details'')) of
                 Inl e \<Rightarrow> Inl e
               | Inr cs \<Rightarrow>
                   Inr (Some (JObj [(''verdict'', verdict), (''score'', JNum (score_of passed n)),
                     (''max_time_ms'', coalesce (oget tr ''maxTimeMs'') (jnat 0)), (''max_memory_kb'', JNull),
                     (''compile_output'', if verdict = JStr ''compilation_error''
                        then (case non_empty (su_output s) of Some out \<Rightarrow> JStr out | None \<Rightarrow> JNull) else JNull),
                     (''passed_count'', passed), (''total_count'', n), (''cases'', JArr cs)]))))"

datatype arventiq_view =
    ArventiqNotFound
  | ArventiqForbidden
  | ArventiqPending
  | ArventiqVerdict jsval

definition getArventiqSubmissionResult ::
    "oid \<Rightarrow> viewer \<Rightarrow> clock \<Rightarrow> world \<Rightarrow> arventiq_view result \<times> world" where
  "getArventiqSubmissionResult i v clk w =
     (case getSubmissionById i v clk w of
        (Inl e, w') \<Rightarrow> (Inl e, w')
      | (Inr ViewNotFound, w') \<Rightarrow> (Inr ArventiqNotFound, w')
      | (Inr ViewForbidden, w') \<Rightarrow> (Inr ArventiqForbidden, w')
      | (Inr (View s), w') \<Rightarrow>
          if non_empty (su_ext_student s) = None \<and> non_empty (su_ext_assessment s) = None
          then (Inr ArventiqForbidden, w')
          else (case mapSubmissionToArventiqVerdict s of
                  Inl e \<Rightarrow> (Inl e, w')
                | Inr None \<Rightarrow> (Inr ArventiqPending, w')
                | Inr (Some r) \<Rightarrow> (Inr (ArventiqVerdict r), w')))"

end
