(* ===== verification/Attempt_Lifecycle.thy ===== *)
theory Attempt_Lifecycle
  imports Submission_Laws
begin

section \<open>The life of an attempt\<close>

text \<open>
  The abstract contract of an attempt is the step relation \<open>attempt_change\<close> on a single document: what
  may happen to it and under which guard. The refinement shows that every handler of the assessment
  and submission services only ever applies such steps to the stored attempts (or adds a fresh one),
  so the invariants proved on the relation hold in every reachable state of the system. Handlers are
  atomic here; the interleaving of two starts is the subject of \<open>Start_Race\<close>.
\<close>

subsection \<open>The abstract step relation\<close>

inductive attempt_change :: "bool \<Rightarrow> attempt \<Rightarrow> attempt \<Rightarrow> bool" for gr where
  rescore: "attempt_change gr a (a\<lparr>at_score := x\<rparr>)"
| observe: "at_status a = Active \<Longrightarrow> count_event ty = Some f \<Longrightarrow>
     attempt_change gr a (push_event (plain_event (str_of ty) t) (f a))"
| expire: "at_status a = Active \<Longrightarrow> attempt_change gr a (a\<lparr>at_status := TimedOut, at_submitted := Some t\<rparr>)"
| expire_logged: "at_status a = Active \<Longrightarrow> attempt_change gr a (timeout_update (Some t) a)"
| submit: "at_status a = Active \<Longrightarrow> attempt_change gr a (submit_update t1 t2 a)"
| draft: "at_status a = Active \<Longrightarrow> attempt_change gr a (a\<lparr>at_drafts := d\<rparr>)"
| grace: "gr \<Longrightarrow> g \<noteq> NaN \<Longrightarrow> attempt_change gr a (grace_update (grace_event t added g) g (at_status a = TimedOut) a)"
| raise: "at_status a \<noteq> Active \<Longrightarrow> ch_status (at_challenge a) = NoChallenge \<Longrightarrow>
     attempt_change gr a (raise_update stored reason t1 t2 a)"
| resolve: "ch_status (at_challenge a) = Raised \<Longrightarrow> resolution v = Some (st, name) \<Longrightarrow>
     attempt_change gr a (resolve_update st name stored comment t1 t2 a)"
| note_submission: "attempt_change gr a (push_event (submit_problem_event p s t) a)"

inductive_cases attempt_changeE: "attempt_change gr a a'"

abbreviation attempt_changes :: "bool \<Rightarrow> attempt \<Rightarrow> attempt \<Rightarrow> bool" where
  "attempt_changes gr \<equiv> (attempt_change gr)\<^sup>*\<^sup>*"

lemmas change_defs = push_event_def plain_event_def timeout_update_def submit_update_def grace_update_def
  grace_event_def raise_update_def resolve_update_def submit_problem_event_def

lemma count_eventE:
  assumes "count_event ty = Some f"
  obtains "ty = JStr ''TAB_SWITCH''" "f = (\<lambda>a. a\<lparr>at_tabs := at_tabs a + 1\<rparr>)"
    | "ty = JStr ''COPY''" "f = (\<lambda>a. a\<lparr>at_copies := at_copies a + 1\<rparr>)"
    | "ty = JStr ''PASTE''" "f = (\<lambda>a. a\<lparr>at_pastes := at_pastes a + 1\<rparr>)"
    | "ty = JStr ''FULLSCREEN_EXIT''" "f = (\<lambda>a. a\<lparr>at_exits := at_exits a + 1\<rparr>)"
    | "ty = JStr ''RETURN''" "f = (\<lambda>a. a)"
  using assms unfolding count_event_def by (auto split: if_splits)

lemma resolutionE:
  assumes "resolution v = Some (st, name)"
  obtains "st = Accepted" "name = ''ACCEPTED''" | "st = Rejected" "name = ''REJECTED''"
  using assms unfolding resolution_def by (auto split: if_splits)

text \<open>The identity of an attempt never changes: id, assessment, student, college, start and order.\<close>

definition same_identity :: "attempt \<Rightarrow> attempt \<Rightarrow> bool" where
  "same_identity a a' \<longleftrightarrow>
     at_id a' = at_id a \<and> at_assessment a' = at_assessment a \<and> at_student a' = at_student a \<and>
     at_college a' = at_college a \<and> at_started a' = at_started a \<and> at_order a' = at_order a"

lemma change_identity: "attempt_change gr a a' \<Longrightarrow> same_identity a a'"
  by (erule attempt_changeE) (auto simp: same_identity_def change_defs elim!: count_eventE)

lemma changes_identity: "attempt_changes gr a a' \<Longrightarrow> same_identity a a'"
  by (induction rule: rtranclp_induct) (auto simp: same_identity_def dest!: change_identity)

subsection \<open>The invariant of one attempt\<close>

definition count_events :: "string \<Rightarrow> attempt \<Rightarrow> nat" where
  "count_events e a = count_docs (\<lambda>ev. ev_event ev = e) (at_timeline a)"

definition counters_ok :: "attempt \<Rightarrow> bool" where
  "counters_ok a \<longleftrightarrow>
     at_tabs a = count_events ''TAB_SWITCH'' a \<and> at_copies a = count_events ''COPY'' a \<and>
     at_pastes a = count_events ''PASTE'' a \<and> at_exits a = count_events ''FULLSCREEN_EXIT'' a"

definition challenge_ok :: "challenge \<Rightarrow> bool" where
  "challenge_ok c \<longleftrightarrow>
     (ch_status c = NoChallenge \<longleftrightarrow> ch_raised_at c = None) \<and>
     (ch_status c \<in> {Accepted, Rejected} \<longleftrightarrow> ch_resolved_at c \<noteq> None)"

definition attempt_ok :: "attempt \<Rightarrow> bool" where
  "attempt_ok a \<longleftrightarrow>
     (at_status a = Active \<longleftrightarrow> at_submitted a = None) \<and> counters_ok a \<and> challenge_ok (at_challenge a) \<and>
     at_grace a \<noteq> NaN \<and> (\<exists>evs. at_timeline a = plain_event ''START'' (at_started a) # evs)"

lemma fresh_attempt_ok: "attempt_ok (new_attempt nid aid sid coll now order)"
  by (simp add: attempt_ok_def counters_ok_def count_events_def challenge_ok_def new_attempt_def
      empty_challenge_def plain_event_def)

lemma change_counters: "attempt_change gr a a' \<Longrightarrow> counters_ok a \<Longrightarrow> counters_ok a'"
  by (erule attempt_changeE)
     (auto simp: counters_ok_def count_events_def change_defs elim!: count_eventE resolutionE)

lemma change_challenge: "attempt_change gr a a' \<Longrightarrow> challenge_ok (at_challenge a) \<Longrightarrow> challenge_ok (at_challenge a')"
  by (erule attempt_changeE)
     (auto simp: challenge_ok_def change_defs elim!: count_eventE resolutionE)

lemma change_status:
  "attempt_change gr a a' \<Longrightarrow> at_status a = Active \<longleftrightarrow> at_submitted a = None \<Longrightarrow>
     at_status a' = Active \<longleftrightarrow> at_submitted a' = None"
  by (erule attempt_changeE) (auto simp: change_defs elim!: count_eventE)

lemma change_grace: "attempt_change gr a a' \<Longrightarrow> at_grace a \<noteq> NaN \<Longrightarrow> at_grace a' \<noteq> NaN"
  by (erule attempt_changeE) (auto simp: change_defs elim!: count_eventE)

lemma change_timeline: "attempt_change gr a a' \<Longrightarrow> \<exists>evs. at_timeline a' = at_timeline a @ evs"
  by (erule attempt_changeE) (auto simp: change_defs elim!: count_eventE)

lemma change_ok:
  assumes "attempt_change gr a a'" and "attempt_ok a"
  shows "attempt_ok a'"
proof -
  obtain evs where "at_timeline a' = at_timeline a @ evs" using change_timeline [OF assms(1)] ..
  moreover have "at_started a' = at_started a"
    using change_identity [OF assms(1)] by (simp add: same_identity_def)
  ultimately show ?thesis
    using assms change_counters [OF assms(1)] change_challenge [OF assms(1)] change_status [OF assms(1)]
      change_grace [OF assms(1)]
    unfolding attempt_ok_def by auto
qed

lemma changes_ok: "attempt_changes gr a a' \<Longrightarrow> attempt_ok a \<Longrightarrow> attempt_ok a'"
  by (induction rule: rtranclp_induct) (auto intro: change_ok)

text \<open>What a submitted attempt keeps for good.\<close>

definition frozen :: "attempt \<Rightarrow> attempt \<Rightarrow> bool" where
  "frozen a a' \<longleftrightarrow>
     at_status a' = Submitted \<and> at_submitted a' = at_submitted a \<and> at_drafts a' = at_drafts a \<and>
     at_tabs a' = at_tabs a \<and> at_copies a' = at_copies a \<and> at_pastes a' = at_pastes a \<and> at_exits a' = at_exits a"

lemma change_frozen: "attempt_change gr a a' \<Longrightarrow> at_status a = Submitted \<Longrightarrow> frozen a a'"
  by (erule attempt_changeE) (auto simp: frozen_def change_defs)

lemma changes_frozen: "attempt_changes gr a a' \<Longrightarrow> at_status a = Submitted \<Longrightarrow> frozen a a'"
  by (induction rule: rtranclp_induct) (auto simp: frozen_def dest!: change_frozen)

text \<open>A challenge only moves forward: none, raised, resolved.\<close>

fun challenge_rank :: "challenge_status \<Rightarrow> nat" where
  "challenge_rank NoChallenge = 0"
| "challenge_rank Raised = 1"
| "challenge_rank Accepted = 2"
| "challenge_rank Rejected = 2"

definition challenge_forward :: "attempt \<Rightarrow> attempt \<Rightarrow> bool" where
  "challenge_forward a a' \<longleftrightarrow>
     ch_status (at_challenge a') = ch_status (at_challenge a) \<or>
     challenge_rank (ch_status (at_challenge a)) < challenge_rank (ch_status (at_challenge a'))"

lemma change_challenge_forward: "attempt_change gr a a' \<Longrightarrow> challenge_forward a a'"
  by (erule attempt_changeE)
     (auto simp: challenge_forward_def change_defs elim!: count_eventE resolutionE)

lemma changes_challenge_forward: "attempt_changes gr a a' \<Longrightarrow> challenge_forward a a'"
  by (induction rule: rtranclp_induct) (auto simp: challenge_forward_def dest!: change_challenge_forward)

subsection \<open>Evolution of the stored attempts\<close>

definition born :: "attempt \<Rightarrow> bool" where
  "born a \<longleftrightarrow> (\<exists>nid aid sid coll t order. attempt_changes True (new_attempt nid aid sid coll t order) a)"

definition evolves :: "attempt list \<Rightarrow> attempt list \<Rightarrow> bool" where
  "evolves as bs \<longleftrightarrow> (\<exists>cs new. bs = cs @ new \<and> list_all2 (attempt_changes True) as cs \<and> (\<forall>a \<in> set new. born a))"

lemma born_changes: "born a \<Longrightarrow> attempt_changes True a b \<Longrightarrow> born b"
  unfolding born_def by (meson rtranclp_trans)

lemma born_ok: "born a \<Longrightarrow> attempt_ok a"
  unfolding born_def using changes_ok fresh_attempt_ok by blast

lemma evolves_same: "list_all2 (attempt_changes True) as bs \<Longrightarrow> evolves as bs"
  unfolding evolves_def by (intro exI [of _ bs] exI [of _ "[]"]) simp

lemma evolves_refl [simp]: "evolves as as"
  by (rule evolves_same) (simp add: list_all2_refl)

lemma evolves_trans:
  assumes "evolves as bs" and "evolves bs cs"
  shows "evolves as cs"
proof -
  from assms(1) obtain b1 n1 where b: "bs = b1 @ n1" and l1: "list_all2 (attempt_changes True) as b1"
      and n1: "\<forall>a \<in> set n1. born a" by (auto simp: evolves_def)
  from assms(2) obtain c1 n2 where c: "cs = c1 @ n2" and l2: "list_all2 (attempt_changes True) bs c1"
      and n2: "\<forall>a \<in> set n2. born a" by (auto simp: evolves_def)
  from l2 b obtain d1 d2 where d: "c1 = d1 @ d2" and e1: "list_all2 (attempt_changes True) b1 d1"
      and e2: "list_all2 (attempt_changes True) n1 d2" by (auto simp: list_all2_append1)
  have "list_all2 (attempt_changes True) as d1"
    using list_all2_trans [OF _ l1 e1] by (meson rtranclp_trans)
  moreover have "\<forall>a \<in> set (d2 @ n2). born a"
    using n1 n2 e2 by (auto simp: list_all2_conv_all_nth in_set_conv_nth) (metis born_changes nth_mem)
  ultimately show ?thesis
    unfolding evolves_def using c d by (intro exI [of _ d1] exI [of _ "d2 @ n2"]) simp
qed

text \<open>The part of an evolution that adds nothing. The flag tells whether grace time may be given.\<close>

lemma change_mono: "attempt_change False a a' \<Longrightarrow> attempt_change True a a'"
  by (erule attempt_changeE) (auto intro: attempt_change.intros)

definition moves :: "bool \<Rightarrow> attempt list \<Rightarrow> attempt list \<Rightarrow> bool" where
  "moves gr as bs \<longleftrightarrow> list_all2 (attempt_changes gr) as bs"

lemma moves_refl [simp]: "moves gr as as"
  by (simp add: moves_def list_all2_refl)

lemma moves_trans: "moves gr as bs \<Longrightarrow> moves gr bs cs \<Longrightarrow> moves gr as cs"
  unfolding moves_def using list_all2_trans [of "attempt_changes gr" "attempt_changes gr" "attempt_changes gr"]
  by (meson rtranclp_trans)

lemma moves_all2: "list_all2 (attempt_changes gr) as bs \<Longrightarrow> moves gr as bs"
  by (simp add: moves_def)

lemma moves_evolves: "moves True as bs \<Longrightarrow> evolves as bs"
  by (simp add: moves_def evolves_same)

lemma moves_ids: "moves gr as bs \<Longrightarrow> map at_id bs = map at_id as \<and> map attempt_key bs = map attempt_key as"
  unfolding moves_def
  by (induction rule: list_all2_induct) (auto simp: attempt_key_def same_identity_def dest!: changes_identity)

definition ids_distinct :: "world \<Rightarrow> bool" where
  "ids_distinct w \<longleftrightarrow> distinct (map at_id (w_attempts w))"

lemma moves_update:
  assumes "ids_distinct w"
    and "\<And>a. attempts_find w i None = Some a \<Longrightarrow> attempt_changes gr a (f a)"
  shows "moves gr (w_attempts w) (w_attempts (snd (attempts_update i f None w)))"
proof (cases "attempts_find w i None")
  case None
  then show ?thesis by (simp add: attempts_repo.update_miss)
next
  case (Some a)
  have only: "x = a" if "x \<in> set (w_attempts w)" "at_id x = i" for x
    using attempts_repo.find_complete [of w x None] that assms(1) Some by (simp add: ids_distinct_def)
  have "list_all2 (attempt_changes gr) (w_attempts w) (map (\<lambda>x. if at_id x = i then f x else x) (w_attempts w))"
    using only assms(2) [OF Some] by (auto simp: list_all2_map2 list_all2_same)
  then show ?thesis
    using attempts_repo.update_docs [OF Some, of f] assms(1) by (simp add: ids_distinct_def moves_all2)
qed

lemma update_ids_distinct:
  assumes "ids_distinct w" and "\<And>x. at_id (f x) = at_id x"
  shows "ids_distinct (snd (attempts_update i f s w))"
  using attempts_repo.update_ids [of w f i s] assms by (simp add: ids_distinct_def)

text \<open>An update after a scoped lookup is an abstract step of the document that was found.\<close>

lemma moves_found:
  assumes "ids_distinct w" and "attempts_find w i scope = Some a" and "attempt_changes gr a (f a)"
  shows "moves gr (w_attempts w) (w_attempts (snd (attempts_update i f None w)))"
  using assms attempts_repo.find_widen [of w i scope a] by (intro moves_update) (auto simp: ids_distinct_def)

lemma attempts_logEvent [simp]: "w_attempts (logEvent ok t e u d info w) = w_attempts w"
  by (simp add: logEvent_def)

subsection \<open>Every handler refines the abstract steps\<close>

lemma fst_snd_case: "(case p of (x, w) \<Rightarrow> (f x, w)) = (f (fst p), snd p)"
  by (simp add: case_prod_beta)

lemma recalculate_cases:
  assumes "recalculateAttemptScore i w = (r, w')"
  shows "w' = w \<or> (\<exists>x. w' = snd (attempts_update i (\<lambda>b. b\<lparr>at_score := x\<rparr>) None w))"
  using assms by (auto simp: recalculateAttemptScore_def split: option.splits sum.splits if_splits)

lemma recalculate_moves:
  assumes "ids_distinct w" and "recalculateAttemptScore i w = (r, w')"
  shows "moves False (w_attempts w) (w_attempts w') \<and> ids_distinct w'"
  using recalculate_cases [OF assms(2)] assms(1)
  by (auto intro!: moves_update update_ids_distinct rescore)

text \<open>Rescoring keeps the document, up to its score.\<close>

lemma recalculate_find:
  assumes "ids_distinct w" and "recalculateAttemptScore i w = (r, w')" and "attempts_find w i None = Some a"
  shows "\<exists>x. attempts_find w' i None = Some (a\<lparr>at_score := x\<rparr>)"
proof -
  have "attempts_find (snd (attempts_update i (\<lambda>b. b\<lparr>at_score := x\<rparr>) None w)) i None = Some (a\<lparr>at_score := x\<rparr>)" for x
    using attempts_repo.update_find_same [of w i None a "\<lambda>b. b\<lparr>at_score := x\<rparr>"] assms(1,3)
    by (simp add: ids_distinct_def)
  moreover have "a = a\<lparr>at_score := at_score a\<rparr>" by simp
  ultimately show ?thesis using recalculate_cases [OF assms(2)] assms(3) by (elim disjE) metis+
qed

lemma expired_time: "isAttemptExpired now a s \<Longrightarrow> \<exists>t. getExpirationTime a s = Some t \<and> t < now"
  by (cases "getExpirationTime a s") (simp_all add: isAttemptExpired_def)

lemma log_event_moves:
  assumes "ids_distinct w"
  shows "moves False (w_attempts w) (w_attempts (snd (logAntiCheatingEvent i ty u clk w)))"
  using assms
  by (auto simp: logAntiCheatingEvent_def fst_snd_case split: option.splits sum.splits
      intro!: moves_found observe)

lemma finish_moves:
  assumes ids: "ids_distinct w" and a: "attempts_find w i None = Some a" and act: "at_status a = Active"
  shows "moves False (w_attempts w) (w_attempts (snd (finish_attempt i a s u ok clk info w)))"
proof -
  obtain r w1 where r: "recalculateAttemptScore i w = (r, w1)" by fastforce
  from recalculate_moves [OF ids r] have e1: "moves False (w_attempts w) (w_attempts w1)" and ids1: "ids_distinct w1"
    by simp_all
  obtain x where a1: "attempts_find w1 i None = Some (a\<lparr>at_score := x\<rparr>)"
    using recalculate_find [OF ids r a] by blast
  have up: "moves False (w_attempts w1) (w_attempts (snd (attempts_update i f None w1)))"
    if "attempt_changes False (a\<lparr>at_score := x\<rparr>) (f (a\<lparr>at_score := x\<rparr>))" for f
    using that a1 by (intro moves_update [OF ids1]) simp
  have sub: "moves False (w_attempts w1) (w_attempts (snd (attempts_update i (submit_update t1 t2) None w1)))" for t1 t2
    by (rule up, rule r_into_rtranclp, rule submit) (simp add: act)
  have exp: "moves False (w_attempts w1) (w_attempts (snd (attempts_update i (timeout_update (Some t)) None w1)))" for t
    by (rule up, rule r_into_rtranclp, rule expire_logged) (simp add: act)
  show ?thesis
    using r e1 moves_trans [OF e1 sub] moves_trans [OF e1 exp] expired_time [of "clk 0" a s]
    by (cases "isAttemptExpired (clk 0) a s"; cases r)
       (auto simp: finish_attempt_def Let_def case_prod_beta split: option.splits)
qed

lemma submit_moves:
  assumes "ids_distinct w"
  shows "moves False (w_attempts w) (w_attempts (snd (submitAssessment i u ok clk info w)))"
  using assms attempts_repo.find_widen [of w i "scope_of u"]
  by (auto simp: submitAssessment_def ids_distinct_def split: option.splits sum.splits
      intro!: finish_moves [unfolded ids_distinct_def])

lemma draft_moves:
  assumes "ids_distinct w"
  shows "moves False (w_attempts w) (w_attempts (snd (saveDraft i d u w)))"
  using assms
  by (auto simp: saveDraft_def fst_snd_case split: option.splits sum.splits intro!: moves_found draft)

lemma grace_moves:
  assumes "ids_distinct w"
  shows "moves True (w_attempts w) (w_attempts (snd (addGraceTime i m u clk w)))"
  using assms
  by (auto simp: addGraceTime_def fst_snd_case Let_def split: option.splits
      intro!: moves_found intro: grace simp del: num_add.simps)

lemma raise_moves:
  assumes "ids_distinct w"
  shows "moves False (w_attempts w) (w_attempts (snd (raiseChallenge cast i reason u clk w)))"
  using assms
  by (auto simp: raiseChallenge_def fst_snd_case split: option.splits sum.splits intro!: moves_found raise)

lemma resolve_moves:
  assumes "ids_distinct w"
  shows "moves False (w_attempts w) (w_attempts (snd (resolveChallenge cast i v c u clk w)))"
  using assms
  by (auto simp: resolveChallenge_def fst_snd_case split: option.splits sum.splits
      intro!: moves_found intro: resolve)

lemma view_moves:
  assumes ids: "ids_distinct w"
  shows "moves False (w_attempts w) (w_attempts (snd (getAssessmentAttemptById i u clk w)))"
proof (cases "\<exists>a s. attempts_find w i (scope_of u) = Some a \<and> assessments_find w (at_assessment a) (scope_of u) = Some s")
  case True
  then obtain a s where a: "attempts_find w i (scope_of u) = Some a"
      and s: "assessments_find w (at_assessment a) (scope_of u) = Some s" by blast
  define w1 where "w1 = view_timeout (clk 0) i a s w"
  have e1: "moves False (w_attempts w) (w_attempts w1)"
    using ids expired_time [of "clk 0" a s]
    by (auto simp: w1_def view_timeout_def intro!: moves_found [OF _ a] r_into_rtranclp expire)
  have ids1: "ids_distinct w1"
    using ids by (auto simp: w1_def view_timeout_def intro!: update_ids_distinct)
  obtain r w2 where r: "recalculateAttemptScore i w1 = (r, w2)" by fastforce
  then have "snd (getAssessmentAttemptById i u clk w) = w2"
    using a s by (auto simp: getAssessmentAttemptById_def w1_def [symmetric] Let_def split: sum.splits)
  with moves_trans [OF e1] recalculate_moves [OF ids1 r] show ?thesis by simp
next
  case False
  then show ?thesis by (auto simp: getAssessmentAttemptById_def split: option.splits)
qed

lemma validate_moves:
  assumes "ids_distinct w"
  shows "moves False (w_attempts w) (w_attempts (snd (validateAssessmentSubmission rq now w)))"
proof -
  have id: "at_id a = i" if "attempts_find w i None = Some a" for i a
    using attempts_repo.find_sound [OF that] by simp
  show ?thesis
    using assms id
    by (auto simp: validateAssessmentSubmission_def check_open_attempt_def split: option.splits
        intro!: moves_found r_into_rtranclp expire)
qed

lemma attempts_submissions [simp]: "w_attempts (snd (submissions_create s w)) = w_attempts w"
  by (simp add: submissions_create_def)

lemma log_submission_moves:
  assumes "ids_distinct w"
  shows "moves False (w_attempts w) (w_attempts (log_submission ok p s t w))"
  using assms by (auto simp: log_submission_def split: option.splits intro!: moves_update note_submission)

lemma enqueue_attempts [simp]: "w_attempts (snd (enqueue rq p s w)) = w_attempts w"
  by (auto simp: enqueue_def publishSubmissionMessage_def Let_def)

lemma create_submission_moves:
  assumes "ids_distinct w"
  shows "moves False (w_attempts w) (w_attempts (snd (create_submission env nid rq clk w)))"
proof -
  have "moves False (w_attempts w) (w_attempts (log_submission ok p s t (w\<lparr>w_submissions := ss\<rparr>)))" for ok p s t ss
    using log_submission_moves [of "w\<lparr>w_submissions := ss\<rparr>"] assms by (simp add: ids_distinct_def)
  then show ?thesis
    by (auto simp: create_submission_def submissions_create_def split: option.splits)
qed

lemma solution_moves:
  assumes "ids_distinct w"
  shows "moves False (w_attempts w) (w_attempts (snd (submitSolution env nid rq clk w)))"
proof -
  obtain r1 w1 where v: "validateAssessmentSubmission rq (clk 0) w = (r1, w1)" by fastforce
  obtain r2 w2 where q: "check_quotas env rq clk w1 = (r2, w2)" by fastforce
  have m1: "moves False (w_attempts w) (w_attempts w1)" using validate_moves [OF assms, of rq "clk 0"] v by simp
  obtain rd where w2: "w2 = w1\<lparr>w_redis := rd\<rparr>" using check_quotas_frame [OF q] ..
  have "ids_distinct w2" using moves_ids [OF m1] assms w2 by (simp add: ids_distinct_def)
  from create_submission_moves [OF this, of env nid rq clk] w2
  have "moves False (w_attempts w1) (w_attempts (snd (create_submission env nid rq clk w2)))" by simp
  with m1 moves_trans w2 v q show ?thesis
    by (auto simp: submitSolution_def split: sum.splits)
qed

lemma start_evolves:
  assumes "startAssessment shuffle nid aid u ok clk info w = (r, w')"
  shows "w_attempts w' = w_attempts w \<or>
     (\<exists>sid coll t order. w_attempts w' = w_attempts w @ [new_attempt nid aid sid coll t order]
        \<and> attempts_find_one w aid sid = None)"
  using assms
  by (auto simp: startAssessment_def start_read_def start_write_def attempts_create_def logEvent_def
      new_attempt_def split: option.splits sum.splits if_splits)

subsection \<open>The system\<close>

text \<open>
  A state of the system evolves by calls of the handlers that write attempts, in any order, by any
  user, at any time, and by everything else, which leaves the attempts alone. The third-party
  functions are fixed in \<open>services\<close>; the id of a new attempt is fresh.
\<close>

record services =
  sv_shuffle :: "oid list \<Rightarrow> oid list"
  sv_cast :: "jsval \<Rightarrow> jsval result"
  sv_env :: submit_env
  sv_log_ok :: bool
  sv_info :: audit_info

datatype action =
    DoStart oid oid auth
  | DoObserve oid jsval auth
  | DoFinish oid auth
  | DoView oid auth
  | DoDraft oid jsval auth
  | DoGrace oid jsval auth
  | DoRaise oid jsval auth
  | DoResolve oid jsval jsval auth
  | DoSolve oid submit_request

fun exec :: "services \<Rightarrow> clock \<Rightarrow> action \<Rightarrow> world \<Rightarrow> world" where
  "exec sv clk (DoStart nid aid u) w =
     snd (startAssessment (sv_shuffle sv) nid aid u (sv_log_ok sv) clk (sv_info sv) w)"
| "exec sv clk (DoObserve i ty u) w = snd (logAntiCheatingEvent i ty u clk w)"
| "exec sv clk (DoFinish i u) w = snd (submitAssessment i u (sv_log_ok sv) clk (sv_info sv) w)"
| "exec sv clk (DoView i u) w = snd (getAssessmentAttemptById i u clk w)"
| "exec sv clk (DoDraft i d u) w = snd (saveDraft i d u w)"
| "exec sv clk (DoGrace i m u) w = snd (addGraceTime i m u clk w)"
| "exec sv clk (DoRaise i reason u) w = snd (raiseChallenge (sv_cast sv) i reason u clk w)"
| "exec sv clk (DoResolve i v c u) w = snd (resolveChallenge (sv_cast sv) i v c u clk w)"
| "exec sv clk (DoSolve nid rq) w = snd (submitSolution (sv_env sv) nid rq clk w)"

fun fresh_for :: "action \<Rightarrow> world \<Rightarrow> bool" where
  "fresh_for (DoStart nid aid u) w = (nid \<notin> at_id ` set (w_attempts w))"
| "fresh_for _ w = True"

inductive system_step :: "services \<Rightarrow> world \<Rightarrow> world \<Rightarrow> bool" for sv where
  handler: "fresh_for act w \<Longrightarrow> system_step sv w (exec sv clk act w)"
| other: "w_attempts w' = w_attempts w \<Longrightarrow> system_step sv w w'"

inductive_cases system_stepE: "system_step sv w w'"

definition attempts_wf :: "world \<Rightarrow> bool" where
  "attempts_wf w \<longleftrightarrow> ids_distinct w \<and> distinct (map attempt_key (w_attempts w))"

lemma moves_wf: "moves gr (w_attempts w) (w_attempts w') \<Longrightarrow> attempts_wf w \<Longrightarrow> attempts_wf w'"
  using moves_ids [of gr "w_attempts w" "w_attempts w'"] by (simp add: attempts_wf_def ids_distinct_def)

lemma start_wf:
  assumes "attempts_wf w" and "nid \<notin> at_id ` set (w_attempts w)"
    and "startAssessment shuffle nid aid u ok clk info w = (r, w')"
  shows "evolves (w_attempts w) (w_attempts w') \<and> attempts_wf w'"
proof (cases "w_attempts w' = w_attempts w")
  case True
  with assms(1) show ?thesis by (simp add: attempts_wf_def ids_distinct_def)
next
  case False
  with start_evolves [OF assms(3)] obtain sid coll t order
    where w': "w_attempts w' = w_attempts w @ [new_attempt nid aid sid coll t order]"
      and none: "attempts_find_one w aid sid = None" by blast
  have "(aid, sid) \<notin> attempt_key ` set (w_attempts w)"
    using none by (auto simp: attempts_find_one_def find_none attempt_key_def)
  then have "attempts_wf w'"
    using assms(1,2) w' by (auto simp: attempts_wf_def ids_distinct_def attempt_key_def new_attempt_def)
  moreover have "evolves (w_attempts w) (w_attempts w')"
    unfolding evolves_def w' born_def
    by (rule exI [of _ "w_attempts w"], rule exI [of _ "[new_attempt nid aid sid coll t order]"])
       (auto simp: list_all2_refl, blast)
  ultimately show ?thesis by simp
qed

fun is_grace :: "action \<Rightarrow> bool" where
  "is_grace (DoGrace i m u) = True"
| "is_grace _ = False"

lemma moves_mono: "moves False as bs \<Longrightarrow> moves gr as bs"
  unfolding moves_def
  by (cases gr) (auto elim!: list_all2_mono intro: mono_rtranclp [rule_format, OF change_mono])

lemma handler_moves:
  assumes "ids_distinct w" and "\<nexists>nid aid u. act = DoStart nid aid u"
  shows "moves (is_grace act) (w_attempts w) (w_attempts (exec sv clk act w))"
  using assms
  by (cases act)
     (simp_all add: log_event_moves submit_moves view_moves draft_moves grace_moves raise_moves resolve_moves
        solution_moves)

lemma step_evolves:
  assumes "system_step sv w w'" and "attempts_wf w"
  shows "evolves (w_attempts w) (w_attempts w') \<and> attempts_wf w'"
  using assms(1)
proof cases
  case (handler act clk)
  show ?thesis
  proof (cases "\<exists>nid aid u. act = DoStart nid aid u")
    case True
    with handler show ?thesis
      using start_wf [OF assms(2)] by (metis exec.simps(1) fresh_for.simps(1) prod.collapse)
  next
    case False
    with handler have "moves (is_grace act) (w_attempts w) (w_attempts w')"
      using handler_moves assms(2) unfolding attempts_wf_def by blast
    with moves_mono have "moves True (w_attempts w) (w_attempts w')" by (cases "is_grace act") simp_all
    with moves_wf assms(2) show ?thesis by (blast intro: moves_evolves)
  qed
next
  case other
  with assms(2) show ?thesis by (simp add: attempts_wf_def ids_distinct_def)
qed

lemma steps_evolve:
  assumes "(system_step sv)\<^sup>*\<^sup>* w w'" and "attempts_wf w"
  shows "evolves (w_attempts w) (w_attempts w') \<and> attempts_wf w'"
  using assms by (induction rule: rtranclp_induct) (auto dest: step_evolves intro: evolves_trans)

text \<open>An attempt that exists keeps existing, and is linked to its past by abstract steps.\<close>

lemma steps_find:
  assumes "(system_step sv)\<^sup>*\<^sup>* w w'" and "attempts_wf w" and "attempts_find w i None = Some a"
  shows "\<exists>a'. attempts_find w' i None = Some a' \<and> attempt_changes True a a'"
proof -
  from steps_evolve [OF assms(1,2)] have ev: "evolves (w_attempts w) (w_attempts w')" and wf: "attempts_wf w'"
    by simp_all
  from ev obtain cs new where w': "w_attempts w' = cs @ new" and l: "list_all2 (attempt_changes True) (w_attempts w) cs"
    by (auto simp: evolves_def)
  have a: "a \<in> set (w_attempts w)" "at_id a = i"
    using attempts_repo.find_sound [OF assms(3)] by simp_all
  with l obtain a' where a': "a' \<in> set cs" "attempt_changes True a a'"
    by (metis in_set_conv_nth list_all2_conv_all_nth)
  then have "at_id a' = i" using changes_identity a(2) by (auto simp: same_identity_def)
  with a' w' wf attempts_repo.find_complete [of w' a' None] show ?thesis
    by (auto simp: attempts_wf_def ids_distinct_def)
qed

subsection \<open>The guarantees\<close>


definition no_services :: services where
  "no_services = \<lparr>sv_shuffle = (\<lambda>x. x), sv_cast = Inr, sv_env = sample_submit_env, sv_log_ok = True,
                  sv_info = \<lparr>ai_ip = None, ai_agent = None\<rparr>\<rparr>"

definition student_auth :: auth where
  "student_auth = \<lparr>au_jwt_id = Some 2, au_id = Some 2, au_role = Student, au_college = Some 4, au_service = False\<rparr>"

definition fresh_world :: world where
  "fresh_world = sample_world\<lparr>w_attempts := []\<rparr>"

lemma sample_start:
  "startAssessment (\<lambda>x. x) 30 10 student_auth True (\<lambda>k. 1000) \<lparr>ai_ip = None, ai_agent = None\<rparr> fresh_world
     = (Inr (Some (new_attempt 30 10 2 (Some 4) 1000 [20])),
        fresh_world\<lparr>w_attempts := [new_attempt 30 10 2 (Some 4) 1000 [20]],
          w_logs := [\<lparr>al_event = ''ASSESSMENT_STARTED'', al_user = Some 2,
            al_details = JObj [(''assessmentId'', jnat 10), (''attemptId'', jnat 30)],
            al_info = \<lparr>ai_ip = None, ai_agent = None\<rparr>, al_created = 1000\<rparr>]\<rparr>)"
  by (simp add: startAssessment_def start_read_def start_write_def attempts_create_def attempts_find_one_def
      assessments_find_def collegeScopeFor_def problem_ref_def problems_find_def logEvent_def
      student_auth_def fresh_world_def sample_defs)



definition submitted_attempt :: attempt where
  "submitted_attempt = sample_attempt\<lparr>at_status := Submitted, at_submitted := Some 5000\<rparr>"

definition submitted_world :: world where
  "submitted_world = sample_world\<lparr>w_attempts := [submitted_attempt]\<rparr>"

lemma submitted_find: "attempts_wf submitted_world \<and> attempts_find submitted_world 30 None = Some submitted_attempt"
  by (simp add: attempts_wf_def ids_distinct_def attempts_find_def submitted_world_def submitted_attempt_def
      sample_attempt_def new_attempt_def)


text \<open>Only a grant of grace time by a non-student whose scope covers the attempt turns a timed-out
  attempt back into an active one.\<close>

theorem reactivation_needs_grace:
  assumes "attempts_wf w" and "fresh_for act w"
    and "attempts_find w i None = Some a" and "at_status a = TimedOut"
    and "attempts_find (exec sv clk act w) i None = Some a'" and "at_status a' = Active"
  shows "\<exists>j m u. act = DoGrace j m u \<and> au_role u \<noteq> Student \<and> attempts_find w j (scope_of u) \<noteq> None"
proof (cases "is_grace act")
  case True
  then obtain j m u where act: "act = DoGrace j m u" by (cases act) auto
  have "exec sv clk act w \<noteq> w" using assms(3-6) by auto
  with act show ?thesis by (auto simp: addGraceTime_def split: option.splits if_splits)
next
  case False
  have keep: "at_status y = TimedOut" if "attempt_changes False x y" "at_status x = TimedOut" for x y
    using that by (induction rule: rtranclp_induct) (auto elim!: attempt_changeE simp: change_defs)
  have wf: "ids_distinct w" using assms(1) by (simp add: attempts_wf_def)
  have a: "a \<in> set (w_attempts w)" "at_id a = i" using attempts_repo.find_sound [OF assms(3)] by simp_all
  have a': "a' \<in> set (w_attempts (exec sv clk act w))" "at_id a' = i"
    using attempts_repo.find_sound [OF assms(5)] by simp_all
  have "\<exists>b. b \<in> set (w_attempts w) \<and> at_id b = i \<and> attempt_changes False b a'"
  proof (cases "\<exists>nid aid u. act = DoStart nid aid u")
    case True
    then obtain nid aid u where act: "act = DoStart nid aid u" by blast
    obtain r w' where run: "startAssessment (sv_shuffle sv) nid aid u (sv_log_ok sv) clk (sv_info sv) w = (r, w')"
      by fastforce
    have "nid \<noteq> i" using act assms(2) a by auto
    then show ?thesis using start_evolves [OF run] act run a' by (auto simp: new_attempt_def)
  next
    case False
    with handler_moves [OF wf, of act sv clk] \<open>\<not> is_grace act\<close>
    have "moves False (w_attempts w) (w_attempts (exec sv clk act w))" by simp
    with a' show ?thesis
      unfolding moves_def
      by (metis changes_identity in_set_conv_nth list_all2_conv_all_nth same_identity_def)
  qed
  then obtain b where b: "b \<in> set (w_attempts w)" "at_id b = i" "attempt_changes False b a'" by blast
  have "b = a"
    using attempts_repo.find_complete [of w b None] wf b assms(3) by (simp add: ids_distinct_def)
  with b keep assms(4,6) show ?thesis by simp
qed

definition timed_out_world :: world where
  "timed_out_world =
     sample_world\<lparr>w_attempts := [sample_attempt\<lparr>at_status := TimedOut, at_submitted := Some 5000\<rparr>]\<rparr>"

lemma reactivation_needs_grace_witness:
  "\<exists>a'. attempts_find (exec no_services (\<lambda>k. 9000) (DoGrace 30 (jint 10) (student_auth\<lparr>au_role := Admin\<rparr>))
          timed_out_world) 30 None = Some a' \<and> at_status a' = Active
     \<and> attempts_find timed_out_world 30 (scope_of (student_auth\<lparr>au_role := Admin\<rparr>)) \<noteq> None"
proof -
  let ?act = "DoGrace 30 (jint 10) (student_auth\<lparr>au_role := Admin\<rparr>)"
  let ?old = "sample_attempt\<lparr>at_status := TimedOut, at_submitted := Some 5000\<rparr>"
  have wf: "attempts_wf timed_out_world"
    by (simp add: attempts_wf_def ids_distinct_def timed_out_world_def)
  have old: "attempts_find timed_out_world 30 None = Some ?old"
    by (simp add: attempts_find_def timed_out_world_def sample_attempt_def new_attempt_def)
  have "\<exists>a'. attempts_find (exec no_services (\<lambda>k. 9000) ?act timed_out_world) 30 None = Some a'
          \<and> at_status a' = Active"
    by (simp add: addGraceTime_def attempts_find_def attempts_update_def timed_out_world_def
        student_auth_def collegeScopeFor_def sample_attempt_def new_attempt_def grace_update_def push_event_def Let_def)
  then obtain a' where a': "attempts_find (exec no_services (\<lambda>k. 9000) ?act timed_out_world) 30 None = Some a'"
      "at_status a' = Active" by blast
  from reactivation_needs_grace [OF wf _ old _ a'] a' show ?thesis by auto
qed

text \<open>A challenge only moves forward, from none to raised to accepted or rejected, over any series of
  calls; once resolved its outcome never changes.\<close>

theorem challenge_is_one_way:
  assumes "(system_step sv)\<^sup>*\<^sup>* w w'" and "attempts_wf w" and "attempts_find w i None = Some a"
  shows "\<exists>a'. attempts_find w' i None = Some a' \<and>
     (ch_status (at_challenge a') = ch_status (at_challenge a) \<or>
      ch_status (at_challenge a) = NoChallenge \<or>
      (ch_status (at_challenge a) = Raised \<and> ch_status (at_challenge a') \<in> {Accepted, Rejected}))"
proof -
  obtain a' where a': "attempts_find w' i None = Some a'" "attempt_changes True a a'"
    using steps_find [OF assms] by blast
  from changes_challenge_forward [OF a'(2)] show ?thesis
    unfolding challenge_forward_def using a'(1)
    by (cases "ch_status (at_challenge a)"; cases "ch_status (at_challenge a')") auto
qed

definition resolved_attempt :: attempt where
  "resolved_attempt = submitted_attempt\<lparr>at_challenge := empty_challenge\<lparr>ch_status := Accepted\<rparr>\<rparr>"

lemma challenge_is_one_way_witness:
  "\<exists>a'. attempts_find (exec no_services (\<lambda>k. 9000)
            (DoResolve 30 (JStr ''Rejected'') JUndef (student_auth\<lparr>au_role := Faculty\<rparr>))
            (sample_world\<lparr>w_attempts := [resolved_attempt]\<rparr>)) 30 None = Some a'
        \<and> ch_status (at_challenge a') = Accepted"
proof -
  let ?w = "sample_world\<lparr>w_attempts := [resolved_attempt]\<rparr>"
  let ?w' = "exec no_services (\<lambda>k. 9000)
            (DoResolve 30 (JStr ''Rejected'') JUndef (student_auth\<lparr>au_role := Faculty\<rparr>)) ?w"
  have "system_step no_services ?w ?w'" by (rule handler) simp
  then have st: "(system_step no_services)\<^sup>*\<^sup>* ?w ?w'" ..
  have wf: "attempts_wf ?w" by (simp add: attempts_wf_def ids_distinct_def)
  have old: "attempts_find ?w 30 None = Some resolved_attempt"
    by (simp add: attempts_find_def resolved_attempt_def submitted_attempt_def sample_attempt_def new_attempt_def)
  from challenge_is_one_way [OF st wf old] show ?thesis
    by (auto simp: resolved_attempt_def simp del: exec.simps)
qed

end
