(* ===== verification/Arventiq_Laws.thy ===== *)
theory Arventiq_Laws
  imports Arventiq Attempt_Lifecycle
begin

section \<open>What holds of the integration\<close>

text \<open>
  Synchronising is an update of the map from external ids to problems and is idempotent; verdicts are given
  only for submissions the integration made, with a score between zero and one.
\<close>

subsection \<open>Synchronisation\<close>

lemma find_upsert:
  assumes "\<forall>p \<in> set ps. pr_id p = i \<longrightarrow> pr_external p = Some x" and "\<forall>p. pr_external (f p) = Some x"
  shows "find (\<lambda>p. pr_external p = Some y) (map (\<lambda>p. if pr_id p = i then f p else p) ps)
    = map_option (\<lambda>p. if pr_id p = i then f p else p) (find (\<lambda>p. pr_external p = Some y) ps)"
  using assms by (induction ps) auto

lemma assign_external [simp]: "pr_external (assign_doc d p) = Some (sd_external d)"
  by (simp add: assign_doc_def)

lemma assign_id [simp]: "pr_id (assign_doc d p) = pr_id p"
  by (simp add: assign_doc_def)

lemma assign_twice [simp]: "assign_doc d (assign_doc d p) = assign_doc d p"
  by (simp add: assign_doc_def)

text \<open>The external ids as a partial map; this is what the integration sees of the problems.\<close>

lemma store_synced_map:
  assumes "store_synced nid now d w = (Inr p, w')" and "distinct (map pr_id (w_problems w))"
    and "nid \<notin> pr_id ` set (w_problems w)"
  shows "problems_find_external w' = (problems_find_external w)(sd_external d \<mapsto> p) \<and>
    distinct (map pr_id (w_problems w')) \<and> p \<in> set (w_problems w') \<and>
    (\<exists>q. p = assign_doc d q) \<and>
    length (w_problems w') = length (w_problems w) + (if problems_find_external w (sd_external d) = None then 1 else 0)"
proof (cases "problems_find_external w (sd_external d)")
  case None
  with assms(1) have w': "p = assign_doc d (new_problem nid now)" "w' = w\<lparr>w_problems := w_problems w @ [p]\<rparr>"
    by (auto simp: store_synced_def problems_create_def split: if_splits)
  have "problems_find_external w' x = ((problems_find_external w)(sd_external d \<mapsto> p)) x" for x
    using None by (simp add: problems_find_external_def w' find_append split: option.split)
  moreover have "distinct (map pr_id (w_problems w'))" using assms(2,3) by (simp add: w' new_problem_def)
  ultimately show ?thesis using None w' by auto
next
  case (Some q)
  let ?f = "\<lambda>r. if pr_id r = pr_id q then assign_doc d r else r"
  have w': "p = assign_doc d q" "w_problems w' = map ?f (w_problems w)"
    using assms(1) Some problems_store.change_content [OF assms(2), of "pr_id q" "assign_doc d"]
    by (auto simp: store_synced_def)
  have q: "q \<in> set (w_problems w)" "pr_external q = Some (sd_external d)"
    using find_member [OF Some [unfolded problems_find_external_def]] by simp_all
  have same: "r = q" if "r \<in> set (w_problems w)" "pr_id r = pr_id q" for r
    using assms(2) q(1) that by (auto simp: distinct_map inj_on_def)
  then have "\<forall>r \<in> set (w_problems w). pr_id r = pr_id q \<longrightarrow> pr_external r = Some (sd_external d)"
    using q(2) by blast
  from find_upsert [OF this, of "assign_doc d"]
  have find: "problems_find_external w' x = map_option ?f (problems_find_external w x)" for x
    by (simp add: problems_find_external_def w'(2))
  have "problems_find_external w' x = ((problems_find_external w)(sd_external d \<mapsto> p)) x" for x
  proof (cases "x = sd_external d")
    case True
    then show ?thesis using find [of x] Some w'(1) by simp
  next
    case False
    have "pr_id r \<noteq> pr_id q" if "problems_find_external w x = Some r" for r
      using find_member [OF that [unfolded problems_find_external_def]] same [of r] q(2) False by auto
    with False find [of x] show ?thesis by (cases "problems_find_external w x") auto
  qed
  moreover have "distinct (map pr_id (w_problems w'))"
    using assms(2) by (simp add: w'(2) comp_def if_distrib [of pr_id] cong: if_cong)
  moreover have "p \<in> set (w_problems w')" using q(1) by (force simp: w')
  ultimately show ?thesis using Some w' by auto
qed

lemma store_synced_again:
  assumes "store_synced nid now d w = (Inr p, w')" and "distinct (map pr_id (w_problems w))"
    and "nid \<notin> pr_id ` set (w_problems w)"
  shows "store_synced nid' now' d w' = (Inr p, w')"
proof -
  note m = store_synced_map [OF assms]
  then obtain q where p: "p = assign_doc d q" by blast
  have "problems_find_external w' (sd_external d) = Some p" using m by simp
  moreover have "update_first (\<lambda>r. pr_id r = pr_id p) (assign_doc d) (w_problems w') = w_problems w'"
  proof -
    have "(if pr_id r = pr_id p then assign_doc d r else r) = r" if "r \<in> set (w_problems w')" for r
    proof (cases "pr_id r = pr_id p")
      case True
      with m that have "r = p" by (metis distinct_map inj_onD)
      then show ?thesis by (simp add: p)
    qed simp
    then show ?thesis using m by (simp add: update_first_key map_idI)
  qed
  ultimately show ?thesis by (simp add: store_synced_def problems_update_def p)
qed

lemma syncProblem_cases:
  assumes "syncProblem nid now payload w = (Inr p, w')"
  obtains d where "validateArventiqProblemPayload payload = Inr []" "sync_document payload = Inr d"
    "store_synced nid now d w = (Inr p, w')"
  using assms by (auto simp: syncProblem_def split: sum.splits if_splits)

text \<open>C23: synchronising a problem refines the update of a map: of the problems by external id exactly the one named
  in the payload changes, to a standard-input problem whose test cases are those of the payload in order, each
  hidden or a sample as the payload says and one of them a sample; nothing else is created or lost, and
  synchronising the same payload again changes nothing.\<close>

theorem sync_refines_update:
  assumes "syncProblem nid now payload w = (Inr p, w')" and "distinct (map pr_id (w_problems w))"
    and "nid \<notin> pr_id ` set (w_problems w)"
  shows "problems_find_external w' = (problems_find_external w)(to_str (oget payload ''id'') \<mapsto> p) \<and>
    pr_type p = StdinProblem \<and> pr_tests p = map sync_case (elems (oget payload ''test_cases'')) \<and>
    (\<exists>tc \<in> set (pr_tests p). isSampleTestCase tc) \<and>
    (\<forall>tc \<in> set (pr_tests p). tc_hidden tc = Some (\<not> isSampleTestCase tc)) \<and>
    length (w_problems w') = length (w_problems w) +
      (if problems_find_external w (to_str (oget payload ''id'')) = None then 1 else 0) \<and>
    syncProblem nid' now' payload w' = (Inr p, w')"
proof -
  from syncProblem_cases [OF assms(1)] obtain d where d: "validateArventiqProblemPayload payload = Inr []"
      "sync_document payload = Inr d" "store_synced nid now d w = (Inr p, w')" .
  note m = store_synced_map [OF d(3) assms(2,3)]
  have doc: "sd_external d = to_str (oget payload ''id'')" "sd_tests d = map sync_case (elems (oget payload ''test_cases''))"
    using d(2) by (auto simp: sync_document_def Let_def split: sum.splits if_splits)
  then have p: "pr_type p = StdinProblem" "pr_tests p = map sync_case (elems (oget payload ''test_cases''))"
    using m by (auto simp: assign_doc_def)
  have "list_ex (\<lambda>tc. \<not> isArventiqTestHidden tc) (elems (oget payload ''test_cases''))"
    using d(1) by (auto simp: validateArventiqProblemPayload_def Let_def split: if_splits)
  then have "\<exists>tc \<in> set (pr_tests p). isSampleTestCase tc"
    unfolding p(2) by (auto simp: list_ex_iff sync_case_def isSampleTestCase_def)
  moreover have "\<forall>tc \<in> set (pr_tests p). tc_hidden tc = Some (\<not> isSampleTestCase tc)"
    unfolding p(2) by (auto simp: sync_case_def isSampleTestCase_def)
  moreover have "syncProblem nid' now' payload w' = (Inr p, w')"
    using d(1,2) store_synced_again [OF d(3) assms(2,3)] by (simp add: syncProblem_def)
  ultimately show ?thesis using m doc p by simp
qed

definition sync_payload :: jsval where
  "sync_payload =
     JObj [(''id'', jint 17), (''code_language'', JStr '' Python3''), (''question_text'', JStr ''Add two numbers''),
           (''test_cases'', JArr [JObj [(''input'', JStr ''1 2''), (''expected_output'', jint 3)],
                                 JObj [(''input'', JStr ''2 2''), (''expected_output'', jint 4), (''is_hidden'', jint 1)]])]"

lemma sync_refines_update_witness:
  "\<exists>p (w' :: world). syncProblem 70 0 sync_payload empty_world = (Inr p, w') \<and>
     problems_find_external w' ''17'' = Some p \<and> syncProblem 71 9 sync_payload w' = (Inr p, w')"
proof -
  have "is_ok (fst (syncProblem 70 0 sync_payload empty_world))" "to_str (oget sync_payload ''id'') = ''17''"
    by code_simp+
  moreover obtain r w' where run: "syncProblem 70 0 sync_payload empty_world = (r, w')" by fastforce
  ultimately obtain p where "syncProblem 70 0 sync_payload empty_world = (Inr p, w')" "to_str (oget sync_payload ''id'') = ''17''"
    by (auto simp: is_ok_iff)
  with sync_refines_update [OF this(1), of 71 9] show ?thesis by (simp add: empty_world_def)
qed

subsection \<open>Verdicts\<close>

lemma to_fixed_unit:
  assumes "0 \<le> q" and "q \<le> 1"
  shows "0 \<le> to_fixed k q \<and> to_fixed k q \<le> 1"
  using to_fixed_bounds [of 0 q 1 k] assms by simp

lemma score_of_unit:
  assumes "to_num passed = Fin a" and "to_num n = Fin b" and "0 \<le> a" and "a \<le> b"
  shows "\<exists>q. score_of passed n = Fin q \<and> 0 \<le> q \<and> q \<le> 1"
proof (cases "0 < b")
  case True
  with assms have "0 \<le> a / b" "a / b \<le> 1" by simp_all
  with True assms(1,2) to_fixed_unit [of "a / b" 4] show ?thesis by (simp add: score_of_def)
next
  case False
  with assms(2) show ?thesis by (simp add: score_of_def)
qed

lemma map_cases_length: "map_cases v i ds = Inr cs \<Longrightarrow> length cs = length ds"
  by (induction ds arbitrary: i cs) (auto split: if_splits sum.splits)

text \<open>What the judge stores: counts that are numbers, with no more passed tests than tests.\<close>

definition counted :: "jsval \<Rightarrow> bool" where
  "counted res \<longleftrightarrow>
     (\<exists>a b. oget res ''passed'' = JNum (Fin a) \<and> oget res ''total'' = JNum (Fin b) \<and> 0 \<le> a \<and> a \<le> b)"

lemma getSubmissionById_owner:
  assumes "getSubmissionById i v clk w = (Inr (View s), w')" and "isPrivilegedRole (vw_role v)"
  shows "canAccessSubmission s v \<and> (getCacheJSON (cache_key i) (clk 0) w = Some s \<or> submissions_find w i None = Some s)"
  using assms by (auto simp: getSubmissionById_def present_def Let_def split: option.splits if_splits)

text \<open>The integration reads a verdict only of a submission that it stamped with an external student or
  assessment, that its service account may see and that has been judged; the verdict has one entry for each
  reported test, and a score between 0 and 1 when the judge's counts make sense.\<close>

theorem arventiq_verdict_scope:
  assumes "getArventiqSubmissionResult i v clk w = (Inr (ArventiqVerdict r), w')" and "isPrivilegedRole (vw_role v)"
  shows "\<exists>s. (getCacheJSON (cache_key i) (clk 0) w = Some s \<or> submissions_find w i None = Some s) \<and>
    canAccessSubmission s v \<and>
    (non_empty (su_ext_student s) \<noteq> None \<or> non_empty (su_ext_assessment s) \<noteq> None) \<and>
    su_status s \<noteq> Pending \<and> su_status s \<noteq> Running \<and>
    length (elems (oget r ''cases'')) = length (elems (oget (su_result s) ''details'')) \<and>
    (counted (su_result s) \<longrightarrow> (\<exists>q. oget r ''score'' = JNum (Fin q) \<and> 0 \<le> q \<and> q \<le> 1))"
proof -
  obtain s where s: "getSubmissionById i v clk w = (Inr (View s), w')"
      "non_empty (su_ext_student s) \<noteq> None \<or> non_empty (su_ext_assessment s) \<noteq> None"
      "mapSubmissionToArventiqVerdict s = Inr (Some r)"
    using assms(1)
    by (auto simp: getArventiqSubmissionResult_def
        split: prod.splits sum.splits submission_view.splits if_splits option.splits)
  let ?n = "coalesce (oget (su_result s) ''total'') (coalesce (oget (su_result s) ''totalCount'') (jnat 0))"
  let ?passed = "coalesce (oget (su_result s) ''passed'') (coalesce (oget (su_result s) ''passedCount'') (jnat 0))"
  obtain cs where cs: "map_cases (verdict_of (oget (su_result s) ''status'')) 0 (elems (oget (su_result s) ''details'')) = Inr cs"
      "su_status s \<noteq> Pending" "su_status s \<noteq> Running"
      "oget r ''cases'' = JArr cs" "oget r ''score'' = JNum (score_of ?passed ?n)"
    using s(3) by (auto simp: mapSubmissionToArventiqVerdict_def Let_def split: if_splits sum.splits)
  have "\<exists>q. oget r ''score'' = JNum (Fin q) \<and> 0 \<le> q \<and> q \<le> 1" if c: "counted (su_result s)"
  proof -
    from c obtain a b where ab: "oget (su_result s) ''passed'' = JNum (Fin a)" "oget (su_result s) ''total'' = JNum (Fin b)"
        "0 \<le> a" "a \<le> b" by (auto simp: counted_def)
    from ab(1,2) have "to_num ?passed = Fin a" "to_num ?n = Fin b" by (simp_all add: coalesce_def)
    from score_of_unit [OF this ab(3,4)] cs(5) show ?thesis by auto
  qed
  with getSubmissionById_owner [OF s(1) assms(2)] s(2) cs map_cases_length [OF cs(1)] show ?thesis by auto
qed

definition judged_submission :: submission where
  "judged_submission =
     \<lparr>su_id = 90, su_problem = 70, su_user = 2, su_assessment = None, su_attempt = None, su_college = None, su_score = 0,
      su_code = ''x'', su_language = ''python'', su_status = Fail, su_output = None,
      su_result = JObj [(''status'', JStr ''Wrong Answer''), (''total'', jint 3), (''passed'', jint 1),
                        (''details'', JArr [JObj [(''passed'', JBool True)], JObj [(''errorType'', JStr ''wrong_answer'')]])],
      su_ext_student = Some ''s1'', su_ext_assessment = None, su_created = 0\<rparr>"

definition service_viewer :: viewer where
  "service_viewer = \<lparr>vw_user = Some 2, vw_role = Some Admin, vw_college = None\<rparr>"

lemma arventiq_verdict_scope_witness:
  "\<exists>r (w' :: world). getArventiqSubmissionResult 90 service_viewer (\<lambda>n. 0) (empty_world\<lparr>w_submissions := [judged_submission]\<rparr>)
       = (Inr (ArventiqVerdict r), w') \<and> oget r ''verdict'' = JStr ''wrong_answer'' \<and> length (elems (oget r ''cases'')) = 2"
proof -
  let ?w = "empty_world\<lparr>w_submissions := [judged_submission]\<rparr>"
  have map: "\<exists>r. mapSubmissionToArventiqVerdict judged_submission = Inr (Some r) \<and> oget r ''verdict'' = JStr ''wrong_answer''"
    by (simp add: mapSubmissionToArventiqVerdict_def judged_submission_def Let_def coalesce_def verdict_of_def VERDICT_MAP_def)
  have get: "\<exists>w'. getSubmissionById 90 service_viewer (\<lambda>n. 0) ?w = (Inr (View judged_submission), w')"
    by (simp add: getSubmissionById_def getCacheJSON_def submissions_find_def empty_world_def judged_submission_def
        canAccessSubmission_def present_def isPrivilegedRole_def service_viewer_def Let_def)
  from map get obtain r w' where run: "getArventiqSubmissionResult 90 service_viewer (\<lambda>n. 0) ?w = (Inr (ArventiqVerdict r), w')"
      "oget r ''verdict'' = JStr ''wrong_answer''" "mapSubmissionToArventiqVerdict judged_submission = Inr (Some r)"
    by (auto simp: getArventiqSubmissionResult_def judged_submission_def non_empty_def)
  moreover have "length (elems (oget r ''cases'')) = 2"
  proof -
    from arventiq_verdict_scope [OF run(1)] obtain s where
        "getCacheJSON (cache_key 90) 0 ?w = Some s \<or> submissions_find ?w 90 None = Some s"
        "length (elems (oget r ''cases'')) = length (elems (oget (su_result s) ''details''))"
      by (auto simp: isPrivilegedRole_def service_viewer_def)
    then show ?thesis
      by (auto simp: getCacheJSON_def submissions_find_def empty_world_def judged_submission_def split: if_splits)
  qed
  ultimately show ?thesis by blast
qed

end
