(* ===== verification/System_Service.thy ===== *)
theory System_Service
  imports Submissions
begin

section \<open>Settings, backup and restore, health\<close>

text \<open>
  \<^verbatim>\<open>system.service.js\<close> (settings, the incident banner, the backup of the database and its restore) and
  the handlers of \<^verbatim>\<open>health.routes.js\<close>. How Mongoose serialises a document and casts it back is a parameter.
\<close>

subsection \<open>Settings\<close>

definition setting_of :: "string \<Rightarrow> world \<Rightarrow> system_setting option" where
  "setting_of key w = find (\<lambda>s. ss_key s = key) (w_settings w)"

definition getSetting :: "string \<Rightarrow> jsval \<Rightarrow> world \<Rightarrow> jsval" where
  "getSetting key dflt w = (case setting_of key w of Some s \<Rightarrow> ss_value s | None \<Rightarrow> dflt)"

text \<open>\<^verbatim>\<open>findOneAndUpdate\<close> with \<^verbatim>\<open>upsert\<close>; an update with \<^verbatim>\<open>undefined\<close> leaves the field alone.\<close>

definition setSetting :: "string \<Rightarrow> jsval \<Rightarrow> world \<Rightarrow> jsval \<times> world" where
  "setSetting key v w =
     (case setting_of key w of
        None \<Rightarrow> (v, w\<lparr>w_settings := w_settings w @ [\<lparr>ss_key = key, ss_value = v\<rparr>]\<rparr>)
      | Some s \<Rightarrow>
          (let v' = (if v = JUndef then ss_value s else v)
           in (v', w\<lparr>w_settings := update_first (\<lambda>t. ss_key t = key) (\<lambda>t. t\<lparr>ss_value := v'\<rparr>) (w_settings w)\<rparr>)))"

definition banner_value :: "jsval \<Rightarrow> jsval \<Rightarrow> jsval \<Rightarrow> jsval" where
  "banner_value active message typ = JObj [(''active'', active), (''message'', message), (''type'', typ)]"

definition getIncidentBanner :: "world \<Rightarrow> jsval" where
  "getIncidentBanner w =
     getSetting ''incident_banner'' (banner_value (JBool False) (JStr []) (JStr ''info'')) w"

definition updateIncidentBanner :: "jsval \<Rightarrow> jsval \<Rightarrow> jsval \<Rightarrow> world \<Rightarrow> jsval \<times> world" where
  "updateIncidentBanner active message typ w =
     setSetting ''incident_banner''
       (banner_value (JBool (truthy active)) (or_val message (JStr [])) (or_val typ (JStr ''info''))) w"

lemma getSetting_setSetting:
  assumes "v \<noteq> JUndef"
  shows "getSetting k d (snd (setSetting key v w)) = (if k = key then v else getSetting k d w)"
proof (cases "setting_of key w")
  case None
  then show ?thesis
    by (auto simp: getSetting_def setSetting_def setting_of_def find_append split: option.splits)
next
  case (Some s)
  let ?f = "\<lambda>t. t\<lparr>ss_value := v\<rparr>"
  have "find (\<lambda>s. ss_key s = key) (update_first (\<lambda>t. ss_key t = key) ?f (w_settings w)) = Some (?f s)"
    using Some by (subst find_update_first) (simp_all add: setting_of_def)
  moreover have "find (\<lambda>s. ss_key s = k) (update_first (\<lambda>t. ss_key t = key) ?f (w_settings w))
      = find (\<lambda>s. ss_key s = k) (w_settings w)" if "k \<noteq> key"
    using that by (intro find_update_other) auto
  ultimately show ?thesis using Some assms
    by (auto simp: getSetting_def setSetting_def setting_of_def split: option.splits)
qed

lemma fst_setSetting: "v \<noteq> JUndef \<Longrightarrow> fst (setSetting key v w) = v"
  by (simp add: setSetting_def split: option.splits)

lemma banner_roundtrip:
  "getIncidentBanner (snd (updateIncidentBanner active message typ w)) = fst (updateIncidentBanner active message typ w)"
  by (simp add: getIncidentBanner_def updateIncidentBanner_def getSetting_setSetting fst_setSetting banner_value_def)

subsection \<open>Backup\<close>

text \<open>
  \<open>cd_json\<close> is a document as \<^verbatim>\<open>res.json\<close> writes it; \<open>cd_insert vs\<close> is what \<^verbatim>\<open>insertMany(vs)\<close> leaves in an empty
  collection, with its error if it fails: casting, validation and the unique indexes decide.
\<close>

record 'a codec =
  cd_json :: "'a \<Rightarrow> jsval"
  cd_insert :: "jsval list \<Rightarrow> 'a list \<times> js_error option"

record codecs =
  cs_users :: "user codec"
  cs_problems :: "problem codec"
  cs_questions :: "question codec"
  cs_assessments :: "assessment codec"
  cs_attempts :: "attempt codec"
  cs_submissions :: "submission codec"
  cs_logs :: "audit_log codec"
  cs_settings :: "system_setting codec"

definition json_docs :: "'a codec \<Rightarrow> 'a list \<Rightarrow> jsval" where
  "json_docs c xs = JArr (map (cd_json c) xs)"

definition exportDatabase :: "codecs \<Rightarrow> world \<Rightarrow> jsval" where
  "exportDatabase cs w =
     JObj [(''users'', json_docs (cs_users cs) (w_users w)),
           (''problems'', json_docs (cs_problems cs) (w_problems w)),
           (''questions'', json_docs (cs_questions cs) (w_questions w)),
           (''assessments'', json_docs (cs_assessments cs) (w_assessments w)),
           (''assessmentattempts'', json_docs (cs_attempts cs) (w_attempts w)),
           (''submissions'', json_docs (cs_submissions cs) (w_submissions w)),
           (''auditlogs'', json_docs (cs_logs cs) (w_logs w)),
           (''systemsettings'', json_docs (cs_settings cs) (w_settings w))]"

subsection \<open>Restore\<close>

type_synonym refill_step = "jsval list \<Rightarrow> world \<Rightarrow> world \<times> js_error option"

text \<open>\<^verbatim>\<open>deleteMany({})\<close>, then \<^verbatim>\<open>insertMany\<close> unless there is nothing to insert.\<close>

definition refill :: "'a codec \<Rightarrow> ('a list \<Rightarrow> world \<Rightarrow> world) \<Rightarrow> refill_step" where
  "refill c put vs w = (case (if vs = [] then ([], None) else cd_insert c vs) of (xs, err) \<Rightarrow> (put xs w, err))"

definition supportedCollections :: "codecs \<Rightarrow> (string \<times> refill_step) list" where
  "supportedCollections cs =
     [(''users'', refill (cs_users cs) (\<lambda>xs w. w\<lparr>w_users := xs\<rparr>)),
      (''problems'', refill (cs_problems cs) (\<lambda>xs w. w\<lparr>w_problems := xs\<rparr>)),
      (''questions'', refill (cs_questions cs) (\<lambda>xs w. w\<lparr>w_questions := xs\<rparr>)),
      (''assessments'', refill (cs_assessments cs) (\<lambda>xs w. w\<lparr>w_assessments := xs\<rparr>)),
      (''assessmentattempts'', refill (cs_attempts cs) (\<lambda>xs w. w\<lparr>w_attempts := xs\<rparr>)),
      (''submissions'', refill (cs_submissions cs) (\<lambda>xs w. w\<lparr>w_submissions := xs\<rparr>)),
      (''auditlogs'', refill (cs_logs cs) (\<lambda>xs w. w\<lparr>w_logs := xs\<rparr>)),
      (''systemsettings'', refill (cs_settings cs) (\<lambda>xs w. w\<lparr>w_settings := xs\<rparr>))]"

fun restore_each ::
    "(string \<times> refill_step) list \<Rightarrow> jsval \<Rightarrow> (string \<times> nat) list \<Rightarrow> world \<Rightarrow> (string \<times> nat) list result \<times> world" where
  "restore_each [] data results w = (Inr results, w)"
| "restore_each ((name, step) # cols) data results w =
     (if truthy (oget data name) \<and> is_array (oget data name)
      then (case step (elems (oget data name)) w of
              (w', Some e) \<Rightarrow> (Inl e, w')
            | (w', None) \<Rightarrow> restore_each cols data (results @ [(name, length (elems (oget data name)))]) w')
      else restore_each cols data results w)"

definition importDatabase :: "codecs \<Rightarrow> jsval \<Rightarrow> world \<Rightarrow> (string \<times> nat) list result \<times> world" where
  "importDatabase cs data w =
     (if \<not> truthy data \<or> typeof data \<noteq> ''object'' then (Inl (PlainError ''Invalid backup data format''), w)
      else restore_each (supportedCollections cs) data [] w)"

subsection \<open>A backup restores what it contains\<close>

text \<open>
  The documents of a collection survive serialising and inserting: Mongoose casts what it has written
  itself back to the same documents, and documents that were stored together satisfy the indexes.
\<close>

definition survives :: "'a codec \<Rightarrow> 'a list \<Rightarrow> bool" where
  "survives c xs \<longleftrightarrow> cd_insert c (map (cd_json c) xs) = (xs, None)"

definition backup_safe :: "codecs \<Rightarrow> world \<Rightarrow> bool" where
  "backup_safe cs w \<longleftrightarrow>
     survives (cs_users cs) (w_users w) \<and> survives (cs_problems cs) (w_problems w) \<and>
     survives (cs_questions cs) (w_questions w) \<and> survives (cs_assessments cs) (w_assessments w) \<and>
     survives (cs_attempts cs) (w_attempts w) \<and> survives (cs_submissions cs) (w_submissions w) \<and>
     survives (cs_logs cs) (w_logs w) \<and> survives (cs_settings cs) (w_settings w)"

lemma refill_survives: "survives c xs \<Longrightarrow> refill c put (map (cd_json c) xs) w = (put xs w, None)"
  by (cases xs) (simp_all add: refill_def survives_def)

text \<open>The database \<open>w'\<close> with the eight collections of the backup taken from \<open>w\<close>.\<close>

definition with_collections_of :: "world \<Rightarrow> world \<Rightarrow> world" where
  "with_collections_of w w' =
     w'\<lparr>w_users := w_users w, w_problems := w_problems w, w_questions := w_questions w,
        w_assessments := w_assessments w, w_attempts := w_attempts w, w_submissions := w_submissions w,
        w_logs := w_logs w, w_settings := w_settings w\<rparr>"

lemma with_collections_of_self [simp]: "with_collections_of w w = w"
  by (simp add: with_collections_of_def)

lemma import_export:
  assumes "backup_safe cs w"
  shows "\<exists>counts. importDatabase cs (exportDatabase cs w) w' = (Inr counts, with_collections_of w w') \<and>
           map fst counts = map fst (supportedCollections cs) \<and>
           sum_list (map snd counts) =
             length (w_users w) + length (w_problems w) + length (w_questions w) + length (w_assessments w) +
             length (w_attempts w) + length (w_submissions w) + length (w_logs w) + length (w_settings w)"
  using assms
  by (simp add: importDatabase_def exportDatabase_def supportedCollections_def json_docs_def backup_safe_def
      refill_survives with_collections_of_def)

text \<open>
  A restore is not a transaction: one that fails has replaced the collections before the failing one,
  left of that one what the insertion wrote before it failed, and not touched the others.
\<close>

lemma restore_each_failure:
  assumes "restore_each cols data results w = (Inl e, w')"
  shows "\<exists>pre name step post res w1. cols = pre @ (name, step) # post \<and>
           restore_each pre data results w = (Inr res, w1) \<and> step (elems (oget data name)) w1 = (w', Some e)"
  using assms
proof (induction cols arbitrary: results w)
  case (Cons col cols)
  obtain name step where col: "col = (name, step)" by (cases col)
  show ?case
  proof (cases "truthy (oget data name) \<and> is_array (oget data name)")
    case False
    with Cons.prems col have "restore_each cols data results w = (Inl e, w')" by auto
    from Cons.IH [OF this] obtain pre n s post res w1 where "cols = pre @ (n, s) # post"
        "restore_each pre data results w = (Inr res, w1)" "s (elems (oget data n)) w1 = (w', Some e)" by blast
    with False col show ?thesis by (intro exI [of _ "col # pre"] exI) auto
  next
    case True
    obtain w2 err where s: "step (elems (oget data name)) w = (w2, err)" by fastforce
    show ?thesis
    proof (cases err)
      case (Some e')
      with Cons.prems col True s have "e' = e" "w2 = w'" by auto
      with Some s col show ?thesis by (intro exI [of _ "[]"] exI) auto
    next
      case None
      let ?res = "results @ [(name, length (elems (oget data name)))]"
      from Cons.prems col True s None have "restore_each cols data ?res w2 = (Inl e, w')" by auto
      from Cons.IH [OF this] obtain pre n st post res w1 where "cols = pre @ (n, st) # post"
          "restore_each pre data ?res w2 = (Inr res, w1)" "st (elems (oget data n)) w1 = (w', Some e)" by blast
      with True s None col show ?thesis by (intro exI [of _ "col # pre"] exI) auto
    qed
  qed
qed simp

text \<open>For instance, with sound users and an unusable problem, the problems are gone and the users replaced.\<close>

lemma failed_restore_loses_problems:
  assumes "oget data ''users'' = JArr us" "us \<noteq> []" "cd_insert (cs_users cs) us = (users, None)"
    and "oget data ''problems'' = JArr ps" "ps \<noteq> []" "cd_insert (cs_problems cs) ps = ([], Some e)"
    and "data = JObj kvs"
  shows "importDatabase cs data w = (Inl e, w\<lparr>w_users := users, w_problems := []\<rparr>)"
  using assms by (simp add: importDatabase_def supportedCollections_def refill_def)

text \<open>Restoring a backup puts back every collection it holds, whatever the database held in between, and reports
  how many documents each has; restoring it at once changes nothing. Colleges, usage events, the judge queue
  and Redis are not part of a backup and stay as they are, and so does everything when the upload is no object.\<close>

theorem backup_roundtrip:
  assumes "backup_safe cs w"
  shows "\<exists>counts. importDatabase cs (exportDatabase cs w) w' = (Inr counts, with_collections_of w w') \<and>
           importDatabase cs (exportDatabase cs w) w = (Inr counts, w) \<and>
           map fst counts = map fst (supportedCollections cs) \<and>
           sum_list (map snd counts) =
             length (w_users w) + length (w_problems w) + length (w_questions w) + length (w_assessments w) +
             length (w_attempts w) + length (w_submissions w) + length (w_logs w) + length (w_settings w) \<and>
           w_colleges (snd (importDatabase cs (exportDatabase cs w) w')) = w_colleges w' \<and>
           w_usage (snd (importDatabase cs (exportDatabase cs w) w')) = w_usage w' \<and>
           w_queue (snd (importDatabase cs (exportDatabase cs w) w')) = w_queue w' \<and>
           snd (importDatabase cs (JStr upload) w') = w'"
  using assms
  by (simp add: importDatabase_def exportDatabase_def supportedCollections_def json_docs_def backup_safe_def
      refill_survives with_collections_of_def)

definition setting_codec :: "system_setting codec" where
  "setting_codec =
     \<lparr>cd_json = \<lambda>s. JObj [(''key'', JStr (ss_key s)), (''value'', ss_value s)],
      cd_insert = \<lambda>vs. (map (\<lambda>v. \<lparr>ss_key = str_of (oget v ''key''), ss_value = oget v ''value''\<rparr>) vs, None)\<rparr>"

definition empty_codec :: "'a codec" where
  "empty_codec = \<lparr>cd_json = \<lambda>_. JNull, cd_insert = \<lambda>vs. ([], if vs = [] then None else Some (DriverError ''ValidationError''))\<rparr>"

definition sample_codecs :: codecs where
  "sample_codecs =
     \<lparr>cs_users = empty_codec, cs_problems = empty_codec, cs_questions = empty_codec, cs_assessments = empty_codec,
      cs_attempts = empty_codec, cs_submissions = empty_codec, cs_logs = empty_codec, cs_settings = setting_codec\<rparr>"

definition banner_world :: world where
  "banner_world = empty_world\<lparr>w_settings :=
     [\<lparr>ss_key = ''incident_banner'', ss_value = banner_value (JBool True) (JStr ''Down'') (JStr ''info'')\<rparr>]\<rparr>"

lemma backup_roundtrip_witness:
  "\<exists>counts. importDatabase sample_codecs (exportDatabase sample_codecs banner_world) empty_world = (Inr counts, banner_world) \<and>
      sum_list (map snd counts) = 1"
proof -
  have "backup_safe sample_codecs banner_world"
    by (simp add: backup_safe_def survives_def sample_codecs_def setting_codec_def empty_codec_def banner_world_def
        empty_world_def)
  moreover have "with_collections_of banner_world empty_world = banner_world"
    by (simp add: with_collections_of_def banner_world_def)
  moreover have "length (w_users banner_world) + length (w_problems banner_world) + length (w_questions banner_world) +
      length (w_assessments banner_world) + length (w_attempts banner_world) + length (w_submissions banner_world) +
      length (w_logs banner_world) + length (w_settings banner_world) = 1"
    by (simp add: banner_world_def empty_world_def)
  ultimately show ?thesis using backup_roundtrip [of sample_codecs banner_world empty_world] by metis
qed

subsection \<open>Health\<close>

datatype redis_probe = NoClient | PingAnswers | PingFails

datatype judge_probe = JudgeOk | JudgeNotOk | JudgeSilent

record probes =
  pb_mongo :: bool
  pb_redis :: redis_probe
  pb_rabbit :: bool
  pb_judge :: judge_probe

record health =
  he_healthy :: bool
  he_mongodb :: string
  he_redis :: string
  he_rabbitmq :: string
  he_judge :: string

definition connection_text :: "bool \<Rightarrow> string" where
  "connection_text up = (if up then ''connected'' else ''disconnected'')"

definition redis_text :: "redis_probe \<Rightarrow> string" where
  "redis_text p = (case p of NoClient \<Rightarrow> ''disconnected'' | PingAnswers \<Rightarrow> ''connected'' | PingFails \<Rightarrow> ''error'')"

definition judge_text :: "judge_probe \<Rightarrow> string" where
  "judge_text p = (case p of JudgeOk \<Rightarrow> ''connected'' | JudgeNotOk \<Rightarrow> ''error'' | JudgeSilent \<Rightarrow> ''disconnected'')"

definition health_report :: "probes \<Rightarrow> health" where
  "health_report p =
     \<lparr>he_healthy = pb_mongo p \<and> pb_redis p = PingAnswers \<and> pb_rabbit p \<and> pb_judge p = JudgeOk,
      he_mongodb = connection_text (pb_mongo p), he_redis = redis_text (pb_redis p),
      he_rabbitmq = connection_text (pb_rabbit p), he_judge = judge_text (pb_judge p)\<rparr>"

definition healthCheck :: "probes \<Rightarrow> nat \<times> health" where
  "healthCheck p = (if he_healthy (health_report p) then 200 else 503, health_report p)"

lemma healthy_iff_all_connected:
  "fst (healthCheck p) = 200 \<longleftrightarrow>
     (\<forall>t \<in> {he_mongodb (snd (healthCheck p)), he_redis (snd (healthCheck p)), he_rabbitmq (snd (healthCheck p)),
            he_judge (snd (healthCheck p))}. t = ''connected'')"
  by (cases "pb_redis p"; cases "pb_judge p"; cases "pb_mongo p"; cases "pb_rabbit p")
     (simp_all add: healthCheck_def health_report_def connection_text_def redis_text_def judge_text_def)

end
