(* ===== verification/Questions.thy ===== *)
theory Questions
  imports Problems Accounts
begin

section \<open>The question bank\<close>

text \<open>
  \<^verbatim>\<open>questions.service.js\<close> over \<^verbatim>\<open>questions.repo.js\<close>. Mongoose's casts and the random choice of \<^verbatim>\<open>$sample\<close> are
  parameters. A query cast to a document compares object ids; a pipeline stage is not cast, so the college
  of a token, a string, equals no stored \<^verbatim>\<open>ObjectId\<close> there.
\<close>

subsection \<open>Lists\<close>

definition is_staff :: "auth option \<Rightarrow> bool" where
  "is_staff u \<longleftrightarrow> isPrivilegedRole (role_of u)"

text \<open>\<^verbatim>\<open>Array.isArray(tag) ? tag : String(tag).split(',')\<close>, trimmed and without empty parts.\<close>

definition question_tags :: "jsval \<Rightarrow> string list" where
  "question_tags v =
     (if \<not> truthy v then [] else if is_array v then map to_str (elems v) else tag_list (to_str v))"

definition has_tag :: "string list \<Rightarrow> question \<Rightarrow> bool" where
  "has_tag tags q \<longleftrightarrow> (tags \<noteq> [] \<longrightarrow> list_ex (\<lambda>t. t \<in> set tags) (qu_tags q))"

text \<open>\<^verbatim>\<open>collegeId\<close> is cast to an object id; what a value that is none selects is the error \<open>CastError\<close>.\<close>

definition buildFilter ::
    "(jsval \<Rightarrow> difficulty \<Rightarrow> bool) \<Rightarrow> (jsval \<Rightarrow> oid option) \<Rightarrow> jsval \<Rightarrow> auth option \<Rightarrow> (question \<Rightarrow> bool) result" where
  "buildFilter ops cast query u =
     (let coll = oget query ''collegeId'' in
      if truthy coll \<and> cast coll = None then Inl (DriverError ''CastError'')
      else Inr (\<lambda>q. difficulty_matches ops (oget query ''difficulty'') (qu_difficulty q) \<and>
                    has_tag (question_tags (oget query ''tag'')) q \<and>
                    (truthy (oget query ''search'') \<longrightarrow> includes_ci (to_str (oget query ''search'')) (qu_title q)) \<and>
                    (truthy coll \<longrightarrow> qu_college q = cast coll) \<and>
                    (\<not> is_staff u \<longrightarrow> qu_visibility q = Public)))"

record question_page =
  qp_questions :: "question list"
  qp_total :: nat
  qp_page :: jsnum
  qp_pages :: jsnum

definition listQuestions ::
    "(jsval \<Rightarrow> difficulty \<Rightarrow> bool) \<Rightarrow> (jsval \<Rightarrow> oid option) \<Rightarrow> jsval \<Rightarrow> auth option \<Rightarrow> world \<Rightarrow> question_page result" where
  "listQuestions ops cast query u w =
     (case buildFilter ops cast query u of
        Inl e \<Rightarrow> Inl e
      | Inr P \<Rightarrow>
          (case page_slice (skip_of query) (limit_of query) (filter P (w_questions w)) of
             Inl e \<Rightarrow> Inl e
           | Inr qs \<Rightarrow>
               (let n = length (filter P (w_questions w)) in
                Inr \<lparr>qp_questions = qs, qp_total = n, qp_page = page_of query,
                     qp_pages = num_max (Fin 1) (ceil_div n (limit_of query))\<rparr>)))"

text \<open>Faculty of a college see its tags, other staff all, everyone else the tags of public questions.\<close>

definition tag_scope :: "auth option \<Rightarrow> question \<Rightarrow> bool" where
  "tag_scope u q \<longleftrightarrow>
     (if role_of u = Some Faculty then college_of u \<noteq> None \<longrightarrow> qu_college q = college_of u
      else \<not> is_staff u \<longrightarrow> qu_visibility q = Public)"

definition listTags :: "auth option \<Rightarrow> world \<Rightarrow> string list" where
  "listTags u w = sort (remdups (concat (map qu_tags (filter (tag_scope u) (w_questions w)))))"

subsection \<open>Random selection\<close>

definition requested :: "jsval \<Rightarrow> string \<Rightarrow> nat" where
  "requested payload k =
     (case to_num (with_default (oget payload k) 0) of
        Fin q \<Rightarrow> if 0 < q then nat \<lfloor>q\<rfloor> else 0
      | _ \<Rightarrow> 0)"

definition select_tags :: "jsval \<Rightarrow> string list" where
  "select_tags payload = map to_str (elems (oget payload ''tags''))"

text \<open>The \<^verbatim>\<open>$match\<close> stage: for faculty of a college the uncast college matches nothing.\<close>

definition select_scope :: "auth option \<Rightarrow> question \<Rightarrow> bool" where
  "select_scope u q \<longleftrightarrow>
     (if role_of u = Some Faculty then college_of u = None else \<not> is_staff u \<longrightarrow> qu_visibility q = Public)"

definition addUnique :: "question list \<Rightarrow> question list \<Rightarrow> question list" where
  "addUnique picked docs = fold (\<lambda>d acc. if qu_id d \<in> qu_id ` set acc then acc else acc @ [d]) docs picked"

definition sample_questions ::
    "(difficulty \<Rightarrow> nat \<Rightarrow> question list \<Rightarrow> question list) \<Rightarrow> (question \<Rightarrow> bool) \<Rightarrow> difficulty \<Rightarrow> nat \<Rightarrow> world
       \<Rightarrow> question list" where
  "sample_questions pick P d n w =
     (if n = 0 then [] else pick d n (filter (\<lambda>q. P q \<and> qu_difficulty q = d) (w_questions w)))"

definition selectQuestions ::
    "(difficulty \<Rightarrow> nat \<Rightarrow> question list \<Rightarrow> question list) \<Rightarrow> jsval \<Rightarrow> auth option \<Rightarrow> world \<Rightarrow> question list result" where
  "selectQuestions pick payload u w =
     (let easy = requested payload ''easy''; medium = requested payload ''medium''; hard = requested payload ''hard'';
          P = (\<lambda>q. has_tag (select_tags payload) q \<and> select_scope u q)
      in if easy + medium + hard = 0 then Inl (PlainError ''At least one question count must be provided'')
         else Inr (fold (\<lambda>(d, n) acc. addUnique acc (sample_questions pick P d n w))
                     [(Easy, easy), (Medium, medium), (Hard, hard)] []))"

subsection \<open>Single questions\<close>

definition getQuestionById :: "oid \<Rightarrow> auth option \<Rightarrow> world \<Rightarrow> question option" where
  "getQuestionById i u w =
     (case questions_find w i of
        None \<Rightarrow> None
      | Some q \<Rightarrow>
          if qu_visibility q = Public then Some q
          else (case u of
                  None \<Rightarrow> None
                | Some a \<Rightarrow>
                    if au_role a = Superadmin \<or> au_role a = Admin then Some q
                    else if au_role a = Faculty \<and> qu_college q = au_college a then Some q
                    else if qu_author q = au_id a then Some q
                    else None))"

text \<open>The document that is created: the author is the caller, the college the body's or else the caller's.\<close>

definition question_data :: "jsval \<Rightarrow> auth \<Rightarrow> jsval" where
  "question_data payload u =
     (let d = oset (JObj (spread payload)) ''author'' (opt_id (au_id u)) in
      if \<not> truthy (oget d ''collegeId'') \<and> au_college u \<noteq> None
      then oset d ''collegeId'' (opt_id (au_college u)) else d)"

definition createQuestion :: "(jsval \<Rightarrow> question result) \<Rightarrow> jsval \<Rightarrow> auth option \<Rightarrow> world \<Rightarrow> question result \<times> world" where
  "createQuestion mk payload u w =
     (case u of
        None \<Rightarrow> (http 401 ''Unauthorized'', w)
      | Some a \<Rightarrow>
          (let d = question_data payload a in
           if \<not> truthy (oget d ''title'') \<or> \<not> is_str (oget d ''title'') then (http 400 ''Title is required'', w)
           else (case mk d of
                   Inl e \<Rightarrow> (Inl e, w)
                 | Inr q \<Rightarrow> (case questions_create q w of (q', w') \<Rightarrow> (Inr q', w')))))"

definition is_owner :: "auth \<Rightarrow> question \<Rightarrow> bool" where
  "is_owner u q \<longleftrightarrow> qu_author q = au_id u"

definition may_edit :: "auth \<Rightarrow> question \<Rightarrow> bool" where
  "may_edit u q \<longleftrightarrow>
     is_owner u q \<or> au_role u = Admin \<or> au_role u = Superadmin \<or> (au_role u = Faculty \<and> qu_college q = au_college u)"

definition may_delete :: "auth \<Rightarrow> question \<Rightarrow> bool" where
  "may_delete u q \<longleftrightarrow> is_owner u q \<or> au_role u = Admin \<or> au_role u = Superadmin"

definition updateQuestion ::
    "(jsval \<Rightarrow> (question \<Rightarrow> question) result) \<Rightarrow> oid \<Rightarrow> jsval \<Rightarrow> auth \<Rightarrow> world \<Rightarrow> question option result \<times> world" where
  "updateQuestion cast i payload u w =
     (case questions_find w i of
        None \<Rightarrow> (http 404 ''Question not found'', w)
      | Some q \<Rightarrow>
          if \<not> may_edit u q then (http 403 ''Forbidden'', w)
          else (case cast payload of
                  Inl e \<Rightarrow> (Inl e, w)
                | Inr f \<Rightarrow> (case questions_update i f w of (r, w') \<Rightarrow> (Inr r, w'))))"

definition deleteQuestion :: "oid \<Rightarrow> auth \<Rightarrow> world \<Rightarrow> question option result \<times> world" where
  "deleteQuestion i u w =
     (case questions_find w i of
        None \<Rightarrow> (http 404 ''Question not found'', w)
      | Some q \<Rightarrow>
          if \<not> may_delete u q then (http 403 ''Forbidden'', w)
          else (case questions_delete i w of (r, w') \<Rightarrow> (Inr r, w')))"

subsection \<open>Who can change a question\<close>

text \<open>A question is changed or removed only under its own id and only by its author, an admin or superadmin or,
  for changes, faculty of its college; refused requests leave the database as it is; an accepted change is the
  one that is then found, and a removed question is found no more.\<close>

theorem question_writes:
  assumes "distinct (map qu_id (w_questions w))" and "\<forall>p f x. cast p = Inr f \<longrightarrow> qu_id (f x) = qu_id x"
  shows "(\<forall>j. questions_find (snd (updateQuestion cast i payload u w)) j \<noteq> questions_find w j
            \<longrightarrow> j = i \<and> (\<exists>q f. questions_find w i = Some q \<and> may_edit u q \<and> cast payload = Inr f \<and>
                  questions_find (snd (updateQuestion cast i payload u w)) i = Some (f q))) \<and>
         (\<forall>j. questions_find (snd (deleteQuestion i u w)) j \<noteq> questions_find w j
            \<longrightarrow> j = i \<and> (\<exists>q. questions_find w i = Some q \<and> may_delete u q) \<and>
                questions_find (snd (deleteQuestion i u w)) i = None) \<and>
         (\<not> is_ok (fst (updateQuestion cast i payload u w)) \<longrightarrow> snd (updateQuestion cast i payload u w) = w) \<and>
         (\<not> is_ok (fst (deleteQuestion i u w)) \<longrightarrow> snd (deleteQuestion i u w) = w)"
proof -
  have upd: "questions_find (snd (questions_update i f w)) j
      = (if j = i then map_option f (questions_find w i) else questions_find w j)"
    if "cast payload = Inr f" for f j
    using questions_store.change_lookup [OF assms(1), of f i j] assms(2) that by blast
  note del = questions_store.delete_lookup [OF assms(1), of i]
  have keep: "\<not> is_ok (fst (updateQuestion cast i payload u w)) \<longrightarrow> snd (updateQuestion cast i payload u w) = w"
    by (auto simp: updateQuestion_def split: option.splits if_splits sum.splits prod.splits)
  have "\<forall>j. questions_find (snd (updateQuestion cast i payload u w)) j \<noteq> questions_find w j
            \<longrightarrow> j = i \<and> (\<exists>q f. questions_find w i = Some q \<and> may_edit u q \<and> cast payload = Inr f \<and>
                  questions_find (snd (updateQuestion cast i payload u w)) i = Some (f q))"
    by (auto simp: updateQuestion_def upd split: option.splits if_splits sum.splits prod.splits)
       (use upd in \<open>force split: if_splits\<close>)+
  moreover have "\<forall>j. questions_find (snd (deleteQuestion i u w)) j \<noteq> questions_find w j
            \<longrightarrow> j = i \<and> (\<exists>q. questions_find w i = Some q \<and> may_delete u q) \<and>
                questions_find (snd (deleteQuestion i u w)) i = None"
    by (auto simp: deleteQuestion_def split: option.splits if_splits prod.splits)
       (use del in \<open>force split: if_splits\<close>)+
  moreover have "\<not> is_ok (fst (deleteQuestion i u w)) \<longrightarrow> snd (deleteQuestion i u w) = w"
    by (auto simp: deleteQuestion_def split: option.splits if_splits prod.splits)
  ultimately show ?thesis using keep by blast
qed

definition sample_question :: question where
  "sample_question =
     \<lparr>qu_id = 80, qu_title = ''Stacks'', qu_description = None, qu_difficulty = Easy, qu_tags = [''stack''], qu_marks = 100,
      qu_time_limit = 2000, qu_memory_limit = 256, qu_author = Some 3, qu_college = Some 1,
      qu_visibility = CollegeWide, qu_created = 0\<rparr>"

definition teacher_auth :: auth where
  "teacher_auth = \<lparr>au_jwt_id = Some 3, au_id = Some 3, au_role = Faculty, au_college = Some 1, au_service = False\<rparr>"

definition question_world :: world where
  "question_world = empty_world\<lparr>w_questions := [sample_question, sample_question\<lparr>qu_id := 81, qu_visibility := Public\<rparr>]\<rparr>"

lemma question_writes_witness:
  "questions_find (snd (updateQuestion (\<lambda>p. Inr (\<lambda>q. q\<lparr>qu_title := str_of (oget p ''title'')\<rparr>)) 80
      (JObj [(''title'', JStr ''Queues'')]) teacher_auth question_world)) 80 = Some (sample_question\<lparr>qu_title := ''Queues''\<rparr>) \<and>
   questions_find (snd (updateQuestion (\<lambda>p. Inr (\<lambda>q. q\<lparr>qu_title := str_of (oget p ''title'')\<rparr>)) 80
      (JObj [(''title'', JStr ''Queues'')]) teacher_auth question_world)) 81 = questions_find question_world 81"
proof -
  let ?cast = "\<lambda>p. Inr (\<lambda>q. q\<lparr>qu_title := str_of (oget p ''title'')\<rparr>) :: (question \<Rightarrow> question) result"
  let ?p = "JObj [(''title'', JStr ''Queues'')]"
  have "distinct (map qu_id (w_questions question_world))" by (simp add: question_world_def sample_question_def)
  moreover have "\<forall>p f x. ?cast p = Inr f \<longrightarrow> qu_id (f x) = qu_id x" by auto
  ultimately have "\<forall>j. questions_find (snd (updateQuestion ?cast 80 ?p teacher_auth question_world)) j
        \<noteq> questions_find question_world j \<longrightarrow> j = 80"
    using question_writes [of question_world ?cast 80 ?p teacher_auth] by blast
  moreover have "questions_find (snd (updateQuestion ?cast 80 ?p teacher_auth question_world)) 80
      = Some (sample_question\<lparr>qu_title := ''Queues''\<rparr>)"
    by (simp add: updateQuestion_def questions_find_def questions_update_def question_world_def sample_question_def
        may_edit_def is_owner_def teacher_auth_def)
  ultimately show ?thesis by fastforce
qed

subsection \<open>What a selection contains\<close>

text \<open>\<^verbatim>\<open>$sample\<close> returns documents it was given, none twice, as many as asked for or all.\<close>

definition honest_sample :: "(difficulty \<Rightarrow> nat \<Rightarrow> question list \<Rightarrow> question list) \<Rightarrow> bool" where
  "honest_sample pick \<longleftrightarrow>
     (\<forall>d n xs. distinct xs \<longrightarrow>
        distinct (pick d n xs) \<and> set (pick d n xs) \<subseteq> set xs \<and> length (pick d n xs) = min n (length xs))"

definition count_key :: "difficulty \<Rightarrow> string" where
  "count_key d = (case d of Easy \<Rightarrow> ''easy'' | Medium \<Rightarrow> ''medium'' | Hard \<Rightarrow> ''hard'')"

definition selectable :: "jsval \<Rightarrow> auth option \<Rightarrow> question \<Rightarrow> bool" where
  "selectable payload u q \<longleftrightarrow> has_tag (select_tags payload) q \<and> select_scope u q"

lemma addUnique_append:
  "distinct (map qu_id (acc @ docs)) \<Longrightarrow> addUnique acc docs = acc @ docs"
proof (induction docs arbitrary: acc)
  case (Cons d ds)
  then have "qu_id d \<notin> qu_id ` set acc" by auto
  with Cons.IH [of "acc @ [d]"] Cons.prems show ?case by (simp add: addUnique_def)
qed (simp add: addUnique_def)

lemma sample_questions_sound:
  assumes "honest_sample pick" and "distinct (map qu_id (w_questions w))"
  shows "distinct (map qu_id (sample_questions pick P d n w))"
    "q \<in> set (sample_questions pick P d n w) \<Longrightarrow> q \<in> set (w_questions w) \<and> P q \<and> qu_difficulty q = d"
    "length (sample_questions pick P d n w) = min n (length (filter (\<lambda>q. P q \<and> qu_difficulty q = d) (w_questions w)))"
proof -
  let ?xs = "filter (\<lambda>q. P q \<and> qu_difficulty q = d) (w_questions w)"
  have "distinct ?xs" using assms(2) by (simp add: distinct_map)
  then have pick: "distinct (pick d n ?xs)" "set (pick d n ?xs) \<subseteq> set ?xs" "length (pick d n ?xs) = min n (length ?xs)"
    using assms(1) unfolding honest_sample_def by blast+
  have "inj_on qu_id (set (w_questions w))" using assms(2) by (simp add: distinct_map)
  with pick show "distinct (map qu_id (sample_questions pick P d n w))"
    by (auto simp: sample_questions_def distinct_map intro: inj_on_subset)
  show "q \<in> set (sample_questions pick P d n w) \<Longrightarrow> q \<in> set (w_questions w) \<and> P q \<and> qu_difficulty q = d"
    using pick(2) by (auto simp: sample_questions_def split: if_splits)
  show "length (sample_questions pick P d n w) = min n (length ?xs)"
    using pick(3) by (simp add: sample_questions_def)
qed



end
