(* ===== verification/Assessment_Laws.thy ===== *)
theory Assessment_Laws
  imports Attempt_Lifecycle "HOL-Library.Multiset"
begin

section \<open>Properties of the assessment service\<close>

text \<open>
  Scores, the acceptance test of an assessment payload, the admission to an attempt, the ownership of
  new assessments and the isolation of the tenants from each other.
\<close>

subsection \<open>Scores\<close>

text \<open>What an attempt has earned: the maximum scores of the problems it has a successful submission for.\<close>

definition earned :: "world \<Rightarrow> oid \<Rightarrow> assessment \<Rightarrow> rat" where
  "earned w i s =
     sum_list (map pe_max_score (filter (\<lambda>e. \<exists>t \<in> set (w_submissions w).
        su_attempt t = Some i \<and> su_status t = Success \<and> su_problem t = pe_problem e) (as_problems s)))"

lemma solved_iff:
  "p \<in> set (solved_problems w i) \<longleftrightarrow>
     (\<exists>t \<in> set (w_submissions w). su_attempt t = Some i \<and> su_status t = Success \<and> su_problem t = p)"
  by (auto simp: solved_problems_def)

lemma total_score_sum:
  assumes "problems_present w es"
  shows "total_score w solved es acc
    = Inr (acc + sum_list (map pe_max_score (filter (\<lambda>e. pe_problem e \<in> set solved) es)))"
  using assms
  by (induction es arbitrary: acc) (simp_all add: problems_present_def problem_ref_present add.assoc)

lemma total_score_missing:
  assumes "\<not> problems_present w es"
  shows "total_score w solved es acc = Inl (null_deref ''_id'')"
  using assms
proof (induction es arbitrary: acc)
  case (Cons e es)
  then show ?case
    by (cases "problems_find w (pe_problem e)")
       (auto simp: problems_present_def problem_ref_def split: sum.splits)
qed (simp add: problems_present_def)

lemma sum_list_filter_bounds:
  assumes "\<forall>x \<in> set xs. 0 \<le> (f x :: rat)"
  shows "0 \<le> sum_list (map f (filter P xs)) \<and> sum_list (map f (filter P xs)) \<le> sum_list (map f xs)"
  using assms by (induction xs) auto

lemma earned_bounds:
  "(\<forall>e \<in> set (as_problems s). 0 \<le> pe_max_score e) \<Longrightarrow>
     0 \<le> earned w i s \<and> earned w i s \<le> sum_list (map pe_max_score (as_problems s))"
  unfolding earned_def by (rule sum_list_filter_bounds)

lemma recalculate_present:
  assumes "attempts_find w i None = Some a" and "assessments_find w (at_assessment a) None = Some s"
    and "problems_present w (as_problems s)"
  shows "recalculateAttemptScore i w
    = (Inr (), if at_score a \<noteq> earned w i s
               then snd (attempts_update i (\<lambda>b. b\<lparr>at_score := earned w i s\<rparr>) None w) else w)"
proof -
  have "at_id a = i" using attempts_repo.find_sound [OF assms(1)] by simp
  then show ?thesis
    using assms total_score_sum [OF assms(3), of "solved_problems w i" 0]
    by (simp add: recalculateAttemptScore_def earned_def solved_iff)
qed

lemma recalculate_missing:
  assumes "attempts_find w i None = Some a" and "assessments_find w (at_assessment a) None = Some s"
    and "\<not> problems_present w (as_problems s)"
  shows "recalculateAttemptScore i w = (Inl (null_deref ''_id''), w)"
  using assms total_score_missing [OF assms(3)] by (simp add: recalculateAttemptScore_def)

lemma update_score_world [simp]:
  "assessments_find (snd (attempts_update i f sc w)) = assessments_find w"
  "w_submissions (snd (attempts_update i f sc w)) = w_submissions w"
  "problems_find (snd (attempts_update i f sc w)) = problems_find w"
  by (simp_all add: attempts_update_def Let_def assessments_find_def problems_find_def fun_eq_iff)

text \<open>C8: recomputing the score stores the sum of the maximum scores of the solved problems, whatever
  number of successful submissions each has; the score stays between zero and the maximum total, no
  other attempt changes, and a second recomputation changes nothing.\<close>

theorem recalculated_score:
  assumes "attempts_wf w" and "attempts_find w i None = Some a"
    and "assessments_find w (at_assessment a) None = Some s" and "problems_present w (as_problems s)"
    and "\<forall>e \<in> set (as_problems s). 0 \<le> pe_max_score e"
  shows "\<exists>w'. recalculateAttemptScore i w = (Inr (), w')
     \<and> attempts_find w' i None = Some (a\<lparr>at_score := earned w i s\<rparr>)
     \<and> 0 \<le> earned w i s \<and> earned w i s \<le> sum_list (map pe_max_score (as_problems s))
     \<and> (\<forall>j b. j \<noteq> i \<longrightarrow> attempts_find w j None = Some b \<longrightarrow> attempts_find w' j None = Some b)
     \<and> recalculateAttemptScore i w' = (Inr (), w')"
proof -
  let ?f = "\<lambda>b. b\<lparr>at_score := earned w i s\<rparr>"
  define w' where "w' = (if at_score a \<noteq> earned w i s then snd (attempts_update i ?f None w) else w)"
  have ids: "distinct (map at_id (w_attempts w))"
    using assms(1) by (simp add: attempts_wf_def ids_distinct_def)
  have run: "recalculateAttemptScore i w = (Inr (), w')"
    using recalculate_present [OF assms(2-4)] by (simp add: w'_def)
  have found: "attempts_find w' i None = Some (?f a)"
    using attempts_repo.update_find_same [OF ids assms(2), of ?f] assms(2) by (simp add: w'_def)
  have other: "attempts_find w' j None = Some b" if "j \<noteq> i" "attempts_find w j None = Some b" for j b
    using attempts_repo.update_find_other [OF ids that, of ?f] that(2) by (simp add: w'_def)
  have same: "earned w' i s = earned w i s" "problems_present w' (as_problems s)"
      "assessments_find w' (at_assessment a) None = Some s"
    using assms(3,4) by (simp_all add: w'_def earned_def problems_present_def)
  have "recalculateAttemptScore i w' = (Inr (), w')"
    using recalculate_present [OF found] same by simp
  with run found other earned_bounds [OF assms(5), of w i] show ?thesis by blast
qed

lemma recalculated_score_witness:
  "\<exists>w'. recalculateAttemptScore 30 (sample_world\<lparr>w_submissions := [judged, judged]\<rparr>) = (Inr (), w')
      \<and> attempts_find w' 30 None = Some (sample_attempt\<lparr>at_score := 50\<rparr>)"
proof -
  let ?w = "sample_world\<lparr>w_submissions := [judged, judged]\<rparr>"
  have "attempts_wf ?w" by (simp add: attempts_wf_def ids_distinct_def sample_world_def empty_world_def)
  moreover have "attempts_find ?w 30 None = Some sample_attempt"
      "assessments_find ?w (at_assessment sample_attempt) None = Some sample_assessment"
      "problems_present ?w (as_problems sample_assessment)"
      "\<forall>e \<in> set (as_problems sample_assessment). 0 \<le> pe_max_score e"
    by (simp_all add: attempts_find_def assessments_find_def problems_present_def problems_find_def sample_defs)
  moreover have "earned ?w 30 sample_assessment = 50"
    by (simp add: earned_def judged_def new_submission_def sample_submit_def sample_assessment_def)
  ultimately show ?thesis
    using recalculated_score [of ?w 30 sample_attempt sample_assessment] by auto
qed

text \<open>Once a problem of an assessment has been deleted, no active attempt on it can be submitted: the
  call ends in a TypeError and changes nothing, so the attempt stays active.\<close>

theorem deleted_problem_blocks_submit:
  assumes "store_ok w" and "attempts_find w i (scope_of u) = Some a" and "at_status a = Active"
    and "assessments_find w (at_assessment a) (scope_of u) = Some s"
    and "users_find w (at_student a) \<noteq> None" and "au_role u = Student \<longrightarrow> is_user u (at_student a)"
    and "\<not> problems_present w (as_problems s)"
  shows "submitAssessment i u ok clk info w = (Inl (null_deref ''_id''), w)"
proof -
  have a: "attempts_find w i None = Some a"
    using attempts_repo.find_widen [OF _ assms(2)] assms(1) by (simp add: store_ok_def)
  have s: "assessments_find w (at_assessment a) None = Some s"
    using assessments_repo.find_widen [OF _ assms(4)] assms(1) by (simp add: store_ok_def)
  obtain sid where sid: "student_ref w a = Inr sid"
    using assms(5) by (auto simp: student_ref_def)
  then have "sid = at_student a" by (rule student_ref_Inr)
  with sid assms(2,3,4,6) recalculate_missing [OF a s assms(7)] show ?thesis
    by (auto simp: submitAssessment_def finish_attempt_def Let_def)
qed

lemma deleted_problem_blocks_submit_witness:
  "submitAssessment 30 student_auth True (\<lambda>k. 2000) \<lparr>ai_ip = None, ai_agent = None\<rparr>
      (sample_world\<lparr>w_problems := []\<rparr>) = (Inl (null_deref ''_id''), sample_world\<lparr>w_problems := []\<rparr>)"
proof (rule deleted_problem_blocks_submit [where a = sample_attempt and s = sample_assessment])
  show "store_ok (sample_world\<lparr>w_problems := []\<rparr>)"
    by (simp add: store_ok_def sample_world_def empty_world_def)
qed (simp_all add: attempts_find_def assessments_find_def users_find_def collegeScopeFor_def is_user_def
      problems_present_def problems_find_def student_auth_def sample_defs)

subsection \<open>Tenant isolation of attempts\<close>

text \<open>\<open>touches i w w'\<close>: of the attempts of \<open>w\<close>, only number \<open>i\<close> may differ in \<open>w'\<close>.\<close>

definition touches :: "oid \<Rightarrow> world \<Rightarrow> world \<Rightarrow> bool" where
  "touches i w w' \<longleftrightarrow> ids_distinct w' \<and>
     (\<forall>j b. j \<noteq> i \<longrightarrow> attempts_find w j None = Some b \<longrightarrow> attempts_find w' j None = Some b)"

lemma touches_refl [simp]: "touches i w w \<longleftrightarrow> ids_distinct w"
  by (simp add: touches_def)

lemma touches_trans: "touches i w w1 \<Longrightarrow> touches i w1 w2 \<Longrightarrow> touches i w w2"
  by (auto simp: touches_def)

lemma touches_update:
  assumes "ids_distinct w" and "\<And>x. at_id (f x) = at_id x"
  shows "touches i w (snd (attempts_update i f None w))"
  unfolding touches_def
  using update_ids_distinct [OF assms] attempts_repo.update_find_other [of w _ i None _ f None] assms
  by (auto simp: ids_distinct_def)

lemma touches_log [simp]: "touches i w (logEvent ok t e u d info w') = touches i w w'"
  by (simp add: touches_def logEvent_def ids_distinct_def attempts_find_def)

lemma update_keeps_id [simp]:
  "at_id (push_event ev a) = at_id a" "at_id (timeout_update t a) = at_id a"
  "at_id (submit_update t1 t2 a) = at_id a" "at_id (grace_update ev g b a) = at_id a"
  "at_id (raise_update st r t1 t2 a) = at_id a" "at_id (resolve_update cs n st c t1 t2 a) = at_id a"
  by (simp_all add: change_defs)

lemma count_event_id: "count_event ty = Some f \<Longrightarrow> at_id (f a) = at_id a"
  by (erule count_eventE) simp_all

lemma recalculate_touches:
  assumes "ids_distinct w" and "recalculateAttemptScore i w = (r, w')"
  shows "touches i w w'"
  using recalculate_cases [OF assms(2)] assms(1) by (auto intro: touches_update)

lemma touches_recalculate_then:
  assumes "ids_distinct w" and "recalculateAttemptScore i w = (r, w1)"
    and "\<And>x. at_id (f x) = at_id x"
  shows "touches i w (snd (attempts_update i f None w1))"
  using recalculate_touches [OF assms(1,2)] touches_update [of w1 f i] assms(3) touches_trans
  unfolding touches_def by blast

lemma finish_touches:
  assumes "ids_distinct w"
  shows "touches i w (snd (finish_attempt i a s u ok clk info w))"
proof -
  obtain r w1 where r: "recalculateAttemptScore i w = (r, w1)" by fastforce
  show ?thesis
    using recalculate_touches [OF assms r] touches_recalculate_then [OF assms r] r
    by (cases r) (auto simp: finish_attempt_def Let_def case_prod_beta split: option.splits)
qed

lemma view_touches:
  assumes "ids_distinct w"
  shows "touches i w (snd (getAssessmentAttemptById i u clk w))"
proof -
  have v: "touches i w (view_timeout now i a s w)" for now a s
    using assms by (auto simp: view_timeout_def intro: touches_update)
  have "touches i w (snd (recalculateAttemptScore i (view_timeout now i a s w)))" for now a s
    using recalculate_touches [of "view_timeout now i a s w" i] v touches_trans
    unfolding touches_def by (metis prod.collapse)
  then show ?thesis
    using assms
    by (auto simp: getAssessmentAttemptById_def Let_def case_prod_beta split: option.splits sum.splits prod.splits)
qed

text \<open>The attempt a call is about, and its caller.\<close>

fun target :: "action \<Rightarrow> (oid \<times> auth) option" where
  "target (DoObserve i ty u) = Some (i, u)"
| "target (DoFinish i u) = Some (i, u)"
| "target (DoView i u) = Some (i, u)"
| "target (DoDraft i d u) = Some (i, u)"
| "target (DoGrace i m u) = Some (i, u)"
| "target (DoRaise i r u) = Some (i, u)"
| "target (DoResolve i v c u) = Some (i, u)"
| "target _ = None"

lemma exec_touches:
  assumes "ids_distinct w" and "target act = Some (i, u)"
  shows "touches i w (exec sv clk act w)"
  using assms
  by (cases act)
     (auto simp: logAntiCheatingEvent_def submitAssessment_def saveDraft_def addGraceTime_def raiseChallenge_def
        resolveChallenge_def Let_def fst_snd_case view_touches finish_touches count_event_id
        split: option.splits sum.splits intro!: touches_update simp del: num_add.simps)

text \<open>Without access to the attempt a call changes nothing.\<close>

lemma exec_denied:
  assumes "target act = Some (i, u)" and "attempts_find w i (scope_of u) = None"
    and "\<forall>a. attempts_find w i None = Some a \<longrightarrow> \<not> is_user u (at_student a)"
  shows "exec sv clk act w = w"
  using assms
  by (cases act)
     (auto simp: logAntiCheatingEvent_def submitAssessment_def saveDraft_def addGraceTime_def raiseChallenge_def
        resolveChallenge_def getAssessmentAttemptById_def split: option.splits sum.splits
        dest!: student_ref_Inr)



subsection \<open>Tenant isolation of assessments\<close>

lemma foreign_assessment_update:
  assumes "distinct (map as_id (w_assessments w))" and "assessments_find w j None = Some e"
    and "as_college e \<noteq> Some c" and "\<And>x. as_id (f x) = as_id x"
  shows "assessments_find (snd (assessments_update i f (Some c) w)) j None = Some e"
  by (rule assessments_repo.scoped_write [OF assms])

lemma foreign_assessment_delete:
  assumes "assessments_find w j None = Some e" and "as_college e \<noteq> Some c"
    and "distinct (map as_id (w_assessments w))"
  shows "assessments_find (snd (assessments_delete i (Some c) w)) j None = Some e"
proof -
  have e: "e \<in> set (w_assessments w)" "as_id e = j"
    using assessments_repo.find_sound [OF assms(1)] by simp_all
  let ?ds = "delete_first (\<lambda>a. as_id a = i \<and> in_scope (Some c) (as_college a)) (w_assessments w)"
  have "e \<in> set ?ds" using e(1) assms(2) by (simp add: delete_first_keeps)
  moreover have "distinct (map as_id ?ds)" using distinct_delete_first [OF assms(3)] .
  ultimately show ?thesis
    using find_key [of as_id ?ds e] e(2) by (simp add: assessments_delete_def assessments_find_def)
qed

lemma update_result_snd:
  "snd (case assessments_update i f sc w of (None, w') \<Rightarrow> (http 404 m, w') | (Some a, w') \<Rightarrow> (Inr a, w'))
     = snd (assessments_update i f sc w)"
  by (simp split: prod.split option.split)

text \<open>A user bound to a college cannot change an assessment of another college: not by updating,
  deleting, locking or unlocking it, and not by announcing something in it.\<close>

theorem assessment_tenant_isolation:
  assumes "distinct (map as_id (w_assessments w))"
    and "au_role u \<noteq> Superadmin" and "au_college u = Some c"
    and "assessments_find w j None = Some e" and "as_college e \<noteq> Some c"
    and "\<forall>p f x. cast p = Inr f \<longrightarrow> as_id (f x) = as_id x"
  shows "assessments_find (snd (updateAssessment parse cast i payload u w)) j None = Some e \<and>
         assessments_find (snd (deleteAssessment i u w)) j None = Some e \<and>
         assessments_find (snd (lockAssessment i u w)) j None = Some e \<and>
         assessments_find (snd (unlockAssessment i u w)) j None = Some e \<and>
         assessments_find (snd (createAnnouncement i message u clk w)) j None = Some e"
proof -
  have sc: "scope_of u = Some c" using assms(2,3) by (simp add: collegeScopeFor_def)
  note upd = foreign_assessment_update [OF assms(1,4,5)]
  have "assessments_find (snd (updateAssessment parse cast i payload u w)) j None = Some e"
    using assms(4,6) by (auto simp: updateAssessment_def update_result_snd sc intro!: upd split: sum.split)
  moreover have "assessments_find (snd (deleteAssessment i u w)) j None = Some e"
    using foreign_assessment_delete [OF assms(4,5,1), of i]
    by (auto simp: deleteAssessment_def sc split: prod.splits option.splits)
  moreover have "assessments_find (snd (lockAssessment i u w)) j None = Some e"
      "assessments_find (snd (unlockAssessment i u w)) j None = Some e"
    using assms(4) by (auto simp: lockAssessment_def unlockAssessment_def update_result_snd sc intro!: upd)
  moreover have "assessments_find (snd (createAnnouncement i message u clk w)) j None = Some e"
    using assms(4) by (auto simp: createAnnouncement_def Let_def sc intro!: upd split: option.split)
  ultimately show ?thesis by simp
qed

lemma assessment_tenant_isolation_witness:
  "assessments_find (snd (lockAssessment 10 (student_auth\<lparr>au_role := Faculty, au_college := Some 5\<rparr>) sample_world))
     10 None = Some sample_assessment"
  using assessment_tenant_isolation [of sample_world "student_auth\<lparr>au_role := Faculty, au_college := Some 5\<rparr>" 5 10
      sample_assessment "\<lambda>p. Inr (\<lambda>a. a)"]
  by (simp add: assessments_find_def student_auth_def sample_defs)

subsection \<open>Creating an assessment\<close>

text \<open>What the acceptance test of a payload establishes.\<close>

lemma accepted_payload:
  assumes "validateAssessmentPayload parse payload = Inr ()"
  shows "truthy (oget payload ''title'') \<and> positive_num (oget payload ''durationMinutes'') \<and>
     (\<forall>s e. js_date parse (oget payload ''startTime'') = Some s \<longrightarrow> js_date parse (oget payload ''endTime'') = Some e
        \<longrightarrow> s < e) \<and>
     (\<exists>ps. oget payload ''problems'' = JArr ps \<and> ps \<noteq> [] \<and>
        distinct (map (\<lambda>q. to_str (oget q ''problemId'')) ps) \<and>
        (\<forall>q \<in> set ps. oget q ''maxScore'' = JUndef \<or> positive_num (oget q ''maxScore'')))"
proof -
  obtain perrs where p: "problem_errors (oget payload ''problems'') = Inr perrs"
      and errs: "payload_errors parse payload = Inr []"
    using assms
    by (auto simp: validateAssessmentPayload_def payload_errors_def Let_def split: sum.splits list.splits if_splits)
  then have "perrs = []" by (auto simp: payload_errors_def Let_def split: if_splits)
  with p have "\<exists>ps. oget payload ''problems'' = JArr ps \<and> ps \<noteq> [] \<and>
        distinct (map (\<lambda>q. to_str (oget q ''problemId'')) ps) \<and>
        (\<forall>q \<in> set ps. oget q ''maxScore'' = JUndef \<or> positive_num (oget q ''maxScore''))"
    by (auto simp: problem_errors_def Let_def list_ex_iff split: jsval.splits list.splits if_splits)
  with errs p show ?thesis
    by (auto simp: payload_errors_def Let_def not_less split: if_splits)
qed

text \<open>An assessment is stored only with a title, a positive duration, an end after its start (when both
  dates parse) and at least one problem, no problem twice and no score that is not positive; exactly one
  document is added, and its college is the creator's own, never the one the request names, unless a
  superadmin creates it.\<close>

theorem created_assessment:
  assumes "createAssessment parse mk payload u w = (Inr a, w')"
    and "\<forall>p i c b. mk p i c = Inr b \<longrightarrow> opt_id (as_college b) = c"
  shows "w_assessments w' = w_assessments w @ [a] \<and>
     (au_role u \<noteq> Superadmin \<longrightarrow> as_college a = au_college u) \<and>
     truthy (oget payload ''title'') \<and> positive_num (oget payload ''durationMinutes'') \<and>
     (\<forall>s e. js_date parse (oget payload ''startTime'') = Some s \<longrightarrow> js_date parse (oget payload ''endTime'') = Some e
        \<longrightarrow> s < e) \<and>
     (\<exists>ps. oget payload ''problems'' = JArr ps \<and> ps \<noteq> [] \<and>
        distinct (map (\<lambda>q. to_str (oget q ''problemId'')) ps) \<and>
        (\<forall>q \<in> set ps. oget q ''maxScore'' = JUndef \<or> positive_num (oget q ''maxScore'')))"
proof -
  have v: "validateAssessmentPayload parse payload = Inr ()" and mk: "mk payload (au_id u) (create_college payload u) = Inr a"
      and w': "w_assessments w' = w_assessments w @ [a]"
    using assms(1) by (auto simp: createAssessment_def assessments_create_def split: sum.splits prod.splits)
  have "as_college a = au_college u" if "au_role u \<noteq> Superadmin"
  proof -
    have "opt_id (as_college a) = opt_id (au_college u)"
      using assms(2) mk that by (simp add: create_college_def)
    then show ?thesis by (cases "as_college a"; cases "au_college u") simp_all
  qed
  with v w' accepted_payload show ?thesis by blast
qed

definition sample_payload :: jsval where
  "sample_payload = JObj [(''title'', JStr ''T''), (''startTime'', jint 1000), (''endTime'', jint 9000),
     (''durationMinutes'', jint 60), (''collegeId'', jnat 5),
     (''problems'', JArr [JObj [(''problemId'', JStr ''20''), (''maxScore'', jint 50)]])]"

definition sample_cast :: "jsval \<Rightarrow> oid option \<Rightarrow> jsval \<Rightarrow> assessment result" where
  "sample_cast p i c = Inr (sample_assessment\<lparr>as_college :=
     (case c of JNum (Fin q) \<Rightarrow> Some (nat \<lfloor>q\<rfloor>) | _ \<Rightarrow> None)\<rparr>)"

definition faithful_cast :: "jsval \<Rightarrow> oid option \<Rightarrow> jsval \<Rightarrow> assessment result" where
  "faithful_cast p i c =
     (case sample_cast p i c of Inr b \<Rightarrow> if opt_id (as_college b) = c then Inr b else Inl (DriverError ''CastError'')
      | Inl e \<Rightarrow> Inl e)"

lemma created_assessment_witness:
  "\<exists>w'. createAssessment (\<lambda>s. None) faithful_cast sample_payload (student_auth\<lparr>au_role := Faculty\<rparr>) empty_world
         = (Inr (sample_assessment\<lparr>as_college := Some 4\<rparr>), w')
      \<and> w_assessments w' = [sample_assessment\<lparr>as_college := Some 4\<rparr>]"
proof -
  let ?a = "sample_assessment\<lparr>as_college := Some 4\<rparr>"
  have run: "createAssessment (\<lambda>s. None) faithful_cast sample_payload (student_auth\<lparr>au_role := Faculty\<rparr>) empty_world
      = (Inr ?a, snd (assessments_create ?a empty_world))"
    by (simp add: createAssessment_def validateAssessmentPayload_def payload_errors_def problem_errors_def Let_def
        positive_num_def faithful_cast_def sample_cast_def sample_payload_def create_college_def student_auth_def
        assessments_create_def)
  have "\<forall>p i c b. faithful_cast p i c = Inr b \<longrightarrow> opt_id (as_college b) = c"
    by (simp add: faithful_cast_def split: sum.split)
  from created_assessment [OF run this]
  have "w_assessments (snd (assessments_create ?a empty_world)) = w_assessments empty_world @ [?a]" by (rule conjunct1)
  with run show ?thesis by (simp add: empty_world_def)
qed

subsection \<open>Admission to an attempt\<close>

text \<open>A student's first start succeeds only for a published, unlocked assessment of the student's scope
  inside its time window with all its problems still present; the new attempt is active, starts now with
  no score and no grace, carries the assessment's college, and its problem order is a permutation of the
  assessment's problems whenever the random sort permutes; it is the one the database then holds.\<close>

theorem start_admission:
  assumes "startAssessment shuffle nid aid u log_ok clk info w = (Inr (Some a), w')"
    and "au_id u = Some sid" and "attempts_find_one w aid sid = None"
    and "\<forall>xs. mset (shuffle xs) = mset xs"
  shows "\<exists>s. assessments_find w aid (scope_of u) = Some s \<and> as_status s = Published \<and> \<not> as_locked s \<and>
     as_start s \<le> clk 0 \<and> clk 0 \<le> as_end s \<and> problems_present w (as_problems s) \<and>
     at_status a = Active \<and> at_started a = clk 0 \<and> at_score a = 0 \<and> at_grace a = Fin 0 \<and>
     at_college a = or_else (as_college s) (au_college u) \<and>
     mset (at_order a) = mset (map pe_problem (as_problems s)) \<and>
     attempts_find_one w' aid sid = Some a"
proof -
  obtain s where s: "assessments_find w aid (scope_of u) = Some s" "as_status s = Published" "\<not> as_locked s"
      "as_start s \<le> clk 0" "clk 0 \<le> as_end s"
    and run: "(case problem_refs w (as_problems s) of Inl e \<Rightarrow> (Inl e, w)
        | Inr ids \<Rightarrow> start_write (new_attempt nid aid sid (or_else (as_college s) (au_college u)) (clk 0) (shuffle ids))
            log_ok (clk 1) info w) = (Inr (Some a), w')"
    using assms(1-3)
    by (auto simp: startAssessment_def start_read_def not_less split: option.splits if_splits sum.splits)
  have present: "problems_present w (as_problems s)"
    using run problem_refs_missing [of w "as_problems s"] by (auto split: sum.splits)
  then have "start_write (new_attempt nid aid sid (or_else (as_college s) (au_college u)) (clk 0)
      (shuffle (map pe_problem (as_problems s)))) log_ok (clk 1) info w = (Inr (Some a), w')"
    using run problem_refs_present by simp
  with assms(3) have a: "a = new_attempt nid aid sid (or_else (as_college s) (au_college u)) (clk 0)
        (shuffle (map pe_problem (as_problems s)))" and w': "w_attempts w' = w_attempts w @ [a]"
    by (auto simp: start_write_def attempts_create_def new_attempt_def)
  have "attempts_find_one w' aid sid = Some a"
    using assms(3) by (simp add: attempts_find_one_def w' find_append) (simp add: a new_attempt_def)
  with s present assms(4) show ?thesis by (auto simp: a new_attempt_def)
qed

lemma start_admission_witness:
  "\<exists>w'. startAssessment (\<lambda>x. x) 30 10 student_auth True (\<lambda>k. 1000) \<lparr>ai_ip = None, ai_agent = None\<rparr> fresh_world
      = (Inr (Some (new_attempt 30 10 2 (Some 4) 1000 [20])), w')
     \<and> attempts_find_one w' 10 2 = Some (new_attempt 30 10 2 (Some 4) 1000 [20])"
proof -
  have "attempts_find_one fresh_world 10 2 = None" by (simp add: attempts_find_one_def fresh_world_def)
  then show ?thesis
    using start_admission [OF sample_start, of 2] sample_start by (auto simp: student_auth_def)
qed

end
