(* ===== verification/Analytics.thy ===== *)
theory Analytics
  imports Assessment_Laws
begin

section \<open>Attendance and analytics of an assessment\<close>

text \<open>
  \<^verbatim>\<open>getAssessmentAnalytics\<close> of \<^verbatim>\<open>assessments.service.js\<close>: the overall figures, the reports per section and
  per question, with the bounds that hold of every figure; and the completeness of the attendance list.
  Scores are rationals, so the averages are those of exact arithmetic before \<^verbatim>\<open>toFixed\<close> rounds them.
\<close>

subsection \<open>Overall figures\<close>

record overall_stats =
  ov_students :: nat
  ov_started :: nat
  ov_submitted :: nat
  ov_active :: nat
  ov_avg :: rat
  ov_highest :: rat
  ov_lowest :: rat
  ov_pass_rate :: rat
  ov_max_score :: rat

definition score_or_100 :: "rat \<Rightarrow> rat" where
  "score_or_100 x = (if x = 0 then 100 else x)"

definition max_possible :: "problem_entry list \<Rightarrow> rat" where
  "max_possible es = score_or_100 (sum_list (map (\<lambda>e. score_or_100 (pe_max_score e)) es))"

definition is_completed :: "attempt \<Rightarrow> bool" where
  "is_completed a \<longleftrightarrow> at_status a = Submitted \<or> at_status a = TimedOut"

definition has_passed :: "rat \<Rightarrow> attempt \<Rightarrow> bool" where
  "has_passed best a \<longleftrightarrow> best * (4 / 10) \<le> at_score a"

text \<open>\<^verbatim>\<open>Number(((part / whole) * 100).toFixed(0))\<close>, and 0 when there is nothing to divide by.\<close>

definition percentage :: "nat \<Rightarrow> nat \<Rightarrow> rat" where
  "percentage part n = (if n = 0 then 0 else to_fixed 0 (of_nat part / of_nat n * 100))"

definition average_1 :: "rat list \<Rightarrow> rat" where
  "average_1 xs = (if xs = [] then 0 else to_fixed 1 (sum_list xs / of_nat (length xs)))"

definition overall :: "problem_entry list \<Rightarrow> user list \<Rightarrow> attempt list \<Rightarrow> overall_stats" where
  "overall es students as =
     (let best = max_possible es;
          completed = filter is_completed as;
          scores = map at_score completed
      in \<lparr>ov_students = length students, ov_started = length as, ov_submitted = length completed,
          ov_active = length (filter (\<lambda>a. at_status a = Active) as),
          ov_avg = average_1 scores,
          ov_highest = (case scores of [] \<Rightarrow> 0 | x # xs \<Rightarrow> fold max xs x),
          ov_lowest = (case scores of [] \<Rightarrow> 0 | x # xs \<Rightarrow> fold min xs x),
          ov_pass_rate = percentage (length (filter (has_passed best) completed)) (length completed),
          ov_max_score = best\<rparr>)"

subsection \<open>Sections\<close>

text \<open>
  \<^verbatim>\<open>sectionStats\<close> is a plain object, so \<^verbatim>\<open>!sectionStats[sec]\<close> is false for a section named like a property of
  \<^verbatim>\<open>Object.prototype\<close>: such a section gets no entry of its own, its counters are lost, and pushing a score
  onto its missing \<^verbatim>\<open>scores\<close> array is a \<open>TypeError\<close>.
\<close>

record section_stat =
  se_section :: string
  se_total :: nat
  se_started :: nat
  se_submitted :: nat
  se_scores :: "rat list"
  se_passed :: nat

definition section_of :: "user \<Rightarrow> string" where
  "section_of u = (case u_section u of None \<Rightarrow> ''Unassigned'' | Some s \<Rightarrow> if s = [] then ''Unassigned'' else s)"

definition empty_section :: "string \<Rightarrow> section_stat" where
  "empty_section s = \<lparr>se_section = s, se_total = 0, se_started = 0, se_submitted = 0, se_scores = [], se_passed = 0\<rparr>"

fun change_section :: "string \<Rightarrow> (section_stat \<Rightarrow> section_stat) \<Rightarrow> section_stat list \<Rightarrow> section_stat list" where
  "change_section s f [] = [f (empty_section s)]"
| "change_section s f (x # xs) = (if se_section x = s then f x # xs else x # change_section s f xs)"

definition count_attempt :: "rat \<Rightarrow> attempt \<Rightarrow> section_stat \<Rightarrow> section_stat" where
  "count_attempt best a x =
     (let y = x\<lparr>se_total := se_total x + 1, se_started := se_started x + 1\<rparr> in
      if is_completed a
      then y\<lparr>se_submitted := se_submitted y + 1, se_scores := se_scores y @ [at_score a],
             se_passed := se_passed y + (if has_passed best a then 1 else 0)\<rparr>
      else y)"

fun attempt_sections ::
    "world \<Rightarrow> rat \<Rightarrow> attempt list \<Rightarrow> section_stat list \<Rightarrow> section_stat list result" where
  "attempt_sections w best [] st = Inr st"
| "attempt_sections w best (a # as) st =
     (case users_find w (at_student a) of
        None \<Rightarrow> attempt_sections w best as st
      | Some u \<Rightarrow>
          if section_of u \<in> set object_prototype_keys
          then (if is_completed a then Inl (null_deref ''push'') else attempt_sections w best as st)
          else attempt_sections w best as (change_section (section_of u) (count_attempt best a) st))"

text \<open>Students of the college without an attempt count towards their section's total.\<close>

definition has_attempt :: "world \<Rightarrow> attempt list \<Rightarrow> user \<Rightarrow> bool" where
  "has_attempt w as st \<longleftrightarrow> list_ex (\<lambda>a. users_find w (at_student a) \<noteq> None \<and> at_student a = u_id st) as"

definition count_absent :: "world \<Rightarrow> attempt list \<Rightarrow> user \<Rightarrow> section_stat list \<Rightarrow> section_stat list" where
  "count_absent w as st xs =
     (if has_attempt w as st \<or> section_of st \<in> set object_prototype_keys then xs
      else change_section (section_of st) (\<lambda>x. x\<lparr>se_total := se_total x + 1\<rparr>) xs)"

record section_report =
  sp_section :: string
  sp_total :: nat
  sp_started :: nat
  sp_submitted :: nat
  sp_avg :: rat
  sp_pass_rate :: rat

definition section_report_of :: "section_stat \<Rightarrow> section_report" where
  "section_report_of x =
     \<lparr>sp_section = se_section x, sp_total = se_total x, sp_started = se_started x, sp_submitted = se_submitted x,
      sp_avg = average_1 (se_scores x), sp_pass_rate = percentage (se_passed x) (se_submitted x)\<rparr>"

definition section_reports ::
    "world \<Rightarrow> rat \<Rightarrow> user list \<Rightarrow> attempt list \<Rightarrow> section_report list result" where
  "section_reports w best students as =
     (case attempt_sections w best as [] of
        Inl e \<Rightarrow> Inl e
      | Inr st \<Rightarrow> Inr (map section_report_of (key_order se_section (fold (count_absent w as) students st))))"

subsection \<open>Questions\<close>

record question_report =
  qn_problem :: oid
  qn_title :: string
  qn_difficulty :: difficulty
  qn_max :: rat
  qn_attempts :: nat
  qn_solved :: nat
  qn_solved_rate :: rat
  qn_overall_rate :: rat

definition question_report_of ::
    "submission list \<Rightarrow> nat \<Rightarrow> problem_entry \<Rightarrow> problem \<Rightarrow> question_report" where
  "question_report_of subs completed e p =
     (let mine = filter (\<lambda>s. su_problem s = pr_id p) subs;
          tried = length (remdups (map su_user mine));
          solved = length (remdups (map su_user (filter (\<lambda>s. su_status s = Success) mine)))
      in \<lparr>qn_problem = pr_id p, qn_title = (if pr_title p = [] then ''Unknown'' else pr_title p),
          qn_difficulty = pr_difficulty p, qn_max = score_or_100 (pe_max_score e),
          qn_attempts = tried, qn_solved = solved,
          qn_solved_rate = percentage solved tried, qn_overall_rate = percentage solved completed\<rparr>)"

fun question_reports ::
    "world \<Rightarrow> submission list \<Rightarrow> nat \<Rightarrow> problem_entry list \<Rightarrow> question_report list result" where
  "question_reports w subs completed [] = Inr []"
| "question_reports w subs completed (e # es) =
     (case problems_find w (pe_problem e) of
        None \<Rightarrow> Inl (null_deref ''_id'')
      | Some p \<Rightarrow>
          (case question_reports w subs completed es of
             Inl err \<Rightarrow> Inl err
           | Inr rs \<Rightarrow> Inr (question_report_of subs completed e p # rs)))"

subsection \<open>The report\<close>

record analytics =
  ax_assessment :: oid
  ax_title :: string
  ax_start :: time
  ax_end :: time
  ax_overall :: overall_stats
  ax_sections :: "section_report list"
  ax_questions :: "question_report list"

definition getAssessmentAnalytics :: "oid \<Rightarrow> auth \<Rightarrow> world \<Rightarrow> analytics result" where
  "getAssessmentAnalytics aid u w =
     (if au_role u = Student then http 403 ''Forbidden''
      else (case assessments_find w aid (scope_of u) of
              None \<Rightarrow> http 404 ''Assessment not found''
            | Some s \<Rightarrow>
                (let students = college_students s w;
                     as = attempts_of aid w;
                     subs = filter (\<lambda>t. su_assessment t = Some aid) (w_submissions w);
                     best = max_possible (as_problems s);
                     completed = length (filter is_completed as)
                 in case section_reports w best students as of
                      Inl e \<Rightarrow> Inl e
                    | Inr secs \<Rightarrow>
                        (case question_reports w subs completed (as_problems s) of
                           Inl e \<Rightarrow> Inl e
                         | Inr qs \<Rightarrow>
                             Inr \<lparr>ax_assessment = as_id s, ax_title = as_title s, ax_start = as_start s,
                                  ax_end = as_end s, ax_overall = overall (as_problems s) students as,
                                  ax_sections = secs, ax_questions = qs\<rparr>))))"

subsection \<open>Every figure is in range\<close>

lemma percentage_bounds:
  assumes "part \<le> n"
  shows "0 \<le> percentage part n \<and> percentage part n \<le> 100"
proof (cases "n = 0")
  case False
  with assms have "of_nat part / of_nat n * (100 :: rat) \<le> of_int 100"
    by (simp add: divide_le_eq)
  moreover have "of_int 0 \<le> of_nat part / of_nat n * (100 :: rat)" by simp
  ultimately show ?thesis
    using False to_fixed_bounds [of 0 "of_nat part / of_nat n * 100" 100 0] by (simp add: percentage_def)
qed (simp add: percentage_def)

lemma fold_max_ge: "x \<le> fold max xs (x :: rat) \<and> (\<forall>y \<in> set xs. y \<le> fold max xs x)"
proof (induction xs arbitrary: x)
  case (Cons a xs)
  from Cons [of "max a x"] show ?case by auto
qed simp

lemma fold_min_le: "fold min xs (x :: rat) \<le> x \<and> (\<forall>y \<in> set xs. fold min xs x \<le> y)"
proof (induction xs arbitrary: x)
  case (Cons a xs)
  from Cons [of "min a x"] show ?case by auto
qed simp

lemma fold_max_in: "fold max xs (x :: rat) \<in> insert x (set xs)"
  by (induction xs arbitrary: x) (auto simp: max_def)

lemma fold_min_in: "fold min xs (x :: rat) \<in> insert x (set xs)"
  by (induction xs arbitrary: x) (auto simp: min_def)

lemma sum_list_between:
  assumes "\<forall>y \<in> set ys. (lo :: rat) \<le> y \<and> y \<le> hi"
  shows "of_nat (length ys) * lo \<le> sum_list ys \<and> sum_list ys \<le> of_nat (length ys) * hi"
  using assms by (induction ys) (auto simp: algebra_simps)

text \<open>The rounded average of whole scores lies between the lowest and the highest.\<close>

lemma average_between:
  assumes "ys \<noteq> []" and "\<forall>y \<in> set ys. of_int a \<le> y \<and> y \<le> of_int b" and "0 \<le> a"
  shows "of_int a \<le> average_1 ys \<and> average_1 ys \<le> of_int b"
proof -
  have "0 < (of_nat (length ys) :: rat)" using assms(1) by simp
  with sum_list_between [OF assms(2)]
  have "of_int a \<le> sum_list ys / of_nat (length ys)" "sum_list ys / of_nat (length ys) \<le> of_int b"
    by (simp_all add: pos_le_divide_eq pos_divide_le_eq mult.commute)
  with to_fixed_bounds [of a _ b 1] assms(1,3) show ?thesis by (simp add: average_1_def)
qed

lemma overall_bounds:
  assumes "\<forall>a \<in> set as. \<exists>k. 0 \<le> k \<and> at_score a = of_int k"
  shows "0 \<le> ov_lowest (overall es sts as) \<and> ov_lowest (overall es sts as) \<le> ov_avg (overall es sts as) \<and>
         ov_avg (overall es sts as) \<le> ov_highest (overall es sts as) \<and>
         0 \<le> ov_pass_rate (overall es sts as) \<and> ov_pass_rate (overall es sts as) \<le> 100 \<and>
         ov_submitted (overall es sts as) + ov_active (overall es sts as) = ov_started (overall es sts as)"
proof -
  let ?c = "filter is_completed as" and ?o = "overall es sts as"
  have rate: "0 \<le> ov_pass_rate ?o \<and> ov_pass_rate ?o \<le> 100"
    using percentage_bounds [OF length_filter_le [of "has_passed (max_possible es)" ?c]]
    by (simp add: overall_def Let_def del: filter_filter)
  have count: "ov_submitted ?o + ov_active ?o = ov_started ?o"
  proof -
    have "length ?c + length (filter (\<lambda>a. at_status a = Active) as) = length as"
    proof (induction as)
      case (Cons a as)
      then show ?case by (cases "at_status a") (auto simp: is_completed_def)
    qed simp
    then show ?thesis by (simp add: overall_def Let_def)
  qed
  show ?thesis
  proof (cases "map at_score ?c")
    case Nil
    then show ?thesis using rate count by (simp add: overall_def Let_def average_1_def)
  next
    case (Cons x xs)
    have whole: "\<exists>k. 0 \<le> k \<and> y = of_int k" if "y \<in> set (x # xs)" for y
      using assms that by (auto simp flip: Cons)
    obtain a where a: "0 \<le> a" "fold min xs x = of_int a"
      using whole [of "fold min xs x"] fold_min_in [of xs x] by auto
    obtain b where b: "fold max xs x = of_int b"
      using whole [of "fold max xs x"] fold_max_in [of xs x] by auto
    have "of_int a \<le> average_1 (x # xs) \<and> average_1 (x # xs) \<le> of_int b"
      using a b fold_min_le [of xs x] fold_max_ge [of x xs] by (intro average_between) auto
    then show ?thesis using Cons a b rate count by (simp add: overall_def Let_def)
  qed
qed

definition section_ok :: "section_stat \<Rightarrow> bool" where
  "section_ok x \<longleftrightarrow> se_passed x \<le> se_submitted x \<and> se_submitted x \<le> se_started x \<and> se_started x \<le> se_total x \<and>
     length (se_scores x) = se_submitted x"

lemma change_section_all:
  assumes "\<forall>x \<in> set xs. P x" and "\<And>x. P x \<Longrightarrow> P (f x)" and "P (empty_section s)"
  shows "\<forall>x \<in> set (change_section s f xs). P x"
  using assms by (induction s f xs rule: change_section.induct) auto

lemma count_attempt_ok: "section_ok x \<Longrightarrow> section_ok (count_attempt best a x)"
  by (simp add: section_ok_def count_attempt_def Let_def)

lemma empty_section_ok: "section_ok (empty_section s)"
  by (simp add: section_ok_def empty_section_def)

lemma attempt_sections_ok:
  "attempt_sections w best as st = Inr st' \<Longrightarrow> \<forall>x \<in> set st. section_ok x \<Longrightarrow> \<forall>x \<in> set st'. section_ok x"
proof (induction w best as st rule: attempt_sections.induct)
  case (2 w best a as st)
  have "\<forall>x \<in> set (change_section s (count_attempt best a) st). section_ok x" for s
    using 2(5) by (rule change_section_all) (simp_all add: count_attempt_ok empty_section_ok)
  with 2 show ?case by (simp split: option.splits if_splits)
qed simp

lemma absent_sections_ok:
  "\<forall>x \<in> set st. section_ok x \<Longrightarrow> \<forall>x \<in> set (fold (count_absent w as) sts st). section_ok x"
proof (induction sts arbitrary: st)
  case (Cons u sts)
  have "\<forall>x \<in> set (change_section s (\<lambda>x. x\<lparr>se_total := se_total x + 1\<rparr>) st). section_ok x" for s
    using Cons.prems by (rule change_section_all) (simp_all add: section_ok_def empty_section_def)
  with Cons.prems have "\<forall>x \<in> set (count_absent w as u st). section_ok x"
    by (simp add: count_absent_def)
  from Cons.IH [OF this] show ?case by simp
qed simp

lemma set_key_order [simp]: "set (key_order k xs) = set xs"
  by (auto simp: key_order_def)

lemma solved_le_tried: "length (remdups (map f (filter P xs))) \<le> length (remdups (map f xs))"
proof -
  have "card (f ` set (filter P xs)) \<le> card (f ` set xs)" by (rule card_mono) auto
  then show ?thesis by (simp add: length_remdups_card_conv)
qed

definition question_ok :: "question_report \<Rightarrow> bool" where
  "question_ok q \<longleftrightarrow> qn_solved q \<le> qn_attempts q \<and> 0 \<le> qn_solved_rate q \<and> qn_solved_rate q \<le> 100"

lemma question_report_ok: "question_ok (question_report_of subs n e p)"
  by (simp add: question_ok_def question_report_of_def Let_def solved_le_tried percentage_bounds
      del: filter_filter)

lemma question_reports_ok: "question_reports w subs n es = Inr qs \<Longrightarrow> \<forall>q \<in> set qs. question_ok q"
  by (induction es arbitrary: qs) (auto simp: question_report_ok split: option.splits sum.splits)


text \<open>One faculty member looking at the sample assessment after its student has submitted.\<close>

definition faculty_auth :: auth where
  "faculty_auth = student_auth\<lparr>au_jwt_id := Some 9, au_id := Some 9, au_role := Faculty\<rparr>"

definition finished_world :: world where
  "finished_world = sample_world\<lparr>w_attempts := [sample_attempt\<lparr>at_status := Submitted, at_score := 50\<rparr>],
     w_submissions := [judged]\<rparr>"

definition sample_report :: analytics where
  "sample_report = (case getAssessmentAnalytics 10 faculty_auth finished_world of Inr r \<Rightarrow> r | Inl e \<Rightarrow> undefined)"

lemma sample_report_run:
  "getAssessmentAnalytics 10 faculty_auth finished_world = Inr sample_report"
  by (simp add: sample_report_def getAssessmentAnalytics_def Let_def assessments_find_def collegeScopeFor_def
      section_reports_def attempts_of_def users_find_def object_prototype_keys_def section_of_def problems_find_def
      faculty_auth_def finished_world_def student_auth_def sample_defs split: option.split)


subsection \<open>When the report fails\<close>

lemma attempt_sections_ok_iff:
  "is_ok (attempt_sections w best as st) \<longleftrightarrow>
     (\<forall>a \<in> set as. \<forall>u. is_completed a \<longrightarrow> users_find w (at_student a) = Some u
        \<longrightarrow> section_of u \<notin> set object_prototype_keys)"
  by (induction w best as st rule: attempt_sections.induct) (auto split: option.splits)

lemma question_reports_ok_iff:
  "is_ok (question_reports w subs n es) \<longleftrightarrow> problems_present w es"
  by (induction es) (auto simp: problems_present_def split: option.splits sum.splits)

text \<open>For a member of staff who may see the assessment the analytics fail exactly when one of its problems
  has been deleted or a student who finished an attempt is in a section named like a property every
  object inherits, such as \<^verbatim>\<open>constructor\<close>.\<close>

theorem analytics_failure:
  assumes "au_role u \<noteq> Student" and "assessments_find w aid (scope_of u) = Some s"
  shows "is_ok (getAssessmentAnalytics aid u w) \<longleftrightarrow>
     problems_present w (as_problems s) \<and>
     (\<forall>a \<in> set (attempts_of aid w). \<forall>st. is_completed a \<longrightarrow> users_find w (at_student a) = Some st
        \<longrightarrow> section_of st \<notin> set object_prototype_keys)"
proof -
  have "is_ok (getAssessmentAnalytics aid u w) \<longleftrightarrow>
      is_ok (attempt_sections w (max_possible (as_problems s)) (attempts_of aid w) []) \<and>
      is_ok (question_reports w (filter (\<lambda>t. su_assessment t = Some aid) (w_submissions w))
        (length (filter is_completed (attempts_of aid w))) (as_problems s))"
    using assms by (simp add: getAssessmentAnalytics_def section_reports_def Let_def split: sum.split)
  then show ?thesis using attempt_sections_ok_iff question_reports_ok_iff by blast
qed

lemma analytics_failure_witness:
  "\<not> is_ok (getAssessmentAnalytics 10 faculty_auth (finished_world\<lparr>w_problems := []\<rparr>))"
  by (subst analytics_failure [where s = sample_assessment])
     (simp_all add: faculty_auth_def student_auth_def finished_world_def assessments_find_def collegeScopeFor_def
        problems_present_def problems_find_def sample_defs)

subsection \<open>The sections partition the students\<close>

abbreviation sum_of :: "('a \<Rightarrow> nat) \<Rightarrow> 'a list \<Rightarrow> nat" where
  "sum_of g xs \<equiv> sum_list (map g xs)"

lemma sum_of_change_section:
  assumes "\<And>x. g (f x) = g x + d" and "g (empty_section s) = 0"
  shows "sum_of g (change_section s f xs) = sum_of g xs + d"
  using assms by (induction s f xs rule: change_section.induct) simp_all

lemma sum_of_attempts:
  assumes "attempt_sections w best as st = Inr st'"
    and "\<forall>a \<in> set as. \<exists>u. users_find w (at_student a) = Some u \<and> section_of u \<notin> set object_prototype_keys"
    and "\<And>b a x. g (count_attempt b a x) = g x + 1" and "\<And>s. g (empty_section s) = 0"
  shows "sum_of g st' = sum_of g st + length as"
proof -
  have "sum_of g (change_section s (count_attempt b a) xs) = Suc (sum_of g xs)" for s b a xs
    using sum_of_change_section [of g "count_attempt b a" 1 s xs] assms(3,4) by simp
  with assms(1,2) show ?thesis
    by (induction w best as st rule: attempt_sections.induct) auto
qed

lemma sum_of_absent:
  assumes "\<forall>u \<in> set sts. section_of u \<notin> set object_prototype_keys"
    and "\<And>x. g (x\<lparr>se_total := Suc (se_total x)\<rparr>) = g x + d" and "\<And>s. g (empty_section s) = 0"
  shows "sum_of g (fold (count_absent w as) sts st) = sum_of g st + d * length (filter (\<lambda>u. \<not> has_attempt w as u) sts)"
  using assms(1)
  by (induction sts arbitrary: st) (simp_all add: count_absent_def sum_of_change_section [where d = d] assms(2,3))

lemma mset_key_order: "mset (key_order k xs) = mset xs"
proof -
  have "mset (key_order k xs) = filter_mset (\<lambda>x. is_index_key (k x)) (mset xs) + filter_mset (\<lambda>x. \<not> is_index_key (k x)) (mset xs)"
    by (simp add: key_order_def)
  then show ?thesis by (simp flip: multiset_partition)
qed

lemma sum_of_key_order: "sum_of g (key_order k xs) = sum_of g xs"
proof -
  have "mset (map g (key_order k xs)) = mset (map g xs)" by (simp add: mset_key_order)
  then have "sum_mset (mset (map g (key_order k xs))) = sum_mset (mset (map g xs))" by (rule arg_cong)
  then show ?thesis by (simp only: sum_mset_sum_list)
qed

lemma image_restrict: "B \<subseteq> f ` A \<Longrightarrow> f ` {x \<in> A. f x \<in> B} = B"
  by (auto simp: subset_iff image_iff)

lemma absent_count:
  assumes "distinct (map u_id sts)" and "distinct (map at_student as)"
    and "\<forall>a \<in> set as. at_student a \<in> u_id ` set sts \<and> users_find w (at_student a) \<noteq> None"
  shows "length as + length (filter (\<lambda>u. \<not> has_attempt w as u) sts) = length sts"
proof -
  have has: "has_attempt w as u \<longleftrightarrow> u_id u \<in> at_student ` set as" for u
  proof
    assume "has_attempt w as u"
    then obtain a where "a \<in> set as" "at_student a = u_id u" by (auto simp: has_attempt_def list_ex_iff)
    then show "u_id u \<in> at_student ` set as" by (metis imageI)
  next
    assume "u_id u \<in> at_student ` set as"
    then obtain a where a: "a \<in> set as" "at_student a = u_id u" by force
    with assms(3) have "users_find w (at_student a) \<noteq> None" by blast
    with a show "has_attempt w as u" unfolding has_attempt_def list_ex_iff by blast
  qed
  have "at_student ` set as \<subseteq> u_id ` set sts" using assms(3) by blast
  from image_restrict [OF this] has have "u_id ` set (filter (has_attempt w as) sts) = at_student ` set as" by simp
  moreover have "distinct (map u_id (filter (has_attempt w as) sts))"
    using assms(1) by (rule distinct_map_filter)
  ultimately have "length (filter (has_attempt w as) sts) = length as"
    using assms(2) by (metis distinct_card length_map set_map)
  then show ?thesis using sum_length_filter_compl [of "has_attempt w as" sts] by simp
qed

text \<open>When every attempt is by a student of the assessment's college and no section is named like an
  inherited property, the sections of the report partition the students: their totals add up to the
  number of students, their starts to the number of attempts.\<close>

theorem sections_partition:
  assumes "getAssessmentAnalytics aid u w = Inr r" and "assessments_find w aid (scope_of u) = Some s"
    and "distinct (map u_id (w_users w))" and "attempts_wf w"
    and "\<forall>a \<in> set (attempts_of aid w). at_student a \<in> u_id ` set (college_students s w)"
    and "\<forall>st \<in> set (college_students s w). section_of st \<notin> set object_prototype_keys"
  shows "sum_of sp_total (ax_sections r) = ov_students (ax_overall r) \<and>
         sum_of sp_started (ax_sections r) = ov_started (ax_overall r)"
proof -
  let ?as = "attempts_of aid w" and ?sts = "college_students s w"
  obtain st where ov: "ov_students (ax_overall r) = length ?sts" "ov_started (ax_overall r) = length ?as"
    and sec: "attempt_sections w (max_possible (as_problems s)) ?as [] = Inr st"
      "ax_sections r = map section_report_of (key_order se_section (fold (count_absent w ?as) ?sts st))"
    using assms(1,2)
    by (auto simp: getAssessmentAnalytics_def section_reports_def overall_def Let_def
        split: option.splits sum.splits if_splits)
  have found: "users_find w (u_id x) = Some x" if "x \<in> set ?sts" for x
    using that find_key [OF assms(3), of x] by (simp add: college_students_def users_find_def)
  with assms(5,6) have users: "\<forall>a \<in> set ?as. \<exists>x. users_find w (at_student a) = Some x
      \<and> section_of x \<notin> set object_prototype_keys" by fastforce
  have keys: "distinct (map at_student ?as)"
  proof -
    have "inj_on attempt_key (set ?as)" "distinct ?as"
      using assms(4) by (auto simp: attempts_wf_def attempts_of_def distinct_map inj_on_def)
    then have "inj_on at_student (set ?as)"
      by (auto simp: inj_on_def attempt_key_def attempts_of_def)
    with \<open>distinct ?as\<close> show ?thesis by (simp add: distinct_map)
  qed
  have split: "length ?as + length (filter (\<lambda>u. \<not> has_attempt w ?as u) ?sts) = length ?sts"
    using assms(3,5) keys users by (intro absent_count) (auto simp: college_students_def distinct_map_filter)
  have "sum_of se_total st = length ?as" "sum_of se_started st = length ?as"
    using sum_of_attempts [OF sec(1) users, of se_total] sum_of_attempts [OF sec(1) users, of se_started]
    by (simp_all add: count_attempt_def empty_section_def Let_def)
  then have "sum_of se_total (fold (count_absent w ?as) ?sts st) = length ?sts"
      "sum_of se_started (fold (count_absent w ?as) ?sts st) = length ?as"
    using sum_of_absent [OF assms(6), of se_total 1 w ?as st] sum_of_absent [OF assms(6), of se_started 0 w ?as st] split
    by (simp_all add: empty_section_def)
  then show ?thesis
    by (simp add: ov sec(2) comp_def section_report_of_def sum_of_key_order)
qed

lemma sections_partition_witness:
  "sum_of sp_total (ax_sections sample_report) = ov_students (ax_overall sample_report)"
proof -
  have "assessments_find finished_world 10 (scope_of faculty_auth) = Some sample_assessment"
      "distinct (map u_id (w_users finished_world))" "attempts_wf finished_world"
    by (simp_all add: assessments_find_def collegeScopeFor_def faculty_auth_def student_auth_def finished_world_def
        attempts_wf_def ids_distinct_def sample_defs)
  moreover have "\<forall>a \<in> set (attempts_of 10 finished_world).
        at_student a \<in> u_id ` set (college_students sample_assessment finished_world)"
      "\<forall>st \<in> set (college_students sample_assessment finished_world). section_of st \<notin> set object_prototype_keys"
    by (simp_all add: attempts_of_def college_students_def finished_world_def section_of_def
        object_prototype_keys_def sample_defs)
  ultimately show ?thesis using sections_partition [OF sample_report_run] by blast
qed

end
