(* ===== verification/Code_Assess.thy ===== *)
theory Code_Assess
  imports Arventiq
begin

section \<open>The Judge0-compatible execution endpoint\<close>

text \<open>
  \<^verbatim>\<open>codeAssessShim.service.js\<close> and \<^verbatim>\<open>codeAssessShim.controller.js\<close>: one source file is run against one input
  by the judge's \<^verbatim>\<open>/raw-run\<close>, and the answer is given the shape of a Judge0 submission. The judge's HTTP
  interface and Node's Base64 codec are parameters.
\<close>

subsection \<open>The service\<close>

definition LANGUAGE_ID_MAP :: "(string \<times> string) list" where
  "LANGUAGE_ID_MAP =
     [(''71'', ''python''), (''63'', ''javascript''), (''74'', ''typescript''), (''62'', ''java''), (''50'', ''c''),
      (''54'', ''cpp''), (''60'', ''go''), (''73'', ''rust''), (''72'', ''ruby''), (''68'', ''php''),
      (''78'', ''kotlin''), (''51'', ''csharp'')]"

definition mapLanguageId :: "jsnum \<Rightarrow> string option" where
  "mapLanguageId n = map_of LANGUAGE_ID_MAP (num_to_string n)"

datatype run_status = ACCEPTED | RUNTIME_ERROR | TIME_LIMIT_EXCEEDED | COMPILATION_ERROR | INTERNAL_ERROR

definition CODEASSESS_STATUS :: "run_status \<Rightarrow> nat" where
  "CODEASSESS_STATUS s =
     (case s of ACCEPTED \<Rightarrow> 3 | RUNTIME_ERROR \<Rightarrow> 11 | TIME_LIMIT_EXCEEDED \<Rightarrow> 5 | COMPILATION_ERROR \<Rightarrow> 6
      | INTERNAL_ERROR \<Rightarrow> 13)"

record run_result =
  rr_stdout :: jsval
  rr_stderr :: jsval
  rr_compile_output :: jsval
  rr_status :: run_status
  rr_time :: jsnum
  rr_memory :: jsnum
  rr_exit_code :: jsval

definition internal_error :: "string \<Rightarrow> run_result" where
  "internal_error msg =
     \<lparr>rr_stdout = JStr [], rr_stderr = JStr msg, rr_compile_output = JStr [], rr_status = INTERNAL_ERROR,
      rr_time = Fin 0, rr_memory = Fin 0, rr_exit_code = JNull\<rparr>"

record raw_request =
  rw_language :: jsnum
  rw_source :: jsval
  rw_stdin :: jsval
  rw_wall_time :: jsval
  rw_memory_kb :: jsval

definition timeout_ms :: "jsval \<Rightarrow> jsnum" where
  "timeout_ms v = num_round (num_mul (num_or v (Fin 10)) (Fin 1000))"

definition memory_limit_mb :: "jsval \<Rightarrow> jsnum" where
  "memory_limit_mb v = num_max (Fin 1) (num_round (num_over (num_or v (Fin 262144)) 1024))"

definition raw_message :: "string \<Rightarrow> raw_request \<Rightarrow> jsval" where
  "raw_message l rq =
     JObj [(''language'', JStr l), (''code'', rw_source rq), (''stdin'', or_val (rw_stdin rq) (JStr [])),
           (''timeoutMs'', JNum (timeout_ms (rw_wall_time rq))),
           (''memoryLimitMb'', JNum (memory_limit_mb (rw_memory_kb rq)))]"

definition status_of :: "jsval \<Rightarrow> run_status" where
  "status_of raw =
     (if truthy (oget raw ''compileError'') then COMPILATION_ERROR
      else if truthy (oget raw ''timedOut'') then TIME_LIMIT_EXCEEDED
      else if truthy (oget raw ''oomKilled'') then RUNTIME_ERROR
      else if truthy (oget raw ''error'') then INTERNAL_ERROR
      else if truthy (oget raw ''exitCode'') then RUNTIME_ERROR
      else ACCEPTED)"

text \<open>Peak memory is not measured: an out-of-memory kill reports the limit, everything else nothing.\<close>

definition out_of_memory :: "jsval \<Rightarrow> bool" where
  "out_of_memory raw \<longleftrightarrow>
     \<not> truthy (oget raw ''compileError'') \<and> \<not> truthy (oget raw ''timedOut'') \<and> truthy (oget raw ''oomKilled'')"

definition memory_of :: "raw_request \<Rightarrow> jsval \<Rightarrow> jsnum" where
  "memory_of rq raw =
     (if out_of_memory raw then num_mul (memory_limit_mb (rw_memory_kb rq)) (Fin 1024) else Fin 0)"

definition stderr_of :: "jsval \<Rightarrow> jsval" where
  "stderr_of raw =
     or_val (oget raw ''stderr'')
       (if truthy (oget raw ''error'') then JStr (''Judge internal error: '' @ take 300 (to_str (oget raw ''error'')))
        else JStr [])"

definition shape_result :: "raw_request \<Rightarrow> jsval \<Rightarrow> run_result" where
  "shape_result rq raw =
     \<lparr>rr_stdout = or_val (oget raw ''stdout'') (JStr []), rr_stderr = stderr_of raw,
      rr_compile_output = or_val (oget raw ''compileOutput'') (JStr []), rr_status = status_of raw,
      rr_time = num_over (num_or (oget raw ''timeMs'') (Fin 0)) 1000, rr_memory = memory_of rq raw,
      rr_exit_code = coalesce (oget raw ''exitCode'') JNull\<rparr>"

text \<open>An answer that is \<^verbatim>\<open>null\<close> is a \<^verbatim>\<open>TypeError\<close> after the \<^verbatim>\<open>try\<close>; every failure of the call is a result.\<close>

definition runRawCodeAssess :: "(jsval \<Rightarrow> judge_reply) \<Rightarrow> raw_request \<Rightarrow> run_result result" where
  "runRawCodeAssess judge rq =
     (case mapLanguageId (rw_language rq) of
        None \<Rightarrow> Inr (internal_error (''Unsupported language_id: '' @ num_to_string (rw_language rq)))
      | Some l \<Rightarrow>
          (case judge (raw_message l rq) of
             Unreachable e \<Rightarrow> Inr (internal_error (''Judge backend unreachable: '' @ take 300 e))
           | Refused st txt \<Rightarrow> Inr (internal_error (''Judge backend '' @ show_nat st @ '': '' @ take 300 txt))
           | Garbled e \<Rightarrow> Inr (internal_error (''Judge backend unreachable: '' @ take 300 e))
           | Replied raw \<Rightarrow>
               if nullish raw then Inl (null_deref ''compileError'') else Inr (shape_result rq raw)))"

subsection \<open>The controller\<close>

text \<open>
  \<open>dec v\<close> is \<^verbatim>\<open>Buffer.from(v, "base64").toString("utf8")\<close>, which throws for values that are no text and no
  bytes; \<open>enc\<close> is the encoding of a text.
\<close>

definition b64decode :: "(jsval \<Rightarrow> string result) \<Rightarrow> jsval \<Rightarrow> jsval result" where
  "b64decode dec v =
     (if \<not> truthy v then Inr (JStr []) else (case dec v of Inl e \<Rightarrow> Inl e | Inr s \<Rightarrow> Inr (JStr s)))"

definition b64encode :: "(string \<Rightarrow> string) \<Rightarrow> jsval \<Rightarrow> string" where
  "b64encode enc v = enc (if nullish v then [] else to_str v)"

definition num_or_undef :: "jsval \<Rightarrow> jsval" where
  "num_or_undef v = (if num_truthy (to_num v) then JNum (to_num v) else JUndef)"

definition raw_request_of :: "jsval \<Rightarrow> jsval \<Rightarrow> jsval \<Rightarrow> raw_request" where
  "raw_request_of body source stdin =
     \<lparr>rw_language = to_num (oget body ''language_id''), rw_source = source, rw_stdin = stdin,
      rw_wall_time = or_val (num_or_undef (oget body ''wall_time_limit'')) (num_or_undef (oget body ''cpu_time_limit'')),
      rw_memory_kb = num_or_undef (oget body ''memory_limit'')\<rparr>"

record execution =
  ex_token :: string
  ex_stdout :: string
  ex_stderr :: string
  ex_compile_output :: string
  ex_status :: nat
  ex_time :: jsnum
  ex_memory :: jsnum
  ex_exit_code :: jsval

definition execution_of :: "(string \<Rightarrow> string) \<Rightarrow> time \<Rightarrow> run_result \<Rightarrow> execution" where
  "execution_of enc now r =
     \<lparr>ex_token = ''sync-'' @ show_int now, ex_stdout = b64encode enc (rr_stdout r),
      ex_stderr = b64encode enc (rr_stderr r), ex_compile_output = b64encode enc (rr_compile_output r),
      ex_status = CODEASSESS_STATUS (rr_status r), ex_time = rr_time r, ex_memory = rr_memory r,
      ex_exit_code = rr_exit_code r\<rparr>"

definition decoded :: "(jsval \<Rightarrow> string result) \<Rightarrow> bool \<Rightarrow> jsval \<Rightarrow> jsval result" where
  "decoded dec base64 v = (if base64 then b64decode dec v else Inr (or_val v (JStr [])))"

definition submitRawExecution ::
    "(jsval \<Rightarrow> string result) \<Rightarrow> (string \<Rightarrow> string) \<Rightarrow> (jsval \<Rightarrow> judge_reply) \<Rightarrow> time \<Rightarrow> jsval \<Rightarrow> jsval \<Rightarrow> execution result" where
  "submitRawExecution dec enc judge now query body =
     (let base64 = (oget query ''base64_encoded'' \<noteq> JStr ''false'') in
      case decoded dec base64 (oget body ''source_code'') of
        Inl e \<Rightarrow> Inl e
      | Inr source \<Rightarrow>
     (case decoded dec base64 (oget body ''stdin'') of
        Inl e \<Rightarrow> Inl e
      | Inr stdin \<Rightarrow>
          if nullish (oget body ''language_id'') \<or> \<not> truthy source
          then http 400 ''language_id and source_code are required''
          else (case runRawCodeAssess judge (raw_request_of body source stdin) of
                  Inl e \<Rightarrow> Inl e
                | Inr r \<Rightarrow> Inr (execution_of enc now r))))"

subsection \<open>Every outcome has a status\<close>

text \<open>
  The statuses form the contract of the caller: a run that compiled, ended in time and within memory
  without an error of the judge and with exit code zero, and only such a run, is accepted.
\<close>

lemma accepted_iff:
  "status_of raw = ACCEPTED \<longleftrightarrow>
     \<not> truthy (oget raw ''compileError'') \<and> \<not> truthy (oget raw ''timedOut'') \<and> \<not> truthy (oget raw ''oomKilled'') \<and>
     \<not> truthy (oget raw ''error'') \<and> \<not> truthy (oget raw ''exitCode'')"
  by (simp add: status_of_def)

subsection \<open>Memory that is reported for a killed run\<close>

lemma js_round_frac: "q \<le> of_int (js_round q) \<longleftrightarrow> frac q = 0 \<or> 1 / 2 \<le> frac (q :: rat)"
proof -
  have q: "q = of_int \<lfloor>q\<rfloor> + frac q" by (simp add: frac_def)
  have "js_round q = (if frac q < 1 / 2 then \<lfloor>q\<rfloor> else \<lfloor>q\<rfloor> + 1)"
    unfolding js_round_def using q frac_ge_0 [of q] frac_lt_1 [of q]
    using of_int_floor_le [of q] by (auto simp: floor_eq_iff frac_def; linarith)
  then show ?thesis using frac_ge_0 [of q] frac_lt_1 [of q] q of_int_floor_le [of q]
    by (auto simp: frac_def intro: antisym)
qed

lemma js_round_close: "\<bar>of_int (js_round q) - q\<bar> \<le> (1 / 2 :: rat)"
  unfolding js_round_def by linarith

lemma memory_limit_mb_value:
  assumes "0 < q"
  shows "memory_limit_mb (JNum (Fin q)) = Fin (max 1 (of_int (js_round (q / 1024))))"
  using assms by (simp add: memory_limit_mb_def num_or_def num_max_def max_def not_le)

text \<open>For a run that was killed for its memory the reported figure is the requested limit up to the rounding to
  whole megabytes, at least one; the caller, which looks for a figure that is not below the limit, recognises
  the kill exactly when the limit is at most a megabyte, a whole number of megabytes, or rounded up.\<close>

theorem oom_report:
  assumes "out_of_memory raw" and "rw_memory_kb rq = JNum (Fin q)" and "0 < q"
  shows "\<exists>m. rr_memory (shape_result rq raw) = Fin m \<and> 1024 \<le> m \<and> (1024 \<le> q \<longrightarrow> \<bar>m - q\<bar> \<le> 512) \<and>
           (q \<le> m \<longleftrightarrow> q \<le> 1024 \<or> frac (q / 1024) = 0 \<or> 1 / 2 \<le> frac (q / 1024))"
proof -
  let ?r = "of_int (js_round (q / 1024)) :: rat"
  let ?m = "max 1 ?r * 1024"
  have "rr_memory (shape_result rq raw) = Fin ?m"
    using assms by (simp add: shape_result_def memory_of_def memory_limit_mb_value)
  moreover have close: "\<bar>?r - q / 1024\<bar> \<le> 1 / 2" by (rule js_round_close)
  then have "1024 \<le> q \<longrightarrow> \<bar>?m - q\<bar> \<le> 512"
  proof (intro impI)
    assume "1024 \<le> q"
    then have "1 / 2 \<le> q / 1024 - 1 / 2" by simp
    with close have "0 < ?r" by linarith
    then have "1 \<le> ?r" by simp
    then have "?m = ?r * 1024" by (simp add: max_def)
    with close show "\<bar>?m - q\<bar> \<le> 512" by (simp add: abs_le_iff field_simps)
  qed
  moreover have "q \<le> ?m \<longleftrightarrow> q \<le> 1024 \<or> q / 1024 \<le> ?r"
    by (auto simp: max_def pos_divide_le_eq)
  moreover have "1024 \<le> ?m" by simp
  ultimately show ?thesis using js_round_frac [of "q / 1024"] by blast
qed

lemma oom_report_witness:
  "\<exists>m. rr_memory (shape_result \<lparr>rw_language = Fin 71, rw_source = JStr ''x'', rw_stdin = JStr [], rw_wall_time = JUndef,
          rw_memory_kb = jint 1500\<rparr> (JObj [(''oomKilled'', JBool True)])) = Fin m \<and> m < 1500"
proof -
  have "out_of_memory (JObj [(''oomKilled'', JBool True)])" by (simp add: out_of_memory_def)
  from oom_report [OF this, of "\<lparr>rw_language = Fin 71, rw_source = JStr ''x'', rw_stdin = JStr [], rw_wall_time = JUndef,
          rw_memory_kb = jint 1500\<rparr>" 1500]
  obtain m where "rr_memory (shape_result \<lparr>rw_language = Fin 71, rw_source = JStr ''x'', rw_stdin = JStr [],
        rw_wall_time = JUndef, rw_memory_kb = jint 1500\<rparr> (JObj [(''oomKilled'', JBool True)])) = Fin m"
      "1500 \<le> m \<longleftrightarrow> frac (1500 / 1024 :: rat) = 0 \<or> 1 / 2 \<le> frac (1500 / 1024 :: rat)"
    by auto
  moreover have "\<lfloor>1500 / 1024 :: rat\<rfloor> = 1" by (simp add: floor_eq_iff)
  then have "frac (1500 / 1024 :: rat) = 476 / 1024" by (simp add: frac_def)
  ultimately show ?thesis by (auto simp: not_le)
qed

end
