(* ===== verification/Controllers.thy ===== *)
theory Controllers
  imports System_Service Arventiq Questions Analytics Code_Assess
begin

section \<open>The controllers\<close>

text \<open>
  \<^verbatim>\<open>src/controllers\<close> and \<^verbatim>\<open>utils/authCookie.js\<close>: each controller calls one service and turns its outcome into a
  reply. \<open>Reply st x\<close> is \<^verbatim>\<open>res.status(st).json(x)\<close> for a value of the service, \<open>Failure st b\<close> the answer \<open>b\<close> of an
  error branch, by the controller itself or by the error handler that \<^verbatim>\<open>next(err)\<close> reaches. The user of the
  guards and the path parameters, cast to object ids, are arguments.
\<close>

subsection \<open>Replies\<close>

datatype 'a reply = Reply nat 'a | Failure nat jsval

definition next_error :: "js_error \<Rightarrow> 'a reply" where
  "next_error e = (case errorHandler e of (st, b) \<Rightarrow> Failure st b)"

text \<open>\<^verbatim>\<open>if (err.status && err.body) return res.status(err.status).json(err.body)\<close>, else \<^verbatim>\<open>next(err)\<close>.\<close>

definition body_or_next :: "js_error \<Rightarrow> 'a reply" where
  "body_or_next e =
     (case error_status e of
        Some st \<Rightarrow> if truthy (error_body e) then Failure st (error_body e) else next_error e
      | None \<Rightarrow> next_error e)"

definition message :: "string \<Rightarrow> string \<Rightarrow> jsval" where
  "message k m = JObj [(k, JStr m)]"

definition send :: "nat \<Rightarrow> 'a result \<Rightarrow> 'a reply" where
  "send st r = (case r of Inl e \<Rightarrow> next_error e | Inr x \<Rightarrow> Reply st x)"

definition send_or_body :: "nat \<Rightarrow> 'a result \<Rightarrow> 'a reply" where
  "send_or_body st r = (case r of Inl e \<Rightarrow> body_or_next e | Inr x \<Rightarrow> Reply st x)"

definition need_found :: "jsval \<Rightarrow> 'a option reply \<Rightarrow> 'a reply" where
  "need_found missing r =
     (case r of Failure st b \<Rightarrow> Failure st b
      | Reply st None \<Rightarrow> Failure 404 missing
      | Reply st (Some x) \<Rightarrow> Reply st x)"

definition reply_map :: "('a \<Rightarrow> 'b) \<Rightarrow> 'a reply \<Rightarrow> 'b reply" where
  "reply_map f r = (case r of Reply st x \<Rightarrow> Reply st (f x) | Failure st b \<Rightarrow> Failure st b)"

fun reply_status :: "'a reply \<Rightarrow> nat" where
  "reply_status (Reply st x) = st"
| "reply_status (Failure st b) = st"

text \<open>The answer to an error without a status is the same for all such errors.\<close>

definition internal_failure :: "'a reply" where
  "internal_failure =
     Failure 500 (JObj [(''message'', JStr ''Internal server error''), (''msg'', JStr ''Internal server error'')])"

lemma statusless_is_opaque:
  assumes "error_status e = None"
  shows "next_error e = internal_failure" "body_or_next e = internal_failure"
    "send st (Inl e) = internal_failure" "send_or_body st (Inl e) = internal_failure"
  using assms
  by (simp_all add: next_error_def body_or_next_def send_def send_or_body_def errorHandler_def safeErrorMessage_def
      internal_failure_def Let_def)

subsection \<open>\<^verbatim>\<open>problems.controller.js\<close>\<close>

definition problem_missing :: jsval where
  "problem_missing = message ''msg'' ''Problem not found''"

definition api_listProblems ::
    "(jsval \<Rightarrow> difficulty \<Rightarrow> bool) \<Rightarrow> jsval \<Rightarrow> jsval \<Rightarrow> auth option \<Rightarrow> world \<Rightarrow> problem_view list reply" where
  "api_listProblems ops price query u w = send 200 (listProblems ops price query u w)"

definition api_getProblemById :: "jsval \<Rightarrow> oid \<Rightarrow> auth option \<Rightarrow> world \<Rightarrow> problem_view reply" where
  "api_getProblemById price i u w = need_found problem_missing (Reply 200 (getProblemById price i u w))"

definition api_getProblemStats :: "oid \<Rightarrow> world \<Rightarrow> problem_stats reply" where
  "api_getProblemStats i w = Reply 200 (getProblemStats i w)"

text \<open>The body is copied (\<^verbatim>\<open>{ ...req.body }\<close>) before the service sees it.\<close>

definition api_createProblem ::
    "preview_env \<Rightarrow> (jsval \<Rightarrow> problem result) \<Rightarrow> time \<Rightarrow> jsval \<Rightarrow> world \<Rightarrow> problem reply \<times> world" where
  "api_createProblem env mk now body w =
     apfst (send_or_body 201) (createProblem env mk now (JObj (spread body)) w)"

definition api_updateProblem ::
    "preview_env \<Rightarrow> (jsval \<Rightarrow> (problem \<Rightarrow> problem) result) \<Rightarrow> time \<Rightarrow> oid \<Rightarrow> jsval \<Rightarrow> world \<Rightarrow> problem reply \<times> world" where
  "api_updateProblem env cast now i body w =
     apfst (\<lambda>r. need_found problem_missing (send_or_body 200 r)) (updateProblem env cast now i (JObj (spread body)) w)"

definition api_deleteProblem :: "oid \<Rightarrow> world \<Rightarrow> jsval reply \<times> world" where
  "api_deleteProblem i w =
     apfst (\<lambda>p. reply_map (\<lambda>_. message ''msg'' ''Problem removed'') (need_found problem_missing (Reply 200 p)))
       (deleteProblem i w)"

definition api_runProblem :: "(jsval \<Rightarrow> judge_reply) \<Rightarrow> time \<Rightarrow> oid \<Rightarrow> jsval \<Rightarrow> world \<Rightarrow> jsval reply" where
  "api_runProblem judge now i body w = send 200 (runProblem judge now i body w)"

subsection \<open>\<^verbatim>\<open>preview.controller.js\<close>\<close>

definition api_previewWrapper :: "preview_env \<Rightarrow> jsval \<Rightarrow> (string \<times> jsval list) reply" where
  "api_previewWrapper env body = send_or_body 200 (buildPreview env (oget body ''problem'') (oget body ''language''))"

definition api_validateProblem :: "preview_env \<Rightarrow> time \<Rightarrow> jsval \<Rightarrow> validation_report reply" where
  "api_validateProblem env now body = Reply 200 (validateProblemDefinition env now (or_val body (JObj [])))"

subsection \<open>\<^verbatim>\<open>questions.controller.js\<close>\<close>

definition api_listQuestions ::
    "(jsval \<Rightarrow> difficulty \<Rightarrow> bool) \<Rightarrow> (jsval \<Rightarrow> oid option) \<Rightarrow> jsval \<Rightarrow> auth option \<Rightarrow> world \<Rightarrow> question_page reply" where
  "api_listQuestions ops cast query u w = send 200 (listQuestions ops cast query u w)"

definition api_getQuestion :: "oid \<Rightarrow> auth option \<Rightarrow> world \<Rightarrow> question reply" where
  "api_getQuestion i u w = need_found (message ''msg'' ''Question not found'') (Reply 200 (getQuestionById i u w))"

definition api_createQuestion :: "(jsval \<Rightarrow> question result) \<Rightarrow> jsval \<Rightarrow> auth option \<Rightarrow> world \<Rightarrow> question reply \<times> world" where
  "api_createQuestion mk body u w = apfst (send 201) (createQuestion mk body u w)"

definition api_updateQuestion ::
    "(jsval \<Rightarrow> (question \<Rightarrow> question) result) \<Rightarrow> oid \<Rightarrow> jsval \<Rightarrow> auth \<Rightarrow> world \<Rightarrow> question option reply \<times> world" where
  "api_updateQuestion cast i body u w = apfst (send 200) (updateQuestion cast i body u w)"

definition api_deleteQuestion :: "oid \<Rightarrow> auth \<Rightarrow> world \<Rightarrow> jsval reply \<times> world" where
  "api_deleteQuestion i u w =
     apfst (\<lambda>r. reply_map (\<lambda>_. message ''msg'' ''Question deleted'') (send 200 r)) (deleteQuestion i u w)"

definition api_getTags :: "auth option \<Rightarrow> world \<Rightarrow> string list reply" where
  "api_getTags u w = Reply 200 (listTags u w)"

definition api_selectQuestions ::
    "(difficulty \<Rightarrow> nat \<Rightarrow> question list \<Rightarrow> question list) \<Rightarrow> jsval \<Rightarrow> auth option \<Rightarrow> world \<Rightarrow> question list reply" where
  "api_selectQuestions pick body u w = send 200 (selectQuestions pick body u w)"

subsection \<open>\<^verbatim>\<open>submissions.controller.js\<close>\<close>

definition unauthorized :: "'a reply" where
  "unauthorized = Failure 401 (message ''msg'' ''Unauthorized'')"

text \<open>\<open>rq i\<close> is the request for the service, with the fields of the body cast and the user \<open>i\<close>.\<close>

definition api_submitSolution ::
    "submit_env \<Rightarrow> oid \<Rightarrow> (oid \<Rightarrow> submit_request) \<Rightarrow> auth option \<Rightarrow> clock \<Rightarrow> world \<Rightarrow> submission reply \<times> world" where
  "api_submitSolution env nid rq u clk w =
     (case Option.bind u au_id of
        None \<Rightarrow> (unauthorized, w)
      | Some i \<Rightarrow> apfst (\<lambda>r. need_found problem_missing (send_or_body 202 r))
                    (submitSolution env nid ((rq i)\<lparr>sr_college := college_of u\<rparr>) clk w))"

definition viewer_of :: "auth option \<Rightarrow> viewer" where
  "viewer_of u = \<lparr>vw_user = Option.bind u au_id, vw_role = role_of u, vw_college = college_of u\<rparr>"

definition view_reply :: "submission_view result \<Rightarrow> submission reply" where
  "view_reply r =
     (case r of
        Inl e \<Rightarrow> next_error e
      | Inr ViewNotFound \<Rightarrow> Failure 404 (message ''msg'' ''Submission not found'')
      | Inr ViewForbidden \<Rightarrow> Failure 403 (message ''msg'' ''Forbidden'')
      | Inr (View s) \<Rightarrow> Reply 200 s)"

definition api_getSubmissionById :: "oid \<Rightarrow> auth option \<Rightarrow> clock \<Rightarrow> world \<Rightarrow> submission reply \<times> world" where
  "api_getSubmissionById i u clk w = apfst view_reply (getSubmissionById i (viewer_of u) clk w)"

definition api_getMySubmissions :: "jsval \<Rightarrow> auth option \<Rightarrow> world \<Rightarrow> submission list reply" where
  "api_getMySubmissions query u w =
     (case Option.bind u au_id of None \<Rightarrow> unauthorized | Some i \<Rightarrow> send 200 (getMySubmissions i query w))"

definition api_getMyAnalytics :: "auth option \<Rightarrow> world \<Rightarrow> my_analytics reply" where
  "api_getMyAnalytics u w =
     (case Option.bind u au_id of None \<Rightarrow> unauthorized | Some i \<Rightarrow> Reply 200 (getMyAnalytics i w))"

subsection \<open>\<^verbatim>\<open>assessments.controller.js\<close>\<close>

definition assessment_missing :: jsval where
  "assessment_missing = message ''msg'' ''Assessment not found''"

definition api_listAssessments :: "jsval \<Rightarrow> auth option \<Rightarrow> world \<Rightarrow> assessment list reply" where
  "api_listAssessments query u w = send 200 (listAssessments query u w)"

definition api_getAssessmentById :: "oid \<Rightarrow> auth \<Rightarrow> world \<Rightarrow> assessment reply" where
  "api_getAssessmentById i u w = need_found assessment_missing (Reply 200 (getAssessmentById i u w))"

definition api_getMyAssessmentAttempt :: "oid \<Rightarrow> auth \<Rightarrow> world \<Rightarrow> attempt option reply" where
  "api_getMyAssessmentAttempt i u w = Reply 200 (getMyAssessmentAttempt i (au_id u) w)"

definition api_createAssessment ::
    "(string \<Rightarrow> time option) \<Rightarrow> (jsval \<Rightarrow> oid option \<Rightarrow> jsval \<Rightarrow> assessment result) \<Rightarrow> jsval \<Rightarrow> auth
       \<Rightarrow> world \<Rightarrow> assessment reply \<times> world" where
  "api_createAssessment parse mk body u w = apfst (send 201) (createAssessment parse mk body u w)"

definition api_updateAssessment ::
    "(string \<Rightarrow> time option) \<Rightarrow> (jsval \<Rightarrow> (assessment \<Rightarrow> assessment) result) \<Rightarrow> oid \<Rightarrow> jsval \<Rightarrow> auth
       \<Rightarrow> world \<Rightarrow> assessment reply \<times> world" where
  "api_updateAssessment parse cast i body u w = apfst (send 200) (updateAssessment parse cast i body u w)"

definition api_deleteAssessment :: "oid \<Rightarrow> auth \<Rightarrow> world \<Rightarrow> jsval reply \<times> world" where
  "api_deleteAssessment i u w =
     apfst (\<lambda>r. reply_map (\<lambda>_. message ''msg'' ''Assessment deleted'') (send 200 r)) (deleteAssessment i u w)"

definition api_startAssessment ::
    "(oid list \<Rightarrow> oid list) \<Rightarrow> oid \<Rightarrow> oid \<Rightarrow> auth \<Rightarrow> bool \<Rightarrow> clock \<Rightarrow> audit_info \<Rightarrow> world
       \<Rightarrow> attempt option reply \<times> world" where
  "api_startAssessment shuffle nid i u log_ok clk info w =
     apfst (send 200) (startAssessment shuffle nid i u log_ok clk info w)"

definition api_submitAssessment ::
    "oid \<Rightarrow> auth \<Rightarrow> bool \<Rightarrow> clock \<Rightarrow> audit_info \<Rightarrow> world \<Rightarrow> attempt option reply \<times> world" where
  "api_submitAssessment i u log_ok clk info w = apfst (send 200) (submitAssessment i u log_ok clk info w)"

text \<open>Reading a field of a body that is missing (\<^verbatim>\<open>undefined\<close>) is caught like an error of the service.\<close>

definition with_body ::
    "string \<Rightarrow> (jsval \<Rightarrow> world \<Rightarrow> 'a result \<times> world) \<Rightarrow> jsval \<Rightarrow> world \<Rightarrow> 'a result \<times> world" where
  "with_body k f body w = (if nullish body then (Inl (null_deref k), w) else f (oget body k) w)"

definition api_logAntiCheatingEvent :: "oid \<Rightarrow> jsval \<Rightarrow> auth \<Rightarrow> clock \<Rightarrow> world \<Rightarrow> attempt option reply \<times> world" where
  "api_logAntiCheatingEvent i body u clk w =
     apfst (send 200) (with_body ''eventType'' (\<lambda>v. logAntiCheatingEvent i v u clk) body w)"

definition api_getAssessmentAttemptById ::
    "oid \<Rightarrow> auth \<Rightarrow> clock \<Rightarrow> world \<Rightarrow> (attempt \<times> assessment option) reply \<times> world" where
  "api_getAssessmentAttemptById i u clk w =
     apfst (\<lambda>r. need_found (message ''msg'' ''Attempt not found'') (send 200 r)) (getAssessmentAttemptById i u clk w)"

definition api_listAssessmentAttempts :: "oid \<Rightarrow> auth \<Rightarrow> jsval \<Rightarrow> world \<Rightarrow> attempt list reply" where
  "api_listAssessmentAttempts i u query w = send 200 (listAssessmentAttempts i u query w)"

definition api_getAssessmentAttendance :: "oid \<Rightarrow> auth \<Rightarrow> world \<Rightarrow> attendance_row list reply" where
  "api_getAssessmentAttendance i u w = send 200 (getAssessmentAttendance i u w)"

definition api_getAttemptSubmissions :: "oid \<Rightarrow> auth \<Rightarrow> jsval \<Rightarrow> world \<Rightarrow> submission list reply" where
  "api_getAttemptSubmissions i u query w = send 200 (getAttemptSubmissions i u query w)"

definition api_getAnnouncements :: "oid \<Rightarrow> auth \<Rightarrow> world \<Rightarrow> announcement list reply" where
  "api_getAnnouncements i u w = send 200 (getAnnouncements i u w)"

definition api_createAnnouncement :: "oid \<Rightarrow> jsval \<Rightarrow> auth \<Rightarrow> clock \<Rightarrow> world \<Rightarrow> announcement reply \<times> world" where
  "api_createAnnouncement i body u clk w =
     apfst (send 201) (with_body ''message'' (\<lambda>v. createAnnouncement i v u clk) body w)"

definition api_getAssessmentAnalytics :: "oid \<Rightarrow> auth \<Rightarrow> world \<Rightarrow> analytics reply" where
  "api_getAssessmentAnalytics i u w = send 200 (getAssessmentAnalytics i u w)"

definition api_saveDraft :: "oid \<Rightarrow> jsval \<Rightarrow> auth \<Rightarrow> world \<Rightarrow> attempt option reply \<times> world" where
  "api_saveDraft i body u w = apfst (send 200) (with_body ''codeDrafts'' (\<lambda>v. saveDraft i v u) body w)"

definition api_lockAssessment :: "oid \<Rightarrow> auth \<Rightarrow> world \<Rightarrow> assessment reply \<times> world" where
  "api_lockAssessment i u w = apfst (send 200) (lockAssessment i u w)"

definition api_unlockAssessment :: "oid \<Rightarrow> auth \<Rightarrow> world \<Rightarrow> assessment reply \<times> world" where
  "api_unlockAssessment i u w = apfst (send 200) (unlockAssessment i u w)"

definition api_addGraceTime :: "oid \<Rightarrow> jsval \<Rightarrow> auth \<Rightarrow> clock \<Rightarrow> world \<Rightarrow> attempt option reply \<times> world" where
  "api_addGraceTime i body u clk w =
     apfst (send 200) (with_body ''graceMinutes'' (\<lambda>v. addGraceTime i v u clk) body w)"

definition api_raiseChallenge ::
    "(jsval \<Rightarrow> jsval result) \<Rightarrow> oid \<Rightarrow> jsval \<Rightarrow> auth \<Rightarrow> clock \<Rightarrow> world \<Rightarrow> attempt option reply \<times> world" where
  "api_raiseChallenge cast i body u clk w =
     apfst (send 200) (with_body ''reason'' (\<lambda>v. raiseChallenge cast i v u clk) body w)"

definition api_resolveChallenge ::
    "(jsval \<Rightarrow> jsval result) \<Rightarrow> oid \<Rightarrow> jsval \<Rightarrow> auth \<Rightarrow> clock \<Rightarrow> world \<Rightarrow> attempt option reply \<times> world" where
  "api_resolveChallenge cast i body u clk w =
     apfst (send 200)
       (with_body ''status'' (\<lambda>v. resolveChallenge cast i v (oget body ''facultyComment'') u clk) body w)"

subsection \<open>\<^verbatim>\<open>auth.controller.js\<close> and \<^verbatim>\<open>authCookie.js\<close>\<close>

record cookie_options =
  ck_http_only :: bool
  ck_secure :: bool
  ck_same_site :: string
  ck_path :: string
  ck_max_age :: "nat option"

definition AUTH_COOKIE_NAME :: string where
  "AUTH_COOKIE_NAME = ''token''"

definition getAuthCookieOptions :: "bool \<Rightarrow> cookie_options" where
  "getAuthCookieOptions production =
     \<lparr>ck_http_only = True, ck_secure = production, ck_same_site = ''lax'', ck_path = ''/'', ck_max_age = None\<rparr>"

definition getAuthCookieSetOptions :: "bool \<Rightarrow> cookie_options" where
  "getAuthCookieSetOptions production =
     (getAuthCookieOptions production)\<lparr>ck_max_age := Some (7 * 24 * 60 * 60 * 1000)\<rparr>"

datatype cookie_action =
    NoCookie
  | SetCookie string string cookie_options
  | ClearCookie string cookie_options

definition session_cookie :: "bool \<Rightarrow> (string \<times> public_user) result \<Rightarrow> cookie_action" where
  "session_cookie production r =
     (case r of
        Inl e \<Rightarrow> NoCookie
      | Inr (token, pu) \<Rightarrow> SetCookie AUTH_COOKIE_NAME token (getAuthCookieSetOptions production))"

definition api_signup ::
    "bool \<Rightarrow> account_services \<Rightarrow> oid \<Rightarrow> oid \<Rightarrow> time \<Rightarrow> jsval \<Rightarrow> world
       \<Rightarrow> (cookie_action \<times> (string \<times> public_user) reply) \<times> world" where
  "api_signup production ac cid nid now body w =
     apfst (\<lambda>r. (session_cookie production r, send_or_body 201 r))
       (signup ac cid nid now (oget body ''collegeName'') (oget body ''name'') (oget body ''email'')
          (oget body ''password'') w)"

definition api_register ::
    "account_services \<Rightarrow> oid \<Rightarrow> time \<Rightarrow> jsval \<Rightarrow> world \<Rightarrow> (string \<times> public_user) reply \<times> world" where
  "api_register ac nid now body w =
     apfst (send_or_body 201)
       (register ac nid now
          \<lparr>rg_name = oget body ''name'', rg_email = oget body ''email'', rg_password = oget body ''password'',
           rg_role = oget body ''role'', rg_college = oget body ''collegeId'', rg_usn = JUndef, rg_section = JUndef\<rparr> w)"

definition api_login ::
    "bool \<Rightarrow> account_services \<Rightarrow> bool \<Rightarrow> time \<Rightarrow> audit_info \<Rightarrow> jsval \<Rightarrow> world
       \<Rightarrow> (cookie_action \<times> (string \<times> public_user) reply) \<times> world" where
  "api_login production ac log_ok now info body w =
     apfst (\<lambda>r. (session_cookie production r, send_or_body 200 r))
       (login ac log_ok now info (oget body ''email'') (oget body ''password'') w)"

definition api_logout :: "bool \<Rightarrow> cookie_action \<times> jsval reply" where
  "api_logout production =
     (ClearCookie AUTH_COOKIE_NAME (getAuthCookieOptions production), Reply 200 (message ''message'' ''Logged out''))"

subsection \<open>\<^verbatim>\<open>arventiq.controller.js\<close> and the poll of \<^verbatim>\<open>codeAssessShim.controller.js\<close>\<close>

text \<open>\<^verbatim>\<open>{ success: false, ...err.body }\<close>, and with no body the message of an error that has a status.\<close>

definition unsuccessful :: "(string \<times> jsval) list \<Rightarrow> jsval" where
  "unsuccessful kvs = JObj (put_all kvs [(''success'', JBool False)])"

definition arventiq_body_or_next :: "js_error \<Rightarrow> 'a reply" where
  "arventiq_body_or_next e =
     (case error_status e of
        Some st \<Rightarrow> if truthy (error_body e) then Failure st (unsuccessful (spread (error_body e))) else next_error e
      | None \<Rightarrow> next_error e)"

definition arventiq_error :: "js_error \<Rightarrow> 'a reply" where
  "arventiq_error e =
     (case error_status e of
        Some st \<Rightarrow>
          Failure st (unsuccessful (if truthy (error_body e) then spread (error_body e)
                                    else [(''message'', JStr (error_message e))]))
      | None \<Rightarrow> next_error e)"

definition api_syncProblem :: "oid \<Rightarrow> time \<Rightarrow> jsval \<Rightarrow> world \<Rightarrow> (oid \<times> string option) reply \<times> world" where
  "api_syncProblem nid now body w =
     apfst (\<lambda>r. case r of Inl e \<Rightarrow> arventiq_body_or_next e | Inr p \<Rightarrow> Reply 200 (pr_id p, pr_external p))
       (syncProblem nid now body w)"

definition arventiq_request_of :: "jsval \<Rightarrow> string option \<Rightarrow> arventiq_request" where
  "arventiq_request_of body rid =
     \<lparr>aq_question = oget body ''questionId'', aq_code = oget body ''code'', aq_language = oget body ''codeLanguage'',
      aq_student = oget body ''externalStudentId'', aq_assessment = oget body ''externalAssessmentId'', aq_request = rid\<rparr>"

text \<open>\<^verbatim>\<open>req.user && (req.user._id || req.user.id)\<close>.\<close>

definition partner_id :: "auth option \<Rightarrow> oid option" where
  "partner_id u = Option.bind u (\<lambda>a. case au_id a of Some i \<Rightarrow> Some i | None \<Rightarrow> au_jwt_id a)"

definition api_arventiqSubmit ::
    "submit_env \<Rightarrow> oid \<Rightarrow> auth option \<Rightarrow> jsval \<Rightarrow> string option \<Rightarrow> clock \<Rightarrow> world \<Rightarrow> oid reply \<times> world" where
  "api_arventiqSubmit env nid u body rid clk w =
     (case partner_id u of
        None \<Rightarrow> (Failure 401 (unsuccessful [(''message'', JStr ''Unauthorized'')]), w)
      | Some i \<Rightarrow>
          apfst (\<lambda>r. case r of Inl e \<Rightarrow> arventiq_error e | Inr s \<Rightarrow> Reply 202 (su_id s))
            (submitArventiqSolution env nid i (arventiq_request_of body rid) clk w))"

definition api_arventiqRun :: "(jsval \<Rightarrow> judge_reply) \<Rightarrow> time \<Rightarrow> jsval \<Rightarrow> world \<Rightarrow> jsval reply" where
  "api_arventiqRun judge now body w =
     (case runArventiqCode judge now (arventiq_request_of body None) (oget body ''customInput'') w of
        Inl e \<Rightarrow> arventiq_error e
      | Inr r \<Rightarrow> Reply 200 r)"

definition arventiq_reply :: "arventiq_view result \<Rightarrow> jsval reply" where
  "arventiq_reply r =
     (case r of
        Inl e \<Rightarrow> next_error e
      | Inr ArventiqNotFound \<Rightarrow> Failure 404 (unsuccessful [(''message'', JStr ''Submission not found'')])
      | Inr ArventiqForbidden \<Rightarrow> Failure 403 (unsuccessful [(''message'', JStr ''Forbidden'')])
      | Inr ArventiqPending \<Rightarrow> Reply 202 (JObj [(''success'', JBool True), (''status'', JStr ''pending'')])
      | Inr (ArventiqVerdict v) \<Rightarrow> Reply 200 v)"

text \<open>The viewer has no college here: the controller passes on the user and the role only.\<close>

definition api_getArventiqResult :: "oid \<Rightarrow> auth option \<Rightarrow> clock \<Rightarrow> world \<Rightarrow> jsval reply \<times> world" where
  "api_getArventiqResult i u clk w =
     apfst arventiq_reply (getArventiqSubmissionResult i \<lparr>vw_user = partner_id u, vw_role = role_of u, vw_college = None\<rparr> clk w)"

definition api_getRawExecution :: "string \<Rightarrow> jsval reply" where
  "api_getRawExecution token =
     Failure 404 (message ''error'' (''Synchronous-only judge: nothing to poll for token '' @ token))"

end
