(* ===== verification/Admin_Api.thy ===== *)
theory Admin_Api
  imports Controllers
begin

section \<open>The handlers of \<^verbatim>\<open>admin.routes.js\<close>, \<^verbatim>\<open>health.routes.js\<close> and \<^verbatim>\<open>billing.routes.js\<close>\<close>

text \<open>
  These routers hold their handlers themselves. An admin handler answers an error with \<^verbatim>\<open>{ error: ... }\<close> and logs
  what it has done after it has done it; the address and the user agent of the client (\<^verbatim>\<open>auditInfo\<close>) are an
  argument, as is the success \<open>log_ok\<close> of the log entry, whose failure the log service swallows.
\<close>

subsection \<open>Replies\<close>

definition admin_error :: "js_error \<Rightarrow> 'a reply" where
  "admin_error e =
     Failure (case error_status e of Some st \<Rightarrow> st | None \<Rightarrow> 500) (message ''error'' (safeErrorMessage e))"

definition admin_send :: "'a result \<Rightarrow> 'a reply" where
  "admin_send r = (case r of Inl e \<Rightarrow> admin_error e | Inr x \<Rightarrow> Reply 200 x)"

text \<open>Run \<open>op\<close>; when it succeeds with \<open>x\<close>, log \<open>event\<close> with \<open>details x\<close> and answer.\<close>

definition logged ::
    "bool \<Rightarrow> time \<Rightarrow> string \<Rightarrow> auth \<Rightarrow> audit_info \<Rightarrow> ('a \<Rightarrow> jsval) \<Rightarrow> 'a result \<times> world \<Rightarrow> 'a reply \<times> world" where
  "logged log_ok now event u info details rw =
     (case rw of
        (Inl e, w) \<Rightarrow> (admin_error e, w)
      | (Inr x, w) \<Rightarrow> (Reply 200 x, logEvent log_ok now event (au_id u) (details x) info w))"

subsection \<open>Users and logs\<close>

definition api_auditLogs :: "(audit_log \<Rightarrow> bool) \<Rightarrow> world \<Rightarrow> audit_log list reply" where
  "api_auditLogs match w = Reply 200 (listLogs match 100 w)"

definition api_listUsers :: "(jsval \<Rightarrow> role \<Rightarrow> bool) \<Rightarrow> jsval \<Rightarrow> world \<Rightarrow> user_page reply" where
  "api_listUsers ops query w = admin_send (listUsers ops query w)"

definition api_resetPassword ::
    "account_services \<Rightarrow> bool \<Rightarrow> time \<Rightarrow> audit_info \<Rightarrow> oid \<Rightarrow> jsval \<Rightarrow> auth \<Rightarrow> world \<Rightarrow> string reply \<times> world" where
  "api_resetPassword ac log_ok now info uid body u w =
     (if nullish body then (admin_error (null_deref ''newPassword''), w)
      else if \<not> truthy (oget body ''newPassword'') then (Failure 400 (message ''error'' ''New password is required''), w)
      else apfst admin_send (resetUserPassword ac log_ok now info uid (oget body ''newPassword'') u w))"

text \<open>The checks of \<open>bulk_import_students\<close> answer \<^verbatim>\<open>{ error: ... }\<close>; a service error with a body answers that body.\<close>

definition import_error :: "js_error \<Rightarrow> 'a reply" where
  "import_error e =
     (case error_status e of
        Some st \<Rightarrow> if truthy (error_body e) then Failure st (error_body e) else admin_error e
      | None \<Rightarrow> admin_error e)"

definition api_bulkImportStudents ::
    "account_services \<Rightarrow> (nat \<Rightarrow> oid) \<Rightarrow> time \<Rightarrow> jsval \<Rightarrow> auth \<Rightarrow> world \<Rightarrow> import_result reply \<times> world" where
  "api_bulkImportStudents ac ids now body u w =
     (if nullish body then (admin_error (null_deref ''users''), w)
      else apfst (\<lambda>r. case r of Inl e \<Rightarrow> import_error e | Inr x \<Rightarrow> Reply 200 x)
             (bulk_import_students ac ids now body u w))"

subsection \<open>Statistics\<close>

text \<open>
  What the handler learns from outside: the start of the day, the two queues (a channel, with what \<^verbatim>\<open>checkQueue\<close>
  answers for each), the judge's \<^verbatim>\<open>/stats\<close> (\<open>None\<close> when it cannot be reached or is not ok) and the connections.
\<close>

record outside =
  os_day_start :: time
  os_channel :: "(nat result \<times> nat result) option"
  os_channel_open :: bool
  os_judge :: "jsval option"
  os_mongo :: bool
  os_redis :: redis_probe

record system_stats =
  st_problems :: nat
  st_submissions :: nat
  st_assessments :: nat
  st_users :: nat
  st_today :: nat
  st_accepted_today :: nat
  st_queue :: nat
  st_dead_letters :: nat
  st_judge :: jsval
  st_mongodb :: string
  st_redis :: string
  st_rabbitmq :: string
  st_judge_health :: string
  st_recent :: "(submission \<times> problem option \<times> user option) list"

text \<open>A failure of the first \<^verbatim>\<open>checkQueue\<close> skips the second; one of the second keeps the first figure.\<close>

definition queue_lengths :: "(nat result \<times> nat result) option \<Rightarrow> nat \<times> nat" where
  "queue_lengths ch =
     (case ch of
        Some (Inr n, Inr d) \<Rightarrow> (n, d)
      | Some (Inr n, Inl e) \<Rightarrow> (n, 0)
      | _ \<Rightarrow> (0, 0))"

definition recent_submissions :: "world \<Rightarrow> (submission \<times> problem option \<times> user option) list" where
  "recent_submissions w =
     map (\<lambda>s. (s, problems_find w (su_problem s), users_find w (su_user s)))
       (take 10 (sort_key (\<lambda>s. - su_created s) (w_submissions w)))"

definition api_systemStats :: "outside \<Rightarrow> world \<Rightarrow> system_stats reply" where
  "api_systemStats out w =
     (let today = filter (\<lambda>s. os_day_start out \<le> su_created s) (w_submissions w);
          qs = queue_lengths (os_channel out)
      in Reply 200
           \<lparr>st_problems = length (w_problems w), st_submissions = length (w_submissions w),
            st_assessments = length (w_assessments w), st_users = length (w_users w), st_today = length today,
            st_accepted_today = length (filter (\<lambda>s. su_status s = Success) today),
            st_queue = fst qs, st_dead_letters = snd qs,
            st_judge = (case os_judge out of Some v \<Rightarrow> v | None \<Rightarrow> JNull),
            st_mongodb = connection_text (os_mongo out), st_redis = redis_text (os_redis out),
            st_rabbitmq = connection_text (os_channel out \<noteq> None \<and> os_channel_open out),
            st_judge_health = (if os_judge out = None then ''offline'' else ''healthy''),
            st_recent = recent_submissions w\<rparr>)"

subsection \<open>Rejudging\<close>

definition api_rejudgeSubmission ::
    "bool \<Rightarrow> time \<Rightarrow> audit_info \<Rightarrow> oid \<Rightarrow> auth \<Rightarrow> world \<Rightarrow> submission reply \<times> world" where
  "api_rejudgeSubmission log_ok now info i u w =
     logged log_ok now ''REJUDGE_SUBMISSION'' u info
       (\<lambda>s. JObj [(''submissionId'', jnat i), (''problemId'', jnat (su_problem s))]) (rejudgeSubmission i w)"

definition api_rejudgeProblem ::
    "bool \<Rightarrow> time \<Rightarrow> audit_info \<Rightarrow> oid \<Rightarrow> oid option \<Rightarrow> auth \<Rightarrow> world \<Rightarrow> nat reply \<times> world" where
  "api_rejudgeProblem log_ok now info i aid u w =
     logged log_ok now ''REJUDGE_PROBLEM'' u info
       (\<lambda>n. JObj [(''problemId'', jnat i), (''assessmentId'', case aid of Some a \<Rightarrow> jnat a | None \<Rightarrow> JNull)])
       (rejudgeProblemSubmissions i aid w)"

definition api_rejudgeAssessment ::
    "bool \<Rightarrow> time \<Rightarrow> audit_info \<Rightarrow> oid \<Rightarrow> auth \<Rightarrow> world \<Rightarrow> nat reply \<times> world" where
  "api_rejudgeAssessment log_ok now info i u w =
     logged log_ok now ''REJUDGE_ASSESSMENT'' u info (\<lambda>n. JObj [(''assessmentId'', jnat i)])
       (rejudgeAssessmentSubmissions i w)"

subsection \<open>Banner, backup and restore\<close>

definition api_updateBanner ::
    "bool \<Rightarrow> time \<Rightarrow> audit_info \<Rightarrow> jsval \<Rightarrow> auth \<Rightarrow> world \<Rightarrow> jsval reply \<times> world" where
  "api_updateBanner log_ok now info body u w =
     (if nullish body then (admin_error (null_deref ''active''), w)
      else (let active = oget body ''active''; msg = oget body ''message''; typ = oget body ''type'' in
            logged log_ok now ''UPDATE_INCIDENT_BANNER'' u info (\<lambda>_. banner_value active msg typ)
              (apfst Inr (updateIncidentBanner active msg typ w))))"

text \<open>The collections are read before the log entry is written.\<close>

definition api_backup :: "codecs \<Rightarrow> bool \<Rightarrow> time \<Rightarrow> audit_info \<Rightarrow> auth \<Rightarrow> world \<Rightarrow> jsval reply \<times> world" where
  "api_backup cs log_ok now info u w =
     logged log_ok now ''DATABASE_BACKUP'' u info (\<lambda>_. JObj []) (Inr (exportDatabase cs w), w)"

definition restored_counts :: "(string \<times> nat) list \<Rightarrow> jsval" where
  "restored_counts counts = JObj [(''restoredCollections'', JObj (map (\<lambda>(k, n). (k, jnat n)) counts))]"

definition api_restore ::
    "codecs \<Rightarrow> bool \<Rightarrow> time \<Rightarrow> audit_info \<Rightarrow> jsval \<Rightarrow> auth \<Rightarrow> world \<Rightarrow> (string \<times> nat) list reply \<times> world" where
  "api_restore cs log_ok now info body u w =
     logged log_ok now ''DATABASE_RESTORE'' u info restored_counts (importDatabase cs body w)"

subsection \<open>Health\<close>

definition api_getBanner :: "world \<Rightarrow> jsval reply" where
  "api_getBanner w = Reply 200 (getIncidentBanner w)"

definition api_health :: "probes \<Rightarrow> health reply" where
  "api_health p = (case healthCheck p of (st, h) \<Rightarrow> Reply st h)"

definition api_ready :: "jsval reply" where
  "api_ready = Reply 200 (message ''status'' ''ready'')"

subsection \<open>Billing\<close>

definition no_college :: "'a reply" where
  "no_college = Failure 400 (message ''message'' ''Your account has no college to bill'')"

definition api_billingStatus ::
    "jsval \<Rightarrow> (time \<Rightarrow> time) \<Rightarrow> time \<Rightarrow> auth \<Rightarrow> world \<Rightarrow> billing_status reply" where
  "api_billingStatus price startOfMonth now u w = send_or_body 200 (getBillingStatus price startOfMonth now (au_college u) w)"

definition api_checkout :: "jsval \<Rightarrow> stripe \<Rightarrow> jsval \<Rightarrow> auth \<Rightarrow> world \<Rightarrow> string reply \<times> world" where
  "api_checkout price st body u w =
     (case au_college u of
        None \<Rightarrow> (no_college, w)
      | Some c \<Rightarrow> apfst (send_or_body 200) (createCheckoutSession price st c (oget body ''planId'') w))"

definition api_portal :: "stripe \<Rightarrow> auth \<Rightarrow> world \<Rightarrow> string reply" where
  "api_portal st u w =
     (case au_college u of None \<Rightarrow> no_college | Some c \<Rightarrow> send_or_body 200 (createPortalSession st c w))"

definition api_listColleges :: "world \<Rightarrow> college_row list reply" where
  "api_listColleges w = Reply 200 (listCollegesForBilling w)"

definition api_setCollegePlan ::
    "jsval \<Rightarrow> (time \<Rightarrow> time) \<Rightarrow> time \<Rightarrow> oid \<Rightarrow> jsval \<Rightarrow> world \<Rightarrow> billing_status reply \<times> world" where
  "api_setCollegePlan price startOfMonth now i body w =
     apfst (send_or_body 200)
       (setCollegePlan price startOfMonth now i (oget body ''planId'') (oget body ''subscriptionStatus'') w)"

end
