(* ===== verification/Start_Race.thy ===== *)
theory Start_Race
  imports Attempt_Lifecycle
begin

section \<open>Concurrent start requests\<close>

text \<open>
  \<^verbatim>\<open>startAssessment\<close> awaits the database twice: it looks for an existing attempt, and it inserts a new one.
  Between the two other requests run, so two starts of the same student can both find no attempt. The
  step relation interleaves the two halves of any number of start requests with each other and with
  every other handler of the system; the unique index and the duplicate-key branch make the result
  independent of the interleaving.
\<close>

subsection \<open>The interleaving\<close>

record start_request =
  sq_assessment :: oid
  sq_user :: auth

datatype phase =
    Waiting
  | Prepared attempt
  | Answered "attempt option result"

fun after_read :: "start_decision \<Rightarrow> phase" where
  "after_read (Refuse e) = Answered (Inl e)"
| "after_read (Existing a) = Answered (Inr (Some a))"
| "after_read (Proceed a) = Prepared a"

text \<open>
  Request \<open>k\<close> is \<open>rqs k\<close>; \<open>ids k\<close> is the object id the driver generates for its document. Steps of the
  rest of the system may create attempts too, but never with an id of this series.
\<close>

inductive race_step ::
    "services \<Rightarrow> (nat \<Rightarrow> start_request) \<Rightarrow> (nat \<Rightarrow> oid) \<Rightarrow> world \<times> (nat \<Rightarrow> phase) \<Rightarrow> world \<times> (nat \<Rightarrow> phase) \<Rightarrow> bool"
  for sv rqs ids where
  read: "ph k = Waiting
     \<Longrightarrow> start_read (sv_shuffle sv) (ids k) (sq_assessment (rqs k)) (sq_user (rqs k)) now w = d
     \<Longrightarrow> race_step sv rqs ids (w, ph) (w, ph(k := after_read d))"
| store: "ph k = Prepared a \<Longrightarrow> start_write a ok now info w = (r, w')
     \<Longrightarrow> race_step sv rqs ids (w, ph) (w', ph(k := Answered r))"
| rest: "system_step sv w w' \<Longrightarrow> at_id ` set (w_attempts w') \<inter> range ids \<subseteq> at_id ` set (w_attempts w)
     \<Longrightarrow> race_step sv rqs ids (w, ph) (w', ph)"

subsection \<open>The invariant\<close>

text \<open>The attempt a request was answered with is the one the database holds for its student.\<close>

definition holds_key :: "world \<Rightarrow> start_request \<Rightarrow> attempt \<Rightarrow> bool" where
  "holds_key w rq a \<longleftrightarrow> at_assessment a = sq_assessment rq \<and> au_id (sq_user rq) = Some (at_student a) \<and>
     (\<exists>b. attempts_find_one w (at_assessment a) (at_student a) = Some b \<and> at_id b = at_id a)"

fun phase_ok :: "world \<Rightarrow> oid \<Rightarrow> start_request \<Rightarrow> phase \<Rightarrow> bool" where
  "phase_ok w nid rq Waiting = (nid \<notin> at_id ` set (w_attempts w))"
| "phase_ok w nid rq (Prepared a) =
     (nid \<notin> at_id ` set (w_attempts w) \<and> at_assessment a = sq_assessment rq \<and>
      au_id (sq_user rq) = Some (at_student a) \<and>
      (\<exists>coll t order. a = new_attempt nid (sq_assessment rq) (at_student a) coll t order))"
| "phase_ok w nid rq (Answered (Inl e)) = (e \<noteq> duplicate_key)"
| "phase_ok w nid rq (Answered (Inr None)) = False"
| "phase_ok w nid rq (Answered (Inr (Some a))) = holds_key w rq a"

lemma evolves_find_one:
  assumes "evolves (w_attempts w) (w_attempts w')" and "attempts_wf w'"
    and "attempts_find_one w aid sid = Some b"
  shows "\<exists>b'. attempts_find_one w' aid sid = Some b' \<and> at_id b' = at_id b"
proof -
  have b: "b \<in> set (w_attempts w)" "at_assessment b = aid" "at_student b = sid"
    using find_member [OF assms(3) [unfolded attempts_find_one_def]] by simp_all
  obtain cs new where cs: "w_attempts w' = cs @ new" "list_all2 (attempt_changes True) (w_attempts w) cs"
    using assms(1) by (auto simp: evolves_def)
  with b obtain b' where b': "b' \<in> set cs" "attempt_changes True b b'"
    by (metis in_set_conv_nth list_all2_conv_all_nth)
  then have same: "at_id b' = at_id b" "attempt_key b' = (aid, sid)"
    using changes_identity b by (auto simp: same_identity_def attempt_key_def)
  have "find (\<lambda>y. attempt_key y = attempt_key b') (w_attempts w') = Some b'"
    using find_key [of attempt_key "w_attempts w'" b'] assms(2) b' cs by (simp add: attempts_wf_def)
  with same show ?thesis by (simp add: attempts_find_one_def attempt_key_def)
qed

lemma phase_ok_mono:
  assumes "evolves (w_attempts w) (w_attempts w')" and "attempts_wf w'"
    and "nid \<in> at_id ` set (w_attempts w') \<longrightarrow> nid \<in> at_id ` set (w_attempts w)" and "phase_ok w nid rq ph"
  shows "phase_ok w' nid rq ph"
  using assms(3,4)
  by (cases "(w, nid, rq, ph)" rule: phase_ok.cases)
     (auto simp: holds_key_def dest: evolves_find_one [OF assms(1,2)])

subsection \<open>Both halves keep it\<close>

lemma problem_refs_error: "problem_refs w es = Inl e \<Longrightarrow> e \<noteq> duplicate_key"
  using problem_refs_missing problem_refs_present
  by (cases "problems_present w es") (auto simp: duplicate_key_def null_deref_def)

lemma start_read_ok:
  assumes "attempts_wf w" and "nid \<notin> at_id ` set (w_attempts w)"
  shows "phase_ok w nid rq (after_read (start_read shuffle nid (sq_assessment rq) (sq_user rq) now w))"
proof (cases "start_read shuffle nid (sq_assessment rq) (sq_user rq) now w")
  case (Refuse e)
  then show ?thesis
    by (auto simp: start_read_def duplicate_key_def split: option.splits sum.splits if_splits
        dest: problem_refs_error [unfolded duplicate_key_def])
next
  case (Existing a)
  then obtain sid where "au_id (sq_user rq) = Some sid" "attempts_find_one w (sq_assessment rq) sid = Some a"
    by (auto simp: start_read_def split: option.splits sum.splits if_splits)
  moreover from this(2) have "at_assessment a = sq_assessment rq" "at_student a = sid"
    using find_holds [of _ "w_attempts w" a] unfolding attempts_find_one_def by auto
  ultimately show ?thesis using Existing by (simp add: holds_key_def)
next
  case (Proceed a)
  then show ?thesis using assms(2)
    by (auto simp: start_read_def new_attempt_def split: option.splits sum.splits if_splits)
qed

lemma start_write_ok:
  assumes "attempts_wf w" and "phase_ok w nid rq (Prepared a)" and "start_write a ok now info w = (r, w')"
  shows "evolves (w_attempts w) (w_attempts w') \<and> attempts_wf w' \<and> phase_ok w' nid rq (Answered r) \<and>
         at_id ` set (w_attempts w') \<subseteq> insert nid (at_id ` set (w_attempts w))"
proof (cases "attempts_find_one w (at_assessment a) (at_student a)")
  case (Some b)
  then have "r = Inr (Some b) \<and> w' = w"
    using assms(3) by (auto simp: start_write_def attempts_create_def)
  moreover have "at_assessment b = at_assessment a" "at_student b = at_student a"
    using find_holds [OF Some [unfolded attempts_find_one_def]] by simp_all
  ultimately show ?thesis using assms(1,2) Some by (auto simp: holds_key_def)
next
  case None
  then have r: "r = Inr (Some a)" and w': "w_attempts w' = w_attempts w @ [a]"
    using assms(3) by (auto simp: start_write_def attempts_create_def)
  obtain coll t order where a: "a = new_attempt nid (sq_assessment rq) (at_student a) coll t order"
    using assms(2) by auto
  then have nid: "at_id a = nid" by (metis new_attempt_def attempt.select_convs(1))
  have "attempt_key a \<notin> attempt_key ` set (w_attempts w)"
    using None by (auto simp: attempts_find_one_def find_none attempt_key_def)
  then have wf: "attempts_wf w'"
    using assms(1,2) w' nid by (auto simp: attempts_wf_def ids_distinct_def)
  have "born a" unfolding born_def by (subst a, blast)
  then have "evolves (w_attempts w) (w_attempts w')"
    unfolding evolves_def w' by - (rule exI [of _ "w_attempts w"], rule exI [of _ "[a]"], auto simp: list_all2_refl)
  moreover have "attempts_find_one w' (at_assessment a) (at_student a) = Some a"
    using None by (simp add: attempts_find_one_def w' find_append)
  ultimately show ?thesis using wf r w' nid assms(2) by (auto simp: holds_key_def)
qed

definition race_ok :: "(nat \<Rightarrow> start_request) \<Rightarrow> (nat \<Rightarrow> oid) \<Rightarrow> world \<times> (nat \<Rightarrow> phase) \<Rightarrow> bool" where
  "race_ok rqs ids c \<longleftrightarrow> attempts_wf (fst c) \<and> (\<forall>k. phase_ok (fst c) (ids k) (rqs k) (snd c k))"

lemma race_step_ok:
  assumes "race_step sv rqs ids c c'" and "inj ids" and "race_ok rqs ids c"
  shows "race_ok rqs ids c'"
  using assms(1)
proof cases
  case (read ph k now w d)
  moreover from this have "ids k \<notin> at_id ` set (w_attempts w)"
    using assms(3) by (auto simp: race_ok_def dest: spec [of _ k])
  ultimately show ?thesis
    using assms(3) start_read_ok [of w "ids k" "rqs k" "sv_shuffle sv" now]
    by (auto simp: race_ok_def)
next
  case (store ph k a ok now info w r w')
  have k: "phase_ok w (ids k) (rqs k) (Prepared a)" and wf: "attempts_wf w"
    using assms(3) store by (auto simp: race_ok_def dest: spec [of _ k])
  note s = start_write_ok [OF wf k store(4)]
  have "phase_ok w' (ids j) (rqs j) (ph j)" if "j \<noteq> k" for j
  proof (rule phase_ok_mono [of w])
    show "ids j \<in> at_id ` set (w_attempts w') \<longrightarrow> ids j \<in> at_id ` set (w_attempts w)"
      using s that injD [OF assms(2), of j k] by auto
  qed (use s assms(3) store in \<open>auto simp: race_ok_def\<close>)
  with s store show ?thesis by (auto simp: race_ok_def)
next
  case (rest w w' ph)
  have "attempts_wf w" and old: "phase_ok w (ids k) (rqs k) (ph k)" for k
    using assms(3) rest by (simp_all add: race_ok_def)
  with step_evolves [OF rest(3)] have s: "evolves (w_attempts w) (w_attempts w')" "attempts_wf w'" by simp_all
  have "phase_ok w' (ids k) (rqs k) (ph k)" for k
    by (rule phase_ok_mono [OF s _ old]) (use rest(4) in blast)
  with s rest show ?thesis by (simp add: race_ok_def)
qed

lemma race_runs_ok:
  "(race_step sv rqs ids)\<^sup>*\<^sup>* c c' \<Longrightarrow> race_ok rqs ids c \<Longrightarrow> inj ids \<Longrightarrow> race_ok rqs ids c'"
  by (induction rule: rtranclp_induct) (auto intro: race_step_ok)

lemma race_reach_ok:
  assumes "(race_step sv rqs ids)\<^sup>*\<^sup>* (w, \<lambda>k. Waiting) (w', ph)"
    and "attempts_wf w" and "inj ids" and "range ids \<inter> at_id ` set (w_attempts w) = {}"
  shows "race_ok rqs ids (w', ph)"
proof (rule race_runs_ok [OF assms(1) _ assms(3)])
  show "race_ok rqs ids (w, \<lambda>k. Waiting)" using assms(2,4) by (auto simp: race_ok_def)
qed

text \<open>C12: however the two halves of concurrent start requests interleave with each other and with every
  other handler, each student ends up with one attempt per assessment: every request that is admitted is
  answered with an attempt, never with null or a duplicate-key error, and all requests of one student
  for one assessment are answered with the same attempt.\<close>

theorem start_race:
  assumes "(race_step sv rqs ids)\<^sup>*\<^sup>* (w, \<lambda>k. Waiting) (w', ph)"
    and "attempts_wf w" and "inj ids" and "range ids \<inter> at_id ` set (w_attempts w) = {}"
  shows "distinct (map attempt_key (w_attempts w')) \<and>
    (\<forall>k. ph k \<noteq> Answered (Inr None) \<and> ph k \<noteq> Answered (Inl duplicate_key)) \<and>
    (\<forall>j k a b. ph j = Answered (Inr (Some a)) \<longrightarrow> ph k = Answered (Inr (Some b)) \<longrightarrow>
       sq_assessment (rqs j) = sq_assessment (rqs k) \<longrightarrow> au_id (sq_user (rqs j)) = au_id (sq_user (rqs k)) \<longrightarrow>
       at_id a = at_id b)"
proof -
  from race_reach_ok [OF assms] have wf: "attempts_wf w'" and ok: "phase_ok w' (ids k) (rqs k) (ph k)" for k
    by (simp_all add: race_ok_def)
  have "ph k \<noteq> Answered (Inr None) \<and> ph k \<noteq> Answered (Inl duplicate_key)" for k
    using ok [of k] by auto
  moreover have "at_id a = at_id b"
    if "ph j = Answered (Inr (Some a))" "ph k = Answered (Inr (Some b))"
      "sq_assessment (rqs j) = sq_assessment (rqs k)" "au_id (sq_user (rqs j)) = au_id (sq_user (rqs k))" for j k a b
    using ok [of j] ok [of k] that by (auto simp: holds_key_def)
  moreover have "distinct (map attempt_key (w_attempts w'))" using wf by (simp add: attempts_wf_def)
  ultimately show ?thesis by blast
qed

text \<open>Two requests of one student: both read first, then both insert.\<close>

lemma start_race_witness:
  "\<exists>(w' :: world) ph a.
     (race_step no_services (\<lambda>k. \<lparr>sq_assessment = 10, sq_user = student_auth\<rparr>) (\<lambda>k. 30 + k))\<^sup>*\<^sup>*
       (fresh_world, \<lambda>k. Waiting) (w', ph)
     \<and> ph 0 = Answered (Inr (Some a)) \<and> ph 1 = Answered (Inr (Some a)) \<and> at_id a = 31
     \<and> distinct (map attempt_key (w_attempts w'))"
proof -
  let ?rqs = "\<lambda>k :: nat. \<lparr>sq_assessment = 10, sq_user = student_auth\<rparr>" and ?ids = "\<lambda>k :: nat. 30 + k"
  let ?i = "\<lparr>ai_ip = None, ai_agent = None\<rparr>"
  let ?a = "\<lambda>k. new_attempt (30 + k) 10 2 (Some 4) 1000 [20]"
  let ?w = "snd (start_write (?a 1) False 1000 ?i fresh_world)"
  let ?p2 = "(\<lambda>k. Waiting)(0 := Prepared (?a 0), 1 := Prepared (?a 1))"
  have rd: "start_read (sv_shuffle no_services) (30 + k) 10 student_auth 1000 fresh_world = Proceed (?a k)" for k
    by (simp add: start_read_def attempts_find_one_def assessments_find_def collegeScopeFor_def problem_ref_def
        problems_find_def no_services_def student_auth_def fresh_world_def sample_defs)
  have wr: "start_write (?a 1) False 1000 ?i fresh_world = (Inr (Some (?a 1)), ?w)"
      "start_write (?a 0) False 1000 ?i ?w = (Inr (Some (?a 1)), ?w)"
    by (simp_all add: start_write_def attempts_create_def attempts_find_one_def logEvent_def fresh_world_def
        new_attempt_def)
  let ?R = "race_step no_services ?rqs ?ids"
  have "?R (fresh_world, \<lambda>k. Waiting) (fresh_world, (\<lambda>k. Waiting)(0 := Prepared (?a 0)))"
    using read [of "\<lambda>k. Waiting" 0 no_services ?ids ?rqs 1000 fresh_world] rd [of 0] by simp
  moreover have "?R (fresh_world, (\<lambda>k. Waiting)(0 := Prepared (?a 0))) (fresh_world, ?p2)"
    using read [of "(\<lambda>k. Waiting)(0 := Prepared (?a 0))" 1 no_services ?ids ?rqs 1000 fresh_world] rd [of 1] by simp
  moreover have "?R (fresh_world, ?p2) (?w, ?p2(1 := Answered (Inr (Some (?a 1)))))"
    by (rule store [OF _ wr(1)]) simp
  moreover have "?R (?w, ?p2(1 := Answered (Inr (Some (?a 1)))))
      (?w, ?p2(1 := Answered (Inr (Some (?a 1))), 0 := Answered (Inr (Some (?a 1)))))"
    by (rule store [OF _ wr(2)]) simp
  ultimately have run: "?R\<^sup>*\<^sup>* (fresh_world, \<lambda>k. Waiting)
      (?w, ?p2(1 := Answered (Inr (Some (?a 1))), 0 := Answered (Inr (Some (?a 1)))))"
    by (meson converse_rtranclp_into_rtranclp rtranclp.rtrancl_refl)
  have "distinct (map attempt_key (w_attempts ?w))"
    using start_race [OF run]
    by (simp add: attempts_wf_def ids_distinct_def fresh_world_def inj_def)
  with run show ?thesis
    by - (rule exI [of _ ?w], rule exI [of _ "?p2(1 := Answered (Inr (Some (?a 1))), 0 := Answered (Inr (Some (?a 1))))"],
        rule exI [of _ "?a 1"], simp add: new_attempt_def)
qed

text \<open>Nothing blocks a request: its own two steps are enabled in every state.\<close>

lemma request_can_finish:
  "\<exists>w' r. (race_step sv rqs ids)\<^sup>*\<^sup>* (w, ph) (w', ph(k := Answered r))"
proof -
  have fin: "\<exists>w' r. (race_step sv rqs ids)\<^sup>*\<^sup>* (w, qh) (w', ph(k := Answered r))"
    if "qh = ph(k := phs)" "phs \<noteq> Waiting" for qh phs
  proof (cases phs)
    case (Prepared a)
    obtain r w' where "start_write a True 0 undefined w = (r, w')" by (cases "start_write a True 0 undefined w")
    from race_step.store [OF _ this, of qh k sv rqs ids] that(1) Prepared
    have "race_step sv rqs ids (w, qh) (w', ph(k := Answered r))" by simp
    then show ?thesis by (meson r_into_rtranclp)
  qed (use that in auto)
  show ?thesis
  proof (cases "ph k")
    case Waiting
    from race_step.read [of ph k sv ids rqs 0 w, OF Waiting refl]
    obtain phs where s: "race_step sv rqs ids (w, ph) (w, ph(k := after_read phs))" by blast
    have "after_read phs \<noteq> Waiting" by (cases phs) auto
    from fin [OF refl this] s show ?thesis by (meson converse_rtranclp_into_rtranclp)
  next
    case (Prepared a)
    then show ?thesis using fin [of ph "ph k"] by (simp add: fun_upd_idem)
  next
    case (Answered r)
    then have "ph = ph(k := Answered r)" by auto
    then show ?thesis by (metis rtranclp.rtrancl_refl)
  qed
qed



end
