(* ===== verification/Account_Laws.thy ===== *)
theory Account_Laws
  imports Accounts Attempt_Lifecycle
begin

section \<open>Properties of the account services\<close>

text \<open>
  Bulk imports and signups are all or nothing, slugs are well formed and unique, a login tells nothing
  about which addresses exist, and a registered user can log in.
\<close>

subsection \<open>Inserting users\<close>

lemma users_create_cases:
  assumes "users_create u w = (r, w')"
  shows "(\<exists>e. r = Inl e \<and> w' = w) \<or>
         (r = Inr u \<and> w' = w\<lparr>w_users := w_users w @ [u]\<rparr> \<and> users_by_email w (u_email u) = None)"
  using assms by (auto simp: users_create_def split: if_splits)

text \<open>An insertion fails without effect or appends one user that has the given fields.\<close>

definition made_from :: "oid \<Rightarrow> new_user \<Rightarrow> user \<Rightarrow> bool" where
  "made_from nid n u \<longleftrightarrow> u_id u = nid \<and> u_email u = nu_email n \<and> u_password u = nu_hash n \<and>
     parse_role (nu_role n) = Some (u_role u) \<and> u_usn u = nu_usn n \<and> u_section u = nu_section n \<and>
     u_college u = nu_college n"

lemma create_user_cases:
  assumes "create_user nid now n w = (r, w')"
  shows "(\<exists>e. r = Inl e \<and> w' = w) \<or>
         (\<exists>u. r = Inr u \<and> made_from nid n u \<and> w' = w\<lparr>w_users := w_users w @ [u]\<rparr> \<and>
              users_by_email w (nu_email n) = None)"
  using assms users_create_cases
  by (fastforce simp: create_user_def made_from_def split: option.splits if_splits)

subsection \<open>Bulk import\<close>

definition imported :: "(nat \<Rightarrow> oid) \<Rightarrow> oid option \<Rightarrow> user \<Rightarrow> bool" where
  "imported ids coll u \<longleftrightarrow> u_role u = Student \<and> u_college u = coll \<and> u_id u \<in> range ids"

lemma create_all_cases:
  assumes "create_all ac ids now coll vs acc w = (r, w')"
  shows "\<exists>new. w' = w\<lparr>w_users := w_users w @ new\<rparr> \<and> (\<forall>u \<in> set new. imported ids coll u) \<and>
     (case r of Inl us \<Rightarrow> us = acc @ new | Inr us \<Rightarrow> us = acc @ new \<and> length new = length vs)"
  using assms
proof (induction vs arbitrary: acc w)
  case Nil
  then show ?case by (intro exI [of _ "[]"]) auto
next
  case (Cons v vs)
  show ?case
  proof (cases "hash_password ac (vu_password v)")
    case (Inl e)
    with Cons.prems show ?thesis by (intro exI [of _ "[]"]) auto
  next
    case (Inr h)
    define n where "n = \<lparr>nu_name = JStr (vu_name v), nu_email = vu_email v, nu_hash = h, nu_role = JStr ''student'',
        nu_usn = vu_usn v, nu_section = vu_section v, nu_college = coll\<rparr>"
    obtain r1 w1 where c: "create_user (ids (length acc)) now n w = (r1, w1)" by fastforce
    from create_user_cases [OF c] show ?thesis
    proof
      assume "\<exists>e. r1 = Inl e \<and> w1 = w"
      with Cons.prems Inr c show ?thesis by (intro exI [of _ "[]"]) (auto simp: n_def)
    next
      assume "\<exists>u. r1 = Inr u \<and> made_from (ids (length acc)) n u \<and> w1 = w\<lparr>w_users := w_users w @ [u]\<rparr> \<and>
          users_by_email w (nu_email n) = None"
      then obtain u where u: "r1 = Inr u" "made_from (ids (length acc)) n u" "w1 = w\<lparr>w_users := w_users w @ [u]\<rparr>"
        by blast
      have "imported ids coll u"
        using u(2) by (auto simp: imported_def made_from_def n_def parse_role_def)
      moreover from Cons.prems Inr c u have "create_all ac ids now coll vs (acc @ [u]) w1 = (r, w')"
        by (simp add: n_def)
      from Cons.IH [OF this] obtain new where "w' = w1\<lparr>w_users := w_users w1 @ new\<rparr>"
          "\<forall>x \<in> set new. imported ids coll x"
          "case r of Inl us \<Rightarrow> us = (acc @ [u]) @ new | Inr us \<Rightarrow> us = (acc @ [u]) @ new \<and> length new = length vs"
        by blast
      ultimately show ?thesis
        using u(3) by (intro exI [of _ "u # new"]) (auto split: sum.splits)
    qed
  qed
qed

lemma bulk_create_cases:
  assumes "bulk_create ac ids now coll vs w = (r, w')" and "range ids \<inter> u_id ` set (w_users w) = {}"
  shows "(\<exists>e. r = Inl e \<and> w' = w) \<or>
     (\<exists>us. r = Inr us \<and> w' = w\<lparr>w_users := w_users w @ us\<rparr> \<and> length us = length vs \<and>
           (\<forall>u \<in> set us. imported ids coll u))"
proof -
  obtain r1 w1 where c: "create_all ac ids now coll vs [] w = (r1, w1)" by fastforce
  obtain new where new: "w1 = w\<lparr>w_users := w_users w @ new\<rparr>" "\<forall>u \<in> set new. imported ids coll u"
      "case r1 of Inl us \<Rightarrow> us = new | Inr us \<Rightarrow> us = new \<and> length new = length vs"
    using create_all_cases [OF c] unfolding append_Nil by blast
  have "filter (\<lambda>u. u_id u \<notin> u_id ` set new) (w_users w @ new) = w_users w"
  proof -
    have "u_id ` set new \<subseteq> range ids" using new(2) unfolding imported_def by blast
    then have "u_id u \<notin> u_id ` set new" if "u \<in> set (w_users w)" for u
      using that assms(2) by blast
    then have "filter (\<lambda>u. u_id u \<notin> u_id ` set new) (w_users w) = w_users w" by simp
    moreover have "filter (\<lambda>u. u_id u \<notin> u_id ` set new) new = []" by (auto simp: filter_empty_conv)
    ultimately show ?thesis by simp
  qed
  with assms(1) c new show ?thesis
    by (auto simp: bulk_create_def roll_back_def split: sum.splits)
qed

lemma check_row_counts:
  "length (im_errors (check_row ac w dflt i row email usn name sect st)) +
   length (im_users (check_row ac w dflt i row email usn name sect st))
     = Suc (length (im_errors st) + length (im_users st))"
  by (simp add: check_row_def reject_row_def Let_def)

lemma check_rows_counts:
  "check_rows ac w dflt i rows st = Inr st' \<Longrightarrow>
     length (im_errors st') + length (im_users st') = length (im_errors st) + length (im_users st) + length rows"
  by (induction ac w dflt i rows st rule: check_rows.induct)
     (auto simp: check_row_counts split: sum.splits if_splits)

lemma bulk_import_outcome:
  assumes "bulkRegister ac ids now rows dflt coll w = (r, w')" and "range ids \<inter> u_id ` set (w_users w) = {}"
  shows "(\<exists>e. r = Inl e \<and> w' = w) \<or>
    (\<exists>x. r = Inr x \<and> w' = w\<lparr>w_users := w_users w @ map fst (ir_created x)\<rparr> \<and>
       ir_count x = length (ir_created x) \<and> length (ir_created x) + length (ir_errors x) = length rows \<and>
       (\<forall>(u, p) \<in> set (ir_created x). u_role u = Student \<and> u_college u = (if truthy coll then ac_cast ac coll else None)) \<and>
       (\<forall>c col lmt. truthy coll \<longrightarrow> ac_cast ac coll = Some c \<longrightarrow> ir_created x \<noteq> [] \<longrightarrow> colleges_find w c = Some col
          \<longrightarrow> finite_number (pl_seats (getPlan (ac_price ac) (co_plan col))) = Some lmt
          \<longrightarrow> of_nat (seats_used w c + length (ir_created x)) \<le> lmt))"
proof (cases "check_rows ac w dflt 0 rows \<lparr>im_emails = [], im_usns = [], im_errors = [], im_users = []\<rparr>")
  case (Inl e)
  with assms(1) have "r = Inl e \<and> w' = w" by (simp add: bulkRegister_def)
  then show ?thesis by blast
next
  case (Inr st)
  from check_rows_counts [OF this] have n: "length (im_errors st) + length (im_users st) = length rows" by simp
  show ?thesis
  proof (cases "\<exists>e. r = Inl e \<and> w' = w")
    case False
    show ?thesis
    proof (cases "im_users st = []")
      case True
      with assms(1) Inr n show ?thesis by (auto simp: bulkRegister_def)
    next
      case ne: False
      obtain c where c: "import_college ac coll = Inr c"
        using assms(1) Inr ne False by (auto simp: bulkRegister_def split: sum.splits)
      have seats: "assertSeatCapacity (ac_price ac) c (length (im_users st)) w = Inr ()"
        using assms(1) Inr ne False c by (auto simp: bulkRegister_def split: sum.splits)
      obtain r1 w1 where b: "bulk_create ac ids now c (im_users st) w = (r1, w1)" by fastforce
      from bulk_create_cases [OF b assms(2)] assms(1) Inr ne False c seats
      obtain us where us: "r1 = Inr us" "w' = w\<lparr>w_users := w_users w @ us\<rparr>" "length us = length (im_users st)"
          "\<forall>u \<in> set us. imported ids c u"
          "r = Inr \<lparr>ir_created = zip us (map vu_password (im_users st)), ir_errors = im_errors st, ir_count = length us\<rparr>"
        using b by (auto simp: bulkRegister_def split: sum.splits)
      have "c = (if truthy coll then ac_cast ac coll else None)"
        using c by (auto simp: import_college_def split: option.splits if_splits)
      moreover have "of_nat (seats_used w d + length us) \<le> lmt"
        if "truthy coll" "ac_cast ac coll = Some d" "colleges_find w d = Some col"
          "finite_number (pl_seats (getPlan (ac_price ac) (co_plan col))) = Some lmt" for d col lmt
        using assertSeatCapacity_Inr [of "ac_price ac" d "length us" w col lmt] that seats us(3) c
        by (simp add: import_college_def)
      ultimately show ?thesis
        using us n by (auto simp: imported_def dest!: set_zip_leftD)
    qed
  qed simp
qed

text \<open>C15: a bulk import is all or nothing: when it fails, for whatever reason and at whatever row, the database
  is exactly what it was; when it succeeds, the created users are appended, all of them students of the
  given college, every row of the upload is either created or reported with an error, and a college on a
  plan with a seat limit does not exceed it.\<close>

theorem bulk_import_atomic:
  assumes "bulkRegister ac ids now rows dflt coll w = (r, w')" and "range ids \<inter> u_id ` set (w_users w) = {}"
  shows "(\<exists>e. r = Inl e \<and> w' = w) \<or>
    (\<exists>x. r = Inr x \<and> w' = w\<lparr>w_users := w_users w @ map fst (ir_created x)\<rparr> \<and>
       ir_count x = length (ir_created x) \<and> length (ir_created x) + length (ir_errors x) = length rows \<and>
       (\<forall>(u, p) \<in> set (ir_created x). u_role u = Student \<and> u_college u = (if truthy coll then ac_cast ac coll else None)) \<and>
       (\<forall>c col lmt. truthy coll \<longrightarrow> ac_cast ac coll = Some c \<longrightarrow> ir_created x \<noteq> [] \<longrightarrow> colleges_find w c = Some col
          \<longrightarrow> finite_number (pl_seats (getPlan (ac_price ac) (co_plan col))) = Some lmt
          \<longrightarrow> of_nat (seats_used w c + length (ir_created x)) \<le> lmt))"
  using assms by (rule bulk_import_outcome)

text \<open>Two rows with one address: the first is created, the second reported.\<close>

definition sample_account_services :: account_services where
  "sample_account_services = \<lparr>ac_hash = (\<lambda>p. CHR ''#'' # p), ac_compare = (\<lambda>p h. h = CHR ''#'' # p),
     ac_sign = u_email,
     ac_cast = (\<lambda>v. case v of JStr s \<Rightarrow> Some (nat_of_digits s) | JNum (Fin q) \<Rightarrow> Some (nat \<lfloor>q\<rfloor>) | _ \<Rightarrow> None),
     ac_random = (\<lambda>i. ''x''), ac_price = JNull\<rparr>"

definition sample_rows :: "jsval list" where
  "sample_rows = [JObj [(''name'', JStr ''A''), (''email'', JStr ''A@b.c'')],
                  JObj [(''name'', JStr ''B''), (''email'', JStr ''a@b.c '')]]"

lemma bulk_import_atomic_witness:
  "\<exists>x (w' :: world). bulkRegister sample_account_services (\<lambda>k. 40 + k) 0 sample_rows (JStr ''pw'') JUndef empty_world
      = (Inr x, w') \<and> length (ir_created x) + length (ir_errors x) = 2"
proof -
  have "is_ok (fst (bulkRegister sample_account_services (\<lambda>k. 40 + k) 0 sample_rows (JStr ''pw'') JUndef empty_world))"
    by code_simp
  then obtain x w' where run:
    "bulkRegister sample_account_services (\<lambda>k. 40 + k) 0 sample_rows (JStr ''pw'') JUndef empty_world = (Inr x, w')"
    by (auto simp: is_ok_iff prod_eq_iff)
  from bulk_import_atomic [OF run] run show ?thesis
    by (auto simp: empty_world_def sample_rows_def)
qed

text \<open>The college of imported students is the one the request body names, whatever college the importing
  admin or faculty member belongs to: the handler falls back to the caller's college only when the body
  names none.\<close>

theorem import_trusts_body:
  assumes "bulk_import_students ac ids now body u w = (Inr x, w')"
    and "range ids \<inter> u_id ` set (w_users w) = {}"
    and "truthy (oget body ''collegeId'')"
  shows "\<forall>(s, p) \<in> set (ir_created x). s \<in> set (w_users w') \<and> u_college s = ac_cast ac (oget body ''collegeId'')"
proof -
  have "bulkRegister ac ids now (elems (oget body ''users'')) (oget body ''defaultPassword'') (oget body ''collegeId'') w
      = (Inr x, w')"
    using assms(1,3) by (simp add: bulk_import_students_def or_val_def split: if_splits)
  from bulk_import_outcome [OF this assms(2)] assms(3) show ?thesis
    by (auto simp: in_set_conv_decomp)
qed

lemma import_trusts_body_witness:
  "\<exists>x (w' :: world). bulk_import_students sample_account_services (\<lambda>k. 40 + k) 0
       (JObj [(''users'', JArr sample_rows), (''defaultPassword'', JStr ''pw''), (''collegeId'', jnat 5)])
       (student_auth\<lparr>au_role := Faculty, au_college := Some 4\<rparr>) empty_world = (Inr x, w')
     \<and> (\<forall>(s, p) \<in> set (ir_created x). u_college s = Some 5)"
proof -
  let ?b = "JObj [(''users'', JArr sample_rows), (''defaultPassword'', JStr ''pw''), (''collegeId'', jnat 5)]"
  let ?u = "student_auth\<lparr>au_role := Faculty, au_college := Some 4\<rparr>"
  have "is_ok (fst (bulk_import_students sample_account_services (\<lambda>k. 40 + k) 0 ?b ?u empty_world))"
    by code_simp
  then obtain x w' where run:
    "bulk_import_students sample_account_services (\<lambda>k. 40 + k) 0 ?b ?u empty_world = (Inr x, w')"
    by (auto simp: is_ok_iff prod_eq_iff)
  from import_trusts_body [OF run] run show ?thesis
    by (fastforce simp: empty_world_def sample_account_services_def)
qed

subsection \<open>Slugs\<close>

lemma unique_slug_from_unused: "\<not> slug_used w (unique_slug_from w base n)"
  by (induction w base n rule: unique_slug_from.induct) (subst unique_slug_from.simps, simp)

lemma unique_slug_from_least:
  "\<exists>m \<ge> n. unique_slug_from w base n = slug_of base (Suc m) \<and> (\<forall>k. n \<le> k \<longrightarrow> k < m \<longrightarrow> slug_used w (slug_of base (Suc k)))"
proof (induction w base n rule: unique_slug_from.induct)
  case (1 w base n)
  show ?case
  proof (cases "slug_used w (slug_of base (Suc n))")
    case True
    from "1.IH" [OF True] obtain m where m: "Suc n \<le> m" "unique_slug_from w base (Suc n) = slug_of base (Suc m)"
        "\<forall>k. Suc n \<le> k \<longrightarrow> k < m \<longrightarrow> slug_used w (slug_of base (Suc k))" by blast
    have "slug_used w (slug_of base (Suc k))" if "n \<le> k" "k < m" for k
      using that m(3) True by (cases "k = n") auto
    with True m(1,2) show ?thesis
      by (intro exI [of _ m]) (simp add: unique_slug_from.simps [of w base n])
  next
    case False
    then show ?thesis by (intro exI [of _ n]) (simp add: unique_slug_from.simps [of w base n])
  qed
qed

lemma uniqueSlug_least:
  "\<not> slug_used w (uniqueSlug base w) \<and>
   (\<exists>n \<ge> 1. uniqueSlug base w = slug_of base n \<and> (\<forall>k. 1 \<le> k \<and> k < n \<longrightarrow> slug_used w (slug_of base k)))"
proof -
  obtain m where m: "uniqueSlug base w = slug_of base (Suc m)" "\<forall>k. k < m \<longrightarrow> slug_used w (slug_of base (Suc k))"
    using unique_slug_from_least [of 0 w base] by (auto simp: uniqueSlug_def)
  have "slug_used w (slug_of base k)" if "1 \<le> k" "k < Suc m" for k
    using m(2) that by (cases k) auto
  with m(1) have "\<exists>n \<ge> 1. uniqueSlug base w = slug_of base n \<and> (\<forall>k. 1 \<le> k \<and> k < n \<longrightarrow> slug_used w (slug_of base k))"
    by (intro exI [of _ "Suc m"]) simp
  moreover have "\<not> slug_used w (uniqueSlug base w)"
    unfolding uniqueSlug_def by (rule unique_slug_from_unused)
  ultimately show ?thesis by blast
qed

text \<open>C16: the search for a slug ends, with a slug no college uses: the base itself when it is free, and
  otherwise the base with the smallest suffix from 2 on that is free.\<close>

theorem slug_search:
  "\<not> slug_used w (uniqueSlug base w) \<and>
   (\<exists>n \<ge> 1. uniqueSlug base w = slug_of base n \<and> (\<forall>k. 1 \<le> k \<and> k < n \<longrightarrow> slug_used w (slug_of base k)))"
  by (rule uniqueSlug_least)

lemma slug_search_witness:
  "let w = empty_world\<lparr>w_colleges := [new_college 1 ''Acme'' ''acme'']\<rparr> in
     slug_used w ''acme'' \<and> \<not> slug_used w (uniqueSlug ''acme'' w) \<and> uniqueSlug ''acme'' w = ''acme-2''"
proof -
  let ?w = "empty_world\<lparr>w_colleges := [new_college 1 ''Acme'' ''acme'']\<rparr>"
  have used: "slug_used ?w ''acme''" "\<not> slug_used ?w (slug_of ''acme'' 2)" "slug_of ''acme'' 2 = ''acme-2''"
      "slug_of ''acme'' 1 = ''acme''"
    by code_simp+
  from slug_search [of ?w "''acme''"] obtain n where n: "1 \<le> n" "uniqueSlug ''acme'' ?w = slug_of ''acme'' n"
      "\<forall>k. 1 \<le> k \<and> k < n \<longrightarrow> slug_used ?w (slug_of ''acme'' k)" "\<not> slug_used ?w (uniqueSlug ''acme'' ?w)" by blast
  have "\<not> 2 < n" using n(3) used(2) by auto
  moreover have "n \<noteq> 1" using n(2,4) used(1,4) by metis
  ultimately have "n = 2" using n(1) by linarith
  with n used show ?thesis by (simp add: Let_def)
qed

text \<open>No two neighbouring characters are both hyphens.\<close>

definition spaced :: "string \<Rightarrow> bool" where
  "spaced s \<longleftrightarrow> (\<forall>i. Suc i < length s \<longrightarrow> s ! i = CHR ''-'' \<longrightarrow> s ! Suc i \<noteq> CHR ''-'')"

lemma spaced_Cons: "spaced (c # s) \<longleftrightarrow> spaced s \<and> (c = CHR ''-'' \<longrightarrow> s = [] \<or> hd s \<noteq> CHR ''-'')"
proof
  assume a: "spaced (c # s)"
  then have "spaced s" unfolding spaced_def by fastforce
  moreover have "s = [] \<or> hd s \<noteq> CHR ''-''" if "c = CHR ''-''"
    using a that unfolding spaced_def by (cases s) fastforce+
  ultimately show "spaced s \<and> (c = CHR ''-'' \<longrightarrow> s = [] \<or> hd s \<noteq> CHR ''-'')" by blast
next
  assume a: "spaced s \<and> (c = CHR ''-'' \<longrightarrow> s = [] \<or> hd s \<noteq> CHR ''-'')"
  show "spaced (c # s)"
    unfolding spaced_def
  proof (intro allI impI)
    fix i assume i: "Suc i < length (c # s)" "(c # s) ! i = CHR ''-''"
    then show "(c # s) ! Suc i \<noteq> CHR ''-''"
      using a by (cases i) (auto simp: spaced_def hd_conv_nth)
  qed
qed

lemma spaced_Nil [simp]: "spaced []"
  by (simp add: spaced_def)

lemma spaced_rev: "spaced (rev s) = spaced s"
proof -
  have "spaced (rev t)" if "spaced t" for t
    unfolding spaced_def
  proof (intro allI impI)
    fix i assume i: "Suc i < length (rev t)" "rev t ! i = CHR ''-''"
    show "rev t ! Suc i \<noteq> CHR ''-''"
    proof
      assume j: "rev t ! Suc i = CHR ''-''"
      let ?k = "length t - Suc (Suc i)"
      have "t ! ?k = CHR ''-''" "t ! Suc ?k = CHR ''-''" "Suc ?k < length t"
        using i j by (simp_all add: rev_nth Suc_diff_Suc)
      with that show False by (auto simp: spaced_def)
    qed
  qed
  from this [of s] this [of "rev s"] show ?thesis by auto
qed

lemma set_dropWhile_subset: "set (dropWhile P xs) \<subseteq> set xs"
  by (induction xs) auto

lemma spaced_dropWhile: "spaced s \<Longrightarrow> spaced (dropWhile P s)"
  by (induction s) (auto simp: spaced_Cons)

lemma hyphen_not_slug_char [simp]: "\<not> is_slug_char (CHR ''-'')"
  by (simp add: is_slug_char_def is_lower_def is_digit_def)

lemma hyphenate_shape:
  "set (hyphenate s) \<subseteq> insert (CHR ''-'') (Collect is_slug_char) \<and> spaced (hyphenate s) \<and>
   (s \<noteq> [] \<longrightarrow> is_slug_char (hd s) \<longrightarrow> hd (hyphenate s) \<noteq> CHR ''-'')"
proof (induction s rule: hyphenate.induct)
  case 1
  show ?case by (simp add: spaced_def)
next
  case (2 c cs)
  show ?case
  proof (cases "is_slug_char c")
    case True
    then have "c \<noteq> CHR ''-''" using hyphen_not_slug_char by metis
    with True 2(1) show ?thesis by (auto simp: spaced_Cons)
  next
    case False
    define d where "d = dropWhile (\<lambda>d. \<not> is_slug_char d) cs"
    have "d \<noteq> [] \<longrightarrow> is_slug_char (hd d)"
      unfolding d_def using hd_dropWhile [of "\<lambda>d. \<not> is_slug_char d" cs] by blast
    moreover have "hyphenate (c # cs) = CHR ''-'' # hyphenate d" using False by (simp add: d_def)
    ultimately show ?thesis
      using 2(2) [OF False, folded d_def] False by (cases "d = []") (auto simp: spaced_Cons)
  qed
qed

lemma trim_end:
  assumes "dropWhile P (rev xs) = ys" and "ys \<noteq> []"
  shows "\<not> P (last (rev ys)) \<and> hd (rev ys) = hd xs \<and> set ys \<subseteq> set xs"
proof -
  have "rev xs = takeWhile P (rev xs) @ ys" using assms(1) by (metis takeWhile_dropWhile_id)
  then have "xs = rev ys @ rev (takeWhile P (rev xs))" by (metis rev_append rev_rev_ident)
  then have "hd (rev ys) = hd xs" using assms(2) by (metis hd_append2 rev_is_Nil_conv)
  moreover have "\<not> P (hd ys)" using assms hd_dropWhile [of P "rev xs"] by metis
  moreover have "set ys \<subseteq> set xs" using assms(1) set_dropWhile_subset [of P "rev xs"] by (metis set_rev)
  ultimately show ?thesis using assms(2) by (simp add: last_rev)
qed

lemma strip_hyphens_shape:
  assumes "strip_hyphens s \<noteq> []" and "spaced s"
  shows "set (strip_hyphens s) \<subseteq> set s \<and> spaced (strip_hyphens s) \<and> hd (strip_hyphens s) \<noteq> CHR ''-'' \<and>
     last (strip_hyphens s) \<noteq> CHR ''-''"
proof -
  define a where "a = dropWhile (\<lambda>c. c = CHR ''-'') s"
  define b where "b = dropWhile (\<lambda>c. c = CHR ''-'') (rev a)"
  have s: "strip_hyphens s = rev b" by (simp add: strip_hyphens_def a_def b_def)
  with assms(1) have b: "b \<noteq> []" by simp
  then have "a \<noteq> []" by (auto simp: b_def)
  then have "hd a \<noteq> CHR ''-''" unfolding a_def using hd_dropWhile [of "\<lambda>c. c = CHR ''-''" s] by blast
  moreover have "set a \<subseteq> set s" unfolding a_def by (rule set_dropWhile_subset)
  moreover have "spaced (rev b)" using assms(2) by (simp add: b_def a_def spaced_rev spaced_dropWhile)
  ultimately show ?thesis using trim_end [OF b_def [symmetric] b] by (auto simp: s)
qed

text \<open>A slug is never empty, consists of lower case letters, digits and hyphens, and has no hyphen at either
  end and no two in a row, whatever name the college has.\<close>

theorem slugify_shape:
  "slugify name \<noteq> [] \<and> set (slugify name) \<subseteq> insert (CHR ''-'') (Collect is_slug_char) \<and>
   spaced (slugify name) \<and> hd (slugify name) \<noteq> CHR ''-'' \<and> last (slugify name) \<noteq> CHR ''-''"
proof (cases "strip_hyphens (hyphenate (js_trim (js_lower name))) = []")
  case True
  have "list_all is_slug_char ''college''" by code_simp
  moreover have "spaced ''college''" by (simp add: spaced_Cons)
  moreover have "slugify name = ''college''" using True by (simp add: slugify_def)
  ultimately show ?thesis by (simp add: list_all_iff subset_iff)
next
  case False
  have "slugify name = strip_hyphens (hyphenate (js_trim (js_lower name)))" using False by (simp add: slugify_def)
  with False strip_hyphens_shape [OF False] hyphenate_shape [of "js_trim (js_lower name)"]
  show ?thesis by (metis subset_trans)
qed

subsection \<open>Registration and signup\<close>

lemma js_trim_no_ws: "list_all (\<lambda>c. \<not> is_ws c) s \<Longrightarrow> js_trim s = s"
proof -
  assume a: "list_all (\<lambda>c. \<not> is_ws c) s"
  have d: "dropWhile is_ws t = t" if "list_all (\<lambda>c. \<not> is_ws c) t" for t
    using that by (cases t) simp_all
  from a have "list_all (\<lambda>c. \<not> is_ws c) (rev s)" by (simp add: list_all_iff)
  with d [OF a] d [of "rev s"] show ?thesis by (simp add: js_trim_def)
qed

lemma js_trim_show_nat [simp]: "js_trim (show_nat n) = show_nat n"
proof -
  have "\<not> is_ws c" if "is_digit c" for c using that by (auto simp: is_ws_def is_digit_def)
  then show ?thesis using show_nat_digits [of n] by (intro js_trim_no_ws) (simp add: list_all_iff)
qed

lemma register_cases:
  assumes "register ac nid now rg w = (r, w')"
  shows "(\<exists>e. r = Inl e \<and> w' = w) \<or>
     (\<exists>n u. r = Inr (ac_sign ac u, toPublicUser u) \<and> check_registration ac rg w = Inr n \<and> made_from nid n u \<and>
            w' = w\<lparr>w_users := w_users w @ [u]\<rparr> \<and> users_by_email w (nu_email n) = None)"
proof (cases "check_registration ac rg w")
  case (Inl e)
  with assms have "r = Inl e \<and> w' = w" by (simp add: register_def)
  then show ?thesis by blast
next
  case (Inr n)
  obtain r1 w1 where c: "create_user nid now n w = (r1, w1)" by fastforce
  from create_user_cases [OF c] assms Inr c show ?thesis by (auto simp: register_def)
qed

lemma check_registration_Inr:
  assumes "check_registration ac rg w = Inr n"
  shows "nu_role n = rg_role rg \<and> registration_college ac (rg_college rg) = Inr (nu_college n) \<and>
     (\<exists>em pw. rg_email rg = JStr em \<and> rg_password rg = JStr pw \<and> nu_email n = js_lower em \<and> nu_hash n = ac_hash ac pw)"
proof -
  have "\<exists>em. rg_email rg = JStr em" using assms
    by (cases "rg_email rg") (auto simp: check_registration_def split: sum.splits)
  then obtain em where em: "rg_email rg = JStr em" by blast
  show ?thesis using assms em
    by (auto simp: check_registration_def hash_password_def split: sum.splits if_splits jsval.splits)
qed

text \<open>C18: signing up is all or nothing: either nothing changes at all, or exactly one college is added, on the
  free plan with a slug no other college has, together with exactly one user, an admin of that college.\<close>

theorem signup_atomic:
  assumes "signup ac cid nid now collegeName name email password w = (r, w')"
    and "colleges_find w cid = None" and "ac_cast ac (JStr (show_nat cid)) = Some cid"
  shows "(\<exists>e. r = Inl e \<and> w' = w) \<or>
    (\<exists>col u. r = Inr (ac_sign ac u, toPublicUser u) \<and>
       w' = w\<lparr>w_colleges := w_colleges w @ [col], w_users := w_users w @ [u]\<rparr> \<and>
       co_id col = cid \<and> co_plan col = ''free'' \<and> \<not> slug_used w (co_slug col) \<and>
       u_role u = Admin \<and> u_college u = Some cid \<and> users_by_email w (u_email u) = None)"
proof -
  let ?slug = "uniqueSlug (slugify (str_of collegeName)) w"
  let ?col = "new_college cid (js_trim (str_of collegeName)) ?slug"
  let ?w1 = "w\<lparr>w_colleges := w_colleges w @ [?col]\<rparr>"
  let ?rg = "\<lparr>rg_name = name, rg_email = email, rg_password = password, rg_role = JStr ''admin'',
      rg_college = JStr (show_nat cid), rg_usn = JUndef, rg_section = JUndef\<rparr>"
  have free: "\<not> slug_used w ?slug" using uniqueSlug_least by blast
  obtain r1 w2 where g: "register ac nid now ?rg ?w1 = (r1, w2)" by fastforce
  have restored: "colleges_delete cid ?w1 = w"
    using assms(2) by (simp add: colleges_delete_def new_college_def delete_first_append colleges_find_def)
  have run: "(\<exists>e. r = Inl e \<and> w' = w) \<or>
      (r, w') = (case r1 of Inl e \<Rightarrow> (Inl e, colleges_delete cid w2) | Inr x \<Rightarrow> (Inr x, w2))"
    using assms(1) g free
    by (auto simp: signup_def colleges_create_def new_college_def split: if_splits sum.splits)
  from register_cases [OF g] show ?thesis
  proof
    assume "\<exists>e. r1 = Inl e \<and> w2 = ?w1"
    with run restored show ?thesis by auto
  next
    assume "\<exists>n u. r1 = Inr (ac_sign ac u, toPublicUser u) \<and> check_registration ac ?rg ?w1 = Inr n \<and> made_from nid n u \<and>
            w2 = ?w1\<lparr>w_users := w_users ?w1 @ [u]\<rparr> \<and> users_by_email ?w1 (nu_email n) = None"
    then obtain n u where u: "r1 = Inr (ac_sign ac u, toPublicUser u)" "check_registration ac ?rg ?w1 = Inr n"
        "made_from nid n u" "w2 = ?w1\<lparr>w_users := w_users ?w1 @ [u]\<rparr>" "users_by_email ?w1 (nu_email n) = None" by blast
    have "u_role u = Admin" "u_college u = Some cid"
      using check_registration_Inr [OF u(2)] u(3) assms(3) show_nat_nonempty [of cid]
      by (auto simp: made_from_def parse_role_def registration_college_def trim_college_def)
    moreover have "users_by_email w (u_email u) = None"
      using u(3,5) by (simp add: made_from_def users_by_email_def)
    moreover have "(\<exists>e. r = Inl e \<and> w' = w) \<or> (r = r1 \<and> w' = w2)" using run u(1) by auto
    moreover have "w2 = w\<lparr>w_colleges := w_colleges w @ [?col], w_users := w_users w @ [u]\<rparr>" using u(4) by simp
    moreover have "co_id ?col = cid" "co_plan ?col = ''free''" "\<not> slug_used w (co_slug ?col)"
      using free by (simp_all add: new_college_def)
    ultimately show ?thesis using u(1) by blast
  qed
qed

lemma signup_atomic_witness:
  "\<exists>t p (w' :: world). signup sample_account_services 7 70 0 (JStr ''My College'') (JStr ''N'') (JStr ''N@x.y'') (JStr ''pw'')
       empty_world = (Inr (t, p), w') \<and> length (w_colleges w') = 1 \<and> length (w_users w') = 1"
proof -
  have "is_ok (fst (signup sample_account_services 7 70 0 (JStr ''My College'') (JStr ''N'') (JStr ''N@x.y'') (JStr ''pw'')
       empty_world))" by code_simp
  then obtain t p w' where run: "signup sample_account_services 7 70 0 (JStr ''My College'') (JStr ''N'') (JStr ''N@x.y'')
      (JStr ''pw'') empty_world = (Inr (t, p), w')"
    by (auto simp: is_ok_iff prod_eq_iff)
  from signup_atomic [OF run] run show ?thesis
    by (auto simp: colleges_find_def empty_world_def sample_account_services_def)
qed

subsection \<open>Login\<close>

definition bad_credentials :: js_error where
  "bad_credentials = HttpError 401 ''Invalid credentials'' (JObj [(''message'', JStr ''Invalid credentials'')])"

lemma login_answer:
  "fst (login ac ok now info (JStr em) (JStr pw) w) =
     (case users_by_email w (js_lower em) of
        Some u \<Rightarrow> if ac_compare ac pw (u_password u) then Inr (ac_sign ac u, toPublicUser u) else Inl bad_credentials
      | None \<Rightarrow> Inl bad_credentials) \<and>
   (\<exists>logs. snd (login ac ok now info (JStr em) (JStr pw) w) = w\<lparr>w_logs := logs\<rparr>)"
proof -
  have log: "\<exists>logs. logEvent ok now e uid d info w = w\<lparr>w_logs := logs\<rparr>" for e uid d
    by (cases ok) (auto simp: logEvent_def intro: exI [of _ "w_logs w"])
  show ?thesis
    by (auto simp: login_def bad_credentials_def Let_def log split: option.splits bool.splits)
qed

text \<open>With an address and a password that are strings, a login succeeds exactly when a user with that address,
  in whatever case it is written, exists and the password matches; every failure gives the same answer, so
  the answer does not tell an unknown address from a wrong password, and nothing but the audit log changes.\<close>

theorem login_uniform:
  "fst (login ac ok now info (JStr em) (JStr pw) w) =
     (case users_by_email w (js_lower em) of
        Some u \<Rightarrow> if ac_compare ac pw (u_password u) then Inr (ac_sign ac u, toPublicUser u) else Inl bad_credentials
      | None \<Rightarrow> Inl bad_credentials) \<and>
   (\<exists>logs. snd (login ac ok now info (JStr em) (JStr pw) w) = w\<lparr>w_logs := logs\<rparr>)"
  by (rule login_answer)

text \<open>C17: whoever has been registered can log in with the registered password and with the address in any case,
  and gets the same token and profile; the registration added exactly that user, and no user had the address
  before. (\<open>ac_compare\<close> accepts what \<open>ac_hash\<close> made, as bcrypt documents.)\<close>

theorem register_then_login:
  assumes "register ac nid now rg w = (Inr (t, p), w')" and "rg_email rg = JStr em" and "rg_password rg = JStr pw"
    and "\<forall>x. ac_compare ac x (ac_hash ac x)" and "js_lower em' = js_lower em"
  shows "fst (login ac ok now' info (JStr em') (JStr pw) w') = Inr (t, p) \<and>
         (\<exists>u. w' = w\<lparr>w_users := w_users w @ [u]\<rparr> \<and> u_id u = nid \<and> u_email u = js_lower em) \<and>
         users_by_email w (js_lower em) = None"
proof -
  from register_cases [OF assms(1)] obtain n u where u: "t = ac_sign ac u" "p = toPublicUser u"
      "check_registration ac rg w = Inr n" "made_from nid n u" "w' = w\<lparr>w_users := w_users w @ [u]\<rparr>"
      "users_by_email w (nu_email n) = None" by auto
  from check_registration_Inr [OF u(3)] assms(2,3) u(4)
  have e: "u_email u = js_lower em" "u_password u = ac_hash ac pw" "nu_email n = js_lower em" "u_id u = nid"
    by (auto simp: made_from_def)
  have "users_by_email w' (js_lower em') = Some u"
    using u(5,6) e assms(5) by (simp add: users_by_email_def find_append)
  then show ?thesis using assms(4) u e by (simp add: login_answer) blast
qed

lemma register_then_login_witness:
  "\<exists>t p (w' :: world). register sample_account_services 70 0 \<lparr>rg_name = JStr ''N'', rg_email = JStr ''N@x.y'', rg_password = JStr ''pw'',
      rg_role = JUndef, rg_college = JUndef, rg_usn = JUndef, rg_section = JUndef\<rparr> empty_world = (Inr (t, p), w')
    \<and> fst (login sample_account_services True 5 \<lparr>ai_ip = None, ai_agent = None\<rparr> (JStr ''n@X.Y'') (JStr ''pw'') w') = Inr (t, p)"
proof -
  let ?rg = "\<lparr>rg_name = JStr ''N'', rg_email = JStr ''N@x.y'', rg_password = JStr ''pw'',
      rg_role = JUndef, rg_college = JUndef, rg_usn = JUndef, rg_section = JUndef\<rparr>"
  have "is_ok (fst (register sample_account_services 70 0 ?rg empty_world))" by code_simp
  then obtain t p w' where run: "register sample_account_services 70 0 ?rg empty_world = (Inr (t, p), w')"
    by (auto simp: is_ok_iff prod_eq_iff)
  have "js_lower ''n@X.Y'' = js_lower ''N@x.y''" by code_simp
  with register_then_login [OF run, of "''N@x.y''" "''pw''" "''n@X.Y''" True 5 "\<lparr>ai_ip = None, ai_agent = None\<rparr>"] run
  show ?thesis by (auto simp: sample_account_services_def)
qed

end
