(* ===== verification/Api.thy ===== *)
theory Api
  imports Admin_Api Start_Race Account_Laws
begin

section \<open>The whole API: from the request to the database\<close>

text \<open>
  A request passes the CSRF check, the guards of its route (theory \<open>Access\<close>) and then the handler, of which this
  theory takes what it does to the database. \<open>app\<close> collects the parameters of all components, \<open>call\<close> what is
  particular to one request: fresh ids, its readings of the clock, whether its log entry is written.
\<close>

subsection \<open>Path parameters\<close>

fun bind_params :: "segment list \<Rightarrow> string list \<Rightarrow> (string \<times> string) list" where
  "bind_params (Lit s # ss) (p # ps) = bind_params ss ps"
| "bind_params (Param x # ss) (p # ps) = (x, p) # bind_params ss ps"
| "bind_params _ _ = []"

definition path_params :: "request \<Rightarrow> (string \<times> string) list" where
  "path_params req =
     (case api_path (rq_path req) of
        Some (p # ps) \<Rightarrow>
          (case find (\<lambda>m. js_lower (prefix m) = js_lower p) mounts of
             Some m \<Rightarrow> (case find_route (routes m) (rq_method req) ps of
                          Some r \<Rightarrow> bind_params (segments r) ps
                        | None \<Rightarrow> [])
           | None \<Rightarrow> [])
      | _ \<Rightarrow> [])"

subsection \<open>The parameters of the application\<close>

record app =
  ap_env :: environment
  ap_id :: "string \<Rightarrow> oid option"
  ap_accounts :: account_services
  ap_submit :: submit_env
  ap_preview :: preview_env
  ap_submission :: "jsval \<Rightarrow> oid \<Rightarrow> submit_request"
  ap_new_problem :: "jsval \<Rightarrow> problem result"
  ap_cast_problem :: "jsval \<Rightarrow> (problem \<Rightarrow> problem) result"
  ap_new_question :: "jsval \<Rightarrow> question result"
  ap_cast_question :: "jsval \<Rightarrow> (question \<Rightarrow> question) result"
  ap_date :: "string \<Rightarrow> time option"
  ap_new_assessment :: "jsval \<Rightarrow> oid option \<Rightarrow> jsval \<Rightarrow> assessment result"
  ap_cast_assessment :: "jsval \<Rightarrow> (assessment \<Rightarrow> assessment) result"
  ap_cast_text :: "jsval \<Rightarrow> jsval result"
  ap_shuffle :: "oid list \<Rightarrow> oid list"
  ap_codecs :: codecs
  ap_price :: jsval
  ap_month :: "time \<Rightarrow> time"
  ap_stripe :: stripe
  ap_event :: "request \<Rightarrow> string + string \<times> jsval"
  ap_cast_id :: "jsval \<Rightarrow> oid result"
  ap_cast_str :: "jsval \<Rightarrow> string result"

record call =
  cl_ids :: "nat \<Rightarrow> oid"
  cl_clock :: clock
  cl_log_ok :: bool
  cl_info :: audit_info
  cl_password :: string
  cl_request_id :: string

subsection \<open>What the handlers do to the database\<close>

text \<open>
  A path parameter that is no object id makes the query of the handler fail before anything is written. A handler
  that needs a user has one, or fails when it reads a field of \<^verbatim>\<open>req.user\<close>.
\<close>

definition on_id :: "app \<Rightarrow> string \<Rightarrow> request \<Rightarrow> (oid \<Rightarrow> world \<Rightarrow> world) \<Rightarrow> world \<Rightarrow> world" where
  "on_id ap k req f w =
     (case Option.bind (map_of (path_params req) k) (ap_id ap) of None \<Rightarrow> w | Some i \<Rightarrow> f i w)"

definition as_user :: "request \<Rightarrow> (auth \<Rightarrow> world \<Rightarrow> world) \<Rightarrow> world \<Rightarrow> world" where
  "as_user req f w = (case rq_user req of None \<Rightarrow> w | Some u \<Rightarrow> f u w)"

text \<open>\<^verbatim>\<open>req.query.assessmentId || null\<close>, cast when the submissions are looked up.\<close>

definition on_assessment :: "app \<Rightarrow> request \<Rightarrow> (oid option \<Rightarrow> world \<Rightarrow> world) \<Rightarrow> world \<Rightarrow> world" where
  "on_assessment ap req f w =
     (let v = oget (rq_query req) ''assessmentId'' in
      if \<not> truthy v then f None w
      else (case ap_cast_id ap v of Inl e \<Rightarrow> w | Inr i \<Rightarrow> f (Some i) w))"

type_synonym handlers = "(string \<times> (request \<Rightarrow> world \<Rightarrow> world)) list"

definition problem_handlers :: "app \<Rightarrow> call \<Rightarrow> handlers" where
  "problem_handlers ap cl =
     [(''createProblem'', \<lambda>req w.
         snd (api_createProblem (ap_preview ap) (ap_new_problem ap) (cl_clock cl 0) (rq_body req) w)),
      (''updateProblem'', \<lambda>req. on_id ap ''_id'' req (\<lambda>i w.
         snd (api_updateProblem (ap_preview ap) (ap_cast_problem ap) (cl_clock cl 0) i (rq_body req) w))),
      (''deleteProblem'', \<lambda>req. on_id ap ''_id'' req (\<lambda>i w. snd (api_deleteProblem i w)))]"

definition question_handlers :: "app \<Rightarrow> call \<Rightarrow> handlers" where
  "question_handlers ap cl =
     [(''createQuestion'', \<lambda>req w. snd (api_createQuestion (ap_new_question ap) (rq_body req) (rq_user req) w)),
      (''updateQuestion'', \<lambda>req. as_user req (\<lambda>u. on_id ap ''_id'' req (\<lambda>i w.
         snd (api_updateQuestion (ap_cast_question ap) i (rq_body req) u w)))),
      (''deleteQuestion'', \<lambda>req. as_user req (\<lambda>u. on_id ap ''_id'' req (\<lambda>i w. snd (api_deleteQuestion i u w))))]"

definition submission_handlers :: "app \<Rightarrow> call \<Rightarrow> handlers" where
  "submission_handlers ap cl =
     [(''submitSolution'', \<lambda>req w.
         snd (api_submitSolution (ap_submit ap) (cl_ids cl 0) (ap_submission ap (rq_body req)) (rq_user req) (cl_clock cl) w)),
      (''getSubmissionById'', \<lambda>req. on_id ap ''_id'' req (\<lambda>i w.
         snd (api_getSubmissionById i (rq_user req) (cl_clock cl) w)))]"

definition assessment_handlers :: "app \<Rightarrow> call \<Rightarrow> handlers" where
  "assessment_handlers ap cl =
     [(''createAssessment'', \<lambda>req. as_user req (\<lambda>u w.
         snd (api_createAssessment (ap_date ap) (ap_new_assessment ap) (rq_body req) u w))),
      (''updateAssessment'', \<lambda>req. as_user req (\<lambda>u. on_id ap ''_id'' req (\<lambda>i w.
         snd (api_updateAssessment (ap_date ap) (ap_cast_assessment ap) i (rq_body req) u w)))),
      (''deleteAssessment'', \<lambda>req. as_user req (\<lambda>u. on_id ap ''_id'' req (\<lambda>i w. snd (api_deleteAssessment i u w)))),
      (''lockAssessment'', \<lambda>req. as_user req (\<lambda>u. on_id ap ''_id'' req (\<lambda>i w. snd (api_lockAssessment i u w)))),
      (''unlockAssessment'', \<lambda>req. as_user req (\<lambda>u. on_id ap ''_id'' req (\<lambda>i w. snd (api_unlockAssessment i u w)))),
      (''createAnnouncement'', \<lambda>req. as_user req (\<lambda>u. on_id ap ''_id'' req (\<lambda>i w.
         snd (api_createAnnouncement i (rq_body req) u (cl_clock cl) w)))),
      (''addGraceTime'', \<lambda>req. as_user req (\<lambda>u. on_id ap ''attemptId'' req (\<lambda>i w.
         snd (api_addGraceTime i (rq_body req) u (cl_clock cl) w)))),
      (''resolveChallenge'', \<lambda>req. as_user req (\<lambda>u. on_id ap ''attemptId'' req (\<lambda>i w.
         snd (api_resolveChallenge (ap_cast_text ap) i (rq_body req) u (cl_clock cl) w))))]"

definition attempt_handlers :: "app \<Rightarrow> call \<Rightarrow> handlers" where
  "attempt_handlers ap cl =
     [(''startAssessment'', \<lambda>req. as_user req (\<lambda>u. on_id ap ''_id'' req (\<lambda>i w.
         snd (api_startAssessment (ap_shuffle ap) (cl_ids cl 0) i u (cl_log_ok cl) (cl_clock cl) (cl_info cl) w)))),
      (''submitAssessment'', \<lambda>req. as_user req (\<lambda>u. on_id ap ''attemptId'' req (\<lambda>i w.
         snd (api_submitAssessment i u (cl_log_ok cl) (cl_clock cl) (cl_info cl) w)))),
      (''logAntiCheatingEvent'', \<lambda>req. as_user req (\<lambda>u. on_id ap ''attemptId'' req (\<lambda>i w.
         snd (api_logAntiCheatingEvent i (rq_body req) u (cl_clock cl) w)))),
      (''getAssessmentAttemptById'', \<lambda>req. as_user req (\<lambda>u. on_id ap ''attemptId'' req (\<lambda>i w.
         snd (api_getAssessmentAttemptById i u (cl_clock cl) w)))),
      (''saveDraft'', \<lambda>req. as_user req (\<lambda>u. on_id ap ''attemptId'' req (\<lambda>i w.
         snd (api_saveDraft i (rq_body req) u w)))),
      (''raiseChallenge'', \<lambda>req. as_user req (\<lambda>u. on_id ap ''attemptId'' req (\<lambda>i w.
         snd (api_raiseChallenge (ap_cast_text ap) i (rq_body req) u (cl_clock cl) w))))]"

definition account_handlers :: "app \<Rightarrow> call \<Rightarrow> handlers" where
  "account_handlers ap cl =
     [(''register'', \<lambda>req w. snd (api_register (ap_accounts ap) (cl_ids cl 0) (cl_clock cl 0) (rq_body req) w)),
      (''resetPassword'', \<lambda>req. as_user req (\<lambda>u. on_id ap ''userId'' req (\<lambda>i w.
         snd (api_resetPassword (ap_accounts ap) (cl_log_ok cl) (cl_clock cl 0) (cl_info cl) i (rq_body req) u w)))),
      (''bulkImportStudents'', \<lambda>req. as_user req (\<lambda>u w.
         snd (api_bulkImportStudents (ap_accounts ap) (cl_ids cl) (cl_clock cl 0) (rq_body req) u w)))]"

definition system_handlers :: "app \<Rightarrow> call \<Rightarrow> handlers" where
  "system_handlers ap cl =
     [(''rejudgeSubmission'', \<lambda>req. as_user req (\<lambda>u. on_id ap ''submissionId'' req (\<lambda>i w.
         snd (api_rejudgeSubmission (cl_log_ok cl) (cl_clock cl 0) (cl_info cl) i u w)))),
      (''rejudgeProblem'', \<lambda>req. as_user req (\<lambda>u. on_id ap ''problemId'' req (\<lambda>i. on_assessment ap req (\<lambda>aid w.
         snd (api_rejudgeProblem (cl_log_ok cl) (cl_clock cl 0) (cl_info cl) i aid u w))))),
      (''rejudgeAssessment'', \<lambda>req. as_user req (\<lambda>u. on_id ap ''assessmentId'' req (\<lambda>i w.
         snd (api_rejudgeAssessment (cl_log_ok cl) (cl_clock cl 0) (cl_info cl) i u w)))),
      (''updateBanner'', \<lambda>req. as_user req (\<lambda>u w.
         snd (api_updateBanner (cl_log_ok cl) (cl_clock cl 0) (cl_info cl) (rq_body req) u w))),
      (''backup'', \<lambda>req. as_user req (\<lambda>u w.
         snd (api_backup (ap_codecs ap) (cl_log_ok cl) (cl_clock cl 0) (cl_info cl) u w))),
      (''restore'', \<lambda>req. as_user req (\<lambda>u w.
         snd (api_restore (ap_codecs ap) (cl_log_ok cl) (cl_clock cl 0) (cl_info cl) (rq_body req) u w)))]"

definition partner_handlers :: "app \<Rightarrow> call \<Rightarrow> handlers" where
  "partner_handlers ap cl =
     [(''syncProblem'', \<lambda>req w. snd (api_syncProblem (cl_ids cl 0) (cl_clock cl 0) (rq_body req) w)),
      (''arventiqSubmit'', \<lambda>req w.
         snd (api_arventiqSubmit (ap_submit ap) (cl_ids cl 0) (rq_user req) (rq_body req) (Some (cl_request_id cl)) (cl_clock cl) w)),
      (''getSubmissionResult'', \<lambda>req. on_id ap ''_id'' req (\<lambda>i w.
         snd (api_getArventiqResult i (rq_user req) (cl_clock cl) w))),
      (''checkout'', \<lambda>req. as_user req (\<lambda>u w. snd (api_checkout (ap_price ap) (ap_stripe ap) (rq_body req) u w))),
      (''setCollegePlan'', \<lambda>req. on_id ap ''collegeId'' req (\<lambda>i w.
         snd (api_setCollegePlan (ap_price ap) (ap_month ap) (cl_clock cl 0) i (rq_body req) w)))]"

text \<open>Handlers without a guard for the role; the \<open>production\<close> flag of a cookie does not matter for the database.\<close>

definition public_writers :: "app \<Rightarrow> call \<Rightarrow> handlers" where
  "public_writers ap cl =
     [(''signup'', \<lambda>req w.
         snd (api_signup True (ap_accounts ap) (cl_ids cl 0) (cl_ids cl 1) (cl_clock cl 0) (rq_body req) w)),
      (''login'', \<lambda>req w.
         snd (api_login True (ap_accounts ap) (cl_log_ok cl) (cl_clock cl 0) (cl_info cl) (rq_body req) w)),
      (''stripeWebhook'', \<lambda>req w. snd (stripe_webhook (ap_stripe ap) (ap_cast_id ap) (ap_cast_str ap) (ap_event ap req) w))]"

text \<open>The handlers that write, those behind a role or a shared secret first; all others only read.\<close>

definition staff_handlers :: "app \<Rightarrow> call \<Rightarrow> handlers" where
  "staff_handlers ap cl =
     problem_handlers ap cl @ question_handlers ap cl @ assessment_handlers ap cl @ account_handlers ap cl @
     system_handlers ap cl @ partner_handlers ap cl"

definition open_handlers :: "app \<Rightarrow> call \<Rightarrow> handlers" where
  "open_handlers ap cl = submission_handlers ap cl @ attempt_handlers ap cl @ public_writers ap cl"

definition handler_table :: "app \<Rightarrow> call \<Rightarrow> handlers" where
  "handler_table ap cl = staff_handlers ap cl @ open_handlers ap cl"

definition run_handler :: "app \<Rightarrow> call \<Rightarrow> string \<Rightarrow> request \<Rightarrow> world \<Rightarrow> world" where
  "run_handler ap cl h req w = (case map_of (handler_table ap cl) h of Some f \<Rightarrow> f req w | None \<Rightarrow> w)"

definition api_request :: "app \<Rightarrow> call \<Rightarrow> request \<Rightarrow> world \<Rightarrow> world" where
  "api_request ap cl req w =
     (case serve (ap_env ap) (cl_ids cl 2) (cl_password cl) (cl_clock cl 9) req w of
        (Inl _, w') \<Rightarrow> w'
      | (Inr (h, req'), w') \<Rightarrow> run_handler ap cl h req' w')"

subsection \<open>What only staff can change\<close>

text \<open>The catalogue (problems, questions, assessments, settings) is as before, and so are all accounts but new ones.\<close>

definition catalogue_kept :: "world \<Rightarrow> world \<Rightarrow> bool" where
  "catalogue_kept w w' \<longleftrightarrow>
     w_problems w' = w_problems w \<and> w_questions w' = w_questions w \<and> w_assessments w' = w_assessments w \<and>
     w_settings w' = w_settings w \<and> (\<exists>us. w_users w' = w_users w @ us)"

named_theorems kept "operations that leave the catalogue and the accounts alone"

lemma kept_refl [kept, simp]: "catalogue_kept w w"
  by (simp add: catalogue_kept_def)

lemma kept_trans: "catalogue_kept w w1 \<Longrightarrow> catalogue_kept w1 w2 \<Longrightarrow> catalogue_kept w w2"
  by (auto simp: catalogue_kept_def)

lemma kept_attempts [simp]: "catalogue_kept w (w'\<lparr>w_attempts := ats\<rparr>) = catalogue_kept w w'"
  by (simp add: catalogue_kept_def)

lemma kept_redis [simp]: "catalogue_kept w (w'\<lparr>w_redis := rd\<rparr>) = catalogue_kept w w'"
  by (simp add: catalogue_kept_def)

lemma kept_submissions [simp]: "catalogue_kept w (w'\<lparr>w_submissions := ss\<rparr>) = catalogue_kept w w'"
  by (simp add: catalogue_kept_def)

lemma kept_queue [simp]: "catalogue_kept w (w'\<lparr>w_queue := q\<rparr>) = catalogue_kept w w'"
  by (simp add: catalogue_kept_def)

lemma kept_colleges [simp]: "catalogue_kept w (w'\<lparr>w_colleges := cs\<rparr>) = catalogue_kept w w'"
  by (simp add: catalogue_kept_def)

lemma kept_log [simp]: "catalogue_kept w (logEvent ok t e u d info w') = catalogue_kept w w'"
  by (simp add: catalogue_kept_def logEvent_def)

lemma kept_new_user: "catalogue_kept w w' \<Longrightarrow> catalogue_kept w (w'\<lparr>w_users := w_users w' @ [u]\<rparr>)"
  by (auto simp: catalogue_kept_def)

lemma kept_update [kept, simp]: "catalogue_kept w (snd (attempts_update i f s w')) = catalogue_kept w w'"
  by (simp add: attempts_update_def)

lemma kept_recalculate [kept, simp]: "catalogue_kept w (snd (recalculateAttemptScore i w))"
  using recalculate_cases [of i w "fst (recalculateAttemptScore i w)" "snd (recalculateAttemptScore i w)"] by auto

lemma kept_finish [kept, simp]: "catalogue_kept w (snd (finish_attempt i a s u ok clk info w))"
proof -
  obtain r w1 where r: "recalculateAttemptScore i w = (r, w1)" by fastforce
  then have "catalogue_kept w w1" using kept_recalculate [of w i] by simp
  with r show ?thesis
    by (cases r) (auto simp: finish_attempt_def Let_def case_prod_beta split: option.splits)
qed

lemma kept_submitAssessment [kept]: "catalogue_kept w (snd (submitAssessment i u ok clk info w))"
  by (auto simp: submitAssessment_def split: option.splits sum.splits)

lemma kept_observe [kept]: "catalogue_kept w (snd (logAntiCheatingEvent i ty u clk w))"
  by (auto simp: logAntiCheatingEvent_def fst_snd_case split: option.splits sum.splits)

lemma kept_draft [kept]: "catalogue_kept w (snd (saveDraft i d u w))"
  by (auto simp: saveDraft_def fst_snd_case split: option.splits sum.splits)

lemma kept_grace [kept]: "catalogue_kept w (snd (addGraceTime i m u clk w))"
  by (auto simp: addGraceTime_def fst_snd_case Let_def split: option.splits sum.splits)

lemma kept_raise [kept]: "catalogue_kept w (snd (raiseChallenge cast i r u clk w))"
  by (auto simp: raiseChallenge_def fst_snd_case split: option.splits sum.splits)

lemma kept_resolve [kept]: "catalogue_kept w (snd (resolveChallenge cast i v c u clk w))"
  by (auto simp: resolveChallenge_def fst_snd_case split: option.splits sum.splits prod.splits)

lemma kept_start [kept]: "catalogue_kept w (snd (startAssessment shuffle nid i u ok clk info w))"
  by (auto simp: startAssessment_def start_write_def attempts_create_def split: start_decision.splits option.splits prod.splits)

lemma kept_view [kept]: "catalogue_kept w (snd (getAssessmentAttemptById i u clk w))"
proof -
  have "catalogue_kept w w1 \<Longrightarrow> recalculateAttemptScore i w1 = (r, w2) \<Longrightarrow> catalogue_kept w w2" for w1 w2 r
    using kept_trans [of w w1 w2] kept_recalculate [of w1 i] by simp
  moreover have "catalogue_kept w (view_timeout t i a s w)" for t a s by (simp add: view_timeout_def)
  ultimately show ?thesis
    by (auto simp: getAssessmentAttemptById_def Let_def split: option.splits sum.splits prod.splits) blast+
qed

lemma kept_submitSolution [kept]: "catalogue_kept w (snd (submitSolution env nid rq clk w))"
proof -
  obtain r1 w1 where v: "validateAssessmentSubmission rq (clk 0) w = (r1, w1)" by fastforce
  obtain r2 w2 where q: "check_quotas env rq clk w1 = (r2, w2)" by fastforce
  obtain r3 w3 where c: "create_submission env nid rq clk w2 = (r3, w3)" by fastforce
  have "catalogue_kept w w1" using validate_Inl_frame [OF v] by auto
  moreover have "catalogue_kept w1 w2" using check_quotas_frame [OF q] by auto
  moreover have "catalogue_kept w2 w3" by (cases rule: create_submission_cases [OF c]) simp_all
  ultimately have "catalogue_kept w w1" "catalogue_kept w w2" "catalogue_kept w w3"
    by (blast intro: kept_trans)+
  moreover have "snd (submitSolution env nid rq clk w) \<in> {w1, w2, w3}"
    by (simp add: submitSolution_def v q c split: sum.split)
  ultimately show ?thesis by auto
qed

lemma kept_getSubmission [kept]: "catalogue_kept w (snd (getSubmissionById i v clk w))"
  by (auto simp: getSubmissionById_def setCacheJSON_def Let_def split: option.splits)

lemma kept_register: "catalogue_kept w (snd (register ac nid now rg w))"
proof -
  obtain r w' where "register ac nid now rg w = (r, w')" by fastforce
  with register_cases [OF this] show ?thesis by (auto intro: kept_new_user)
qed

lemma kept_signup [kept]: "catalogue_kept w (snd (signup ac cid nid now cn name email pw w))"
proof -
  have "register ac nid now rg w1 = (r, w2) \<Longrightarrow> catalogue_kept w w1 \<Longrightarrow> catalogue_kept w w2" for rg w1 r w2
    using kept_register [of w1 ac nid now rg] kept_trans by fastforce
  then show ?thesis
    by (auto simp: signup_def colleges_create_def colleges_delete_def split: sum.splits prod.splits)
qed

lemma kept_login [kept]: "catalogue_kept w (snd (login ac ok now info email pw w))"
proof (cases "\<exists>em p. email = JStr em \<and> pw = JStr p")
  case True
  then obtain em p where "email = JStr em" "pw = JStr p" by blast
  with login_answer [of ac ok now info em p w] show ?thesis by (auto simp: catalogue_kept_def)
next
  case False
  then show ?thesis by (cases email; cases pw) (simp_all add: login_def)
qed

lemma kept_webhook [kept]: "catalogue_kept w (snd (stripe_webhook st cast_id cast_str v w))"
  by (auto simp: stripe_webhook_def handleStripeEvent_def checkout_completed_def subscription_updated_def
      subscription_deleted_def colleges_save_def Let_def split: sum.splits prod.splits option.splits if_splits)

text \<open>A non-empty password, a body without the field and a missing user leave everything as it is.\<close>

lemma kept_with_body: "(\<And>v. catalogue_kept w (snd (f v w))) \<Longrightarrow> catalogue_kept w (snd (with_body k f body w))"
  by (simp add: with_body_def)

lemma kept_on_id: "(\<And>i. catalogue_kept w (f i w)) \<Longrightarrow> catalogue_kept w (on_id ap k req f w)"
  by (simp add: on_id_def split: option.splits)

lemma kept_as_user: "(\<And>u. catalogue_kept w (f u w)) \<Longrightarrow> catalogue_kept w (as_user req f w)"
  by (simp add: as_user_def split: option.splits)

lemma kept_submit_handler [kept]: "catalogue_kept w (snd (api_submitSolution env nid rq u clk w))"
  using kept_submitSolution by (auto simp: api_submitSolution_def split: option.splits)

lemma attempt_handlers_keep: "(h, f) \<in> set (attempt_handlers ap cl) \<Longrightarrow> catalogue_kept w (f req w)"
  by (auto simp: attempt_handlers_def api_startAssessment_def api_submitAssessment_def
      api_logAntiCheatingEvent_def api_getAssessmentAttemptById_def api_saveDraft_def api_raiseChallenge_def
      intro!: kept kept_with_body kept_on_id kept_as_user)

lemma open_handlers_keep: "(h, f) \<in> set (open_handlers ap cl) \<Longrightarrow> catalogue_kept w (f req w)"
  using attempt_handlers_keep [of h f ap cl w req]
  by (auto simp: open_handlers_def submission_handlers_def public_writers_def api_getSubmissionById_def
      api_signup_def api_login_def intro!: kept kept_on_id)

subsection \<open>Who reaches the other handlers\<close>

definition staff_names :: "string list" where
  "staff_names =
     [''createProblem'', ''updateProblem'', ''deleteProblem'', ''createQuestion'', ''updateQuestion'', ''deleteQuestion'',
      ''createAssessment'', ''updateAssessment'', ''deleteAssessment'', ''lockAssessment'', ''unlockAssessment'',
      ''createAnnouncement'', ''addGraceTime'', ''resolveChallenge'', ''register'', ''resetPassword'',
      ''bulkImportStudents'', ''rejudgeSubmission'', ''rejudgeProblem'', ''rejudgeAssessment'', ''updateBanner'',
      ''backup'', ''restore'', ''syncProblem'', ''arventiqSubmit'', ''getSubmissionResult'', ''checkout'', ''setCollegePlan'']"

lemma staff_handlers_names: "map fst (staff_handlers ap cl) = staff_names"
  by (simp add: staff_handlers_def problem_handlers_def question_handlers_def assessment_handlers_def
      account_handlers_def system_handlers_def partner_handlers_def staff_names_def)

fun staff_guards :: "guard list \<Rightarrow> bool" where
  "staff_guards (VerifyService # gs) = True"
| "staff_guards (VerifyArventiq # gs) = True"
| "staff_guards (VerifyToken # AuthorizeRoles rs # gs) = (Student \<notin> set rs)"
| "staff_guards _ = False"

lemma staff_routes:
  "list_all (\<lambda>m. list_all (\<lambda>r. handler r \<in> set staff_names \<longrightarrow> staff_guards (mount_guards m @ guards r)) (routes m)) mounts"
  by code_simp

text \<open>A token of an account that is not a student's, or one of the two secrets of the partner systems.\<close>

definition staff_credential :: "environment \<Rightarrow> request \<Rightarrow> bool" where
  "staff_credential env req \<longleftrightarrow>
     (\<exists>u. token_verified env req u \<and> au_role u \<noteq> Student) \<or>
     safeCompare (rq_service_key req) (ev_service_key env) \<or>
     safeCompare (arventiq_token req) (ev_arventiq_secret env)"

lemma staff_guards_pass:
  assumes "run_guards env nid pw now gs req w = (Inr req', w')" and "staff_guards gs"
  shows "staff_credential env req"
  using assms(2,1)
proof (cases gs rule: staff_guards.cases)
  case (3 rs rest)
  with assms(1) obtain req1 where t: "verifyToken env req = Inr req1" and a: "authorizeRoles rs req1 = Inr req1"
    by (auto split: sum.splits dest: authorizeRoles_Inr)
  from verifyToken_Inr [OF t] obtain u where "rq_user req1 = Some u" "token_verified env req u" by blast
  moreover from authorizeRoles_Inr [OF a] calculation(1) have "au_role u \<in> set rs" by auto
  ultimately show ?thesis using assms(2) 3 by (auto simp: staff_credential_def)
qed (auto simp: staff_credential_def verifyService_def split: if_splits prod.splits sum.splits)

lemma run_guard_keeps: "catalogue_kept w (snd (run_guard env nid pw now g req w))"
proof (cases g)
  case VerifyArventiq
  have "catalogue_kept w (snd (getOrCreateServiceUserId nid pw now w))"
    by (auto simp: getOrCreateServiceUserId_def users_create_def split: option.splits intro: kept_new_user)
  with VerifyArventiq show ?thesis by (auto split: prod.splits sum.splits)
qed simp_all

lemma run_guards_keep: "catalogue_kept w (snd (run_guards env nid pw now gs req w))"
proof (induction gs arbitrary: req w)
  case (Cons g gs)
  obtain r w1 where g: "run_guard env nid pw now g req w = (r, w1)" by fastforce
  have "catalogue_kept w w1" using run_guard_keeps [of w env nid pw now g req] g by simp
  with Cons.IH [of w1] g show ?case by (auto split: sum.splits intro: kept_trans)
qed simp

lemma serve_keeps: "catalogue_kept w (snd (serve env nid pw now req w))"
proof -
  have "catalogue_kept w (snd (serve_mount env nid pw now m ps req w))" for m ps
  proof -
    obtain r w1 where g: "run_guards env nid pw now (mount_guards m) req w = (r, w1)" by fastforce
    have "catalogue_kept w w1" using run_guards_keep [of w env nid pw now "mount_guards m" req] g by simp
    moreover have "catalogue_kept w1 (snd (run_guards env nid pw now gs req1 w1))" for gs req1
      by (rule run_guards_keep)
    ultimately have "catalogue_kept w (snd (run_guards env nid pw now gs req1 w1))" for gs req1
      using kept_trans by blast
    with g \<open>catalogue_kept w w1\<close> show ?thesis
      by (auto simp: serve_mount_def case_prod_beta split: sum.splits option.splits)
  qed
  then show ?thesis by (auto simp: serve_def split: option.splits list.splits)
qed

lemma staff_handler_guarded:
  assumes "serve env nid pw now req w = (Inr (h, req'), w')" and "h \<in> set staff_names"
  shows "staff_credential env req"
proof -
  from serve_route [OF assms(1)] obtain m r where mr: "m \<in> set mounts" "r \<in> set (routes m)" "handler r = h"
      and g: "run_guards env nid pw now (mount_guards m @ guards r) req w = (Inr req', w')" by blast
  have "staff_guards (mount_guards m @ guards r)"
    using staff_routes mr assms(2) by (fastforce simp: list_all_iff)
  with g show ?thesis by (rule staff_guards_pass)
qed

lemma request_keeps_catalogue:
  assumes "\<not> staff_credential (ap_env ap) req"
  shows "catalogue_kept w (api_request ap cl req w)"
proof -
  obtain r w1 where s: "serve (ap_env ap) (cl_ids cl 2) (cl_password cl) (cl_clock cl 9) req w = (r, w1)" by fastforce
  have w1: "catalogue_kept w w1" using serve_keeps [of w "ap_env ap" "cl_ids cl 2" "cl_password cl" "cl_clock cl 9" req] s by simp
  show ?thesis
  proof (cases r)
    case (Inr hr)
    obtain h req1 where hr: "hr = (h, req1)" by (cases hr)
    have "h \<notin> set (map fst (staff_handlers ap cl))"
      using staff_handler_guarded s assms Inr hr unfolding staff_handlers_names by blast
    then have "map_of (handler_table ap cl) h = map_of (open_handlers ap cl) h"
      by (simp add: handler_table_def map_add_def map_of_eq_None_iff [THEN iffD2] split: option.splits)
    then have "catalogue_kept w1 (run_handler ap cl h req1 w1)"
      using open_handlers_keep map_of_SomeD by (fastforce simp: run_handler_def split: option.splits)
    with w1 kept_trans s Inr hr show ?thesis by (auto simp: api_request_def)
  qed (use w1 s in \<open>simp add: api_request_def\<close>)
qed

text \<open>C2: whatever requests, one or a sequence of them, clients without a staff token and without a partner's secret
  send, with any path, method, headers and body, the problems, questions, assessments and settings stay as they
  are and every account keeps its document, password included; at most new accounts appear.\<close>

theorem catalogue_needs_staff:
  assumes "\<forall>(cl, req) \<in> set rs. \<not> staff_credential (ap_env ap) req"
  shows "catalogue_kept w (fold (\<lambda>(cl, req). api_request ap cl req) rs w)"
  using assms
proof (induction rs arbitrary: w)
  case (Cons x xs)
  obtain cl req where x: "x = (cl, req)" by (cases x)
  with Cons.prems have "catalogue_kept w (api_request ap cl req w)" by (auto intro: request_keeps_catalogue)
  with Cons x show ?case by (auto intro: kept_trans)
qed simp

definition student_env :: environment where
  "student_env = sample_env\<lparr>ev_jwt_verify := (\<lambda>t. if t = ''root'' then Some \<lparr>au_jwt_id = Some 2, au_id = None,
          au_role = Student, au_college = Some 4, au_service = False\<rparr> else None)\<rparr>"

definition no_stripe :: stripe where
  "no_stripe =
     \<lparr>st_key = False, st_webhook = False, st_customer = (\<lambda>c. Inr []), st_checkout = (\<lambda>a b c d. Inr []),
      st_portal = (\<lambda>s. Inr [])\<rparr>"

definition sample_app :: app where
  "sample_app =
     \<lparr>ap_env = student_env, ap_id = (\<lambda>s. Some (nat_of_digits s)), ap_accounts = sample_account_services,
      ap_submit = sample_submit_env, ap_preview = sample_preview_env, ap_submission = (\<lambda>b i. sample_submit\<lparr>sr_user := i\<rparr>),
      ap_new_problem = (\<lambda>v. Inl (DriverError [])), ap_cast_problem = (\<lambda>v. Inr id),
      ap_new_question = (\<lambda>v. Inl (DriverError [])), ap_cast_question = (\<lambda>v. Inr id), ap_date = (\<lambda>s. None),
      ap_new_assessment = (\<lambda>b i c. Inl (DriverError [])), ap_cast_assessment = (\<lambda>v. Inr id), ap_cast_text = Inr,
      ap_shuffle = id, ap_codecs = sample_codecs, ap_price = JUndef, ap_month = id, ap_stripe = no_stripe,
      ap_event = (\<lambda>r. Inl []), ap_cast_id = (\<lambda>v. Inr 0), ap_cast_str = (\<lambda>v. Inr [])\<rparr>"

definition sample_call :: call where
  "sample_call =
     \<lparr>cl_ids = (\<lambda>k. 100 + k), cl_clock = (\<lambda>k. 5), cl_log_ok = True, cl_info = \<lparr>ai_ip = None, ai_agent = None\<rparr>,
      cl_password = [], cl_request_id = []\<rparr>"


text \<open>A student's token does not delete a problem, and a student who starts an assessment leaves it as it is.\<close>

lemma catalogue_needs_staff_witness:
  "w_problems (fold (\<lambda>(cl, req). api_request sample_app cl req)
      [(sample_call, sample_request ''DELETE'' [''api'', ''problems'', ''20'']),
       (sample_call, sample_request ''POST'' [''api'', ''v1'', ''assessments'', ''10'', ''start''])] sample_world)
     = w_problems sample_world"
proof -
  have "\<not> staff_credential (ap_env sample_app) (sample_request m ps)" for m ps
    by (auto simp: staff_credential_def token_verified_def sample_app_def student_env_def sample_env_def
        sample_request_def arventiq_token_def normalizeUser_def starts_with.simps bearer_def split: if_splits)
  then have "\<forall>(cl, req) \<in> set [(sample_call, sample_request ''DELETE'' [''api'', ''problems'', ''20'']),
       (sample_call, sample_request ''POST'' [''api'', ''v1'', ''assessments'', ''10'', ''start''])].
       \<not> staff_credential (ap_env sample_app) req" by simp
  from catalogue_needs_staff [OF this, of sample_world] show ?thesis by (simp add: catalogue_kept_def)
qed

end
