(* ===== verification/Workspace.thy ===== *)
theory Workspace
  imports Submissions
begin

section \<open>The exam page of the browser client\<close>

text \<open>
  \<^verbatim>\<open>frontend/src/pages/AssessmentWorkspace.jsx\<close>: the page a student works in during an attempt, as a state
  machine. The state is the component's state and refs as far as they decide what the page does; an event is a
  browser event, a tick of one of its intervals or the end of a request; a step runs the handler of the event and
  then the effects whose dependencies it changed, and lists the requests that were sent. Markup, notifications and
  the selection listener, which only cancels the browser's default, are left out.
\<close>

subsection \<open>The clock\<close>

text \<open>A number that is not finite arrives as \<^verbatim>\<open>null\<close>, which \<^verbatim>\<open>graceMinutes || 0\<close> turns into 0.\<close>

definition client_grace_ms :: "attempt \<Rightarrow> jsnum" where
  "client_grace_ms a =
     num_mul (num_mul (if is_finite (at_grace a) then at_grace a else Fin 0) (Fin 60)) (Fin 1000)"

definition end_time :: "attempt \<Rightarrow> assessment \<Rightarrow> jsnum" where
  "end_time a s =
     (let durationMs = num_add (Fin (as_duration s * 60 * 1000)) (client_grace_ms a)
      in num_min (num_add (Fin (of_int (at_started a))) durationMs)
           (num_add (Fin (of_int (as_end s))) (client_grace_ms a)))"

fun num_floor :: "jsnum \<Rightarrow> jsnum" where
  "num_floor (Fin q) = Fin (of_int \<lfloor>q\<rfloor>)"
| "num_floor v = v"

text \<open>The two clocks of the browser: \<^verbatim>\<open>Date.now()\<close> and \<^verbatim>\<open>performance.now()\<close>, both in milliseconds.\<close>

record clocks =
  ck_wall :: rat
  ck_perf :: rat

definition effective_now :: "clocks option \<Rightarrow> clocks \<Rightarrow> rat" where
  "effective_now anchor now =
     (case anchor of None \<Rightarrow> ck_wall now | Some c \<Rightarrow> ck_wall c + (ck_perf now - ck_perf c))"

definition computeRemainingSeconds :: "jsnum \<Rightarrow> clocks option \<Rightarrow> clocks \<Rightarrow> jsnum" where
  "computeRemainingSeconds e anchor now =
     num_max (Fin 0) (num_floor (num_mul (num_sub e (Fin (effective_now anchor now))) (Fin (1 / 1000))))"

subsection \<open>State, events and requests\<close>

record workspace =
  ws_error :: "string option"
  ws_result_page :: bool
  ws_finish_started :: bool
  ws_anchor :: "clocks option"
  ws_time_left :: "jsnum option"
  ws_violations :: nat
  ws_tabs :: nat
  ws_copies :: nat
  ws_pastes :: nat
  ws_tab_warning :: bool
  ws_fs_warning :: bool
  ws_fs_reason :: string
  ws_fs_left :: nat
  ws_fs_interval :: bool

text \<open>
  \<open>Key key ctrl shift\<close> is a key press, \<open>Fullscreen on\<close> and \<open>Visibility hidden\<close> are changes of the
  document, \<open>ClockTick\<close> and \<open>CountdownTick\<close> are ticks of the two intervals, \<open>WarningOver\<close> is the five
  second time-out of a warning, \<open>Synced\<close> the answer of a periodic synchronisation.
\<close>

datatype page_event =
    Visibility bool
  | Copy
  | Paste
  | Cut
  | ContextMenu
  | Key string bool bool
  | Fullscreen bool
  | ClockTick
  | CountdownTick
  | WarningOver
  | FinishClicked bool
  | SubmitDone
  | SubmitFailed "string option"
  | Synced attempt assessment clocks

datatype page_request = SubmitAttempt | LogEvent string

type_synonym page_step = "workspace \<Rightarrow> workspace \<times> page_request list"

definition and_then :: "page_step \<Rightarrow> page_step \<Rightarrow> page_step" where
  "and_then f g w = (let (w1, r1) = f w; (w2, r2) = g w1 in (w2, r1 @ r2))"

definition stay :: page_step where
  "stay w = (w, [])"

definition attemptActive :: "workspace \<Rightarrow> bool" where
  "attemptActive w = (case ws_time_left w of None \<Rightarrow> False | Some t \<Rightarrow> num_lt (Fin 0) t)"

subsection \<open>Handlers\<close>

text \<open>\<^verbatim>\<open>finishStartedRef\<close> is set until the request fails.\<close>

definition finishAttempt :: page_step where
  "finishAttempt w =
     (if ws_finish_started w then (w, []) else (w\<lparr>ws_finish_started := True\<rparr>, [SubmitAttempt]))"

definition submit_done :: page_step where
  "submit_done w = (if ws_finish_started w then w\<lparr>ws_result_page := True\<rparr> else w, [])"

definition submit_failed :: "string option \<Rightarrow> page_step" where
  "submit_failed msg w =
     (if ws_finish_started w
      then w\<lparr>ws_finish_started := False,
             ws_error := Some (case msg of
               Some m \<Rightarrow> if m = [] then ''Failed to submit assessment'' else m
             | None \<Rightarrow> ''Failed to submit assessment'')\<rparr>
      else w, [])"

definition recordSecurityViolation :: "string \<Rightarrow> page_step" where
  "recordSecurityViolation eventType w =
     (w\<lparr>ws_violations := ws_violations w + 1, ws_tab_warning := True\<rparr>, [LogEvent eventType])"

definition startSecurityCountdown :: "string \<Rightarrow> page_step" where
  "startSecurityCountdown reason w =
     (w\<lparr>ws_fs_warning := True, ws_fs_reason := reason, ws_fs_left := 20, ws_fs_interval := True\<rparr>, [])"

definition countdown_tick :: page_step where
  "countdown_tick w =
     (if \<not> ws_fs_interval w then (w, [])
      else if ws_fs_left w \<le> 1
      then and_then finishAttempt (\<lambda>v. (v\<lparr>ws_fs_left := 0\<rparr>, [])) (w\<lparr>ws_fs_interval := False\<rparr>)
      else (w\<lparr>ws_fs_left := ws_fs_left w - 1\<rparr>, []))"

text \<open>The interval of the clock exists exactly while the attempt is active.\<close>

definition clock_tick :: page_step where
  "clock_tick w =
     (case ws_time_left w of
        None \<Rightarrow> (w, [])
      | Some t \<Rightarrow>
          if \<not> attemptActive w then (w, [])
          else if num_le t (Fin 1) then and_then finishAttempt (\<lambda>v. (v\<lparr>ws_time_left := Some (Fin 0)\<rparr>, [])) w
          else (w\<lparr>ws_time_left := Some (num_sub t (Fin 1))\<rparr>, []))"

definition count_tab :: page_step where "count_tab w = (w\<lparr>ws_tabs := ws_tabs w + 1\<rparr>, [])"
definition count_copy :: page_step where "count_copy w = (w\<lparr>ws_copies := ws_copies w + 1\<rparr>, [])"
definition count_paste :: page_step where "count_paste w = (w\<lparr>ws_pastes := ws_pastes w + 1\<rparr>, [])"

definition handleVisibilityChange :: "bool \<Rightarrow> page_step" where
  "handleVisibilityChange hidden =
     (if hidden
      then and_then (recordSecurityViolation ''TAB_SWITCH'') (and_then count_tab (startSecurityCountdown ''tab switch''))
      else stay)"

definition handleCopy :: page_step where
  "handleCopy = and_then (recordSecurityViolation ''COPY'') count_copy"

definition handlePaste :: page_step where
  "handlePaste = and_then (recordSecurityViolation ''PASTE'') count_paste"

definition handleCut :: page_step where
  "handleCut = and_then (recordSecurityViolation ''COPY'') count_copy"

definition handleContextMenu :: page_step where
  "handleContextMenu = recordSecurityViolation ''COPY''"

definition isDevToolsShortcut :: "string \<Rightarrow> bool \<Rightarrow> bool \<Rightarrow> bool" where
  "isDevToolsShortcut key ctrl shift \<longleftrightarrow>
     key = ''f12'' \<or> (ctrl \<and> shift \<and> key \<in> set [''i'', ''j'', ''c'']) \<or> (ctrl \<and> key \<in> set [''u'', ''s'', ''p''])"

definition handleKeyDown :: "string \<Rightarrow> bool \<Rightarrow> bool \<Rightarrow> page_step" where
  "handleKeyDown k ctrl shift =
     (let key = js_lower k in
      if isDevToolsShortcut key ctrl shift then recordSecurityViolation ''FULLSCREEN_EXIT''
      else if ctrl \<and> key = ''c'' then and_then (recordSecurityViolation ''COPY'') count_copy
      else if ctrl \<and> key = ''v'' then and_then (recordSecurityViolation ''PASTE'') count_paste
      else if ctrl \<and> key = ''x'' then and_then (recordSecurityViolation ''COPY'') count_copy
      else stay)"

definition handleFullscreenChange :: "bool \<Rightarrow> page_step" where
  "handleFullscreenChange on =
     (if \<not> on then and_then (\<lambda>w. (w, [LogEvent ''FULLSCREEN_EXIT''])) (startSecurityCountdown ''fullscreen exit'')
      else (\<lambda>w. (w\<lparr>ws_fs_warning := False, ws_fs_reason := [], ws_fs_left := 0, ws_fs_interval := False\<rparr>,
                 [LogEvent ''RETURN''])))"

definition synced :: "attempt \<Rightarrow> assessment \<Rightarrow> clocks \<Rightarrow> page_step" where
  "synced a s now w =
     (w\<lparr>ws_time_left := Some (computeRemainingSeconds (end_time a s) (ws_anchor w) now)\<rparr>, [])"

text \<open>The error box replaces the page, and with it the button.\<close>

definition finishAssessment :: "bool \<Rightarrow> page_step" where
  "finishAssessment confirmed w = (if confirmed \<and> ws_error w = None then finishAttempt w else (w, []))"

subsection \<open>Effects and steps\<close>

text \<open>The listeners of the document exist exactly while the attempt is active.\<close>

definition listening :: "page_step \<Rightarrow> page_step" where
  "listening f w = (if attemptActive w then f w else (w, []))"

fun handle :: "page_event \<Rightarrow> page_step" where
  "handle (Visibility hidden) = listening (handleVisibilityChange hidden)"
| "handle Copy = listening handleCopy"
| "handle Paste = listening handlePaste"
| "handle Cut = listening handleCut"
| "handle ContextMenu = listening handleContextMenu"
| "handle (Key k ctrl shift) = listening (handleKeyDown k ctrl shift)"
| "handle (Fullscreen on) = listening (handleFullscreenChange on)"
| "handle ClockTick = clock_tick"
| "handle CountdownTick = countdown_tick"
| "handle WarningOver = (\<lambda>w. (w\<lparr>ws_tab_warning := False\<rparr>, []))"
| "handle (FinishClicked ok) = finishAssessment ok"
| "handle SubmitDone = submit_done"
| "handle (SubmitFailed msg) = submit_failed msg"
| "handle (Synced a s now) = synced a s now"

text \<open>Ten violations end the attempt; when the attempt stops being active, its cleanup drops the countdown.\<close>

definition violation_effect :: "workspace \<Rightarrow> page_step" where
  "violation_effect before w =
     (if ws_violations w \<noteq> ws_violations before \<and> 10 \<le> ws_violations w then finishAttempt w else (w, []))"

definition listener_effect :: "workspace \<Rightarrow> page_step" where
  "listener_effect before w =
     (if attemptActive before \<and> \<not> attemptActive w then w\<lparr>ws_fs_interval := False\<rparr> else w, [])"

definition page :: "page_event \<Rightarrow> page_step" where
  "page ev w =
     (if ws_result_page w then (w, [])
      else and_then (handle ev) (and_then (violation_effect w) (listener_effect w)) w)"

fun run_page :: "page_event list \<Rightarrow> page_step" where
  "run_page [] w = (w, [])"
| "run_page (ev # evs) w = and_then (page ev) (run_page evs) w"

text \<open>
  The initial state of the component, and the page once the attempt and its assessment are loaded: an attempt
  that is not active goes straight to its result; otherwise the anchor of the clock is set.
\<close>

definition blank :: workspace where
  "blank =
     \<lparr>ws_error = None, ws_result_page = False, ws_finish_started = False, ws_anchor = None, ws_time_left = None,
      ws_violations = 0, ws_tabs = 0, ws_copies = 0, ws_pastes = 0, ws_tab_warning = False,
      ws_fs_warning = False, ws_fs_reason = [], ws_fs_left = 0, ws_fs_interval = False\<rparr>"

definition opened :: "attempt \<Rightarrow> assessment \<Rightarrow> clocks \<Rightarrow> workspace" where
  "opened a s now =
     (if at_status a \<noteq> Active then blank\<lparr>ws_result_page := True\<rparr>
      else blank\<lparr>ws_tabs := at_tabs a, ws_copies := at_copies a, ws_pastes := at_pastes a, ws_anchor := Some now,
                 ws_time_left := Some (computeRemainingSeconds (end_time a s) (Some now) now)\<rparr>)"

subsection \<open>Steps that account for their submissions\<close>

text \<open>
  A step accounts for its submissions when it sends one exactly as it marks the attempt as being finished. Every
  step but the failure of a submission does, and the property is closed under the ways steps are put together.
\<close>

definition submits :: "page_request list \<Rightarrow> nat" where
  "submits rs = count_list rs SubmitAttempt"

lemma submits_simps [simp]:
  "submits [] = 0" "submits (r # rs) = of_bool (r = SubmitAttempt) + submits rs" "submits (rs @ rs') = submits rs + submits rs'"
  by (simp_all add: submits_def)

lemma submits_mem: "0 < submits rs \<longleftrightarrow> SubmitAttempt \<in> set rs"
  by (induction rs) auto

definition accounted :: "page_step \<Rightarrow> bool" where
  "accounted f \<longleftrightarrow>
     (\<forall>w. submits (snd (f w)) + of_bool (ws_finish_started w) = of_bool (ws_finish_started (fst (f w))))"

lemma and_then_simps:
  "fst (and_then f g w) = fst (g (fst (f w)))" "snd (and_then f g w) = snd (f w) @ snd (g (fst (f w)))"
  by (simp_all add: and_then_def split: prod.splits)

lemma accounted_and_then: "accounted f \<Longrightarrow> accounted g \<Longrightarrow> accounted (and_then f g)"
  unfolding accounted_def
proof
  fix w
  assume "\<forall>w. submits (snd (f w)) + of_bool (ws_finish_started w) = of_bool (ws_finish_started (fst (f w)))"
    "\<forall>w. submits (snd (g w)) + of_bool (ws_finish_started w) = of_bool (ws_finish_started (fst (g w)))"
  from this(1) [rule_format, of w] this(2) [rule_format, of "fst (f w)"]
  show "submits (snd (and_then f g w)) + of_bool (ws_finish_started w) = of_bool (ws_finish_started (fst (and_then f g w)))"
    unfolding and_then_simps submits_simps by linarith
qed

lemma accounted_listening: "accounted f \<Longrightarrow> accounted (listening f)"
  by (simp add: accounted_def listening_def)

lemmas page_defs =
  finishAttempt_def submit_done_def recordSecurityViolation_def startSecurityCountdown_def stay_def
  count_tab_def count_copy_def count_paste_def synced_def finishAssessment_def violation_effect_def listener_effect_def

lemma accounted_basic:
  "accounted stay" "accounted finishAttempt" "accounted submit_done" "accounted (recordSecurityViolation ty)"
  "accounted (startSecurityCountdown reason)" "accounted count_tab" "accounted count_copy" "accounted count_paste"
  "accounted (synced a s now)" "accounted (finishAssessment ok)" "accounted (violation_effect v)"
  "accounted (listener_effect v)" "accounted clock_tick" "accounted countdown_tick"
  by (simp_all add: accounted_def page_defs clock_tick_def countdown_tick_def and_then_simps split: option.splits)

lemma accounted_handlers:
  "accounted (handleVisibilityChange hidden)" "accounted handleCopy" "accounted handlePaste" "accounted handleCut"
  "accounted handleContextMenu" "accounted (handleKeyDown k ctrl shift)" "accounted (handleFullscreenChange on)"
  by (simp_all add: handleVisibilityChange_def handleCopy_def handlePaste_def handleCut_def handleContextMenu_def
      handleKeyDown_def Let_def accounted_and_then accounted_basic)
    (simp add: handleFullscreenChange_def accounted_def and_then_simps page_defs)

fun failed :: "page_event \<Rightarrow> bool" where
  "failed (SubmitFailed msg) = True"
| "failed _ = False"

lemma accounted_handle: "\<not> failed ev \<Longrightarrow> accounted (handle ev)"
  by (cases ev) (simp_all add: accounted_handlers accounted_basic accounted_listening, simp add: accounted_def)

lemma page_accounts:
  "submits (snd (page ev w)) + of_bool (ws_finish_started w) \<le>
     of_bool (ws_finish_started (fst (page ev w))) + of_bool (failed ev)"
proof (cases "failed ev")
  case True
  then obtain msg where "ev = SubmitFailed msg" by (cases ev) auto
  then show ?thesis
    by (auto simp: page_def and_then_simps submit_failed_def page_defs)
next
  case False
  have "accounted (and_then (handle ev) (and_then (violation_effect w) (listener_effect w)))"
    by (intro accounted_and_then accounted_handle accounted_basic False)
  then show ?thesis by (simp add: page_def accounted_def)
qed

lemma run_accounts:
  "submits (snd (run_page evs w)) + of_bool (ws_finish_started w) \<le>
     of_bool (ws_finish_started (fst (run_page evs w))) + length (filter failed evs)"
proof (induction evs arbitrary: w)
  case (Cons ev evs)
  show ?case
    using page_accounts [of ev w] Cons [of "fst (page ev w)"] by (auto simp: and_then_simps split: if_splits)
qed simp

subsection \<open>What a step keeps\<close>

definition keeps :: "(workspace \<Rightarrow> 'a) \<Rightarrow> page_step \<Rightarrow> bool" where
  "keeps g f \<longleftrightarrow> (\<forall>w. g (fst (f w)) = g w)"

lemma keeps_fst: "keeps g f \<Longrightarrow> g (fst (f w)) = g w"
  by (simp add: keeps_def)

lemma keeps_and_then: "keeps g f \<Longrightarrow> keeps g f' \<Longrightarrow> keeps g (and_then f f')"
  by (simp add: keeps_def and_then_simps)

lemma keeps_listening: "keeps g f \<Longrightarrow> keeps g (listening f)"
  by (simp add: keeps_def listening_def)

lemmas handler_defs =
  handleVisibilityChange_def handleCopy_def handlePaste_def handleCut_def handleContextMenu_def handleKeyDown_def

lemma time_kept:
  "\<not> (\<exists>a s now. ev = Synced a s now) \<Longrightarrow> ev \<noteq> ClockTick \<Longrightarrow> keeps ws_time_left (handle ev)"
  by (cases ev)
    (auto simp: handler_defs handleFullscreenChange_def countdown_tick_def keeps_def listening_def
      and_then_simps page_defs submit_failed_def Let_def)

lemma page_reads:
  assumes "\<not> ws_result_page w"
  shows "ws_time_left (fst (page ev w)) = ws_time_left (fst (handle ev w))"
    "ws_result_page (fst (page ev w)) = ws_result_page (fst (handle ev w))"
    "ws_fs_left (fst (page ev w)) = ws_fs_left (fst (handle ev w))"
  using assms by (simp_all add: page_def and_then_simps page_defs)

lemma page_left: "ws_result_page w \<Longrightarrow> page ev w = (w, [])"
  by (simp add: page_def)

lemma page_time:
  "\<not> (\<exists>a s now. ev = Synced a s now) \<Longrightarrow> ev \<noteq> ClockTick \<Longrightarrow> ws_time_left (fst (page ev w)) = ws_time_left w"
  using time_kept [of ev] by (cases "ws_result_page w") (simp_all add: page_left page_reads keeps_def)

lemma page_leaves:
  "ws_result_page (fst (page ev w)) \<Longrightarrow> \<not> ws_finish_started w \<Longrightarrow> ws_result_page w"
proof (cases "ev = SubmitDone")
  case False
  then have "keeps ws_result_page (handle ev)"
    by (cases ev)
      (auto simp: handler_defs handleFullscreenChange_def countdown_tick_def clock_tick_def
        keeps_def listening_def and_then_simps page_defs submit_failed_def Let_def split: option.splits)
  then show "ws_result_page (fst (page ev w)) \<Longrightarrow> ws_result_page w"
    by (cases "ws_result_page w") (simp_all add: page_reads keeps_def)
next
  case True
  then show "ws_result_page (fst (page ev w)) \<Longrightarrow> \<not> ws_finish_started w \<Longrightarrow> ws_result_page w"
    by (cases "ws_result_page w") (simp_all add: page_reads submit_done_def)
qed

text \<open>An attempt that is marked as being finished has been submitted, in this run or before it.\<close>

lemma page_submits:
  "\<not> ws_finish_started w \<Longrightarrow> ws_finish_started (fst (page ev w)) \<Longrightarrow> SubmitAttempt \<in> set (snd (page ev w))"
proof (cases "failed ev")
  case True
  then obtain msg where "ev = SubmitFailed msg" by (cases ev) auto
  then show "\<not> ws_finish_started w \<Longrightarrow> ws_finish_started (fst (page ev w)) \<Longrightarrow> SubmitAttempt \<in> set (snd (page ev w))"
    by (auto simp: page_def and_then_simps submit_failed_def page_defs split: if_splits)
next
  case False
  have "accounted (and_then (handle ev) (and_then (violation_effect w) (listener_effect w)))"
    by (intro accounted_and_then accounted_handle accounted_basic False)
  then show "\<not> ws_finish_started w \<Longrightarrow> ws_finish_started (fst (page ev w)) \<Longrightarrow> SubmitAttempt \<in> set (snd (page ev w))"
    by (simp add: page_def accounted_def submits_mem [symmetric] split: if_splits)
      (metis add_0_right of_bool_eq(1) of_bool_eq(2) zero_less_one)
qed

subsection \<open>The clock ends the attempt\<close>

lemma clock_page:
  assumes "ws_time_left w = Some (Fin q)" "0 < q" "\<not> ws_result_page w"
  shows "q \<le> 1 \<Longrightarrow> ws_finish_started (fst (page ClockTick w))"
    "1 < q \<Longrightarrow> ws_time_left (fst (page ClockTick w)) = Some (Fin (q - 1))"
proof -
  have act: "attemptActive w" using assms(1,2) by (simp add: attemptActive_def)
  show "ws_finish_started (fst (page ClockTick w))" if "q \<le> 1"
    using that assms act by (simp add: page_def clock_tick_def and_then_simps page_defs)
  show "ws_time_left (fst (page ClockTick w)) = Some (Fin (q - 1))" if "1 < q"
  proof -
    from that have "\<not> num_le (Fin q) (Fin 1)" by simp
    with assms act show ?thesis by (simp add: page_reads clock_tick_def)
  qed
qed

fun is_sync :: "page_event \<Rightarrow> bool" where
  "is_sync (Synced a s now) = True"
| "is_sync _ = False"

lemma clock_runs_out:
  assumes "ws_time_left w = Some (Fin q)" "0 < q" "\<not> ws_result_page w" "\<not> ws_finish_started w"
    "list_all (\<lambda>ev. \<not> is_sync ev) evs" "q \<le> of_nat (count_list evs ClockTick)"
  shows "SubmitAttempt \<in> set (snd (run_page evs w))"
  using assms
proof (induction evs arbitrary: w q)
  case (Cons ev evs)
  let ?w = "fst (page ev w)"
  have run: "snd (run_page (ev # evs) w) = snd (page ev w) @ snd (run_page evs ?w)" by (simp add: and_then_simps)
  show ?case
  proof (cases "ws_finish_started ?w")
    case True
    with page_submits [OF Cons.prems(4)] run show ?thesis by simp
  next
    case False
    have stay: "\<not> ws_result_page ?w" using page_leaves Cons.prems(3,4) by blast
    have "SubmitAttempt \<in> set (snd (run_page evs ?w))"
    proof (cases "ev = ClockTick")
      case True
      with clock_page [OF Cons.prems(1-3)] False have "1 < q" "ws_time_left ?w = Some (Fin (q - 1))" by force+
      with Cons.IH [of ?w "q - 1"] Cons.prems True stay False show ?thesis by simp
    next
      case other: False
      have "ws_time_left ?w = Some (Fin q)"
        using page_time [of ev w] other Cons.prems(1,5) by (cases ev) auto
      with Cons.IH [of ?w q] Cons.prems other stay False show ?thesis by simp
    qed
    with run show ?thesis by simp
  qed
qed simp

subsection \<open>The countdown after a violation\<close>

text \<open>Only a change of full-screen mode, another tab switch or a synchronisation touches the countdown.\<close>

fun leaves_countdown :: "page_event \<Rightarrow> bool" where
  "leaves_countdown (Visibility hidden) = (\<not> hidden)"
| "leaves_countdown (Fullscreen on) = False"
| "leaves_countdown (Synced a s now) = False"
| "leaves_countdown _ = True"

lemma countdown_kept:
  "leaves_countdown ev \<Longrightarrow> ev \<noteq> CountdownTick \<Longrightarrow> keeps ws_fs_left (handle ev) \<and> keeps ws_fs_interval (handle ev)"
  by (cases ev)
    (auto simp: handler_defs clock_tick_def keeps_def listening_def
      and_then_simps page_defs submit_failed_def Let_def split: option.splits)

lemma page_interval:
  assumes "\<not> ws_result_page w" "attemptActive (fst (page ev w))"
  shows "ws_fs_interval (fst (page ev w)) = ws_fs_interval (fst (handle ev w))"
  using assms by (auto simp: page_def and_then_simps page_defs attemptActive_def split: if_splits)

lemma stays_active:
  assumes "leaves_countdown ev" "attemptActive w" "\<not> ws_result_page w"
  shows "attemptActive (fst (page ev w)) \<or> ws_finish_started (fst (page ev w))"
proof (cases "ev = ClockTick")
  case True
  obtain t where t: "ws_time_left w = Some t" "num_lt (Fin 0) t"
    using assms(2) by (auto simp: attemptActive_def split: option.splits)
  show ?thesis
  proof (cases "num_le t (Fin 1)")
    case True
    with assms t \<open>ev = ClockTick\<close> show ?thesis
      by (simp add: page_def clock_tick_def and_then_simps page_defs)
  next
    case False
    with t have "num_lt (Fin 0) (num_sub t (Fin 1))" by (cases t) auto
    with False assms t \<open>ev = ClockTick\<close> show ?thesis
      by (simp add: attemptActive_def page_reads clock_tick_def)
  qed
next
  case False
  then have "ws_time_left (fst (page ev w)) = ws_time_left w"
    using assms(1) by (intro page_time) (cases ev; simp)+
  with assms(2) show ?thesis by (simp add: attemptActive_def)
qed

lemma countdown_runs_out:
  assumes "attemptActive w" "ws_fs_interval w" "\<not> ws_result_page w" "\<not> ws_finish_started w"
    "list_all leaves_countdown evs" "ws_fs_left w \<le> count_list evs CountdownTick" "0 < ws_fs_left w"
  shows "SubmitAttempt \<in> set (snd (run_page evs w))"
  using assms
proof (induction evs arbitrary: w)
  case (Cons ev evs)
  let ?w = "fst (page ev w)"
  have run: "snd (run_page (ev # evs) w) = snd (page ev w) @ snd (run_page evs ?w)" by (simp add: and_then_simps)
  show ?case
  proof (cases "ws_finish_started ?w")
    case True
    with page_submits [OF Cons.prems(4)] run show ?thesis by simp
  next
    case False
    have stay: "\<not> ws_result_page ?w" using page_leaves Cons.prems(3,4) by blast
    have leave: "leaves_countdown ev" using Cons.prems(5) by simp
    have act: "attemptActive ?w" using stays_active [OF leave Cons.prems(1,3)] False by simp
    have "SubmitAttempt \<in> set (snd (run_page evs ?w))"
    proof (cases "ev = CountdownTick")
      case True
      have "1 < ws_fs_left w"
      proof (rule ccontr)
        assume "\<not> 1 < ws_fs_left w"
        with Cons.prems True have "ws_finish_started ?w"
          by (simp add: page_def countdown_tick_def and_then_simps page_defs)
        with False show False by simp
      qed
      then have "ws_fs_left ?w = ws_fs_left w - 1" "ws_fs_interval ?w"
        using page_interval [OF Cons.prems(3) act] Cons.prems True by (simp_all add: page_reads countdown_tick_def)
      with Cons.IH [of ?w] Cons.prems True stay False act \<open>1 < ws_fs_left w\<close> show ?thesis by simp
    next
      case other: False
      from countdown_kept [OF leave other] have "ws_fs_left ?w = ws_fs_left w" "ws_fs_interval ?w"
        using page_interval [OF Cons.prems(3) act] Cons.prems by (simp_all add: page_reads keeps_def)
      with Cons.IH [of ?w] Cons.prems other stay False act show ?thesis by simp
    qed
    with run show ?thesis by simp
  qed
qed simp

subsection \<open>A synchronisation that finds no time left\<close>

fun acts :: "page_event \<Rightarrow> bool" where
  "acts (FinishClicked ok) = ok"
| "acts (Synced a s now) = True"
| "acts _ = False"

lemma idle_page:
  assumes "\<not> attemptActive w" "\<not> ws_fs_interval w" "\<not> acts ev"
  shows "snd (page ev w) = []" "\<not> attemptActive (fst (page ev w))" "\<not> ws_fs_interval (fst (page ev w))"
  using assms
  by (cases ev; auto simp: page_def and_then_simps listening_def page_defs submit_failed_def clock_tick_def
      countdown_tick_def attemptActive_def split: option.splits)+

lemma idle_run:
  "\<not> attemptActive w \<Longrightarrow> \<not> ws_fs_interval w \<Longrightarrow> list_all (\<lambda>ev. \<not> acts ev) evs \<Longrightarrow> snd (run_page evs w) = []"
  by (induction evs arbitrary: w) (simp_all add: and_then_simps idle_page)

lemma sync_stalls:
  assumes "attemptActive w" "computeRemainingSeconds (end_time a s) (ws_anchor w) now = Fin 0"
    "list_all (\<lambda>ev. \<not> acts ev) evs"
  shows "snd (run_page (Synced a s now # evs) w) = []"
proof -
  let ?w = "fst (page (Synced a s now) w)"
  have "snd (run_page (Synced a s now # evs) w) = snd (page (Synced a s now) w) @ snd (run_page evs ?w)"
    by (simp add: and_then_simps)
  moreover have "snd (page (Synced a s now) w) = []"
    by (simp add: page_def and_then_simps page_defs)
  moreover have "ws_result_page w \<Longrightarrow> run_page evs w = (w, [])"
    by (induction evs) (simp_all add: page_left and_then_def)
  moreover have "\<not> attemptActive ?w \<and> \<not> ws_fs_interval ?w" if "\<not> ws_result_page w"
    using that assms(1,2) by (simp add: page_def and_then_simps page_defs attemptActive_def)
  ultimately show ?thesis
    using idle_run [of ?w evs] assms(3) by (cases "ws_result_page w") (simp_all add: page_left)
qed

subsection \<open>The clock of the page and the deadline of the server\<close>

lemma end_time_finite:
  "at_grace a = Fin g \<Longrightarrow> end_time a s = Fin (min (own_deadline a s g) (hard_deadline s g))"
  by (simp add: end_time_def client_grace_ms_def own_deadline_def hard_deadline_def Let_def num_min_def min_def algebra_simps)

lemma not_before: "of_int t \<le> x \<Longrightarrow> \<not> date_lt (date_of (Fin x)) (Some t)"
  using trunc_mono [of "of_int t" x] by simp

lemma not_expired:
  assumes "at_grace a = Fin g" "of_int t \<le> min (own_deadline a s g) (hard_deadline s g)"
  shows "\<not> isAttemptExpired t a s"
proof -
  have "grace_ms a = Fin (g * 60000)" by (simp add: grace_ms_def assms(1))
  then have "getExpirationTime a s \<in> {date_of (Fin (own_deadline a s g)), date_of (Fin (hard_deadline s g))}"
    by (simp only: getExpirationTime_def own_deadline_def hard_deadline_def Let_def num_add.simps add.assoc) simp
  with assms(2) not_before [of t "own_deadline a s g"] not_before [of t "hard_deadline s g"]
  show ?thesis unfolding isAttemptExpired_def by auto
qed

lemma finish_in_time:
  "\<not> isAttemptExpired (clk 0) a s \<Longrightarrow> fst (finish_attempt i a s u ok clk info w) = Inr (Some b) \<Longrightarrow> at_status b = Submitted"
  by (auto simp: finish_attempt_def attempts_update_def submit_update_def push_event_def Let_def
      split: sum.splits prod.splits option.splits)

lemma remaining_seconds:
  assumes "end_time a s = Fin e" "computeRemainingSeconds (Fin e) (Some now) now = Fin r" "0 < r"
  shows "r = of_nat (nat \<lfloor>(e - ck_wall now) / 1000\<rfloor>)" "ck_wall now + 1000 * r \<le> e" "e < ck_wall now + 1000 * (r + 1)"
proof -
  let ?q = "(e - ck_wall now) / 1000"
  from assms(2,3) have r: "r = of_int \<lfloor>?q\<rfloor>"
    by (auto simp: computeRemainingSeconds_def effective_now_def num_max_def split: if_splits)
  with assms(3) show "r = of_nat (nat \<lfloor>?q\<rfloor>)" by simp
  have "of_int \<lfloor>?q\<rfloor> \<le> ?q" "?q < of_int \<lfloor>?q\<rfloor> + 1" by linarith+
  then show "ck_wall now + 1000 * r \<le> e" "e < ck_wall now + 1000 * (r + 1)" unfolding r by (simp_all add: field_simps)
qed

lemma ticking:
  assumes "ws_time_left w = Some (Fin (of_nat n))" "\<not> ws_result_page w" "\<not> ws_finish_started w" "0 < n"
    "ws_violations w < 10"
  shows "snd (run_page (replicate n ClockTick) w) = [SubmitAttempt]" "snd (run_page (replicate (n - 1) ClockTick) w) = []"
proof -
  have "snd (run_page (replicate n ClockTick) w) = [SubmitAttempt] \<and> snd (run_page (replicate (n - 1) ClockTick) w) = []"
    using assms
  proof (induction n arbitrary: w)
    case (Suc n)
    have act: "attemptActive w" using Suc.prems by (simp add: attemptActive_def)
    show ?case
    proof (cases n)
      case 0
      with act Suc.prems show ?thesis by (simp add: and_then_simps page_def clock_tick_def page_defs)
    next
      case (Suc m)
      let ?w = "fst (page ClockTick w)"
      have "\<not> num_le (Fin (of_nat (Suc n))) (Fin 1)" using Suc by simp
      then have w: "page ClockTick w = (w\<lparr>ws_time_left := Some (Fin (of_nat n))\<rparr>, [])"
        using act Suc.prems Suc by (auto simp: page_def and_then_simps clock_tick_def page_defs and_then_def attemptActive_def)
      have "0 < n" using Suc by simp
      with Suc.IH [of ?w] Suc.prems w Suc show ?thesis by (simp add: and_then_simps)
    qed
  qed simp
  then show "snd (run_page (replicate n ClockTick) w) = [SubmitAttempt]" "snd (run_page (replicate (n - 1) ClockTick) w) = []"
    by simp_all
qed

subsection \<open>What the page shows and what the server counts\<close>

text \<open>The server's counters of an attempt after it has taken a list of reports.\<close>

definition count_report :: "page_request \<Rightarrow> attempt \<Rightarrow> attempt" where
  "count_report r a =
     (case r of LogEvent ty \<Rightarrow> (case count_event (JStr ty) of Some f \<Rightarrow> f a | None \<Rightarrow> a) | SubmitAttempt \<Rightarrow> a)"

definition counts_match :: "workspace \<Rightarrow> attempt \<Rightarrow> bool" where
  "counts_match w a \<longleftrightarrow> ws_tabs w = at_tabs a \<and> ws_pastes w = at_pastes a \<and> ws_copies w \<le> at_copies a"

definition accepted_report :: "page_request \<Rightarrow> bool" where
  "accepted_report r = (case r of LogEvent ty \<Rightarrow> count_event (JStr ty) \<noteq> None | SubmitAttempt \<Rightarrow> True)"

definition matched :: "page_step \<Rightarrow> bool" where
  "matched f \<longleftrightarrow>
     (\<forall>w a. counts_match w a \<longrightarrow> counts_match (fst (f w)) (fold count_report (snd (f w)) a)) \<and>
     (\<forall>w. list_all accepted_report (snd (f w)))"

lemma matched_and_then: "matched f \<Longrightarrow> matched g \<Longrightarrow> matched (and_then f g)"
  by (simp add: matched_def and_then_simps)

lemma matched_listening: "matched f \<Longrightarrow> matched (listening f)"
  by (simp add: matched_def listening_def)

lemma count_event_simps [simp]:
  "count_event (JStr ''TAB_SWITCH'') = Some (\<lambda>a. a\<lparr>at_tabs := at_tabs a + 1\<rparr>)"
  "count_event (JStr ''COPY'') = Some (\<lambda>a. a\<lparr>at_copies := at_copies a + 1\<rparr>)"
  "count_event (JStr ''PASTE'') = Some (\<lambda>a. a\<lparr>at_pastes := at_pastes a + 1\<rparr>)"
  "count_event (JStr ''FULLSCREEN_EXIT'') = Some (\<lambda>a. a\<lparr>at_exits := at_exits a + 1\<rparr>)"
  "count_event (JStr ''RETURN'') = Some (\<lambda>a. a)"
  by (simp_all add: count_event_def)

lemmas match_defs = matched_def counts_match_def accepted_report_def count_report_def

lemma matched_handle: "matched (handle ev)"
proof (cases ev)
  case (Key k ctrl shift)
  show ?thesis unfolding Key handle.simps
    by (rule matched_listening)
      (auto simp: handleKeyDown_def Let_def match_defs and_then_simps page_defs)
qed (auto intro!: matched_listening simp: handler_defs handleFullscreenChange_def clock_tick_def countdown_tick_def
    match_defs and_then_simps page_defs submit_failed_def listening_def split: option.splits)

lemma matched_page: "matched (page ev)"
proof -
  have "matched (violation_effect v)" "matched (listener_effect v)" for v
    by (simp_all add: match_defs page_defs)
  then have "matched (and_then (handle ev) (and_then (violation_effect v) (listener_effect v)))" for v
    by (intro matched_and_then matched_handle)
  then show ?thesis by (simp add: matched_def page_def)
qed

lemma matched_run: "matched (run_page evs)"
proof (induction evs)
  case (Cons ev evs)
  have "run_page (ev # evs) = and_then (page ev) (run_page evs)" by (rule ext) simp
  with matched_and_then [OF matched_page Cons] show ?case by simp
qed (simp add: match_defs)

subsection \<open>The properties of the page\<close>




text \<open>The sample attempt ends 3901 seconds after the epoch; here it is opened three seconds before.\<close>

definition sample_page :: workspace where
  "sample_page = opened sample_attempt sample_assessment \<lparr>ck_wall = 3898000, ck_perf = 50\<rparr>"

lemma sample_end: "end_time sample_attempt sample_assessment = Fin 3901000"
  by (simp add: end_time_def client_grace_ms_def sample_attempt_def sample_assessment_def new_attempt_def num_min_def Let_def)

lemma sample_remaining:
  "computeRemainingSeconds (Fin 3901000) (Some \<lparr>ck_wall = 3898000, ck_perf = 50\<rparr>) \<lparr>ck_wall = 3898000, ck_perf = 50\<rparr> = Fin 3"
  by (simp add: computeRemainingSeconds_def effective_now_def num_max_def)

lemma sample_page_simps:
  "ws_time_left sample_page = Some (Fin 3)" "\<not> ws_result_page sample_page" "\<not> ws_finish_started sample_page"
  "attemptActive sample_page"
proof -
  have "at_status sample_attempt = Active" by (simp add: sample_attempt_def new_attempt_def)
  then show "ws_time_left sample_page = Some (Fin 3)" "\<not> ws_result_page sample_page" "\<not> ws_finish_started sample_page"
    by (simp_all add: sample_page_def opened_def sample_end sample_remaining blank_def)
  then show "attemptActive sample_page" by (simp add: attemptActive_def)
qed

lemma count_replicate: "count_list (replicate n x) x = n"
  by (induction n) simp_all




text \<open>What the page tells the student is what it reported. Every event it reports is one the server counts;
  after any sequence of events the tab switches and pastes it shows are those of the attempt once the server has
  taken the reports, and the copies it shows are no more than the server counts.\<close>

theorem shown_counts:
  assumes "at_status a = Active"
  shows "let (w, reports) = run_page evs (opened a s now); a' = fold count_report reports a in
     list_all accepted_report reports \<and>
     ws_tabs w = at_tabs a' \<and> ws_pastes w = at_pastes a' \<and> ws_copies w \<le> at_copies a'"
proof -
  have "counts_match (opened a s now) a" using assms by (simp add: counts_match_def opened_def blank_def)
  with matched_run [of evs] show ?thesis by (simp add: matched_def counts_match_def split_beta Let_def)
qed

text \<open>The context menu is reported as a copy but not counted by the page, so the last figure may differ.\<close>

lemma shown_counts_witness:
  "list_all accepted_report (snd (run_page [Visibility True, ContextMenu, Key ''V'' True False] sample_page)) \<and>
   ws_tabs (fst (run_page [Visibility True, ContextMenu, Key ''V'' True False] sample_page)) =
     at_tabs (fold count_report (snd (run_page [Visibility True, ContextMenu, Key ''V'' True False] sample_page)) sample_attempt)"
proof -
  have "at_status sample_attempt = Active" by (simp add: sample_attempt_def new_attempt_def)
  from shown_counts [OF this, of "[Visibility True, ContextMenu, Key ''V'' True False]" sample_assessment
      "\<lparr>ck_wall = 3898000, ck_perf = 50\<rparr>", folded sample_page_def]
  show ?thesis unfolding split_beta Let_def by (elim conjE) (intro conjI, assumption+)
qed

end
