(* ===== verification/Interfaces.thy ===== *)
theory Interfaces
  imports Prelude
begin

section \<open>Contracts that several components share\<close>

text \<open>
  Two contracts with more than one provider. A text format writes the good values and reads them back: the JSON
  texts of the server and of the client's editors and the minutes of its date fields are such formats. An event machine is a page that
  reacts to a sequence of events, each allowed or not in the state it meets; what every allowed step keeps,
  every allowed sequence keeps. The pages of the client interpret it with their own steps and invariants.
\<close>

subsection \<open>Text formats\<close>

locale text_format =
  fixes written :: "'a \<Rightarrow> string option" and reading :: "string \<Rightarrow> 'a option" and good :: "'a \<Rightarrow> bool"
  assumes read_back: "good v \<Longrightarrow> \<exists>s. written v = Some s \<and> reading s = Some v"
begin

lemma text_of:
  assumes "good v"
  obtains s where "written v = Some s" "reading s = Some v"
  using read_back [OF assms] by blast

lemma written_inj: "good v \<Longrightarrow> good v' \<Longrightarrow> written v = written v' \<Longrightarrow> v = v'"
  using read_back [of v] read_back [of v'] by auto

lemma reread: "good v \<Longrightarrow> written v = Some s \<Longrightarrow> reading s = Some v"
  using read_back [of v] by auto

end

subsection \<open>Event machines\<close>

fun steps_allowed :: "('e \<Rightarrow> 's \<Rightarrow> bool) \<Rightarrow> ('e \<Rightarrow> 's \<Rightarrow> 's) \<Rightarrow> 'e list \<Rightarrow> 's \<Rightarrow> bool" where
  "steps_allowed allowed stepping [] s = True"
| "steps_allowed allowed stepping (e # es) s = (allowed e s \<and> steps_allowed allowed stepping es (stepping e s))"

lemma always_allowed [simp]: "steps_allowed (\<lambda>_ _. True) stepping es s"
  by (induction es arbitrary: s) simp_all

lemma steps_allowed_append:
  "steps_allowed allowed stepping (es @ es') s \<longleftrightarrow>
     steps_allowed allowed stepping es s \<and> steps_allowed allowed stepping es' (fold stepping es s)"
  by (induction es arbitrary: s) auto

locale event_machine =
  fixes stepping :: "'e \<Rightarrow> 's \<Rightarrow> 's" and allowed :: "'e \<Rightarrow> 's \<Rightarrow> bool" and inv :: "'s \<Rightarrow> bool"
  assumes step_keeps: "inv s \<Longrightarrow> allowed e s \<Longrightarrow> inv (stepping e s)"
begin

lemma run_keeps: "inv s \<Longrightarrow> steps_allowed allowed stepping es s \<Longrightarrow> inv (fold stepping es s)"
  by (induction es arbitrary: s) (simp_all add: step_keeps)

text \<open>The invariant holds at every moment of a run, not only at its end.\<close>

lemma run_keeps_throughout:
  "inv s \<Longrightarrow> steps_allowed allowed stepping (es @ es') s \<Longrightarrow> inv (fold stepping es s)"
  by (simp add: steps_allowed_append run_keeps)

end

locale free_machine =
  fixes stepping :: "'e \<Rightarrow> 's \<Rightarrow> 's" and inv :: "'s \<Rightarrow> bool"
  assumes free_step: "inv s \<Longrightarrow> inv (stepping e s)"

sublocale free_machine \<subseteq> event_machine stepping "\<lambda>_ _. True" inv
  by unfold_locales (rule free_step)

context free_machine begin

lemma free_run: "inv s \<Longrightarrow> inv (fold stepping es s)"
  by (simp add: run_keeps)

end

end
