(* ===== verification/Json_Laws.thy ===== *)
theory Json_Laws
  imports Json Interfaces
begin

section \<open>\<^verbatim>\<open>JSON.parse\<close> undoes \<^verbatim>\<open>JSON.stringify\<close>\<close>

text \<open>
  A value is plain when it can be written without loss: its numbers are whole, no part of it is
  \<^verbatim>\<open>undefined\<close> and no object has a key twice. Reading back the text of a plain value gives the value, whatever
  characters its strings hold; so plain values with the same text are the same.
\<close>

fun plain_value :: "jsval \<Rightarrow> bool" and
    plain_values :: "jsval list \<Rightarrow> bool" and
    plain_fields :: "(string \<times> jsval) list \<Rightarrow> bool" where
  "plain_value JUndef = False"
| "plain_value JNull = True"
| "plain_value (JBool b) = True"
| "plain_value (JNum n) = (case n of Fin q \<Rightarrow> q = of_int \<lfloor>q\<rfloor> | _ \<Rightarrow> False)"
| "plain_value (JStr s) = True"
| "plain_value (JArr vs) = plain_values vs"
| "plain_value (JObj kvs) = (distinct (map fst kvs) \<and> plain_fields kvs)"
| "plain_values [] = True"
| "plain_values (v # vs) = (plain_value v \<and> plain_values vs)"
| "plain_fields [] = True"
| "plain_fields ((k, v) # kvs) = (plain_value v \<and> plain_fields kvs)"

subsection \<open>String literals\<close>

lemma hex_digit: "d < 16 \<Longrightarrow> radix_digit (hex_char d) = d"
proof -
  assume "d < 16"
  then have "d \<in> {0, 1, 2, 3, 4, 5, 6, 7, 8, 9, 10, 11, 12, 13, 14, 15}" by (simp, arith)
  then show ?thesis by (auto simp: hex_char_def radix_digit_def is_digit_def is_lower_def is_upper_def digit_val_def)
qed

lemma hex_of_byte:
  assumes "n < 256"
  shows "hex_escape [CHR ''0'', CHR ''0'', hex_char (n div 16), hex_char (n mod 16)] = Some (char_of n)"
proof -
  have "radix_digit CHR ''0'' = 0" by (simp add: radix_digit_def is_digit_def is_lower_def is_upper_def digit_val_def)
  with assms hex_digit [of "n div 16"] hex_digit [of "n mod 16"] show ?thesis
    by (simp add: hex_escape_def less_mult_imp_div_less)
qed

lemma read_char: "json_chars (Suc n) (json_char c @ t) = cons_char c (json_chars n t)"
proof -
  define k where "k = (of_char c :: nat)"
  have c: "c = char_of k" by (simp add: k_def)
  consider "k = 34" | "k = 92" | "k = 8" | "k = 9" | "k = 10" | "k = 12" | "k = 13"
    | "k < 32" "k \<notin> {8, 9, 10, 12, 13}" | "32 \<le> k" "k \<noteq> 34" "k \<noteq> 92"
    by force
  then show ?thesis
  proof cases
    case 8
    have "hex_escape (take 4 (CHR ''0'' # CHR ''0'' # hex_char (k div 16) # hex_char (k mod 16) # t)) = Some c"
      using hex_of_byte [of k] 8 by (simp add: c)
    with 8 show ?thesis by (simp add: json_char_def k_def Let_def)
  qed (simp_all add: json_char_def simple_escape_def k_def [symmetric] Let_def, simp_all add: c char_of_def)
qed

lemma read_chars:
  "length s < n \<Longrightarrow> json_chars n (concat (map json_char s) @ CHR 0x22 # rest) = Some (s, rest)"
proof (induction s arbitrary: n)
  case Nil
  then show ?case by (cases n) simp_all
next
  case (Cons c s)
  then obtain m where "n = Suc m" by (cases n) auto
  with Cons show ?case by (simp add: read_char cons_char_def)
qed

lemma json_char_nonempty: "json_char c \<noteq> []"
  by (simp add: json_char_def Let_def)

lemma concat_length: "(\<And>x. f x \<noteq> []) \<Longrightarrow> length s \<le> length (concat (map f s))"
proof (induction s)
  case (Cons c s)
  have "0 < length (f c)" using Cons.prems by simp
  moreover have "length s \<le> length (concat (map f s))" by (rule Cons.IH) (rule Cons.prems)
  ultimately show ?case unfolding list.map concat.simps length_append list.size by linarith
qed simp

lemma read_string:
  "json_chars (Suc (length (concat (map json_char s) @ CHR 0x22 # rest)))
     (concat (map json_char s) @ CHR 0x22 # rest) = Some (s, rest)"
  by (rule read_chars) (use concat_length [of json_char s] json_char_nonempty in simp)

subsection \<open>Numbers\<close>

lemma show_nat_head: "hd (show_nat n) = CHR ''0'' \<Longrightarrow> length (show_nat n) = 1"
proof (induction n rule: show_nat.induct)
  case (1 n)
  show ?case
  proof (cases "n < 10")
    case True
    then show ?thesis by (subst show_nat.simps) simp
  next
    case False
    have head: "hd (show_nat n) = hd (show_nat (n div 10))"
      using False show_nat_nonempty [of "n div 10"] by (subst show_nat.simps) simp
    with 1 False have "length (show_nat (n div 10)) = 1" by simp
    then obtain d where d: "show_nat (n div 10) = [d]" by (auto simp: length_Suc_conv)
    with 1(2) head have "d = CHR ''0''" by simp
    with d have "nat_of_digits (show_nat (n div 10)) = 0" by (simp add: nat_of_digits_def digit_val_def)
    with False show ?thesis by simp
  qed
qed

lemma all_digits: "takeWhile is_digit (show_nat n) = show_nat n" "dropWhile is_digit (show_nat n) = []"
  using show_nat_digits [of n] by (simp_all add: takeWhile_eq_all_conv dropWhile_eq_Nil_conv list_all_iff)

lemma minus_no_digit: "\<not> is_digit CHR ''-''"
  by (simp add: is_digit_def)

lemma decimal_nat: "parse_decimal (show_nat n) = Some (of_nat n)"
  using show_nat_nonempty [of n] by (simp add: parse_decimal_def all_digits Let_def)

lemma number_nat: "json_number (show_nat n) = Some (of_nat n)"
proof -
  have "hd (show_nat n) \<noteq> CHR ''-''"
    using show_nat_digits [of n] show_nat_nonempty [of n] minus_no_digit by (cases "show_nat n") auto
  with show_nat_nonempty [of n] show_nat_head [of n] show_nat_digits [of n] show ?thesis
    by (auto simp: json_number_def all_digits decimal_nat Let_def list_all_iff)
qed

lemma number_neg: "json_number (CHR ''-'' # show_nat n) = Some (- of_nat n)"
  using show_nat_nonempty [of n] show_nat_head [of n] show_nat_digits [of n]
  by (auto simp: json_number_def all_digits decimal_nat Let_def list_all_iff)

lemma digit_num_char: "is_digit c \<Longrightarrow> num_char c"
  by (simp add: num_char_def)

lemma int_text:
  "num_to_string (Fin (of_int i)) = (if i < 0 then CHR ''-'' # show_nat (nat (- i)) else show_nat (nat i))"
  by (simp add: show_pos_rat_def)

lemma int_text_chars: "list_all num_char (num_to_string (Fin (of_int i)))"
proof -
  have "list_all num_char (show_nat n)" for n
    using show_nat_digits [of n] digit_num_char by (auto simp: list_all_iff)
  moreover have "num_char CHR ''-''" by (simp add: num_char_def)
  ultimately show ?thesis by (simp add: int_text del: num_to_string.simps)
qed

lemma read_int: "json_number (num_to_string (Fin (of_int i))) = Some (of_int i)"
  by (simp add: int_text number_nat number_neg del: num_to_string.simps)

subsection \<open>Values\<close>

text \<open>
  What the text of a value has to do to be read back: begin with a character that is neither white space nor a
  closing bracket, and be consumed exactly when no character of a number follows.
\<close>

definition stops :: "string \<Rightarrow> bool" where
  "stops rest \<longleftrightarrow> rest = [] \<or> \<not> num_char (hd rest)"

definition opens :: "string \<Rightarrow> bool" where
  "opens s \<longleftrightarrow> s \<noteq> [] \<and> \<not> json_ws (hd s) \<and> hd s \<notin> {CHR '']'', CHR ''}''}"

definition readable :: "jsval \<Rightarrow> string \<Rightarrow> bool" where
  "readable v s \<longleftrightarrow> opens s \<and> (\<forall>n rest. 2 * length s \<le> n \<longrightarrow> stops rest \<longrightarrow> json_value n (s @ rest) = Some (v, rest))"

lemma skip_opens: "opens s \<Longrightarrow> skip_ws (s @ rest) = s @ rest"
  by (cases s) (simp_all add: opens_def skip_ws_def)

lemma skip_sign: "\<not> json_ws c \<Longrightarrow> skip_ws (c # rest) = c # rest"
  by (simp add: skip_ws_def)

lemma signs [simp]:
  "\<not> json_ws CHR '',''" "\<not> json_ws CHR '']''" "\<not> json_ws CHR ''}''" "\<not> json_ws CHR '':''" "\<not> json_ws CHR 0x22"
  "\<not> json_ws CHR ''[''" "\<not> json_ws CHR ''{''" "\<not> json_ws CHR ''n''" "\<not> json_ws CHR ''t''" "\<not> json_ws CHR ''f''"
  by (simp_all add: json_ws_def)

lemma stops_signs [simp]: "stops (CHR '','' # r)" "stops (CHR '']'' # r)" "stops (CHR ''}'' # r)" "stops []"
  by (simp_all add: stops_def num_char_def is_digit_def)

lemma readableD: "readable v s \<Longrightarrow> 2 * length s \<le> n \<Longrightarrow> stops rest \<Longrightarrow> json_value n (s @ rest) = Some (v, rest)"
  by (simp add: readable_def)

lemma readable_opens: "readable v s \<Longrightarrow> opens s"
  by (simp add: readable_def)

lemma readable_words: "readable JNull ''null''" "readable (JBool True) ''true''" "readable (JBool False) ''false''"
proof -
  have "json_value n (''null'' @ rest) = Some (JNull, rest) \<and> json_value n (''true'' @ rest) = Some (JBool True, rest) \<and>
      json_value n (''false'' @ rest) = Some (JBool False, rest)" if "0 < n" for n rest
    using that by (cases n) (simp_all add: skip_sign)
  then show "readable JNull ''null''" "readable (JBool True) ''true''" "readable (JBool False) ''false''"
    by (auto simp: readable_def opens_def simp del: append_Cons)
qed

lemma readable_string: "readable (JStr s) (json_string s)"
proof -
  have "json_value n (json_string s @ rest) = Some (JStr s, rest)" if "0 < n" for n rest
    using that read_string [of s rest] by (cases n) (simp_all add: skip_sign json_string_def)
  then show ?thesis by (simp add: readable_def opens_def json_string_def)
qed

lemma number_head:
  assumes "is_digit c \<or> c = CHR ''-''"
  shows "\<not> json_ws c" "of_char c \<noteq> (34 :: nat)" "c \<notin> {CHR ''['', CHR ''{'', CHR '']'', CHR ''}'', CHR ''t'', CHR ''f'', CHR ''n''}"
  using assms by (auto simp: is_digit_def json_ws_def)

lemma readable_int: "readable (jint i) (num_to_string (Fin (of_int i)))"
proof -
  let ?s = "num_to_string (Fin (of_int i))"
  obtain c cs where s: "?s = c # cs" and c: "is_digit c \<or> c = CHR ''-''"
    using show_nat_nonempty [of "nat i"] show_nat_digits [of "nat i"]
    by (cases "i < 0"; cases "show_nat (nat i)") (auto simp: int_text simp del: num_to_string.simps)
  note c = number_head [OF c]
  have "json_value n (?s @ rest) = Some (jint i, rest)" if "0 < n" "stops rest" for n rest
  proof -
    have "takeWhile num_char (?s @ rest) = ?s" "dropWhile num_char (?s @ rest) = rest"
      using int_text_chars [of i] that(2)
      by (cases rest; simp add: list_all_iff takeWhile_append2 dropWhile_append2 stops_def del: num_to_string.simps)+
    with that(1) c read_int [of i] show ?thesis
      by (cases n) (auto simp: s skip_sign simp del: num_to_string.simps)
  qed
  with s c show ?thesis by (simp add: readable_def opens_def del: num_to_string.simps)
qed

lemma readable_empty: "readable (JArr []) ''[]''" "readable (JObj []) ''{}''"
proof -
  have "json_value n (''[]'' @ rest) = Some (JArr [], rest) \<and> json_value n (''{}'' @ rest) = Some (JObj [], rest)"
    if "0 < n" for n rest using that by (cases n) (simp_all add: skip_sign)
  then show "readable (JArr []) ''[]''" "readable (JObj []) ''{}''"
    by (auto simp: readable_def opens_def simp del: append_Cons)
qed

subsection \<open>Lists and members\<close>

definition readable_items :: "jsval list \<Rightarrow> string \<Rightarrow> bool" where
  "readable_items vs s \<longleftrightarrow> opens s \<and>
     (\<forall>n rest. 2 * length s < n \<longrightarrow> json_items n (s @ CHR '']'' # rest) = Some (vs, rest))"

definition readable_members :: "(string \<times> jsval) list \<Rightarrow> string \<Rightarrow> bool" where
  "readable_members kvs s \<longleftrightarrow> opens s \<and>
     (\<forall>n rest. 2 * length s < n \<longrightarrow> json_members n (s @ CHR ''}'' # rest) = Some (kvs, rest))"

lemma opens_append: "opens s \<Longrightarrow> opens (s @ t)"
  by (simp add: opens_def)

lemma items_one:
  assumes "readable v s"
  shows "readable_items [v] s"
proof -
  have "json_items n (s @ CHR '']'' # rest) = Some ([v], rest)" if "2 * length s < n" for n rest
    using that readableD [OF assms, of "n - 1" "CHR '']'' # rest"] by (cases n) (simp_all add: skip_sign)
  with readable_opens [OF assms] show ?thesis by (simp add: readable_items_def)
qed

lemma items_more:
  assumes "readable v s" "readable_items vs t"
  shows "readable_items (v # vs) (s @ '','' @ t)"
proof -
  have "json_items n (s @ CHR '','' # t @ CHR '']'' # rest) = Some (v # vs, rest)"
    if n: "2 * length (s @ '','' @ t) < n" for n rest
  proof -
    obtain m where m: "n = Suc m" using n by (cases n) auto
    have "json_items m (t @ CHR '']'' # rest) = Some (vs, rest)"
      using assms(2) n m by (simp add: readable_items_def)
    with readableD [OF assms(1), of m "CHR '','' # t @ CHR '']'' # rest"] n m show ?thesis by (simp add: skip_sign)
  qed
  with readable_opens [OF assms(1)] show ?thesis by (simp add: readable_items_def opens_append)
qed

text \<open>A member: its key is read first, then the colon and the value.\<close>

lemma members_start:
  assumes "readable v s" "2 * length s \<le> n" "stops rest"
  shows "json_members (Suc n) (json_string k @ CHR '':'' # s @ rest) =
     (case skip_ws rest of
        [] \<Rightarrow> None
      | e # es \<Rightarrow>
          if e = CHR ''}'' then Some ([(k, v)], es)
          else if e = CHR '','' then map_option (\<lambda>(kvs, rest). ((k, v) # kvs, rest)) (json_members n es)
          else None)"
proof -
  have "json_chars (Suc (length (concat (map json_char k) @ CHR 0x22 # CHR '':'' # s @ rest)))
      (concat (map json_char k) @ CHR 0x22 # CHR '':'' # s @ rest) = Some (k, CHR '':'' # s @ rest)"
    by (rule read_string)
  with readableD [OF assms] show ?thesis
    by (simp add: json_string_def skip_sign)
qed

lemma opens_string: "opens (json_string k @ t)"
  by (simp add: opens_def json_string_def)

lemma members_one:
  assumes "readable v s"
  shows "readable_members [(k, v)] (json_string k @ '':'' @ s)"
proof -
  have "json_members n (json_string k @ CHR '':'' # s @ CHR ''}'' # rest) = Some ([(k, v)], rest)"
    if n: "2 * length (json_string k @ '':'' @ s) < n" for n rest
  proof -
    obtain m where m: "n = Suc m" using n by (cases n) auto
    with n show ?thesis
      using members_start [OF assms, of m "CHR ''}'' # rest" k] by (simp add: skip_sign)
  qed
  then show ?thesis by (simp add: readable_members_def opens_string)
qed

lemma members_more:
  assumes "readable v s" "readable_members kvs t"
  shows "readable_members ((k, v) # kvs) ((json_string k @ '':'' @ s) @ '','' @ t)"
proof -
  have "json_members n (json_string k @ CHR '':'' # s @ CHR '','' # t @ CHR ''}'' # rest) = Some ((k, v) # kvs, rest)"
    if n: "2 * length ((json_string k @ '':'' @ s) @ '','' @ t) < n" for n rest
  proof -
    obtain m where m: "n = Suc m" using n by (cases n) auto
    have "json_members m (t @ CHR ''}'' # rest) = Some (kvs, rest)"
      using assms(2) n m by (simp add: readable_members_def)
    with n m show ?thesis
      using members_start [OF assms(1), of m "CHR '','' # t @ CHR ''}'' # rest" k] by (simp add: skip_sign)
  qed
  then show ?thesis by (simp add: readable_members_def opens_string)
qed

lemma readable_array:
  assumes "readable_items vs s"
  shows "readable (JArr vs) (''['' @ s @ '']'')"
proof -
  have "json_value n (CHR ''['' # s @ CHR '']'' # rest) = Some (JArr vs, rest)" if n: "2 * length (''['' @ s @ '']'') \<le> n" for n rest
  proof -
    obtain m where m: "n = Suc m" using n by (cases n) auto
    have "opens s" using assms by (simp add: readable_items_def)
    then obtain d ds where s: "s = d # ds" "d \<noteq> CHR '']''" "\<not> json_ws d" by (cases s) (auto simp: opens_def)
    have "json_items m (s @ CHR '']'' # rest) = Some (vs, rest)" using assms n m by (simp add: readable_items_def)
    with s m show ?thesis by (simp add: skip_sign)
  qed
  then show ?thesis by (simp add: readable_def opens_def)
qed

lemma put_distinct: "k \<notin> fst ` set kvs \<Longrightarrow> obj_put k v kvs = kvs @ [(k, v)]"
  by (induction k v kvs rule: obj_put.induct) auto

lemma rebuild:
  "distinct (map fst (acc @ kvs)) \<Longrightarrow> foldl (\<lambda>acc (k, v). obj_put k v acc) acc kvs = acc @ kvs"
proof (induction kvs arbitrary: acc)
  case (Cons kv kvs)
  obtain k v where kv: "kv = (k, v)" by (cases kv)
  with Cons.prems have "obj_put k v acc = acc @ [kv]" by (intro put_distinct [of k acc v, folded kv]) auto
  with Cons.IH [of "acc @ [kv]"] Cons.prems kv show ?case by simp
qed simp

lemma readable_object:
  assumes "readable_members kvs s" "distinct (map fst kvs)"
  shows "readable (JObj kvs) (''{'' @ s @ ''}'')"
proof -
  have "json_value n (CHR ''{'' # s @ CHR ''}'' # rest) = Some (JObj kvs, rest)" if n: "2 * length (''{'' @ s @ ''}'') \<le> n" for n rest
  proof -
    obtain m where m: "n = Suc m" using n by (cases n) auto
    have "opens s" using assms(1) by (simp add: readable_members_def)
    then obtain d ds where s: "s = d # ds" "d \<noteq> CHR ''}''" "\<not> json_ws d" by (cases s) (auto simp: opens_def)
    have "json_members m (s @ CHR ''}'' # rest) = Some (kvs, rest)" using assms(1) n m by (simp add: readable_members_def)
    with s m rebuild [of "[]" kvs] assms(2) show ?thesis by (simp add: skip_sign)
  qed
  then show ?thesis by (simp add: readable_def opens_def)
qed

subsection \<open>The round trip\<close>

lemma written_readable:
  "plain_value v \<Longrightarrow> \<exists>s. json_str v = Some s \<and> readable v s"
  "plain_values vs \<Longrightarrow> vs \<noteq> [] \<Longrightarrow> readable_items vs (join_with '','' (json_elems vs))"
  "plain_fields kvs \<Longrightarrow> kvs \<noteq> [] \<Longrightarrow> readable_members kvs (join_with '','' (json_fields kvs))"
proof (induction v and vs and kvs rule: plain_value_plain_values_plain_fields.induct)
  case (4 n)
  then obtain q where q: "n = Fin q" "q = of_int \<lfloor>q\<rfloor>" by (cases n) auto
  with readable_int [of "\<lfloor>q\<rfloor>"] show ?case by simp
next
  case (6 vs)
  then show ?case using readable_array readable_empty by (cases "vs = []") auto
next
  case (7 kvs)
  then show ?case using readable_object readable_empty by (cases "kvs = []") auto
next
  case (9 v vs)
  then obtain s where "json_str v = Some s" "readable v s" by auto
  with 9 items_one items_more show ?case by (cases vs) auto
next
  case (11 k v kvs)
  then obtain s where s: "json_str v = Some s" "readable v s" by auto
  show ?case
  proof (cases kvs)
    case Nil
    with s members_one show ?thesis by simp
  next
    case (Cons kv kvs')
    with 11 have "readable_members kvs (join_with '','' (json_fields kvs))" by simp
    moreover from this have "json_fields kvs \<noteq> []" by (auto simp: readable_members_def opens_def)
    ultimately show ?thesis
      using members_more [OF s(2), of kvs "join_with '','' (json_fields kvs)" k] s(1) by (cases "json_fields kvs") simp_all
  qed
qed (simp_all add: readable_words readable_string)

lemma json_roundtrip:
  assumes "plain_value v"
  obtains s where "json_str v = Some s" "json_parse s = Some v"
proof -
  obtain s where s: "json_str v = Some s" "readable v s" using written_readable(1) [OF assms] by blast
  from readableD [OF s(2), of "2 * length s + 2" "[]"] have "json_parse s = Some v"
    by (simp add: json_parse_def skip_ws_def)
  with s(1) show thesis by (rule that)
qed

interpretation json_text: text_format json_str json_parse plain_value
  by unfold_locales (metis json_roundtrip)

end
