(* ===== verification/Templates.thy ===== *)
theory Templates
  imports Type_Grammar
begin

section \<open>Code templates of the browser client\<close>

text \<open>
  \<^verbatim>\<open>frontend/src/utils/typeValidator.js\<close> (\<open>mapType\<close>; its \<^verbatim>\<open>isValidType\<close> is the one of the server) and
  \<^verbatim>\<open>frontend/src/utils/buildTemplate.js\<close>: the text an editor starts with. A type is read from its spelling, as in
  \<^verbatim>\<open>Type_Grammar\<close>; the theorems say what both routines do in terms of the type that is spelled. A kind named
  \<^verbatim>\<open>constructor\<close>, which no valid type has, would find an inherited property in the tables; here it is unknown.
\<close>

subsection \<open>Type names per language\<close>

datatype type_entry = Name string | Wrap "string \<Rightarrow> string"

type_synonym type_table = "(string \<times> type_entry) list"

definition around :: "string \<Rightarrow> string \<Rightarrow> type_entry" where
  "around a b = Wrap (\<lambda>t. a @ t @ b)"

definition just :: "string \<Rightarrow> type_entry" where
  "just s = Wrap (\<lambda>t. s)"

definition cppMap :: type_table where
  "cppMap =
     [(''number'', Name ''int''), (''string'', Name ''string''), (''boolean'', Name ''bool''),
      (''void'', Name ''void''), (''array'', around ''vector<'' ''>''),
      (''matrix'', around ''vector<vector<'' ''>>''), (''tree'', just ''TreeNode*''),
      (''linkedlist'', just ''ListNode*''), (''graph'', just ''Node*'')]"

definition javaMap :: type_table where
  "javaMap =
     [(''number'', Name ''int''), (''string'', Name ''String''), (''boolean'', Name ''boolean''),
      (''void'', Name ''void''), (''array'', around '''' ''[]''), (''matrix'', around '''' ''[][]''),
      (''tree'', just ''TreeNode''), (''linkedlist'', just ''ListNode''), (''graph'', just ''Node'')]"

definition csharpMap :: type_table where
  "csharpMap =
     [(''number'', Name ''int''), (''string'', Name ''string''), (''boolean'', Name ''bool''),
      (''void'', Name ''void''), (''array'', around '''' ''[]''), (''matrix'', around '''' ''[][]''),
      (''tree'', just ''TreeNode''), (''linkedlist'', just ''ListNode''), (''graph'', just ''Node'')]"

definition goMap :: type_table where
  "goMap =
     [(''number'', Name ''int''), (''string'', Name ''string''), (''boolean'', Name ''bool''),
      (''void'', Name ''''), (''array'', around ''[]'' ''''), (''matrix'', around ''[][]'' ''''),
      (''tree'', just ''*TreeNode''), (''linkedlist'', just ''*ListNode''), (''graph'', just ''*Node'')]"

definition tsMap :: type_table where
  "tsMap =
     [(''number'', Name ''number''), (''string'', Name ''string''), (''boolean'', Name ''boolean''),
      (''void'', Name ''void''), (''array'', around '''' ''[]''), (''matrix'', around '''' ''[][]''),
      (''tree'', just ''TreeNode | null''), (''linkedlist'', just ''ListNode | null''),
      (''graph'', just ''Node | null'')]"

definition cMap :: type_table where
  "cMap =
     [(''number'', Name ''int''), (''string'', Name ''const char*''), (''boolean'', Name ''bool''),
      (''void'', Name ''void''), (''array'', around '''' ''*''), (''matrix'', around '''' ''**''),
      (''tree'', just ''struct TreeNode*''), (''linkedlist'', just ''struct ListNode*''),
      (''graph'', just ''struct Node*'')]"

definition kotlinMap :: type_table where
  "kotlinMap =
     [(''number'', Name ''Int''), (''string'', Name ''String''), (''boolean'', Name ''Boolean''),
      (''void'', Name ''Unit''), (''array'', around ''Array<'' ''>''),
      (''matrix'', around ''Array<Array<'' ''>>''), (''tree'', just ''TreeNode?''),
      (''linkedlist'', just ''ListNode?''), (''graph'', just ''Node?'')]"

definition rustMap :: type_table where
  "rustMap =
     [(''number'', Name ''i32''), (''string'', Name ''String''), (''boolean'', Name ''bool''),
      (''void'', Name ''()''), (''array'', around ''Vec<'' ''>''), (''matrix'', around ''Vec<Vec<'' ''>>''),
      (''tree'', just ''Option<Rc<RefCell<TreeNode>>>''), (''linkedlist'', just ''Option<Box<ListNode>>''),
      (''graph'', just ''Option<Rc<RefCell<Node>>>'')]"

definition type_maps :: "(string \<times> type_table) list" where
  "type_maps =
     [(''cpp'', cppMap), (''java'', javaMap), (''csharp'', csharpMap), (''go'', goMap), (''typescript'', tsMap),
      (''c'', cMap), (''kotlin'', kotlinMap), (''rust'', rustMap)]"

definition unmapped :: "string \<Rightarrow> string" where
  "unmapped lang = (if lang = ''cpp'' then ''auto'' else ''Object'')"

text \<open>An empty string stands for a type that is not given.\<close>

function mapType :: "string \<Rightarrow> string \<Rightarrow> string" where
  "mapType lang s =
     (if s = [] then ''void''
      else (case match_type (js_trim s) of
              None \<Rightarrow> unmapped lang
            | Some (kind, inner) \<Rightarrow>
                (case map_of type_maps lang of
                   None \<Rightarrow> ''auto''
                 | Some m \<Rightarrow>
                     (case map_of m kind of
                        None \<Rightarrow> unmapped lang
                      | Some (Name n) \<Rightarrow> if n = [] then unmapped lang else n
                      | Some (Wrap f) \<Rightarrow> f (mapType lang (case inner of None \<Rightarrow> [] | Some i \<Rightarrow> i))))))"
  by pat_completeness auto
termination
  by (relation "measure (\<lambda>(lang, s). length s)") (auto split: option.splits dest: match_type_trim_length)

declare mapType.simps [simp del]

definition or_text :: "string \<Rightarrow> string \<Rightarrow> string" where
  "or_text a b = (if a = [] then b else a)"

subsection \<open>Structures in use\<close>

type_synonym param = "string \<times> string"

record uses =
  us_tree :: bool
  us_list :: bool
  us_graph :: bool

definition detectUses :: "param list \<Rightarrow> string \<Rightarrow> uses" where
  "detectUses params ret =
     (let ts = map js_lower (map snd params @ [ret]) in
      \<lparr>us_tree = list_ex (includes_str ''tree'') ts,
       us_list = list_ex (\<lambda>t. includes_str ''linkedlist'' t \<or> includes_str ''listnode'' t \<or> t = ''list'' \<or>
                              includes_str ''list'' t) ts,
       us_graph = list_ex (includes_str ''graph'') ts\<rparr>)"

subsection \<open>Text\<close>

definition nl :: string where
  "nl = [CHR 0x0A]"

text \<open>Lines, each ended by a newline; lines between which there are newlines.\<close>

definition block :: "string list \<Rightarrow> string" where
  "block ls = concat (map (\<lambda>l. l @ nl) ls)"

definition lines_of :: "string list \<Rightarrow> string" where
  "lines_of ls = join_with nl ls"

definition shown :: "bool \<Rightarrow> string \<Rightarrow> string" where
  "shown b s = (if b then s else [])"

definition py_list :: string where
  \<open>py_list =
     block [''# class ListNode:'', ''#     def __init__(self, val=0, next=None):'',
       ''#         self.val = val'', ''#         self.next = next'', '''']\<close>

definition py_tree :: string where
  \<open>py_tree =
     block [''# class TreeNode:'', ''#     def __init__(self, val=0, left=None, right=None):'',
       ''#         self.val = val'', ''#         self.left = left'', ''#         self.right = right'', '''']\<close>

definition py_graph :: string where
  \<open>py_graph =
     block [''# class Node:'', ''#     def __init__(self, val=0, neighbors=None):'',
       ''#         self.val = val'',
       ''#         self.neighbors = neighbors if neighbors is not None else []'', '''']\<close>

definition js_list :: string where
  \<open>js_list =
     block [''/*'', ''class ListNode {'',
       ''  constructor(val=0, next=null) { this.val = val; this.next = next; }'', ''}'', ''*/'', '''']\<close>

definition js_tree :: string where
  \<open>js_tree =
     block [''/*'', ''class TreeNode {'',
       ''  constructor(val=0, left=null, right=null) { this.val = val; this.left = left; this.right = right; }'',
       ''}'', ''*/'', '''']\<close>

definition js_graph :: string where
  \<open>js_graph =
     block [''/*'', ''class Node {'',
       ''  constructor(val=0, neighbors=[]) { this.val = val; this.neighbors = neighbors; }'', ''}'',
       ''*/'', '''']\<close>

definition ts_list :: string where
  \<open>ts_list =
     block [''/*'', ''class ListNode {'', ''  val: number;'', ''  next: ListNode | null;'',
       ''  constructor(val=0, next=null) { this.val = val; this.next = next; }'', ''}'', ''*/'', '''']\<close>

definition ts_tree :: string where
  \<open>ts_tree =
     block [''/*'', ''class TreeNode {'', ''  val: number;'', ''  left: TreeNode | null;'',
       ''  right: TreeNode | null;'',
       ''  constructor(val=0, left=null, right=null) { this.val = val; this.left = left; this.right = right; }'',
       ''}'', ''*/'', '''']\<close>

definition ts_graph :: string where
  \<open>ts_graph =
     block [''/*'', ''class Node {'', ''  val: number;'', ''  neighbors: Node[];'',
       ''  constructor(val=0, neighbors: Node[] = []) { this.val = val; this.neighbors = neighbors; }'',
       ''}'', ''*/'', '''']\<close>

definition java_list :: string where
  \<open>java_list =
     block [''/*'', ''class ListNode {'', ''    int val;'', ''    ListNode next;'',
       ''    ListNode() { val = 0; next = null; }'',
       ''    ListNode(int val) { this.val = val; next = null; }'',
       ''    ListNode(int val, ListNode next) { this.val = val; this.next = next; }'', ''}'', ''*/'', '''']\<close>

definition java_tree :: string where
  \<open>java_tree =
     block [''/*'', ''class TreeNode {'', ''    int val;'', ''    TreeNode left;'', ''    TreeNode right;'',
       ''    TreeNode() { val = 0; left = right = null; }'',
       ''    TreeNode(int val) { this.val = val; left = right = null; }'',
       ''    TreeNode(int val, TreeNode left, TreeNode right) { this.val = val; this.left = left; this.right = right; }'',
       ''}'', ''*/'', '''']\<close>

definition java_graph :: string where
  \<open>java_graph =
     block [''/*'', ''class Node {'', ''    public int val;'', ''    public List<Node> neighbors;'',
       ''    public Node() { val = 0; neighbors = new ArrayList<>(); }'',
       ''    public Node(int val) { this.val = val; neighbors = new ArrayList<>(); }'',
       ''    public Node(int val, List<Node> neighbors) { this.val = val; this.neighbors = neighbors; }'',
       ''}'', ''*/'', '''']\<close>

definition cpp_list :: string where
  \<open>cpp_list =
     block [''/*'', ''struct ListNode {'', ''    int val;'', ''    ListNode *next;'',
       ''    ListNode(int x) : val(x), next(nullptr) {}'', ''};'', ''*/'', '''']\<close>

definition cpp_tree :: string where
  \<open>cpp_tree =
     block [''/*'', ''struct TreeNode {'', ''    int val;'', ''    TreeNode *left;'', ''    TreeNode *right;'',
       ''    TreeNode(int x) : val(x), left(nullptr), right(nullptr) {}'', ''};'', ''*/'', '''']\<close>

definition cs_list :: string where
  \<open>cs_list =
     block [''/*'',
       ''public class ListNode { public int val; public ListNode next; public ListNode(int x=0) { val = x; next = null; } }'',
       ''*/'', '''']\<close>

definition cs_tree :: string where
  \<open>cs_tree =
     block [''/*'',
       ''public class TreeNode { public int val; public TreeNode left; public TreeNode right; public TreeNode(int x=0) { val = x; left = right = null; } }'',
       ''*/'', '''']\<close>

definition cs_graph :: string where
  \<open>cs_graph =
     block [''/*'',
       ''public class Node { public int val; public List<Node> neighbors; public Node() { neighbors = new List<Node>(); } public Node(int v) { val = v; neighbors = new List<Node>(); } }'',
       ''*/'', '''']\<close>

definition go_list :: string where
  \<open>go_list =
     block [''/*'', ''type ListNode struct { Val int; Next *ListNode }'', ''*/'', '''']\<close>

definition go_tree :: string where
  \<open>go_tree =
     block [''/*'', ''type TreeNode struct { Val int; Left *TreeNode; Right *TreeNode }'', ''*/'', '''']\<close>

definition go_graph :: string where
  \<open>go_graph =
     block [''/*'', ''type Node struct { Val int; Neighbors []*Node }'', ''*/'', '''']\<close>

definition c_list :: string where
  \<open>c_list =
     block [''/*'', ''struct ListNode {'', ''    int val;'', ''    struct ListNode *next;'', ''};'', ''*/'',
       '''']\<close>

definition c_tree :: string where
  \<open>c_tree =
     block [''/*'', ''struct TreeNode {'', ''    int val;'', ''    struct TreeNode *left;'',
       ''    struct TreeNode *right;'', ''};'', ''*/'', '''']\<close>

definition c_graph :: string where
  \<open>c_graph =
     block [''/*'', ''struct Node {'', ''    int val;'', ''    int numNeighbors;'',
       ''    struct Node **neighbors;'', ''};'', ''*/'', '''']\<close>

definition rb_list :: string where
  \<open>rb_list =
     block [''# class ListNode'', ''#   attr_accessor :val, :next'',
       ''#   def initialize(val = 0, nxt = nil)'', ''#     @val = val'', ''#     @next = nxt'',
       ''#   end'', ''# end'', '''']\<close>

definition rb_tree :: string where
  \<open>rb_tree =
     block [''# class TreeNode'', ''#   attr_accessor :val, :left, :right'',
       ''#   def initialize(val = 0, left = nil, right = nil)'', ''#     @val = val'',
       ''#     @left = left'', ''#     @right = right'', ''#   end'', ''# end'', '''']\<close>

definition rb_graph :: string where
  \<open>rb_graph =
     block [''# class Node'', ''#   attr_accessor :val, :neighbors'',
       ''#   def initialize(val = 0, neighbors = [])'', ''#     @val = val'',
       ''#     @neighbors = neighbors'', ''#   end'', ''# end'', '''']\<close>

definition php_list :: string where
  \<open>php_list =
     block [''/*'', ''class ListNode {'', ''    public $val;'', ''    public $next;'',
       ''    function __construct($val = 0, $next = null) { $this->val = $val; $this->next = $next; }'',
       ''}'', ''*/'', '''']\<close>

definition php_tree :: string where
  \<open>php_tree =
     block [''/*'', ''class TreeNode {'', ''    public $val;'', ''    public $left;'', ''    public $right;'',
       ''    function __construct($val = 0, $left = null, $right = null) { $this->val = $val; $this->left = $left; $this->right = $right; }'',
       ''}'', ''*/'', '''']\<close>

definition php_graph :: string where
  \<open>php_graph =
     block [''/*'', ''class Node {'', ''    public $val;'', ''    public $neighbors;'',
       ''    function __construct($val = 0, $neighbors = []) { $this->val = $val; $this->neighbors = $neighbors; }'',
       ''}'', ''*/'', '''']\<close>

definition kt_list :: string where
  \<open>kt_list =
     block [''/*'', ''class ListNode(var `val`: Int = 0) {'', ''    var next: ListNode? = null'', ''}'',
       ''*/'', '''']\<close>

definition kt_tree :: string where
  \<open>kt_tree =
     block [''/*'', ''class TreeNode(var `val`: Int = 0) {'', ''    var left: TreeNode? = null'',
       ''    var right: TreeNode? = null'', ''}'', ''*/'', '''']\<close>

definition kt_graph :: string where
  \<open>kt_graph =
     block [''/*'', ''class Node(var `val`: Int = 0) {'',
       ''    var neighbors: MutableList<Node> = mutableListOf()'', ''}'', ''*/'', '''']\<close>

definition rs_list :: string where
  \<open>rs_list =
     block [''/*'', ''pub struct ListNode {'', ''    pub val: i32,'', ''    pub next: Option<Box<ListNode>>,'',
       ''}'', ''*/'', '''']\<close>

definition rs_tree :: string where
  \<open>rs_tree =
     block [''/*'', ''pub struct TreeNode {'', ''    pub val: i32,'',
       ''    pub left: Option<Rc<RefCell<TreeNode>>>,'',
       ''    pub right: Option<Rc<RefCell<TreeNode>>>,'', ''}'', ''*/'', '''']\<close>

definition rs_graph :: string where
  \<open>rs_graph =
     block [''/*'', ''pub struct Node {'', ''    pub val: i32,'',
       ''    pub neighbors: Vec<Option<Rc<RefCell<Node>>>>,'', ''}'', ''*/'', '''']\<close>

definition gen_list :: string where
  \<open>gen_list =
     block [''/* ListNode definition placeholder */'']\<close>

definition gen_tree :: string where
  \<open>gen_tree =
     block [''/* TreeNode definition placeholder */'']\<close>

definition gen_graph :: string where
  \<open>gen_graph =
     block [''/* Node (graph) definition placeholder */'']\<close>

subsection \<open>Templates\<close>

definition param_names :: "param list \<Rightarrow> string list" where
  "param_names params = map (\<lambda>p. or_text (fst p) ''arg'') params"

definition comma :: "string list \<Rightarrow> string" where
  "comma = join_with '', ''"

definition name_colon_type :: "string \<Rightarrow> string \<Rightarrow> param \<Rightarrow> string" where
  "name_colon_type lang alt p = fst p @ '': '' @ or_text (mapType lang (snd p)) alt"

definition python_template :: "uses \<Rightarrow> string \<Rightarrow> param list \<Rightarrow> string \<Rightarrow> string" where
  "python_template us f ps ret =
     shown (us_list us) py_list @ shown (us_tree us) py_tree @ shown (us_graph us) py_graph @
     lines_of [''def '' @ f @ ''('' @ comma (param_names ps) @ ''):'', ''    # your code here'', ''    pass'']"

definition javascript_template :: "uses \<Rightarrow> string \<Rightarrow> param list \<Rightarrow> string \<Rightarrow> string" where
  "javascript_template us f ps ret =
     shown (us_list us) js_list @ shown (us_tree us) js_tree @ shown (us_graph us) js_graph @
     lines_of [''function '' @ f @ ''('' @ comma (param_names ps) @ '') {'', ''  // your code here'', ''}'']"

definition typescript_template :: "uses \<Rightarrow> string \<Rightarrow> param list \<Rightarrow> string \<Rightarrow> string" where
  "typescript_template us f ps ret =
     shown (us_list us) ts_list @ shown (us_tree us) ts_tree @ shown (us_graph us) ts_graph @
     lines_of [''function '' @ f @ ''('' @ comma (map (name_colon_type ''typescript'' ''any'') ps) @ ''): '' @
               or_text (mapType ''typescript'' ret) ''any'' @ '' {'', ''  // your code here'', ''}'']"

definition java_template :: "uses \<Rightarrow> string \<Rightarrow> param list \<Rightarrow> string \<Rightarrow> string" where
  "java_template us f ps ret =
     block [''import java.util.*;'', ''''] @
     shown (us_list us) java_list @ shown (us_tree us) java_tree @ shown (us_graph us) java_graph @
     lines_of [''class Solution {'',
               ''    public '' @ or_text (mapType ''java'' ret) ''int'' @ '' '' @ f @ ''('' @
               comma (map (\<lambda>p. or_text (mapType ''java'' (snd p)) ''int'' @ '' '' @ or_text (fst p) ''arg'') ps) @ '') {'',
               ''        // your code here'', ''    }'', ''}'']"

definition cpp_param :: "param \<Rightarrow> string" where
  "cpp_param p =
     (let type = mapType ''cpp'' (snd p); isComplex = starts_with ''vector'' type \<or> type = ''string''
      in type @ (if isComplex then ''&'' else []) @ '' '' @ fst p)"

definition cpp_template :: "uses \<Rightarrow> string \<Rightarrow> param list \<Rightarrow> string \<Rightarrow> string" where
  "cpp_template us f ps ret =
     block [''#include <iostream>'', ''#include <vector>'', ''#include <string>'', ''#include <algorithm>'', '''',
            ''using namespace std;'', ''''] @
     shown (us_list us) cpp_list @ shown (us_tree us) cpp_tree @
     lines_of [''class Solution {'', ''public:'',
               ''    '' @ or_text (mapType ''cpp'' ret) ''int'' @ '' '' @ f @ ''('' @ comma (map cpp_param ps) @ '') {'',
               ''        // your code here'', ''    }'', ''};'']"

definition type_then_name :: "string \<Rightarrow> param \<Rightarrow> string" where
  "type_then_name lang p = mapType lang (snd p) @ '' '' @ fst p"

definition csharp_template :: "uses \<Rightarrow> string \<Rightarrow> param list \<Rightarrow> string \<Rightarrow> string" where
  "csharp_template us f ps ret =
     block [''using System;'', ''using System.Collections.Generic;'', ''''] @
     shown (us_list us) cs_list @ shown (us_tree us) cs_tree @ shown (us_graph us) cs_graph @
     lines_of [''public class Solution {'',
               ''    public '' @ or_text (mapType ''csharp'' ret) ''int'' @ '' '' @ f @ ''('' @
               comma (map (type_then_name ''csharp'') ps) @ '') {'',
               ''        // your code here'', ''    }'', ''}'']"

definition go_zero :: "string \<Rightarrow> string" where
  "go_zero ret =
     (if ret = ''string'' then [CHR 0x22, CHR 0x22]
      else if ret = ''bool'' then ''false'' else if includes_str ''[]'' ret then ''nil'' else ''0'')"

definition go_template :: "uses \<Rightarrow> string \<Rightarrow> param list \<Rightarrow> string \<Rightarrow> string" where
  "go_template us f ps ret =
     (let goReturn = mapType ''go'' ret in
      block [''package main'', ''''] @
      shown (us_list us) go_list @ shown (us_tree us) go_tree @ shown (us_graph us) go_graph @
      lines_of [''func '' @ f @ ''('' @ comma (map (\<lambda>p. fst p @ '' '' @ mapType ''go'' (snd p)) ps) @ '') '' @ goReturn @ '' {'',
                ''    // your code here'', ''    return '' @ go_zero goReturn, ''}''])"

text \<open>In C an array comes with its size and a matrix with its shape, and a result by way of output parameters.\<close>

definition c_param :: "param \<Rightarrow> string list" where
  "c_param p =
     type_then_name ''c'' p #
     (if starts_with ''array<'' (snd p) then [''int '' @ fst p @ ''Size'']
      else if starts_with ''matrix<'' (snd p) then [''int '' @ fst p @ ''Rows'', ''int* '' @ fst p @ ''Cols''] else [])"

definition c_outputs :: "string \<Rightarrow> string list" where
  "c_outputs ret =
     (if starts_with ''array<'' ret then [''int* outputSize'']
      else if starts_with ''matrix<'' ret then [''int* outputRows'', ''int** outputCols''] else [])"

definition c_template :: "uses \<Rightarrow> string \<Rightarrow> param list \<Rightarrow> string \<Rightarrow> string" where
  "c_template us f ps ret =
     (let cReturn = or_text (mapType ''c'' ret) ''int'' in
      block [''#include <stdbool.h>'', ''#include <stddef.h>'', ''#include <stdlib.h>'', ''''] @
      shown (us_list us) c_list @ shown (us_tree us) c_tree @ shown (us_graph us) c_graph @
      lines_of [cReturn @ '' '' @ f @ ''('' @ comma (concat (map c_param ps) @ c_outputs ret) @ '') {'',
                ''    // your code here'',
                ''    return '' @ (if includes_str ''*'' cReturn then ''NULL'' else ''0'') @ '';'', ''}''])"

definition ruby_template :: "uses \<Rightarrow> string \<Rightarrow> param list \<Rightarrow> string \<Rightarrow> string" where
  "ruby_template us f ps ret =
     shown (us_list us) rb_list @ shown (us_tree us) rb_tree @ shown (us_graph us) rb_graph @
     lines_of [''class Solution'', ''  def '' @ f @ ''('' @ comma (param_names ps) @ '')'', ''    # your code here'',
               ''  end'', ''end'']"

definition php_template :: "uses \<Rightarrow> string \<Rightarrow> param list \<Rightarrow> string \<Rightarrow> string" where
  "php_template us f ps ret =
     block [''<?php'', ''''] @
     shown (us_list us) php_list @ shown (us_tree us) php_tree @ shown (us_graph us) php_graph @
     lines_of [''class Solution {'',
               ''    function '' @ f @ ''('' @ comma (map (\<lambda>n. CHR ''$'' # n) (param_names ps)) @ '') {'',
               ''        // your code here'', ''    }'', ''}'']"

definition kotlin_template :: "uses \<Rightarrow> string \<Rightarrow> param list \<Rightarrow> string \<Rightarrow> string" where
  "kotlin_template us f ps ret =
     shown (us_list us) kt_list @ shown (us_tree us) kt_tree @ shown (us_graph us) kt_graph @
     lines_of [''class Solution {'',
               ''    fun '' @ f @ ''('' @ comma (map (name_colon_type ''kotlin'' ''Int'') ps) @ ''): '' @
               or_text (mapType ''kotlin'' ret) ''Unit'' @ '' {'',
               ''        // your code here'', ''    }'', ''}'']"

definition rust_template :: "uses \<Rightarrow> string \<Rightarrow> param list \<Rightarrow> string \<Rightarrow> string" where
  "rust_template us f ps ret =
     shown (us_list us) rs_list @ shown (us_tree us) rs_tree @ shown (us_graph us) rs_graph @
     lines_of [''struct Solution;'', '''', ''impl Solution {'',
               ''    pub fn '' @ f @ ''(&self, '' @ comma (map (name_colon_type ''rust'' ''i32'') ps) @ '') -> '' @
               or_text (mapType ''rust'' ret) ''()'' @ '' {'',
               ''        // your code here'', ''    }'', ''}'']"

definition plain_template :: "uses \<Rightarrow> string \<Rightarrow> param list \<Rightarrow> string \<Rightarrow> string" where
  "plain_template us f ps ret =
     shown (us_list us) gen_list @ shown (us_tree us) gen_tree @ shown (us_graph us) gen_graph @
     lines_of [''// '' @ f @ ''('' @ comma (param_names ps) @ '')'', ''// implement here'']"

definition template_of :: "string \<Rightarrow> uses \<Rightarrow> string \<Rightarrow> param list \<Rightarrow> string \<Rightarrow> string" where
  "template_of lang =
     (if lang = ''python'' then python_template else if lang = ''javascript'' then javascript_template
      else if lang = ''typescript'' then typescript_template else if lang = ''java'' then java_template
      else if lang = ''cpp'' then cpp_template else if lang = ''csharp'' then csharp_template
      else if lang = ''go'' then go_template else if lang = ''c'' then c_template
      else if lang = ''ruby'' then ruby_template else if lang = ''php'' then php_template
      else if lang = ''kotlin'' then kotlin_template else if lang = ''rust'' then rust_template else plain_template)"

definition buildTemplate :: "string \<Rightarrow> string \<Rightarrow> param list \<Rightarrow> string \<Rightarrow> string" where
  "buildTemplate language f ps ret = template_of (js_lower language) (detectUses ps ret) f ps ret"

text \<open>The definitions alone, shown beside the description of a problem.\<close>

definition getDefinitionsSnippet :: "string \<Rightarrow> param list \<Rightarrow> string \<Rightarrow> string" where
  "getDefinitionsSnippet language ps ret =
     (let us = detectUses ps ret; lang = js_lower language;
          three = (\<lambda>l t g. js_trim (shown (us_list us) l @ shown (us_tree us) t @ shown (us_graph us) g)) in
      if \<not> us_tree us \<and> \<not> us_list us \<and> \<not> us_graph us then []
      else if lang = ''python'' then three py_list py_tree py_graph
      else if lang \<in> set [''javascript'', ''node'', ''js'', ''typescript'', ''ts''] then three js_list js_tree js_graph
      else if lang = ''go'' then three go_list go_tree go_graph
      else if lang = ''cpp'' then js_trim (shown (us_list us) cpp_list @ shown (us_tree us) cpp_tree)
      else three java_list java_tree java_graph)"

text \<open>What the tests of the client expect of a template.\<close>

lemma tested_templates:
  "includes_str ''public ListNode reverseList(ListNode head)''
     (buildTemplate ''java'' ''reverseList'' [(''head'', ''linkedlist<number>'')] ''linkedlist<number>'')"
  "includes_str ''public int[] twoSum(int[] nums, int target)''
     (buildTemplate ''Java'' ''twoSum'' [(''nums'', ''array<number>''), (''target'', ''number'')] ''array<number>'')"
  "includes_str ''def twoSum(nums, target):''
     (buildTemplate ''python'' ''twoSum'' [(''nums'', ''array<number>''), (''target'', ''number'')] [])"
  "includes_str ''function reverseList(head: ListNode | null): ListNode | null''
     (buildTemplate ''typescript'' ''reverseList'' [(''head'', ''linkedlist<number>'')] ''linkedlist<number>'')"
  by code_simp+

subsection \<open>Finding a word in a text\<close>

lemma starts_with_sep: "c \<notin> set p \<Longrightarrow> starts_with p (a @ c # b) = starts_with p a"
  by (induction p a rule: starts_with.induct) (auto split: list.splits)

lemma includes_sep:
  "c \<notin> set p \<Longrightarrow> p \<noteq> [] \<Longrightarrow> includes_str p (a @ c # b) \<longleftrightarrow> includes_str p a \<or> includes_str p b"
proof (induction a)
  case Nil
  then show ?case by (cases p) auto
next
  case (Cons x a)
  then show ?case using starts_with_sep [of c p "x # a" b] by auto
qed

lemma includes_before:
  assumes "p \<noteq> []" "\<forall>c \<in> set a. c \<notin> set p"
  shows "includes_str p (a @ b) = includes_str p b"
  using assms(2)
proof (induction a)
  case (Cons c a)
  with assms(1) includes_sep [of c p "[]" "a @ b"] show ?case by simp
qed simp

lemma includes_after:
  assumes "p \<noteq> []" "\<forall>c \<in> set b. c \<notin> set p"
  shows "includes_str p (a @ b) = includes_str p a"
proof (cases b)
  case (Cons c b')
  with assms includes_sep [of c p a b'] includes_before [of p b' "[]"] show ?thesis by simp
qed simp

lemma trim_parts: "\<exists>a b. s = a @ js_trim s @ b \<and> list_all is_ws a \<and> list_all is_ws b"
proof (intro exI conjI)
  let ?r = "dropWhile is_ws s"
  show "s = takeWhile is_ws s @ js_trim s @ rev (takeWhile is_ws (rev ?r))"
    by (metis js_trim_def rev_append rev_rev_ident takeWhile_dropWhile_id)
  show "list_all is_ws (takeWhile is_ws s)" "list_all is_ws (rev (takeWhile is_ws (rev ?r)))"
    by (auto simp: list_all_iff dest: set_takeWhileD)
qed

definition word :: "string \<Rightarrow> bool" where
  "word p \<longleftrightarrow> p \<noteq> [] \<and> list_all is_lower p"

lemma lower_ws: "is_ws c \<Longrightarrow> is_ws (lower_char c)"
  by (auto simp: is_ws_def lower_char_def is_upper_def)

lemma ws_not_in_word: "word p \<Longrightarrow> is_ws c \<Longrightarrow> c \<notin> set p"
  by (auto simp: word_def list_all_iff is_ws_def is_lower_def)

lemma includes_trimmed:
  assumes "word p"
  shows "includes_str p (js_lower s) = includes_str p (js_lower (js_trim s))"
proof -
  obtain a b where s: "s = a @ js_trim s @ b" "list_all is_ws a" "list_all is_ws b" using trim_parts by blast
  have "js_lower s = js_lower a @ js_lower (js_trim s) @ js_lower b"
    by (subst s(1)) (simp add: js_lower_def)
  moreover have "\<forall>c \<in> set (js_lower u). c \<notin> set p" if "list_all is_ws u" for u
    using that lower_ws ws_not_in_word [OF assms] by (fastforce simp: js_lower_def list_all_iff)
  ultimately show ?thesis
    using assms s(2,3) by (simp add: includes_before includes_after word_def)
qed

subsection \<open>What the routines say about a type\<close>

text \<open>The kinds that occur in a type, the outermost first.\<close>

fun kinds :: "ty \<Rightarrow> string list" where
  "kinds TNumber = [''number'']"
| "kinds TString = [''string'']"
| "kinds TBool = [''boolean'']"
| "kinds TVoid = [''void'']"
| "kinds (TArray t) = ''array'' # kinds t"
| "kinds (TMatrix t) = ''matrix'' # kinds t"
| "kinds (TTree t) = ''tree'' # kinds t"
| "kinds (TList t) = ''linkedlist'' # kinds t"
| "kinds (TGraph t) = ''graph'' # kinds t"

lemma kinds_container: "container k = Some c \<Longrightarrow> kinds (c t) = k # kinds t"
  by (auto simp: container_def split: if_splits)

lemma kinds_plain: "plain_type k = Some t \<Longrightarrow> kinds t = [k]"
  by (auto simp: plain_type_def split: if_splits)

lemma kinds_subset: "set (kinds t) \<subseteq> set VALID_KINDS"
  by (induction t) (simp_all add: VALID_KINDS_def)

lemma kinds_valid: "k \<in> set (kinds t) \<Longrightarrow> k \<in> set VALID_KINDS"
  using kinds_subset by blast

lemma lower_kind: "k \<in> set VALID_KINDS \<Longrightarrow> js_lower k = k"
  by (auto simp: VALID_KINDS_def js_lower_def lower_char_def is_upper_def)

lemma lower_parts: "js_lower (a @ CHR ''<'' # b @ [CHR ''>'']) = js_lower a @ CHR ''<'' # js_lower b @ [CHR ''>'']"
  by (simp add: js_lower_def lower_char_def is_upper_def)

lemma angles_not_in_word: "word p \<Longrightarrow> CHR ''<'' \<notin> set p" "word p \<Longrightarrow> CHR ''>'' \<notin> set p"
  by (auto simp: word_def list_all_iff is_lower_def)

lemma includes_spelled:
  assumes "spelled s t" "word p"
  shows "includes_str p (js_lower s) \<longleftrightarrow> (\<exists>k \<in> set (kinds t). includes_str p k)"
  using assms(1)
proof (induction rule: spelled.induct)
  case (plain s t)
  with includes_trimmed [OF assms(2), of s] show ?case
    using kinds_plain [OF plain] kinds_valid [of "js_trim s" t] lower_kind by simp
next
  case (inner k c s i t)
  have "js_lower k = k" using kinds_valid [of k "c t"] kinds_container [OF inner(1)] lower_kind by simp
  then have "includes_str p (js_lower (js_trim s)) \<longleftrightarrow> includes_str p k \<or> includes_str p (js_lower i)"
    using assms(2) angles_not_in_word [OF assms(2)] includes_sep [of "CHR ''<''" p k "js_lower i @ ''>''"]
      includes_after [of p "''>''" "js_lower i"]
    by (simp add: inner(2) lower_parts word_def)
  with includes_trimmed [OF assms(2), of s] inner.IH kinds_container [OF inner(1)] show ?case by simp
qed

lemma words: "word ''tree''" "word ''list''" "word ''linkedlist''" "word ''listnode''" "word ''graph''"
  by (simp_all add: word_def is_lower_def)

lemma kind_words:
  "k \<in> set VALID_KINDS \<Longrightarrow> includes_str ''tree'' k \<longleftrightarrow> k = ''tree''"
  "k \<in> set VALID_KINDS \<Longrightarrow> includes_str ''list'' k \<longleftrightarrow> k = ''linkedlist''"
  "k \<in> set VALID_KINDS \<Longrightarrow> includes_str ''graph'' k \<longleftrightarrow> k = ''graph''"
  by (auto simp: VALID_KINDS_def)

lemma includes_kind:
  assumes "spelled s t"
  shows "includes_str ''tree'' (js_lower s) \<longleftrightarrow> ''tree'' \<in> set (kinds t)"
    "includes_str ''list'' (js_lower s) \<longleftrightarrow> ''linkedlist'' \<in> set (kinds t)"
    "includes_str ''graph'' (js_lower s) \<longleftrightarrow> ''graph'' \<in> set (kinds t)"
  using includes_spelled [OF assms] words kind_words kinds_valid by auto

text \<open>The name of a type in a language, by recursion on the type: what \<open>mapType\<close> computes from a spelling.\<close>

definition entry_name :: "string \<Rightarrow> type_table \<Rightarrow> string \<Rightarrow> string \<Rightarrow> string" where
  "entry_name lang m k inner =
     (case map_of m k of
        None \<Rightarrow> unmapped lang
      | Some (Name n) \<Rightarrow> if n = [] then unmapped lang else n
      | Some (Wrap f) \<Rightarrow> f inner)"

fun type_name :: "string \<Rightarrow> type_table \<Rightarrow> ty \<Rightarrow> string" where
  "type_name lang m TNumber = entry_name lang m ''number'' ''void''"
| "type_name lang m TString = entry_name lang m ''string'' ''void''"
| "type_name lang m TBool = entry_name lang m ''boolean'' ''void''"
| "type_name lang m TVoid = entry_name lang m ''void'' ''void''"
| "type_name lang m (TArray t) = entry_name lang m ''array'' (type_name lang m t)"
| "type_name lang m (TMatrix t) = entry_name lang m ''matrix'' (type_name lang m t)"
| "type_name lang m (TTree t) = entry_name lang m ''tree'' (type_name lang m t)"
| "type_name lang m (TList t) = entry_name lang m ''linkedlist'' (type_name lang m t)"
| "type_name lang m (TGraph t) = entry_name lang m ''graph'' (type_name lang m t)"

lemma type_name_plain: "plain_type k = Some t \<Longrightarrow> type_name lang m t = entry_name lang m k ''void''"
  by (auto simp: plain_type_def split: if_splits)

lemma type_name_container: "container k = Some c \<Longrightarrow> type_name lang m (c t) = entry_name lang m k (type_name lang m t)"
  by (auto simp: container_def split: if_splits)

lemma mapType_empty [simp]: "mapType lang [] = ''void''"
  by (subst mapType.simps) simp

lemma mapType_spelled:
  assumes "spelled s t" "map_of type_maps lang = Some m"
  shows "mapType lang s = type_name lang m t"
  using assms(1)
proof (induction rule: spelled.induct)
  case (plain s t)
  note k = plain_types [OF plain]
  then have "s \<noteq> []" by auto
  with k assms(2) type_name_plain [OF plain] show ?case
    by (subst mapType.simps) (simp add: entry_name_def split: option.split type_entry.split)
next
  case (inner k c s i t)
  note k = containers [OF inner(1)]
  have m: "match_type (js_trim s) = Some (k, Some i)"
    unfolding inner(2) using k inner(3) by (intro match_generic) simp_all
  then have "s \<noteq> []" by auto
  with m assms(2) type_name_container [OF inner(1)] inner.IH show ?case
    by (subst mapType.simps) (simp add: entry_name_def split: option.split type_entry.split)
qed

lemma table_named:
  assumes "(lang, m) \<in> set type_maps"
  shows "type_name lang m t \<notin> {''auto'', ''Object''} \<or> (lang = ''go'' \<and> t = TVoid)"
proof -
  have "(lang, m) \<in> {(''cpp'', cppMap), (''java'', javaMap), (''csharp'', csharpMap), (''go'', goMap),
      (''typescript'', tsMap), (''c'', cMap), (''kotlin'', kotlinMap), (''rust'', rustMap)}"
    using assms by (simp add: type_maps_def)
  then show ?thesis
    by (cases t)
      (elim insertE emptyE;
       simp add: entry_name_def cppMap_def javaMap_def csharpMap_def goMap_def tsMap_def cMap_def kotlinMap_def
         rustMap_def around_def just_def append_eq_Cons_conv)+
qed

subsection \<open>Templates of typed problems\<close>

lemma any_type:
  "list_all2 spelled ss ts \<Longrightarrow> (\<And>s t. spelled s t \<Longrightarrow> P (js_lower s) = Q t) \<Longrightarrow>
     list_ex P (map js_lower ss) = (\<exists>t \<in> set ts. Q t)"
  by (induction rule: list_all2_induct) auto

lemma each_type:
  "list_all2 spelled ss ts \<Longrightarrow> map_of type_maps lang = Some m \<Longrightarrow> map (mapType lang) ss = map (type_name lang m) ts"
  by (induction rule: list_all2_induct) (simp_all add: mapType_spelled)

lemma list_words:
  "includes_str ''linkedlist'' u \<or> includes_str ''listnode'' u \<or> u = ''list'' \<or> includes_str ''list'' u \<longleftrightarrow>
     includes_str ''linkedlist'' u \<or> includes_str ''listnode'' u \<or> includes_str ''list'' u"
  by auto

lemma list_kind:
  assumes "spelled s t"
  shows "includes_str ''linkedlist'' (js_lower s) \<or> includes_str ''listnode'' (js_lower s) \<or> js_lower s = ''list'' \<or>
       includes_str ''list'' (js_lower s) \<longleftrightarrow> ''linkedlist'' \<in> set (kinds t)"
proof -
  have "\<not> includes_str ''listnode'' k" "includes_str ''linkedlist'' k \<longleftrightarrow> k = ''linkedlist''" if "k \<in> set VALID_KINDS" for k
    using that by (auto simp: VALID_KINDS_def)
  with includes_spelled [OF assms words(3)] includes_spelled [OF assms words(4)] kinds_valid
  have "includes_str ''linkedlist'' (js_lower s) \<longleftrightarrow> ''linkedlist'' \<in> set (kinds t)" "\<not> includes_str ''listnode'' (js_lower s)"
    by auto
  with includes_kind(2) [OF assms] show ?thesis unfolding list_words by simp
qed

text \<open>For a problem whose parameter and return types are types of the platform, however they are spelled, the
  templates show the definition of a tree, list or graph node exactly when such a structure occurs in one of the
  types, at any depth; and in every language with a type table each type is written as the table says, by
  recursion on the type, never as the fallback except the type \<^verbatim>\<open>void\<close> in Go.\<close>

theorem templates_follow_types:
  assumes "list_all2 spelled (map snd params @ [ret]) ts"
  shows "us_tree (detectUses params ret) = (\<exists>t \<in> set ts. ''tree'' \<in> set (kinds t)) \<and>
    us_list (detectUses params ret) = (\<exists>t \<in> set ts. ''linkedlist'' \<in> set (kinds t)) \<and>
    us_graph (detectUses params ret) = (\<exists>t \<in> set ts. ''graph'' \<in> set (kinds t)) \<and>
    (\<forall>lang m. map_of type_maps lang = Some m \<longrightarrow>
       map (mapType lang) (map snd params @ [ret]) = map (type_name lang m) ts \<and>
       (\<forall>t \<in> set ts. type_name lang m t \<in> {''auto'', ''Object''} \<longrightarrow> lang = ''go'' \<and> t = TVoid))"
proof (intro conjI allI impI ballI)
  show "us_tree (detectUses params ret) = (\<exists>t \<in> set ts. ''tree'' \<in> set (kinds t))"
    unfolding detectUses_def Let_def uses.simps by (rule any_type [OF assms]) (rule includes_kind)
  show "us_list (detectUses params ret) = (\<exists>t \<in> set ts. ''linkedlist'' \<in> set (kinds t))"
    unfolding detectUses_def Let_def uses.simps by (rule any_type [OF assms]) (rule list_kind)
  show "us_graph (detectUses params ret) = (\<exists>t \<in> set ts. ''graph'' \<in> set (kinds t))"
    unfolding detectUses_def Let_def uses.simps by (rule any_type [OF assms]) (rule includes_kind)
next
  fix lang m
  assume m: "map_of type_maps lang = Some m"
  from each_type [OF assms m] show "map (mapType lang) (map snd params @ [ret]) = map (type_name lang m) ts" .
  fix t
  assume "type_name lang m t \<in> {''auto'', ''Object''}"
  with table_named [OF map_of_SomeD [OF m], of t] show "lang = ''go''" "t = TVoid" by blast+
qed

lemma templates_follow_types_witness:
  "us_tree (detectUses [(''t'', ''array< tree<number> >'')] ''void'') \<and> mapType ''java'' ''array< tree<number> >'' = ''TreeNode[]''"
proof -
  have number: "spelled ''number'' TNumber" and void: "spelled ''void'' TVoid" by (rule plain, code_simp)+
  have tree: "spelled '' tree<number> '' (TTree TNumber)"
    by (rule inner [OF _ _ _ number, where k = "''tree''"]) (simp add: container_def, code_simp+)
  have "spelled ''array< tree<number> >'' (TArray (TTree TNumber))"
    by (rule inner [OF _ _ _ tree, where k = "''array''"]) (simp add: container_def, code_simp+)
  with void have "list_all2 spelled (map snd [(''t'', ''array< tree<number> >'')] @ [''void'']) [TArray (TTree TNumber), TVoid]"
    by simp
  from templates_follow_types [OF this] have "us_tree (detectUses [(''t'', ''array< tree<number> >'')] ''void'')"
      "map_of type_maps ''java'' = Some javaMap \<Longrightarrow> mapType ''java'' ''array< tree<number> >'' = type_name ''java'' javaMap (TArray (TTree TNumber))"
    by simp_all
  then show ?thesis by (simp add: type_maps_def entry_name_def javaMap_def around_def just_def)
qed

text \<open>Two entries that are not types of their language: a Go function without a result, and an array of trees in TypeScript.\<close>

lemma odd_types:
  "mapType ''go'' ''void'' = ''Object''" "mapType ''typescript'' ''array<tree<number>>'' = ''TreeNode | null[]''"
  by code_simp+

end
