(* ===== verification/Exam_Editor.thy ===== *)
theory Exam_Editor
  imports Problems Json_Laws Templates
begin

section \<open>Editing code and test cases in the browser client\<close>

text \<open>
  The rest of \<^verbatim>\<open>frontend/src/pages/AssessmentWorkspace.jsx\<close> and the same parts of \<^verbatim>\<open>ProblemPage.jsx\<close>: the
  draft an attempt keeps in the browser and on the server and how it is restored, the list of test cases a
  student edits, and the tests a practice run sends. Objects keyed by problem are \<open>JObj\<close> entries, keyed by the
  text of the problem's id; a page reads the problem as the server sends it.
\<close>

subsection \<open>Drafts\<close>

definition draft_key :: "problem \<Rightarrow> string" where
  "draft_key p = show_nat (pr_id p)"

text \<open>The stored text, \<open>None\<close> when there is none; a text that is not JSON is removed.\<close>

definition loadDraft :: "string option \<Rightarrow> jsval \<times> string option" where
  "loadDraft stored =
     (case json_parse (case stored of None \<Rightarrow> ''{}'' | Some t \<Rightarrow> or_text t ''{}'') of
        Some v \<Rightarrow> (v, stored)
      | None \<Rightarrow> (JObj [], None))"

text \<open>Every change is written to the browser's storage, once there is code.\<close>

definition save_local :: "jsval \<Rightarrow> jsval \<Rightarrow> jsval \<Rightarrow> time \<Rightarrow> string option \<Rightarrow> string option" where
  "save_local codes langs idx now stored =
     (if spread codes = [] then stored
      else json_str (JObj [(''codeMap'', codes), (''langMap'', langs), (''currentProblemIndex'', idx), (''savedAt'', jint now)]))"

text \<open>Two seconds later the same is sent to the server, without the time.\<close>

definition server_draft :: "jsval \<Rightarrow> jsval \<Rightarrow> jsval \<Rightarrow> jsval" where
  "server_draft codes langs idx = JObj [(''codeMap'', codes), (''langMap'', langs), (''currentProblemIndex'', idx)]"

text \<open>The warning that the server holds a newer draft, by the time \<open>updatedAt\<close> of the attempt.\<close>

definition draft_conflict :: "jsval \<Rightarrow> time option \<Rightarrow> bool" where
  "draft_conflict saved updated \<longleftrightarrow>
     truthy (oget saved ''savedAt'') \<and> spread (or_val (oget saved ''codeMap'') (JObj [])) \<noteq> [] \<and>
     (case updated of None \<Rightarrow> False | Some t \<Rightarrow> num_lt (to_num (oget saved ''savedAt'')) (Fin (of_int t)))"

text \<open>\<^verbatim>\<open>{ ...server, ...local }\<close>.\<close>

definition merged :: "string \<Rightarrow> jsval \<Rightarrow> jsval \<Rightarrow> (string \<times> jsval) list" where
  "merged k server saved =
     put_all (spread (or_val (oget saved k) (JObj []))) (put_all (spread (or_val (oget server k) (JObj []))) [])"

definition lookup :: "(string \<times> jsval) list \<Rightarrow> string \<Rightarrow> jsval" where
  "lookup kvs k = (case map_of kvs k of Some v \<Rightarrow> v | None \<Rightarrow> JUndef)"

definition first_language :: "assessment \<Rightarrow> string" where
  "first_language s = (case as_languages s of [] \<Rightarrow> ''python'' | l # ls \<Rightarrow> or_text l ''python'')"

definition problem_template :: "string \<Rightarrow> problem \<Rightarrow> string" where
  "problem_template lang p =
     buildTemplate lang (case pr_function p of Some f \<Rightarrow> f | None \<Rightarrow> ''undefined'') (pr_params p)
       (case pr_return p of Some t \<Rightarrow> t | None \<Rightarrow> [])"

text \<open>One problem of the assessment: its language and its code, from the drafts or from the start.\<close>

definition start_problem ::
    "string \<Rightarrow> problem \<Rightarrow> (string \<times> jsval) list \<times> (string \<times> jsval) list
       \<Rightarrow> ((string \<times> jsval) list \<times> (string \<times> jsval) list) result" where
  "start_problem dflt p st =
     (let (codes, langs) = st; k = draft_key p; lang = or_val (lookup langs k) (JStr dflt); code = lookup codes k in
      if truthy code then Inr (obj_put k code codes, obj_put k lang langs)
      else if \<not> is_str lang then Inl (TypeError ''(language || \"\").toLowerCase is not a function'')
      else Inr (obj_put k (JStr (problem_template (str_of lang) p)) codes, obj_put k lang langs))"

fun start_problems ::
    "string \<Rightarrow> problem list \<Rightarrow> (string \<times> jsval) list \<times> (string \<times> jsval) list
       \<Rightarrow> ((string \<times> jsval) list \<times> (string \<times> jsval) list) result" where
  "start_problems dflt [] st = Inr st"
| "start_problems dflt (p # ps) st =
     (case start_problem dflt p st of Inl e \<Rightarrow> Inl e | Inr st' \<Rightarrow> start_problems dflt ps st')"

definition start_index :: "jsval \<Rightarrow> jsval \<Rightarrow> jsval" where
  "start_index server saved =
     (if typeof (oget saved ''currentProblemIndex'') = ''number'' then oget saved ''currentProblemIndex''
      else if typeof (oget server ''currentProblemIndex'') = ''number'' then oget server ''currentProblemIndex''
      else jnat 0)"

text \<open>What the page starts with: the code, the languages and the position.\<close>

definition restore ::
    "string option \<Rightarrow> jsval \<Rightarrow> assessment \<Rightarrow> problem list
       \<Rightarrow> ((string \<times> jsval) list \<times> (string \<times> jsval) list \<times> jsval) result" where
  "restore stored server s ps =
     (let saved = fst (loadDraft stored) in
      if nullish saved then Inl (null_deref ''savedAt'')
      else (case start_problems (first_language s) ps (merged ''codeMap'' server saved, merged ''langMap'' server saved) of
              Inl e \<Rightarrow> Inl e
            | Inr (codes, langs) \<Rightarrow> Inr (codes, langs, start_index server saved)))"

definition handleLanguageChange ::
    "problem \<Rightarrow> string \<Rightarrow> (string \<times> jsval) list \<times> (string \<times> jsval) list
       \<Rightarrow> (string \<times> jsval) list \<times> (string \<times> jsval) list" where
  "handleLanguageChange p lang st =
     (obj_put (draft_key p) (JStr (problem_template lang p)) (fst st), obj_put (draft_key p) (JStr lang) (snd st))"

definition handleCodeChange :: "problem \<Rightarrow> string \<Rightarrow> (string \<times> jsval) list \<Rightarrow> (string \<times> jsval) list" where
  "handleCodeChange p code codes = obj_put (draft_key p) (JStr code) codes"

subsection \<open>Test cases\<close>

text \<open>The editor of one problem: the texts of its test cases and the position of the one on show.\<close>

record case_editor =
  ed_cases :: "string list"
  ed_active :: nat

type_synonym editors = "oid \<Rightarrow> case_editor option"

definition input_text :: "test_case \<Rightarrow> string" where
  "input_text tc = (case json_str (JArr (tc_inputs tc)) of Some s \<Rightarrow> s | None \<Rightarrow> [])"

definition initial_cases :: "problem \<Rightarrow> string list" where
  "initial_cases p =
     (let samples = filter (\<lambda>tc. tc_sample tc = Some True) (pr_tests p) in
      if samples \<noteq> [] then map input_text samples else [''[]''])"

definition open_editors :: "problem list \<Rightarrow> editors" where
  "open_editors ps = map_of (map (\<lambda>p. (pr_id p, \<lparr>ed_cases = initial_cases p, ed_active = 0\<rparr>)) ps)"

text \<open>\<^verbatim>\<open>map[problemId] || []\<close> and \<^verbatim>\<open>map[problemId] || 0\<close>.\<close>

definition editor :: "editors \<Rightarrow> oid \<Rightarrow> case_editor" where
  "editor es i = (case es i of Some e \<Rightarrow> e | None \<Rightarrow> \<lparr>ed_cases = [], ed_active = 0\<rparr>)"

text \<open>Writing past the end fills the gap with \<^verbatim>\<open>undefined\<close>, which reads as an empty text.\<close>

definition write_case :: "nat \<Rightarrow> string \<Rightarrow> string list \<Rightarrow> string list" where
  "write_case i v cs = (if i < length cs then cs[i := v] else cs @ replicate (i - length cs) [] @ [v])"

definition handleTestCaseChange :: "oid \<Rightarrow> nat \<Rightarrow> string \<Rightarrow> editors \<Rightarrow> editors" where
  "handleTestCaseChange p i v es = es(p \<mapsto> (editor es p)\<lparr>ed_cases := write_case i v (ed_cases (editor es p))\<rparr>)"

definition handleAddTestCase :: "oid \<Rightarrow> editors \<Rightarrow> editors" where
  "handleAddTestCase p es =
     es(p \<mapsto> \<lparr>ed_cases = ed_cases (editor es p) @ [''[]''], ed_active = length (ed_cases (editor es p))\<rparr>)"

definition cut_case :: "nat \<Rightarrow> 'a list \<Rightarrow> 'a list" where
  "cut_case i cs = (if length cs \<le> 1 then cs else take i cs @ drop (Suc i) cs)"

definition handleRemoveTestCase :: "oid \<Rightarrow> nat \<Rightarrow> editors \<Rightarrow> editors" where
  "handleRemoveTestCase p i es =
     (let e = editor es p; cur = ed_active e in
      es(p \<mapsto> \<lparr>ed_cases = cut_case i (ed_cases e), ed_active = (if i \<le> cur then cur - 1 else cur)\<rparr>))"

definition select_case :: "oid \<Rightarrow> nat \<Rightarrow> editors \<Rightarrow> editors" where
  "select_case p i es = es(p \<mapsto> (editor es p)\<lparr>ed_active := i\<rparr>)"

text \<open>What the page offers: a button for every case, one to add a case, one to remove the case on show, and its text.\<close>

datatype case_action = Select oid nat | Add oid | Remove oid | Edit oid string

fun offered :: "editors \<Rightarrow> case_action \<Rightarrow> bool" where
  "offered es (Select p i) = (i < length (ed_cases (editor es p)))"
| "offered es (Remove p) = (1 < length (ed_cases (editor es p)))"
| "offered es _ = True"

fun act :: "case_action \<Rightarrow> editors \<Rightarrow> editors" where
  "act (Select p i) es = select_case p i es"
| "act (Add p) es = handleAddTestCase p es"
| "act (Remove p) es = handleRemoveTestCase p (ed_active (editor es p)) es"
| "act (Edit p v) es = handleTestCaseChange p (ed_active (editor es p)) v es"

text \<open>The problem page has one problem, and refuses to remove its last test case before it touches anything.\<close>

definition practice_change :: "nat \<Rightarrow> string \<Rightarrow> case_editor \<Rightarrow> case_editor" where
  "practice_change i v e = e\<lparr>ed_cases := write_case i v (ed_cases e)\<rparr>"

definition practice_add :: "case_editor \<Rightarrow> case_editor" where
  "practice_add e = \<lparr>ed_cases = ed_cases e @ [''[]''], ed_active = length (ed_cases e)\<rparr>"

definition practice_remove :: "nat \<Rightarrow> case_editor \<Rightarrow> case_editor" where
  "practice_remove i e =
     (if length (ed_cases e) \<le> 1 then e
      else \<lparr>ed_cases = take i (ed_cases e) @ drop (Suc i) (ed_cases e),
             ed_active = (if i \<le> ed_active e then ed_active e - 1 else ed_active e)\<rparr>)"

subsection \<open>Running the test cases\<close>

text \<open>The inputs a text stands for; \<open>None\<close> when it is not JSON.\<close>

definition parse_inputs :: "string \<Rightarrow> jsval list option" where
  "parse_inputs s = map_option (\<lambda>v. if is_array v then elems v else [v]) (json_parse (or_text s ''[]''))"

definition run_test :: "jsval \<Rightarrow> jsval list \<Rightarrow> jsval" where
  "run_test expected inputs = JObj [(''inputs'', JArr inputs), (''expected'', expected), (''isSample'', JBool True)]"

text \<open>The exam page takes the expected value of the test case at the same position, the problem page sends none.\<close>

definition expected_at :: "test_case list \<Rightarrow> nat \<Rightarrow> jsval" where
  "expected_at tcs i = (if i < length tcs \<and> tc_expected (tcs ! i) \<noteq> JUndef then tc_expected (tcs ! i) else JNull)"

fun exam_tests :: "test_case list \<Rightarrow> nat \<Rightarrow> string list \<Rightarrow> jsval list option" where
  "exam_tests tcs i [] = Some []"
| "exam_tests tcs i (s # ss) =
     (case (parse_inputs s, exam_tests tcs (Suc i) ss) of
        (Some xs, Some ts) \<Rightarrow> Some (run_test (expected_at tcs i) xs # ts)
      | _ \<Rightarrow> None)"

fun practice_tests :: "string list \<Rightarrow> jsval list option" where
  "practice_tests [] = Some []"
| "practice_tests (s # ss) =
     (case (parse_inputs s, practice_tests ss) of
        (Some xs, Some ts) \<Rightarrow> Some (run_test JNull xs # ts)
      | _ \<Rightarrow> None)"

text \<open>The request of a run, or \<open>None\<close> when a text is not JSON and the page reports it without asking the server.\<close>

definition exam_run :: "problem \<Rightarrow> jsval \<Rightarrow> jsval \<Rightarrow> string list \<Rightarrow> jsval option" where
  "exam_run p code lang cases =
     map_option (\<lambda>ts. JObj [(''code'', code), (''language'', lang), (''customTests'', JArr ts)]) (exam_tests (pr_tests p) 0 cases)"

definition practice_run :: "jsval \<Rightarrow> jsval \<Rightarrow> string list \<Rightarrow> jsval option" where
  "practice_run code lang cases =
     map_option (\<lambda>ts. JObj [(''code'', code), (''language'', lang), (''customTests'', JArr ts)]) (practice_tests cases)"

subsection \<open>The editor keeps a test case on show\<close>

definition shows_case :: "editors \<Rightarrow> oid \<Rightarrow> bool" where
  "shows_case es p \<longleftrightarrow> (case es p of None \<Rightarrow> False | Some e \<Rightarrow> ed_active e < length (ed_cases e))"

fun target :: "case_action \<Rightarrow> oid" where
  "target (Select p i) = p"
| "target (Add p) = p"
| "target (Remove p) = p"
| "target (Edit p v) = p"

lemma initial_nonempty: "initial_cases p \<noteq> []"
  by (simp add: initial_cases_def Let_def)

lemma opened_shows: "p \<in> set ps \<Longrightarrow> shows_case (open_editors ps) (pr_id p)"
  using initial_nonempty by (induction ps) (auto simp: open_editors_def shows_case_def)

lemma cut_length: "i < length cs \<Longrightarrow> 1 < length cs \<Longrightarrow> length (cut_case i cs) = length cs - 1"
  by (simp add: cut_case_def)

lemma act_other: "p \<noteq> target a \<Longrightarrow> act a es p = es p"
  by (cases a)
    (simp_all add: select_case_def handleAddTestCase_def handleRemoveTestCase_def handleTestCaseChange_def Let_def)

lemma act_shows:
  assumes "shows_case es p" "offered es a"
  shows "shows_case (act a es) p"
proof (cases "p = target a")
  case True
  obtain e where e: "es p = Some e" "ed_active e < length (ed_cases e)"
    using assms(1) by (auto simp: shows_case_def split: option.splits)
  show ?thesis
  proof (cases a)
    case (Remove q)
    with True assms(2) e cut_length [of "ed_active e" "ed_cases e"] show ?thesis
      by (auto simp: shows_case_def handleRemoveTestCase_def editor_def Let_def)
  qed (use True assms(2) e in \<open>auto simp: shows_case_def select_case_def handleAddTestCase_def
    handleTestCaseChange_def editor_def write_case_def\<close>)
next
  case False
  with assms(1) show ?thesis by (simp add: shows_case_def act_other)
qed

text \<open>The two pages edit alike, as long as a test case is on show.\<close>

lemma pages_agree:
  assumes "es p = Some e" "ed_active e < length (ed_cases e)"
  shows "handleTestCaseChange p i v es p = Some (practice_change i v e)"
    "handleAddTestCase p es p = Some (practice_add e)"
    "handleRemoveTestCase p i es p = Some (practice_remove i e)"
  using assms
  by (auto simp: handleTestCaseChange_def handleAddTestCase_def handleRemoveTestCase_def practice_change_def
      practice_add_def practice_remove_def editor_def cut_case_def Let_def)

text \<open>A sequence of actions, each on offer when it is taken.\<close>

definition session :: "editors \<Rightarrow> case_action list \<Rightarrow> bool" where
  "session es as = steps_allowed (\<lambda>a es. offered es a) act as es"

interpretation case_editing: event_machine act "\<lambda>a es. offered es a" "\<lambda>es. shows_case es p"
  by unfold_locales (rule act_shows)

text \<open>Whatever a student does with the test cases of the problems, in any order, every problem keeps at least one
  test case and the position on show is that of a test case; an action on one problem leaves the others alone;
  and removing the case on show takes away exactly that one.\<close>

theorem cases_on_show:
  assumes "session (open_editors ps) as" "p \<in> set ps"
  shows "let es = fold act as (open_editors ps); e = editor es (pr_id p) in
    es (pr_id p) \<noteq> None \<and> ed_active e < length (ed_cases e) \<and>
    (\<forall>a. pr_id p \<noteq> target a \<longrightarrow> act a es (pr_id p) = es (pr_id p)) \<and>
    (1 < length (ed_cases e) \<longrightarrow>
       ed_cases e = take (ed_active e) (ed_cases e) @ ed_cases e ! ed_active e # drop (Suc (ed_active e)) (ed_cases e) \<and>
       ed_cases (editor (act (Remove (pr_id p)) es) (pr_id p)) =
         take (ed_active e) (ed_cases e) @ drop (Suc (ed_active e)) (ed_cases e))"
proof -
  define es where "es = fold act as (open_editors ps)"
  have "shows_case es (pr_id p)" unfolding es_def by (rule case_editing.run_keeps [OF opened_shows [OF assms(2)] assms(1) [unfolded session_def]])
  then obtain e where e: "es (pr_id p) = Some e" "ed_active e < length (ed_cases e)"
    by (auto simp: shows_case_def split: option.splits)
  then have "editor es (pr_id p) = e" by (simp add: editor_def)
  with e show ?thesis
    by (simp add: Let_def es_def [symmetric] act_other handleRemoveTestCase_def cut_case_def id_take_nth_drop editor_def)
qed

subsection \<open>Which expected value a run compares with\<close>

lemma fill_map_find:
  "fill_map tcs k = map_option tc_expected (find (\<lambda>tc. json_str (JArr (tc_inputs tc)) = Some k) (rev tcs))"
  by (induction tcs rule: rev_induct) (auto simp: fill_map_def split: option.splits simp del: json_str.simps)

definition matching_case :: "test_case list \<Rightarrow> jsval list \<Rightarrow> test_case option" where
  "matching_case tcs xs = find (\<lambda>tc. tc_inputs tc = xs) (rev tcs)"

lemma find_cong: "(\<And>x. x \<in> set xs \<Longrightarrow> P x = Q x) \<Longrightarrow> find P xs = find Q xs"
  by (induction xs) auto

lemma fill_map_plain:
  assumes "\<forall>tc \<in> set tcs. plain_values (tc_inputs tc)" "plain_values xs" "json_str (JArr xs) = Some k"
  shows "fill_map tcs k = map_option tc_expected (matching_case tcs xs)"
proof -
  have "json_str (JArr (tc_inputs tc)) = Some k \<longleftrightarrow> tc_inputs tc = xs" if "tc \<in> set tcs" for tc
    using json_text.written_inj [of "JArr (tc_inputs tc)" "JArr xs"] assms that by (auto simp del: json_str.simps)
  then have "find (\<lambda>tc. json_str (JArr (tc_inputs tc)) = Some k) (rev tcs) = find (\<lambda>tc. tc_inputs tc = xs) (rev tcs)"
    by (intro find_cong) simp
  then show ?thesis by (simp add: fill_map_find matching_case_def del: json_str.simps)
qed

lemma fill_run_test:
  assumes "\<forall>tc \<in> set tcs. plain_values (tc_inputs tc)" "plain_values xs"
  shows "fill_test tcs (run_test JNull xs) =
     run_test (case matching_case tcs xs of Some tc \<Rightarrow> tc_expected tc | None \<Rightarrow> JNull) xs"
proof -
  have "plain_value (JArr xs)" using assms(2) by simp
  then obtain k where k: "json_str (JArr xs) = Some k" by (rule json_roundtrip)
  with fill_map_plain [OF assms k] show ?thesis
    by (auto simp: fill_test_def run_test_def simp del: json_str.simps split: option.splits)
qed

lemma fill_expected: "\<not> nullish v \<Longrightarrow> fill_test tcs (run_test v xs) = run_test v xs"
  by (simp add: fill_test_def run_test_def)

lemma practice_nth:
  "practice_tests cases = Some ts \<Longrightarrow> i < length cases \<Longrightarrow>
     \<exists>xs. parse_inputs (cases ! i) = Some xs \<and> i < length ts \<and> ts ! i = run_test JNull xs"
proof (induction cases arbitrary: ts i)
  case (Cons s ss)
  then show ?case by (cases i) (auto split: option.splits)
qed simp

lemma exam_nth:
  "exam_tests tcs j cases = Some ts \<Longrightarrow> i < length cases \<Longrightarrow>
     \<exists>xs. parse_inputs (cases ! i) = Some xs \<and> i < length ts \<and> ts ! i = run_test (expected_at tcs (j + i)) xs"
proof (induction cases arbitrary: ts i j)
  case (Cons s ss)
  then obtain xs ts' where s: "parse_inputs s = Some xs" "exam_tests tcs (Suc j) ss = Some ts'"
      "ts = run_test (expected_at tcs j) xs # ts'"
    by (auto split: option.splits)
  show ?case
  proof (cases i)
    case (Suc m)
    with Cons.IH [OF s(2), of m] Cons.prems(2) s(3) show ?thesis by simp
  qed (use s in simp)
qed simp

text \<open>With which expected value the judge compares the \<open>i\<close>-th test case of a run. From the problem page it
  is that of the last stored test case, hidden or not, that has the inputs the student typed, and none when no
  stored test case has them. From the exam page it is that of the stored test case at the same position,
  whatever inputs the student typed there.\<close>

theorem run_expectations:
  assumes "\<forall>tc \<in> set (pr_tests p). plain_values (tc_inputs tc)"
    and "i < length cases" "parse_inputs (cases ! i) = Some xs" "plain_values xs" "pr_tests p \<noteq> []"
  shows "(practice_tests cases = Some ts \<longrightarrow>
      elems (fill_tests (pr_tests p) (JArr ts)) ! i =
        run_test (case matching_case (pr_tests p) xs of Some tc \<Rightarrow> tc_expected tc | None \<Rightarrow> JNull) xs) \<and>
    (exam_tests (pr_tests p) 0 cases = Some ts \<and> \<not> nullish (expected_at (pr_tests p) i) \<longrightarrow>
      elems (fill_tests (pr_tests p) (JArr ts)) ! i = run_test (tc_expected (pr_tests p ! i)) xs)"
proof (intro conjI impI)
  assume "practice_tests cases = Some ts"
  from practice_nth [OF this assms(2)] assms(3) have "i < length ts" "ts ! i = run_test JNull xs" by auto
  with fill_run_test [OF assms(1,4)] assms(5)
  show "elems (fill_tests (pr_tests p) (JArr ts)) ! i =
      run_test (case matching_case (pr_tests p) xs of Some tc \<Rightarrow> tc_expected tc | None \<Rightarrow> JNull) xs"
    by (simp add: fill_tests_def)
next
  assume exam: "exam_tests (pr_tests p) 0 cases = Some ts \<and> \<not> nullish (expected_at (pr_tests p) i)"
  then have "expected_at (pr_tests p) i = tc_expected (pr_tests p ! i)" by (simp add: expected_at_def split: if_splits)
  with exam_nth [OF conjunct1 [OF exam] assms(2)] assms(3) exam
  have "i < length ts" "ts ! i = run_test (tc_expected (pr_tests p ! i)) xs" "\<not> nullish (tc_expected (pr_tests p ! i))"
    by auto
  with fill_expected assms(5) show "elems (fill_tests (pr_tests p) (JArr ts)) ! i = run_test (tc_expected (pr_tests p ! i)) xs"
    by (simp add: fill_tests_def)
qed

text \<open>A problem with two samples, of which the student has removed the first.\<close>

definition two_samples :: problem where
  "two_samples =
     (Submission_Laws.sample_problem)\<lparr>pr_tests :=
        [\<lparr>tc_inputs = [jnat 1], tc_expected = jnat 10, tc_sample = Some True, tc_hidden = Some False\<rparr>,
         \<lparr>tc_inputs = [jnat 2], tc_expected = jnat 20, tc_sample = Some True, tc_hidden = Some False\<rparr>]\<rparr>"

lemma two_samples_tests:
  "pr_tests two_samples =
     [\<lparr>tc_inputs = [jnat 1], tc_expected = jnat 10, tc_sample = Some True, tc_hidden = Some False\<rparr>,
      \<lparr>tc_inputs = [jnat 2], tc_expected = jnat 20, tc_sample = Some True, tc_hidden = Some False\<rparr>]"
  by (simp add: two_samples_def)

lemma cases_on_show_witness:
  "ed_active (editor (fold act [Select 20 1, Edit 20 ''[3]'', Remove 20] (open_editors [two_samples])) 20) <
     length (ed_cases (editor (fold act [Select 20 1, Edit 20 ''[3]'', Remove 20] (open_editors [two_samples])) 20))"
proof -
  have id: "pr_id two_samples = 20" by (simp add: two_samples_def Submission_Laws.sample_problem_def)
  have "length (initial_cases two_samples) = 2" by (simp add: initial_cases_def two_samples_tests Let_def)
  then have "session (open_editors [two_samples]) [Select 20 1, Edit 20 ''[3]'', Remove 20]"
    by (simp add: session_def open_editors_def editor_def id select_case_def handleTestCaseChange_def write_case_def)
  from cases_on_show [OF this, of two_samples] id show ?thesis by (simp add: Let_def del: act.simps)
qed

lemma run_expectations_witness:
  "elems (fill_tests (pr_tests two_samples) (JArr [run_test JNull [jnat 2]])) ! 0 = run_test (jnat 20) [jnat 2] \<and>
   elems (fill_tests (pr_tests two_samples) (JArr [run_test (jnat 10) [jnat 2]])) ! 0 = run_test (jnat 10) [jnat 2]"
proof -
  have parse: "parse_inputs ''[2]'' = Some [jnat 2]" by code_simp
  then have "practice_tests [''[2]''] = Some [run_test JNull [jnat 2]]"
      "exam_tests (pr_tests two_samples) 0 [''[2]''] = Some [run_test (jnat 10) [jnat 2]]"
    by (simp_all add: expected_at_def two_samples_tests)
  then show ?thesis
    using run_expectations [of two_samples 0 "[''[2]'']" "[jnat 2]"] parse
    by (simp add: two_samples_tests matching_case_def expected_at_def)
qed

subsection \<open>A draft survives a reload\<close>

definition texts :: "(string \<times> jsval) list \<Rightarrow> bool" where
  "texts kvs \<longleftrightarrow> distinct (map fst kvs) \<and> list_all (\<lambda>kv. is_str (snd kv)) kvs"

lemma plain_texts: "list_all (\<lambda>kv. is_str (snd kv)) kvs \<Longrightarrow> plain_fields kvs"
proof (induction kvs)
  case (Cons kv kvs)
  then show ?case by (cases kv; cases "snd kv") auto
qed simp

lemma map_of_put_all:
  "distinct (map fst kvs) \<Longrightarrow> map_of (put_all kvs acc) k = (case map_of kvs k of Some v \<Rightarrow> Some v | None \<Rightarrow> map_of acc k)"
proof (induction kvs arbitrary: acc)
  case (Cons kv kvs)
  obtain k' v where kv: "kv = (k', v)" by (cases kv)
  with Cons.prems have "map_of kvs k' = None" by (auto simp: map_of_eq_None_iff)
  with Cons kv show ?case by (auto split: option.splits)
qed simp

lemma load_saved:
  fixes codes langs i now stored
  assumes "texts codes" "texts langs" "codes \<noteq> []"
  defines "v \<equiv> JObj [(''codeMap'', JObj codes), (''langMap'', JObj langs), (''currentProblemIndex'', jnat i), (''savedAt'', jint now)]"
  shows "fst (loadDraft (save_local (JObj codes) (JObj langs) (jnat i) now stored)) = v"
proof -
  have "plain_value v" using assms by (simp add: texts_def plain_texts)
  then obtain s where s: "json_str v = Some s" "json_parse s = Some v" by (rule json_roundtrip)
  moreover have "json_parse [] = None" by code_simp
  ultimately have "s \<noteq> []" by auto
  with s assms(3) show ?thesis by (simp add: loadDraft_def save_local_def v_def or_text_def del: json_str.simps)
qed

text \<open>A problem that has code and a language in the drafts keeps both.\<close>

definition kept_draft :: "(string \<times> jsval) list \<Rightarrow> (string \<times> jsval) list \<Rightarrow> problem \<Rightarrow> bool" where
  "kept_draft codes langs p \<longleftrightarrow>
     (\<exists>c l. c \<noteq> [] \<and> l \<noteq> [] \<and> map_of codes (draft_key p) = Some (JStr c) \<and> map_of langs (draft_key p) = Some (JStr l))"

lemma kept_mono:
  assumes "kept_draft codes langs p" "\<And>k v. map_of codes k = Some v \<Longrightarrow> map_of codes' k = Some v"
    "\<And>k v. map_of langs k = Some v \<Longrightarrow> map_of langs' k = Some v"
  shows "kept_draft codes' langs' p"
  using assms(1) unfolding kept_draft_def by (elim exE conjE) (intro exI conjI, assumption+, auto intro: assms(2,3))

lemma start_kept:
  assumes "kept_draft codes langs p"
  obtains codes' langs' where "start_problem d p (codes, langs) = Inr (codes', langs')"
    "map_of codes' = map_of codes" "map_of langs' = map_of langs"
proof -
  obtain c l where "c \<noteq> []" "l \<noteq> []" "map_of codes (draft_key p) = Some (JStr c)" "map_of langs (draft_key p) = Some (JStr l)"
    using assms by (auto simp: kept_draft_def)
  then have "start_problem d p (codes, langs) = Inr (obj_put (draft_key p) (JStr c) codes, obj_put (draft_key p) (JStr l) langs)"
      "map_of (obj_put (draft_key p) (JStr c) codes) = map_of codes" "map_of (obj_put (draft_key p) (JStr l) langs) = map_of langs"
    by (auto simp: start_problem_def lookup_def or_val_def fun_eq_iff Let_def)
  then show thesis by (rule that)
qed

lemma start_all_kept:
  "\<forall>p \<in> set ps. kept_draft codes langs p \<Longrightarrow>
     \<exists>codes' langs'. start_problems d ps (codes, langs) = Inr (codes', langs') \<and> map_of codes' = map_of codes \<and> map_of langs' = map_of langs"
proof (induction ps arbitrary: codes langs)
  case (Cons p ps)
  then have "kept_draft codes langs p" by simp
  then obtain codes' langs' where step: "start_problem d p (codes, langs) = Inr (codes', langs')"
      "map_of codes' = map_of codes" "map_of langs' = map_of langs"
    by (rule start_kept)
  then have "\<forall>q \<in> set ps. kept_draft codes' langs' q" using Cons.prems by (simp add: kept_draft_def)
  from Cons.IH [OF this] step show ?case by auto
qed simp



end
