(* ===== verification/Json_Pretty.thy ===== *)
theory Json_Pretty
  imports Json_Laws
begin

section \<open>\<^verbatim>\<open>JSON.stringify\<close> with an indent\<close>

text \<open>
  \<^verbatim>\<open>JSON.stringify(v, null, 2)\<close>, the text an upload puts into the editor of the import page, and that
  \<^verbatim>\<open>JSON.parse\<close> reads it back: the laws of the text without white space, with a gap allowed wherever the
  parser skips one.
\<close>

definition line_break :: "nat \<Rightarrow> string" where
  "line_break ind = char_of (10 :: nat) # replicate ind (char_of (32 :: nat))"

definition pretty_list :: "nat \<Rightarrow> string list \<Rightarrow> string" where
  "pretty_list ind ss = line_break (ind + 2) @ join_with ('','' @ line_break (ind + 2)) ss @ line_break ind"

fun json_pretty :: "nat \<Rightarrow> jsval \<Rightarrow> string option" and
    pretty_elems :: "nat \<Rightarrow> jsval list \<Rightarrow> string list" and
    pretty_fields :: "nat \<Rightarrow> (string \<times> jsval) list \<Rightarrow> string list" where
  "json_pretty ind (JArr vs) =
     Some (if vs = [] then ''[]'' else ''['' @ pretty_list ind (pretty_elems (ind + 2) vs) @ '']'')"
| "json_pretty ind (JObj kvs) =
     (let fs = pretty_fields (ind + 2) kvs in
      Some (if fs = [] then ''{}'' else ''{'' @ pretty_list ind fs @ ''}''))"
| "json_pretty ind v = json_str v"
| "pretty_elems ind [] = []"
| "pretty_elems ind (v # vs) = (case json_pretty ind v of None \<Rightarrow> ''null'' | Some s \<Rightarrow> s) # pretty_elems ind vs"
| "pretty_fields ind [] = []"
| "pretty_fields ind ((k, v) # kvs) =
     (case json_pretty ind v of
        None \<Rightarrow> pretty_fields ind kvs
      | Some s \<Rightarrow> (json_string k @ '': '' @ s) # pretty_fields ind kvs)"

subsection \<open>Gaps\<close>

definition gap :: "string \<Rightarrow> bool" where
  "gap s \<longleftrightarrow> list_all json_ws s"

lemma gap_break [simp]: "gap (line_break n)"
  by (simp add: gap_def line_break_def json_ws_def list_all_iff)

lemma skip_gap [simp]: "gap g \<Longrightarrow> skip_ws (g @ s) = skip_ws s"
  by (induction g) (simp_all add: gap_def skip_ws_def)

lemma skip_gap_sign: "gap g \<Longrightarrow> \<not> json_ws c \<Longrightarrow> skip_ws (g @ c # r) = c # r"
  by (simp add: skip_sign)

lemma value_skips: "json_value n (g @ s) = json_value n s" if "gap g"
  using that by (cases n) simp_all

lemma members_skips: "json_members n (g @ s) = json_members n s" if "gap g"
  using that by (cases n) simp_all

lemma items_skips: "json_items n (g @ s) = json_items n s" if "gap g"
  using that by (cases n) (simp_all add: value_skips)

lemma stops_gap: "gap g \<Longrightarrow> stops r \<Longrightarrow> stops (g @ r)"
proof (cases g)
  case (Cons c cs)
  moreover have "json_ws c \<Longrightarrow> \<not> num_char c" by (auto simp: json_ws_def num_char_def is_digit_def)
  ultimately show "gap g \<Longrightarrow> stops r \<Longrightarrow> stops (g @ r)" by (simp add: gap_def stops_def)
qed simp

subsection \<open>Items and members\<close>

definition items_text :: "jsval list \<Rightarrow> string \<Rightarrow> bool" where
  "items_text vs s \<longleftrightarrow> opens s \<and>
     (\<forall>n g rest. gap g \<longrightarrow> 2 * length s < n \<longrightarrow> json_items n (s @ g @ CHR '']'' # rest) = Some (vs, rest))"

definition members_text :: "(string \<times> jsval) list \<Rightarrow> string \<Rightarrow> bool" where
  "members_text kvs s \<longleftrightarrow> opens s \<and>
     (\<forall>n g rest. gap g \<longrightarrow> 2 * length s < n \<longrightarrow> json_members n (s @ g @ CHR ''}'' # rest) = Some (kvs, rest))"

lemma items_text_one:
  assumes "readable v s"
  shows "items_text [v] s"
proof -
  have "json_items n (s @ g @ CHR '']'' # rest) = Some ([v], rest)" if "2 * length s < n" "gap g" for n g rest
    using that readableD [OF assms, of "n - 1" "g @ CHR '']'' # rest"]
    by (cases n) (simp_all add: skip_sign stops_gap)
  with readable_opens [OF assms] show ?thesis by (simp add: items_text_def)
qed

lemma items_text_more:
  assumes "readable v s" "items_text vs t" "gap h"
  shows "items_text (v # vs) (s @ ('','' @ h) @ t)"
proof -
  have "json_items n (s @ CHR '','' # h @ t @ g @ CHR '']'' # rest) = Some (v # vs, rest)"
    if n: "2 * length (s @ ('','' @ h) @ t) < n" and g: "gap g" for n g rest
  proof -
    obtain m where m: "n = Suc m" using n by (cases n) auto
    have "json_items m (t @ g @ CHR '']'' # rest) = Some (vs, rest)"
      using assms(2) n m g by (simp add: items_text_def)
    with readableD [OF assms(1), of m "CHR '','' # h @ t @ g @ CHR '']'' # rest"] n m assms(3) show ?thesis
      by (simp add: skip_sign items_skips)
  qed
  with readable_opens [OF assms(1)] show ?thesis by (simp add: items_text_def opens_append)
qed

lemma member_text:
  assumes "readable v s" "2 * length s \<le> n" "stops rest" "gap h"
  shows "json_members (Suc n) (json_string k @ CHR '':'' # h @ s @ rest) =
     (case skip_ws rest of
        [] \<Rightarrow> None
      | e # es \<Rightarrow>
          if e = CHR ''}'' then Some ([(k, v)], es)
          else if e = CHR '','' then map_option (\<lambda>(kvs, rest). ((k, v) # kvs, rest)) (json_members n es)
          else None)"
proof -
  have "json_chars (Suc (length (concat (map json_char k) @ CHR 0x22 # CHR '':'' # h @ s @ rest)))
      (concat (map json_char k) @ CHR 0x22 # CHR '':'' # h @ s @ rest) = Some (k, CHR '':'' # h @ s @ rest)"
    by (rule read_string)
  with readableD [OF assms(1-3)] assms(4) show ?thesis
    by (simp add: json_string_def skip_sign value_skips)
qed

lemma space_gap [simp]: "gap '' ''"
  by (simp add: gap_def json_ws_def)

lemma members_text_one:
  assumes "readable v s"
  shows "members_text [(k, v)] (json_string k @ '': '' @ s)"
proof -
  have "json_members n (json_string k @ CHR '':'' # '' '' @ s @ g @ CHR ''}'' # rest) = Some ([(k, v)], rest)"
    if n: "2 * length (json_string k @ '': '' @ s) < n" and g: "gap g" for n g rest
  proof -
    obtain m where m: "n = Suc m" using n by (cases n) auto
    with n g show ?thesis
      using member_text [OF assms, of m "g @ CHR ''}'' # rest" "'' ''" k] by (simp add: skip_sign stops_gap)
  qed
  then show ?thesis by (simp add: members_text_def opens_string)
qed

lemma members_text_more:
  assumes "readable v s" "members_text kvs t" "gap h"
  shows "members_text ((k, v) # kvs) ((json_string k @ '': '' @ s) @ ('','' @ h) @ t)"
proof -
  have "json_members n (json_string k @ CHR '':'' # '' '' @ s @ CHR '','' # h @ t @ g @ CHR ''}'' # rest) =
      Some ((k, v) # kvs, rest)"
    if n: "2 * length ((json_string k @ '': '' @ s) @ ('','' @ h) @ t) < n" and g: "gap g" for n g rest
  proof -
    obtain m where m: "n = Suc m" using n by (cases n) auto
    have "json_members m (t @ g @ CHR ''}'' # rest) = Some (kvs, rest)"
      using assms(2) n m g by (simp add: members_text_def)
    with n m assms(3) show ?thesis
      using member_text [OF assms(1), of m "CHR '','' # h @ t @ g @ CHR ''}'' # rest" "'' ''" k]
      by (simp add: skip_sign members_skips)
  qed
  then show ?thesis by (simp add: members_text_def opens_string)
qed

lemma array_text:
  assumes "items_text vs s" "gap g" "gap h"
  shows "readable (JArr vs) (''['' @ g @ s @ h @ '']'')"
proof -
  have "json_value n (CHR ''['' # g @ s @ h @ CHR '']'' # rest) = Some (JArr vs, rest)"
    if n: "2 * length (''['' @ g @ s @ h @ '']'') \<le> n" for n rest
  proof -
    obtain m where m: "n = Suc m" using n by (cases n) auto
    have "opens s" using assms by (simp add: items_text_def)
    then obtain d ds where s: "s = d # ds" "d \<noteq> CHR '']''" "\<not> json_ws d" by (cases s) (auto simp: opens_def)
    have "json_items m (s @ h @ CHR '']'' # rest) = Some (vs, rest)" using assms n m by (simp add: items_text_def)
    then have "json_items m (g @ s @ h @ CHR '']'' # rest) = Some (vs, rest)" using assms(2) by (simp add: items_skips)
    with s m assms(2) show ?thesis by (simp add: skip_sign)
  qed
  then show ?thesis by (simp add: readable_def opens_def)
qed

lemma object_text:
  assumes "members_text kvs s" "distinct (map fst kvs)" "gap g" "gap h"
  shows "readable (JObj kvs) (''{'' @ g @ s @ h @ ''}'')"
proof -
  have "json_value n (CHR ''{'' # g @ s @ h @ CHR ''}'' # rest) = Some (JObj kvs, rest)"
    if n: "2 * length (''{'' @ g @ s @ h @ ''}'') \<le> n" for n rest
  proof -
    obtain m where m: "n = Suc m" using n by (cases n) auto
    have "opens s" using assms(1) by (simp add: members_text_def)
    then obtain d ds where s: "s = d # ds" "d \<noteq> CHR ''}''" "\<not> json_ws d" by (cases s) (auto simp: opens_def)
    have "json_members m (s @ h @ CHR ''}'' # rest) = Some (kvs, rest)"
      using assms(1,4) n m by (simp add: members_text_def)
    then have "json_members m (g @ s @ h @ CHR ''}'' # rest) = Some (kvs, rest)"
      using assms(3) by (simp add: members_skips)
    with s m rebuild [of "[]" kvs] assms(2,3) show ?thesis by (simp add: skip_sign)
  qed
  then show ?thesis by (simp add: readable_def opens_def)
qed

subsection \<open>The round trip\<close>

lemma pretty_readable:
  "plain_value v \<Longrightarrow> \<exists>s. json_pretty ind v = Some s \<and> readable v s"
  "plain_values vs \<Longrightarrow> vs \<noteq> [] \<Longrightarrow> gap g \<Longrightarrow> items_text vs (join_with ('','' @ g) (pretty_elems ind vs))"
  "plain_fields kvs \<Longrightarrow> kvs \<noteq> [] \<Longrightarrow> gap g \<Longrightarrow> members_text kvs (join_with ('','' @ g) (pretty_fields ind kvs))"
proof (induction v and vs and kvs arbitrary: ind and ind g and ind g
    rule: plain_value_plain_values_plain_fields.induct)
  case (4 n)
  then obtain q where q: "n = Fin q" "q = of_int \<lfloor>q\<rfloor>" by (cases n) auto
  with readable_int [of "\<lfloor>q\<rfloor>"] show ?case by simp
next
  case (6 vs)
  then show ?case
    using array_text [of vs] readable_empty(1) by (cases "vs = []") (auto simp: pretty_list_def)
next
  case (7 kvs)
  show ?case
  proof (cases "kvs = []")
    case False
    with 7 have m: "members_text kvs (join_with ('','' @ line_break (ind + 2)) (pretty_fields (ind + 2) kvs))"
      by simp
    then have "pretty_fields (ind + 2) kvs \<noteq> []" by (auto simp: members_text_def opens_def)
    with m 7 show ?thesis
      using object_text [of kvs] by (auto simp: pretty_list_def Let_def)
  qed (simp add: readable_empty)
next
  case (9 v vs)
  then have "plain_value v" by simp
  with "9.IH"(1) obtain s where "json_pretty ind v = Some s" "readable v s" by blast
  with 9 items_text_one items_text_more [of v s vs _ g] show ?case by (cases vs) auto
next
  case (11 k v kvs)
  then have "plain_value v" by simp
  with "11.IH"(1) obtain s where s: "json_pretty ind v = Some s" "readable v s" by blast
  show ?case
  proof (cases kvs)
    case Nil
    with s members_text_one show ?thesis by simp
  next
    case (Cons kv kvs')
    with 11 have "members_text kvs (join_with ('','' @ g) (pretty_fields ind kvs))" by simp
    moreover from this have "pretty_fields ind kvs \<noteq> []" by (auto simp: members_text_def opens_def)
    ultimately show ?thesis
      using members_text_more [OF s(2), of kvs "join_with ('','' @ g) (pretty_fields ind kvs)" g k] s(1) 11(5)
      by (cases "pretty_fields ind kvs") simp_all
  qed
qed (simp_all add: readable_words readable_string)

lemma json_pretty_roundtrip:
  assumes "plain_value v"
  obtains s where "json_pretty 0 v = Some s" "json_parse s = Some v"
proof -
  obtain s where s: "json_pretty 0 v = Some s" "readable v s" using pretty_readable(1) [OF assms] by blast
  from readableD [OF s(2), of "2 * length s + 2" "[]"] have "json_parse s = Some v"
    by (simp add: json_parse_def skip_ws_def)
  with s(1) show thesis by (rule that)
qed

interpretation pretty_text: text_format "json_pretty 0" json_parse plain_value
  by unfold_locales (metis json_pretty_roundtrip)

end
