(* ===== verification/Sheets.thy ===== *)
theory Sheets
  imports Js_Value
begin

section \<open>Spreadsheets\<close>

text \<open>
  \<^verbatim>\<open>frontend/src/utils/excel.js\<close>. The file format is ExcelJS's: a sheet is given as the cells ExcelJS reports
  for the header row and for each later row that is not empty, \<open>None\<close> for a cell that is missing; a sheet that
  is written is the header texts, the rows and the column widths. No text that is written begins with a
  character that starts a formula.
\<close>

subsection \<open>Cells\<close>

definition formula_triggers :: "char list" where
  "formula_triggers = [CHR ''='', CHR ''+'', CHR ''-'', CHR ''@'', CHR 0x09, CHR 0x0D]"

definition sanitizeCellValue :: "jsval \<Rightarrow> jsval" where
  "sanitizeCellValue v =
     (case v of
        JStr (c # cs) \<Rightarrow> if c \<in> set formula_triggers then JStr (CHR 0x27 # c # cs) else v
      | _ \<Rightarrow> v)"

definition sanitizeRow :: "jsval \<Rightarrow> jsval" where
  "sanitizeRow row =
     (case row of
        JArr vs \<Rightarrow> JArr (map sanitizeCellValue vs)
      | JObj kvs \<Rightarrow> JObj (map (\<lambda>(k, v). (k, sanitizeCellValue v)) kvs)
      | _ \<Rightarrow> JObj [])"

subsection \<open>Reading\<close>

definition cell_or_empty :: "jsval option \<Rightarrow> jsval" where
  "cell_or_empty c = (case c of None \<Rightarrow> JStr [] | Some v \<Rightarrow> if nullish v then JStr [] else v)"

fun row_object :: "string option list \<Rightarrow> jsval option list \<Rightarrow> (string \<times> jsval) list \<Rightarrow> (string \<times> jsval) list" where
  "row_object [] cells acc = acc"
| "row_object (None # hs) cells acc = row_object hs (tl cells) acc"
| "row_object (Some h # hs) cells acc =
     row_object hs (tl cells) (obj_put h (cell_or_empty (if cells = [] then None else hd cells)) acc)"

type_synonym sheet = "jsval option list \<times> jsval option list list"

definition header_texts :: "jsval option list \<Rightarrow> string option list" where
  "header_texts cells = map (map_option (\<lambda>h. if nullish h then [] else to_str h)) cells"

text \<open>\<^verbatim>\<open>workbook.worksheets[0]\<close> is missing in an empty workbook.\<close>

definition readWorkbookRows :: "sheet option \<Rightarrow> jsval list" where
  "readWorkbookRows sh =
     (case sh of
        None \<Rightarrow> []
      | Some (header, rows) \<Rightarrow> map (\<lambda>cells. JObj (row_object (header_texts header) cells [])) rows)"

subsection \<open>Writing\<close>

record written =
  wr_header :: "string list"
  wr_rows :: "jsval list"
  wr_widths :: "nat list option"

definition object_keys :: "jsval \<Rightarrow> string list" where
  "object_keys v = (case v of JObj kvs \<Rightarrow> map fst kvs | _ \<Rightarrow> [])"

definition cell_length :: "string \<Rightarrow> jsval \<Rightarrow> nat" where
  "cell_length k row = length (if nullish (oget row k) then [] else to_str (oget row k))"

definition column_width :: "jsval list \<Rightarrow> string \<Rightarrow> nat" where
  "column_width rows k = fold max (map (cell_length k) rows) (length k) + 2"

definition downloadRowsAsExcel :: "bool \<Rightarrow> jsval list \<Rightarrow> written" where
  "downloadRowsAsExcel autosize rows =
     (case rows of
        [] \<Rightarrow> \<lparr>wr_header = [], wr_rows = [], wr_widths = None\<rparr>
      | r # rs \<Rightarrow>
          \<lparr>wr_header = object_keys r, wr_rows = map sanitizeRow rows,
           wr_widths = (if autosize then Some (map (column_width rows) (object_keys r)) else None)\<rparr>)"

definition downloadAoaAsExcel :: "jsval list \<Rightarrow> written" where
  "downloadAoaAsExcel rows = \<lparr>wr_header = [], wr_rows = map sanitizeRow rows, wr_widths = None\<rparr>"

subsection \<open>Formulas\<close>

text \<open>No text of an exported sheet begins with a character that starts a formula, and other values are kept.\<close>

definition starts_formula :: "jsval \<Rightarrow> bool" where
  "starts_formula v = (case v of JStr (c # cs) \<Rightarrow> c \<in> set formula_triggers | _ \<Rightarrow> False)"

lemma sanitized_safe: "\<not> starts_formula (sanitizeCellValue v)"
  by (cases v rule: jsval.exhaust) (auto simp: starts_formula_def sanitizeCellValue_def formula_triggers_def split: list.splits)

lemma sanitized_plain: "\<not> starts_formula v \<Longrightarrow> sanitizeCellValue v = v"
  by (cases v rule: jsval.exhaust) (auto simp: starts_formula_def sanitizeCellValue_def split: list.splits)

lemma oget_sanitized [simp]:
  "oget (sanitizeRow (JObj kvs)) k = (case map_of kvs k of None \<Rightarrow> JUndef | Some v \<Rightarrow> sanitizeCellValue v)"
  by (simp add: sanitizeRow_def map_of_map [of sanitizeCellValue kvs, unfolded comp_def, simplified] split: option.splits)

end
