(* ===== verification/Import_Page.thy ===== *)
theory Import_Page
  imports Account_Laws Json_Pretty Sheets
begin

section \<open>Importing students in the browser client\<close>

text \<open>
  The bulk import of \<^verbatim>\<open>frontend/src/pages/UserManagementPage.jsx\<close>: the rows of an uploaded sheet, the text
  the page edits, the preview of the rows with their errors, the import request, and the sheets the page
  writes. The laws compose the page with \<^verbatim>\<open>bulkRegister\<close> of the server.
\<close>

subsection \<open>The preview\<close>

record preview_row =
  pv_num :: jsval
  pv_name :: string
  pv_email :: string
  pv_usn :: string
  pv_section :: string
  pv_errors :: "string list"

definition pv_valid :: "preview_row \<Rightarrow> bool" where
  "pv_valid p \<longleftrightarrow> pv_errors p = []"

definition name_errors :: "string \<Rightarrow> string list" where
  "name_errors name = (if name = [] then [''Missing name''] else [])"

definition email_errors :: "string \<Rightarrow> string list" where
  "email_errors email =
     (if email = [] then [''Missing email''] else if \<not> valid_email email then [''Invalid email format''] else [])"

definition repeat_errors :: "string \<Rightarrow> string \<Rightarrow> string list \<Rightarrow> string list" where
  "repeat_errors msg s seen = (if s \<noteq> [] \<and> s \<in> set seen then [msg] else [])"

definition note_seen :: "string \<Rightarrow> string list \<Rightarrow> string list" where
  "note_seen s seen = (if s = [] then seen else s # seen)"

fun validate_from :: "nat \<Rightarrow> string list \<Rightarrow> string list \<Rightarrow> jsval list \<Rightarrow> preview_row list result" where
  "validate_from i emails usns [] = Inr []"
| "validate_from i emails usns (u # us) =
     (if nullish u then Inl (null_deref ''name'')
      else (case trim_or_empty (oget u ''name'') of
              Inl e \<Rightarrow> Inl e
            | Inr name \<Rightarrow>
           (case trim_or_empty (oget u ''email'') of
              Inl e \<Rightarrow> Inl e
            | Inr address \<Rightarrow>
           (case trim_or_empty (oget u ''usn'') of
              Inl e \<Rightarrow> Inl e
            | Inr usn \<Rightarrow>
           (case trim_or_empty (oget u ''section'') of
              Inl e \<Rightarrow> Inl e
            | Inr sect \<Rightarrow>
               (let email = js_lower address in
                case validate_from (Suc i) (note_seen email emails) (note_seen usn usns) us of
                  Inl e \<Rightarrow> Inl e
                | Inr ps \<Rightarrow>
                    Inr (\<lparr>pv_num = or_val (oget u ''rowNum'') (jnat (i + 1)), pv_name = name, pv_email = email,
                          pv_usn = usn, pv_section = sect,
                          pv_errors = name_errors name @ email_errors email @
                            repeat_errors ''Duplicate email in batch'' email emails @
                            repeat_errors ''Duplicate USN in batch'' usn usns\<rparr> # ps)))))))"

definition processAndValidateUsers :: "jsval list \<Rightarrow> preview_row list result" where
  "processAndValidateUsers us = validate_from 0 [] [] us"

text \<open>Lines of \<^verbatim>\<open>USN, Name, Email, Section\<close> are the alternative to JSON.\<close>

definition nth_text :: "string list \<Rightarrow> nat \<Rightarrow> string" where
  "nth_text ss i = (if i < length ss then ss ! i else [])"

definition student_object :: "string \<Rightarrow> string \<Rightarrow> string \<Rightarrow> string \<Rightarrow> jsval" where
  "student_object usn name email sect =
     JObj [(''usn'', JStr usn), (''name'', JStr name), (''email'', JStr email), (''section'', JStr sect)]"

definition csv_row :: "string \<Rightarrow> jsval option" where
  "csv_row line =
     (let ps = map js_trim (split_on CHR '','' line) in
      if 2 \<le> length ps
      then Some (student_object (nth_text ps 0) (nth_text ps 1) (nth_text ps 2) (nth_text ps 3))
      else None)"

definition csv_rows :: "string \<Rightarrow> jsval list" where
  "csv_rows text = List.map_filter csv_row (filter (\<lambda>l. js_trim l \<noteq> []) (split_on (char_of (10 :: nat)) text))"

subsection \<open>The page\<close>

record import_page =
  ip_text :: string
  ip_preview :: "preview_row list"
  ip_error :: "string option"
  ip_results :: "jsval option"

text \<open>
  The effect that follows every change of the text. A text that parses to something other than an array leaves
  the preview as it was.
\<close>

definition preview_effect :: "import_page \<Rightarrow> import_page" where
  "preview_effect pg =
     (if js_trim (ip_text pg) = [] then pg\<lparr>ip_preview := []\<rparr>
      else (case (case json_parse (ip_text pg) of Some v \<Rightarrow> v | None \<Rightarrow> JArr (csv_rows (ip_text pg))) of
              JArr us \<Rightarrow>
                pg\<lparr>ip_preview := (case processAndValidateUsers us of Inl e \<Rightarrow> [] | Inr ps \<Rightarrow> ps)\<rparr>
            | _ \<Rightarrow> pg))"

text \<open>A state change to the value already held runs no effect.\<close>

definition set_users_text :: "string \<Rightarrow> import_page \<Rightarrow> import_page" where
  "set_users_text s pg = (if s = ip_text pg then pg else preview_effect (pg\<lparr>ip_text := s\<rparr>))"

definition usn_headers :: "string list" where
  "usn_headers = [''usn'', ''roll number'', ''usn/roll'', ''id'', ''rollno'', ''student usn'']"

definition name_headers :: "string list" where
  "name_headers = [''name'', ''student name'', ''full name'', ''studentname'']"

definition email_headers :: "string list" where
  "email_headers = [''email'', ''email id'', ''emailaddress'', ''email address'']"

definition section_headers :: "string list" where
  "section_headers = [''section'', ''sec'', ''class'']"

definition row_fields :: "jsval \<Rightarrow> (string \<times> jsval) list" where
  "row_fields row = (case row of JObj kvs \<Rightarrow> kvs | _ \<Rightarrow> [])"

definition getVal :: "jsval \<Rightarrow> string list \<Rightarrow> string" where
  "getVal row headers =
     (case find (\<lambda>k. js_trim (js_lower k) \<in> set headers) (map fst (row_fields row)) of
        None \<Rightarrow> []
      | Some k \<Rightarrow> js_trim (to_str (oget row k)))"

record sheet_student =
  sh_row :: nat
  sh_usn :: string
  sh_name :: string
  sh_email :: string
  sh_section :: string

definition sheet_student_of :: "nat \<Rightarrow> jsval \<Rightarrow> sheet_student" where
  "sheet_student_of i row =
     \<lparr>sh_row = i + 2, sh_usn = getVal row usn_headers, sh_name = getVal row name_headers,
      sh_email = getVal row email_headers, sh_section = getVal row section_headers\<rparr>"

fun number_rows :: "nat \<Rightarrow> jsval list \<Rightarrow> sheet_student list" where
  "number_rows i [] = []"
| "number_rows i (row # rows) = sheet_student_of i row # number_rows (Suc i) rows"

text \<open>A mapped row with its \<^verbatim>\<open>rowNum\<close>, and without it as it is put into the text.\<close>

definition bare_student :: "sheet_student \<Rightarrow> jsval" where
  "bare_student s = student_object (sh_usn s) (sh_name s) (sh_email s) (sh_section s)"

definition numbered_student :: "sheet_student \<Rightarrow> jsval" where
  "numbered_student s =
     JObj [(''rowNum'', jnat (sh_row s)), (''usn'', JStr (sh_usn s)), (''name'', JStr (sh_name s)),
           (''email'', JStr (sh_email s)), (''section'', JStr (sh_section s))]"

definition no_rows_message :: string where
  "no_rows_message = ''No data rows found in the sheet. Please make sure the headers are USN, Name, Email, Section.''"

definition handleFileUpload :: "sheet option \<Rightarrow> import_page \<Rightarrow> import_page" where
  "handleFileUpload sh pg =
     (let mapped = number_rows 0 (readWorkbookRows sh) in
      if mapped = [] then pg\<lparr>ip_error := Some (''Failed to parse file: '' @ no_rows_message)\<rparr>
      else (case processAndValidateUsers (map numbered_student mapped) of
              Inl e \<Rightarrow> pg\<lparr>ip_error := Some (''Failed to parse file: '' @ error_message e)\<rparr>
            | Inr ps \<Rightarrow>
                (set_users_text (the (json_pretty 0 (JArr (map bare_student mapped)))) (pg\<lparr>ip_preview := ps\<rparr>))
                  \<lparr>ip_error := None\<rparr>))"

subsection \<open>The import request\<close>

definition request_row :: "preview_row \<Rightarrow> jsval" where
  "request_row p =
     JObj [(''name'', JStr (pv_name p)), (''email'', JStr (pv_email p)), (''usn'', JStr (pv_usn p)),
           (''section'', JStr (pv_section p))]"

definition import_body :: "preview_row list \<Rightarrow> string \<Rightarrow> jsval" where
  "import_body ps password =
     JObj [(''users'', JArr (map request_row (filter pv_valid ps))), (''defaultPassword'', JStr password)]"

text \<open>
  \<open>confirm\<close> is the answer to the dialog, \<open>send\<close> what the request returns: the response, or the message of the
  response body and the message of the error.
\<close>

definition handleBulkImport ::
    "bool \<Rightarrow> string \<Rightarrow> (jsval \<Rightarrow> (jsval \<times> string) + jsval) \<Rightarrow> import_page \<Rightarrow> import_page" where
  "handleBulkImport confirm password send pg =
     (if ip_preview pg = [] then pg\<lparr>ip_error := Some ''No student records loaded to import''\<rparr>
      else if \<not> list_all pv_valid (ip_preview pg) \<and> \<not> confirm then pg
      else if filter pv_valid (ip_preview pg) = []
      then pg\<lparr>ip_error := Some ''No valid student records found to import'', ip_results := None\<rparr>
      else (case send (import_body (ip_preview pg) password) of
              Inr r \<Rightarrow> set_users_text [] (pg\<lparr>ip_error := None, ip_results := Some r\<rparr>)\<lparr>ip_preview := []\<rparr>
            | Inl (msg, em) \<Rightarrow>
                pg\<lparr>ip_error := Some (to_str (or_val msg (or_val (JStr em) (JStr ''Import failed'')))), ip_results := None\<rparr>))"

subsection \<open>The sheets the page writes\<close>

definition downloadSample :: written where
  "downloadSample = downloadAoaAsExcel
     [JArr [JStr ''USN'', JStr ''Name'', JStr ''Email'', JStr ''Section''],
      JArr [JStr ''1BY23CS001'', JStr ''John Doe'', JStr ''john@college.edu'', JStr ''A''],
      JArr [JStr ''1BY23CS002'', JStr ''Jane Smith'', JStr ''jane@college.edu'', JStr ''A'']]"

definition credential_row :: "jsval \<Rightarrow> jsval" where
  "credential_row u =
     JObj [(''USN'', or_val (oget u ''usn'') (JStr [])), (''Name'', or_val (oget u ''name'') (JStr [])),
           (''Email'', or_val (oget u ''email'') (JStr [])), (''Section'', or_val (oget u ''section'') (JStr [])),
           (''Password'', or_val (oget u ''password'') (JStr []))]"

text \<open>\<open>None\<close>: no sheet is written.\<close>

definition downloadCredentials :: "jsval option \<Rightarrow> written option" where
  "downloadCredentials results =
     (case results of
        None \<Rightarrow> None
      | Some r \<Rightarrow>
          if \<not> truthy r \<or> \<not> truthy (oget r ''created'') \<or> elems (oget r ''created'') = [] then None
          else Some (downloadRowsAsExcel False (map credential_row (elems (oget r ''created'')))))"

definition exported_user :: "jsval \<Rightarrow> jsval" where
  "exported_user u =
     JObj [(''ID'', oget u ''id''), (''Name'', oget u ''name''), (''USN'', or_val (oget u ''usn'') (JStr [])),
           (''Email'', oget u ''email''), (''Section'', or_val (oget u ''section'') (JStr [])),
           (''Role'', oget u ''role'')]"

definition exportAllUsers :: "jsval list \<Rightarrow> written" where
  "exportAllUsers users = downloadRowsAsExcel False (map exported_user users)"

section \<open>The import page and the server agree\<close>

subsection \<open>Normal forms of the fields\<close>

lemma ws_lower [simp]: "is_ws (lower_char c) = is_ws c"
proof -
  define k where "k = (of_char c :: nat)"
  have "k < 256" by (simp add: k_def)
  then show ?thesis
    by (auto simp: is_ws_def lower_char_def is_upper_def k_def [symmetric])
qed

lemma lower_char_idem: "lower_char (lower_char c) = lower_char c"
proof -
  define k where "k = (of_char c :: nat)"
  have "k < 256" by (simp add: k_def)
  then show ?thesis
    by (auto simp: lower_char_def is_upper_def k_def [symmetric])
qed

lemma empty_texts [simp]: "js_lower [] = []" "js_trim [] = []"
  by (simp_all add: js_lower_def js_trim_def)

lemma js_lower_idem [simp]: "js_lower (js_lower s) = js_lower s"
  by (simp add: js_lower_def lower_char_idem)

lemma dropWhile_ws_lower: "dropWhile is_ws (map lower_char s) = map lower_char (dropWhile is_ws s)"
  by (induction s) simp_all

lemma js_trim_lower [simp]: "js_trim (js_lower s) = js_lower (js_trim s)"
  by (simp add: js_trim_def js_lower_def dropWhile_ws_lower rev_map)

lemma trim_text [simp]: "trim_or_empty (JStr s) = Inr (js_trim s)"
  by (cases s) (simp_all add: trim_or_empty_def optional_trim_def)

lemma trim_or_empty_trimmed: "trim_or_empty v = Inr s \<Longrightarrow> js_trim s = s"
  by (auto simp: trim_or_empty_def optional_trim_def split: sum.splits option.splits if_splits)

definition normal_row :: "preview_row \<Rightarrow> bool" where
  "normal_row p \<longleftrightarrow> js_trim (pv_name p) = pv_name p \<and> js_trim (pv_email p) = pv_email p \<and>
     js_lower (pv_email p) = pv_email p \<and> js_trim (pv_usn p) = pv_usn p \<and> js_trim (pv_section p) = pv_section p"

subsection \<open>A row the preview accepts\<close>

definition new_to :: "world \<Rightarrow> preview_row \<Rightarrow> bool" where
  "new_to w p \<longleftrightarrow> users_by_email w (pv_email p) = None \<and> (pv_usn p = [] \<or> users_by_usn w (pv_usn p) = None)"

definition registered_messages :: "string list" where
  "registered_messages = [''Email already registered in system'', ''USN already registered in system'']"

definition verified_row :: "jsval \<Rightarrow> preview_row \<Rightarrow> verified_user" where
  "verified_row dflt p =
     \<lparr>vu_name = pv_name p, vu_email = pv_email p, vu_password = dflt, vu_usn = text_or_none (pv_usn p),
      vu_section = text_or_none (pv_section p)\<rparr>"

text \<open>The server has seen no address and no USN that the preview has not.\<close>

definition seen_within :: "import_state \<Rightarrow> string list \<Rightarrow> string list \<Rightarrow> bool" where
  "seen_within st emails usns \<longleftrightarrow> set (im_emails st) \<subseteq> set emails \<and> set (im_usns st) \<subseteq> set usns"

definition fresh_row :: "string list \<Rightarrow> string list \<Rightarrow> preview_row \<Rightarrow> bool" where
  "fresh_row emails usns p \<longleftrightarrow> pv_name p \<noteq> [] \<and> pv_email p \<noteq> [] \<and> valid_email (pv_email p) \<and>
     pv_email p \<notin> set emails \<and> (pv_usn p = [] \<or> pv_usn p \<notin> set usns)"

lemma check_fresh:
  assumes "fresh_row emails usns p" "seen_within st emails usns" "truthy dflt" "\<not> truthy (oget row ''password'')"
    and "st' = check_row ac w dflt i row (pv_email p) (pv_usn p) (pv_name p) (pv_section p) st"
  shows "seen_within st' (note_seen (pv_email p) emails) (note_seen (pv_usn p) usns)"
    and "im_users st' = im_users st @ (if new_to w p then [verified_row dflt p] else [])"
    and "\<exists>e. im_errors st' = im_errors st @ (if new_to w p then [] else [e]) \<and> re_error e \<in> set registered_messages"
proof -
  define st2 where "st2 = (let st1 = st\<lparr>im_emails := pv_email p # im_emails st\<rparr> in
    if pv_usn p = [] then st1 else st1\<lparr>im_usns := pv_usn p # im_usns st1\<rparr>)"
  have seen: "pv_email p \<notin> set (im_emails st)" "pv_usn p = [] \<or> pv_usn p \<notin> set (im_usns st)"
    using assms(1,2) by (auto simp: fresh_row_def seen_within_def)
  have pw: "plain_password ac i (oget row ''password'') dflt = dflt"
    using assms(3,4) by (simp add: plain_password_def or_val_def)
  have st': "st' =
      (if users_by_email w (pv_email p) \<noteq> None
       then reject_row i (pv_email p) (pv_usn p) ''Email already registered in system'' st2
       else if pv_usn p \<noteq> [] \<and> users_by_usn w (pv_usn p) \<noteq> None
       then reject_row i (pv_email p) (pv_usn p) ''USN already registered in system'' st2
       else st2\<lparr>im_users := im_users st2 @ [verified_row dflt p]\<rparr>)"
    using assms(1) seen unfolding assms(5) fresh_row_def
    by (cases "pv_usn p = []") (simp_all add: check_row_def pw verified_row_def st2_def Let_def)
  have st2: "im_users st2 = im_users st" "im_errors st2 = im_errors st"
      "set (im_emails st2) = insert (pv_email p) (set (im_emails st))"
      "set (im_usns st2) = (if pv_usn p = [] then set (im_usns st) else insert (pv_usn p) (set (im_usns st)))"
    by (simp_all add: st2_def Let_def)
  have "im_emails st' = im_emails st2" "im_usns st' = im_usns st2" by (simp_all add: st' reject_row_def)
  with assms(1,2) show "seen_within st' (note_seen (pv_email p) emails) (note_seen (pv_usn p) usns)"
    by (auto simp: seen_within_def note_seen_def fresh_row_def st2)
  show "im_users st' = im_users st @ (if new_to w p then [verified_row dflt p] else [])"
    by (auto simp: st' reject_row_def new_to_def st2)
  have message: "\<exists>e :: row_error. re_error e = m" for m
    by (rule exI [of _ "\<lparr>re_row = 0, re_email = [], re_usn = [], re_error = m\<rparr>"]) simp
  show "\<exists>e. im_errors st' = im_errors st @ (if new_to w p then [] else [e]) \<and> re_error e \<in> set registered_messages"
    by (simp add: st' reject_row_def new_to_def st2 registered_messages_def message ex_disj_distrib del: not_None_eq)
qed

lemma request_fields [simp]:
  "oget (request_row p) ''name'' = JStr (pv_name p)" "oget (request_row p) ''email'' = JStr (pv_email p)"
  "oget (request_row p) ''usn'' = JStr (pv_usn p)" "oget (request_row p) ''section'' = JStr (pv_section p)"
  "oget (request_row p) ''password'' = JUndef" "\<not> nullish (request_row p)"
  by (simp_all add: request_row_def)

lemma check_request:
  assumes "normal_row p"
  shows "check_rows ac w dflt i (request_row p # rows) st =
     check_rows ac w dflt (Suc i) rows
       (check_row ac w dflt i (request_row p) (pv_email p) (pv_usn p) (pv_name p) (pv_section p) st)"
  using assms by (simp add: normal_row_def)

lemma validate_step:
  assumes "validate_from i emails usns (u # us) = Inr ps"
  obtains p ps' where "ps = p # ps'" "normal_row p"
    "validate_from (Suc i) (note_seen (pv_email p) emails) (note_seen (pv_usn p) usns) us = Inr ps'"
    "pv_valid p \<Longrightarrow> fresh_row emails usns p"
  using assms
  by (auto simp: normal_row_def pv_valid_def fresh_row_def name_errors_def email_errors_def repeat_errors_def Let_def
      dest!: trim_or_empty_trimmed split: sum.splits if_splits)

subsection \<open>The whole batch\<close>

lemma check_accepted:
  assumes "validate_from i emails usns us = Inr ps" "seen_within st emails usns" "truthy dflt"
  shows "\<exists>st' errs. check_rows ac w dflt j (map request_row (filter pv_valid ps)) st = Inr st' \<and>
     im_users st' = im_users st @ map (verified_row dflt) (filter (\<lambda>p. pv_valid p \<and> new_to w p) ps) \<and>
     im_errors st' = im_errors st @ errs \<and> re_error ` set errs \<subseteq> set registered_messages"
  using assms
proof (induction us arbitrary: i emails usns ps st j)
  case (Cons u us)
  from Cons.prems(1) obtain p ps' where p: "ps = p # ps'" "normal_row p"
    "validate_from (Suc i) (note_seen (pv_email p) emails) (note_seen (pv_usn p) usns) us = Inr ps'"
    "pv_valid p \<Longrightarrow> fresh_row emails usns p" by (rule validate_step) simp
  show ?case
  proof (cases "pv_valid p")
    case False
    have "seen_within st (note_seen (pv_email p) emails) (note_seen (pv_usn p) usns)"
      using Cons.prems(2) by (auto simp: seen_within_def note_seen_def)
    from Cons.IH [OF p(3) this Cons.prems(3), of j] False p(1) show ?thesis by simp
  next
    case True
    define st1 where "st1 = check_row ac w dflt j (request_row p) (pv_email p) (pv_usn p) (pv_name p) (pv_section p) st"
    note step = check_fresh [OF p(4) [OF True] Cons.prems(2,3) _ st1_def]
    obtain e where e: "im_errors st1 = im_errors st @ (if new_to w p then [] else [e])" "re_error e \<in> set registered_messages"
      using step(3) by auto
    obtain st' errs where r: "check_rows ac w dflt (Suc j) (map request_row (filter pv_valid ps')) st1 = Inr st'"
        "im_users st' = im_users st1 @ map (verified_row dflt) (filter (\<lambda>p. pv_valid p \<and> new_to w p) ps')"
        "im_errors st' = im_errors st1 @ errs" "re_error ` set errs \<subseteq> set registered_messages"
      using Cons.IH [OF p(3) step(1) Cons.prems(3), of "Suc j"] by auto
    have "check_rows ac w dflt j (map request_row (filter pv_valid ps)) st = Inr st'"
      using r(1) True p(1) by (simp add: check_request [OF p(2)] st1_def del: check_rows.simps)
    moreover have "im_users st' = im_users st @ map (verified_row dflt) (filter (\<lambda>p. pv_valid p \<and> new_to w p) ps)"
      using r(2) step(2) True p(1) by simp
    ultimately show ?thesis
      using r(3,4) e by (intro exI [of _ st'] exI [of _ "(if new_to w p then [] else [e]) @ errs"]) auto
  qed
qed simp

definition created_fields :: "user \<times> jsval \<Rightarrow> string \<times> string \<times> string option \<times> string option \<times> jsval" where
  "created_fields up = (case up of (s, p) \<Rightarrow> (u_name s, u_email s, u_usn s, u_section s, p))"

definition verified_fields :: "verified_user \<Rightarrow> string \<times> string \<times> string option \<times> string option" where
  "verified_fields v = (vu_name v, vu_email v, vu_usn v, vu_section v)"

definition user_fields :: "user \<Rightarrow> string \<times> string \<times> string option \<times> string option" where
  "user_fields s = (u_name s, u_email s, u_usn s, u_section s)"

lemma create_user_fields:
  assumes "create_user nid now \<lparr>nu_name = JStr name, nu_email = email, nu_hash = h, nu_role = r, nu_usn = usn,
      nu_section = sect, nu_college = coll\<rparr> w = (Inr u, w')"
  shows "user_fields u = (name, email, usn, sect)"
  using assms
  by (auto simp: create_user_def users_create_def user_fields_def split: option.splits if_splits)

lemma create_all_fields:
  assumes "create_all ac ids now coll vs acc w = (Inr us, w')"
  shows "map user_fields us = map user_fields acc @ map verified_fields vs"
  using assms
  by (induction ac ids now coll vs acc w rule: create_all.induct)
     (auto simp: verified_fields_def dest: create_user_fields split: sum.splits prod.splits)

lemma created_of:
  "map user_fields us = map verified_fields vs \<Longrightarrow>
     map created_fields (zip us (map vu_password vs)) =
     map (\<lambda>v. (vu_name v, vu_email v, vu_usn v, vu_section v, vu_password v)) vs"
proof (induction vs arbitrary: us)
  case (Cons v vs)
  then obtain u us' where "us = u # us'" by (cases us) auto
  with Cons show ?case by (auto simp: created_fields_def user_fields_def verified_fields_def)
qed simp

definition expected_fields :: "string \<Rightarrow> preview_row \<Rightarrow> string \<times> string \<times> string option \<times> string option \<times> jsval" where
  "expected_fields password p =
     (pv_name p, pv_email p, text_or_none (pv_usn p), text_or_none (pv_section p), JStr password)"

lemma body_fields [simp]:
  "oget (import_body ps password) ''users'' = JArr (map request_row (filter pv_valid ps))"
  "oget (import_body ps password) ''defaultPassword'' = JStr password"
  "oget (import_body ps password) ''collegeId'' = JUndef"
  by (simp_all add: import_body_def)

text \<open>C30: what the preview of the import page accepts is what the server creates. When an import of the
  rows the page marks as valid succeeds, the created accounts are exactly those rows whose address and
  USN no account of the database has yet, in the order of the preview, with the previewed name,
  address, USN and section and the default password; the server rejects rows for no other reason than an
  address or USN that is already registered.\<close>

theorem import_meets_server:
  assumes "processAndValidateUsers us = Inr ps"
    and "bulk_import_students ac ids now (import_body ps password) u w = (Inr x, w')"
  shows "map created_fields (ir_created x) =
       map (expected_fields password) (filter (\<lambda>p. pv_valid p \<and> new_to w p) ps) \<and>
     re_error ` set (ir_errors x) \<subseteq> set registered_messages"
proof -
  let ?rows = "map request_row (filter pv_valid ps)"
  let ?st = "\<lparr>im_emails = [], im_usns = [], im_errors = [], im_users = []\<rparr>"
  let ?vs = "map (verified_row (JStr password)) (filter (\<lambda>p. pv_valid p \<and> new_to w p) ps)"
  from assms(2) have pw: "truthy (JStr password)"
    and run: "\<exists>coll. bulkRegister ac ids now ?rows (JStr password) coll w = (Inr x, w')"
    by (auto simp: bulk_import_students_def split: if_splits)
  then obtain coll where run: "bulkRegister ac ids now ?rows (JStr password) coll w = (Inr x, w')" by blast
  have "seen_within ?st [] []" by (simp add: seen_within_def)
  from check_accepted [OF assms(1) [unfolded processAndValidateUsers_def] this pw, of ac w 0]
  obtain st errs where st: "check_rows ac w (JStr password) 0 ?rows ?st = Inr st" "im_users st = ?vs" "im_errors st = errs"
    "re_error ` set errs \<subseteq> set registered_messages" by auto
  have expected: "map (\<lambda>v. (vu_name v, vu_email v, vu_usn v, vu_section v, vu_password v)) ?vs =
      map (expected_fields password) (filter (\<lambda>p. pv_valid p \<and> new_to w p) ps)"
    by (simp add: verified_row_def expected_fields_def)
  show ?thesis
  proof (cases "?vs = []")
    case True
    with run st show ?thesis by (auto simp: bulkRegister_def)
  next
    case False
    with run st obtain c us w1 where c: "create_all ac ids now c ?vs [] w = (Inr us, w1)"
      "ir_created x = zip us (map vu_password ?vs)" "ir_errors x = errs"
      by (auto simp: bulkRegister_def bulk_create_def split: sum.splits prod.splits)
    from create_all_fields [OF c(1)] have "map user_fields us = map verified_fields ?vs" by simp
    from created_of [OF this] c(2,3) st(4) expected show ?thesis by simp
  qed
qed

text \<open>Three rows: one without a name, one already registered under another letter case, one that is created.\<close>

definition import_rows :: "jsval list" where
  "import_rows = csv_rows (''U1, , ann@x.in, A'' @ [CHR 0x0A] @ ''U2, Bob, BOB@x.in, A'' @ [CHR 0x0A] @ ''U3, Eve , eve@x.in, B'')"

definition import_world :: world where
  "import_world = snd (bulkRegister sample_account_services (\<lambda>k. 20 + k) 0
     [student_object ''U9'' ''Bob'' ''bob@x.in'' []] (JStr ''pw'') JUndef empty_world)"

definition import_preview :: "preview_row list" where
  "import_preview = (case processAndValidateUsers import_rows of Inr ps \<Rightarrow> ps | Inl e \<Rightarrow> [])"

lemma import_meets_server_witness:
  "\<exists>x w'. bulk_import_students sample_account_services (\<lambda>k. 40 + k) 0 (import_body import_preview ''pw'') student_auth
        import_world = (Inr x, w') \<and>
     map created_fields (ir_created x) = [(''Eve'', ''eve@x.in'', Some ''U3'', Some ''B'', JStr ''pw'')] \<and>
     re_error ` set (ir_errors x) \<subseteq> set registered_messages"
proof -
  have "is_ok (processAndValidateUsers import_rows)" by code_simp
  then have ps: "processAndValidateUsers import_rows = Inr import_preview" by (auto simp: is_ok_iff import_preview_def)
  have "is_ok (fst (bulk_import_students sample_account_services (\<lambda>k. 40 + k) 0
      (import_body import_preview ''pw'') student_auth import_world))"
    by code_simp
  then obtain x w' where run: "bulk_import_students sample_account_services (\<lambda>k. 40 + k) 0
      (import_body import_preview ''pw'') student_auth import_world = (Inr x, w')"
    by (auto simp: is_ok_iff prod_eq_iff)
  have "map (expected_fields ''pw'') (filter (\<lambda>p. pv_valid p \<and> new_to import_world p) import_preview) =
      [(''Eve'', ''eve@x.in'', Some ''U3'', Some ''B'', JStr ''pw'')]"
    by code_simp
  with import_meets_server [OF ps run] run show ?thesis by simp
qed

subsection \<open>An uploaded sheet\<close>

text \<open>
  A mapped row goes into the preview twice: with its number in the sheet, and through the text, where it is
  numbered by its position.
\<close>

definition same_fields :: "jsval \<Rightarrow> jsval \<Rightarrow> bool" where
  "same_fields u v \<longleftrightarrow> \<not> nullish u \<and> \<not> nullish v \<and>
     (\<forall>k \<in> {''name'', ''email'', ''usn'', ''section''}. oget u k = oget v k)"

fun renumber :: "nat \<Rightarrow> preview_row list \<Rightarrow> preview_row list" where
  "renumber i [] = []"
| "renumber i (p # ps) = p\<lparr>pv_num := jnat (i + 1)\<rparr> # renumber (Suc i) ps"

lemma validate_renumbered:
  assumes "list_all2 same_fields us vs" "\<forall>v \<in> set vs. oget v ''rowNum'' = JUndef" "validate_from i emails usns us = Inr ps"
  shows "validate_from i emails usns vs = Inr (renumber i ps)"
  using assms
proof (induction us vs arbitrary: i emails usns ps rule: list_all2_induct)
  case (Cons u us v vs)
  then show ?case
    by (auto simp: same_fields_def Let_def or_val_def split: sum.splits if_splits)
qed simp

lemma strings_validate:
  assumes "\<forall>u \<in> set us. \<exists>a b c d. same_fields u (student_object a b c d)"
  shows "\<exists>ps. validate_from i emails usns us = Inr ps"
  using assms
proof (induction us arbitrary: i emails usns)
  case (Cons u us)
  then obtain a b c d where "same_fields u (student_object a b c d)" by auto
  then have "\<not> nullish u" "oget u ''usn'' = JStr a" "oget u ''name'' = JStr b" "oget u ''email'' = JStr c"
      "oget u ''section'' = JStr d" by (simp_all add: same_fields_def student_object_def)
  moreover from Cons.prems have "\<forall>u \<in> set us. \<exists>a b c d. same_fields u (student_object a b c d)" by simp
  from Cons.IH [OF this] obtain ps
    where "validate_from (Suc i) (note_seen (js_lower (js_trim c)) emails) (note_seen (js_trim a) usns) us = Inr ps" by blast
  ultimately show ?case by (simp add: Let_def)
qed simp

lemma numbered_same: "same_fields (numbered_student s) (bare_student s)"
  by (simp add: same_fields_def numbered_student_def bare_student_def student_object_def)

lemma bare_plain: "plain_values (map bare_student ss)"
  by (induction ss) (simp_all add: bare_student_def student_object_def)

definition uploaded :: "sheet option \<Rightarrow> sheet_student list" where
  "uploaded sh = number_rows 0 (readWorkbookRows sh)"

definition uploaded_text :: "sheet option \<Rightarrow> string" where
  "uploaded_text sh = the (json_pretty 0 (JArr (map bare_student (uploaded sh))))"

text \<open>An upload survives the text it is turned into. The rows of a sheet are written into the editor as
  indented JSON, and the preview is computed from that text: it shows exactly the validation of the
  sheet's rows, with the same fields and errors whatever characters the cells hold, only numbered by
  position instead of by line of the sheet.\<close>

theorem upload_preview:
  assumes "uploaded sh \<noteq> []" and "uploaded_text sh \<noteq> ip_text pg"
  shows "\<exists>ps. processAndValidateUsers (map numbered_student (uploaded sh)) = Inr ps \<and>
     ip_preview (handleFileUpload sh pg) = renumber 0 ps \<and> ip_text (handleFileUpload sh pg) = uploaded_text sh \<and>
     ip_error (handleFileUpload sh pg) = None"
proof -
  let ?us = "map numbered_student (uploaded sh)" and ?vs = "map bare_student (uploaded sh)"
  have "\<exists>a b c d. same_fields u (student_object a b c d)" if "u \<in> set ?us" for u
    using that numbered_same unfolding bare_student_def by fastforce
  then obtain ps where ps: "processAndValidateUsers ?us = Inr ps"
    using strings_validate [of ?us 0 "[]" "[]"] by (auto simp: processAndValidateUsers_def)
  have "list_all2 same_fields ?us ?vs" by (simp add: list_all2_conv_all_nth numbered_same)
  moreover have "\<forall>v \<in> set ?vs. oget v ''rowNum'' = JUndef" by (simp add: bare_student_def student_object_def)
  ultimately have vs: "processAndValidateUsers ?vs = Inr (renumber 0 ps)"
    using ps validate_renumbered unfolding processAndValidateUsers_def by blast
  have "plain_value (JArr ?vs)" by (simp add: bare_plain)
  from pretty_text.text_of [OF this] obtain s where s: "json_pretty 0 (JArr ?vs) = Some s" "json_parse s = Some (JArr ?vs)" .
  then have tx: "uploaded_text sh = s" by (simp add: uploaded_text_def)
  have "js_trim s \<noteq> []"
  proof -
    have "s = CHR ''['' # tl s" using s(1) assms(1) by (auto simp: Let_def)
    moreover have "\<not> is_ws CHR ''[''" by (simp add: is_ws_def)
    ultimately show ?thesis by (metis dropWhile.simps(2) dropWhile_eq_Nil_conv js_trim_def list.set_intros(1) rev_is_Nil_conv set_rev)
  qed
  then have "preview_effect (pg\<lparr>ip_preview := ps, ip_text := s\<rparr>) = pg\<lparr>ip_preview := renumber 0 ps, ip_text := s\<rparr>"
    using s(2) vs by (simp add: preview_effect_def)
  moreover have "handleFileUpload sh pg = preview_effect (pg\<lparr>ip_preview := ps, ip_text := s\<rparr>)\<lparr>ip_error := None\<rparr>"
    using ps assms tx s by (simp add: handleFileUpload_def set_users_text_def uploaded_def Let_def del: json_pretty.simps)
  ultimately show ?thesis using ps tx by simp
qed

text \<open>A sheet with a missing header cell, and a quotation mark and a line break in a name.\<close>

definition sample_upload :: "sheet option" where
  "sample_upload = Some ([Some (JStr ''Email ID''), None, Some (JStr ''Full Name'')],
     [[Some (JStr ''ann@x.in''), Some (JStr ''?''), Some (JStr (''A'' @ [CHR 0x22, CHR 0x0A] @ ''n''))]])"

definition blank_page :: import_page where
  "blank_page = \<lparr>ip_text = [], ip_preview = [], ip_error = None, ip_results = None\<rparr>"

lemma upload_preview_witness:
  "map (\<lambda>p. (pv_num p, pv_name p, pv_email p, pv_errors p)) (ip_preview (handleFileUpload sample_upload blank_page)) =
     [(jnat 1, ''A'' @ [CHR 0x22, CHR 0x0A] @ ''n'', ''ann@x.in'', [])]"
proof -
  have "uploaded sample_upload \<noteq> []" by code_simp
  moreover have "uploaded_text sample_upload \<noteq> ip_text blank_page" by code_simp
  ultimately obtain ps where "processAndValidateUsers (map numbered_student (uploaded sample_upload)) = Inr ps"
    "ip_preview (handleFileUpload sample_upload blank_page) = renumber 0 ps"
    using upload_preview by blast
  moreover have "(case processAndValidateUsers (map numbered_student (uploaded sample_upload)) of Inl e \<Rightarrow> [] | Inr ps \<Rightarrow>
      map (\<lambda>p. (pv_num p, pv_name p, pv_email p, pv_errors p)) (renumber 0 ps)) =
      [(jnat 1, ''A'' @ [CHR 0x22, CHR 0x0A] @ ''n'', ''ann@x.in'', [])]" by code_simp
  ultimately show ?thesis by simp
qed

subsection \<open>Passwords\<close>

text \<open>
  The page tells the administrator to leave the default password blank to have passwords generated; the server
  refuses every such request.
\<close>

lemma blank_password_refused:
  "\<exists>msg. bulk_import_students ac ids now (import_body ps []) u w = (http 400 msg, w)"
  by (auto simp: bulk_import_students_def)

text \<open>
  The guard is applied to the credentials too: a password that starts with one of these characters is written
  with an apostrophe in front, and the sheet handed to the students holds another text than the password.
\<close>

lemma credentials_password:
  assumes "truthy r" "truthy (oget r ''created'')" "elems (oget r ''created'') = [c]" "oget c ''password'' = JStr p" "p \<noteq> []"
  shows "\<exists>sheet row. downloadCredentials (Some r) = Some sheet \<and> wr_rows sheet = [row] \<and>
     (oget row ''Password'' = JStr p \<longleftrightarrow> hd p \<notin> set formula_triggers)"
  using assms
  by (cases p) (auto simp: downloadCredentials_def downloadRowsAsExcel_def credential_row_def sanitizeCellValue_def or_val_def)

end
