(* ===== verification/Results_Page.thy ===== *)
theory Results_Page
  imports Analytics Sheets "HOL-Library.Multiset"
begin

section \<open>The results page of the browser client\<close>

text \<open>
  \<^verbatim>\<open>frontend/src/pages/AssessmentResultsPage.jsx\<close>: the risk level of a student, the figures, filters and best
  students computed from the attendance list, the exported sheet, and the requests its buttons send. The
  laws relate the figures to those of \<^verbatim>\<open>getAssessmentAnalytics\<close> and the requests to the services.
\<close>

subsection \<open>Risk\<close>

definition counter :: "attendance_row \<Rightarrow> nat \<Rightarrow> nat" where
  "counter a i = ar_counters a ! i"

abbreviation tab_switches :: "attendance_row \<Rightarrow> nat" where "tab_switches a \<equiv> counter a 0"
abbreviation copies :: "attendance_row \<Rightarrow> nat" where "copies a \<equiv> counter a 1"
abbreviation pastes :: "attendance_row \<Rightarrow> nat" where "pastes a \<equiv> counter a 2"
abbreviation fullscreen_exits :: "attendance_row \<Rightarrow> nat" where "fullscreen_exits a \<equiv> counter a 3"

definition risk_score :: "attendance_row \<Rightarrow> nat" where
  "risk_score a =
     (if tab_switches a > 5 then 2 else 0) + (if tab_switches a > 15 then 3 else 0) +
     (if copies a > 10 then 1 else 0) + (if pastes a > 5 then 2 else 0) + (if fullscreen_exits a > 0 then 3 else 0)"

definition calculateRiskLevel :: "attendance_row \<Rightarrow> string" where
  "calculateRiskLevel a =
     (if risk_score a \<ge> 5 then ''High'' else if risk_score a \<ge> 2 then ''Medium'' else ''Low'')"

subsection \<open>Figures\<close>

definition maxPossibleScore :: "problem_entry list \<Rightarrow> rat" where
  "maxPossibleScore es =
     (let s = fold (\<lambda>e acc. acc + (if pe_max_score e = 0 then 100 else pe_max_score e)) es 0
      in if s = 0 then 100 else s)"

definition row_started :: "attendance_row \<Rightarrow> bool" where
  "row_started a \<longleftrightarrow> ar_status a \<noteq> ''Not Started''"

definition row_completed :: "attendance_row \<Rightarrow> bool" where
  "row_completed a \<longleftrightarrow> ar_status a = ''Submitted'' \<or> ar_status a = ''TimedOut''"

record page_stats =
  ps_total :: nat
  ps_started :: nat
  ps_submitted :: nat
  ps_avg :: rat
  ps_pass_rate :: rat
  ps_high_risk :: nat

definition results_stats :: "problem_entry list \<Rightarrow> attendance_row list \<Rightarrow> page_stats" where
  "results_stats es rows =
     (let completed = filter row_completed rows; n = length completed in
      \<lparr>ps_total = length rows, ps_started = length (filter row_started rows), ps_submitted = n,
       ps_avg = (if n > 0 then to_fixed 1 (fold (\<lambda>a acc. acc + ar_score a) completed 0 / of_nat n) else 0),
       ps_pass_rate =
         (if n > 0
          then to_fixed 0 (of_nat (length (filter (\<lambda>a. ar_score a \<ge> maxPossibleScore es * (4 / 10)) completed))
                             / of_nat n * 100)
          else 0),
       ps_high_risk = length (filter (\<lambda>a. calculateRiskLevel a = ''High'') rows)\<rparr>)"

definition topPerformers :: "attendance_row list \<Rightarrow> attendance_row list" where
  "topPerformers rows = take 3 (sort_key (\<lambda>a. - ar_score a) (filter row_completed rows))"

definition filteredAttendance ::
    "string \<Rightarrow> string \<Rightarrow> string \<Rightarrow> attendance_row list \<Rightarrow> attendance_row list" where
  "filteredAttendance search status risk rows =
     filter (\<lambda>a. (includes_str (js_lower search) (js_lower (ar_name a)) \<or>
                   includes_str (js_lower search) (js_lower (ar_email a))) \<and>
                  (status = [] \<or> ar_status a = status) \<and> (risk = [] \<or> calculateRiskLevel a = risk)) rows"

text \<open>The tags of the question reports.\<close>

definition getAlertStatus :: "rat \<Rightarrow> string" where
  "getAlertStatus rate =
     (if rate > 85 then ''Too Easy'' else if rate > 0 \<and> rate < 20 then ''Too Hard / Broken'' else ''Balanced'')"

subsection \<open>The exported sheet\<close>

text \<open>\<open>show_time\<close> is \<^verbatim>\<open>Date.prototype.toLocaleString\<close> with the browser's locale.\<close>

definition or_na :: "string \<Rightarrow> string" where
  "or_na s = (if s = [] then ''N/A'' else s)"

definition time_or_na :: "(time \<Rightarrow> string) \<Rightarrow> time option \<Rightarrow> string" where
  "time_or_na show_time t = (case t of None \<Rightarrow> ''N/A'' | Some x \<Rightarrow> show_time x)"

definition time_used :: "attendance_row \<Rightarrow> string" where
  "time_used a =
     (case (ar_submitted a, ar_started a) of
        (Some t, Some s) \<Rightarrow> show_int ((t - s) div 60000) @ '' min''
      | _ \<Rightarrow> ''N/A'')"

definition score_percentage :: "rat \<Rightarrow> attendance_row \<Rightarrow> string" where
  "score_percentage best a = (if best > 0 then show_int (js_round (ar_score a / best * 100)) @ ''%'' else ''0%'')"

definition export_row :: "(time \<Rightarrow> string) \<Rightarrow> rat \<Rightarrow> attendance_row \<Rightarrow> jsval" where
  "export_row show_time best a =
     JObj [(''USN'', JStr (or_na (ar_usn a))), (''Name'', JStr (ar_name a)), (''Section'', JStr (or_na (ar_section a))),
           (''Score'', JNum (Fin (ar_score a))), (''Percentage'', JStr (score_percentage best a)),
           (''Start Time'', JStr (time_or_na show_time (ar_started a))),
           (''End Time'', JStr (time_or_na show_time (ar_submitted a))), (''Duration'', JStr (time_used a)),
           (''Tab Switches'', jnat (tab_switches a)), (''Fullscreen Exits'', jnat (fullscreen_exits a)),
           (''Risk Score'', JStr (calculateRiskLevel a)), (''Status'', JStr (ar_status a))]"

text \<open>\<^verbatim>\<open>title.replace(/\s+/g, '_')\<close>.\<close>

fun replace_spaces :: "bool \<Rightarrow> string \<Rightarrow> string" where
  "replace_spaces inside [] = []"
| "replace_spaces inside (c # cs) =
     (if is_ws c then (if inside then replace_spaces True cs else CHR ''_'' # replace_spaces True cs)
      else c # replace_spaces False cs)"

definition exportToExcel ::
    "(time \<Rightarrow> string) \<Rightarrow> string \<Rightarrow> problem_entry list \<Rightarrow> attendance_row list \<Rightarrow> string \<times> written" where
  "exportToExcel show_time title es rows =
     (replace_spaces False title @ ''_Results.xlsx'',
      downloadRowsAsExcel True (map (export_row show_time (maxPossibleScore es)) rows))"

subsection \<open>Requests\<close>

text \<open>\<^verbatim>\<open>parseInt(s, 10)\<close>: the longest prefix of digits after white space and a sign, \<open>None\<close> for \<^verbatim>\<open>NaN\<close>.\<close>

definition parse_digits :: "string \<Rightarrow> int option" where
  "parse_digits s = (let ds = takeWhile is_digit s in if ds = [] then None else Some (int (nat_of_digits ds)))"

definition parse_int :: "string \<Rightarrow> int option" where
  "parse_int s =
     (case dropWhile is_ws s of
        [] \<Rightarrow> None
      | c # cs \<Rightarrow>
          if c = CHR ''-'' then map_option uminus (parse_digits cs)
          else if c = CHR ''+'' then parse_digits cs else parse_digits (c # cs))"

datatype grace_answer = NoRequest | InvalidMinutes | GraceRequest jsval

definition handleAddGrace :: "string option \<Rightarrow> grace_answer" where
  "handleAddGrace prompt =
     (case prompt of
        None \<Rightarrow> NoRequest
      | Some s \<Rightarrow>
          (case parse_int s of
             None \<Rightarrow> InvalidMinutes
           | Some m \<Rightarrow> if m \<le> 0 then InvalidMinutes else GraceRequest (jint m)))"

text \<open>The button that adds grace time is shown for these rows.\<close>

definition grace_offered :: "attendance_row \<Rightarrow> bool" where
  "grace_offered a \<longleftrightarrow> ar_attempt a \<noteq> None \<and> (ar_status a = ''Active'' \<or> ar_status a = ''TimedOut'')"

definition appeal_offered :: "attendance_row \<Rightarrow> bool" where
  "appeal_offered a \<longleftrightarrow> ar_attempt a \<noteq> None \<and> ch_status (ar_challenge a) = Raised"

definition handleSendAnnouncement :: "string \<Rightarrow> jsval option" where
  "handleSendAnnouncement s = (if js_trim s = [] then None else Some (JObj [(''message'', JStr s)]))"

definition handleToggleLock :: "bool \<Rightarrow> bool \<Rightarrow> string option" where
  "handleToggleLock confirm locked =
     (if \<not> confirm then None else if \<not> locked then Some ''lock'' else Some ''unlock'')"

definition handleResolveChallenge :: "oid option \<Rightarrow> string \<Rightarrow> string \<Rightarrow> (oid \<times> jsval) option" where
  "handleResolveChallenge selected status comment =
     map_option (\<lambda>i. (i, JObj [(''status'', JStr status), (''facultyComment'', JStr comment)])) selected"

section \<open>Laws of the results page\<close>

subsection \<open>The page's figures are the server's\<close>

definition attempt_for :: "attempt list \<Rightarrow> user \<Rightarrow> attempt option" where
  "attempt_for as st = find (\<lambda>a. at_student a = u_id st) as"

lemma find_student_attempt_Inr:
  "find_student_attempt w i as = Inr r \<Longrightarrow> r = find (\<lambda>a. at_student a = i) as"
proof (induction w i as rule: find_student_attempt.induct)
  case (2 w sid a as)
  have "student_ref w a = Inr i \<Longrightarrow> at_student a = i" for i
    by (auto simp: student_ref_def users_find_def dest: find_holds split: option.splits)
  with 2 show ?case by (auto split: sum.splits if_splits)
qed simp

lemma attendance_rows_Inr:
  "attendance_rows w as sts = Inr rows \<Longrightarrow> rows = map (\<lambda>st. attendance_row_of st (attempt_for as st)) sts"
  by (induction sts arbitrary: rows)
     (auto simp: attempt_for_def dest!: find_student_attempt_Inr split: sum.splits)

lemma row_cases [simp]:
  "row_started (attendance_row_of st att) \<longleftrightarrow> att \<noteq> None"
  "row_completed (attendance_row_of st att) \<longleftrightarrow> (case att of None \<Rightarrow> False | Some a \<Rightarrow> is_completed a)"
  "ar_score (attendance_row_of st (Some a)) = at_score a"
  by (auto simp: row_started_def row_completed_def attendance_row_of_def is_completed_def status_name_def
      split: option.splits attempt_status.splits)

lemma started_rows:
  "length (filter row_started (map (\<lambda>st. attendance_row_of st (attempt_for as st)) sts)) =
     length (List.map_filter (attempt_for as) sts)"
  by (induction sts) (auto simp: map_filter_simps split: option.splits)

lemma completed_rows:
  "map ar_score (filter row_completed (map (\<lambda>st. attendance_row_of st (attempt_for as st)) sts)) =
     map at_score (filter is_completed (List.map_filter (attempt_for as) sts))"
  by (induction sts) (auto simp: map_filter_simps split: option.splits)

text \<open>When every attempt belongs to one of the students and none has two, the rows list the attempts.\<close>

lemma matched_students:
  "map at_student (List.map_filter (attempt_for as) sts) = filter (\<lambda>i. i \<in> at_student ` set as) (map u_id sts)"
proof (induction sts)
  case (Cons st sts)
  show ?case
  proof (cases "attempt_for as st")
    case None
    then have "u_id st \<notin> at_student ` set as" by (auto simp: attempt_for_def find_none)
    with None Cons show ?thesis by (simp add: map_filter_simps)
  next
    case (Some a)
    then have "a \<in> set as \<and> at_student a = u_id st" unfolding attempt_for_def by (rule find_member)
    then have "u_id st \<in> at_student ` set as" "at_student a = u_id st" by (force, simp)
    with Some Cons show ?thesis by (simp add: map_filter_simps)
  qed
qed (simp add: map_filter_simps)

lemma rows_list_attempts:
  assumes "distinct (map u_id sts)" "distinct (map at_student as)" "at_student ` set as \<subseteq> u_id ` set sts"
  shows "mset (List.map_filter (attempt_for as) sts) = mset as"
proof -
  let ?bs = "List.map_filter (attempt_for as) sts"
  have ids: "map at_student ?bs = filter (\<lambda>i. i \<in> at_student ` set as) (map u_id sts)" by (rule matched_students)
  then have dist: "distinct (map at_student ?bs)" using assms(1) by simp
  have sub: "set ?bs \<subseteq> set as"
    by (auto simp: List.map_filter_def attempt_for_def dest: find_member split: option.splits)
  have "set as \<subseteq> set ?bs"
  proof
    fix a assume a: "a \<in> set as"
    then have "at_student a \<in> set (map at_student ?bs)" unfolding ids using assms(3) by auto
    then obtain b where b: "b \<in> set ?bs" "at_student b = at_student a" by auto
    with sub a assms(2) have "b = a" by (auto simp: distinct_map inj_on_def)
    with b show "a \<in> set ?bs" by simp
  qed
  with sub dist assms(2) show ?thesis
    by (auto simp: set_eq_iff_mset_eq_distinct [symmetric] distinct_map)
qed

lemma max_possible_page: "maxPossibleScore es = max_possible es"
proof -
  have "fold (\<lambda>e acc. acc + (if pe_max_score e = 0 then 100 else pe_max_score e)) es c =
      c + sum_list (map (\<lambda>e. score_or_100 (pe_max_score e)) es)" for c
    by (induction es arbitrary: c) (simp_all add: score_or_100_def)
  from this [of 0] show ?thesis by (simp add: maxPossibleScore_def max_possible_def score_or_100_def Let_def)
qed

lemma fold_scores: "fold (\<lambda>a acc. acc + ar_score a) rows c = c + sum_list (map ar_score rows)"
  by (induction rows arbitrary: c) simp_all

lemma sum_list_mset: "mset xs = mset ys \<Longrightarrow> sum_list xs = (sum_list ys :: rat)"
  by (metis sum_mset_sum_list)

lemma stats_of_scores:
  "ps_avg (results_stats es rows) = average_1 (map ar_score (filter row_completed rows))"
  "ps_pass_rate (results_stats es rows) =
     percentage (length (filter (\<lambda>x. max_possible es * (4 / 10) \<le> x) (map ar_score (filter row_completed rows))))
       (length (map ar_score (filter row_completed rows)))"
  by (simp_all add: results_stats_def Let_def average_1_def percentage_def fold_scores max_possible_page
      filter_map comp_def del: filter_filter)

lemma overall_of_scores:
  "ov_avg (overall es sts as) = average_1 (map at_score (filter is_completed as))"
  "ov_pass_rate (overall es sts as) =
     percentage (length (filter (\<lambda>x. max_possible es * (4 / 10) \<le> x) (map at_score (filter is_completed as))))
       (length (map at_score (filter is_completed as)))"
  by (simp_all add: overall_def Let_def filter_map comp_def has_passed_def [abs_def] del: filter_filter)

lemma figures_of_mset:
  assumes "mset xs = mset ys"
  shows "average_1 xs = average_1 ys" "length (filter P xs) = length (filter P ys)" "length xs = length ys"
  using assms sum_list_mset [OF assms] mset_eq_length [OF assms]
    mset_eq_length [of "filter P xs" "filter P ys"]
  by (auto simp: average_1_def)

text \<open>C31: the results page and the analytics of the server show the same figures. The page computes the numbers
  of candidates, of started and of submitted attempts, the average and the pass rate from the attendance
  list, the server from the attempts; they agree, rounding included, whenever no student has two attempts
  (which holds in every reachable state) and every attempt belongs to a student on the list.\<close>

theorem page_figures_agree:
  assumes "getAssessmentAttendance aid u w = Inr rows" and "getAssessmentAnalytics aid u w = Inr x"
    and "assessments_find w aid (scope_of u) = Some s"
    and "distinct (map u_id (w_users w))" and "distinct (map attempt_key (w_attempts w))"
    and "\<forall>a \<in> set (attempts_of aid w). at_student a \<in> u_id ` set (college_students s w)"
  shows "let p = results_stats (as_problems s) rows; v = ax_overall x in
     ps_total p = ov_students v \<and> ps_started p = ov_started v \<and> ps_submitted p = ov_submitted v \<and>
     ps_avg p = ov_avg v \<and> ps_pass_rate p = ov_pass_rate v \<and> maxPossibleScore (as_problems s) = ov_max_score v"
proof -
  define sts where "sts = college_students s w"
  define as where "as = attempts_of aid w"
  define bs where "bs = List.map_filter (attempt_for as) sts"
  have rows: "rows = map (\<lambda>st. attendance_row_of st (attempt_for as st)) sts"
    using assms(1,3) attendance_rows_Inr by (auto simp: getAssessmentAttendance_def sts_def as_def split: if_splits)
  have x: "ax_overall x = overall (as_problems s) sts as"
    using assms(2,3) by (auto simp: getAssessmentAnalytics_def Let_def sts_def as_def split: if_splits sum.splits)
  have "distinct (map at_student as)"
    using assms(5) by (auto simp: as_def attempts_of_def distinct_map attempt_key_def inj_on_def)
  moreover have "distinct (map u_id sts)" using assms(4) by (simp add: sts_def college_students_def distinct_map_filter)
  ultimately have bs: "mset bs = mset as"
    using assms(6) unfolding bs_def by (intro rows_list_attempts) (auto simp: sts_def as_def)
  then have scores: "mset (map at_score (filter is_completed bs)) = mset (map at_score (filter is_completed as))" by simp
  have comp: "map ar_score (filter row_completed rows) = map at_score (filter is_completed bs)"
    by (simp add: rows bs_def completed_rows)
  have "length (filter row_completed rows) = length (filter is_completed as)"
    using comp mset_eq_length [OF scores] by (metis length_map)
  moreover have "length (filter row_started rows) = length as"
    using mset_eq_length [OF bs] unfolding rows started_rows bs_def .
  moreover have "length rows = length sts" by (simp add: rows)
  moreover have "ps_avg (results_stats (as_problems s) rows) = ov_avg (overall (as_problems s) sts as)"
      "ps_pass_rate (results_stats (as_problems s) rows) = ov_pass_rate (overall (as_problems s) sts as)"
    unfolding stats_of_scores overall_of_scores comp
    using figures_of_mset [OF scores] by metis+
  ultimately show ?thesis
    by (simp add: Let_def x) (simp add: results_stats_def overall_def Let_def max_possible_page)
qed

lemma page_figures_agree_witness:
  "\<exists>rows. getAssessmentAttendance 10 faculty_auth finished_world = Inr rows \<and>
     ps_pass_rate (results_stats (as_problems sample_assessment) rows) = ov_pass_rate (ax_overall sample_report)"
proof -
  have s: "assessments_find finished_world 10 (scope_of faculty_auth) = Some sample_assessment"
    by (simp add: assessments_find_def collegeScopeFor_def faculty_auth_def student_auth_def finished_world_def sample_defs)
  have "is_ok (getAssessmentAttendance 10 faculty_auth finished_world)" by code_simp
  then obtain rows where rows: "getAssessmentAttendance 10 faculty_auth finished_world = Inr rows" by (auto simp: is_ok_iff)
  have "distinct (map u_id (w_users finished_world))" "distinct (map attempt_key (w_attempts finished_world))"
    "\<forall>a \<in> set (attempts_of 10 finished_world). at_student a \<in> u_id ` set (college_students sample_assessment finished_world)"
    by (simp_all add: attempts_of_def college_students_def finished_world_def sample_defs)
  from page_figures_agree [OF rows sample_report_run s this] rows show ?thesis by (simp add: Let_def)
qed

subsection \<open>Risk levels\<close>

text \<open>More events never lower the risk level, and any one of three signals alone is at least medium.\<close>

definition at_least_as_risky :: "attendance_row \<Rightarrow> attendance_row \<Rightarrow> bool" where
  "at_least_as_risky a b \<longleftrightarrow> (\<forall>i < 4. counter b i \<le> counter a i)"

lemma risk_score_mono: "at_least_as_risky a b \<Longrightarrow> risk_score b \<le> risk_score a"
proof -
  assume "at_least_as_risky a b"
  then have "tab_switches b \<le> tab_switches a" "copies b \<le> copies a" "pastes b \<le> pastes a"
    "fullscreen_exits b \<le> fullscreen_exits a"
    by (simp_all add: at_least_as_risky_def)
  then show ?thesis by (simp add: risk_score_def)
qed

lemma risk_high: "calculateRiskLevel a = ''High'' \<longleftrightarrow> risk_score a \<ge> 5"
  by (simp add: calculateRiskLevel_def)

lemma risk_stays_high: "at_least_as_risky a b \<Longrightarrow> calculateRiskLevel b = ''High'' \<Longrightarrow> calculateRiskLevel a = ''High''"
  using risk_score_mono by (fastforce simp: risk_high)

lemma absent_low: "calculateRiskLevel (attendance_row_of st None) = ''Low''"
  by (simp add: calculateRiskLevel_def risk_score_def counter_def attendance_row_of_def)

subsection \<open>The best students\<close>

text \<open>At most three completed rows are shown, best first, and no other completed row has a higher score.\<close>

lemma top_performers:
  "length (topPerformers rows) = min 3 (length (filter row_completed rows))"
  "sorted (map (\<lambda>a. - ar_score a) (topPerformers rows))"
  "set (topPerformers rows) \<subseteq> {a \<in> set rows. row_completed a}"
proof -
  let ?s = "sort_key (\<lambda>a. - ar_score a) (filter row_completed rows)"
  show "length (topPerformers rows) = min 3 (length (filter row_completed rows))"
    by (simp add: topPerformers_def min_def)
  show "sorted (map (\<lambda>a. - ar_score a) (topPerformers rows))"
    unfolding topPerformers_def take_map [symmetric] by (rule sorted_wrt_take) simp
  show "set (topPerformers rows) \<subseteq> {a \<in> set rows. row_completed a}"
    using set_take_subset [of 3 ?s] by (auto simp: topPerformers_def)
qed

subsection \<open>Requests\<close>

text \<open>The minutes the page sends are what the service adds: the request is never refused as a bad number.\<close>

lemma grace_request_positive: "handleAddGrace prompt = GraceRequest v \<Longrightarrow> \<exists>m. v = jint m \<and> 0 < m"
  by (auto simp: handleAddGrace_def split: option.splits if_splits)

lemma announcement_accepted:
  assumes "handleSendAnnouncement s = Some body" "assessments_find w i (scope_of u) = Some a"
  shows "is_ok (fst (createAnnouncement i (oget body ''message'') u clk w))"
proof -
  have "s \<noteq> []" "js_trim s \<noteq> []" "oget body ''message'' = JStr s"
    using assms(1) by (auto simp: handleSendAnnouncement_def js_trim_def split: if_splits)
  with assms(2) show ?thesis by (simp add: createAnnouncement_def Let_def)
qed

text \<open>A problem that everybody failed is shown as balanced, one that few solved as too hard.\<close>

lemma unsolved_is_balanced: "getAlertStatus 0 = ''Balanced''" "getAlertStatus 1 = ''Too Hard / Broken''"
  unfolding getAlertStatus_def by simp_all

lemma replace_spaces_no_ws: "list_all (\<lambda>c. \<not> is_ws c) (replace_spaces b s)"
proof -
  have "\<not> is_ws CHR ''_''" by (simp add: is_ws_def)
  then show ?thesis by (induction b s rule: replace_spaces.induct) simp_all
qed

end
