(* ===== verification/Problem_Laws.thy ===== *)
theory Problem_Laws
  imports Problems Attempt_Lifecycle
begin

section \<open>What holds of problems\<close>

text \<open>
  A stored problem is well typed and every test case of it is either a sample or hidden; the view of a
  student does not depend on hidden test cases; a practice run does.
\<close>

subsection \<open>Authoring\<close>

text \<open>What the cast of a document keeps of a test case of the payload.\<close>

definition stored_case :: "jsval \<Rightarrow> test_case \<Rightarrow> bool" where
  "stored_case v tc \<longleftrightarrow>
     oget v ''inputs'' = JArr (tc_inputs tc) \<and> oget v ''expected'' = tc_expected tc \<and>
     (\<exists>b h. oget v ''isSample'' = JBool b \<and> tc_sample tc = Some b \<and>
            oget v ''isHidden'' = JBool h \<and> tc_hidden tc = Some h)"

definition keeps_tests :: "(jsval \<Rightarrow> problem result) \<Rightarrow> bool" where
  "keeps_tests mk \<longleftrightarrow> (\<forall>n p. mk n = Inr p \<longrightarrow> list_all2 stored_case (elems (oget n ''testCases'')) (pr_tests p))"

lemma map_result_Inr: "map_result f xs = Inr ys \<Longrightarrow> list_all2 (\<lambda>x y. f x = Inr y) xs ys"
  by (induction xs arbitrary: ys) (auto split: sum.splits)

lemma list_all2_right: "list_all2 P xs ys \<Longrightarrow> y \<in> set ys \<Longrightarrow> \<exists>x \<in> set xs. P x y"
  by (induction rule: list_all2_induct) auto

lemma list_all2_left: "list_all2 P xs ys \<Longrightarrow> x \<in> set xs \<Longrightarrow> \<exists>y \<in> set ys. P x y"
  by (induction rule: list_all2_induct) auto

lemma for_each_none: "for_each f i xs = [] \<Longrightarrow> x \<in> set xs \<Longrightarrow> \<exists>j. f j x = []"
proof (induction xs arbitrary: i)
  case (Cons a xs)
  from Cons.prems(1) have "f i a = []" "for_each f (Suc i) xs = []" by simp_all
  with Cons.IH Cons.prems(2) show ?case by (cases "x = a") auto
qed simp

lemma normal_case_hidden:
  "normal_case t = Inr v \<Longrightarrow> \<exists>b. oget v ''isSample'' = JBool b \<and> oget v ''isHidden'' = JBool (\<not> b)"
  by (auto simp: normal_case_def Let_def split: if_splits)

lemma normalized_cases:
  assumes "normalizeProblemPayload payload = Inr n" and "v \<in> set (elems (oget n ''testCases''))"
  shows "\<exists>t. normal_case t = Inr v"
proof -
  from assms(1) obtain n' where n': "map_field normal_case ''testCases'' n' = Inr n"
    by (auto simp: normalizeProblemPayload_def Let_def split: sum.splits)
  show ?thesis
  proof (cases "is_array (oget n' ''testCases'')")
    case True
    with n' obtain xs where xs: "map_result normal_case (elems (oget n' ''testCases'')) = Inr xs"
        "n = oset n' ''testCases'' (JArr xs)"
      by (auto simp: map_field_def split: sum.splits)
    from True obtain kvs where "n' = JObj kvs" by (cases n') auto
    with xs(2) assms(2) have "v \<in> set xs" by simp
    with list_all2_right [OF map_result_Inr [OF xs(1)]] show ?thesis by blast
  next
    case False
    with n' have "n = n'" by (simp add: map_field_def)
    with False assms(2) show ?thesis by (cases "oget n' ''testCases''") auto
  qed
qed

lemma checked_payload_Inr:
  assumes "checked_payload env now payload = Inr n"
  shows "normalizeProblemPayload payload = Inr n \<and> validateProblemPayload n = [] \<and> well_typed_problem n"
  using assms certified_outcome [of env now n]
  by (auto simp: checked_payload_def Let_def split: sum.splits if_splits)

lemma stored_types:
  assumes "stored_case v tc" and "well_typed_case ts t v"
  shows "list_all2 has_type (tc_inputs tc) ts \<and> has_type (tc_expected tc) t"
  using assms by (simp add: stored_case_def well_typed_case_def)

definition typed_tests :: "problem \<Rightarrow> ty list \<Rightarrow> ty \<Rightarrow> bool" where
  "typed_tests p ts t \<longleftrightarrow>
     (\<forall>tc \<in> set (pr_tests p). list_all2 has_type (tc_inputs tc) ts \<and> has_type (tc_expected tc) t)"

text \<open>The test cases of a payload that passed the checks, as they are stored.\<close>

lemma stored_tests:
  assumes "checked_payload env now payload = Inr n"
    and "list_all2 stored_case (elems (oget n ''testCases'')) tests"
  shows "(\<exists>ts t. list_all2 (\<lambda>p. type_of_field p ''type'') (elems (oget n ''parameters'')) ts \<and>
            type_of_field n ''returnType'' t \<and>
            (\<forall>tc \<in> set tests. list_all2 has_type (tc_inputs tc) ts \<and> has_type (tc_expected tc) t)) \<and>
         (\<forall>tc \<in> set tests. tc_hidden tc = Some (\<not> isSampleTestCase tc)) \<and> (\<exists>tc \<in> set tests. isSampleTestCase tc)"
proof -
  note n = checked_payload_Inr [OF assms(1)]
  have from_case: "\<exists>v \<in> set (elems (oget n ''testCases'')). stored_case v tc" if "tc \<in> set tests" for tc
    using list_all2_right [OF assms(2) that] .
  have to_case: "\<exists>tc \<in> set tests. stored_case v tc" if "v \<in> set (elems (oget n ''testCases''))" for v
    using list_all2_left [OF assms(2) that] .
  from n obtain ts t where ts: "list_all2 (\<lambda>p. type_of_field p ''type'') (elems (oget n ''parameters'')) ts"
      "type_of_field n ''returnType'' t" "\<forall>v \<in> set (elems (oget n ''testCases'')). well_typed_case ts t v"
    unfolding well_typed_problem_def by blast
  have typed: "\<forall>tc \<in> set tests. list_all2 has_type (tc_inputs tc) ts \<and> has_type (tc_expected tc) t"
    using from_case stored_types ts(3) by blast
  have "tc_hidden tc = Some (\<not> isSampleTestCase tc)" if "tc \<in> set tests" for tc
  proof -
    from from_case [OF that] obtain v where v: "v \<in> set (elems (oget n ''testCases''))" "stored_case v tc" ..
    with n normalized_cases obtain s where "normal_case s = Inr v" by blast
    from normal_case_hidden [OF this] v(2) show ?thesis by (auto simp: stored_case_def isSampleTestCase_def)
  qed
  moreover have "\<exists>tc \<in> set tests. isSampleTestCase tc"
  proof -
    have "tests_errors n = []" "sample_errors n = []" using n by (simp_all add: validateProblemPayload_def)
    then obtain v where v: "v \<in> set (elems (oget n ''testCases''))" "oget v ''isSample'' = JBool True"
      by (auto simp: tests_errors_def sample_errors_def Let_def list_ex_iff split: if_splits)
    from to_case [OF v(1)] obtain tc where "tc \<in> set tests" "stored_case v tc" ..
    moreover from this(2) v(2) have "isSampleTestCase tc" by (auto simp: stored_case_def isSampleTestCase_def)
    ultimately show ?thesis by blast
  qed
  ultimately show ?thesis using ts(1,2) typed by blast
qed


text \<open>A cast that follows the schema, for concrete runs.\<close>

definition cast_case :: "jsval \<Rightarrow> test_case option" where
  "cast_case v =
     (case (oget v ''inputs'', oget v ''isSample'', oget v ''isHidden'') of
        (JArr xs, JBool b, JBool h) \<Rightarrow>
          Some \<lparr>tc_inputs = xs, tc_expected = oget v ''expected'', tc_sample = Some b, tc_hidden = Some h\<rparr>
      | _ \<Rightarrow> None)"

definition blank_problem :: problem where
  "blank_problem =
     \<lparr>pr_id = 70, pr_title = ''Sum'', pr_description = ''Sum of a list'', pr_difficulty = Easy,
      pr_type = FunctionProblem, pr_external = None, pr_input_format = None, pr_output_format = None,
      pr_function = Some ''sum'', pr_params = [(''xs'', ''array<number>'')], pr_return = Some ''number'',
      pr_time_limit = Fin 2000, pr_memory_limit = Fin 256,
      pr_compare = \<lparr>cc_mode = EXACT, cc_tolerance = Fin 0, cc_order_insensitive = False, cc_deep_copy = False\<rparr>,
      pr_tests = [], pr_tests_json = None, pr_tags = [], pr_premium = False, pr_submissions = 0,
      pr_accepted = 0, pr_created = 0\<rparr>"

definition sample_make :: "jsval \<Rightarrow> problem result" where
  "sample_make n =
     (case those (map cast_case (elems (oget n ''testCases''))) of
        None \<Rightarrow> Inl (DriverError ''ValidationError'')
      | Some tests \<Rightarrow> Inr (blank_problem\<lparr>pr_tests := tests\<rparr>))"

lemma those_Some: "those xs = Some ys \<Longrightarrow> xs = map Some ys"
  by (induction xs arbitrary: ys) (auto split: option.splits)

lemma cast_case_stored: "cast_case v = Some tc \<Longrightarrow> stored_case v tc"
  by (auto simp: cast_case_def stored_case_def split: jsval.splits)

lemma sample_make_keeps: "keeps_tests sample_make"
proof -
  have "list_all2 stored_case (elems (oget n ''testCases'')) (pr_tests p)" if "sample_make n = Inr p" for n p
  proof -
    from that obtain tests where "map cast_case (elems (oget n ''testCases'')) = map Some tests" "pr_tests p = tests"
      by (auto simp: sample_make_def split: option.splits dest!: those_Some)
    then show ?thesis
      by (simp add: list_all2_conv_all_nth list_eq_iff_nth_eq cast_case_stored)
  qed
  then show ?thesis by (simp add: keeps_tests_def)
qed

definition problem_payload :: jsval where
  "problem_payload =
     JObj [(''title'', JStr '' Sum ''), (''description'', JStr ''Sum of a list''), (''difficulty'', JStr ''Easy''),
           (''functionName'', JStr ''sum''), (''returnType'', JStr ''number''),
           (''parameters'', JArr [JObj [(''name'', JStr ''xs''), (''type'', JStr ''array<number>'')]]),
           (''referenceSolution'', JStr ''code''), (''solutionLanguage'', JStr ''python''),
           (''testCases'', JArr [JObj [(''inputs'', JArr [JArr [jint 1, jint 2]]), (''expected'', jint 3),
                                      (''isSample'', JBool True)],
                                JObj [(''inputs'', JArr [JArr []]), (''expected'', jint 0)]])]"


subsection \<open>What students see\<close>

text \<open>Two problems that differ in nothing but their hidden test cases.\<close>

definition same_but_hidden :: "problem \<Rightarrow> problem \<Rightarrow> bool" where
  "same_but_hidden p q \<longleftrightarrow>
     q = p\<lparr>pr_tests := pr_tests q\<rparr> \<and> filter isSampleTestCase (pr_tests q) = filter isSampleTestCase (pr_tests p)"

lemma sanitize_same: "same_but_hidden p q \<Longrightarrow> sanitizeProblemForStudent q = sanitizeProblemForStudent p"
  by (cases p, cases q) (simp add: same_but_hidden_def sanitizeProblemForStudent_def)

text \<open>What a student or an anonymous client reads about a problem, alone or in a list, does not depend on its
  hidden test cases at all: exchanging them for any others leaves the answer of both operations as it is, and
  every test case shown is a sample.\<close>

theorem hidden_cases_stay_hidden:
  assumes "\<not> isPrivilegedRole (role_of u)"
    and "list_all2 same_but_hidden (w_problems w) (w_problems w')" and "w_colleges w' = w_colleges w"
  shows "getProblemById price i u w' = getProblemById price i u w \<and>
         listProblems ops price query u w' = listProblems ops price query u w \<and>
         (\<forall>v. getProblemById price i u w = Some v \<longrightarrow> list_all isSampleTestCase (pr_tests (vp_problem v)))"
proof -
  have allows: "collegeAllowsPremium price c w' = collegeAllowsPremium price c w" for c
    by (cases c) (simp_all add: collegeAllowsPremium_def colleges_find_def assms(3))
  have same: "pr_id q = pr_id p" "pr_premium q = pr_premium p" "pr_difficulty q = pr_difficulty p"
      "pr_tags q = pr_tags p" "pr_title q = pr_title p" "q\<lparr>pr_tests := []\<rparr> = p\<lparr>pr_tests := []\<rparr>"
    if "same_but_hidden p q" for p q
    using that by (cases p, cases q, simp add: same_but_hidden_def)+
  have found: "rel_option same_but_hidden (problems_find w i) (problems_find w' i)"
    unfolding problems_find_def using assms(2) by (induction rule: list_all2_induct) (auto simp: same)
  have one: "getProblemById price i u w' = getProblemById price i u w"
    using found assms(1)
    by (auto simp: getProblemById_def locked_for_def allows same sanitize_same elim!: option.rel_cases)
  have page: "list_all2 same_but_hidden (take l (drop s xs)) (take l (drop s ys))"
    if "list_all2 same_but_hidden xs ys" for l s xs ys
    using that by (simp add: list_all2_takeI list_all2_dropI)
  have sel: "list_all2 same_but_hidden (filter P (w_problems w)) (filter P (w_problems w'))"
    if "buildProblemFilter ops query = Inr P" for P
  proof -
    have "P q = P p" if "same_but_hidden p q" for p q
      using \<open>buildProblemFilter ops query = Inr P\<close> same [OF that]
      by (auto simp: buildProblemFilter_def split: sum.splits)
    with assms(2) show ?thesis by (induction rule: list_all2_induct) auto
  qed
  have views: "map (\<lambda>p. \<lparr>vp_problem = p\<lparr>pr_tests := []\<rparr>, vp_locked = locked_for price u p w'\<rparr>) ys
      = map (\<lambda>p. \<lparr>vp_problem = p\<lparr>pr_tests := []\<rparr>, vp_locked = locked_for price u p w\<rparr>) xs"
    if "list_all2 same_but_hidden xs ys" for xs ys
    using that by (induction rule: list_all2_induct) (simp_all add: locked_for_def allows same)
  have "listProblems ops price query u w' = listProblems ops price query u w"
    using assms(1) sel page views
    by (auto simp: listProblems_def page_slice_def split: sum.split option.split)
  moreover have "list_all isSampleTestCase (pr_tests (vp_problem v))" if "getProblemById price i u w = Some v" for v
    using that assms(1)
    by (auto simp: getProblemById_def sanitizeProblemForStudent_def list_all_iff isSampleTestCase_def split: option.splits)
  ultimately show ?thesis using one by blast
qed

definition world_with_case :: "test_case \<Rightarrow> world" where
  "world_with_case tc =
     empty_world\<lparr>w_problems := [blank_problem\<lparr>pr_tests :=
        [\<lparr>tc_inputs = [jint 1], tc_expected = jint 1, tc_sample = Some True, tc_hidden = Some False\<rparr>, tc]\<rparr>]\<rparr>"

lemma hidden_cases_stay_hidden_witness:
  "\<forall>e. getProblemById JUndef 70 (Some student_auth) (world_with_case (hidden_case\<lparr>tc_expected := e\<rparr>)) =
       getProblemById JUndef 70 (Some student_auth) (world_with_case hidden_case)"
proof
  fix e
  have "\<not> isPrivilegedRole (role_of (Some student_auth))" by code_simp
  moreover have "list_all2 same_but_hidden (w_problems (world_with_case hidden_case))
      (w_problems (world_with_case (hidden_case\<lparr>tc_expected := e\<rparr>)))"
    by (simp add: world_with_case_def same_but_hidden_def isSampleTestCase_def hidden_case_def blank_problem_def)
  moreover have "w_colleges (world_with_case (hidden_case\<lparr>tc_expected := e\<rparr>)) = w_colleges (world_with_case hidden_case)"
    by (simp add: world_with_case_def)
  ultimately show "getProblemById JUndef 70 (Some student_auth) (world_with_case (hidden_case\<lparr>tc_expected := e\<rparr>)) =
      getProblemById JUndef 70 (Some student_auth) (world_with_case hidden_case)"
    using hidden_cases_stay_hidden by blast
qed

subsection \<open>What a practice run gives away\<close>

lemma fill_map_last:
  assumes "json_str (JArr (tc_inputs tc)) = Some k"
    and "\<forall>t \<in> set ts. json_str (JArr (tc_inputs t)) \<noteq> Some k"
  shows "fill_map (xs @ tc # ts) k = Some (tc_expected tc)"
proof -
  let ?f = "\<lambda>tc m. case json_str (JArr (tc_inputs tc)) of None \<Rightarrow> m | Some k \<Rightarrow> m(k \<mapsto> tc_expected tc)"
  have "fold ?f ts m k = m k" for m :: "string \<Rightarrow> jsval option"
    using assms(2) by (induction ts arbitrary: m) (auto split: option.split)
  with assms(1) show ?thesis by (simp add: fill_map_def)
qed

text \<open>
  The judge reports for each test the expected value it was given, among other fields.
\<close>

definition echoes_expected :: "(jsval \<Rightarrow> judge_reply) \<Rightarrow> bool" where
  "echoes_expected judge \<longleftrightarrow>
     (\<forall>m. \<exists>res. judge m = Replied (JObj [(''details'', JArr res)]) \<and>
        list_all2 (\<lambda>t d. \<exists>kvs. d = JObj kvs \<and> oget d ''expected'' = oget t ''expected'') (elems (oget m ''tests'')) res)"

lemma put_all_other: "k \<notin> fst ` set kvs \<Longrightarrow> map_of (put_all kvs acc) k = map_of acc k"
  by (induction kvs acc rule: put_all.induct) auto

lemma visible_expected:
  "oget d ''expected'' = v \<Longrightarrow> \<not> nullish v \<Longrightarrow> oget (visible_detail d) ''expected'' = v"
  by (simp add: visible_detail_def console_fields_def coalesce_def)

text \<open>A practice run with a custom test that has the inputs of a test case and no expected value answers with the
  expected value of that test case, be it a sample or hidden, so a student who guesses the inputs of a hidden
  test learns its expected output.\<close>

theorem run_reveals_expected:
  assumes "problems_find w i = Some p" and "pr_tests p = xs @ tc # ts" and "echoes_expected judge"
    and "\<forall>t \<in> set ts. json_str (JArr (tc_inputs t)) \<noteq> json_str (JArr (tc_inputs tc))"
    and "oget payload ''customTests'' = JArr [JObj [(''inputs'', JArr (tc_inputs tc))]]"
    and "\<not> nullish (tc_expected tc)"
  shows "\<exists>r d. runProblem judge now i payload w = Inr r \<and> oget r ''details'' = JArr [d] \<and>
               oget d ''expected'' = tc_expected tc"
proof -
  let ?m = "run_message now i p payload" and ?t = "JObj [(''inputs'', JArr (tc_inputs tc))]"
  obtain k where k: "json_str (JArr (tc_inputs tc)) = Some k" by simp
  have "fill_map (pr_tests p) k = Some (tc_expected tc)"
    unfolding assms(2) by (rule fill_map_last [OF k]) (use assms(4) k in \<open>simp del: json_str.simps\<close>)
  then have "fill_test (pr_tests p) ?t = oset ?t ''expected'' (tc_expected tc)"
    using k by (simp add: fill_test_def del: json_str.simps)
  moreover have "oget ?m ''tests'' = fill_tests (pr_tests p) (or_val (oget payload ''customTests'') (JArr []))"
    by (simp add: run_message_def)
  ultimately have tests: "elems (oget ?m ''tests'') = [oset ?t ''expected'' (tc_expected tc)]"
    by (simp add: fill_tests_def or_val_def assms(2,5))
  from assms(3) obtain res where res: "judge ?m = Replied (JObj [(''details'', JArr res)])"
      "list_all2 (\<lambda>t d. \<exists>kvs. d = JObj kvs \<and> oget d ''expected'' = oget t ''expected'') (elems (oget ?m ''tests'')) res"
    unfolding echoes_expected_def by blast
  from res(2) tests obtain kvs where d: "res = [JObj kvs]" "oget (JObj kvs) ''expected'' = tc_expected tc"
    by (auto simp: list_all2_Cons1)
  have "\<not> nullish payload" using assms(5) by (cases payload) auto
  with res(1) d assms(1,5)
  have "runProblem judge now i payload w = Inr (JObj [(''details'', JArr [visible_detail (JObj kvs)])])"
    by (simp add: runProblem_def run_answer_def run_details_def has_length_def)
  with visible_expected [OF d(2) assms(6)] show ?thesis by simp
qed

definition echo_test :: "jsval \<Rightarrow> jsval" where
  "echo_test t = JObj [(''passed'', JBool False), (''expected'', oget t ''expected'')]"

definition echo_judge :: "jsval \<Rightarrow> judge_reply" where
  "echo_judge m = Replied (JObj [(''details'', JArr (map echo_test (elems (oget m ''tests''))))])"

lemma echo_judge_echoes: "echoes_expected echo_judge"
  by (simp add: echoes_expected_def echo_judge_def echo_test_def list_all2_conv_all_nth)

lemma run_reveals_expected_witness:
  "\<exists>r d. runProblem echo_judge 0 70 (JObj [(''customTests'', JArr [JObj [(''inputs'', JArr (tc_inputs hidden_case))]])])
      (world_with_case (hidden_case\<lparr>tc_expected := jint 42\<rparr>)) = Inr r \<and> oget r ''details'' = JArr [d] \<and>
    oget d ''expected'' = jint 42"
proof -
  let ?tc = "hidden_case\<lparr>tc_expected := jint 42\<rparr>"
  have "problems_find (world_with_case ?tc) 70 = Some (blank_problem\<lparr>pr_tests :=
        [\<lparr>tc_inputs = [jint 1], tc_expected = jint 1, tc_sample = Some True, tc_hidden = Some False\<rparr>, ?tc]\<rparr>)"
    by (simp add: problems_find_def world_with_case_def blank_problem_def)
  from run_reveals_expected [OF this _ echo_judge_echoes, of "[\<lparr>tc_inputs = [jint 1], tc_expected = jint 1, tc_sample = Some True, tc_hidden = Some False\<rparr>]"
      ?tc "[]" "JObj [(''customTests'', JArr [JObj [(''inputs'', JArr (tc_inputs hidden_case))]])]" 0]
  show ?thesis by simp
qed

subsection \<open>Normalising twice\<close>

lemma obj_put_same: "map_of kvs k = Some v \<Longrightarrow> obj_put k v kvs = kvs"
  by (induction k v kvs rule: obj_put.induct) (auto split: if_splits)

lemma trimmed_idem: "trimmed (trimmed v) = trimmed v"
  by (simp add: trimmed_def split: jsval.split)

lemma normal_param_idem: "normal_param q = Inr v \<Longrightarrow> normal_param v = Inr v"
  by (auto simp: normal_param_def or_empty_def Let_def trimmed_idem obj_put_same split: if_splits)

lemma normal_case_idem: "normal_case t = Inr v \<Longrightarrow> normal_case v = Inr v"
  by (auto simp: normal_case_def or_empty_def Let_def split: if_splits)

lemma normal_compare_idem: "normal_compare (normal_compare cc) = normal_compare cc"
  by (simp add: normal_compare_def or_val_def Let_def)

lemma map_result_idem:
  assumes "\<And>x y. f x = Inr y \<Longrightarrow> f y = Inr y"
  shows "map_result f xs = Inr ys \<Longrightarrow> map_result f ys = Inr ys"
  by (induction xs arbitrary: ys) (auto split: sum.splits dest: assms)

text \<open>A field is settled for \<open>f\<close> when mapping \<open>f\<close> over it changes nothing; that depends on the field alone.\<close>

definition settled :: "(jsval \<Rightarrow> jsval result) \<Rightarrow> jsval \<Rightarrow> bool" where
  "settled f v \<longleftrightarrow> (is_array v \<longrightarrow> map_result f (elems v) = Inr (elems v))"

fun is_object :: "jsval \<Rightarrow> bool" where
  "is_object (JObj kvs) = True"
| "is_object _ = False"

lemma oset_oget: "is_object v \<Longrightarrow> oget v k \<noteq> JUndef \<Longrightarrow> oset v k (oget v k) = v"
  by (cases v) (auto simp: obj_put_same split: option.splits)

lemma map_field_settled: "is_object v \<Longrightarrow> settled f (oget v k) \<Longrightarrow> map_field f k v = Inr v"
proof (cases "oget v k")
  case (JArr xs)
  assume "is_object v" "settled f (oget v k)"
  with oset_oget [of v k] JArr show ?thesis by (simp add: map_field_def settled_def)
qed (simp_all add: map_field_def)

lemma map_field_settles:
  assumes "map_field f k v = Inr n" and "is_object v" and "\<And>x y. f x = Inr y \<Longrightarrow> f y = Inr y"
  shows "is_object n \<and> settled f (oget n k) \<and> (\<forall>j. j \<noteq> k \<longrightarrow> oget n j = oget v j)"
proof (cases "is_array (oget v k)")
  case True
  with assms(1) obtain xs where xs: "map_result f (elems (oget v k)) = Inr xs" "n = oset v k (JArr xs)"
    by (auto simp: map_field_def split: sum.splits)
  from assms(2) obtain kvs where "v = JObj kvs" by (cases v) auto
  with xs(2) map_result_idem [of f, OF assms(3) xs(1)] show ?thesis by (simp add: settled_def)
next
  case False
  with assms(1,2) show ?thesis by (simp add: map_field_def settled_def)
qed

lemma trim_field_props:
  assumes "is_object v"
  shows "is_object (trim_field k v)" "oget (trim_field k v) k = trimmed (oget v k)"
    "j \<noteq> k \<Longrightarrow> oget (trim_field k v) j = oget v j"
proof -
  from assms obtain kvs where v: "v = JObj kvs" by (cases v) auto
  show "is_object (trim_field k v)" "j \<noteq> k \<Longrightarrow> oget (trim_field k v) j = oget v j"
    by (simp_all add: trim_field_def v)
  show "oget (trim_field k v) k = trimmed (oget v k)"
    by (cases "oget v k") (simp_all add: trim_field_def v trimmed_def)
qed

lemma trim_field_same: "is_object v \<Longrightarrow> trimmed (oget v k) = oget v k \<Longrightarrow> trim_field k v = v"
  using oset_oget [of v k] by (cases "oget v k") (simp_all add: trim_field_def)

lemma trim_fields_props:
  assumes "is_object v" and "distinct ks"
  shows "is_object (fold trim_field ks v) \<and>
         (\<forall>j. oget (fold trim_field ks v) j = (if j \<in> set ks then trimmed (oget v j) else oget v j))"
  using assms
proof (induction ks arbitrary: v)
  case (Cons k ks)
  note f = trim_field_props [OF Cons.prems(1), where k = k]
  have "\<forall>j. oget (trim_field k v) j = (if j = k then trimmed (oget v j) else oget v j)" using f(2,3) by simp
  with Cons.IH [of "trim_field k v"] Cons.prems f(1) show ?case by auto
qed simp

lemma trim_fields_same:
  "is_object v \<Longrightarrow> \<forall>k \<in> set ks. trimmed (oget v k) = oget v k \<Longrightarrow> fold trim_field ks v = v"
  by (induction ks) (simp_all add: trim_field_same)

text \<open>Normalising is idempotent: what was normalised once, such as a problem read back into the editor, is not
  changed by another round.\<close>

theorem normalize_idempotent:
  assumes "normalizeProblemPayload payload = Inr n"
  shows "normalizeProblemPayload n = Inr n"
proof -
  let ?ks = "[''title'', ''description'', ''functionName'', ''returnType'']"
  define n1 where "n1 = fold trim_field ?ks (JObj (spread payload))"
  have n1: "is_object n1" "\<forall>j \<in> set ?ks. trimmed (oget n1 j) = oget n1 j"
    using trim_fields_props [of "JObj (spread payload)" ?ks] by (auto simp: n1_def trimmed_idem)
  obtain n2 where n2: "map_field normal_param ''parameters'' n1 = Inr n2"
      "map_field normal_case ''testCases'' (oset n2 ''compareConfig'' (normal_compare (oget n2 ''compareConfig''))) = Inr n"
    using assms by (auto simp: normalizeProblemPayload_def Let_def n1_def split: sum.splits)
  have s2: "is_object n2" "settled normal_param (oget n2 ''parameters'')" "\<forall>j. j \<noteq> ''parameters'' \<longrightarrow> oget n2 j = oget n1 j"
    using map_field_settles [OF n2(1) n1(1)] normal_param_idem by blast+
  then obtain kvs where kvs: "n2 = JObj kvs" by (cases n2) auto
  have s4: "is_object n" "settled normal_case (oget n ''testCases'')"
      "\<forall>j. j \<noteq> ''testCases'' \<longrightarrow> oget n j = oget (oset n2 ''compareConfig'' (normal_compare (oget n2 ''compareConfig''))) j"
    using map_field_settles [OF n2(2) _ normal_case_idem] kvs by auto
  have cc: "oget n ''compareConfig'' = normal_compare (oget n2 ''compareConfig'')" using s4(3) kvs by simp
  then have cc': "oset n ''compareConfig'' (normal_compare (oget n ''compareConfig'')) = n"
    using oset_oget [OF s4(1), of "''compareConfig''"] by (simp add: normal_compare_idem) (simp add: normal_compare_def Let_def)
  have "\<forall>j \<in> set ?ks. oget n j = oget n1 j" using s4(3) s2 kvs by simp
  then have "fold trim_field ?ks n = n" using trim_fields_same [OF s4(1), of ?ks] n1(2) by simp
  moreover have "settled normal_param (oget n ''parameters'')" using s4(3) s2 kvs by simp
  then have "map_field normal_param ''parameters'' n = Inr n" by (rule map_field_settled [OF s4(1)])
  moreover have "map_field normal_case ''testCases'' n = Inr n" by (rule map_field_settled [OF s4(1,2)])
  moreover have "JObj (spread n) = n" using s4(1) by (cases n) simp_all
  ultimately show ?thesis by (simp add: normalizeProblemPayload_def Let_def cc')
qed

lemma normalize_idempotent_witness:
  "\<exists>n. normalizeProblemPayload problem_payload = Inr n \<and> normalizeProblemPayload n = Inr n \<and> n \<noteq> problem_payload"
proof -
  have "is_ok (normalizeProblemPayload problem_payload)"
    "projr (normalizeProblemPayload problem_payload) \<noteq> problem_payload" by code_simp+
  then obtain n where "normalizeProblemPayload problem_payload = Inr n" "n \<noteq> problem_payload"
    by (auto simp: is_ok_iff)
  with normalize_idempotent [OF this(1)] show ?thesis by blast
qed

end
