(* ===== verification/Problem_Form.thy ===== *)
theory Problem_Form
  imports Problem_Laws Json "HOL-Library.AList"
begin

section \<open>The problem form of the browser client\<close>

text \<open>
  \<^verbatim>\<open>frontend/src/utils/problemForm.js\<close>: the client's check of a problem form and the payload it posts. The form
  is an untyped value, as the component's state; \<open>wire\<close> is what the server reads of a payload after
  \<^verbatim>\<open>JSON.stringify\<close> and \<^verbatim>\<open>JSON.parse\<close>. The theorem relates the client's check to the server's.
\<close>

subsection \<open>Collecting errors\<close>

type_synonym field_errors = "(string \<times> string) list"

definition addError :: "string \<Rightarrow> string \<Rightarrow> field_errors \<Rightarrow> field_errors" where
  "addError key msg errs =
     (case map_of errs key of
        Some m \<Rightarrow> if m \<noteq> [] then errs else AList.update key msg errs
      | None \<Rightarrow> errs @ [(key, msg)])"

definition field_text :: "string \<Rightarrow> jsval \<Rightarrow> string" where
  "field_text k v = js_trim (to_str (or_val (oget v k) (JStr [])))"

definition row_key :: "string \<Rightarrow> nat \<Rightarrow> string \<Rightarrow> string" where
  "row_key what i k = what @ ''.'' @ show_nat i @ k"

subsection \<open>Parameters\<close>

definition param_row :: "jsval \<Rightarrow> (string \<times> string) result" where
  "param_row q =
     (let p = or_empty q in
      if p = JNull then Inl (null_deref ''name'') else Inr (field_text ''name'' p, field_text ''type'' p))"

definition check_param :: "nat \<Rightarrow> string \<times> string \<Rightarrow> field_errors \<Rightarrow> field_errors" where
  "check_param i p errs =
     (let errs1 = (if fst p = [] then addError (row_key ''parameters'' i ''.name'') ''Parameter name is required'' errs
                   else if \<not> is_identifier (fst p)
                   then addError (row_key ''parameters'' i ''.name'') ''Parameter name must be a valid identifier'' errs
                   else errs)
      in if snd p = [] then addError (row_key ''parameters'' i ''.type'') ''Parameter type is required'' errs1
         else if \<not> isValidType_text (snd p)
         then addError (row_key ''parameters'' i ''.type'') (''Invalid type: '' @ snd p) errs1
         else errs1)"

fun check_params :: "nat \<Rightarrow> (string \<times> string) list \<Rightarrow> field_errors \<Rightarrow> field_errors" where
  "check_params i [] errs = errs"
| "check_params i (p # ps) errs = check_params (Suc i) ps (check_param i p errs)"

definition normalizeParameters :: "jsval list \<Rightarrow> field_errors \<Rightarrow> ((string \<times> string) list \<times> field_errors) result" where
  "normalizeParameters rows errs =
     (case map_result param_row rows of
        Inl e \<Rightarrow> Inl e
      | Inr ps \<Rightarrow>
          (let nonEmpty = filter (\<lambda>p. fst p \<noteq> [] \<or> snd p \<noteq> []) ps in
           if nonEmpty = [] then Inr ([], addError ''parameters'' ''At least one parameter is required'' errs)
           else Inr (nonEmpty, check_params 0 nonEmpty errs)))"

subsection \<open>Test cases\<close>

definition normalizeExpectedValue :: "jsval \<Rightarrow> jsval" where
  "normalizeExpectedValue raw =
     (let v = to_str (coalesce raw (JStr [])) in case json_parse v of Some x \<Rightarrow> x | None \<Rightarrow> JStr v)"

text \<open>The state of the loop: the errors, whether a sample was seen, and the rows parsed so far.\<close>

definition test_row ::
    "nat \<Rightarrow> nat \<Rightarrow> jsval \<Rightarrow> field_errors \<times> bool \<times> jsval list \<Rightarrow> (field_errors \<times> bool \<times> jsval list) result" where
  "test_row n i row st =
     (let tc = or_empty row; (errs, sample, parsed) = st in
      if tc = JNull then Inl (null_deref ''inputs'')
      else (case json_parse (js_trim (to_str (coalesce (oget tc ''inputs'') (JStr [])))) of
              None \<Rightarrow> Inr (addError (row_key ''testCases'' i ''.inputs'') ''Inputs must be a valid JSON array'' errs, sample, parsed)
            | Some inputs \<Rightarrow>
                if \<not> is_array inputs
                then Inr (addError (row_key ''testCases'' i ''.inputs'') ''Inputs must be a JSON array'' errs, sample, parsed)
                else Inr (if length (elems inputs) \<noteq> n
                          then addError (row_key ''testCases'' i [])
                                 (''Expected '' @ show_nat n @ '' input(s) but got '' @ show_nat (length (elems inputs))) errs
                          else errs,
                          sample \<or> truthy (oget tc ''isSample''),
                          parsed @ [JObj [(''inputs'', inputs),
                                          (''expected'', normalizeExpectedValue (oget tc ''expected'')),
                                          (''isSample'', JBool (truthy (oget tc ''isSample'')))]])))"

fun test_rows ::
    "nat \<Rightarrow> nat \<Rightarrow> jsval list \<Rightarrow> field_errors \<times> bool \<times> jsval list \<Rightarrow> (field_errors \<times> bool \<times> jsval list) result" where
  "test_rows n i [] st = Inr st"
| "test_rows n i (r # rs) st = (case test_row n i r st of Inl e \<Rightarrow> Inl e | Inr st' \<Rightarrow> test_rows n (Suc i) rs st')"

definition normalizeTestCases :: "jsval list \<Rightarrow> nat \<Rightarrow> field_errors \<Rightarrow> (jsval list \<times> field_errors) result" where
  "normalizeTestCases rows n errs =
     (if rows = [] then Inr ([], addError ''testCases'' ''At least one test case is required'' errs)
      else (case test_rows n 0 rows (errs, False, []) of
              Inl e \<Rightarrow> Inl e
            | Inr (errs', sample, parsed) \<Rightarrow>
                Inr (parsed, if sample then errs'
                             else addError ''testCases'' ''At least one sample test case is required'' errs')))"

subsection \<open>The payload\<close>

definition required_error :: "string \<Rightarrow> string \<Rightarrow> string \<Rightarrow> field_errors \<Rightarrow> field_errors" where
  "required_error key msg v errs = (if v = [] then addError key msg errs else errs)"

definition header_errors :: "jsval \<Rightarrow> field_errors" where
  "header_errors form =
     (let fname = field_text ''functionName'' form; rtype = field_text ''returnType'' form;
          e1 = required_error ''title'' ''Title is required'' (field_text ''title'' form) [];
          e2 = required_error ''description'' ''Description is required'' (field_text ''description'' form) e1;
          e3 = (if fname = [] then addError ''functionName'' ''Function name is required'' e2
                else if \<not> is_identifier fname
                then addError ''functionName'' ''Function name must be a valid identifier'' e2 else e2)
      in if rtype = [] then addError ''returnType'' ''Return type is required'' e3
         else if \<not> isValidType_text rtype then addError ''returnType'' (''Invalid return type: '' @ rtype) e3 else e3)"

definition solution_errors :: "jsval \<Rightarrow> field_errors \<Rightarrow> field_errors result" where
  "solution_errors form errs =
     (let ref = oget form ''referenceSolution''; lang = oget form ''solutionLanguage'';
          with_lang = (\<lambda>es. if \<not> truthy lang
            then addError ''solutionLanguage'' ''Solution language is required for certification'' es else es) in
      if truthy ref \<and> \<not> is_str ref then Inl (TypeError ''formData.referenceSolution.trim is not a function'')
      else Inr (with_lang (if \<not> truthy ref \<or> js_trim (str_of ref) = []
                           then addError ''referenceSolution'' ''Reference solution is required for certification'' errs
                           else errs)))"

definition rows_of :: "string \<Rightarrow> jsval \<Rightarrow> jsval list result" where
  "rows_of k form =
     (let v = or_val (oget form k) (JArr []) in
      if is_array v then Inr (elems v) else Inl (TypeError (k @ '' is not iterable'')))"

definition or_zero :: "jsval \<Rightarrow> jsnum" where
  "or_zero v = (if num_truthy (to_num v) then to_num v else Fin 0)"

definition form_compare :: "jsval \<Rightarrow> jsval" where
  "form_compare cc =
     JObj [(''mode'', or_val (oget cc ''mode'') (JStr ''EXACT'')),
           (''floatTolerance'', JNum (or_zero (oget cc ''floatTolerance''))),
           (''orderInsensitive'', JBool (truthy (oget cc ''orderInsensitive'')))]"

definition form_tags :: "jsval \<Rightarrow> jsval" where
  "form_tags form = JArr (map JStr (tag_list (to_str (or_val (oget form ''tags'') (JStr [])))))"

definition form_payload :: "jsval \<Rightarrow> (string \<times> string) list \<Rightarrow> jsval list \<Rightarrow> jsval" where
  "form_payload form params tests =
     JObj [(''title'', JStr (field_text ''title'' form)), (''description'', JStr (field_text ''description'' form)),
           (''difficulty'', oget form ''difficulty''), (''functionName'', JStr (field_text ''functionName'' form)),
           (''parameters'', JArr (map (\<lambda>p. JObj [(''name'', JStr (fst p)), (''type'', JStr (snd p))]) params)),
           (''returnType'', JStr (field_text ''returnType'' form)),
           (''compareConfig'', form_compare (oget form ''compareConfig'')), (''testCases'', JArr tests),
           (''referenceSolution'', oget form ''referenceSolution''), (''solutionLanguage'', oget form ''solutionLanguage''),
           (''tags'', form_tags form), (''isPremium'', JBool (truthy (oget form ''isPremium'')))]"

text \<open>\<^verbatim>\<open>{ errors }\<close> or \<^verbatim>\<open>{ errors: {}, payload }\<close>.\<close>

definition buildProblemPayload :: "jsval \<Rightarrow> (field_errors + jsval) result" where
  "buildProblemPayload form =
     (case solution_errors form (header_errors form) of
        Inl e \<Rightarrow> Inl e
      | Inr errs \<Rightarrow>
     (case rows_of ''parameters'' form of
        Inl e \<Rightarrow> Inl e
      | Inr prows \<Rightarrow>
     (case normalizeParameters prows errs of
        Inl e \<Rightarrow> Inl e
      | Inr (params, errs1) \<Rightarrow>
     (case rows_of ''testCases'' form of
        Inl e \<Rightarrow> Inl e
      | Inr trows \<Rightarrow>
     (case normalizeTestCases trows (length params) errs1 of
        Inl e \<Rightarrow> Inl e
      | Inr (tests, errs2) \<Rightarrow>
          if errs2 \<noteq> [] then Inr (Inl errs2) else Inr (Inr (form_payload form params tests)))))))"

definition collectErrorMessages :: "field_errors \<Rightarrow> string list" where
  "collectErrorMessages errs = map snd errs"

subsection \<open>On the wire\<close>

text \<open>\<^verbatim>\<open>JSON.stringify\<close> drops a property that is \<^verbatim>\<open>undefined\<close> and writes \<^verbatim>\<open>null\<close> for a number that is not finite.\<close>

fun wire :: "jsval \<Rightarrow> jsval" and
    wire_elems :: "jsval list \<Rightarrow> jsval list" and
    wire_fields :: "(string \<times> jsval) list \<Rightarrow> (string \<times> jsval) list" where
  "wire JUndef = JNull"
| "wire JNull = JNull"
| "wire (JBool b) = JBool b"
| "wire (JNum n) = (if is_finite n then JNum n else JNull)"
| "wire (JStr s) = JStr s"
| "wire (JArr vs) = JArr (wire_elems vs)"
| "wire (JObj kvs) = JObj (wire_fields kvs)"
| "wire_elems [] = []"
| "wire_elems (v # vs) = wire v # wire_elems vs"
| "wire_fields [] = []"
| "wire_fields ((k, v) # kvs) = (if v = JUndef then wire_fields kvs else (k, wire v) # wire_fields kvs)"

lemma wire_elems_map: "wire_elems vs = map wire vs"
  by (induction vs) simp_all

lemma map_of_wire:
  "distinct (map fst kvs) \<Longrightarrow> map_of (wire_fields kvs) k =
     (case map_of kvs k of None \<Rightarrow> None | Some v \<Rightarrow> if v = JUndef then None else Some (wire v))"
proof (induction kvs)
  case (Cons kv kvs)
  obtain k' v where kv: "kv = (k', v)" by (cases kv)
  from Cons.prems kv have "map_of kvs k' = None" by (auto simp: map_of_eq_None_iff)
  with Cons kv show ?case by (auto split: option.splits)
qed simp

lemma oget_wire:
  "distinct (map fst kvs) \<Longrightarrow>
     oget (wire (JObj kvs)) k = (if oget (JObj kvs) k = JUndef then JUndef else wire (oget (JObj kvs) k))"
  by (simp add: map_of_wire split: option.splits)

subsection \<open>What the form guarantees\<close>

lemma addError_nonempty [simp]: "addError k m errs \<noteq> []"
  by (cases errs) (auto simp: addError_def split: option.splits)

lemma no_empty_name [simp]: "\<not> is_identifier []" "\<not> isValidType_text []"
  by (simp_all add: isValidType_text.simps)

lemma check_params_nil:
  "check_params i ps errs = [] \<longleftrightarrow> errs = [] \<and> (\<forall>p \<in> set ps. is_identifier (fst p) \<and> isValidType_text (snd p))"
proof (induction i ps errs rule: check_params.induct)
  case (2 i p ps errs)
  have "check_param i p errs = [] \<longleftrightarrow> errs = [] \<and> is_identifier (fst p) \<and> isValidType_text (snd p)"
    by (cases "fst p = []"; cases "snd p = []") (auto simp: check_param_def Let_def)
  with 2 show ?case by auto
qed simp

definition form_row :: "nat \<Rightarrow> jsval \<Rightarrow> bool" where
  "form_row n t \<longleftrightarrow>
     (\<exists>ins ex b. t = JObj [(''inputs'', JArr ins), (''expected'', ex), (''isSample'', JBool b)] \<and> length ins = n)"

lemma test_row_nil:
  assumes "test_row n i row (errs, smp, parsed) = Inr ([], smp', parsed')"
  shows "errs = [] \<and> (\<exists>t. form_row n t \<and> parsed' = parsed @ [t] \<and> smp' = (smp \<or> oget t ''isSample'' = JBool True))"
proof -
  obtain inputs where inp: "json_parse (js_trim (to_str (coalesce (oget (or_empty row) ''inputs'') (JStr [])))) = Some inputs"
    using assms by (auto simp: test_row_def Let_def split: if_splits option.splits)
  with assms have "is_array inputs" by (auto simp: test_row_def Let_def split: if_splits)
  then obtain ins where "inputs = JArr ins" by (cases inputs) auto
  with assms inp show ?thesis by (auto simp: test_row_def Let_def form_row_def split: if_splits)
qed

lemma test_row_grows: "test_row n i row (errs, smp, parsed) = Inr ([], smp', parsed') \<Longrightarrow> errs = []"
  using test_row_nil by blast

lemma test_rows_nil:
  assumes "test_rows n i rows (errs, smp, parsed) = Inr ([], smp', parsed')"
  shows "errs = [] \<and> (\<exists>new. parsed' = parsed @ new \<and> length new = length rows \<and> list_all (form_row n) new \<and>
           smp' = (smp \<or> list_ex (\<lambda>t. oget t ''isSample'' = JBool True) new))"
  using assms
proof (induction rows arbitrary: i errs smp parsed)
  case (Cons r rs)
  from Cons.prems obtain e1 s1 p1 where r: "test_row n i r (errs, smp, parsed) = Inr (e1, s1, p1)"
      and rest: "test_rows n (Suc i) rs (e1, s1, p1) = Inr ([], smp', parsed')"
    by (auto split: sum.splits)
  from Cons.IH [OF rest] obtain new where new: "e1 = []" "parsed' = p1 @ new" "length new = length rs"
      "list_all (form_row n) new" "smp' = (s1 \<or> list_ex (\<lambda>t. oget t ''isSample'' = JBool True) new)" by blast
  with r test_row_nil [of n i r errs smp parsed s1 p1] obtain t where
      "errs = []" "form_row n t" "p1 = parsed @ [t]" "s1 = (smp \<or> oget t ''isSample'' = JBool True)" by blast
  with new show ?case by (intro conjI exI [of _ "t # new"]) auto
qed simp

text \<open>The facts about the form that a payload witnesses.\<close>

definition sound_form :: "jsval \<Rightarrow> (string \<times> string) list \<Rightarrow> jsval list \<Rightarrow> bool" where
  "sound_form form params tests \<longleftrightarrow>
     field_text ''title'' form \<noteq> [] \<and> field_text ''description'' form \<noteq> [] \<and>
     is_identifier (field_text ''functionName'' form) \<and> isValidType_text (field_text ''returnType'' form) \<and>
     params \<noteq> [] \<and>
     (\<forall>p \<in> set params. is_identifier (fst p) \<and> isValidType_text (snd p) \<and> js_trim (fst p) = fst p \<and> js_trim (snd p) = snd p) \<and>
     tests \<noteq> [] \<and> list_all (form_row (length params)) tests \<and>
     list_ex (\<lambda>t. oget t ''isSample'' = JBool True) tests"

lemma header_nil:
  "header_errors form = [] \<longleftrightarrow> field_text ''title'' form \<noteq> [] \<and> field_text ''description'' form \<noteq> [] \<and>
     is_identifier (field_text ''functionName'' form) \<and> isValidType_text (field_text ''returnType'' form)"
  by (cases "field_text ''functionName'' form = []"; cases "field_text ''returnType'' form = []")
     (auto simp: header_errors_def required_error_def Let_def)

lemma solution_nil: "solution_errors form errs = Inr [] \<Longrightarrow> errs = []"
  by (auto simp: solution_errors_def Let_def split: if_splits)

lemma parameters_nil:
  assumes "normalizeParameters rows errs = Inr (params, [])"
  shows "errs = [] \<and> params \<noteq> [] \<and>
    (\<forall>p \<in> set params. is_identifier (fst p) \<and> isValidType_text (snd p) \<and> js_trim (fst p) = fst p \<and> js_trim (snd p) = snd p)"
proof -
  obtain ps where ps: "map_result param_row rows = Inr ps" "params = filter (\<lambda>p. fst p \<noteq> [] \<or> snd p \<noteq> []) ps"
      "params \<noteq> []" "check_params 0 params errs = []"
    using assms by (auto simp: normalizeParameters_def Let_def split: sum.splits if_splits)
  have "js_trim (fst p) = fst p \<and> js_trim (snd p) = snd p" if "p \<in> set params" for p
  proof -
    from that ps(2) have "p \<in> set ps" by simp
    with list_all2_right [OF map_result_Inr [OF ps(1)]] obtain x where "param_row x = Inr p" by blast
    then show ?thesis by (auto simp: param_row_def field_text_def Let_def split: if_splits)
  qed
  with ps(3,4) check_params_nil show ?thesis by blast
qed

lemma tests_nil:
  assumes "normalizeTestCases rows n errs = Inr (tests, [])"
  shows "errs = [] \<and> tests \<noteq> [] \<and> list_all (form_row n) tests \<and> list_ex (\<lambda>t. oget t ''isSample'' = JBool True) tests"
proof -
  from assms have rows: "rows \<noteq> []" by (auto simp: normalizeTestCases_def)
  with assms obtain smp where smp: "test_rows n 0 rows (errs, False, []) = Inr ([], smp, tests)" "smp"
    by (auto simp: normalizeTestCases_def split: sum.splits prod.splits if_splits)
  from test_rows_nil [OF smp(1)] smp(2) rows show ?thesis by auto
qed

lemma form_accepted:
  assumes "buildProblemPayload form = Inr (Inr p)"
  obtains params tests where "p = form_payload form params tests" "sound_form form params tests"
proof -
  obtain errs prows params errs1 trows tests where
      s: "solution_errors form (header_errors form) = Inr errs" "rows_of ''parameters'' form = Inr prows"
      "normalizeParameters prows errs = Inr (params, errs1)" "rows_of ''testCases'' form = Inr trows"
      "normalizeTestCases trows (length params) errs1 = Inr (tests, [])" "p = form_payload form params tests"
    using assms by (auto simp: buildProblemPayload_def split: sum.splits prod.splits if_splits)
  note t = tests_nil [OF s(5)]
  with s(3) have "normalizeParameters prows errs = Inr (params, [])" by simp
  note ps = parameters_nil [OF this]
  with s(1) solution_nil have "header_errors form = []" by blast
  with t ps header_nil show ?thesis by (intro that [OF s(6)]) (simp add: sound_form_def)
qed

subsection \<open>What the server makes of it\<close>

lemma trimmed_text: "js_trim (field_text k form) = field_text k form"
  by (simp add: field_text_def)

lemma payload_oget:
  "oget (wire (form_payload form params tests)) k =
     (if oget (form_payload form params tests) k = JUndef then JUndef
      else wire (oget (form_payload form params tests) k))"
  unfolding form_payload_def by (rule oget_wire) simp

definition wire_param :: "string \<times> string \<Rightarrow> jsval" where
  "wire_param p = JObj [(''name'', JStr (fst p)), (''type'', JStr (snd p))]"

lemma payload_look:
  "oget (form_payload form params tests) k = v \<Longrightarrow> v \<noteq> JUndef \<Longrightarrow>
     oget (wire (form_payload form params tests)) k = wire v"
  by (simp add: payload_oget)

lemma payload_fields:
  fixes form params tests
  defines "w \<equiv> wire (form_payload form params tests)"
  shows "is_object w" "oget w ''title'' = JStr (field_text ''title'' form)"
    "oget w ''description'' = JStr (field_text ''description'' form)"
    "oget w ''functionName'' = JStr (field_text ''functionName'' form)"
    "oget w ''returnType'' = JStr (field_text ''returnType'' form)"
    "oget w ''parameters'' = JArr (map wire_param params)"
    "oget w ''testCases'' = JArr (map wire tests)"
    "oget w ''compareConfig'' = wire (form_compare (oget form ''compareConfig''))"
    "oget w ''difficulty'' = (if oget form ''difficulty'' = JUndef then JUndef else wire (oget form ''difficulty''))"
proof -
  show "is_object w" by (simp add: w_def form_payload_def)
  have "wire (JArr (map (\<lambda>p. JObj [(''name'', JStr (fst p)), (''type'', JStr (snd p))]) ps)) = JArr (map wire_param ps)" for ps
    by (simp add: wire_elems_map wire_param_def)
  then show "oget w ''parameters'' = JArr (map wire_param params)"
    by (simp add: w_def payload_oget) (simp add: form_payload_def)
  show "oget w ''testCases'' = JArr (map wire tests)"
    by (simp add: w_def payload_oget) (simp add: form_payload_def wire_elems_map)
  have "oget w k = wire v" if "oget (form_payload form params tests) k = v" "v \<noteq> JUndef" for k v
    unfolding w_def using payload_look [OF that] .
  note field = this [unfolded form_payload_def, simplified]
  show "oget w ''title'' = JStr (field_text ''title'' form)"
    "oget w ''description'' = JStr (field_text ''description'' form)"
    "oget w ''functionName'' = JStr (field_text ''functionName'' form)"
    "oget w ''returnType'' = JStr (field_text ''returnType'' form)"
    "oget w ''compareConfig'' = wire (form_compare (oget form ''compareConfig''))"
    by (subst field, simp, simp add: form_compare_def, simp)+
  show "oget w ''difficulty'' = (if oget form ''difficulty'' = JUndef then JUndef else wire (oget form ''difficulty''))"
    unfolding w_def payload_oget by (simp add: form_payload_def)
qed

lemma normal_param_wire:
  "js_trim (fst p) = fst p \<Longrightarrow> js_trim (snd p) = snd p \<Longrightarrow> normal_param (wire_param p) = Inr (wire_param p)"
  by (simp add: normal_param_def wire_param_def or_empty_def Let_def trimmed_def)

lemma settled_params:
  assumes "\<forall>p \<in> set params. js_trim (fst p) = fst p \<and> js_trim (snd p) = snd p"
  shows "map_result normal_param (map wire_param params) = Inr (map wire_param params)"
  using assms by (induction params) (simp_all add: normal_param_wire)

text \<open>A test row as the server's normaliser leaves it.\<close>

definition server_row :: "jsval \<Rightarrow> jsval" where
  "server_row t =
     JObj [(''inputs'', oget t ''inputs''), (''expected'', oget t ''expected''),
           (''isSample'', oget t ''isSample''), (''isHidden'', JBool (oget t ''isSample'' \<noteq> JBool True))]"

lemma form_row_wire:
  assumes "form_row n t"
  shows "is_object (wire t)" "\<exists>ins. oget (wire t) ''inputs'' = JArr ins \<and> length ins = n"
    "oget (wire t) ''isSample'' = oget t ''isSample''" "normal_case (wire t) = Inr (server_row (wire t))"
proof -
  obtain ins ex b where t: "t = JObj [(''inputs'', JArr ins), (''expected'', ex), (''isSample'', JBool b)]" "length ins = n"
    using assms by (auto simp: form_row_def)
  show "is_object (wire t)" "oget (wire t) ''isSample'' = oget t ''isSample''" by (simp_all add: t(1))
  show "\<exists>ins. oget (wire t) ''inputs'' = JArr ins \<and> length ins = n"
    using t by (simp add: wire_elems_map)
  show "normal_case (wire t) = Inr (server_row (wire t))"
    by (auto simp: t(1) normal_case_def server_row_def or_empty_def Let_def)
qed

lemma normal_cases_wire:
  "list_all (form_row n) tests \<Longrightarrow>
     map_result normal_case (map wire tests) = Inr (map (\<lambda>t. server_row (wire t)) tests)"
proof (induction tests)
  case (Cons t ts)
  then have "form_row n t" by simp
  from form_row_wire(4) [OF this] Cons show ?case by simp
qed simp

definition server_payload :: "jsval \<Rightarrow> jsval list \<Rightarrow> jsval" where
  "server_payload w tests =
     oset (oset w ''compareConfig'' (normal_compare (oget w ''compareConfig''))) ''testCases''
       (JArr (map (\<lambda>t. server_row (wire t)) tests))"

lemma normalize_form:
  assumes "sound_form form params tests"
  shows "normalizeProblemPayload (wire (form_payload form params tests))
     = Inr (server_payload (wire (form_payload form params tests)) tests)"
proof -
  define w where "w = wire (form_payload form params tests)"
  note f = payload_fields [of form params tests, folded w_def]
  obtain kvs where kvs: "w = JObj kvs" using f(1) by (cases w) auto
  have trim: "fold trim_field [''title'', ''description'', ''functionName'', ''returnType''] w = w"
    by (rule trim_fields_same [OF f(1)]) (simp add: f trimmed_def trimmed_text)
  have "settled normal_param (oget w ''parameters'')"
    using settled_params [of params] assms by (simp add: settled_def f(6) sound_form_def)
  then have params: "map_field normal_param ''parameters'' w = Inr w" by (rule map_field_settled [OF f(1)])
  have "list_all (form_row (length params)) tests" using assms by (simp add: sound_form_def)
  note cases = normal_cases_wire [OF this]
  let ?c = "oset w ''compareConfig'' (normal_compare (oget w ''compareConfig''))"
  have "oget ?c ''testCases'' = JArr (map wire tests)" using f(7) kvs by simp
  then have "map_field normal_case ''testCases'' ?c = Inr (server_payload w tests)"
    by (simp add: map_field_def cases server_payload_def)
  moreover have "JObj (spread w) = w" by (simp add: kvs)
  ultimately have "normalizeProblemPayload w = Inr (server_payload w tests)"
    by (simp only: normalizeProblemPayload_def Let_def trim params sum.case)
  then show ?thesis by (simp add: w_def)
qed

lemma server_fields:
  assumes "is_object w"
  shows "oget (server_payload w tests) ''testCases'' = JArr (map (\<lambda>t. server_row (wire t)) tests)"
    "oget (server_payload w tests) ''compareConfig'' = normal_compare (oget w ''compareConfig'')"
    "k \<noteq> ''testCases'' \<Longrightarrow> k \<noteq> ''compareConfig'' \<Longrightarrow> oget (server_payload w tests) k = oget w k"
  using assms by (cases w; simp add: server_payload_def)+

lemma for_each_uniform:
  assumes "\<And>i x. x \<in> set xs \<Longrightarrow> f i x = [] \<longleftrightarrow> P x"
  shows "for_each f i xs = [] \<longleftrightarrow> (\<forall>x \<in> set xs. P x)"
  using assms
proof (induction xs arbitrary: i)
  case (Cons x xs)
  have "for_each f (Suc i) xs = [] \<longleftrightarrow> (\<forall>x \<in> set xs. P x)" by (rule Cons.IH) (simp add: Cons.prems)
  moreover have "f i x = [] \<longleftrightarrow> P x" by (simp add: Cons.prems)
  ultimately show ?case by simp
qed simp

lemma for_each_silent: "(\<And>i x. x \<in> set xs \<Longrightarrow> f i x = []) \<Longrightarrow> for_each f i xs = []"
  using for_each_uniform [of xs f "\<lambda>x. True"] by blast

lemma is_identifier_trim: "is_identifier s \<Longrightarrow> js_trim s = s \<Longrightarrow> \<not> blank (JStr s)"
  by (auto simp: blank_def)

definition negative_tolerance :: "jsval \<Rightarrow> bool" where
  "negative_tolerance form \<longleftrightarrow>
     (case or_zero (oget (oget form ''compareConfig'') ''floatTolerance'') of Fin q \<Rightarrow> q < 0 | _ \<Rightarrow> False)"

lemma compare_ok:
  assumes "oget (oget form ''compareConfig'') ''mode'' \<in> {JUndef, JStr ''EXACT'', JStr ''STRUCTURAL''}"
    and "oget n ''compareConfig'' = normal_compare (wire (form_compare (oget form ''compareConfig'')))"
  shows "compare_errors n = [] \<longleftrightarrow> \<not> negative_tolerance form"
proof -
  let ?t = "or_zero (oget (oget form ''compareConfig'') ''floatTolerance'')"
  let ?m = "or_val (oget (oget form ''compareConfig'') ''mode'') (JStr ''EXACT'')"
  have m: "?m = JStr ''EXACT'' \<or> ?m = JStr ''STRUCTURAL''" using assms(1) by (auto simp: or_val_def)
  have t: "?t \<noteq> NaN" by (simp add: or_zero_def) (metis num_truthy.simps(2))
  define tol where "tol = (if is_finite ?t then ?t else Fin 0)"
  have w: "oget n ''compareConfig'' = JObj [(''mode'', ?m), (''floatTolerance'', JNum tol),
      (''orderInsensitive'', JBool (truthy (oget (oget form ''compareConfig'') ''orderInsensitive'')))]"
    using m t by (cases ?t; elim disjE) (simp_all add: assms(2) normal_compare_def form_compare_def tol_def or_val_def [of "JStr _"])
  have "compare_errors n = [] \<longleftrightarrow> \<not> bad_tolerance (JNum tol)"
    unfolding compare_errors_def w using m by (elim disjE) (simp_all add: Let_def)
  then show ?thesis using t by (cases ?t) (simp_all add: bad_tolerance_def negative_tolerance_def tol_def not_less)
qed

lemma server_verdict:
  assumes "sound_form form params tests"
    and "oget (oget form ''compareConfig'') ''mode'' \<in> {JUndef, JStr ''EXACT'', JStr ''STRUCTURAL''}"
  defines "n \<equiv> server_payload (wire (form_payload form params tests)) tests"
  shows "validateProblemPayload n = [] \<longleftrightarrow>
     difficulty_errors n = [] \<and> (\<forall>t \<in> set tests. \<not> nullish (oget (wire t) ''expected'')) \<and> \<not> negative_tolerance form"
proof -
  define w where "w = wire (form_payload form params tests)"
  note f = payload_fields [of form params tests, folded w_def]
  note sf = server_fields [OF f(1), where tests = tests, folded n_def [folded w_def]]
  note form = assms(1) [unfolded sound_form_def]
  have rows: "form_row (length params) t" if "t \<in> set tests" for t using form that by (simp add: list_all_iff)
  have "\<not> blank (JStr (field_text k form))" if "field_text k form \<noteq> []" for k
    using that by (simp add: blank_def trimmed_text)
  then have texts: "required_text_field ''title'' n = []" "required_text_field ''description'' n = []"
    using form by (simp_all add: required_text_field_def sf f)
  have "field_text ''functionName'' form \<noteq> []" "field_text ''returnType'' form \<noteq> []" using form by auto
  then have names: "function_name_errors n = []" "required_string ''returnType'' n = []"
    using form by (simp_all add: function_name_errors_def required_string_def sf f trimmed_text)
  have "param_errors i (wire_param p) = []" if "p \<in> set params" for i p
  proof -
    from that form have p: "is_identifier (fst p)" "isValidType_text (snd p)" "js_trim (fst p) = fst p" "js_trim (snd p) = snd p"
      by auto
    then have "snd p \<noteq> []" "fst p \<noteq> []" by auto
    with p show ?thesis by (simp add: param_errors_def wire_param_def blank_def)
  qed
  then have "for_each param_errors 0 (map wire_param params) = []" by (intro for_each_silent) auto
  then have params: "params_errors n = []" using form by (simp add: params_errors_def sf f Let_def)
  have arity: "arity_errors n = []"
    unfolding arity_errors_def Let_def sf(1)
    using form_row_wire(2) [OF rows] by (auto simp: sf f server_row_def intro!: for_each_silent) (metis elems.simps(1))
  have sample: "sample_errors n = []"
    using form rows form_row_wire(3) by (fastforce simp: sample_errors_def sf Let_def list_ex_iff server_row_def)
  have "test_case_errors i (server_row (wire t)) = [] \<longleftrightarrow> \<not> nullish (oget (wire t) ''expected'')" if "t \<in> set tests" for i t
    using form_row_wire(2) [OF rows [OF that]] by (auto simp: test_case_errors_def server_row_def)
  then have "for_each test_case_errors 0 (map (\<lambda>t. server_row (wire t)) tests) = [] \<longleftrightarrow>
      (\<forall>t \<in> set tests. \<not> nullish (oget (wire t) ''expected''))"
    by (subst for_each_uniform [where P = "\<lambda>x. \<not> nullish (oget x ''expected'')"]) (auto simp: server_row_def)
  then have tests: "tests_errors n = [] \<longleftrightarrow> (\<forall>t \<in> set tests. \<not> nullish (oget (wire t) ''expected''))"
    using form by (simp add: tests_errors_def sf Let_def)
  have "compare_errors n = [] \<longleftrightarrow> \<not> negative_tolerance form"
    by (rule compare_ok [OF assms(2)]) (simp add: sf f)
  with texts names params arity sample tests show ?thesis by (auto simp: validateProblemPayload_def)
qed

text \<open>C25: whatever the state of the problem form, a payload the form lets through survives the server's normalising,
  and the server's validation of it fails exactly for what the form does not check: a difficulty that is none
  of the three, an expected value that is \<^verbatim>\<open>null\<close>, or a negative tolerance; the parameter and return types it names are
  types of the platform.\<close>

theorem form_meets_server:
  assumes "buildProblemPayload form = Inr (Inr p)"
    and "oget (oget form ''compareConfig'') ''mode'' \<in> {JUndef, JStr ''EXACT'', JStr ''STRUCTURAL''}"
  shows "\<exists>n. normalizeProblemPayload (wire p) = Inr n \<and>
    (validateProblemPayload n = [] \<longleftrightarrow>
       difficulty_errors (wire p) = [] \<and>
       (\<forall>t \<in> set (elems (oget (wire p) ''testCases'')). \<not> nullish (oget t ''expected'')) \<and> \<not> negative_tolerance form) \<and>
    isValidType (oget n ''returnType'') \<and> (\<forall>q \<in> set (elems (oget n ''parameters'')). isValidType (oget q ''type''))"
proof -
  obtain params tests where p: "p = form_payload form params tests" and form: "sound_form form params tests"
    using form_accepted [OF assms(1)] .
  note f = payload_fields [of form params tests, folded p]
  note sf = server_fields [OF f(1), where tests = tests]
  have "difficulty_errors (server_payload (wire p) tests) = difficulty_errors (wire p)"
    by (simp add: difficulty_errors_def sf)
  with server_verdict [OF form assms(2)] normalize_form [OF form] form show ?thesis
    by (auto simp: p [symmetric] f sf sound_form_def isValidType_def wire_param_def)
qed

definition sample_form :: jsval where
  "sample_form =
     JObj [(''title'', JStr '' Sum ''), (''description'', JStr ''Add''), (''difficulty'', JStr ''Easy''),
           (''functionName'', JStr ''sum''), (''returnType'', JStr ''number''),
           (''parameters'', JArr [JObj [(''name'', JStr ''a''), (''type'', JStr ''array<number>'')], JObj []]),
           (''testCases'', JArr [JObj [(''inputs'', JStr ''[[1,2]]''), (''expected'', JStr ''3''), (''isSample'', JBool True)],
                                 JObj [(''inputs'', JStr ''[[]]''), (''expected'', JStr ''null'')]]),
           (''referenceSolution'', JStr ''f''), (''solutionLanguage'', JStr ''python'')]"

text \<open>The second test case of this form expects \<^verbatim>\<open>null\<close>: the form accepts it and the server does not.\<close>

lemma form_meets_server_witness:
  "\<exists>p n. buildProblemPayload sample_form = Inr (Inr p) \<and> normalizeProblemPayload (wire p) = Inr n \<and> validateProblemPayload n \<noteq> []"
proof -
  have "case buildProblemPayload sample_form of
      Inr (Inr p) \<Rightarrow> list_ex (\<lambda>t. nullish (oget t ''expected'')) (elems (oget (wire p) ''testCases'')) | _ \<Rightarrow> False"
    by code_simp
  then obtain p where p: "buildProblemPayload sample_form = Inr (Inr p)"
      "list_ex (\<lambda>t. nullish (oget t ''expected'')) (elems (oget (wire p) ''testCases''))"
    by (auto split: sum.splits)
  have "oget (oget sample_form ''compareConfig'') ''mode'' \<in> {JUndef, JStr ''EXACT'', JStr ''STRUCTURAL''}"
    by (simp add: sample_form_def)
  from form_meets_server [OF p(1) this] p show ?thesis by (auto simp: list_ex_iff)
qed

end
