(* ===== verification/Js_Date.thy ===== *)
theory Js_Date
  imports Js Interfaces
begin

section \<open>Dates of the language\<close>

text \<open>
  What the client and the server use of \<^verbatim>\<open>Date\<close>: the calendar of ECMAScript (days from 1970-01-01, proleptic
  Gregorian), the first sixteen characters of \<^verbatim>\<open>toISOString\<close>, and reading a date-time of that form as local
  time. A time is a number of milliseconds. A zone is the value of \<^verbatim>\<open>getTimezoneOffset\<close>, a number of minutes
  that does not change over the year.
\<close>

subsection \<open>The calendar\<close>

definition day_from_year :: "int \<Rightarrow> int" where
  "day_from_year y = 365 * (y - 1970) + (y - 1969) div 4 - (y - 1901) div 100 + (y - 1601) div 400"

definition days_in_year :: "int \<Rightarrow> int" where
  "days_in_year y =
     (if y mod 4 \<noteq> 0 \<or> y mod 100 = 0 \<and> y mod 400 \<noteq> 0 then 365 else 366)"

lemma div_step: "0 < n \<Longrightarrow> (a + 1) div n = a div n + (if (a + 1) mod n = 0 then 1 else (0 :: int))"
proof -
  assume n: "0 < n"
  have a: "a = n * (a div n) + a mod n" by simp
  show ?thesis
  proof (cases "a mod n + 1 = n")
    case True
    have eq: "a + 1 = n * (a div n + 1)" using a True unfolding distrib_left mult_1_right by linarith
    with n show ?thesis by (simp only: eq) simp
  next
    case False
    with n have r: "0 \<le> a mod n + 1" "a mod n + 1 < n"
      using pos_mod_bound [OF n, of a] pos_mod_sign [OF n, of a] by auto
    have eq: "a + 1 = n * (a div n) + (a mod n + 1)" by simp
    have "(a + 1) div n = a div n" by (rule int_div_pos_eq [OF eq r])
    moreover have "(a + 1) mod n = a mod n + 1" by (rule int_mod_pos_eq [OF eq r])
    ultimately show ?thesis using r pos_mod_sign [OF n, of a] by simp
  qed
qed

lemma leap_count:
  "(q \<longrightarrow> p) \<Longrightarrow> (r \<longrightarrow> q) \<Longrightarrow>
     (if \<not> p \<or> q \<and> \<not> r then 365 else 366) = 365 + (if p then 1 else 0) - (if q then 1 else 0) + (if r then 1 else (0 :: int))"
  by (cases p; cases q; cases r) simp_all

lemma year_step: "day_from_year (y + 1) = day_from_year y + days_in_year y"
proof -
  define a b c :: int where "a = (if y mod 4 = 0 then 1 else 0)" and "b = (if y mod 100 = 0 then 1 else 0)"
    and "c = (if y mod 400 = 0 then 1 else 0)"
  have "y - 1969 + 1 = y + 4 * (- 492)" "y - 1901 + 1 = y + 100 * (- 19)" "y - 1601 + 1 = y + 400 * (- 4)" by simp_all
  then have "(y - 1969 + 1) mod 4 = 0 \<longleftrightarrow> y mod 4 = 0" "(y - 1901 + 1) mod 100 = 0 \<longleftrightarrow> y mod 100 = 0"
    "(y - 1601 + 1) mod 400 = 0 \<longleftrightarrow> y mod 400 = 0"
    by (simp_all only: mod_mult_self2)
  with div_step [of 4 "y - 1969"] div_step [of 100 "y - 1901"] div_step [of 400 "y - 1601"]
  have steps: "(y - 1969 + 1) div 4 = (y - 1969) div 4 + a" "(y - 1901 + 1) div 100 = (y - 1901) div 100 + b"
    "(y - 1601 + 1) div 400 = (y - 1601) div 400 + c"
    by (simp_all only: a_def b_def c_def)
  have shift: "y + 1 - 1969 = y - 1969 + 1" "y + 1 - 1901 = y - 1901 + 1" "y + 1 - 1601 = y - 1601 + 1" by simp_all
  define p q r where "p = (y - 1969) div 4" and "q = (y - 1901) div 100" and "r = (y - 1601) div 400"
  have "day_from_year (y + 1) = day_from_year y + (365 + a - b + c)"
    unfolding day_from_year_def shift steps p_def [symmetric] q_def [symmetric] r_def [symmetric] by simp
  moreover have "y mod 100 = 0 \<Longrightarrow> y mod 4 = 0" "y mod 400 = 0 \<Longrightarrow> y mod 100 = 0"
    using dvd_trans [of 4 100 y] dvd_trans [of 100 400 y] by (simp_all only: mod_eq_0_iff_dvd) simp_all
  then have "days_in_year y = 365 + a - b + c"
    unfolding days_in_year_def a_def b_def c_def by (intro leap_count) blast+
  ultimately show ?thesis by simp
qed

lemma days_in_year_pos: "365 \<le> days_in_year y" "days_in_year y \<le> 366"
  by (simp_all add: days_in_year_def)

lemma year_after: "day_from_year y < day_from_year (y + 1)"
  using year_step [of y] days_in_year_pos(1) [of y] by linarith

text \<open>\<^verbatim>\<open>YearFromTime\<close>: the last year that begins no later than the day, searched upwards from a year before it.\<close>

function year_from :: "int \<Rightarrow> int \<Rightarrow> int" where
  "year_from y d = (if day_from_year (y + 1) \<le> d then year_from (y + 1) d else y)"
  by auto
termination
proof (relation "measure (\<lambda>(y, d). nat (d - day_from_year y))")
  fix y d :: int
  assume "day_from_year (y + 1) \<le> d"
  with year_after [of y] show "((y + 1, d), y, d) \<in> measure (\<lambda>(y, d). nat (d - day_from_year y))" by simp
qed simp

declare year_from.simps [simp del]

lemma year_from_bounds:
  "day_from_year y \<le> d \<Longrightarrow> day_from_year (year_from y d) \<le> d \<and> d < day_from_year (year_from y d + 1) \<and> y \<le> year_from y d"
proof (induction y d rule: year_from.induct)
  case (1 y d)
  show ?case
  proof (cases "day_from_year (y + 1) \<le> d")
    case True
    with 1 have "day_from_year (year_from (y + 1) d) \<le> d \<and> d < day_from_year (year_from (y + 1) d + 1) \<and>
        y + 1 \<le> year_from (y + 1) d" by blast
    with True show ?thesis by (subst (1 2 3) year_from.simps) simp
  next
    case False
    with 1 show ?thesis by (subst (1 2 3) year_from.simps) simp
  qed
qed

definition year_of_day :: "int \<Rightarrow> int" where
  "year_of_day d = year_from (if 0 \<le> d then 1970 else 0) d"

lemma year_of_day:
  assumes "day_from_year 0 \<le> d"
  shows "day_from_year (year_of_day d) \<le> d \<and> d < day_from_year (year_of_day d + 1) \<and> 0 \<le> year_of_day d"
proof -
  have "day_from_year 1970 = 0" by (simp add: day_from_year_def)
  with assms year_from_bounds [of 1970 d] year_from_bounds [of 0 d] show ?thesis
    by (auto simp: year_of_day_def)
qed

text \<open>The day of the year on which each month begins.\<close>

definition month_start :: "int \<Rightarrow> nat \<Rightarrow> int" where
  "month_start len m = [0, 31, 59, 90, 120, 151, 181, 212, 243, 273, 304, 334] ! m + (if len = 366 \<and> 2 \<le> m then 1 else 0)"

fun month_search :: "int \<Rightarrow> int \<Rightarrow> nat \<Rightarrow> nat" where
  "month_search len d 0 = 0"
| "month_search len d (Suc m) = (if month_start len (Suc m) \<le> d then Suc m else month_search len d m)"

lemma month_search_bounds:
  "0 \<le> d \<Longrightarrow> month_start len (month_search len d m) \<le> d \<and> month_search len d m \<le> m \<and>
     (month_search len d m < m \<longrightarrow> d < month_start len (Suc (month_search len d m)))"
proof (induction m)
  case 0
  then show ?case by (simp add: month_start_def)
next
  case (Suc m)
  then show ?case by (auto simp: less_Suc_eq not_le)
qed

text \<open>\<^verbatim>\<open>MakeDay\<close> with the month counted from 0 and the day of the month from 1.\<close>

definition make_day :: "int \<Rightarrow> nat \<Rightarrow> int \<Rightarrow> int" where
  "make_day y m dt = day_from_year y + month_start (days_in_year y) m + dt - 1"

definition civil_of_day :: "int \<Rightarrow> int \<times> nat \<times> int" where
  "civil_of_day d =
     (let y = year_of_day d; r = d - day_from_year y; m = month_search (days_in_year y) r 11
      in (y, m, r - month_start (days_in_year y) m + 1))"

lemma month_lengths:
  assumes "len = 365 \<or> len = 366" "m < 11"
  shows "month_start len (Suc m) \<le> month_start len m + 31"
proof -
  have "m \<in> {0, 1, 2, 3, 4, 5, 6, 7, 8, 9, 10}" using assms(2) by (simp, arith)
  with assms(1) show ?thesis by (auto simp: month_start_def)
qed

lemma civil_of_day:
  assumes "day_from_year 0 \<le> d" "civil_of_day d = (y, m, dt)"
  shows "make_day y m dt = d \<and> 0 \<le> y \<and> m < 12 \<and> 1 \<le> dt \<and> dt \<le> 31"
proof -
  define r where "r = d - day_from_year y"
  have y: "y = year_of_day d" and m: "m = month_search (days_in_year y) r 11"
    and dt: "dt = r - month_start (days_in_year y) m + 1"
    using assms(2) by (auto simp: civil_of_day_def Let_def r_def)
  from year_of_day [OF assms(1)] have "0 \<le> r" "r < days_in_year y" "0 \<le> y" by (auto simp: y r_def year_step)
  moreover have "days_in_year y = 365 \<or> days_in_year y = 366" by (simp add: days_in_year_def)
  moreover note month_search_bounds [OF \<open>0 \<le> r\<close>, of "days_in_year y" 11, folded m]
  moreover have "m = 11 \<Longrightarrow> r < month_start (days_in_year y) m + 31"
    using \<open>r < days_in_year y\<close> by (auto simp: month_start_def days_in_year_def split: if_splits)
  ultimately show ?thesis using month_lengths [of "days_in_year y" m]
    by (cases "m = 11") (auto simp: make_day_def dt r_def)
qed

lemma years_mono: "y \<le> z \<Longrightarrow> day_from_year y \<le> day_from_year z"
proof -
  assume "y \<le> z"
  then obtain n where "z = y + int n" using zle_iff_zadd by blast
  moreover have "day_from_year y \<le> day_from_year (y + int n)"
  proof (induction n)
    case (Suc n)
    have "y + int (Suc n) = y + int n + 1" by simp
    with Suc year_after [of "y + int n"] show ?case by (simp only:)
  qed simp
  ultimately show ?thesis by simp
qed

subsection \<open>Texts\<close>

fun pad :: "nat \<Rightarrow> nat \<Rightarrow> string" where
  "pad 0 n = []"
| "pad (Suc k) n = pad k (n div 10) @ [digit_char (n mod 10)]"

lemma length_pad [simp]: "length (pad k n) = k"
  by (induction k arbitrary: n) simp_all

lemma pad_digits: "list_all is_digit (pad k n)"
  by (induction k arbitrary: n) (simp_all add: digit_char_val)

lemma pad_value: "nat_of_digits (pad k n) = n mod 10 ^ k"
proof (induction k arbitrary: n)
  case (Suc k)
  have "nat_of_digits (pad (Suc k) n) = 10 * nat_of_digits (pad k (n div 10)) + n mod 10"
    by (simp add: nat_of_digits_def digit_char_val)
  also have "\<dots> = 10 * (n div 10 mod 10 ^ k) + n mod 10" by (simp only: Suc)
  also have "\<dots> = n mod 10 ^ Suc k" by (simp add: mod_mult2_eq)
  finally show ?case .
qed (simp add: nat_of_digits_def)

text \<open>\<^verbatim>\<open>new Date(t).toISOString().slice(0, 16)\<close>, for the years 0 to 9999.\<close>

definition iso_minute :: "time \<Rightarrow> string" where
  "iso_minute t =
     (let r = t mod 86400000 div 60000 in
      case civil_of_day (t div 86400000) of
        (y, m, dt) \<Rightarrow> pad 4 (nat y) @ ''-'' @ pad 2 (m + 1) @ ''-'' @ pad 2 (nat dt) @ ''T'' @
          pad 2 (nat (r div 60)) @ '':'' @ pad 2 (nat (r mod 60)))"

text \<open>A text of that form, read as if the zone were UTC.\<close>

definition number_at :: "nat \<Rightarrow> nat \<Rightarrow> string \<Rightarrow> nat" where
  "number_at i k s = nat_of_digits (take k (drop i s))"

definition digits_at :: "nat \<Rightarrow> nat \<Rightarrow> string \<Rightarrow> bool" where
  "digits_at i k s \<longleftrightarrow> list_all is_digit (take k (drop i s))"

definition iso_shape :: "string \<Rightarrow> bool" where
  "iso_shape s \<longleftrightarrow> length s = 16 \<and> digits_at 0 4 s \<and> s ! 4 = CHR ''-'' \<and> digits_at 5 2 s \<and> s ! 7 = CHR ''-'' \<and>
     digits_at 8 2 s \<and> s ! 10 = CHR ''T'' \<and> digits_at 11 2 s \<and> s ! 13 = CHR '':'' \<and> digits_at 14 2 s"

definition read_minute :: "string \<Rightarrow> time option" where
  "read_minute s =
     (let m = number_at 5 2 s; dt = number_at 8 2 s; h = number_at 11 2 s; mi = number_at 14 2 s in
      if iso_shape s \<and> 1 \<le> m \<and> m \<le> 12 \<and> 1 \<le> dt \<and> dt \<le> 31 \<and> mi < 60 \<and> (h < 24 \<or> h = 24 \<and> mi = 0)
      then Some ((make_day (int (number_at 0 4 s)) (m - 1) (int dt) * 1440 + int h * 60 + int mi) * 60000)
      else None)"

text \<open>
  \<^verbatim>\<open>Date.parse\<close>: a date-time without an offset is local time. The texts of other forms, which include
  those the standard leaves to the implementation, are read by \<open>other\<close>.
\<close>

definition date_parse :: "int \<Rightarrow> (string \<Rightarrow> time option) \<Rightarrow> string \<Rightarrow> time option" where
  "date_parse zone other s =
     (case read_minute s of Some t \<Rightarrow> Some (t + zone * 60000) | None \<Rightarrow> other s)"

subsection \<open>Reading back a text\<close>

definition calendar_time :: "time \<Rightarrow> bool" where
  "calendar_time t \<longleftrightarrow> day_from_year 0 \<le> t div 86400000 \<and> t div 86400000 < day_from_year 10000"

definition whole_minute :: "time \<Rightarrow> time" where
  "whole_minute t = t div 60000 * 60000"

lemma read_text:
  assumes "length a = 4" "length b = 2" "length c = 2" "length h = 2" "length mi = 2"
    and "s = a @ ''-'' @ b @ ''-'' @ c @ ''T'' @ h @ '':'' @ mi"
  shows "number_at 0 4 s = nat_of_digits a" "number_at 5 2 s = nat_of_digits b" "number_at 8 2 s = nat_of_digits c"
    "number_at 11 2 s = nat_of_digits h" "number_at 14 2 s = nat_of_digits mi"
    "iso_shape s \<longleftrightarrow> list_all is_digit (a @ b @ c @ h @ mi)"
  using assms by (auto simp: number_at_def iso_shape_def digits_at_def nth_append)

lemma day_minutes: "t div 86400000 * 1440 + t mod 86400000 div 60000 = t div (60000 :: int)"
proof -
  have "t mod 86400000 + 60000 * (t div 86400000 * 1440) = t" using div_mult_mod_eq [of t 86400000] by linarith
  then have "t div 60000 = (t mod 86400000 + 60000 * (t div 86400000 * 1440)) div 60000" by (simp only:)
  also have "\<dots> = t div 86400000 * 1440 + t mod 86400000 div 60000"
    by (subst div_mult_self2) simp_all
  finally show ?thesis by (rule sym)
qed

lemma read_iso_minute:
  assumes "calendar_time t"
  shows "read_minute (iso_minute t) = Some (whole_minute t)"
proof -
  define d r where "d = t div 86400000" and "r = t mod 86400000 div 60000"
  obtain y m dt where c: "civil_of_day d = (y, m, dt)" by (cases "civil_of_day d")
  have civil: "make_day y m dt = d" "0 \<le> y" "m < 12" "1 \<le> dt" "dt \<le> 31"
    using civil_of_day [OF _ c] assms by (auto simp: calendar_time_def d_def)
  have "y < 10000"
  proof (rule ccontr)
    assume "\<not> y < 10000"
    then have "day_from_year 10000 \<le> day_from_year y" by (intro years_mono) simp
    moreover have "day_from_year y \<le> d"
      using year_of_day [of d] assms c by (auto simp: calendar_time_def d_def civil_of_day_def Let_def)
    ultimately show False using assms by (simp add: calendar_time_def d_def)
  qed
  have r: "0 \<le> r" "r < 1440"
    using pos_mod_bound [of 86400000 t] by (simp_all add: r_def pos_imp_zdiv_nonneg_iff div_less_iff_less_mult)
  have rr: "0 \<le> r div 60" "r div 60 < 24" "0 \<le> r mod 60" "r mod 60 < 60" "r div 60 * 60 + r mod 60 = r"
    using r by (simp_all add: pos_imp_zdiv_nonneg_iff div_less_iff_less_mult)
  define a where "a = pad 4 (nat y)"
  define b where "b = pad 2 (m + 1)"
  define e where "e = pad 2 (nat dt)"
  define h where "h = pad 2 (nat (r div 60))"
  define i where "i = pad 2 (nat (r mod 60))"
  have s: "iso_minute t = a @ ''-'' @ b @ ''-'' @ e @ ''T'' @ h @ '':'' @ i"
    by (simp add: iso_minute_def c [unfolded d_def] r_def a_def b_def e_def h_def i_def Let_def)
  have vals: "nat_of_digits a = nat y" "nat_of_digits b = m + 1" "nat_of_digits e = nat dt"
      "nat_of_digits h = nat (r div 60)" "nat_of_digits i = nat (r mod 60)"
    using civil \<open>y < 10000\<close> rr by (simp_all add: a_def b_def e_def h_def i_def pad_value nat_less_iff)
  have digits: "list_all is_digit (a @ b @ e @ h @ i)" by (simp add: a_def b_def e_def h_def i_def pad_digits)
  have "length a = 4" "length b = 2" "length e = 2" "length h = 2" "length i = 2"
    by (simp_all only: a_def b_def e_def h_def i_def length_pad)
  note fields = read_text [OF this s]
  have "d * 1440 + r = t div 60000" unfolding d_def r_def by (rule day_minutes)
  then have val: "(make_day y m dt * 1440 + r div 60 * 60 + r mod 60) * 60000 = whole_minute t"
    unfolding whole_minute_def civil(1) add.assoc rr(5) by (simp only:)
  have shape: "iso_shape (iso_minute t)" using fields(6) digits by simp
  have "read_minute (iso_minute t) =
      Some ((make_day (int (nat y)) (m + 1 - 1) (int (nat dt)) * 1440 + int (nat (r div 60)) * 60 + int (nat (r mod 60))) * 60000)"
    unfolding read_minute_def Let_def fields(1-5) vals using shape civil rr by (simp add: nat_less_iff nat_le_iff)
  also have "\<dots> = Some (whole_minute t)" using val civil rr by simp
  finally show ?thesis .
qed

text \<open>On whole minutes inside the calendar the text of a date field is a format of its own.\<close>

interpretation minute_text: text_format "\<lambda>t. Some (iso_minute t)" read_minute "\<lambda>t. calendar_time t \<and> whole_minute t = t"
  by unfold_locales (simp add: read_iso_minute)

end
