(* ===== verification/Assessment_Form.thy ===== *)
theory Assessment_Form
  imports Problem_Form Accounts Js_Date
begin

section \<open>The assessment form of the browser client\<close>

text \<open>
  \<^verbatim>\<open>frontend/src/utils/assessmentForm.js\<close> and the pages \<^verbatim>\<open>AddAssessmentPage.jsx\<close> and \<^verbatim>\<open>EditAssessmentPage.jsx\<close>:
  the state of the form, its changes, the client's check, the payload, and how the edit page fills the form
  from a stored assessment. Ids are their texts. The laws compose the form with \<^verbatim>\<open>validateAssessmentPayload\<close> of
  the server and follow a time from the database through the form and back.
\<close>

subsection \<open>\<^verbatim>\<open>assessmentForm.js\<close>\<close>

text \<open>\<^verbatim>\<open>Array.prototype.join\<close> writes nothing for \<^verbatim>\<open>null\<close> and \<^verbatim>\<open>undefined\<close>.\<close>

definition join_values :: "string \<Rightarrow> jsval list \<Rightarrow> string" where
  "join_values sep vs = join_with sep (map (\<lambda>v. if nullish v then [] else to_str v) vs)"

definition getApiErrorMessage :: "jsval \<Rightarrow> jsval \<Rightarrow> jsval" where
  "getApiErrorMessage error fallback =
     (let data = oget (oget error ''response'') ''data'' in
      if is_array (oget data ''errors'') \<and> elems (oget data ''errors'') \<noteq> []
      then JStr (join_values ''. '' (elems (oget data ''errors'')))
      else or_val (oget data ''msg'') (or_val (oget data ''message'') fallback))"

definition schedule_errors :: "(string \<Rightarrow> time option) \<Rightarrow> jsval \<Rightarrow> string list" where
  "schedule_errors parse form =
     (let duration = to_num (oget form ''durationMinutes'');
          start = js_date parse (oget form ''startTime''); stop = js_date parse (oget form ''endTime'')
      in (if \<not> is_finite duration \<or> num_le duration (Fin 0) then [''Duration must be greater than zero''] else []) @
         (if \<not> truthy (oget form ''startTime'') \<or> start = None then [''Start time is required''] else []) @
         (if \<not> truthy (oget form ''endTime'') \<or> stop = None then [''End time is required''] else []) @
         (case (start, stop) of
            (Some s, Some e) \<Rightarrow> if e \<le> s then [''End time must be after start time''] else []
          | _ \<Rightarrow> []))"

text \<open>\<^verbatim>\<open>!formData.title?.trim()\<close>.\<close>

definition title_missing :: "jsval \<Rightarrow> bool result" where
  "title_missing v =
     (if nullish v then Inr True
      else (case need_str ''trim'' v of Inl e \<Rightarrow> Inl e | Inr s \<Rightarrow> Inr (js_trim s = [])))"

text \<open>\<^verbatim>\<open>problems.some\<close> stops at the first problem whose score is not positive.\<close>

fun some_unscored :: "jsval list \<Rightarrow> bool result" where
  "some_unscored [] = Inr False"
| "some_unscored (p # ps) =
     (if nullish p then Inl (null_deref ''maxScore'')
      else if num_le (to_num (oget p ''maxScore'')) (Fin 0) then Inr True else some_unscored ps)"

definition validateAssessmentForm :: "(string \<Rightarrow> time option) \<Rightarrow> jsval \<Rightarrow> string list result" where
  "validateAssessmentForm parse form =
     (if nullish form then Inl (null_deref ''durationMinutes'')
      else (case title_missing (oget form ''title'') of
              Inl e \<Rightarrow> Inl e
            | Inr untitled \<Rightarrow>
                (let errs = (if untitled then [''Title is required''] else []) @ schedule_errors parse form @
                       (if \<not> is_array (oget form ''allowedLanguages'') \<or> elems (oget form ''allowedLanguages'') = []
                        then [''Select at least one allowed language''] else [])
                 in if \<not> is_array (oget form ''problems'') \<or> elems (oget form ''problems'') = []
                    then Inr (errs @ [''Add at least one problem''])
                    else (case some_unscored (elems (oget form ''problems'')) of
                            Inl e \<Rightarrow> Inl e
                          | Inr b \<Rightarrow>
                              Inr (errs @ (if b then [''Every problem score must be greater than zero''] else []))))))"

subsection \<open>The form\<close>

record form_problem =
  fp_id :: string
  fp_title :: string
  fp_score :: jsnum

record assessment_form =
  af_title :: string
  af_description :: jsval
  af_duration :: jsval
  af_start :: string
  af_end :: string
  af_languages :: "string list"
  af_problems :: "form_problem list"
  af_status :: string

definition LANGS :: "string list" where
  "LANGS = [''python'', ''javascript'', ''typescript'', ''java'', ''cpp'', ''c'', ''csharp'', ''go'', ''ruby'', ''php'',
     ''kotlin'', ''rust'']"

definition new_form :: assessment_form where
  "new_form = \<lparr>af_title = [], af_description = JStr [], af_duration = jnat 60, af_start = [], af_end = [],
     af_languages = LANGS, af_problems = [], af_status = ''Draft''\<rparr>"

definition form_fields :: "jsval \<Rightarrow> assessment_form \<Rightarrow> jsval" where
  "form_fields problems f =
     JObj [(''title'', JStr (af_title f)), (''description'', af_description f), (''durationMinutes'', af_duration f),
           (''startTime'', JStr (af_start f)), (''endTime'', JStr (af_end f)),
           (''allowedLanguages'', JArr (map JStr (af_languages f))), (''problems'', problems), (''status'', JStr (af_status f))]"

definition form_value :: "assessment_form \<Rightarrow> jsval" where
  "form_value f = form_fields (JArr (map (\<lambda>p. JObj [(''problemId'', JStr (fp_id p)), (''title'', JStr (fp_title p)),
     (''maxScore'', JNum (fp_score p))]) (af_problems f))) f"

definition assessment_payload :: "assessment_form \<Rightarrow> jsval" where
  "assessment_payload f = form_fields (JArr (map (\<lambda>p. JObj [(''problemId'', JStr (fp_id p)),
     (''maxScore'', JNum (fp_score p))]) (af_problems f))) f"

definition handleChange :: "string \<Rightarrow> string \<Rightarrow> assessment_form \<Rightarrow> assessment_form" where
  "handleChange name value f =
     (if name = ''title'' then f\<lparr>af_title := value\<rparr>
      else if name = ''description'' then f\<lparr>af_description := JStr value\<rparr>
      else if name = ''durationMinutes'' then f\<lparr>af_duration := JStr value\<rparr>
      else if name = ''startTime'' then f\<lparr>af_start := value\<rparr>
      else if name = ''endTime'' then f\<lparr>af_end := value\<rparr>
      else if name = ''status'' then f\<lparr>af_status := value\<rparr> else f)"

definition handleLanguageToggle :: "string \<Rightarrow> assessment_form \<Rightarrow> assessment_form" where
  "handleLanguageToggle lang f =
     f\<lparr>af_languages := (if lang \<in> set (af_languages f) then filter (\<lambda>l. l \<noteq> lang) (af_languages f)
                        else af_languages f @ [lang])\<rparr>"

definition removeProblem :: "string \<Rightarrow> assessment_form \<Rightarrow> assessment_form" where
  "removeProblem i f = f\<lparr>af_problems := filter (\<lambda>p. fp_id p \<noteq> i) (af_problems f)\<rparr>"

definition score_or_zero :: "jsnum \<Rightarrow> jsnum" where
  "score_or_zero n = (if num_truthy n then n else Fin 0)"

definition updateProblemScore :: "string \<Rightarrow> jsval \<Rightarrow> assessment_form \<Rightarrow> assessment_form" where
  "updateProblemScore i score f =
     f\<lparr>af_problems := map (\<lambda>p. if fp_id p = i then p\<lparr>fp_score := score_or_zero (to_num score)\<rparr> else p) (af_problems f)\<rparr>"

definition totalScore :: "assessment_form \<Rightarrow> jsnum" where
  "totalScore f = fold (\<lambda>p acc. num_add acc (fp_score p)) (af_problems f) (Fin 0)"

subsection \<open>The pages\<close>

text \<open>
  \<open>ap_catalogue\<close> holds the ids and titles of the problems the page has loaded; \<open>ap_editing\<close> tells the edit page
  from the page that creates an assessment. They add a problem alike, but for the score: the edit page turns
  a text that is not a number into 0.
\<close>

record assessment_page =
  ap_form :: assessment_form
  ap_selected :: string
  ap_score :: jsval
  ap_catalogue :: "(string \<times> string) list"
  ap_error :: "string option"
  ap_editing :: bool

definition addProblemToAssessment :: "assessment_page \<Rightarrow> assessment_page" where
  "addProblemToAssessment pg =
     (let f = ap_form pg; i = ap_selected pg; n = to_num (ap_score pg) in
      if i = [] \<or> list_ex (\<lambda>p. fp_id p = i) (af_problems f) then pg
      else (case map_of (ap_catalogue pg) i of
              None \<Rightarrow> pg\<lparr>ap_error := Some ''Problem score must be greater than zero''\<rparr>
            | Some t \<Rightarrow>
                if num_le n (Fin 0) then pg\<lparr>ap_error := Some ''Problem score must be greater than zero''\<rparr>
                else pg\<lparr>ap_error := None, ap_selected := [],
                        ap_form := f\<lparr>af_problems := af_problems f @
                          [\<lparr>fp_id = i, fp_title = t, fp_score = (if ap_editing pg then score_or_zero n else n)\<rparr>]\<rparr>\<rparr>))"

datatype page_edit =
    Change string string
  | ToggleLanguage string
  | Select string
  | Score string
  | AddProblem
  | RemoveProblem string
  | Rescore string string

fun page_act :: "page_edit \<Rightarrow> assessment_page \<Rightarrow> assessment_page" where
  "page_act (Change k v) pg = pg\<lparr>ap_form := handleChange k v (ap_form pg)\<rparr>"
| "page_act (ToggleLanguage l) pg = pg\<lparr>ap_form := handleLanguageToggle l (ap_form pg)\<rparr>"
| "page_act (Select i) pg = pg\<lparr>ap_selected := i\<rparr>"
| "page_act (Score s) pg = pg\<lparr>ap_score := JStr s\<rparr>"
| "page_act AddProblem pg = addProblemToAssessment pg"
| "page_act (RemoveProblem i) pg = pg\<lparr>ap_form := removeProblem i (ap_form pg)\<rparr>"
| "page_act (Rescore i s) pg =
     (if ap_editing pg then pg\<lparr>ap_form := updateProblemScore i (JStr s) (ap_form pg)\<rparr> else pg)"

definition new_page :: "(string \<times> string) list \<Rightarrow> assessment_page" where
  "new_page catalogue = \<lparr>ap_form = new_form, ap_selected = [], ap_score = jnat 100, ap_catalogue = catalogue,
     ap_error = None, ap_editing = False\<rparr>"

text \<open>Submitting: the error to show, or the payload that is sent.\<close>

definition submit_form :: "(string \<Rightarrow> time option) \<Rightarrow> assessment_form \<Rightarrow> (string, jsval) sum result" where
  "submit_form parse f =
     (case validateAssessmentForm parse (form_value f) of
        Inl e \<Rightarrow> Inl e
      | Inr errs \<Rightarrow> Inr (if errs \<noteq> [] then Inl (join_with ''. '' errs) else Inr (assessment_payload f)))"

subsection \<open>Filling the edit page\<close>

text \<open>\<open>zone\<close> is \<^verbatim>\<open>getTimezoneOffset\<close> of the browser.\<close>

definition formatDate :: "int \<Rightarrow> time \<Rightarrow> string" where
  "formatDate zone t = iso_minute (t - zone * 60000)"

definition assessment_status_name :: "assessment_status \<Rightarrow> string" where
  "assessment_status_name s = (case s of Draft \<Rightarrow> ''Draft'' | Published \<Rightarrow> ''Published'' | Completed \<Rightarrow> ''Completed'')"

text \<open>A problem that no longer exists is populated as \<^verbatim>\<open>null\<close>, and the page fails to load.\<close>

definition load_problem :: "world \<Rightarrow> problem_entry \<Rightarrow> form_problem result" where
  "load_problem w e =
     (case problems_find w (pe_problem e) of
        None \<Rightarrow> Inl (null_deref ''_id'')
      | Some p \<Rightarrow>
          Inr \<lparr>fp_id = show_nat (pr_id p), fp_title = (if pr_title p = [] then ''Unknown'' else pr_title p),
               fp_score = Fin (pe_max_score e)\<rparr>)"

definition load_form :: "int \<Rightarrow> world \<Rightarrow> assessment \<Rightarrow> assessment_form result" where
  "load_form zone w a =
     (case map_result (load_problem w) (as_problems a) of
        Inl e \<Rightarrow> Inl e
      | Inr ps \<Rightarrow>
          Inr \<lparr>af_title = as_title a,
               af_description = (case as_description a of None \<Rightarrow> JUndef | Some s \<Rightarrow> JStr s),
               af_duration = JNum (Fin (as_duration a)), af_start = formatDate zone (as_start a),
               af_end = formatDate zone (as_end a), af_languages = as_languages a, af_problems = ps,
               af_status = assessment_status_name (as_status a)\<rparr>)"

definition edit_page :: "assessment_form \<Rightarrow> (string \<times> string) list \<Rightarrow> assessment_page" where
  "edit_page f catalogue = \<lparr>ap_form = f, ap_selected = [], ap_score = jnat 100, ap_catalogue = catalogue,
     ap_error = None, ap_editing = True\<rparr>"

section \<open>Laws of the assessment form\<close>

subsection \<open>No problem is listed twice\<close>

definition form_ids :: "assessment_form \<Rightarrow> string list" where
  "form_ids f = map fp_id (af_problems f)"

lemma change_ids [simp]: "form_ids (handleChange k v f) = form_ids f"
  by (simp add: handleChange_def form_ids_def)

lemma toggle_ids [simp]: "form_ids (handleLanguageToggle l f) = form_ids f"
  by (simp add: handleLanguageToggle_def form_ids_def)

lemma rescore_ids [simp]: "form_ids (updateProblemScore i v f) = form_ids f"
  by (simp add: updateProblemScore_def form_ids_def comp_def if_distrib cong: if_cong)

lemma remove_ids: "distinct (form_ids f) \<Longrightarrow> distinct (form_ids (removeProblem i f))"
  by (simp add: removeProblem_def form_ids_def distinct_map_filter)

lemma add_ids: "distinct (form_ids (ap_form pg)) \<Longrightarrow> distinct (form_ids (ap_form (addProblemToAssessment pg)))"
  by (auto simp: addProblemToAssessment_def form_ids_def Let_def list_ex_iff split: option.splits)

lemma page_ids: "distinct (form_ids (ap_form pg)) \<Longrightarrow> distinct (form_ids (ap_form (page_act e pg)))"
  by (cases e) (simp_all add: remove_ids add_ids)

subsection \<open>What the client lets through, the server accepts\<close>

lemma form_oget [simp]:
  "oget (form_fields ps f) ''title'' = JStr (af_title f)" "oget (form_fields ps f) ''durationMinutes'' = af_duration f"
  "oget (form_fields ps f) ''startTime'' = JStr (af_start f)" "oget (form_fields ps f) ''endTime'' = JStr (af_end f)"
  "oget (form_fields ps f) ''allowedLanguages'' = JArr (map JStr (af_languages f))"
  "oget (form_fields ps f) ''problems'' = ps" "\<not> nullish (form_fields ps f)"
  by (simp_all add: form_fields_def)

lemma payload_wire [simp]:
  "oget (wire (assessment_payload f)) ''title'' = JStr (af_title f)"
  "oget (wire (assessment_payload f)) ''startTime'' = JStr (af_start f)"
  "oget (wire (assessment_payload f)) ''endTime'' = JStr (af_end f)"
  "oget (wire (assessment_payload f)) ''durationMinutes'' =
     (if af_duration f = JUndef then JUndef else wire (af_duration f))"
  "oget (wire (assessment_payload f)) ''problems'' =
     JArr (map (\<lambda>p. JObj [(''problemId'', JStr (fp_id p)), (''maxScore'', wire (JNum (fp_score p)))]) (af_problems f))"
  "\<not> nullish (wire (assessment_payload f))"
  unfolding assessment_payload_def form_fields_def
  by (simp_all only: wire.simps, simp_all add: wire_elems_map)

lemma wire_number: "is_finite (to_num v) \<Longrightarrow> v \<noteq> JUndef \<Longrightarrow> to_num (wire v) = to_num v"
  if "v \<noteq> JUndef" "\<forall>vs. v \<noteq> JArr vs" "\<forall>kvs. v \<noteq> JObj kvs"
  using that by (cases v) auto

lemma not_le_positive: "is_finite n \<Longrightarrow> (\<not> num_le n (Fin 0)) = num_lt (Fin 0) n"
  by (cases n) auto

text \<open>A local date-time the browser can show, read in the zone of the browser and of the server.\<close>

lemma date_parse_minute: "read_minute s = Some t \<Longrightarrow> date_parse zone other s = Some (t + zone * 60000)"
  by (simp add: date_parse_def)

lemma unscored_false:
  "some_unscored (map (\<lambda>p. JObj [(''problemId'', JStr (fp_id p)), (''title'', JStr (fp_title p)),
      (''maxScore'', JNum (fp_score p))]) ps) = Inr False \<longleftrightarrow> (\<forall>p \<in> set ps. \<not> num_le (fp_score p) (Fin 0))"
  by (induction ps) auto

lemma unscored_ok:
  "\<exists>b. some_unscored (map (\<lambda>p. JObj [(''problemId'', JStr (fp_id p)), (''title'', JStr (fp_title p)),
      (''maxScore'', JNum (fp_score p))]) ps) = Inr b"
  by (induction ps) auto

lemma client_accepts:
  assumes "validateAssessmentForm parse (form_value f) = Inr []"
  shows "js_trim (af_title f) \<noteq> []" "is_finite (to_num (af_duration f))" "num_lt (Fin 0) (to_num (af_duration f))"
    "af_start f \<noteq> []" "af_end f \<noteq> []" "af_problems f \<noteq> []" "\<forall>p \<in> set (af_problems f). \<not> num_le (fp_score p) (Fin 0)"
    "\<exists>s e. parse (af_start f) = Some s \<and> parse (af_end f) = Some e \<and> s < e"
  using assms unscored_ok [of "af_problems f"] unscored_false [of "af_problems f"] not_le_positive [of "to_num (af_duration f)"]
  by (auto simp: validateAssessmentForm_def form_value_def title_missing_def schedule_errors_def Let_def
      split: if_splits option.splits sum.splits)

lemma problems_accepted:
  assumes "distinct (form_ids f)" "af_problems f \<noteq> []"
  shows "problem_errors (oget (wire (assessment_payload f)) ''problems'') =
     Inr (if \<forall>p \<in> set (af_problems f). is_finite (fp_score p) \<and> num_lt (Fin 0) (fp_score p) then []
          else [''Every problem max score must be greater than zero''])"
proof -
  obtain p ps where ps: "af_problems f = p # ps" using assms(2) by (cases "af_problems f") auto
  have "map (\<lambda>q. to_str (oget q ''problemId'')) (map (\<lambda>p. JObj [(''problemId'', JStr (fp_id p)),
      (''maxScore'', wire (JNum (fp_score p)))]) (af_problems f)) = form_ids f"
    by (simp add: form_ids_def)
  moreover have "positive_num (wire (JNum n)) \<longleftrightarrow> is_finite n \<and> num_lt (Fin 0) n" for n
    by (cases n) (auto simp: positive_num_def)
  ultimately show ?thesis
    using assms(1) ps by (auto simp: problem_errors_def list_ex_iff)
qed

text \<open>A duration is the text of the field, or the number it starts from.\<close>

fun scalar :: "jsval \<Rightarrow> bool" where
  "scalar (JNum n) = True"
| "scalar (JStr s) = True"
| "scalar v = False"

definition form_ok :: "assessment_form \<Rightarrow> bool" where
  "form_ok f \<longleftrightarrow> distinct (form_ids f) \<and> scalar (af_duration f)"

lemma duration_kept [simp]:
  "af_duration (handleLanguageToggle l f) = af_duration f" "af_duration (removeProblem i f) = af_duration f"
  "af_duration (updateProblemScore i v f) = af_duration f"
  "af_duration (ap_form (addProblemToAssessment pg)) = af_duration (ap_form pg)"
  "scalar (af_duration f) \<Longrightarrow> scalar (af_duration (handleChange k s f))"
  by (simp_all add: handleLanguageToggle_def removeProblem_def updateProblemScore_def addProblemToAssessment_def
      handleChange_def Let_def split: option.splits)

lemma page_ok: "form_ok (ap_form pg) \<Longrightarrow> form_ok (ap_form (page_act e pg))"
  using page_ids [of pg e] by (cases e) (auto simp: form_ok_def)

interpretation form_page: free_machine page_act "\<lambda>pg. form_ok (ap_form pg)"
  by unfold_locales (rule page_ok)

lemma new_page_ok: "form_ok (ap_form (new_page catalogue))"
  by (simp add: form_ok_def new_page_def new_form_def form_ids_def)

lemma scalar_wire:
  assumes "form_ok f" "is_finite (to_num (af_duration f))"
  shows "to_num (if af_duration f = JUndef then JUndef else wire (af_duration f)) = to_num (af_duration f)"
  using assms by (cases "af_duration f") (auto simp: form_ok_def)


text \<open>A new assessment with one problem worth 50 points.\<close>

definition mid_term_edits :: "page_edit list" where
  "mid_term_edits = [Change ''title'' ''Mid term'', Change ''startTime'' ''2026-06-09T10:00'', Change ''endTime'' ''2026-06-09T12:00'',
     Select ''70'', Score ''50'', AddProblem, ToggleLanguage ''php'']"

definition mid_term_form :: assessment_form where
  "mid_term_form = ap_form (fold page_act mid_term_edits (new_page [(''70'', ''Two sum'')]))"


subsection \<open>A stored time through the edit page\<close>

lemma loaded_ids:
  assumes "map_result (load_problem w) es = Inr ps"
  shows "map fp_id ps = map (\<lambda>e. show_nat (pe_problem e)) es"
  using assms
  by (induction es arbitrary: ps)
     (auto simp: load_problem_def problems_find_def dest: find_holds split: sum.splits option.splits)

text \<open>A form loaded from an assessment that lists no problem twice is one to start from.\<close>

lemma edit_page_ok:
  assumes "load_form zone w a = Inr f" "distinct (map pe_problem (as_problems a))"
  shows "form_ok (ap_form (edit_page f catalogue))"
proof -
  obtain ps where ps: "map_result (load_problem w) (as_problems a) = Inr ps" "af_problems f = ps"
    "af_duration f = JNum (Fin (as_duration a))"
    using assms(1) by (auto simp: load_form_def split: sum.splits)
  have "form_ids f = map (\<lambda>e. show_nat (pe_problem e)) (as_problems a)"
    using loaded_ids [OF ps(1)] ps(2) by (simp add: form_ids_def)
  also have "\<dots> = map show_nat (map pe_problem (as_problems a))" by simp
  finally have "distinct (form_ids f)" using assms(2) by (simp add: distinct_map inj_on_def)
  with ps(3) show ?thesis by (simp add: form_ok_def edit_page_def)
qed

lemma minute_shift: "whole_minute (t - zone * 60000) + z * 60000 = whole_minute t + (z - zone) * 60000"
proof -
  have "(t + 60000 * (- zone)) div 60000 = - zone + t div 60000" by (rule div_mult_self2) simp
  then show ?thesis by (simp add: whole_minute_def algebra_simps)
qed

lemma minute_unchanged: "whole_minute t + k * 60000 = t \<longleftrightarrow> k = 0 \<and> t mod 60000 = 0"
proof -
  have "t = whole_minute t + t mod 60000" by (simp add: whole_minute_def)
  then have "whole_minute t + k * 60000 = t \<longleftrightarrow> k * 60000 = t mod 60000" by linarith
  moreover have "0 \<le> t mod 60000" "t mod 60000 < 60000" by simp_all
  then have "k * 60000 = t mod 60000 \<longleftrightarrow> k = 0 \<and> t mod 60000 = 0" by (cases "k = 0") auto
  ultimately show ?thesis by simp
qed

definition stored_date :: "int \<Rightarrow> (string \<Rightarrow> time option) \<Rightarrow> string \<Rightarrow> jsval \<Rightarrow> time option" where
  "stored_date zone other k payload = js_date (date_parse zone other) (oget payload k)"


text \<open>Half past five hours east of a server in UTC: saving the page moves the start by that much.\<close>

definition dated_assessment :: assessment where
  "dated_assessment = sample_assessment\<lparr>as_problems := [], as_start := 1781000000000, as_end := 1781007200000\<rparr>"


end
