(* ===== verification/Problem_Editor.thy ===== *)
theory Problem_Editor
  imports Problem_Form Json_Laws Type_Grammar
begin

section \<open>The problem pages of the browser client\<close>

text \<open>
  \<^verbatim>\<open>AddProblemPage.jsx\<close>, \<^verbatim>\<open>EditProblemPage.jsx\<close> and \<^verbatim>\<open>utils/problemTemplates.js\<close>: editing a problem, validating it
  on the server, saving it, starting from a template, and loading a stored problem. The handlers change the
  objects of a row in place, so rows live in a store: a form refers to its rows, and a form that starts from
  a template refers to the rows of the template.
\<close>

subsection \<open>Templates\<close>

record problem_template =
  tp_id :: string
  tp_label :: string
  tp_function :: string
  tp_params :: "(string \<times> string) list"
  tp_return :: string
  tp_tests :: "(string \<times> string \<times> bool) list"
  tp_solution :: string
  tp_language :: string

definition template_empty :: problem_template where
  "template_empty =
     \<lparr>tp_id = ''empty'', tp_label = ''Generic (Empty)'', tp_function = ''solution'',
      tp_params = [(''n'', ''number'')], tp_return = ''number'',
      tp_tests = [(''[0]'', ''0'', True)],
      tp_solution = join_with [CHR 0x0A]
       [''function solution(n) {'',
        ''    return n;'',
        ''}''],
      tp_language = ''javascript''\<rparr>"

definition template_array :: problem_template where
  "template_array =
     \<lparr>tp_id = ''array'', tp_label = ''Array / Two Sum style'', tp_function = ''twoSum'',
      tp_params = [(''nums'', ''array<number>''), (''target'', ''number'')], tp_return = ''array<number>'',
      tp_tests = [(''[[2, 7, 11, 15], 9]'', ''[0, 1]'', True)],
      tp_solution = join_with [CHR 0x0A]
       [''function twoSum(nums, target) {'',
        ''    const map = new Map();'',
        ''    for (let i = 0; i < nums.length; i++) {'',
        ''        const complement = target - nums[i];'',
        ''        if (map.has(complement)) {'',
        ''            return [map.get(complement), i];'',
        ''        }'',
        ''        map.set(nums[i], i);'',
        ''    }'',
        ''    return [];'',
        ''}''],
      tp_language = ''javascript''\<rparr>"

definition template_string :: problem_template where
  "template_string =
     \<lparr>tp_id = ''string'', tp_label = ''String / Reverse style'', tp_function = ''reverseString'',
      tp_params = [(''s'', ''string'')], tp_return = ''string'',
      tp_tests = [((''['' @ [CHR 0x22] @ ''hello'' @ [CHR 0x22] @ '']''), ([CHR 0x22] @ ''olleh'' @ [CHR 0x22]), True)],
      tp_solution = join_with [CHR 0x0A]
       [''function reverseString(s) {'',
        ''    return s.split('' @ [CHR 0x27] @ [CHR 0x27] @ '').reverse().join('' @ [CHR 0x27] @ [CHR 0x27] @ '');'',
        ''}''],
      tp_language = ''javascript''\<rparr>"

definition template_matrix :: problem_template where
  "template_matrix =
     \<lparr>tp_id = ''matrix'', tp_label = ''Matrix / Rotate style'', tp_function = ''rotate'',
      tp_params = [(''matrix'', ''matrix<number>'')], tp_return = ''void'',
      tp_tests = [(''[[[1,2],[3,4]]]'', ''[[3,1],[4,2]]'', True)],
      tp_solution = join_with [CHR 0x0A]
       [''function rotate(matrix) {'',
        ''    const n = matrix.length;'',
        ''    for (let i = 0; i < n / 2; i++) {'',
        ''        for (let j = i; j < n - i - 1; j++) {'',
        ''            const temp = matrix[i][j];'',
        ''            matrix[i][j] = matrix[n - 1 - j][i];'',
        ''            matrix[n - 1 - j][i] = matrix[n - 1 - i][n - 1 - j];'',
        ''            matrix[n - 1 - i][n - 1 - j] = matrix[j][n - 1 - i];'',
        ''            matrix[j][n - 1 - i] = temp;'',
        ''        }'',
        ''    }'',
        ''}''],
      tp_language = ''javascript''\<rparr>"

definition template_linkedlist :: problem_template where
  "template_linkedlist =
     \<lparr>tp_id = ''linkedlist'', tp_label = ''Linked List / Reverse style'', tp_function = ''reverseList'',
      tp_params = [(''head'', ''linkedlist<number>'')], tp_return = ''linkedlist<number>'',
      tp_tests = [(''[[1, 2, 3]]'', ''[3, 2, 1]'', True)],
      tp_solution = join_with [CHR 0x0A]
       [''function reverseList(head) {'',
        ''    let prev = null;'',
        ''    let curr = head;'',
        ''    while (curr) {'',
        ''        let next = curr.next;'',
        ''        curr.next = prev;'',
        ''        prev = curr;'',
        ''        curr = next;'',
        ''    }'',
        ''    return prev;'',
        ''}''],
      tp_language = ''javascript''\<rparr>"

definition template_tree :: problem_template where
  "template_tree =
     \<lparr>tp_id = ''tree'', tp_label = ''Binary Tree / Depth style'', tp_function = ''maxDepth'',
      tp_params = [(''root'', ''tree<number>'')], tp_return = ''number'',
      tp_tests = [(''[[3, 9, 20, null, null, 15, 7]]'', ''3'', True)],
      tp_solution = join_with [CHR 0x0A]
       [''function maxDepth(root) {'',
        ''    if (!root) return 0;'',
        ''    return 1 + Math.max(maxDepth(root.left), maxDepth(root.right));'',
        ''}''],
      tp_language = ''javascript''\<rparr>"

definition template_graph :: problem_template where
  "template_graph =
     \<lparr>tp_id = ''graph'', tp_label = ''Graph / Clone style'', tp_function = ''cloneGraph'',
      tp_params = [(''node'', ''graph<number>'')], tp_return = ''graph<number>'',
      tp_tests = [(''[[[2,4],[1,3],[2,4],[1,3]]]'', ''[[2,4],[1,3],[2,4],[1,3]]'', True)],
      tp_solution = join_with [CHR 0x0A]
       [''function cloneGraph(node) {'',
        ''    if (!node) return null;'',
        ''    const map = new Map();'',
        ''    const dfs = (n) => {'',
        ''        if (map.has(n.val)) return map.get(n.val);'',
        ''        const copy = new Node(n.val);'',
        ''        map.set(n.val, copy);'',
        ''        for (const neighbor of n.neighbors) {'',
        ''            copy.neighbors.push(dfs(neighbor));'',
        ''        }'',
        ''        return copy;'',
        ''    };'',
        ''    return dfs(node);'',
        ''}''],
      tp_language = ''javascript''\<rparr>"

definition PROBLEM_TEMPLATES :: "problem_template list" where
  "PROBLEM_TEMPLATES = [template_empty, template_array, template_string, template_matrix, template_linkedlist, template_tree, template_graph]"

definition param_object :: "string \<times> string \<Rightarrow> jsval" where
  "param_object p = JObj [(''name'', JStr (fst p)), (''type'', JStr (snd p))]"

definition test_object :: "string \<times> string \<times> bool \<Rightarrow> jsval" where
  "test_object t = (case t of (ins, ex, smp) \<Rightarrow>
     JObj [(''inputs'', JStr ins), (''expected'', JStr ex), (''isSample'', JBool smp)])"

subsection \<open>The state\<close>

text \<open>A row of a template, by the positions of the template and of the row, or a row of the form's own.\<close>

datatype row_ref = TemplateParam nat nat | TemplateTest nat nat | Own nat

record problem_editor =
  fe_fields :: "(string \<times> jsval) list"
  fe_params :: "row_ref list"
  fe_tests :: "row_ref list"
  fe_rows :: "row_ref \<Rightarrow> jsval"
  fe_next :: nat
  fe_errors :: field_errors
  fe_validated :: bool
  fe_validating :: bool
  fe_request :: "jsval option"

definition template_row :: "row_ref \<Rightarrow> jsval" where
  "template_row r =
     (case r of
        TemplateParam k i \<Rightarrow> param_object (tp_params (PROBLEM_TEMPLATES ! k) ! i)
      | TemplateTest k i \<Rightarrow> test_object (tp_tests (PROBLEM_TEMPLATES ! k) ! i)
      | Own n \<Rightarrow> JUndef)"

text \<open>\<^verbatim>\<open>formData\<close> as \<^verbatim>\<open>buildProblemPayload\<close> reads it.\<close>

definition editor_form :: "problem_editor \<Rightarrow> jsval" where
  "editor_form e =
     JObj ((''parameters'', JArr (map (fe_rows e) (fe_params e))) # (''testCases'', JArr (map (fe_rows e) (fe_tests e))) #
           fe_fields e)"

definition blank_param :: jsval where
  "blank_param = param_object ([], [])"

definition blank_test :: "bool \<Rightarrow> jsval" where
  "blank_test smp = test_object (''[]'', [], smp)"

definition blank_fields :: "(string \<times> jsval) list" where
  "blank_fields =
     [(''title'', JStr []), (''description'', JStr []), (''difficulty'', JStr ''Easy''), (''tags'', JStr []),
      (''isPremium'', JBool False), (''functionName'', JStr []), (''returnType'', JStr []),
      (''compareConfig'', JObj [(''mode'', JStr ''EXACT''), (''floatTolerance'', jnat 0), (''orderInsensitive'', JBool False)]),
      (''referenceSolution'', JStr []), (''solutionLanguage'', JStr ''javascript'')]"

definition new_editor :: problem_editor where
  "new_editor = \<lparr>fe_fields = blank_fields, fe_params = [Own 0], fe_tests = [Own 1],
     fe_rows = template_row(Own 0 := blank_param, Own 1 := blank_test True), fe_next = 2, fe_errors = [],
     fe_validated = False, fe_validating = False, fe_request = None\<rparr>"

subsection \<open>Edits\<close>

definition touched :: "problem_editor \<Rightarrow> problem_editor" where
  "touched e = e\<lparr>fe_validated := False\<rparr>"

definition handleChange :: "string \<Rightarrow> jsval \<Rightarrow> problem_editor \<Rightarrow> problem_editor" where
  "handleChange name v e = touched (e\<lparr>fe_fields := obj_put name v (fe_fields e)\<rparr>)"

text \<open>\<^verbatim>\<open>next[index][name] = value\<close> writes into the row itself; an index always belongs to a row on the page.\<close>

definition write_row :: "row_ref list \<Rightarrow> nat \<Rightarrow> string \<Rightarrow> jsval \<Rightarrow> (row_ref \<Rightarrow> jsval) \<Rightarrow> row_ref \<Rightarrow> jsval" where
  "write_row refs i name v rows = (if i < length refs then rows(refs ! i := oset (rows (refs ! i)) name v) else rows)"

definition handleTestCaseChange :: "nat \<Rightarrow> string \<Rightarrow> jsval \<Rightarrow> problem_editor \<Rightarrow> problem_editor" where
  "handleTestCaseChange i name v e = touched (e\<lparr>fe_rows := write_row (fe_tests e) i name v (fe_rows e)\<rparr>)"

definition handleParamChange :: "nat \<Rightarrow> string \<Rightarrow> jsval \<Rightarrow> problem_editor \<Rightarrow> problem_editor" where
  "handleParamChange i name v e = touched (e\<lparr>fe_rows := write_row (fe_params e) i name v (fe_rows e)\<rparr>)"

definition without_row :: "nat \<Rightarrow> row_ref list \<Rightarrow> row_ref list" where
  "without_row i refs = take i refs @ drop (Suc i) refs"

definition removeTestCase :: "nat \<Rightarrow> problem_editor \<Rightarrow> problem_editor" where
  "removeTestCase i e =
     (if length (fe_tests e) \<le> 1 then e else touched (e\<lparr>fe_tests := without_row i (fe_tests e)\<rparr>))"

definition removeParameter :: "nat \<Rightarrow> problem_editor \<Rightarrow> problem_editor" where
  "removeParameter i e =
     (if length (fe_params e) \<le> 1 then e else touched (e\<lparr>fe_params := without_row i (fe_params e)\<rparr>))"

definition addTestCase :: "problem_editor \<Rightarrow> problem_editor" where
  "addTestCase e =
     touched (e\<lparr>fe_tests := fe_tests e @ [Own (fe_next e)], fe_next := Suc (fe_next e),
                fe_rows := (fe_rows e)(Own (fe_next e) := blank_test (length (fe_tests e) < 2))\<rparr>)"

definition addParameter :: "problem_editor \<Rightarrow> problem_editor" where
  "addParameter e =
     touched (e\<lparr>fe_params := fe_params e @ [Own (fe_next e)], fe_next := Suc (fe_next e),
                fe_rows := (fe_rows e)(Own (fe_next e) := blank_param)\<rparr>)"

definition handleCompareConfigChange :: "string \<Rightarrow> jsval \<Rightarrow> problem_editor \<Rightarrow> problem_editor" where
  "handleCompareConfigChange name v e =
     touched (e\<lparr>fe_fields := obj_put ''compareConfig'' (oset (oget (JObj (fe_fields e)) ''compareConfig'') name v) (fe_fields e)\<rparr>)"

fun template_index :: "string \<Rightarrow> nat \<Rightarrow> problem_template list \<Rightarrow> nat option" where
  "template_index i k [] = None"
| "template_index i k (t # ts) = (if tp_id t = i then Some k else template_index i (Suc k) ts)"

text \<open>Applying a template puts its own row objects into the form.\<close>

definition apply_template :: "nat \<Rightarrow> problem_editor \<Rightarrow> problem_editor" where
  "apply_template k e =
     (let t = PROBLEM_TEMPLATES ! k in
      touched (e\<lparr>fe_fields := fold (\<lambda>(n, v). obj_put n v)
                   [(''functionName'', JStr (tp_function t)), (''returnType'', JStr (tp_return t)),
                    (''referenceSolution'', JStr (tp_solution t)), (''solutionLanguage'', JStr (tp_language t))]
                   (fe_fields e),
                 fe_params := map (TemplateParam k) [0..<length (tp_params t)],
                 fe_tests := map (TemplateTest k) [0..<length (tp_tests t)]\<rparr>))"

definition handleTemplateSelect :: "string \<Rightarrow> bool \<Rightarrow> problem_editor \<Rightarrow> problem_editor" where
  "handleTemplateSelect i confirm e =
     (if i = [] then e
      else (case template_index i 0 PROBLEM_TEMPLATES of
              None \<Rightarrow> e
            | Some k \<Rightarrow> if confirm then apply_template k e else e))"

subsection \<open>Validating and saving\<close>

text \<open>
  Starting a validation; the button is off while one is running, and stays off when an exception leaves the
  handler.
\<close>

definition startValidate :: "problem_editor \<Rightarrow> problem_editor" where
  "startValidate e =
     (if fe_validating e then e
      else (case buildProblemPayload (editor_form e) of
              Inl err \<Rightarrow> e\<lparr>fe_validated := False, fe_validating := True\<rparr>
            | Inr (Inl errs) \<Rightarrow> e\<lparr>fe_validated := False, fe_errors := errs\<rparr>
            | Inr (Inr payload) \<Rightarrow> e\<lparr>fe_validated := False, fe_errors := [], fe_validating := True, fe_request := Some payload\<rparr>))"

definition report_passed :: "jsval \<Rightarrow> bool" where
  "report_passed r \<longleftrightarrow> truthy (oget r ''schemaValid'') \<and> truthy (oget r ''typeValidation'') \<and>
     truthy (oget r ''wrapperGeneration'') \<and> truthy (oget r ''referenceSolutionPassed'')"

text \<open>The response to it, \<open>None\<close> when the request failed.\<close>

definition endValidate :: "jsval option \<Rightarrow> problem_editor \<Rightarrow> problem_editor" where
  "endValidate response e =
     (if fe_request e = None then e
      else e\<lparr>fe_request := None, fe_validating := False,
             fe_validated := (case response of
                None \<Rightarrow> fe_validated e | Some r \<Rightarrow> if report_passed r then True else fe_validated e)\<rparr>)"

text \<open>The payload a submit sends, if any.\<close>

definition handleSubmit :: "problem_editor \<Rightarrow> problem_editor \<times> jsval option" where
  "handleSubmit e =
     (if \<not> fe_validated e \<or> fe_validating e then (e, None)
      else (case buildProblemPayload (editor_form e) of
              Inl err \<Rightarrow> (e, None)
            | Inr (Inl errs) \<Rightarrow> (e\<lparr>fe_errors := errs\<rparr>, None)
            | Inr (Inr payload) \<Rightarrow> (e\<lparr>fe_errors := []\<rparr>, Some payload)))"

subsection \<open>Loading a stored problem\<close>

text \<open>
  The problem as the server sends it to staff. No document has a \<^verbatim>\<open>referenceSolution\<close> or a
  \<^verbatim>\<open>solutionLanguage\<close>: the schema does not have the fields.
\<close>

definition stringified :: "jsval \<Rightarrow> string" where
  "stringified v = (case json_str v of Some s \<Rightarrow> s | None \<Rightarrow> [])"

definition load_test :: "test_case \<Rightarrow> jsval" where
  "load_test tc =
     JObj [(''inputs'', JStr (stringified (JArr (tc_inputs tc)))),
           (''expected'', (case tc_expected tc of JStr s \<Rightarrow> JStr s | v \<Rightarrow> JStr (stringified (coalesce v JNull)))),
           (''isSample'', JBool (case tc_sample tc of Some b \<Rightarrow> b | None \<Rightarrow> tc_hidden tc \<noteq> Some True))]"

definition mode_name :: "compare_mode \<Rightarrow> string" where
  "mode_name m = (case m of EXACT \<Rightarrow> ''EXACT'' | STRUCTURAL \<Rightarrow> ''STRUCTURAL'')"

definition optional_text :: "string option \<Rightarrow> jsval" where
  "optional_text s = (case s of None \<Rightarrow> JUndef | Some t \<Rightarrow> JStr t)"

definition load_fields :: "problem \<Rightarrow> (string \<times> jsval) list" where
  "load_fields p =
     [(''title'', JStr (pr_title p)), (''description'', JStr (pr_description p)),
      (''difficulty'', JStr (difficulty_name (pr_difficulty p))), (''tags'', JStr (join_with '', '' (pr_tags p))),
      (''isPremium'', JBool (pr_premium p)), (''functionName'', optional_text (pr_function p)),
      (''returnType'', optional_text (pr_return p)),
      (''compareConfig'', JObj [(''mode'', JStr (mode_name (cc_mode (pr_compare p)))),
         (''floatTolerance'', JNum (cc_tolerance (pr_compare p))),
         (''orderInsensitive'', JBool (cc_order_insensitive (pr_compare p)))]),
      (''referenceSolution'', JStr []), (''solutionLanguage'', JStr ''javascript'')]"

fun own_rows :: "nat \<Rightarrow> jsval list \<Rightarrow> (row_ref \<Rightarrow> jsval) \<Rightarrow> row_ref \<Rightarrow> jsval" where
  "own_rows n [] rows = rows"
| "own_rows n (v # vs) rows = own_rows (Suc n) vs (rows(Own n := v))"

definition load_editor :: "problem \<Rightarrow> problem_editor" where
  "load_editor p =
     (let ps = (if pr_params p = [] then [blank_param] else map param_object (pr_params p));
          ts = map load_test (pr_tests p); n = length ps; m = length ts
      in \<lparr>fe_fields = load_fields p, fe_params = map Own [0..<n], fe_tests = map Own [n..<n + m],
          fe_rows = own_rows 0 (ps @ ts) template_row, fe_next = n + m, fe_errors = [], fe_validated = True,
          fe_validating = False, fe_request = None\<rparr>)"


section \<open>Laws of the problem pages\<close>

subsection \<open>Only validated problems are sent\<close>

datatype editor_event =
    Field string jsval
  | TestField nat string jsval
  | ParamField nat string jsval
  | RemoveTest nat
  | RemoveParam nat
  | AddTest
  | AddParam
  | CompareField string jsval
  | ChooseTemplate string bool
  | Validate
  | Response "jsval option"

text \<open>The event's effect on the page, and the payload that passed the last validation.\<close>

fun editor_step :: "editor_event \<Rightarrow> problem_editor \<times> jsval option \<Rightarrow> problem_editor \<times> jsval option" where
  "editor_step (Field k v) (e, c) = (handleChange k v e, c)"
| "editor_step (TestField i k v) (e, c) = (handleTestCaseChange i k v e, c)"
| "editor_step (ParamField i k v) (e, c) = (handleParamChange i k v e, c)"
| "editor_step (RemoveTest i) (e, c) = (removeTestCase i e, c)"
| "editor_step (RemoveParam i) (e, c) = (removeParameter i e, c)"
| "editor_step AddTest (e, c) = (addTestCase e, c)"
| "editor_step AddParam (e, c) = (addParameter e, c)"
| "editor_step (CompareField k v) (e, c) = (handleCompareConfigChange k v e, c)"
| "editor_step (ChooseTemplate i b) (e, c) = (handleTemplateSelect i b e, c)"
| "editor_step Validate (e, c) = (startValidate e, c)"
| "editor_step (Response r) (e, c) =
     (endValidate r e,
      case (fe_request e, r) of (Some payload, Some report) \<Rightarrow> if report_passed report then Some payload else c | _ \<Rightarrow> c)"

fun is_edit :: "editor_event \<Rightarrow> bool" where
  "is_edit Validate = False"
| "is_edit (Response r) = False"
| "is_edit _ = True"

text \<open>No edit while a validation is running.\<close>

definition edits_idle :: "editor_event \<Rightarrow> problem_editor \<times> jsval option \<Rightarrow> bool" where
  "edits_idle ev st = (is_edit ev \<longrightarrow> fe_request (fst st) = None)"

definition patient :: "editor_event list \<Rightarrow> problem_editor \<times> jsval option \<Rightarrow> bool" where
  "patient evs st = steps_allowed edits_idle editor_step evs st"

definition payload_of :: "problem_editor \<Rightarrow> jsval option" where
  "payload_of e = (case buildProblemPayload (editor_form e) of Inr (Inr p) \<Rightarrow> Some p | _ \<Rightarrow> None)"

definition validated_ok :: "problem_editor \<times> jsval option \<Rightarrow> bool" where
  "validated_ok st \<longleftrightarrow>
     (fe_validated (fst st) \<longrightarrow> payload_of (fst st) \<noteq> None \<longrightarrow> payload_of (fst st) = snd st) \<and>
     (fe_request (fst st) \<noteq> None \<longrightarrow> \<not> fe_validated (fst st) \<and> payload_of (fst st) = fe_request (fst st))"

lemma edit_unvalidated:
  assumes "is_edit ev"
  shows "fst (editor_step ev (e, c)) = e \<or> \<not> fe_validated (fst (editor_step ev (e, c)))"
    and "fe_request (fst (editor_step ev (e, c))) = fe_request e" and "snd (editor_step ev (e, c)) = c"
  using assms
  by (cases ev; simp add: handleChange_def handleTestCaseChange_def handleParamChange_def removeTestCase_def
      removeParameter_def addTestCase_def addParameter_def handleCompareConfigChange_def handleTemplateSelect_def
      apply_template_def touched_def Let_def split: option.splits)+

lemma same_form:
  "editor_form (e\<lparr>fe_errors := a\<rparr>) = editor_form e" "editor_form (e\<lparr>fe_validated := b\<rparr>) = editor_form e"
  "editor_form (e\<lparr>fe_validating := b\<rparr>) = editor_form e" "editor_form (e\<lparr>fe_request := r\<rparr>) = editor_form e"
  by (simp_all add: editor_form_def)

lemma step_validated_ok:
  assumes "validated_ok (e, c)" "is_edit ev \<longrightarrow> fe_request e = None"
  shows "validated_ok (editor_step ev (e, c))"
proof (cases "is_edit ev")
  case True
  obtain e' c' where st: "editor_step ev (e, c) = (e', c')" by fastforce
  with edit_unvalidated [OF True, of e c] assms True show ?thesis by (auto simp: validated_ok_def)
next
  case False
  then show ?thesis
  proof (cases ev)
    case Validate
    with assms show ?thesis
      by (auto simp: validated_ok_def startValidate_def payload_of_def same_form split: sum.splits)
  next
    case (Response r)
    with assms show ?thesis
      by (auto simp: validated_ok_def endValidate_def payload_of_def same_form split: sum.splits option.splits)
  qed simp_all
qed

interpretation validating: event_machine editor_step edits_idle validated_ok
proof
  fix st ev
  assume "validated_ok st" "edits_idle ev st"
  then show "validated_ok (editor_step ev st)"
    using step_validated_ok [of "fst st" "snd st" ev] by (simp add: edits_idle_def)
qed

lemma submit_payload: "snd (handleSubmit e) = Some p \<Longrightarrow> fe_validated e \<and> payload_of e = Some p"
  by (auto simp: handleSubmit_def payload_of_def split: if_splits sum.splits)

text \<open>A page that shows a stored problem is marked as validated, yet it has no reference solution to send.\<close>

lemma no_solution_no_payload:
  assumes "oget (editor_form e) ''referenceSolution'' = JStr []"
  shows "payload_of e = None"
proof -
  have "\<exists>errs. solution_errors (editor_form e) (header_errors (editor_form e)) = Inr errs \<and> errs \<noteq> []"
    using assms by (simp add: solution_errors_def Let_def)
  then obtain errs where errs: "solution_errors (editor_form e) (header_errors (editor_form e)) = Inr errs" "errs \<noteq> []" by blast
  have "buildProblemPayload (editor_form e) \<noteq> Inr (Inr p)" for p
  proof
    assume "buildProblemPayload (editor_form e) = Inr (Inr p)"
    with errs(1) obtain prows params errs1 trows tests where
      "normalizeParameters prows errs = Inr (params, errs1)" "normalizeTestCases trows (length params) errs1 = Inr (tests, [])"
      by (auto simp: buildProblemPayload_def split: sum.splits prod.splits if_splits)
    with tests_nil parameters_nil errs(2) show False by blast
  qed
  then show ?thesis by (auto simp: payload_of_def split: sum.splits)
qed

lemma loaded_never_submits: "payload_of (load_editor p) = None" "snd (handleSubmit (load_editor p)) = None"
proof -
  have "oget (editor_form (load_editor p)) ''referenceSolution'' = JStr []"
    by (simp add: editor_form_def load_editor_def load_fields_def Let_def)
  then show none: "payload_of (load_editor p) = None" by (rule no_solution_no_payload)
  show "snd (handleSubmit (load_editor p)) = None"
    using submit_payload [of "load_editor p"] none by (cases "snd (handleSubmit (load_editor p))") auto
qed

text \<open>C34: a problem is saved only as it was validated. On the page for a new problem or for a stored one, after
  any sequence of edits, templates and validations in which nothing is edited while a validation is
  running, the payload a submit sends is the very payload that the last successful validation passed.\<close>

theorem submits_validated:
  assumes "e = new_editor \<or> e = load_editor p"
    and "patient evs (e, None)"
    and "snd (handleSubmit (fst (fold editor_step evs (e, None)))) = Some payload"
  shows "snd (fold editor_step evs (e, None)) = Some payload"
proof -
  have "validated_ok (e, None)"
    using assms(1) loaded_never_submits(1) by (auto simp: validated_ok_def new_editor_def load_editor_def Let_def)
  from validating.run_keeps [OF this assms(2) [unfolded patient_def]] submit_payload [OF assms(3)] show ?thesis
    by (auto simp: validated_ok_def)
qed

definition sample_events :: "editor_event list" where
  "sample_events = [ChooseTemplate ''empty'' True, Field ''title'' (JStr ''Identity''), Field ''description'' (JStr ''Return n''), Validate]"

definition passed_report :: jsval where
  "passed_report = JObj [(''schemaValid'', JBool True), (''typeValidation'', JBool True),
     (''wrapperGeneration'', JBool True), (''referenceSolutionPassed'', JBool True)]"

definition sample_run :: "editor_event list" where
  "sample_run = sample_events @ [Response (Some passed_report)]"

lemma sample_run_patient: "patient sample_run (new_editor, None)"
  by code_simp

lemma sample_run_sends: "snd (handleSubmit (fst (fold editor_step sample_run (new_editor, None)))) \<noteq> None"
  by code_simp

lemma submits_validated_witness:
  "\<exists>payload. snd (handleSubmit (fst (fold editor_step sample_run (new_editor, None)))) = Some payload \<and>
     snd (fold editor_step sample_run (new_editor, None)) = Some payload"
proof -
  obtain payload where "snd (handleSubmit (fst (fold editor_step sample_run (new_editor, None)))) = Some payload"
    using sample_run_sends by blast
  with submits_validated [OF _ sample_run_patient, of undefined payload] show ?thesis by blast
qed

text \<open>
  The fields stay open while a validation runs: an edit made in between is saved although only the text before
  it was validated.
\<close>

definition hasty_run :: "editor_event list" where
  "hasty_run = sample_events @ [TestField 0 ''expected'' (JStr ''1''), Response (Some passed_report)]"

lemma hasty_submit:
  "(case (snd (handleSubmit (fst (fold editor_step hasty_run (new_editor, None)))), snd (fold editor_step hasty_run (new_editor, None))) of
      (Some sent, Some passed) \<Rightarrow> sent \<noteq> passed | _ \<Rightarrow> False)"
  by code_simp

subsection \<open>Templates are shared\<close>

text \<open>Applying a template again after a row of it was edited brings back the edited row.\<close>

lemma template_edit_sticks:
  assumes "i < length (tp_tests (PROBLEM_TEMPLATES ! k))"
  shows "fe_rows (apply_template k (handleTestCaseChange i name v (apply_template k e))) (TemplateTest k i) =
     oset (fe_rows e (TemplateTest k i)) name v"
  using assms by (simp add: apply_template_def handleTestCaseChange_def write_row_def touched_def Let_def)

text \<open>
  The test of a template has inputs of its parameter types, and an expected value of its return type, except
  the matrix template, whose return type is \<^verbatim>\<open>void\<close>.
\<close>

definition template_typed :: "problem_template \<Rightarrow> bool" where
  "template_typed t \<longleftrightarrow>
     list_all (\<lambda>(ins, ex, smp).
       (case json_parse ins of
          Some (JArr vs) \<Rightarrow> length vs = length (tp_params t) \<and>
            list_all2 (\<lambda>v p. validateData v (Some (snd p)) = None) vs (tp_params t)
        | _ \<Rightarrow> False) \<and>
       validateData (normalizeExpectedValue (JStr ex)) (Some (tp_return t)) = None) (tp_tests t)"

lemma templates_typed: "map tp_id (filter (\<lambda>t. \<not> template_typed t) PROBLEM_TEMPLATES) = [''matrix'']"
  by code_simp

subsection \<open>A stored problem through the page\<close>

lemma own_rows_other: "(\<forall>k \<ge> n. r \<noteq> Own k) \<Longrightarrow> own_rows n vs rows r = rows r"
  by (induction n vs rows rule: own_rows.induct) auto

lemma own_rows_at: "i < length vs \<Longrightarrow> own_rows n vs rows (Own (n + i)) = vs ! i"
proof (induction n vs rows arbitrary: i rule: own_rows.induct)
  case (2 n v vs rows)
  show ?case
  proof (cases i)
    case 0
    then show ?thesis using own_rows_other [of "Suc n" "Own n" vs "rows(Own n := v)"] by simp
  next
    case (Suc j)
    with 2(2) have "j < length vs" by simp
    from 2(1) [OF this] Suc show ?thesis by (simp add: fun_upd_def)
  qed
qed simp

lemma loaded_rows:
  "map (fe_rows (load_editor p)) (fe_tests (load_editor p)) = map load_test (pr_tests p)"
proof -
  define ps where "ps = (if pr_params p = [] then [blank_param] else map param_object (pr_params p))"
  define ts where "ts = map load_test (pr_tests p)"
  have "own_rows 0 (ps @ ts) template_row (Own (length ps + i)) = ts ! i" if "i < length ts" for i
    using own_rows_at [of "length ps + i" "ps @ ts" 0 template_row] that by (simp add: nth_append)
  then have "map (own_rows 0 (ps @ ts) template_row) (map Own [length ps..<length ps + length ts]) = ts"
    by (intro nth_equalityI) auto
  then show ?thesis by (simp add: load_editor_def Let_def ps_def [symmetric] ts_def [symmetric])
qed

text \<open>What the page sends for a test it has loaded.\<close>

definition is_sample :: "test_case \<Rightarrow> bool" where
  "is_sample tc \<longleftrightarrow> (case tc_sample tc of Some b \<Rightarrow> b | None \<Rightarrow> tc_hidden tc \<noteq> Some True)"

definition reread :: "jsval \<Rightarrow> jsval" where
  "reread v = (case v of JStr s \<Rightarrow> (case json_parse s of Some x \<Rightarrow> x | None \<Rightarrow> v) | _ \<Rightarrow> v)"

definition sent_test :: "test_case \<Rightarrow> jsval" where
  "sent_test tc =
     JObj [(''inputs'', JArr (tc_inputs tc)), (''expected'', reread (tc_expected tc)), (''isSample'', JBool (is_sample tc))]"

lemma trim_brackets: "js_trim (CHR ''['' # s @ '']'') = CHR ''['' # s @ '']''"
proof -
  have "\<not> is_ws CHR ''[''" "\<not> is_ws CHR '']''" by (simp_all add: is_ws_def)
  then show ?thesis by (simp add: js_trim_def)
qed

lemma inputs_reread:
  assumes "plain_values vs"
  shows "json_parse (js_trim (stringified (JArr vs))) = Some (JArr vs)"
proof -
  have "plain_value (JArr vs)" using assms by simp
  from json_roundtrip [OF this] obtain s where s: "json_str (JArr vs) = Some s" "json_parse s = Some (JArr vs)" .
  then have "js_trim s = s" using trim_brackets by auto
  with s show ?thesis by (simp add: stringified_def)
qed

lemma expected_reread:
  assumes "plain_value v"
  shows "normalizeExpectedValue (case v of JStr s \<Rightarrow> JStr s | u \<Rightarrow> JStr (stringified (coalesce u JNull))) = reread v"
proof (cases "is_str v")
  case True
  then obtain s where "v = JStr s" by (cases v) auto
  then show ?thesis by (simp add: normalizeExpectedValue_def reread_def coalesce_def split: option.splits)
next
  case False
  have "v \<noteq> JUndef" using assms by auto
  then have c: "coalesce v JNull = v" by (cases v) (simp_all add: coalesce_def)
  obtain s where s: "json_str v = Some s" "json_parse s = Some v" using json_roundtrip [OF assms] .
  have "(case v of JStr s \<Rightarrow> JStr s | u \<Rightarrow> JStr (stringified (coalesce u JNull))) = JStr s"
    using False s(1) c by (cases v) (auto simp: stringified_def simp del: json_str.simps)
  moreover have "reread v = v" using False by (cases v) (simp_all add: reread_def)
  ultimately show ?thesis using s(2) by (simp add: normalizeExpectedValue_def coalesce_def)
qed

lemma loaded_row:
  assumes "plain_values (tc_inputs tc)" "plain_value (tc_expected tc)" "length (tc_inputs tc) = n"
  shows "test_row n i (load_test tc) (errs, smp, parsed) = Inr (errs, smp \<or> is_sample tc, parsed @ [sent_test tc])"
proof -
  have t: "or_empty (load_test tc) = load_test tc" by (simp add: or_empty_def load_test_def)
  have f: "oget (load_test tc) ''inputs'' = JStr (stringified (JArr (tc_inputs tc)))"
    "oget (load_test tc) ''isSample'' = JBool (is_sample tc)"
    "normalizeExpectedValue (oget (load_test tc) ''expected'') = reread (tc_expected tc)" "load_test tc \<noteq> JNull"
    using expected_reread [OF assms(2)] by (simp_all add: load_test_def is_sample_def del: json_str.simps)
  show ?thesis
    by (simp add: test_row_def t f inputs_reread [OF assms(1)] assms(3) sent_test_def coalesce_def)
qed

lemma loaded_test_rows:
  assumes "\<forall>tc \<in> set tcs. plain_values (tc_inputs tc) \<and> plain_value (tc_expected tc) \<and> length (tc_inputs tc) = n"
  shows "test_rows n i (map load_test tcs) (errs, smp, parsed) =
     Inr (errs, smp \<or> list_ex is_sample tcs, parsed @ map sent_test tcs)"
  using assms
proof (induction tcs arbitrary: i smp parsed)
  case (Cons tc tcs)
  then have "test_row n i (load_test tc) (errs, smp, parsed) = Inr (errs, smp \<or> is_sample tc, parsed @ [sent_test tc])"
    by (intro loaded_row) auto
  with Cons show ?case by simp
qed simp


text \<open>A problem whose expected text is a number in digits.\<close>

definition digits_case :: test_case where
  "digits_case = \<lparr>tc_inputs = [jnat 7], tc_expected = JStr ''7'', tc_sample = Some True, tc_hidden = None\<rparr>"

end
