(* ===== verification/Verdict_Poll.thy ===== *)
theory Verdict_Poll
  imports Store Interfaces
begin

section \<open>Waiting for a verdict\<close>

text \<open>
  How \<^verbatim>\<open>ProblemPage.jsx\<close> and \<^verbatim>\<open>AssessmentWorkspace.jsx\<close> send a submission and ask for its verdict
  (\<^verbatim>\<open>handleSubmit\<close>, \<^verbatim>\<open>checkStatus\<close>, and what \<^verbatim>\<open>handleRun\<close> changes of it). The handlers are the same on both
  pages; what differs is when the buttons are disabled. An event is a click, the firing of an interval or
  the arrival of an answer; requests wait in the state between being sent and being answered, so every
  order of answers is a list of events. The exam page keeps one submission and one interval per problem.
\<close>

subsection \<open>The state\<close>

text \<open>What the result panel shows: nothing, the text \<^verbatim>\<open>Submitting...\<close>, the error of a failed request, or a
  submission with its status.\<close>

datatype panel = Empty_Panel | Sending | Send_Failed string | Shown oid sub_verdict

text \<open>
  \<open>vp_ref\<close> is \<^verbatim>\<open>intervalRef.current\<close> (or the entry of \<^verbatim>\<open>intervalRefs.current\<close>); \<open>vp_intervals\<close> the intervals
  the browser still fires, each with the submission its callback asks for; \<open>vp_asked\<close> the status requests
  and \<open>vp_posts\<close> the number of submit requests without an answer yet. Handles are never used twice.
\<close>

record poll =
  vp_panel :: panel
  vp_ref :: "nat option"
  vp_intervals :: "(nat \<times> oid) list"
  vp_next :: nat
  vp_asked :: "oid list"
  vp_posts :: nat

definition idle :: poll where
  "idle = \<lparr>vp_panel = Empty_Panel, vp_ref = None, vp_intervals = [], vp_next = 0, vp_asked = [], vp_posts = 0\<rparr>"

definition has_verdict :: "sub_verdict \<Rightarrow> bool" where
  "has_verdict v \<longleftrightarrow> v \<in> {Success, Fail, ErrorVerdict}"

subsection \<open>The handlers\<close>

definition clear_interval :: "poll \<Rightarrow> poll" where
  "clear_interval p =
     (case vp_ref p of
        None \<Rightarrow> p
      | Some t \<Rightarrow> p\<lparr>vp_intervals := filter (\<lambda>x. fst x \<noteq> t) (vp_intervals p), vp_ref := None\<rparr>)"

text \<open>\<^verbatim>\<open>handleSubmit\<close> up to its request, and its two continuations.\<close>

definition send :: "poll \<Rightarrow> poll" where
  "send p = (if vp_ref p \<noteq> None then p else p\<lparr>vp_panel := Sending, vp_posts := vp_posts p + 1\<rparr>)"

definition sent :: "oid \<Rightarrow> poll \<Rightarrow> poll" where
  "sent i p =
     p\<lparr>vp_panel := Shown i Pending, vp_posts := vp_posts p - 1, vp_ref := Some (vp_next p),
       vp_intervals := vp_intervals p @ [(vp_next p, i)], vp_next := vp_next p + 1\<rparr>"

definition not_sent :: "string \<Rightarrow> poll \<Rightarrow> poll" where
  "not_sent msg p = p\<lparr>vp_panel := Send_Failed msg, vp_posts := vp_posts p - 1\<rparr>"

text \<open>\<^verbatim>\<open>checkStatus\<close>: the callback of an interval sends a request; an answer is shown and, when it has a
  verdict, ends the interval the page remembers; a failed request ends it too.\<close>

definition ask :: "nat \<Rightarrow> poll \<Rightarrow> poll" where
  "ask t p = (case map_of (vp_intervals p) t of None \<Rightarrow> p | Some i \<Rightarrow> p\<lparr>vp_asked := vp_asked p @ [i]\<rparr>)"

definition answered :: "oid \<Rightarrow> sub_verdict \<Rightarrow> poll \<Rightarrow> poll" where
  "answered i v p =
     (let q = p\<lparr>vp_panel := Shown i v, vp_asked := remove1 i (vp_asked p)\<rparr>
      in if has_verdict v then clear_interval q else q)"

definition unanswered :: "oid \<Rightarrow> poll \<Rightarrow> poll" where
  "unanswered i p = clear_interval (p\<lparr>vp_asked := remove1 i (vp_asked p)\<rparr>)"

text \<open>
  The events. A run of the code clears the panel and disables the buttons until it is done. A disabled
  button, and an answer to a request that was not sent, change nothing.
\<close>

datatype poll_event =
    Submit_Click | Sent oid | Not_Sent string | Fire nat | Status oid sub_verdict | No_Status oid
  | Run_Click | Run_Done

fun panel_step :: "(bool \<Rightarrow> poll \<Rightarrow> bool) \<Rightarrow> poll_event \<Rightarrow> poll \<times> bool \<Rightarrow> poll \<times> bool" where
  "panel_step blocked Submit_Click (p, busy) = (if blocked busy p then p else send p, busy)"
| "panel_step blocked (Sent i) (p, busy) = (if vp_posts p = 0 then p else sent i p, busy)"
| "panel_step blocked (Not_Sent msg) (p, busy) = (if vp_posts p = 0 then p else not_sent msg p, busy)"
| "panel_step blocked (Fire t) (p, busy) = (ask t p, busy)"
| "panel_step blocked (Status i v) (p, busy) = (if i \<in> set (vp_asked p) then answered i v p else p, busy)"
| "panel_step blocked (No_Status i) (p, busy) = (if i \<in> set (vp_asked p) then unanswered i p else p, busy)"
| "panel_step blocked Run_Click (p, busy) =
     (if blocked busy p then (p, busy) else (p\<lparr>vp_panel := Empty_Panel\<rparr>, True))"
| "panel_step blocked Run_Done (p, busy) = (p, False)"

subsection \<open>The two pages\<close>

text \<open>The \<^verbatim>\<open>disabled\<close> attribute of the buttons: the practice page lets a student press the button again while
  a verdict is pending (\<^verbatim>\<open>handleSubmit\<close> then does nothing), the exam page does not.\<close>

definition practice_blocked :: "bool \<Rightarrow> bool \<Rightarrow> poll \<Rightarrow> bool" where
  "practice_blocked authed busy p \<longleftrightarrow> \<not> authed \<or> busy \<or> vp_panel p = Sending"

definition isJudging :: "poll \<Rightarrow> bool" where
  "isJudging p \<longleftrightarrow>
     (case vp_panel p of Sending \<Rightarrow> True | Shown i v \<Rightarrow> v = Pending \<or> v = Running | _ \<Rightarrow> False)"

definition exam_blocked :: "bool \<Rightarrow> poll \<Rightarrow> bool" where
  "exam_blocked busy p \<longleftrightarrow> busy \<or> isJudging p"

text \<open>The practice page also has the history of the student's submissions, whose button \<^verbatim>\<open>View Result\<close> puts
  one of them into the panel. Leaving the page clears the interval but not the reference.\<close>

datatype practice_event = Panel poll_event | View_Result oid sub_verdict

fun practice_step :: "bool \<Rightarrow> practice_event \<Rightarrow> poll \<times> bool \<Rightarrow> poll \<times> bool" where
  "practice_step authed (Panel e) s = panel_step (practice_blocked authed) e s"
| "practice_step authed (View_Result i v) (p, busy) = (p\<lparr>vp_panel := Shown i v\<rparr>, busy)"

definition practice_run :: "bool \<Rightarrow> practice_event list \<Rightarrow> poll \<times> bool" where
  "practice_run authed es = fold (practice_step authed) es (idle, False)"

definition leave_practice :: "poll \<Rightarrow> poll" where
  "leave_practice p = clear_interval p\<lparr>vp_ref := vp_ref p\<rparr>"

text \<open>The exam page: a poll per problem, one flag \<^verbatim>\<open>isRunning\<close> for all. An event names the problem it is about.\<close>

fun exam_step :: "oid \<times> poll_event \<Rightarrow> (oid \<Rightarrow> poll) \<times> bool \<Rightarrow> (oid \<Rightarrow> poll) \<times> bool" where
  "exam_step (q, e) (ps, busy) = (case panel_step exam_blocked e (ps q, busy) of (p, b) \<Rightarrow> (ps(q := p), b))"

definition exam_run :: "(oid \<times> poll_event) list \<Rightarrow> (oid \<Rightarrow> poll) \<times> bool" where
  "exam_run es = fold exam_step es (\<lambda>q. idle, False)"

subsection \<open>One interval at a time\<close>

text \<open>A run is prompt when every status request is answered, or fails, before the next firing of an interval,
  and only requests that were sent are answered.\<close>

definition timely :: "poll_event \<Rightarrow> poll \<Rightarrow> bool" where
  "timely e p =
     (case e of Fire t \<Rightarrow> vp_asked p = [] | Sent i \<Rightarrow> vp_posts p > 0 | _ \<Rightarrow> True)"

definition last_sent :: "poll_event list \<Rightarrow> oid option" where
  "last_sent es = fold (\<lambda>e l. case e of Sent i \<Rightarrow> Some i | _ \<Rightarrow> l) es None"

definition sending :: "poll \<Rightarrow> bool" where
  "sending p \<longleftrightarrow> vp_intervals p = [] \<and> vp_ref p = None \<and> vp_asked p = [] \<and>
     (vp_posts p = 0 \<or> vp_posts p = 1 \<and> vp_panel p = Sending)"

definition polling :: "oid \<Rightarrow> poll \<Rightarrow> bool" where
  "polling i p \<longleftrightarrow> vp_posts p = 0 \<and> (vp_asked p = [] \<or> vp_asked p = [i]) \<and>
     (\<exists>t. vp_intervals p = [(t, i)] \<and> vp_ref p = Some t)"

definition orderly :: "oid option \<Rightarrow> poll \<Rightarrow> bool" where
  "orderly l p \<longleftrightarrow> sending p \<or> (\<exists>i. l = Some i \<and> polling i p)"

lemmas poll_defs = orderly_def sending_def polling_def send_def sent_def not_sent_def ask_def answered_def
  unanswered_def clear_interval_def timely_def

text \<open>What both buttons promise: nothing can be sent or run while a submission is on its way.\<close>

locale submit_button =
  fixes blocked :: "bool \<Rightarrow> poll \<Rightarrow> bool"
  assumes sending_blocks: "vp_panel p = Sending \<Longrightarrow> blocked busy p"
begin

lemma step_orderly:
  assumes "orderly l p" and "timely e p"
  shows "orderly (case e of Sent i \<Rightarrow> Some i | _ \<Rightarrow> l) (fst (panel_step blocked e (p, busy)))"
  using assms sending_blocks [of p busy]
  by (cases e) (auto simp: poll_defs Let_def split: if_splits option.splits)

end

text \<open>A page is stuck on a problem when it says that the submission is judged and neither polls nor waits
  for an answer.\<close>

definition stuck :: "poll \<Rightarrow> bool" where
  "stuck p \<longleftrightarrow> isJudging p \<and> vp_intervals p = [] \<and> vp_asked p = [] \<and> vp_posts p = 0"

interpretation practice_button: submit_button "practice_blocked authed"
  by unfold_locales (simp add: practice_blocked_def)

interpretation exam_button: submit_button exam_blocked
  by unfold_locales (simp add: exam_blocked_def isJudging_def)

fun exam_prompt :: "(oid \<times> poll_event) list \<Rightarrow> (oid \<Rightarrow> poll) \<times> bool \<Rightarrow> bool" where
  "exam_prompt [] s = True"
| "exam_prompt ((q, e) # es) s = (timely e (fst s q) \<and> exam_prompt es (exam_step (q, e) s))"

definition events_on :: "oid \<Rightarrow> (oid \<times> poll_event) list \<Rightarrow> poll_event list" where
  "events_on q es = map snd (filter (\<lambda>x. fst x = q) es)"

definition sent_after :: "poll_event list \<Rightarrow> oid option \<Rightarrow> oid option" where
  "sent_after es l = fold (\<lambda>e l. case e of Sent i \<Rightarrow> Some i | _ \<Rightarrow> l) es l"

lemma idle_orderly: "orderly l idle"
  by (simp add: orderly_def sending_def idle_def)

lemma exam_step_other: "q \<noteq> q' \<Longrightarrow> fst (exam_step (q', e) s) q = fst s q"
  by (cases s) (simp split: prod.split)

lemma exam_step_same: "fst (exam_step (q, e) (ps, b)) q = fst (panel_step exam_blocked e (ps q, b))"
  by (simp split: prod.split)

lemma exam_orderly:
  assumes "exam_prompt es s" and "orderly l (fst s q)"
  shows "orderly (sent_after (events_on q es) l) (fst (fold exam_step es s) q)"
  using assms
proof (induction es arbitrary: s l)
  case (Cons x es)
  obtain q' e where x: "x = (q', e)" by (cases x)
  obtain ps b where s: "s = (ps, b)" by (cases s)
  show ?case
  proof (cases "q' = q")
    case True
    have "orderly (case e of Sent i \<Rightarrow> Some i | _ \<Rightarrow> l) (fst (exam_step (q, e) s) q)"
      using exam_button.step_orderly [of l "ps q" e b] Cons.prems True
      by (simp add: x s exam_step_same del: exam_step.simps)
    with Cons.IH Cons.prems show ?thesis
      by (simp add: x True events_on_def sent_after_def del: exam_step.simps)
  next
    case False
    with Cons show ?thesis
      by (simp add: x events_on_def exam_step_other [of q q'] del: exam_step.simps)
  qed
qed (simp add: events_on_def sent_after_def)

lemma step_not_stuck:
  assumes "orderly l p" and "timely e p" and "\<not> stuck p" and "\<forall>i. No_Status i \<noteq> e"
  shows "\<not> stuck (fst (panel_step exam_blocked e (p, b)))"
  using assms
  by (cases e)
    (auto simp: stuck_def isJudging_def has_verdict_def poll_defs Let_def split: if_splits option.splits panel.splits)

lemma exam_not_stuck:
  assumes "exam_prompt es s" and "orderly l (fst s q)" and "\<not> stuck (fst s q)"
    and "\<forall>i. (q, No_Status i) \<notin> set es"
  shows "\<not> stuck (fst (fold exam_step es s) q)"
  using assms
proof (induction es arbitrary: s l)
  case (Cons x es)
  obtain q' e where x: "x = (q', e)" by (cases x)
  obtain ps b where s: "s = (ps, b)" by (cases s)
  have "\<not> stuck (fst (exam_step x s) q)"
  proof (cases "q' = q")
    case True
    then show ?thesis
      using step_not_stuck [of l "ps q" e b] Cons.prems by (simp add: x s exam_step_same del: exam_step.simps)
  next
    case False
    then show ?thesis using Cons.prems(3) by (simp add: x exam_step_other [of q q'] del: exam_step.simps)
  qed
  moreover have "orderly (sent_after (events_on q [x]) l) (fst (fold exam_step [x] s) q)"
    using Cons.prems(1,2) by (intro exam_orderly) (auto simp: x)
  ultimately show ?case using Cons.IH [of "exam_step x s"] Cons.prems by (simp add: x)
qed simp

lemma verdict_ends_polling:
  assumes "orderly l p" and "i \<in> set (vp_asked p)" and "has_verdict v"
  shows "answered i v p = p\<lparr>vp_panel := Shown i v, vp_asked := [], vp_intervals := [], vp_ref := None\<rparr>"
  using assms by (auto simp: poll_defs Let_def)


definition sample_exam :: "(oid \<times> poll_event) list" where
  "sample_exam = [(20, Submit_Click), (20, Sent 7), (20, Fire 0), (21, Submit_Click), (20, Status 7 Running), (20, Fire 0)]"

lemmas poll_run = idle_def send_def sent_def ask_def answered_def exam_blocked_def isJudging_def has_verdict_def

lemma sample_exam_poll:
  "fst (exam_run sample_exam) 20 =
     \<lparr>vp_panel = Shown 7 Running, vp_ref = Some 0, vp_intervals = [(0, 7)], vp_next = 1, vp_asked = [7], vp_posts = 0\<rparr>"
  by (simp add: exam_run_def sample_exam_def poll_run Let_def)


lemma stuck_step: "stuck p \<Longrightarrow> stuck (fst (panel_step exam_blocked e (p, b)))"
  by (cases e) (auto simp: stuck_def exam_blocked_def ask_def)

interpretation stuck_problem: free_machine exam_step "\<lambda>s. stuck (fst s q)"
proof
  fix s :: "(oid \<Rightarrow> poll) \<times> bool" and x :: "oid \<times> poll_event"
  assume stuck: "stuck (fst s q)"
  obtain q' e where x: "x = (q', e)" by (cases x)
  obtain ps b where s: "s = (ps, b)" by (cases s)
  show "stuck (fst (exam_step x s) q)"
    using stuck stuck_step [of "ps q" e b]
    by (cases "q' = q") (simp_all add: x s exam_step_same exam_step_other [of q q'] del: exam_step.simps)
qed

text \<open>One failed status request while a submission is judged disables both buttons of that problem for
  good: whatever happens afterwards, on that problem or another, the page says that the submission is being
  judged and asks for it no more, so the student can neither run nor submit that problem again without
  reloading the page.\<close>

theorem lost_status_locks_exam:
  assumes "polling i (ps q)" and "vp_asked (ps q) = [i]" and "isJudging (ps q)"
  shows "stuck (fst (fold exam_step es (exam_step (q, No_Status i) (ps, b))) q) \<and>
     exam_blocked b' (fst (fold exam_step es (exam_step (q, No_Status i) (ps, b))) q)"
proof -
  have "stuck (fst (exam_step (q, No_Status i) (ps, b)) q)"
    using assms by (auto simp: stuck_def polling_def unanswered_def clear_interval_def isJudging_def)
  then have "stuck (fst (fold exam_step es (exam_step (q, No_Status i) (ps, b))) q)" by (rule stuck_problem.free_run)
  then show ?thesis by (simp add: stuck_def exam_blocked_def)
qed

lemma lost_status_locks_exam_witness:
  "exam_blocked False (fst (fold exam_step [(20, Run_Click), (20, Submit_Click)]
     (exam_step (20, No_Status 7) (exam_run sample_exam))) 20)"
proof -
  have "polling 7 (fst (exam_run sample_exam) 20)" "isJudging (fst (exam_run sample_exam) 20)"
    "vp_asked (fst (exam_run sample_exam) 20) = [7]"
    by (simp_all add: sample_exam_poll polling_def isJudging_def)
  then show ?thesis
    using lost_status_locks_exam [where ps = "fst (exam_run sample_exam)" and q = 20 and i = 7 and b' = False
        and es = "[(20, Run_Click), (20, Submit_Click)]" and b = "snd (exam_run sample_exam)"] by simp
qed

text \<open>Answers may overtake each other. An older answer that arrives after the one with the verdict locks the
  problem in the same way; on the practice page an answer about the previous submission ends the interval of the
  next one, whose verdict is then never shown.\<close>

lemma overtaken_answer_locks_exam:
  "stuck (fst (exam_run [(20, Submit_Click), (20, Sent 7), (20, Fire 0), (20, Fire 0), (20, Status 7 Success),
     (20, Status 7 Pending)]) 20)"
  by (simp add: exam_run_def stuck_def poll_run clear_interval_def Let_def)

lemma late_answer_ends_next_poll:
  "fst (practice_run True (map Panel [Submit_Click, Sent 7, Fire 0, Fire 0, Status 7 Fail, Submit_Click, Sent 8,
     Status 7 Fail])) = idle\<lparr>vp_panel := Shown 7 Fail, vp_next := 2\<rparr>"
  by (simp add: practice_run_def practice_blocked_def poll_run clear_interval_def Let_def)

text \<open>Looking at an old result while a submission is on its way frees the button: a second submission can be
  sent, only the interval of the one acknowledged last is remembered, and the other one is never cleared.\<close>

lemma view_result_doubles_polling:
  "vp_intervals (fst (practice_run True [Panel Submit_Click, View_Result 5 Fail, Panel Submit_Click, Panel (Sent 7),
     Panel (Sent 8), Panel (Fire 0), Panel (Fire 1), Panel (Status 7 Fail), Panel (Status 8 Fail)])) = [(0, 7)]"
  by (simp add: practice_run_def practice_blocked_def poll_run clear_interval_def Let_def)

text \<open>Without that button the practice page has the same discipline as the exam page.\<close>

fun practice_prompt :: "bool \<Rightarrow> poll_event list \<Rightarrow> poll \<times> bool \<Rightarrow> bool" where
  "practice_prompt authed [] s = True"
| "practice_prompt authed (e # es) s =
     (timely e (fst s) \<and> practice_prompt authed es (practice_step authed (Panel e) s))"

lemma practice_orderly:
  assumes "practice_prompt authed es s" and "orderly l (fst s)"
  shows "orderly (sent_after es l) (fst (fold (practice_step authed) (map Panel es) s))"
  using assms
proof (induction es arbitrary: s l)
  case (Cons e es)
  obtain p b where s: "s = (p, b)" by (cases s)
  have "orderly (case e of Sent i \<Rightarrow> Some i | _ \<Rightarrow> l) (fst (practice_step authed (Panel e) s))"
    using practice_button.step_orderly [of l p e authed b] Cons.prems by (simp add: s)
  with Cons show ?case by (simp add: sent_after_def)
qed (simp add: sent_after_def)

lemma leaving_ends_polling:
  assumes "practice_prompt authed es (idle, False)"
  shows "vp_intervals (leave_practice (fst (practice_run authed (map Panel es)))) = []"
proof -
  have "orderly (sent_after es None) (fst (practice_run authed (map Panel es)))"
    using practice_orderly [OF assms, of None] idle_orderly by (simp add: practice_run_def)
  then show ?thesis by (auto simp: leave_practice_def poll_defs)
qed

end
