(* ===== verification/Attempt_Pages.thy ===== *)
theory Attempt_Pages
  imports Assessment_Laws "HOL-Library.Sublist"
begin

section \<open>The pages around an attempt\<close>

text \<open>
  \<^verbatim>\<open>AssessmentListPage.jsx\<close>, \<^verbatim>\<open>AssessmentManagementPage.jsx\<close>, \<^verbatim>\<open>AssessmentDetailsPage.jsx\<close>,
  \<^verbatim>\<open>AssessmentResultPage.jsx\<close> and \<^verbatim>\<open>AssessmentAttemptDetailPage.jsx\<close> of the client: what they show of the
  assessments, the attempt and the submissions the server answers with, and what their buttons send. The
  documents are those of theory \<open>Store\<close>; a date is compared as the instant it denotes. Markup, colours and
  the texts of dates are left out.
\<close>

subsection \<open>The lists of assessments\<close>

definition active_list :: "time \<Rightarrow> assessment list \<Rightarrow> assessment list" where
  "active_list now as = filter (\<lambda>a. as_start a \<le> now \<and> now \<le> as_end a \<and> as_status a = Published) as"

definition upcoming_list :: "time \<Rightarrow> assessment list \<Rightarrow> assessment list" where
  "upcoming_list now as = filter (\<lambda>a. now < as_start a \<and> as_status a = Published) as"

definition past_list :: "time \<Rightarrow> assessment list \<Rightarrow> assessment list" where
  "past_list now as = filter (\<lambda>a. as_end a < now \<or> as_status a \<noteq> Published) as"

definition management_label :: "time \<Rightarrow> assessment \<Rightarrow> string" where
  "management_label now a =
     (if as_status a = Draft then ''DRAFT''
      else if as_start a \<le> now \<and> now \<le> as_end a then ''LIVE NOW''
      else if now < as_start a then ''UPCOMING'' else ''ENDED'')"

subsection \<open>The details page\<close>

text \<open>The box with the action the page offers. \<open>role\<close> is that of the user kept by the browser (\<open>None\<close> when
  nobody is logged in), \<open>m\<close> the answer to \<^verbatim>\<open>my-attempt\<close>.\<close>

datatype action_box =
    See_Results oid | Continue_Attempt oid | Start_Offered | Wrong_Role | Not_Yet | Over

definition isAvailable :: "time \<Rightarrow> assessment \<Rightarrow> bool" where
  "isAvailable now s \<longleftrightarrow> as_start s \<le> now \<and> now \<le> as_end s \<and> as_status s = Published"

definition action_of :: "role option \<Rightarrow> assessment \<Rightarrow> attempt option \<Rightarrow> time \<Rightarrow> action_box" where
  "action_of role s m now =
     (case m of
        Some a \<Rightarrow> if at_status a \<noteq> Active then See_Results (at_id a) else Continue_Attempt (at_id a)
      | None \<Rightarrow>
          if isAvailable now s \<and> role = Some Student then Start_Offered
          else if isAvailable now s \<and> role \<noteq> Some Student then Wrong_Role
          else if now < as_start s then Not_Yet else Over)"

definition total_marks :: "assessment \<Rightarrow> rat" where
  "total_marks s = fold (\<lambda>e acc. acc + pe_max_score e) (as_problems s) 0"

text \<open>Where the page goes when the start was answered.\<close>

datatype page_path = Exam_Path oid | Result_Path oid

definition start_target :: "attempt \<Rightarrow> page_path" where
  "start_target a = (if at_status a = Active then Exam_Path (at_id a) else Result_Path (at_id a))"

subsection \<open>From the start button to the request\<close>

text \<open>
  The dialogs before an attempt. \<open>de_listeners\<close> counts the \<^verbatim>\<open>fullscreenchange\<close> listeners that
  \<^verbatim>\<open>enterFullscreenAndStart\<close> has registered and that are still there, \<open>de_sent\<close> the start requests sent so
  far. \<open>de_pending\<close> holds as long as the browser has not decided on a call of \<^verbatim>\<open>requestFullscreen\<close>, and
  disables the button that makes one.
\<close>

record details =
  de_instructions :: bool
  de_agreed :: bool
  de_prompt :: bool
  de_pending :: bool
  de_starting :: bool
  de_listeners :: nat
  de_sent :: nat

definition opened_details :: details where
  "opened_details = \<lparr>de_instructions = False, de_agreed = False, de_prompt = False, de_pending = False,
     de_starting = False, de_listeners = 0, de_sent = 0\<rparr>"

text \<open>
  The events: the buttons and the check box, the browser's decision on a request (\<open>Granted\<close>,
  \<open>Denied\<close>), a \<^verbatim>\<open>fullscreenchange\<close> with the page in full-screen mode or not, and the answer to a start.
  A control that is not shown or disabled changes nothing; \<open>supported\<close> tells whether the browser has the
  full-screen interface.
\<close>

datatype details_event =
    Start_Button | Agree bool | Begin_Button | Cancel_Instructions | Cancel_Prompt | Enter_Button
  | Granted | Denied | Fullscreen bool | Start_Answered

text \<open>\<^verbatim>\<open>onFsChange\<close>, once per listener: each removes itself and starts the attempt.\<close>

definition onFsChange :: "details \<Rightarrow> details" where
  "onFsChange d =
     (if de_listeners d = 0 then d
      else d\<lparr>de_sent := de_sent d + de_listeners d, de_listeners := 0, de_prompt := False, de_starting := True\<rparr>)"

definition enterFullscreenAndStart :: "bool \<Rightarrow> details \<Rightarrow> details" where
  "enterFullscreenAndStart supported d =
     (if supported
      then d\<lparr>de_pending := True, de_listeners := de_listeners d + 1\<rparr>
      else d)"

fun details_step :: "bool \<Rightarrow> details_event \<Rightarrow> details \<Rightarrow> details" where
  "details_step supported Start_Button d =
     (if de_starting d then d else d\<lparr>de_agreed := False, de_instructions := True\<rparr>)"
| "details_step supported (Agree b) d = (if de_instructions d then d\<lparr>de_agreed := b\<rparr> else d)"
| "details_step supported Begin_Button d =
     (if de_instructions d \<and> de_agreed d then d\<lparr>de_instructions := False, de_prompt := True\<rparr> else d)"
| "details_step supported Cancel_Instructions d = d\<lparr>de_instructions := False\<rparr>"
| "details_step supported Cancel_Prompt d = (if de_prompt d then d\<lparr>de_prompt := False\<rparr> else d)"
| "details_step supported Enter_Button d =
     (if de_prompt d \<and> \<not> de_pending d then enterFullscreenAndStart supported d else d)"
| "details_step supported Granted d =
     (if de_pending d then d\<lparr>de_pending := False\<rparr> else d)"
| "details_step supported Denied d =
     (if de_pending d then d\<lparr>de_listeners := de_listeners d - 1, de_pending := False\<rparr> else d)"
| "details_step supported (Fullscreen on) d = (if on then onFsChange d else d)"
| "details_step supported Start_Answered d = d\<lparr>de_starting := False\<rparr>"

definition details_run :: "bool \<Rightarrow> details_event list \<Rightarrow> details" where
  "details_run supported es = fold (details_step supported) es opened_details"

subsection \<open>The result page\<close>

text \<open>\<^verbatim>\<open>p.problemId?._id || p.problemId\<close> after population: a deleted problem is \<^verbatim>\<open>null\<close>.\<close>

definition shown_problem :: "world \<Rightarrow> oid \<Rightarrow> oid option" where
  "shown_problem w i = map_option pr_id (problems_find w i)"

definition getProblemResult :: "world \<Rightarrow> submission list \<Rightarrow> oid option \<Rightarrow> string" where
  "getProblemResult w subs pid =
     (let mine = filter (\<lambda>t. shown_problem w (su_problem t) = pid) subs
      in if list_ex (\<lambda>t. su_status t = Success) mine then ''Accepted''
         else if mine \<noteq> [] then ''Failed'' else ''Not Attempted'')"

definition score_or_default :: "rat \<Rightarrow> rat" where
  "score_or_default q = (if q = 0 then 100 else q)"

record result_row =
  rr_problem :: "oid option"
  rr_verdict :: string
  rr_score :: rat
  rr_max :: rat

definition result_row_of :: "world \<Rightarrow> submission list \<Rightarrow> problem_entry \<Rightarrow> result_row" where
  "result_row_of w subs e =
     (let pid = shown_problem w (pe_problem e); v = getProblemResult w subs pid; m = score_or_default (pe_max_score e)
      in \<lparr>rr_problem = pid, rr_verdict = v, rr_score = (if v = ''Accepted'' then m else 0), rr_max = m\<rparr>)"

definition totalMaxScore :: "assessment \<Rightarrow> rat" where
  "totalMaxScore s = fold (\<lambda>e acc. acc + score_or_default (pe_max_score e)) (as_problems s) 0"

definition timeTaken :: "attempt \<Rightarrow> time \<Rightarrow> int" where
  "timeTaken a now = ((case at_submitted a of Some t \<Rightarrow> t | None \<Rightarrow> now) - at_started a) div 60000"

text \<open>The form of a challenge: shown while none was raised, its button off for a blank text; the text is sent
  trimmed.\<close>

definition challenge_form :: "attempt \<Rightarrow> bool" where
  "challenge_form a \<longleftrightarrow> ch_status (at_challenge a) = NoChallenge"

definition handleRaiseChallenge :: "attempt \<Rightarrow> string \<Rightarrow> jsval option" where
  "handleRaiseChallenge a reason =
     (if challenge_form a \<and> js_trim reason \<noteq> [] then Some (JStr (js_trim reason)) else None)"


subsection \<open>The attempt as the staff sees it\<close>

text \<open>\<^verbatim>\<open>sortedTimeline\<close>, the title of an entry, and the submission an entry leads to.\<close>

definition sortedTimeline :: "attempt \<Rightarrow> timeline_event list" where
  "sortedTimeline a = sort_key ev_at (at_timeline a)"

definition timeline_title :: "timeline_event \<Rightarrow> string" where
  "timeline_title ev =
     (case map_of
        [(''START'', ''Exam Started''), (''SUBMIT'', ''Exam Submitted''), (''TIMED_OUT'', ''Attempt Timed Out''),
         (''TAB_SWITCH'', ''Tab Switch''), (''COPY'', ''Copy/Cut Action''), (''PASTE'', ''Paste Action''),
         (''FULLSCREEN_EXIT'', ''Fullscreen Exited''), (''RETURN'', ''Returned to Test'')] (ev_event ev) of
        Some t \<Rightarrow> t
      | None \<Rightarrow>
          if ev_event ev = ''SUBMIT_PROBLEM''
          then ''Submitted '' @ to_str (or_val (oget (ev_details ev) ''problemTitle'') (JStr ''Challenge''))
          else ev_event ev)"

text \<open>The list and the selected submission. \<open>rejudge_started\<close> is what the page does when the server has
  accepted a rejudge (\<open>clicked\<close> is the submission that was selected when the button was pressed), \<open>rejudge_refreshed\<close> what it does with the list it fetches three seconds later.\<close>

record attempt_view =
  av_submissions :: "submission list"
  av_selected :: "submission option"

definition open_view :: "submission list \<Rightarrow> attempt_view" where
  "open_view subs =
     \<lparr>av_submissions = subs, av_selected = (case subs of [] \<Rightarrow> None | t # ts \<Rightarrow> Some t)\<rparr>"

definition pending :: "submission \<Rightarrow> submission" where
  "pending t = t\<lparr>su_status := Pending\<rparr>"

definition rejudge_started :: "oid \<Rightarrow> submission option \<Rightarrow> attempt_view \<Rightarrow> attempt_view" where
  "rejudge_started i clicked v =
     v\<lparr>av_submissions := map (\<lambda>t. if su_id t = i then pending t else t) (av_submissions v),
       av_selected := (if map_option su_id clicked = Some i then map_option pending (av_selected v)
                       else av_selected v)\<rparr>"

definition rejudge_refreshed :: "oid \<Rightarrow> submission list \<Rightarrow> attempt_view \<Rightarrow> attempt_view" where
  "rejudge_refreshed i subs v =
     v\<lparr>av_submissions := subs,
       av_selected := (case find (\<lambda>t. su_id t = i) subs of None \<Rightarrow> av_selected v | Some t \<Rightarrow> Some t)\<rparr>"

definition view_code :: "oid \<Rightarrow> attempt_view \<Rightarrow> attempt_view" where
  "view_code i v =
     (case find (\<lambda>t. su_id t = i) (av_submissions v) of None \<Rightarrow> v | Some t \<Rightarrow> v\<lparr>av_selected := Some t\<rparr>)"

subsection \<open>What the lists promise\<close>

lemma listed_once:
  assumes "as_start a \<le> as_end a" and "a \<in> set as"
  shows "(if a \<in> set (active_list now as) then 1 else 0) + (if a \<in> set (upcoming_list now as) then 1 else 0) +
    (if a \<in> set (past_list now as) then 1 else 0) = (1 :: nat)"
  using assms by (auto simp: active_list_def upcoming_list_def past_list_def)

text \<open>The management page calls an assessment live that students can no longer start.\<close>

lemma completed_shown_live:
  assumes "as_status a = Completed" and "as_start a \<le> now" and "now \<le> as_end a"
  shows "management_label now a = ''LIVE NOW''" and "a \<in> set as \<Longrightarrow> a \<in> set (past_list now as)"
  using assms by (auto simp: management_label_def past_list_def)

text \<open>C38: a student is offered to start an assessment exactly when the server would create an attempt, except
  that the page does not look at the lock and at deleted problems; with an attempt, the page leads to it, to
  the exam while it is active and to the result afterwards, and so does a start.\<close>

theorem start_offered_meets_server:
  assumes "getAssessmentById aid u w = Some s" and "au_role u = Student" and "au_id u = Some sid"
    and "m = getMyAssessmentAttempt aid (au_id u) w"
  shows "((\<exists>a. start_read shuffle nid aid u now w = Proceed a) \<longleftrightarrow>
      action_of (Some Student) s m now = Start_Offered \<and> \<not> as_locked s \<and> problems_present w (as_problems s)) \<and>
     (\<forall>a. start_read shuffle nid aid u now w = Existing a \<longrightarrow>
        action_of (Some Student) s m now =
          (case start_target a of Exam_Path i \<Rightarrow> Continue_Attempt i | Result_Path i \<Rightarrow> See_Results i))"
proof -
  have s: "assessments_find w aid (scope_of u) = Some s"
    using assms(1) by (auto simp: getAssessmentById_def split: option.splits if_splits)
  have m: "m = attempts_find_one w aid sid" by (simp add: assms(3,4) getMyAssessmentAttempt_def)
  show ?thesis
    using problem_refs_present [of w "as_problems s"] problem_refs_missing [of w "as_problems s"] assms(3)
    by (cases m; cases "problems_present w (as_problems s)")
       (auto simp: start_read_def s m [symmetric] action_of_def isAvailable_def start_target_def)
qed

lemma start_offered_meets_server_witness:
  "action_of (Some Student) sample_assessment None 1000 = Start_Offered \<and>
   (\<exists>a. start_read (\<lambda>x. x) 30 10 student_auth 1000 fresh_world = Proceed a)"
proof -
  have g: "getAssessmentById 10 student_auth fresh_world = Some sample_assessment"
    by (simp add: getAssessmentById_def assessments_find_def student_auth_def collegeScopeFor_def in_scope_def fresh_world_def sample_defs)
  have m: "None = getMyAssessmentAttempt 10 (au_id student_auth) fresh_world"
    by (simp add: getMyAssessmentAttempt_def attempts_find_one_def fresh_world_def student_auth_def)
  have "action_of (Some Student) sample_assessment None 1000 = Start_Offered" "\<not> as_locked sample_assessment"
    "problems_present fresh_world (as_problems sample_assessment)"
    by (simp_all add: action_of_def isAvailable_def problems_present_def problems_find_def fresh_world_def sample_defs)
  with start_offered_meets_server [OF g _ _ m, of 2 "\<lambda>x. x" 30 1000] show ?thesis
    by (simp add: student_auth_def)
qed

subsection \<open>No attempt starts by accident\<close>

definition way_to_start :: "details_event list" where
  "way_to_start = [Start_Button, Agree True, Begin_Button, Enter_Button, Fullscreen True]"

definition reached :: "nat \<Rightarrow> details_event list \<Rightarrow> bool" where
  "reached n es \<longleftrightarrow> subseq (take n way_to_start) es"

definition dialogs_ok :: "details_event list \<Rightarrow> details \<Rightarrow> bool" where
  "dialogs_ok es d \<longleftrightarrow> (de_instructions d \<longrightarrow> reached 1 es) \<and> (de_agreed d \<longrightarrow> reached 2 es) \<and>
     (de_prompt d \<longrightarrow> reached 3 es) \<and> (0 < de_listeners d \<longrightarrow> reached 4 es) \<and> (0 < de_sent d \<longrightarrow> reached 5 es)"

lemma reached_more: "reached n es \<Longrightarrow> reached n (es @ [e])"
  by (simp add: reached_def list_emb_prefix)

lemma reached_next:
  assumes "reached n es" and "n < 5" and "e = way_to_start ! n"
  shows "reached (Suc n) (es @ [e])"
proof -
  have "take (Suc n) way_to_start = take n way_to_start @ [e]"
    using take_Suc_conv_app_nth [of n way_to_start] assms(2,3) by (simp add: way_to_start_def del: take_Suc_Cons)
  then show ?thesis using assms(1) by (simp add: reached_def list_emb_append_mono)
qed

lemma step_dialogs: "dialogs_ok es d \<Longrightarrow> dialogs_ok (es @ [e]) (details_step supported e d)"
  using reached_more [of _ es e] reached_next [of 0 es e] reached_next [of 1 es e] reached_next [of 2 es e]
    reached_next [of 3 es e] reached_next [of 4 es e]
  by (cases e)
    (auto simp: dialogs_ok_def way_to_start_def enterFullscreenAndStart_def onFsChange_def reached_def [of 0]
       numeral_eq_Suc split: if_splits)

lemma run_dialogs: "dialogs_ok es (details_run supported es)"
proof (induction es rule: rev_induct)
  case Nil
  show ?case by (simp add: dialogs_ok_def details_run_def opened_details_def)
next
  case (snoc e es)
  then show ?case using step_dialogs [of es _ e] by (simp add: details_run_def)
qed

text \<open>The page sends a request to start an attempt only after the student pressed the start button, ticked
  the box under the instructions, went on, asked for full-screen mode, and the page entered it, in this order.\<close>

theorem start_needs_consent:
  assumes "0 < de_sent (details_run supported es)"
  shows "subseq [Start_Button, Agree True, Begin_Button, Enter_Button, Fullscreen True] es"
  using run_dialogs [of es supported] assms by (simp add: dialogs_ok_def reached_def way_to_start_def)

lemma start_needs_consent_witness:
  "subseq [Start_Button, Agree True, Begin_Button, Enter_Button, Fullscreen True]
     [Start_Button, Agree True, Begin_Button, Enter_Button, Denied, Enter_Button, Granted, Fullscreen True]"
  by (rule start_needs_consent [of True])
    (simp add: details_run_def opened_details_def enterFullscreenAndStart_def onFsChange_def)

text \<open>The listener outlives the dialog: a start that was cancelled while the browser asked for permission is
  sent all the same, and a second try after a change that never came sends two requests.\<close>

lemma cancelled_start_is_sent:
  "de_sent (details_run True
     [Start_Button, Agree True, Begin_Button, Enter_Button, Cancel_Prompt, Granted, Fullscreen True]) = 1"
  by (simp add: details_run_def opened_details_def enterFullscreenAndStart_def onFsChange_def)

lemma second_try_sends_twice:
  "de_sent (details_run True
     [Start_Button, Agree True, Begin_Button, Enter_Button, Granted, Enter_Button, Granted, Fullscreen True]) = 2"
  by (simp add: details_run_def opened_details_def enterFullscreenAndStart_def onFsChange_def)

subsection \<open>The breakdown and the score\<close>

lemma default_page:
  assumes "find_page P key (skip_of (JObj [])) (limit_of (JObj [])) xs = Inr ys"
  shows "ys = take 50 (sort_key (\<lambda>x. - key x) (filter P xs))"
  using assms
  by (simp add: find_page_def page_slice_def skip_of_def limit_of_def page_of_def or_val_def
      num_min_def num_max_def)

lemma page_of_all:
  assumes "find_page P key (skip_of (JObj [])) (limit_of (JObj [])) xs = Inr ys" and "length (filter P xs) \<le> 50"
  shows "set ys = {x \<in> set xs. P x}"
  using default_page [OF assms(1)] assms(2) by simp

lemma shown_present:
  assumes "problems_find w j \<noteq> None"
  shows "shown_problem w i = shown_problem w j \<longleftrightarrow> i = j"
proof -
  have "problems_find w k = Some p \<Longrightarrow> pr_id p = k" for k p using problems_store.lookup_sound by blast
  then show ?thesis using assms by (cases "problems_find w i") (auto simp: shown_problem_def)
qed

lemma accepted_verdict: "getProblemResult w subs pid = ''Accepted'' \<longleftrightarrow>
    (\<exists>t \<in> set subs. shown_problem w (su_problem t) = pid \<and> su_status t = Success)"
  by (auto simp: getProblemResult_def Let_def list_ex_iff)

lemma fold_sum: "fold (\<lambda>e acc. acc + f e) es x = (x :: rat) + sum_list (map f es)"
  by (induction es arbitrary: x) (simp_all add: add.assoc)

lemma rows_sum:
  assumes "set subs = {t \<in> set (w_submissions w). su_attempt t = Some i}" and "problems_present w es"
    and "\<forall>e \<in> set es. pe_max_score e \<noteq> 0"
  shows "sum_list (map (\<lambda>e. rr_score (result_row_of w subs e)) es) =
    sum_list (map pe_max_score (filter (\<lambda>e. \<exists>t \<in> set (w_submissions w).
      su_attempt t = Some i \<and> su_status t = Success \<and> su_problem t = pe_problem e) es))"
  using assms(2,3)
proof (induction es)
  case (Cons e es)
  then have "problems_find w (pe_problem e) \<noteq> None" by (simp add: problems_present_def)
  from shown_present [OF this] have "getProblemResult w subs (shown_problem w (pe_problem e)) = ''Accepted'' \<longleftrightarrow>
      (\<exists>t \<in> set (w_submissions w). su_attempt t = Some i \<and> su_status t = Success \<and> su_problem t = pe_problem e)"
    by (auto simp: accepted_verdict assms(1))
  with Cons show ?case by (auto simp: result_row_of_def Let_def score_or_default_def problems_present_def)
qed simp

lemma viewed_score:
  assumes "store_ok w" and "getAssessmentAttemptById i u clk w = (Inr (Some (a, so)), w')"
  shows "\<exists>s. assessments_find w' (at_assessment a) (scope_of u) = Some s \<and> problems_present w' (as_problems s) \<and>
     at_score a = earned w' i s"
proof -
  obtain a0 s where a0: "attempts_find w i (scope_of u) = Some a0"
      and s: "assessments_find w (at_assessment a0) (scope_of u) = Some s"
      and run: "recalculateAttemptScore i (view_timeout (clk 0) i a0 s w) = (Inr (), w')"
      and a: "attempts_find w' i None = Some a"
    using assms(2)
    by (auto simp: getAssessmentAttemptById_def view_attempt_def Let_def split: option.splits sum.splits prod.splits if_splits)
  define w1 where "w1 = view_timeout (clk 0) i a0 s w"
  let ?f = "\<lambda>b :: attempt. b\<lparr>at_status := TimedOut, at_submitted := getExpirationTime a0 s\<rparr>"
  have ids: "distinct (map at_id (w_attempts w))" "distinct (map as_id (w_assessments w))"
    using assms(1) by (simp_all add: store_ok_def)
  note a0' = attempts_repo.find_widen [OF ids(1) a0]
  obtain a1 where a1: "attempts_find w1 i None = Some a1" "at_assessment a1 = at_assessment a0"
  proof (cases "at_status a0 = Active \<and> isAttemptExpired (clk 0) a0 s")
    case True
    then show ?thesis
      using that [of "?f a0"] attempts_repo.update_find_same [OF ids(1) a0', of ?f] by (simp add: w1_def view_timeout_def)
  next
    case False
    then have "w1 = w" by (auto simp: w1_def view_timeout_def)
    then show ?thesis using that [of a0] a0' by simp
  qed
  have ids1: "distinct (map at_id (w_attempts w1))"
    using attempts_repo.update_ids [OF ids(1), of ?f i None] ids(1) by (simp add: w1_def view_timeout_def)
  have s1: "assessments_find w1 (at_assessment a1) None = Some s"
    using assessments_repo.find_widen [OF ids(2) s] by (simp add: w1_def view_timeout_def a1(2))
  have present: "problems_present w1 (as_problems s)"
    using recalculate_missing [OF a1(1) s1] run by (fastforce simp: w1_def)
  let ?g = "\<lambda>b :: attempt. b\<lparr>at_score := earned w1 i s\<rparr>"
  have w': "w' = (if at_score a1 \<noteq> earned w1 i s then snd (attempts_update i ?g None w1) else w1)"
    using recalculate_present [OF a1(1) s1 present] run by (simp add: w1_def)
  have "attempts_find w' i None = Some (?g a1)"
    using attempts_repo.update_find_same [OF ids1 a1(1), of ?g] a1(1) by (simp add: w')
  then have "a = ?g a1" using a by simp
  moreover have "earned w' i s = earned w1 i s" "problems_present w' (as_problems s)"
      "assessments_find w' (at_assessment a0) (scope_of u) = Some s"
    using present s by (simp_all add: w' w1_def earned_def problems_present_def view_timeout_def)
  ultimately show ?thesis using a1(2) by auto
qed

text \<open>C37: what the result page shows adds up: the scores of its rows are the score of the attempt, as long as the
  attempt has at most fifty submissions and every problem is worth something.\<close>

theorem breakdown_adds_up:
  assumes "store_ok w" and "getAssessmentAttemptById i u clk w = (Inr (Some (a, so)), w')"
    and "getAssessmentById (at_assessment a) u w' = Some s" and "getAttemptSubmissions i u (JObj []) w' = Inr subs"
    and "length (filter (\<lambda>t. su_attempt t = Some i) (w_submissions w')) \<le> 50"
    and "\<forall>e \<in> set (as_problems s). pe_max_score e \<noteq> 0"
  shows "sum_list (map (\<lambda>e. rr_score (result_row_of w' subs e)) (as_problems s)) = at_score a \<and>
     sum_list (map (\<lambda>e. rr_max (result_row_of w' subs e)) (as_problems s)) = totalMaxScore s"
proof -
  have "assessments_find w' (at_assessment a) (scope_of u) = Some s"
    using assms(3) by (auto simp: getAssessmentById_def split: option.splits if_splits)
  with viewed_score [OF assms(1,2)] have s: "problems_present w' (as_problems s)" "at_score a = earned w' i s" by auto
  have "set subs = {t \<in> set (w_submissions w'). su_attempt t = Some i}"
    using assms(4,5) by (auto simp: getAttemptSubmissions_def dest: page_of_all split: option.splits sum.splits if_splits)
  from rows_sum [OF this s(1) assms(6)] show ?thesis
    by (simp add: s(2) earned_def totalMaxScore_def fold_sum result_row_of_def Let_def)
qed

definition judged_world :: "submission list \<Rightarrow> world" where
  "judged_world subs = submitted_world\<lparr>w_submissions := subs\<rparr>"

lemma judged_ok: "distinct (map su_id subs) \<Longrightarrow> store_ok (judged_world subs)"
  by (simp add: store_ok_def judged_world_def submitted_world_def sample_defs)

lemma judged_finds:
  "attempts_find (judged_world subs) 30 sc = (if in_scope sc (Some 4) then Some submitted_attempt else None)"
  "assessments_find (judged_world subs) 10 sc = (if in_scope sc (Some 4) then Some sample_assessment else None)"
  "problems_find (judged_world subs) 20 = Some sample_problem"
  "student_ref (judged_world subs) submitted_attempt = Inr 2"
  "w_submissions (judged_world subs) = subs"
  by (simp_all add: attempts_find_def assessments_find_def problems_find_def student_ref_def users_find_def
      judged_world_def submitted_world_def submitted_attempt_def sample_defs)

lemma judged_scope: "in_scope (scope_of student_auth) (Some 4)"
  by (simp add: student_auth_def collegeScopeFor_def in_scope_def)

lemma judged_view:
  "\<exists>so. getAssessmentAttemptById 30 student_auth (\<lambda>k. 9000) (judged_world [judged]) =
     (Inr (Some (submitted_attempt\<lparr>at_score := 50\<rparr>, so)),
      judged_world [judged]\<lparr>w_attempts := [submitted_attempt\<lparr>at_score := 50\<rparr>]\<rparr>)"
proof -
  let ?w = "judged_world [judged]"
  let ?w' = "?w\<lparr>w_attempts := [submitted_attempt\<lparr>at_score := 50\<rparr>]\<rparr>"
  have "earned ?w 30 sample_assessment = 50" "at_score submitted_attempt = 0"
    by (simp_all add: earned_def judged_finds judged_def new_submission_def submitted_attempt_def sample_defs)
  moreover have "snd (attempts_update 30 (\<lambda>b. b\<lparr>at_score := 50\<rparr>) None ?w) = ?w'"
    by (simp add: attempts_update_def judged_world_def submitted_world_def submitted_attempt_def sample_defs)
  moreover have "at_assessment submitted_attempt = 10" by (simp add: submitted_attempt_def sample_defs)
  moreover have "problems_present ?w (as_problems sample_assessment)"
    by (simp add: problems_present_def judged_finds sample_assessment_def)
  ultimately have "recalculateAttemptScore 30 ?w = (Inr (), ?w')"
    by (subst recalculate_present [of ?w 30 submitted_attempt sample_assessment]) (simp_all add: judged_finds)
  then have "getAssessmentAttemptById 30 student_auth (\<lambda>k. 9000) ?w = (view_attempt 30 student_auth sample_assessment ?w', ?w')"
    using judged_scope by (simp add: getAssessmentAttemptById_def judged_finds view_timeout_def submitted_attempt_def
        sample_attempt_def new_attempt_def Let_def)
  then show ?thesis
    by (auto simp: view_attempt_def attempts_find_def student_ref_def users_find_def problem_ref_def problems_find_def
        is_user_def student_auth_def judged_world_def submitted_world_def submitted_attempt_def sample_defs)
qed

lemma breakdown_adds_up_witness:
  "\<exists>a so w'. getAssessmentAttemptById 30 student_auth (\<lambda>k. 9000) (judged_world [judged]) = (Inr (Some (a, so)), w') \<and>
     sum_list (map (\<lambda>e. rr_score (result_row_of w' [judged] e)) (as_problems sample_assessment)) = at_score a"
proof -
  let ?w = "judged_world [judged]" and ?a = "submitted_attempt\<lparr>at_score := 50\<rparr>"
  let ?w' = "?w\<lparr>w_attempts := [?a]\<rparr>"
  obtain so where run: "getAssessmentAttemptById 30 student_auth (\<lambda>k. 9000) ?w = (Inr (Some (?a, so)), ?w')"
    using judged_view by blast
  have s: "getAssessmentById (at_assessment ?a) student_auth ?w' = Some sample_assessment"
    using judged_scope by (simp add: getAssessmentById_def assessments_find_def judged_world_def submitted_world_def
        submitted_attempt_def sample_defs)
  have subs: "getAttemptSubmissions 30 student_auth (JObj []) ?w' = Inr [judged]"
    using judged_scope by (simp add: getAttemptSubmissions_def attempts_find_def student_ref_def users_find_def is_user_def
        find_page_def page_slice_def skip_of_def limit_of_def page_of_def or_val_def num_min_def num_max_def student_auth_def
        judged_world_def submitted_world_def submitted_attempt_def judged_def new_submission_def sample_defs)
  have "length (filter (\<lambda>t. su_attempt t = Some 30) (w_submissions ?w')) \<le> 50"
    and "\<forall>e \<in> set (as_problems sample_assessment). pe_max_score e \<noteq> 0"
    by (simp_all add: judged_finds sample_assessment_def)
  from breakdown_adds_up [OF judged_ok run s subs this] run show ?thesis by auto
qed

text \<open>The page asks for the first fifty submissions only. After fifty further attempts at a problem its accepted
  submission is not among them: the row says that the student failed, while the score counts the problem.\<close>

definition failed_try :: "nat \<Rightarrow> submission" where
  "failed_try k = judged\<lparr>su_id := 1000 + k, su_status := Fail, su_created := 8000\<rparr>"

lemma fifty_tries_hide_success:
  defines "w \<equiv> judged_world (map failed_try [0..<50] @ [judged])"
  shows "getAttemptSubmissions 30 student_auth (JObj []) w = Inr (map failed_try [0..<50])"
    and "rr_verdict (result_row_of w (map failed_try [0..<50]) \<lparr>pe_problem = 20, pe_max_score = 50\<rparr>) = ''Failed''"
    and "earned w 30 sample_assessment = 50"
proof -
  let ?xs = "map failed_try [0..<50]"
  have "filter (\<lambda>s. su_attempt s = Some 30) (?xs @ [judged]) = ?xs @ [judged]"
    by (simp add: filter_map comp_def failed_try_def judged_def new_submission_def sample_submit_def)
  moreover have "sort_key (\<lambda>x. - su_created x) (?xs @ [judged]) = ?xs @ [judged]"
    by (rule sort_key_id_if_sorted) (simp add: sorted_append comp_def failed_try_def judged_def new_submission_def
        map_replicate_const del: upt_rec_numeral)
  ultimately show "getAttemptSubmissions 30 student_auth (JObj []) w = Inr ?xs"
    using judged_scope by (simp add: w_def getAttemptSubmissions_def judged_finds find_page_def page_slice_def skip_of_def
        limit_of_def page_of_def or_val_def num_min_def num_max_def is_user_def student_auth_def del: upt_rec_numeral)
  show "rr_verdict (result_row_of w ?xs \<lparr>pe_problem = 20, pe_max_score = 50\<rparr>) = ''Failed''"
    by (simp add: w_def result_row_of_def getProblemResult_def shown_problem_def judged_finds filter_map comp_def
        failed_try_def judged_def new_submission_def sample_submit_def list_ex_iff Let_def del: upt_rec_numeral)
  show "earned w 30 sample_assessment = 50"
    by (auto simp: w_def earned_def judged_finds judged_def new_submission_def sample_submit_def sample_assessment_def)
qed

subsection \<open>Challenges and the timeline\<close>

text \<open>A challenge the form sends to an attempt that has ended is raised by the server, and the form is gone.\<close>

lemma challenge_is_raised:
  assumes "store_ok w" and "attempts_find w i None = Some a" and "student_ref w a = Inr sid" and "is_user u sid"
    and "at_status a \<noteq> Active" and "handleRaiseChallenge a reason = Some v" and "cast v = Inr v"
  shows "\<exists>b w'. raiseChallenge cast i v u clk w = (Inr (Some b), w') \<and> attempts_find w' i None = Some b \<and>
     ch_reason (at_challenge b) = JStr (js_trim reason) \<and> \<not> challenge_form b"
proof -
  let ?f = "raise_update v v (clk 0) (clk 1)"
  have v: "v = JStr (js_trim reason)" "challenge_form a"
    using assms(6) by (auto simp: handleRaiseChallenge_def split: if_splits)
  have f: "at_id (?f x) = at_id x" "at_college (?f x) = at_college x" for x
    by (simp_all add: raise_update_def push_event_def)
  have ids: "distinct (map at_id (w_attempts w))" using assms(1) by (simp add: store_ok_def)
  have "raiseChallenge cast i v u clk w = (Inr (Some (?f a)), snd (attempts_update i ?f None w))"
    using assms(2-5,7) v attempts_repo.update_result [of i ?f None w]
    by (auto simp: raiseChallenge_def challenge_form_def split: prod.split)
  moreover have "attempts_find (snd (attempts_update i ?f None w)) i None = Some (?f a)"
    using attempts_repo.update_find_same [OF ids assms(2), of ?f] f by simp
  ultimately show ?thesis
    by (simp add: v raise_update_def push_event_def put_value_def challenge_form_def)
qed

lemma timeline_sorted:
  "mset (sortedTimeline a) = mset (at_timeline a)" "sorted (map ev_at (sortedTimeline a))"
  by (simp_all add: sortedTimeline_def)

text \<open>After a rejudge the page shows the submission as pending, in the list and where it is selected, and nothing
  else changed, as long as the selection was not changed before the answer; otherwise another submission is
  shown as pending.\<close>

lemma rejudge_marks:
  assumes "av_selected v = Some t" and "t \<in> set (av_submissions v)"
  shows "\<exists>t' \<in> set (av_submissions (rejudge_started i (Some t) v)).
       av_selected (rejudge_started i (Some t) v) = Some t' \<and> su_id t' = su_id t \<and>
       su_status t' = (if su_id t = i then Pending else su_status t)"
  using assms by (auto simp: rejudge_started_def pending_def)

lemma rejudge_marks_other:
  assumes "su_id t \<noteq> su_id s" and "su_status s \<noteq> Pending"
  shows "map_option su_status (av_selected (rejudge_started (su_id t) (Some t)
      \<lparr>av_submissions = [t, s], av_selected = Some s\<rparr>)) = Some Pending"
  by (simp add: rejudge_started_def pending_def)

end
