(* ===== verification/Client_Shell.thy ===== *)
theory Client_Shell
  imports Accounts Json_Laws
begin

section \<open>The shell of the client\<close>

text \<open>
  \<^verbatim>\<open>frontend/src/App.jsx\<close> and \<^verbatim>\<open>api.js\<close>: the session the browser keeps, its changes by logins, logouts, answers
  with status 401 and other tabs, the routes of the pages with their guards, and the links of the navigation
  bar. The second half compares the guards of the pages with those of the server: every request a page sends
  is looked up in the route tables of theory \<open>Access\<close>.

  The user is the value parsed from the browser's storage. A path is the list of its segments; as the router
  of the client does, literal segments are compared without regard to case.
\<close>

subsection \<open>The session\<close>

record shell =
  sh_stored :: "string option"
  sh_user :: jsval
  sh_path :: "string list"

text \<open>\<^verbatim>\<open>raw ? JSON.parse(raw) : null\<close>; \<open>None\<close> when the text cannot be parsed.\<close>

definition stored_user :: "string option \<Rightarrow> jsval option" where
  "stored_user raw = (case raw of None \<Rightarrow> Some JNull | Some t \<Rightarrow> if t = [] then Some JNull else json_parse t)"

definition initial_user :: "string option \<Rightarrow> jsval" where
  "initial_user raw = (case stored_user raw of None \<Rightarrow> JNull | Some u \<Rightarrow> u)"

definition pathname :: "string list \<Rightarrow> string" where
  "pathname ss = (if ss = [] then ''/'' else concat (map (\<lambda>s. ''/'' @ s) ss))"

definition protectedRoutes :: "string list" where
  "protectedRoutes = [''/add-problem'', ''/my-submissions'', ''/assessments'', ''/assessment-attempt'', ''/admin'']"

definition login_path :: "string list" where
  "login_path = [''login'']"

definition syncAuth :: "shell \<Rightarrow> shell" where
  "syncAuth s =
     (case stored_user (sh_stored s) of
        None \<Rightarrow> s\<lparr>sh_user := JNull\<rparr>
      | Some u \<Rightarrow>
          s\<lparr>sh_user := u,
            sh_path := (if truthy (sh_user s) \<and> \<not> truthy u \<and>
                           list_ex (\<lambda>p. starts_with p (pathname (sh_path s))) protectedRoutes
                        then login_path else sh_path s)\<rparr>)"

definition open_shell :: "string option \<Rightarrow> string list \<Rightarrow> shell" where
  "open_shell raw path = \<lparr>sh_stored = raw, sh_user = initial_user raw, sh_path = path\<rparr>"

text \<open>The interceptor of \<^verbatim>\<open>api.js\<close> for an answer with status 401, the logout (whose own request may fail), and the
  end of a login or a signup, which keeps the user of the response.\<close>

definition unauthorized :: "shell \<Rightarrow> shell" where
  "unauthorized s = syncAuth (s\<lparr>sh_stored := None\<rparr>)"

definition handleLogout :: "shell \<Rightarrow> shell" where
  "handleLogout s = (syncAuth (s\<lparr>sh_stored := None\<rparr>))\<lparr>sh_path := login_path\<rparr>"

definition logged_in :: "jsval \<Rightarrow> shell \<Rightarrow> shell" where
  "logged_in u s =
     (syncAuth (s\<lparr>sh_stored := Some (case json_str u of Some t \<Rightarrow> t | None \<Rightarrow> ''undefined'')\<rparr>))\<lparr>sh_path := []\<rparr>"

text \<open>Another tab changed the storage: the browser reports the key (\<open>None\<close> when everything was cleared).\<close>

definition handleStorage :: "string option \<Rightarrow> shell \<Rightarrow> shell" where
  "handleStorage key s =
     (if key = None \<or> key = Some ''user'' \<or> key = Some ''token'' then syncAuth s else s)"

datatype shell_event =
    Unauthorized | Logout | Login jsval | Other_Tab "string option" | Navigate "string list"

fun shell_step :: "shell_event \<Rightarrow> shell \<Rightarrow> shell" where
  "shell_step Unauthorized s = unauthorized s"
| "shell_step Logout s = handleLogout s"
| "shell_step (Login u) s = logged_in u s"
| "shell_step (Other_Tab raw) s = handleStorage (Some ''user'') (s\<lparr>sh_stored := raw\<rparr>)"
| "shell_step (Navigate p) s = s\<lparr>sh_path := p\<rparr>"

subsection \<open>The routes of the pages\<close>

datatype page =
    ProblemListPage | AssessmentListPage | QuestionBankPage | AddQuestionPage | EditQuestionPage
  | AssessmentDetailsPage | AssessmentWorkspacePage | AssessmentResultPage | AssessmentManagementPage
  | AddAssessmentPage | EditAssessmentPage | AssessmentPreviewPage | AssessmentResultsPage
  | AssessmentAttemptDetailPage | SystemDashboardPage | UserManagementPage | BillingPage | ProblemPage
  | AddProblemPage | EditProblemPage | LoginPage | SignupPage | MySubmissionsPage

text \<open>No guard, \<^verbatim>\<open>RequireAuth\<close> (which \<^verbatim>\<open>/assessments\<close> writes out), \<^verbatim>\<open>RequireRole\<close>.\<close>

datatype page_guard = Everyone | RequireAuth | RequireRole "string list"

definition has_role :: "string list \<Rightarrow> jsval \<Rightarrow> bool" where
  "has_role rs u \<longleftrightarrow> truthy u \<and> list_ex (\<lambda>r. oget u ''role'' = JStr r) rs"

fun page_check :: "page_guard \<Rightarrow> jsval \<Rightarrow> string list option" where
  "page_check Everyone u = None"
| "page_check RequireAuth u = (if truthy u then None else Some login_path)"
| "page_check (RequireRole rs) u = (if has_role rs u then None else if truthy u then Some [] else Some login_path)"

definition staff :: page_guard where
  "staff = RequireRole [''admin'', ''faculty'', ''superadmin'']"

definition student_only :: page_guard where
  "student_only = RequireRole [''student'']"

definition shell_routes :: "(segment list \<times> page_guard \<times> page) list" where
  "shell_routes =
    [([], Everyone, ProblemListPage),
     ([Lit ''assessments''], RequireAuth, AssessmentListPage),
     ([Lit ''questions''], staff, QuestionBankPage),
     ([Lit ''questions'', Lit ''add''], staff, AddQuestionPage),
     ([Lit ''questions'', Param ''id'', Lit ''edit''], staff, EditQuestionPage),
     ([Lit ''assessments'', Param ''id''], RequireAuth, AssessmentDetailsPage),
     ([Lit ''assessment-attempt'', Param ''attemptId''], student_only, AssessmentWorkspacePage),
     ([Lit ''assessment-attempt'', Param ''attemptId'', Lit ''result''], student_only, AssessmentResultPage),
     ([Lit ''admin'', Lit ''assessments''], staff, AssessmentManagementPage),
     ([Lit ''admin'', Lit ''assessments'', Lit ''add''], staff, AddAssessmentPage),
     ([Lit ''admin'', Lit ''assessments'', Param ''id'', Lit ''edit''], staff, EditAssessmentPage),
     ([Lit ''admin'', Lit ''assessments'', Param ''id'', Lit ''preview''], staff, AssessmentPreviewPage),
     ([Lit ''admin'', Lit ''assessments'', Param ''id'', Lit ''results''], staff, AssessmentResultsPage),
     ([Lit ''admin'', Lit ''assessment-attempt'', Param ''attemptId''], staff, AssessmentAttemptDetailPage),
     ([Lit ''admin'', Lit ''system''], staff, SystemDashboardPage),
     ([Lit ''admin'', Lit ''users''], staff, UserManagementPage),
     ([Lit ''admin'', Lit ''billing''], RequireRole [''admin'', ''superadmin''], BillingPage),
     ([Lit ''problems'', Param ''_id''], Everyone, ProblemPage),
     ([Lit ''add-problem''], staff, AddProblemPage),
     ([Lit ''problems'', Param ''_id'', Lit ''edit''], staff, EditProblemPage),
     ([Lit ''login''], Everyone, LoginPage),
     ([Lit ''signup''], Everyone, SignupPage),
     ([Lit ''my-submissions''], RequireAuth, MySubmissionsPage)]"

text \<open>What a path shows to a user: a page, a redirect, or nothing.\<close>

datatype outcome = Page page | Redirect "string list" | Blank

definition page_route :: "string list \<Rightarrow> (segment list \<times> page_guard \<times> page) option" where
  "page_route path = find (\<lambda>(ss, g, p). match_path ss path) shell_routes"

definition outcome :: "jsval \<Rightarrow> string list \<Rightarrow> outcome" where
  "outcome u path =
     (case page_route path of
        None \<Rightarrow> Blank
      | Some (ss, g, p) \<Rightarrow> (case page_check g u of None \<Rightarrow> Page p | Some t \<Rightarrow> Redirect t))"

definition shown :: "shell \<Rightarrow> outcome" where
  "shown s = (case outcome (sh_user s) (sh_path s) of Redirect t \<Rightarrow> outcome (sh_user s) t | r \<Rightarrow> r)"

definition public_pages :: "page list" where
  "public_pages = [ProblemListPage, ProblemPage, LoginPage, SignupPage]"

text \<open>The navigation bar: a link is its path; \<open>isAssessmentRoute\<close> hides the bar during an exam.\<close>

definition canCreateProblem :: "jsval \<Rightarrow> bool" where
  "canCreateProblem u = has_role [''admin'', ''faculty'', ''superadmin''] u"

definition isCollegeAdmin :: "jsval \<Rightarrow> bool" where
  "isCollegeAdmin u = has_role [''admin'', ''superadmin''] u"

definition nav_links :: "jsval \<Rightarrow> (string list \<times> page) list" where
  "nav_links u =
     [([], ProblemListPage)] @
     (if truthy u then [([''assessments''], AssessmentListPage)] else []) @
     (if canCreateProblem u
      then [([''admin'', ''assessments''], AssessmentManagementPage), ([''admin'', ''users''], UserManagementPage),
            ([''admin'', ''system''], SystemDashboardPage)] else []) @
     (if isCollegeAdmin u then [([''admin'', ''billing''], BillingPage)] else []) @
     (if canCreateProblem u then [([''add-problem''], AddProblemPage)] else []) @
     (if truthy u then [([''my-submissions''], MySubmissionsPage)] else [([''login''], LoginPage)])"

definition isAssessmentRoute :: "string list \<Rightarrow> bool" where
  "isAssessmentRoute path \<longleftrightarrow>
     includes_str ''/assessment-attempt/'' (pathname path) \<and> \<not> includes_str ''/result'' (pathname path)"

lemmas shell_tables = shell_routes_def staff_def student_only_def

text \<open>The words of the route tables are their own lower case.\<close>

lemma lower_chars:
  "lower_char CHR ''-'' = CHR ''-''" "lower_char CHR ''0'' = CHR ''0''" "lower_char CHR ''1'' = CHR ''1''"
  "lower_char CHR ''2'' = CHR ''2''" "lower_char CHR ''3'' = CHR ''3''" "lower_char CHR ''4'' = CHR ''4''"
  "lower_char CHR ''5'' = CHR ''5''" "lower_char CHR ''6'' = CHR ''6''" "lower_char CHR ''7'' = CHR ''7''"
  "lower_char CHR ''8'' = CHR ''8''" "lower_char CHR ''9'' = CHR ''9''" "lower_char CHR ''_'' = CHR ''_''"
  "lower_char CHR ''a'' = CHR ''a''" "lower_char CHR ''b'' = CHR ''b''" "lower_char CHR ''c'' = CHR ''c''"
  "lower_char CHR ''d'' = CHR ''d''" "lower_char CHR ''e'' = CHR ''e''" "lower_char CHR ''f'' = CHR ''f''"
  "lower_char CHR ''g'' = CHR ''g''" "lower_char CHR ''h'' = CHR ''h''" "lower_char CHR ''i'' = CHR ''i''"
  "lower_char CHR ''j'' = CHR ''j''" "lower_char CHR ''k'' = CHR ''k''" "lower_char CHR ''l'' = CHR ''l''"
  "lower_char CHR ''m'' = CHR ''m''" "lower_char CHR ''n'' = CHR ''n''" "lower_char CHR ''o'' = CHR ''o''"
  "lower_char CHR ''p'' = CHR ''p''" "lower_char CHR ''q'' = CHR ''q''" "lower_char CHR ''r'' = CHR ''r''"
  "lower_char CHR ''s'' = CHR ''s''" "lower_char CHR ''t'' = CHR ''t''" "lower_char CHR ''u'' = CHR ''u''"
  "lower_char CHR ''v'' = CHR ''v''" "lower_char CHR ''w'' = CHR ''w''" "lower_char CHR ''x'' = CHR ''x''"
  "lower_char CHR ''y'' = CHR ''y''" "lower_char CHR ''z'' = CHR ''z''"
  by (simp_all add: lower_char_def is_upper_def)

lemma nav_routes:
  "page_route [] = Some ([], Everyone, ProblemListPage)"
  "page_route [''assessments''] = Some ([Lit ''assessments''], RequireAuth, AssessmentListPage)"
  "page_route [''admin'', ''assessments''] = Some ([Lit ''admin'', Lit ''assessments''], staff, AssessmentManagementPage)"
  "page_route [''admin'', ''users''] = Some ([Lit ''admin'', Lit ''users''], staff, UserManagementPage)"
  "page_route [''admin'', ''system''] = Some ([Lit ''admin'', Lit ''system''], staff, SystemDashboardPage)"
  "page_route [''admin'', ''billing''] =
     Some ([Lit ''admin'', Lit ''billing''], RequireRole [''admin'', ''superadmin''], BillingPage)"
  "page_route [''add-problem''] = Some ([Lit ''add-problem''], staff, AddProblemPage)"
  "page_route [''login''] = Some ([Lit ''login''], Everyone, LoginPage)"
  "page_route [''my-submissions''] = Some ([Lit ''my-submissions''], RequireAuth, MySubmissionsPage)"
  by (simp_all add: page_route_def shell_tables js_lower_def lower_chars)

lemma links_open: "(path, p) \<in> set (nav_links u) \<Longrightarrow> outcome u path = Page p"
  by (auto simp: nav_links_def outcome_def nav_routes staff_def canCreateProblem_def isCollegeAdmin_def has_role_def
      split: if_splits)

subsection \<open>The session follows the storage\<close>

lemma syncAuth_user: "sh_user (syncAuth s) = initial_user (sh_stored s)" "sh_stored (syncAuth s) = sh_stored s"
  by (simp_all add: syncAuth_def initial_user_def split: option.split)

lemma step_synced:
  "sh_user s = initial_user (sh_stored s) \<Longrightarrow> sh_user (shell_step e s) = initial_user (sh_stored (shell_step e s))"
  by (cases e) (simp_all add: unauthorized_def handleLogout_def logged_in_def handleStorage_def syncAuth_user)

interpretation shell: free_machine shell_step "\<lambda>s. sh_user s = initial_user (sh_stored s)"
  by unfold_locales (rule step_synced)

lemma stored_back:
  assumes "plain_value u"
  shows "initial_user (Some (case json_str u of Some t \<Rightarrow> t | None \<Rightarrow> ''undefined'')) = u"
proof -
  obtain t where t: "json_str u = Some t" "json_parse t = Some u" using json_roundtrip [OF assms] .
  have "t \<noteq> []"
  proof
    assume "t = []"
    with t(2) show False by (simp add: json_parse_def skip_ws_def numeral_2_eq_2)
  qed
  with t show ?thesis by (simp add: initial_user_def stored_user_def)
qed

lemma nobody_sees: "\<not> truthy u \<Longrightarrow> outcome u path = Page p \<Longrightarrow> p \<in> set public_pages"
  by (auto simp: outcome_def page_route_def shell_tables public_pages_def has_role_def dest!: find_member
      split: option.splits if_splits)

lemma redirect_targets: "outcome u path = Redirect t \<Longrightarrow> t = [] \<or> t = login_path"
  by (auto simp: outcome_def has_role_def split: option.splits prod.splits if_splits elim!: page_check.elims)

lemma targets_open: "outcome u [] = Page ProblemListPage" "outcome u login_path = Page LoginPage"
  by (simp_all add: outcome_def nav_routes login_path_def)

text \<open>The user the client works with is always the one in the browser's storage, over any sequence of logins,
  logouts, refused requests, changes in other tabs and navigations, so a reload changes nothing; after a logout
  or an answer with status 401 there is none and only public pages are shown, and after a login with a user that
  JSON can hold it is that user; a redirect always leads to a page.\<close>

theorem session_in_sync:
  assumes "s = fold shell_step es (open_shell raw path)"
  shows "sh_user s = initial_user (sh_stored s) \<and>
     (e = Unauthorized \<or> e = Logout \<longrightarrow>
        sh_user (shell_step e s) = JNull \<and> (\<forall>q p. shown ((shell_step e s)\<lparr>sh_path := q\<rparr>) = Page p \<longrightarrow> p \<in> set public_pages)) \<and>
     (plain_value u \<longrightarrow> sh_user (shell_step (Login u) s) = u) \<and>
     (\<forall>t. shown s \<noteq> Redirect t)"
proof -
  have "sh_user s = initial_user (sh_stored s)"
    unfolding assms by (rule shell.free_run) (simp add: open_shell_def)
  moreover have out: "sh_user (shell_step e s) = JNull" if "e = Unauthorized \<or> e = Logout"
    using that by (auto simp: unauthorized_def handleLogout_def syncAuth_user initial_user_def stored_user_def)
  moreover have "p \<in> set public_pages"
    if "e = Unauthorized \<or> e = Logout" "shown ((shell_step e s)\<lparr>sh_path := q\<rparr>) = Page p" for p q
    using out [OF that(1)] that(2) nobody_sees [of JNull] by (auto simp: shown_def split: outcome.splits)
  moreover have "shown s \<noteq> Redirect t" for t
    using redirect_targets [of "sh_user s" "sh_path s"] targets_open
    by (auto simp: shown_def split: outcome.splits)
  moreover have "sh_user (shell_step (Login u) s) = u" if "plain_value u"
    using stored_back [OF that] by (simp add: logged_in_def syncAuth_user)
  ultimately show ?thesis by blast
qed

definition sample_session_user :: jsval where
  "sample_session_user = JObj [(''name'', JStr ''Ann''), (''role'', JStr ''student'')]"

lemma session_in_sync_witness:
  "sh_user (fold shell_step [Login sample_session_user, Navigate [''assessments'']] (open_shell None [])) = sample_session_user \<and>
   sh_user (fold shell_step [Login sample_session_user, Navigate [''assessments''], Unauthorized] (open_shell None [])) = JNull"
proof -
  have "plain_value sample_session_user" by (simp add: sample_session_user_def)
  with session_in_sync [OF refl, of "[]" None "[]" Unauthorized sample_session_user]
    session_in_sync [OF refl, of "[Login sample_session_user, Navigate [''assessments'']]" None "[]" Unauthorized]
  show ?thesis by simp
qed

subsection \<open>The pages and the guards of the server\<close>

text \<open>
  The requests a page can send for a signed-in user with role \<open>r\<close>, below \<^verbatim>\<open>/api/v1\<close>; \<open>i\<close> stands for an object
  id. Start of an attempt and the list of colleges are offered to a student and a superadmin only.
  \<^verbatim>\<open>SystemDashboardPage\<close> is rendered without its \<^verbatim>\<open>user\<close> property, so it always takes the branch of the staff.
\<close>

primrec page_requests :: "string \<Rightarrow> role \<Rightarrow> page \<Rightarrow> (string \<times> string list) list" where
  "page_requests i r ProblemListPage =
     [(''GET'', [''problems''])]"
| "page_requests i r AssessmentListPage =
     [(''GET'', [''assessments''])]"
| "page_requests i r QuestionBankPage =
     [(''GET'', [''questions'']), (''GET'', [''questions'', ''tags'']), (''DELETE'', [''questions'', i])]"
| "page_requests i r AddQuestionPage =
     [(''POST'', [''questions''])]"
| "page_requests i r EditQuestionPage =
     [(''GET'', [''questions'', i]), (''PUT'', [''questions'', i])]"
| "page_requests i r AssessmentWorkspacePage =
     [(''GET'', [''assessments'', ''attempts'', i]), (''GET'', [''assessments'', i]),
      (''GET'', [''assessments'', i, ''announcements'']),
      (''POST'', [''assessments'', ''attempts'', i, ''submit'']),
      (''POST'', [''assessments'', ''attempts'', i, ''log-event'']),
      (''POST'', [''assessments'', ''attempts'', i, ''draft'']), (''GET'', [''submissions'', i]),
      (''POST'', [''problems'', i, ''run'']), (''POST'', [''submissions''])]"
| "page_requests i r AssessmentResultPage =
     [(''GET'', [''assessments'', ''attempts'', i]), (''GET'', [''assessments'', i]),
      (''GET'', [''assessments'', ''attempts'', i, ''submissions'']),
      (''POST'', [''assessments'', ''attempts'', i, ''challenge''])]"
| "page_requests i r AssessmentManagementPage =
     [(''GET'', [''assessments'']), (''DELETE'', [''assessments'', i])]"
| "page_requests i r AddAssessmentPage =
     [(''GET'', [''problems'']), (''POST'', [''assessments''])]"
| "page_requests i r EditAssessmentPage =
     [(''GET'', [''assessments'', i]), (''GET'', [''problems'']), (''PUT'', [''assessments'', i])]"
| "page_requests i r AssessmentPreviewPage =
     [(''GET'', [''assessments'', i])]"
| "page_requests i r AssessmentResultsPage =
     [(''GET'', [''assessments'', i]), (''GET'', [''assessments'', i, ''attendance'']),
      (''GET'', [''assessments'', i, ''analytics'']), (''POST'', [''assessments'', i, ''announcements'']),
      (''POST'', [''admin'', ''rejudge'', ''assessment'', i]),
      (''POST'', [''admin'', ''rejudge'', ''problem'', i]), (''POST'', [''assessments'', i, ''lock'']),
      (''POST'', [''assessments'', i, ''unlock'']), (''POST'', [''assessments'', ''attempts'', i, ''grace'']),
      (''POST'', [''assessments'', ''attempts'', i, ''challenge'', ''resolve''])]"
| "page_requests i r AssessmentAttemptDetailPage =
     [(''GET'', [''assessments'', ''attempts'', i]),
      (''GET'', [''assessments'', ''attempts'', i, ''submissions'']),
      (''POST'', [''admin'', ''rejudge'', ''submission'', i])]"
| "page_requests i r SystemDashboardPage =
     [(''GET'', [''health'', ''banner'']), (''POST'', [''admin'', ''banner'']),
      (''GET'', [''admin'', ''backup'']), (''POST'', [''admin'', ''restore'']),
      (''GET'', [''admin'', ''system-stats'']), (''GET'', [''admin'', ''audit-logs''])]"
| "page_requests i r UserManagementPage =
     [(''GET'', [''admin'', ''users'']), (''POST'', [''admin'', ''bulk-import-students'']),
      (''POST'', [''admin'', ''users'', i, ''reset-password''])]"
| "page_requests i r AddProblemPage =
     [(''POST'', [''problems'']), (''POST'', [''preview'', ''validate''])]"
| "page_requests i r EditProblemPage =
     [(''GET'', [''problems'', i]), (''PUT'', [''problems'', i]), (''POST'', [''preview'', ''validate''])]"
| "page_requests i r LoginPage =
     [(''POST'', [''auth'', ''login''])]"
| "page_requests i r SignupPage =
     [(''POST'', [''auth'', ''signup''])]"
| "page_requests i r MySubmissionsPage =
     [(''GET'', [''submissions'', ''my'']), (''GET'', [''submissions'', i])]"
| "page_requests i r ProblemPage =
     [(''GET'', [''problems'', i]), (''GET'', [''problems'', i, ''stats'']),
      (''GET'', [''submissions'', ''my'']), (''GET'', [''submissions'', i]),
      (''POST'', [''problems'', i, ''run'']), (''POST'', [''submissions''])]"
| "page_requests i r AssessmentDetailsPage =
     [(''GET'', [''assessments'', i]), (''GET'', [''assessments'', i, ''my-attempt''])] @
     (if r = Student then [(''POST'', [''assessments'', i, ''start''])] else [])"
| "page_requests i r BillingPage =
     [(''GET'', [''billing'', ''status'']), (''POST'', [''billing'', ''checkout'']), (''POST'', [''billing'', ''portal''])] @
     (if r = Superadmin then [(''GET'', [''billing'', ''colleges'']), (''PATCH'', [''billing'', ''colleges'', i, ''plan''])] else [])"

text \<open>The guards in front of a request and the handler behind them, by the route tables.\<close>

definition api_route :: "string \<Rightarrow> string list \<Rightarrow> (guard list \<times> string) option" where
  "api_route meth path =
     (case path of
        [] \<Rightarrow> None
      | p # ps \<Rightarrow>
          (case find (\<lambda>m. js_lower (prefix m) = js_lower p) mounts of
             None \<Rightarrow> None
           | Some m \<Rightarrow> map_option (\<lambda>r. (mount_guards m @ guards r, handler r)) (find_route (routes m) meth ps)))"

lemma js_lower_simps: "js_lower [] = []" "js_lower (c # cs) = lower_char c # js_lower cs"
  by (simp_all add: js_lower_def)

lemma id_is_no_word: "length i = 24 \<Longrightarrow> length s \<noteq> 24 \<Longrightarrow> s \<noteq> js_lower i"
  by (auto simp: js_lower_def)

lemma api_mounts:
  "api_route meth (''problems'' # ps) = map_option (\<lambda>r. (guards r, handler r)) (find_route problems_routes meth ps)"
  "api_route meth (''assessments'' # ps) = map_option (\<lambda>r. (guards r, handler r)) (find_route assessments_routes meth ps)"
  "api_route meth (''submissions'' # ps) = map_option (\<lambda>r. (guards r, handler r)) (find_route submissions_routes meth ps)"
  "api_route meth (''preview'' # ps) = map_option (\<lambda>r. (guards r, handler r)) (find_route preview_routes meth ps)"
  "api_route meth (''auth'' # ps) = map_option (\<lambda>r. (guards r, handler r)) (find_route auth_routes meth ps)"
  "api_route meth (''health'' # ps) = map_option (\<lambda>r. (guards r, handler r)) (find_route health_routes meth ps)"
  "api_route meth (''admin'' # ps) = map_option (\<lambda>r. (guards r, handler r)) (find_route admin_routes meth ps)"
  "api_route meth (''questions'' # ps) = map_option (\<lambda>r. (guards r, handler r)) (find_route questions_routes meth ps)"
  "api_route meth (''billing'' # ps) = map_option (\<lambda>r. (guards r, handler r)) (find_route billing_routes meth ps)"
  by (simp_all add: api_route_def mounts_def js_lower_simps lower_chars)

lemma api_table:
  assumes "length i = 24"
  shows
  "api_route ''GET'' [''problems''] = Some ([OptionalToken], ''listProblems'')"
  "api_route ''GET'' [''assessments''] = Some ([OptionalToken], ''listAssessments'')"
  "api_route ''GET'' [''questions''] = Some ([VerifyToken, AuthorizeRoles [Faculty, Admin, Superadmin]], ''listQuestions'')"
  "api_route ''GET'' [''questions'', ''tags''] = Some ([VerifyToken, AuthorizeRoles [Faculty, Admin, Superadmin]], ''getTags'')"
  "api_route ''DELETE'' [''questions'', i] = Some ([VerifyToken, AuthorizeRoles [Faculty, Admin, Superadmin]], ''deleteQuestion'')"
  "api_route ''POST'' [''questions''] = Some ([VerifyToken, AuthorizeRoles [Faculty, Admin, Superadmin]], ''createQuestion'')"
  "api_route ''GET'' [''questions'', i] = Some ([VerifyToken, AuthorizeRoles [Faculty, Admin, Superadmin]], ''getQuestion'')"
  "api_route ''PUT'' [''questions'', i] = Some ([VerifyToken, AuthorizeRoles [Faculty, Admin, Superadmin]], ''updateQuestion'')"
  "api_route ''GET'' [''assessments'', ''attempts'', i] = Some ([VerifyToken], ''getAssessmentAttemptById'')"
  "api_route ''GET'' [''assessments'', i] = Some ([VerifyToken], ''getAssessmentById'')"
  "api_route ''GET'' [''assessments'', i, ''announcements''] = Some ([VerifyToken], ''getAnnouncements'')"
  "api_route ''POST'' [''assessments'', ''attempts'', i, ''submit''] = Some ([VerifyToken, AuthorizeRoles [Student, Admin, Faculty, Superadmin]], ''submitAssessment'')"
  "api_route ''POST'' [''assessments'', ''attempts'', i, ''log-event''] = Some ([VerifyToken, AuthorizeRoles [Student]], ''logAntiCheatingEvent'')"
  "api_route ''POST'' [''assessments'', ''attempts'', i, ''draft''] = Some ([VerifyToken, AuthorizeRoles [Student, Admin, Faculty, Superadmin]], ''saveDraft'')"
  "api_route ''GET'' [''submissions'', i] = Some ([VerifyToken], ''getSubmissionById'')"
  "api_route ''POST'' [''problems'', i, ''run''] = Some ([VerifyToken], ''runProblem'')"
  "api_route ''POST'' [''submissions''] = Some ([VerifyToken, ValidateBody ''submission''], ''submitSolution'')"
  "api_route ''GET'' [''assessments'', ''attempts'', i, ''submissions''] = Some ([VerifyToken], ''getAttemptSubmissions'')"
  "api_route ''POST'' [''assessments'', ''attempts'', i, ''challenge''] = Some ([VerifyToken, AuthorizeRoles [Student]], ''raiseChallenge'')"
  "api_route ''DELETE'' [''assessments'', i] = Some ([VerifyToken, AuthorizeRoles [Admin, Superadmin]], ''deleteAssessment'')"
  "api_route ''POST'' [''assessments''] = Some ([VerifyToken, AuthorizeRoles [Admin, Faculty, Superadmin]], ''createAssessment'')"
  "api_route ''PUT'' [''assessments'', i] = Some ([VerifyToken, AuthorizeRoles [Admin, Faculty, Superadmin]], ''updateAssessment'')"
  "api_route ''GET'' [''assessments'', i, ''attendance''] = Some ([VerifyToken, AuthorizeRoles [Admin, Faculty, Superadmin]], ''getAssessmentAttendance'')"
  "api_route ''GET'' [''assessments'', i, ''analytics''] = Some ([VerifyToken, AuthorizeRoles [Admin, Faculty, Superadmin]], ''getAssessmentAnalytics'')"
  "api_route ''POST'' [''assessments'', i, ''announcements''] = Some ([VerifyToken, AuthorizeRoles [Admin, Faculty, Superadmin]], ''createAnnouncement'')"
  "api_route ''POST'' [''admin'', ''rejudge'', ''assessment'', i] = Some ([VerifyToken, AuthorizeRoles [Admin, Superadmin, Faculty]], ''rejudgeAssessment'')"
  "api_route ''POST'' [''admin'', ''rejudge'', ''problem'', i] = Some ([VerifyToken, AuthorizeRoles [Admin, Superadmin, Faculty]], ''rejudgeProblem'')"
  "api_route ''POST'' [''assessments'', i, ''lock''] = Some ([VerifyToken, AuthorizeRoles [Admin, Faculty, Superadmin]], ''lockAssessment'')"
  "api_route ''POST'' [''assessments'', i, ''unlock''] = Some ([VerifyToken, AuthorizeRoles [Admin, Faculty, Superadmin]], ''unlockAssessment'')"
  "api_route ''POST'' [''assessments'', ''attempts'', i, ''grace''] = Some ([VerifyToken, AuthorizeRoles [Admin, Faculty, Superadmin]], ''addGraceTime'')"
  "api_route ''POST'' [''assessments'', ''attempts'', i, ''challenge'', ''resolve''] = Some ([VerifyToken, AuthorizeRoles [Admin, Faculty, Superadmin]], ''resolveChallenge'')"
  "api_route ''POST'' [''admin'', ''rejudge'', ''submission'', i] = Some ([VerifyToken, AuthorizeRoles [Admin, Superadmin, Faculty]], ''rejudgeSubmission'')"
  "api_route ''GET'' [''health'', ''banner''] = Some ([], ''getBanner'')"
  "api_route ''POST'' [''admin'', ''banner''] = Some ([VerifyToken, AuthorizeRoles [Admin, Superadmin, Faculty]], ''updateBanner'')"
  "api_route ''GET'' [''admin'', ''backup''] = Some ([VerifyToken, AuthorizeRoles [Superadmin]], ''backup'')"
  "api_route ''POST'' [''admin'', ''restore''] = Some ([VerifyToken, AuthorizeRoles [Superadmin]], ''restore'')"
  "api_route ''GET'' [''admin'', ''system-stats''] = Some ([VerifyToken, AuthorizeRoles [Admin, Superadmin]], ''systemStats'')"
  "api_route ''GET'' [''admin'', ''audit-logs''] = Some ([VerifyToken, AuthorizeRoles [Admin, Superadmin, Faculty]], ''auditLogs'')"
  "api_route ''GET'' [''admin'', ''users''] = Some ([VerifyToken, AuthorizeRoles [Admin, Superadmin, Faculty]], ''listUsers'')"
  "api_route ''POST'' [''admin'', ''bulk-import-students''] = Some ([VerifyToken, AuthorizeRoles [Admin, Superadmin, Faculty]], ''bulkImportStudents'')"
  "api_route ''POST'' [''admin'', ''users'', i, ''reset-password''] = Some ([VerifyToken, AuthorizeRoles [Admin, Superadmin, Faculty]], ''resetPassword'')"
  "api_route ''POST'' [''problems''] = Some ([VerifyToken, AuthorizeRoles [Admin, Faculty, Superadmin], ValidateBody ''problem''], ''createProblem'')"
  "api_route ''POST'' [''preview'', ''validate''] = Some ([VerifyToken, AuthorizeRoles [Admin, Faculty, Superadmin]], ''validateProblem'')"
  "api_route ''GET'' [''problems'', i] = Some ([OptionalToken], ''getProblemById'')"
  "api_route ''PUT'' [''problems'', i] = Some ([VerifyToken, AuthorizeRoles [Admin, Faculty, Superadmin], ValidateBody ''problem''], ''updateProblem'')"
  "api_route ''POST'' [''auth'', ''login''] = Some ([], ''login'')"
  "api_route ''POST'' [''auth'', ''signup''] = Some ([], ''signup'')"
  "api_route ''GET'' [''submissions'', ''my''] = Some ([VerifyToken], ''getMySubmissions'')"
  "api_route ''GET'' [''problems'', i, ''stats''] = Some ([OptionalToken], ''getProblemStats'')"
  "api_route ''GET'' [''assessments'', i, ''my-attempt''] = Some ([VerifyToken], ''getMyAssessmentAttempt'')"
  "api_route ''POST'' [''assessments'', i, ''start''] = Some ([VerifyToken, AuthorizeRoles [Student]], ''startAssessment'')"
  "api_route ''GET'' [''billing'', ''status''] = Some ([VerifyToken], ''billingStatus'')"
  "api_route ''POST'' [''billing'', ''checkout''] = Some ([VerifyToken, AuthorizeRoles [Admin, Superadmin]], ''checkout'')"
  "api_route ''POST'' [''billing'', ''portal''] = Some ([VerifyToken, AuthorizeRoles [Admin, Superadmin]], ''portal'')"
  "api_route ''GET'' [''billing'', ''colleges''] = Some ([VerifyToken, AuthorizeRoles [Superadmin]], ''listColleges'')"
  "api_route ''PATCH'' [''billing'', ''colleges'', i, ''plan''] = Some ([VerifyToken, AuthorizeRoles [Superadmin]], ''setCollegePlan'')"
  using id_is_no_word [OF assms]
  by (simp_all add: api_mounts route_tables find_route_def js_lower_simps lower_chars)

text \<open>\<open>serve\<close> in terms of the table, for a request of the client: it is sent below \<^verbatim>\<open>/api/v1\<close> with the header that
  \<^verbatim>\<open>api.js\<close> sets.\<close>

definition client_request :: "string \<Rightarrow> string list \<Rightarrow> request \<Rightarrow> bool" where
  "client_request meth path req \<longleftrightarrow> rq_method req = meth \<and> rq_path req = ''api'' # ''v1'' # path \<and>
     rq_requested_with req = Some ''XMLHttpRequest''"

lemma run_guards_user: "run_guards env nid pw now gs req w = (Inr req', w') \<Longrightarrow> rq_method req' = rq_method req"
proof (induction gs arbitrary: req w)
  case (Cons g gs)
  then show ?case using run_guard_user [of env nid pw now g req w] by (fastforce split: prod.splits sum.splits)
qed simp

lemma serve_by_table:
  assumes "client_request meth path req" and "api_route meth path = Some (gs, h)"
  shows "serve env nid pw now req w =
    (case run_guards env nid pw now gs req w of (Inl r, w') \<Rightarrow> (Inl r, w') | (Inr req', w') \<Rightarrow> (Inr (h, req'), w'))"
proof -
  obtain p ps m r where path: "path = p # ps" and m: "find (\<lambda>m. js_lower (prefix m) = js_lower p) mounts = Some m"
    and r: "find_route (routes m) meth ps = Some r" "gs = mount_guards m @ guards r" "h = handler r"
    using assms(2) by (auto simp: api_route_def split: list.splits option.splits)
  have "csrf_check req = None" "api_path (rq_path req) = Some path" "rq_method req = meth"
    using assms(1) by (simp_all add: csrf_check_def client_request_def js_lower_simps lower_chars)
  then have "serve env nid pw now req w = serve_mount env nid pw now m ps req w"
    by (simp add: serve_def path m)
  then show ?thesis
    by (simp add: serve_mount_def run_guards_append r \<open>rq_method req = meth\<close> split: prod.split sum.split)
qed

text \<open>What a signed-in client sends: a token the server verifies, and bodies that fit the schemas.\<close>

definition signed_in :: "environment \<Rightarrow> role \<Rightarrow> request \<Rightarrow> bool" where
  "signed_in env r req \<longleftrightarrow> (\<exists>u. token_verified env req u \<and> au_role u = r) \<and>
     (\<forall>schema. ev_schema_errors env schema (rq_body req) = [])"

fun user_guard :: "guard \<Rightarrow> bool" where
  "user_guard (AuthorizeRoles rs) = True"
| "user_guard (ValidateBody schema) = True"
| "user_guard g = False"

definition user_guards :: "guard list \<Rightarrow> bool" where
  "user_guards gs \<longleftrightarrow> gs = [] \<or> gs = [OptionalToken] \<or> (\<exists>hs. gs = VerifyToken # hs \<and> list_all user_guard hs)"

fun guard_admits :: "role \<Rightarrow> guard \<Rightarrow> bool" where
  "guard_admits r (AuthorizeRoles rs) = (r \<in> set rs)"
| "guard_admits r g = True"

lemma run_user_guards:
  assumes "list_all user_guard gs" and "rq_user req = Some u" and "au_role u = r"
    and "\<forall>schema. ev_schema_errors env schema (rq_body req) = []"
  shows "run_guards env nid pw now gs req w =
    (if list_all (guard_admits r) gs then Inr req else Inl (403, ''Forbidden''), w)"
  using assms
proof (induction gs)
  case (Cons g gs)
  then show ?case by (cases g) (auto simp: authorizeRoles_def)
qed simp

lemma run_signed_in:
  assumes "signed_in env r req" and "user_guards gs"
  shows "\<exists>req'. run_guards env nid pw now gs req w =
    (if list_all (guard_admits r) gs then Inr req' else Inl (403, ''Forbidden''), w)"
proof -
  obtain t claims where t: "token_of req = Some t" "ev_jwt_verify env t = Some claims" "au_role (normalizeUser claims) = r"
    using assms(1) by (auto simp: signed_in_def token_verified_def)
  let ?req = "req\<lparr>rq_user := Some (normalizeUser claims)\<rparr>"
  have ok: "\<forall>schema. ev_schema_errors env schema (rq_body ?req) = []" using assms(1) by (simp add: signed_in_def)
  consider "gs = []" | "gs = [OptionalToken]" | hs where "gs = VerifyToken # hs" "list_all user_guard hs"
    using assms(2) by (auto simp: user_guards_def)
  then show ?thesis
  proof cases
    case 3
    then show ?thesis using run_user_guards [OF 3(2) _ t(3) ok] by (simp add: verifyToken_def t)
  qed (use t in \<open>simp_all add: optionalVerifyToken_def\<close>)
qed

text \<open>The requests of the pages that the server refuses to a role that sees the page.\<close>

definition refused_requests :: "string \<Rightarrow> (role \<times> page \<times> string \<times> string list) list" where
  "refused_requests i =
     [(Faculty, SystemDashboardPage, ''GET'', [''admin'', ''system-stats'']),
      (Faculty, SystemDashboardPage, ''GET'', [''admin'', ''backup'']),
      (Faculty, SystemDashboardPage, ''POST'', [''admin'', ''restore'']),
      (Admin, SystemDashboardPage, ''GET'', [''admin'', ''backup'']),
      (Admin, SystemDashboardPage, ''POST'', [''admin'', ''restore'']),
      (Faculty, AssessmentManagementPage, ''DELETE'', [''assessments'', i])]"

text \<open>A page is for a role when some route of the page lets the role pass.\<close>

fun guard_roles :: "page_guard \<Rightarrow> role list" where
  "guard_roles (RequireRole rs) = filter (\<lambda>r. role_name r \<in> set rs) [Superadmin, Admin, Faculty, Student]"
| "guard_roles g = [Superadmin, Admin, Faculty, Student]"

definition page_roles :: "page \<Rightarrow> role list" where
  "page_roles p = concat (map (\<lambda>(ss, g, q). if q = p then guard_roles g else []) shell_routes)"

lemma page_roles_table:
  "page_roles p =
     (if p \<in> {AssessmentWorkspacePage, AssessmentResultPage} then [Student]
      else if p = BillingPage then [Superadmin, Admin]
      else if p \<in> {ProblemListPage, AssessmentListPage, AssessmentDetailsPage, ProblemPage, LoginPage, SignupPage,
                   MySubmissionsPage} then [Superadmin, Admin, Faculty, Student]
      else [Superadmin, Admin, Faculty])"
  by (cases p) (simp_all add: page_roles_def shell_tables role_name_def)

lemma outcome_role:
  assumes "oget u ''role'' = JStr (role_name r)" and "outcome u path = Page p"
  shows "r \<in> set (page_roles p)"
proof -
  obtain ss g where route: "(ss, g, p) \<in> set shell_routes" and pass: "page_check g u = None"
    using assms(2) by (auto simp: outcome_def page_route_def dest!: find_member split: option.splits)
  have "r \<in> set (guard_roles g)"
    using pass assms(1) by (cases g; cases r) (auto simp: has_role_def list_ex_iff role_name_def split: if_splits)
  with route show ?thesis by (force simp: page_roles_def)
qed

lemma request_guards:
  assumes "length i = 24" and "r \<in> set (page_roles p)" and "(m, ps) \<in> set (page_requests i r p)"
  shows "\<exists>gs h. api_route m ps = Some (gs, h) \<and> user_guards gs \<and>
     (list_all (guard_admits r) gs \<longleftrightarrow> (r, p, m, ps) \<notin> set (refused_requests i))"
  using assms(2,3) unfolding page_roles_table
  by (cases p; cases r)
    (auto simp: api_table [OF assms(1)] user_guards_def refused_requests_def split: if_splits)


definition faculty_env :: environment where
  "faculty_env = sample_env\<lparr>ev_jwt_verify := (\<lambda>t. Some \<lparr>au_jwt_id = Some 7, au_id = None, au_role = Faculty,
     au_college = Some 4, au_service = False\<rparr>)\<rparr>"


text \<open>Without a token the public pages can load what they show.\<close>

lemma guest_requests:
  assumes "length i = 24" and "(m, ps) \<in> {(''GET'', [''problems'']), (''GET'', [''problems'', i]),
     (''GET'', [''problems'', i, ''stats'']), (''POST'', [''auth'', ''login'']), (''POST'', [''auth'', ''signup''])}"
    and "client_request m ps req" and "token_of req = None"
  shows "\<exists>h. serve env nid pw now req w = (Inr (h, req), w)"
  using assms(2,4)
  by (auto simp: serve_by_table [OF assms(3)] api_table [OF assms(1)] optionalVerifyToken_def)

end
