(* ===== verification/Result_View.thy ===== *)
theory Result_View
  imports Submissions Json_Laws
begin

section \<open>The panel with the result of a submission\<close>

text \<open>
  \<^verbatim>\<open>components/SubmissionOutput.jsx\<close>, which shows what the judge reported, on the practice page, the exam page and
  the list of the student's submissions. Its input is a run result, a submission, or the output text of one.
  The theorem at the end follows a test from the report of the judge through the sanitizing of the server
  (theory \<open>Submissions\<close>) to the panel. Markup and colours are left out; a value that React cannot render is not
  told apart from one it can.
\<close>

subsection \<open>A row per test\<close>

text \<open>\<^verbatim>\<open>typeof v === 'object'\<close>.\<close>

fun typeof_object :: "jsval \<Rightarrow> bool" where
  "typeof_object (JObj kvs) = True"
| "typeof_object (JArr vs) = True"
| "typeof_object JNull = True"
| "typeof_object v = False"

definition formatValue :: "jsval \<Rightarrow> string" where
  "formatValue v =
     (if nullish v then ''null''
      else if typeof_object v then (case json_str v of Some s \<Rightarrow> s | None \<Rightarrow> ''undefined'')
      else to_str v)"

text \<open>The normalised detail: \<open>None\<close> when the detail is \<^verbatim>\<open>null\<close> or \<^verbatim>\<open>undefined\<close>, whose properties cannot be read.\<close>

definition normalized_detail :: "jsval \<Rightarrow> jsval option" where
  "normalized_detail d =
     (if nullish d then None
      else Some (JObj (put_all
        [(''inputs'', first_of d [''inputs'', ''input'', ''Input'']),
         (''expected'', first_of d [''expected'', ''Expected'']),
         (''output'', first_of d [''output'', ''Output'']),
         (''passed'', coalesce (first_of d [''passed'', ''ok'', ''Passed'', ''Ok'']) (JBool False))] (spread d))))"

record detail_row =
  dr_title :: string
  dr_passed :: bool
  dr_time :: string
  dr_error :: "jsval option"
  dr_inputs :: "string option"
  dr_expected :: "string option"
  dr_output :: "string option"
  dr_console :: "jsval list"

definition shown_field :: "jsval \<Rightarrow> bool \<Rightarrow> string \<Rightarrow> string option" where
  "shown_field d hidden k = (if oget d k \<noteq> JUndef \<and> \<not> hidden then Some (formatValue (oget d k)) else None)"

definition time_text :: "jsval \<Rightarrow> string" where
  "time_text d =
     (if truthy (oget d ''timeMs'') then to_str (oget d ''timeMs'') @ '' ms''
      else if truthy (oget d ''time'') then to_str (oget d ''time'') @ '' ms'' else [])"

text \<open>\<open>n\<close> is a normalised detail, \<open>idx\<close> its position. The console lists the truthy ones of its three texts.\<close>

definition detail_row :: "nat \<Rightarrow> jsval \<Rightarrow> detail_row" where
  "detail_row idx n =
     (let hidden = (oget n ''isHidden'' = JBool True) in
      \<lparr>dr_title = (if hidden then ''Hidden Case''
                   else ''Case '' @ to_str (coalesce (first_of n [''test'', ''testIndex'']) (jnat (idx + 1)))),
       dr_passed = truthy (coalesce (first_of n [''passed'', ''ok'']) (JBool False)),
       dr_time = time_text n,
       dr_error = (if truthy (oget n ''error'') then Some (oget n ''error'') else None),
       dr_inputs = shown_field n hidden ''inputs'',
       dr_expected = shown_field n hidden ''expected'',
       dr_output = shown_field n hidden ''output'',
       dr_console = filter truthy [oget n ''stdout'', oget n ''traceback'', oget n ''stderr'']\<rparr>)"

definition detail_rows :: "jsval list \<Rightarrow> detail_row list" where
  "detail_rows ns = map (\<lambda>(i, n). detail_row i n) (zip [0..<length ns] ns)"

subsection \<open>The whole panel\<close>

record result_view =
  rv_status :: jsval
  rv_class :: string
  rv_passed :: jsval
  rv_total :: jsval
  rv_time :: string
  rv_error :: "jsval option"
  rv_rows :: "detail_row list"

datatype viewer = Nothing_Shown | Execution_Error string | Render_Error | Result_View result_view

definition verdict_class :: "jsval \<Rightarrow> string" where
  "verdict_class status =
     (if status = JStr ''Success'' \<or> status = JStr ''Accepted'' then ''verdict-success''
      else if status \<in> JStr ` set [''Fail'', ''Error'', ''Wrong Answer'', ''Runtime Error'', ''Compilation Error'',
                                  ''Time Limit Exceeded'', ''Memory Limit Exceeded''] then ''verdict-error''
      else ''verdict-warning'')"

text \<open>A submission carries the report in \<^verbatim>\<open>testResult\<close>, whose properties win.\<close>

definition merged :: "jsval \<Rightarrow> jsval" where
  "merged v =
     (let t = oget v ''testResult'' in
      if truthy t \<and> typeof_object t then JObj (put_all (spread t) (spread v)) else v)"

definition runtime_text :: "jsval \<Rightarrow> string" where
  "runtime_text v =
     (case to_num (or_val (or_val (oget v ''maxTimeMs'') (oget v ''elapsedMs'')) (oget v ''time'')) of
        NaN \<Rightarrow> ''N/A''
      | Fin q \<Rightarrow> num_to_string (Fin (to_fixed 0 q)) @ '' ms''
      | n \<Rightarrow> num_to_string n @ '' ms'')"

definition global_error :: "jsval \<Rightarrow> jsval option" where
  "global_error v =
     (if truthy (oget v ''error'') \<or> oget v ''status'' = JStr ''Compilation Error''
      then Some (or_val (or_val (oget v ''error'') (oget v ''stderr'')) (oget v ''output'')) else None)"

definition result_view :: "jsval \<Rightarrow> viewer" where
  "result_view p =
     (let v = merged p in
      case those (map normalized_detail (if is_array (oget v ''details'') then elems (oget v ''details'') else [])) of
        None \<Rightarrow> Render_Error
      | Some ns \<Rightarrow>
          (let passed = coalesce (first_of v [''passedCount'', ''passed''])
                          (jnat (length (filter (\<lambda>n. truthy (oget n ''passed'')) ns))) in
           Result_View
             \<lparr>rv_status = oget v ''status'', rv_class = verdict_class (oget v ''status''), rv_passed = passed,
              rv_total = coalesce (first_of v [''totalCount'', ''total''])
                           (JNum (num_max (Fin (of_nat (length ns))) (to_num passed))),
              rv_time = runtime_text v, rv_error = global_error v, rv_rows = detail_rows ns\<rparr>))"

definition SubmissionOutput :: "jsval \<Rightarrow> viewer" where
  "SubmissionOutput output =
     (if \<not> truthy output then Nothing_Shown
      else case output of
             JStr s \<Rightarrow>
               (case json_parse s of
                  None \<Rightarrow> Execution_Error s
                | Some p \<Rightarrow> if nullish p then Render_Error else result_view p)
           | _ \<Rightarrow> result_view output)"

subsection \<open>From the judge to the panel\<close>

lemma put_all_lookup:
  "map_of (put_all kvs acc) k = (case map_of (rev kvs) k of Some v \<Rightarrow> Some v | None \<Rightarrow> map_of acc k)"
  by (induction kvs acc rule: put_all.induct) (auto split: option.split)

lemma coalesce_absorb: "coalesce (coalesce a b) b = coalesce a b"
  by (simp add: coalesce_def)

lemma sanitize_from_nth:
  assumes "sanitize_from tcs isA j ds = Inr rs"
  shows "length rs = length ds \<and> (\<forall>k < length ds. rs ! k = sanitize_detail tcs isA (j + k) (ds ! k))"
  using assms
proof (induction ds arbitrary: j rs)
  case (Cons d ds)
  then obtain rs' where rs: "rs = sanitize_detail tcs isA j d # rs'" "sanitize_from tcs isA (Suc j) ds = Inr rs'"
    by (auto split: if_splits sum.splits)
  with Cons.IH [OF rs(2)] show ?case by (auto simp: nth_Cons split: nat.split)
qed simp

lemma objects_sanitized: "\<exists>rs. sanitize_from tcs isA j (map JObj ds) = Inr rs"
proof (induction ds arbitrary: j)
  case (Cons d ds)
  obtain rs where "sanitize_from tcs isA (Suc j) (map JObj ds) = Inr rs" using Cons.IH by blast
  then show ?case by simp
qed simp

lemma normalized_lookup:
  "normalized_detail (JObj kvs) = Some n \<Longrightarrow>
     oget n ''inputs'' = first_of (JObj kvs) [''inputs'', ''input'', ''Input''] \<and>
     oget n ''expected'' = first_of (JObj kvs) [''expected'', ''Expected''] \<and>
     oget n ''output'' = first_of (JObj kvs) [''output'', ''Output''] \<and>
     oget n ''passed'' = passed_of (JObj kvs) \<and>
     (k \<notin> {''inputs'', ''expected'', ''output'', ''passed''} \<longrightarrow> oget n k = oget (JObj kvs) k)"
  by (auto simp: normalized_detail_def put_all_lookup passed_of_def simp del: first_of.simps)

definition shown_value :: "jsval \<Rightarrow> string option" where
  "shown_value v = (if v = JUndef then None else Some (formatValue v))"

lemma passed_settled: "coalesce (passed_of d) x = passed_of d"
  by (simp add: passed_of_def coalesce_def)

lemma row_of_normalized:
  assumes "normalized_detail (JObj kvs) = Some n"
  shows "dr_passed (detail_row k n) = truthy (passed_of (JObj kvs))"
    and "dr_inputs (detail_row k n) = (if oget (JObj kvs) ''isHidden'' = JBool True then None
           else shown_value (first_of (JObj kvs) [''inputs'', ''input'', ''Input'']))"
    and "dr_expected (detail_row k n) = (if oget (JObj kvs) ''isHidden'' = JBool True then None
           else shown_value (first_of (JObj kvs) [''expected'', ''Expected'']))"
    and "dr_output (detail_row k n) = (if oget (JObj kvs) ''isHidden'' = JBool True then None
           else shown_value (first_of (JObj kvs) [''output'', ''Output'']))"
  using normalized_lookup [OF assms]
  by (simp_all add: detail_row_def Let_def shown_field_def shown_value_def passed_settled coalesce_absorb del: oget.simps)

lemma passed_of_hidden: "passed_of (hidden_detail isA (JObj kvs)) = passed_of (JObj kvs)"
  by (simp add: hidden_detail_def passed_of_def coalesce_def console_fields_def)

lemma row_of_hidden:
  assumes "normalized_detail (hidden_detail isA d) = Some n"
  shows "dr_title (detail_row k n) = ''Hidden Case''" and "dr_inputs (detail_row k n) = None"
    and "dr_expected (detail_row k n) = None" and "dr_output (detail_row k n) = None"
    and "dr_error (detail_row k n) = None" and "isA \<Longrightarrow> dr_console (detail_row k n) = []"
proof -
  obtain kvs where kvs: "hidden_detail isA d = JObj kvs" by (simp add: hidden_detail_def)
  note look = normalized_lookup [OF assms [unfolded kvs]]
  have "oget n ''isHidden'' = JBool True" "oget n ''error'' = JUndef"
    and console: "isA \<Longrightarrow> oget n ''stdout'' = JUndef" "isA \<Longrightarrow> oget n ''stderr'' = JUndef"
      "isA \<Longrightarrow> oget n ''traceback'' = JUndef"
    using look [of "''isHidden''"] look [of "''error''"] look [of "''stdout''"] look [of "''stderr''"]
      look [of "''traceback''"] kvs by (auto simp: hidden_detail_def console_fields_def)
  then show "dr_title (detail_row k n) = ''Hidden Case''" "dr_inputs (detail_row k n) = None"
    "dr_expected (detail_row k n) = None" "dr_output (detail_row k n) = None" "dr_error (detail_row k n) = None"
    "isA \<Longrightarrow> dr_console (detail_row k n) = []"
    by (simp_all add: detail_row_def Let_def shown_field_def del: oget.simps)
qed

lemma visible_same:
  "passed_of (visible_detail (JObj kvs)) = passed_of (JObj kvs)"
  "first_of (visible_detail (JObj kvs)) [''inputs'', ''input'', ''Input''] = first_of (JObj kvs) [''inputs'', ''input'', ''Input'']"
  "first_of (visible_detail (JObj kvs)) [''expected'', ''Expected''] = first_of (JObj kvs) [''expected'', ''Expected'']"
  "first_of (visible_detail (JObj kvs)) [''output'', ''Output''] = first_of (JObj kvs) [''output'', ''Output'']"
  "oget (visible_detail (JObj kvs)) ''isHidden'' = oget (JObj kvs) ''isHidden''"
  by (simp_all add: visible_detail_def put_all_lookup console_fields_def) (auto simp: coalesce_def passed_of_def)

text \<open>Whatever the judge reports, the panel shows of a hidden test only that it is hidden, whether it passed and
  how long it took, neither inputs nor expected value nor output nor error, and in an assessment no console texts;
  of a sample test it shows the inputs, the expected value and the output the judge reported, under whichever of
  its names.\<close>

theorem panel_of_judged:
  assumes "sanitizeResultDetails (map JObj ds) tcs isA = Inr rs" and "k < length ds"
  shows "\<exists>n. normalized_detail (rs ! k) = Some n \<and>
    (let d = JObj (ds ! k); row = detail_row k n in
       dr_passed row = truthy (passed_of d) \<and>
       (is_hidden_detail k d tcs \<longrightarrow>
          dr_title row = ''Hidden Case'' \<and> dr_inputs row = None \<and> dr_expected row = None \<and> dr_output row = None \<and>
          dr_error row = None \<and> (isA \<longrightarrow> dr_console row = [])) \<and>
       (\<not> is_hidden_detail k d tcs \<and> oget d ''isHidden'' \<noteq> JBool True \<longrightarrow>
          dr_inputs row = shown_value (first_of d [''inputs'', ''input'', ''Input'']) \<and>
          dr_expected row = shown_value (first_of d [''expected'', ''Expected'']) \<and>
          dr_output row = shown_value (first_of d [''output'', ''Output''])))"
proof -
  let ?d = "JObj (ds ! k)"
  have r: "rs ! k = sanitize_detail tcs isA k ?d"
    using sanitize_from_nth [of tcs isA 0 "map JObj ds" rs] assms by (simp add: sanitizeResultDetails_def)
  obtain kvs where kvs: "rs ! k = JObj kvs"
    by (cases "is_hidden_detail k ?d tcs") (auto simp: r sanitize_detail_def hidden_detail_def visible_detail_def)
  obtain n where n: "normalized_detail (JObj kvs) = Some n" by (simp add: normalized_detail_def)
  show ?thesis
  proof (cases "is_hidden_detail k ?d tcs")
    case True
    then have h: "JObj kvs = hidden_detail isA ?d" using r kvs by (simp add: sanitize_detail_def)
    show ?thesis
      using row_of_hidden [OF n [unfolded h], of k] row_of_normalized(1) [OF n, of k] n h True kvs
      by (simp add: Let_def passed_of_hidden)
  next
    case False
    then have "JObj kvs = visible_detail ?d" using r kvs by (simp add: sanitize_detail_def)
    with n row_of_normalized [OF n, of k] visible_same [of "ds ! k"] False kvs show ?thesis
      by (auto simp: Let_def)
  qed
qed

definition judged_rows :: "(string \<times> jsval) list list" where
  "judged_rows =
     [[(''test'', jnat 1), (''ok'', JBool True), (''Input'', JArr [jnat 2]), (''output'', jnat 4), (''expected'', jnat 4)],
      [(''test'', jnat 2), (''ok'', JBool False), (''Input'', JArr [jnat 3]), (''output'', jnat 6), (''expected'', jnat 9),
       (''stdout'', JStr ''3''), (''error'', JStr ''expected 9'')]]"

definition judged_cases :: "test_case list" where
  "judged_cases =
     [\<lparr>tc_inputs = [jnat 2], tc_expected = jnat 4, tc_sample = Some True, tc_hidden = Some False\<rparr>,
      \<lparr>tc_inputs = [jnat 3], tc_expected = jnat 9, tc_sample = Some False, tc_hidden = Some True\<rparr>]"

lemma panel_of_judged_witness:
  "\<exists>rs n0 n1. sanitizeResultDetails (map JObj judged_rows) judged_cases True = Inr rs \<and>
     normalized_detail (rs ! 0) = Some n0 \<and> dr_inputs (detail_row 0 n0) = Some (formatValue (JArr [jnat 2])) \<and>
     normalized_detail (rs ! 1) = Some n1 \<and> dr_inputs (detail_row 1 n1) = None \<and> dr_error (detail_row 1 n1) = None"
proof -
  obtain rs where rs: "sanitizeResultDetails (map JObj judged_rows) judged_cases True = Inr rs"
    using objects_sanitized unfolding sanitizeResultDetails_def by blast
  have hidden: "\<not> is_hidden_detail 0 (JObj (judged_rows ! 0)) judged_cases"
      "is_hidden_detail 1 (JObj (judged_rows ! 1)) judged_cases"
    by (simp_all add: is_hidden_detail_def test_case_of_def test_index_def judged_rows_def judged_cases_def
        isSampleTestCase_def coalesce_def Let_def)
  have n: "0 < length judged_rows" "1 < length judged_rows" by (simp_all add: judged_rows_def)
  have first: "first_of (JObj (judged_rows ! 0)) [''inputs'', ''input'', ''Input''] = JArr [jnat 2]"
      "oget (JObj (judged_rows ! 0)) ''isHidden'' = JUndef"
    by (simp_all add: judged_rows_def coalesce_def)
  from panel_of_judged [OF rs n(1)] hidden(1) first obtain n0 where "normalized_detail (rs ! 0) = Some n0"
      "dr_inputs (detail_row 0 n0) = Some (formatValue (JArr [jnat 2]))"
    by (auto simp: Let_def shown_value_def)
  moreover from panel_of_judged [OF rs n(2)] hidden(2) obtain n1 where "normalized_detail (rs ! 1) = Some n1"
      "dr_inputs (detail_row 1 n1) = None" "dr_error (detail_row 1 n1) = None"
    by (auto simp: Let_def)
  ultimately show ?thesis using rs by blast
qed

text \<open>An output text that is \<^verbatim>\<open>null\<close> in JSON makes the panel fail while it is rendered; a text that is no JSON is
  shown as it is.\<close>

lemma null_output: "SubmissionOutput (JStr ''null'') = Render_Error"
proof -
  have "plain_value JNull" by simp
  then obtain s where "json_str JNull = Some s" "json_parse s = Some JNull" by (rule json_roundtrip)
  then have "json_parse ''null'' = Some JNull" by simp
  then show ?thesis by (simp add: SubmissionOutput_def)
qed

text \<open>In a practice run the console texts of hidden tests are shown: a program that prints its inputs shows them.\<close>

lemma practice_console_shown:
  assumes "is_hidden_detail k d tcs" and "first_of d [''stdout'', ''Stdout''] = JStr (c # cs)"
    and "normalized_detail (sanitize_detail tcs False k d) = Some n"
  shows "JStr (c # cs) \<in> set (dr_console (detail_row k n))"
proof -
  have "sanitize_detail tcs False k d = hidden_detail False d" using assms(1) by (simp add: sanitize_detail_def)
  then have "oget n ''stdout'' = JStr (c # cs)"
    using normalized_lookup [of _ n] assms(2,3) by (simp add: hidden_detail_def console_fields_def)
  then show ?thesis by (simp add: detail_row_def Let_def)
qed

end
