(* ===== verification/Question_Pages.thy ===== *)
theory Question_Pages
  imports Questions Problem_Form Account_Laws Json_Laws Interfaces
begin

section \<open>The lists and the question forms of the client\<close>

text \<open>
  \<^verbatim>\<open>QuestionBankPage.jsx\<close>, \<^verbatim>\<open>AddQuestionPage.jsx\<close>, \<^verbatim>\<open>EditQuestionPage.jsx\<close> and \<^verbatim>\<open>ProblemListPage.jsx\<close>. The two lists are
  state machines over the requests that are on their way: every change of a filter sends one, the answers come
  in any order, and the question bank takes the page number from the answer. What the server answers is
  \<open>listQuestions\<close> and \<open>listProblems\<close> on the database it reads. Markup is left out; the documents of an answer
  are kept as documents.
\<close>

subsection \<open>The question bank\<close>

record bank_params =
  bp_search :: string
  bp_page :: nat
  bp_limit :: nat
  bp_tag :: string

text \<open>The query as it arrives: axios writes the numbers as text, and an empty tag is not sent.\<close>

definition bank_query :: "bank_params \<Rightarrow> jsval" where
  "bank_query p =
     JObj ([(''search'', JStr (bp_search p)), (''page'', JStr (show_nat (bp_page p))),
            (''limit'', JStr (show_nat (bp_limit p)))] @
           (if bp_tag p \<noteq> [] then [(''tag'', JStr (bp_tag p))] else []))"

text \<open>\<open>qb_requests\<close> are the unanswered list requests, in the order in which they were sent, \<open>qb_deletes\<close> the
  unanswered deletions with the filters of the moment of the click, for which the list is fetched afterwards.\<close>

record bank =
  qb_params :: bank_params
  qb_list :: "question list"
  qb_total :: nat
  qb_pages :: nat
  qb_loading :: bool
  qb_requests :: "bank_params list"
  qb_deletes :: "bank_params list"

definition fetchQuestions :: "bank_params \<Rightarrow> bank \<Rightarrow> bank" where
  "fetchQuestions p b = b\<lparr>qb_loading := True, qb_requests := qb_requests b @ [p]\<rparr>"

text \<open>The effect that fetches runs when one of the four parameters has changed.\<close>

definition set_params :: "bank_params \<Rightarrow> bank \<Rightarrow> bank" where
  "set_params p b = (if p = qb_params b then b else fetchQuestions p (b\<lparr>qb_params := p\<rparr>))"

definition opened_bank :: bank where
  "opened_bank =
     (let p = \<lparr>bp_search = [], bp_page = 1, bp_limit = 12, bp_tag = []\<rparr> in
      \<lparr>qb_params = p, qb_list = [], qb_total = 0, qb_pages = 1, qb_loading = True, qb_requests = [p], qb_deletes = []\<rparr>)"

text \<open>\<^verbatim>\<open>x || y\<close> for a number of the answer.\<close>

definition number_or :: "jsnum \<Rightarrow> nat \<Rightarrow> nat" where
  "number_or x y = (case whole x of Some n \<Rightarrow> if n = 0 then y else n | None \<Rightarrow> y)"

definition drop_nth :: "nat \<Rightarrow> 'a list \<Rightarrow> 'a list" where
  "drop_nth k xs = take k xs @ drop (Suc k) xs"

text \<open>The answer to the \<open>k\<close>-th request: the page number comes from the answer, the other filters stay.\<close>

definition answered :: "nat \<Rightarrow> question_page result \<Rightarrow> bank \<Rightarrow> bank" where
  "answered k r b =
     (let p = qb_requests b ! k; b1 = b\<lparr>qb_requests := drop_nth k (qb_requests b), qb_loading := False\<rparr> in
      case r of
        Inl e \<Rightarrow> b1
      | Inr a \<Rightarrow>
          set_params ((qb_params b)\<lparr>bp_page := number_or (qp_page a) (bp_page p)\<rparr>)
            (b1\<lparr>qb_list := qp_questions a, qb_total := qp_total a, qb_pages := number_or (qp_pages a) 1\<rparr>))"

datatype bank_event =
    Search string
  | Pick_Tag string
  | Prev
  | Next
  | Limit nat
  | Delete_Click
  | Deleted nat bool
  | Answered nat world
  | Lost nat

text \<open>\<open>srv query w\<close> is what the server answers when it reads the database \<open>w\<close>.\<close>

fun bank_step :: "(jsval \<Rightarrow> world \<Rightarrow> question_page result) \<Rightarrow> bank_event \<Rightarrow> bank \<Rightarrow> bank" where
  "bank_step srv (Search s) b = set_params ((qb_params b)\<lparr>bp_search := s, bp_page := 1\<rparr>) b"
| "bank_step srv (Pick_Tag t) b = set_params ((qb_params b)\<lparr>bp_tag := t, bp_page := 1\<rparr>) b"
| "bank_step srv Prev b = set_params ((qb_params b)\<lparr>bp_page := max 1 (bp_page (qb_params b) - 1)\<rparr>) b"
| "bank_step srv Next b = set_params ((qb_params b)\<lparr>bp_page := min (qb_pages b) (bp_page (qb_params b) + 1)\<rparr>) b"
| "bank_step srv (Limit l) b = set_params ((qb_params b)\<lparr>bp_limit := l, bp_page := 1\<rparr>) b"
| "bank_step srv Delete_Click b = b\<lparr>qb_deletes := qb_deletes b @ [qb_params b]\<rparr>"
| "bank_step srv (Deleted k ok) b =
     (let b1 = b\<lparr>qb_deletes := drop_nth k (qb_deletes b)\<rparr> in
      if ok then fetchQuestions (qb_deletes b ! k) b1 else b1)"
| "bank_step srv (Answered k w) b = answered k (srv (bank_query (qb_requests b ! k)) w) b"
| "bank_step srv (Lost k) b = b\<lparr>qb_requests := drop_nth k (qb_requests b), qb_loading := False\<rparr>"

text \<open>What can happen: while the page is loading the list and its buttons are not shown.\<close>

fun bank_offers :: "bank_event \<Rightarrow> bank \<Rightarrow> bool" where
  "bank_offers Prev b = (\<not> qb_loading b \<and> 1 < bp_page (qb_params b))"
| "bank_offers Next b = (\<not> qb_loading b \<and> bp_page (qb_params b) < qb_pages b)"
| "bank_offers (Limit l) b = (\<not> qb_loading b \<and> l \<in> {6, 12, 24})"
| "bank_offers Delete_Click b = (\<not> qb_loading b \<and> qb_list b \<noteq> [])"
| "bank_offers (Deleted k ok) b = (k < length (qb_deletes b))"
| "bank_offers (Answered k w) b = (k < length (qb_requests b))"
| "bank_offers (Lost k) b = (k < length (qb_requests b))"
| "bank_offers _ b = True"

text \<open>The tags offered as filters; when they cannot be loaded, those of the questions on show.\<close>

definition loadTags :: "string list result \<Rightarrow> bank \<Rightarrow> string list" where
  "loadTags r b = (case r of Inr ts \<Rightarrow> ts | Inl e \<Rightarrow> remdups (concat (map qu_tags (qb_list b))))"

subsection \<open>The question forms\<close>

text \<open>Number fields hold what was loaded, a number, or what was typed, a text.\<close>

record question_form =
  qf_title :: jsval
  qf_difficulty :: jsval
  qf_tags :: string
  qf_marks :: jsval
  qf_time_limit :: jsval
  qf_memory_limit :: jsval

definition new_question_form :: question_form where
  "new_question_form =
     \<lparr>qf_title = JStr [], qf_difficulty = JStr ''Easy'', qf_tags = [], qf_marks = jnat 100, qf_time_limit = jnat 2000,
      qf_memory_limit = jnat 256\<rparr>"

definition question_payload :: "question_form \<Rightarrow> (string \<times> jsval) list" where
  "question_payload f =
     [(''title'', qf_title f), (''difficulty'', qf_difficulty f), (''tags'', JArr (map JStr (tag_list (qf_tags f)))),
      (''marks'', JNum (to_num (qf_marks f))), (''timeLimitMs'', JNum (to_num (qf_time_limit f))),
      (''memoryLimitMb'', JNum (to_num (qf_memory_limit f)))]"

definition new_question_payload :: "question_form \<Rightarrow> jsval" where
  "new_question_payload f = JObj (question_payload f @ [(''visibility'', JStr ''College'')])"

definition saved_question_payload :: "question_form \<Rightarrow> jsval" where
  "saved_question_payload f = JObj (question_payload f)"

text \<open>The fields of a question as the server sends them, and the form the edit page fills from them.\<close>

definition question_fields :: "question \<Rightarrow> (string \<times> jsval) list" where
  "question_fields q =
     [(''title'', JStr (qu_title q)), (''difficulty'', JStr (difficulty_name (qu_difficulty q))),
      (''tags'', JArr (map JStr (qu_tags q))), (''marks'', JNum (Fin (qu_marks q))),
      (''timeLimitMs'', JNum (Fin (qu_time_limit q))), (''memoryLimitMb'', JNum (Fin (qu_memory_limit q)))]"

definition load_question :: "jsval \<Rightarrow> question_form" where
  "load_question q =
     \<lparr>qf_title = oget q ''title'', qf_difficulty = or_val (oget q ''difficulty'') (JStr ''Easy''),
      qf_tags = join_with '', '' (map to_str (elems (or_val (oget q ''tags'') (JArr [])))),
      qf_marks = or_val (oget q ''marks'') (jnat 100), qf_time_limit = or_val (oget q ''timeLimitMs'') (jnat 2000),
      qf_memory_limit = or_val (oget q ''memoryLimitMb'') (jnat 256)\<rparr>"

subsection \<open>The list of problems\<close>

record problem_filters =
  pf_search :: string
  pf_difficulty :: string
  pf_tag :: string

definition handleFilterChange :: "string \<Rightarrow> string \<Rightarrow> problem_filters \<Rightarrow> problem_filters" where
  "handleFilterChange name v f =
     (if name = ''search'' then f\<lparr>pf_search := v\<rparr>
      else if name = ''difficulty'' then f\<lparr>pf_difficulty := v\<rparr>
      else if name = ''tag'' then f\<lparr>pf_tag := v\<rparr> else f)"

definition activeFilters :: "problem_filters \<Rightarrow> jsval" where
  "activeFilters f =
     JObj (filter (\<lambda>(k, v). truthy v)
       [(''search'', JStr (pf_search f)), (''difficulty'', JStr (pf_difficulty f)), (''tag'', JStr (pf_tag f))])"

record problem_list =
  pl_filters :: problem_filters
  pl_problems :: "problem_view list"
  pl_error :: "string option"
  pl_requests :: "problem_filters list"

datatype list_event = Filter string string | Clear_Filters | Listed nat world | List_Lost nat string

definition no_filters :: problem_filters where
  "no_filters = \<lparr>pf_search = [], pf_difficulty = [], pf_tag = []\<rparr>"

definition fetch_problems :: "problem_list \<Rightarrow> problem_list" where
  "fetch_problems l = l\<lparr>pl_error := None, pl_requests := pl_requests l @ [pl_filters l]\<rparr>"

definition opened_list :: problem_list where
  "opened_list =
     fetch_problems \<lparr>pl_filters = no_filters, pl_problems = [], pl_error = None, pl_requests = []\<rparr>"

definition axios_message :: "js_error \<Rightarrow> string" where
  "axios_message e =
     ''Request failed with status code '' @ show_nat (case error_status e of Some st \<Rightarrow> st | None \<Rightarrow> 500)"

text \<open>Every change makes a new object of filters, so it fetches even when the value is the same.\<close>

fun list_step :: "(jsval \<Rightarrow> world \<Rightarrow> problem_view list result) \<Rightarrow> list_event \<Rightarrow> problem_list \<Rightarrow> problem_list" where
  "list_step srv (Filter name v) l = fetch_problems (l\<lparr>pl_filters := handleFilterChange name v (pl_filters l)\<rparr>)"
| "list_step srv Clear_Filters l = fetch_problems (l\<lparr>pl_filters := no_filters\<rparr>)"
| "list_step srv (Listed k w) l =
     (let l1 = l\<lparr>pl_requests := drop_nth k (pl_requests l)\<rparr> in
      case srv (activeFilters (pl_requests l ! k)) w of
        Inl e \<Rightarrow> l1\<lparr>pl_error := Some (axios_message e)\<rparr>
      | Inr ps \<Rightarrow> l1\<lparr>pl_problems := ps\<rparr>)"
| "list_step srv (List_Lost k msg) l =
     l\<lparr>pl_requests := drop_nth k (pl_requests l), pl_error := Some (if msg = [] then ''Unknown error'' else msg)\<rparr>"

subsection \<open>What the server answers\<close>

lemma digit_no_letter: "is_digit c \<Longrightarrow> c \<notin> set ''IxXoObB+-''"
  by (auto simp: is_digit_def)

lemma str_to_num_show_nat [simp]: "str_to_num (show_nat n) = Fin (of_nat n)"
proof -
  obtain c t where ct: "show_nat n = c # t" using show_nat_nonempty [of n] by (cases "show_nat n") auto
  have "is_digit c" "t \<noteq> [] \<longrightarrow> is_digit (hd t)"
    using show_nat_digits [of n] by (auto simp: ct) (cases t; simp)+
  then have no: "c \<notin> set ''IxXoObB+-''" "t \<noteq> [] \<longrightarrow> hd t \<notin> set ''IxXoObB+-''" using digit_no_letter by blast+
  then have "c # t \<noteq> ''Infinity''" by auto
  then have "str_decimal (c # t) = Fin (of_nat n)"
    using parse_decimal_show_nat [of n] by (simp add: str_decimal_def ct)
  with no show ?thesis using js_trim_show_nat [of n] by (cases "t = []") (simp_all add: str_to_num_def ct)
qed

definition bank_matches :: "auth option \<Rightarrow> bank_params \<Rightarrow> question \<Rightarrow> bool" where
  "bank_matches u p q \<longleftrightarrow>
     has_tag (tag_list (bp_tag p)) q \<and> (bp_search p \<noteq> [] \<longrightarrow> includes_ci (bp_search p) (qu_title q)) \<and>
     (\<not> is_staff u \<longrightarrow> qu_visibility q = Public)"

definition page_count :: "nat \<Rightarrow> nat \<Rightarrow> nat" where
  "page_count n l = max 1 ((n + l - 1) div l)"

definition proper :: "bank_params \<Rightarrow> bool" where
  "proper p \<longleftrightarrow> 1 \<le> bp_page p \<and> bp_limit p \<in> {6, 12, 24}"

lemma query_page: "proper p \<Longrightarrow> page_of (bank_query p) = Fin (of_nat (bp_page p))"
  by (simp add: page_of_def bank_query_def proper_def or_val_def num_max_def show_nat_nonempty)

lemma query_limit: "proper p \<Longrightarrow> limit_of (bank_query p) = Fin (of_nat (bp_limit p))"
  by (auto simp: limit_of_def bank_query_def proper_def or_val_def num_max_def num_min_def show_nat_nonempty)

lemma whole_nat [simp]: "whole (Fin (of_nat n)) = Some n"
  by simp

lemma query_skip:
  assumes "proper p"
  shows "skip_of (bank_query p) = Fin (of_nat ((bp_page p - 1) * bp_limit p))"
  using assms by (simp add: skip_of_def query_page query_limit proper_def of_nat_diff)

lemma query_filter:
  "buildFilter ops cast (bank_query p) u = Inr (bank_matches u p)"
  by (simp add: buildFilter_def bank_query_def bank_matches_def difficulty_matches_def question_tags_def tag_list_def js_trim_def fun_eq_iff)

lemma ceil_nat: "0 < l \<Longrightarrow> \<lceil>(of_nat n :: rat) / of_nat l\<rceil> = int ((n + l - 1) div l)"
proof -
  assume l: "0 < l"
  define m where "m = (n + l - 1) div l"
  have "m * l + (n + l - 1) mod l = n + l - 1" "(n + l - 1) mod l < l" using l by (simp_all add: m_def)
  then have "n \<le> m * l" "m * l < n + l" using l by linarith+
  then have "(of_nat n :: rat) \<le> of_nat m * of_nat l" "of_nat m * of_nat l < (of_nat n :: rat) + of_nat l"
    by (metis of_nat_le_iff of_nat_mult, metis of_nat_add of_nat_less_iff of_nat_mult)
  then show ?thesis unfolding m_def [symmetric] using l
    by (intro ceiling_unique) (simp_all add: field_simps)
qed

definition bank_server ::
    "(jsval \<Rightarrow> difficulty \<Rightarrow> bool) \<Rightarrow> (jsval \<Rightarrow> oid option) \<Rightarrow> auth option \<Rightarrow> jsval \<Rightarrow> world \<Rightarrow> question_page result" where
  "bank_server ops cast u query w = listQuestions ops cast query u w"

definition matching :: "auth option \<Rightarrow> bank_params \<Rightarrow> world \<Rightarrow> question list" where
  "matching u p w = filter (bank_matches u p) (w_questions w)"

lemma served_page:
  assumes "proper p"
  shows "bank_server ops cast u (bank_query p) w =
    Inr \<lparr>qp_questions = take (bp_limit p) (drop ((bp_page p - 1) * bp_limit p) (matching u p w)),
         qp_total = length (matching u p w), qp_page = Fin (of_nat (bp_page p)),
         qp_pages = Fin (of_nat (page_count (length (matching u p w)) (bp_limit p)))\<rparr>"
proof -
  have l: "0 < bp_limit p" using assms by (auto simp: proper_def)
  have "num_max (Fin 1) (ceil_div n (Fin (of_nat (bp_limit p)))) = Fin (of_nat (page_count n (bp_limit p)))" for n
    using l by (simp add: ceil_div_def ceil_nat page_count_def num_max_def max_def)
  then show ?thesis
    by (simp add: bank_server_def listQuestions_def query_filter query_page [OF assms] query_limit [OF assms]
        query_skip [OF assms] page_slice_def matching_def Let_def del: whole.simps of_nat_mult)
qed

subsection \<open>The bank and its requests\<close>

text \<open>A patient user changes a filter, turns a page or deletes only when nothing is on its way.\<close>

fun by_user :: "bank_event \<Rightarrow> bool" where
  "by_user (Answered k w) = False"
| "by_user (Lost k) = False"
| "by_user (Deleted k ok) = False"
| "by_user _ = True"

definition patient_event :: "bank_event \<Rightarrow> bank \<Rightarrow> bool" where
  "patient_event e b \<longleftrightarrow> bank_offers e b \<and> (by_user e \<longrightarrow> qb_requests b = [] \<and> qb_deletes b = [])"

definition bank_calm :: "bank \<Rightarrow> bool" where
  "bank_calm b \<longleftrightarrow> proper (qb_params b) \<and> (qb_loading b \<longleftrightarrow> qb_requests b \<noteq> []) \<and>
     ((qb_requests b = [] \<and> qb_deletes b \<in> {[], [qb_params b]}) \<or>
      (qb_requests b = [qb_params b] \<and> qb_deletes b = []))"

definition shows_page :: "auth option \<Rightarrow> world \<Rightarrow> bank \<Rightarrow> bool" where
  "shows_page u w b \<longleftrightarrow>
     (let p = qb_params b; M = matching u p w in
      qb_list b = take (bp_limit p) (drop ((bp_page p - 1) * bp_limit p) M) \<and> qb_total b = length M \<and>
      qb_pages b = page_count (length M) (bp_limit p))"

definition bank_settled :: "bank \<Rightarrow> bool" where
  "bank_settled b \<longleftrightarrow> proper (qb_params b) \<and> \<not> qb_loading b \<and> qb_requests b = [] \<and> qb_deletes b = []"

lemma page_count_pos: "0 < page_count n l"
  by (simp add: page_count_def)

lemma answered_page:
  assumes "proper p" and "qb_requests b = [p]" and "qb_params b = p" and "qb_deletes b = []"
  shows "let b' = bank_step (bank_server ops cast u) (Answered 0 w) b in
           bank_settled b' \<and> qb_params b' = p \<and> shows_page u w b'"
proof -
  have "number_or (Fin (of_nat (bp_page p))) (bp_page p) = bp_page p" "number_or (Fin (of_nat (page_count n l))) 1 = page_count n l" for n l
    using page_count_pos [of n l] by (simp_all add: number_or_def del: whole.simps)
  with assms show ?thesis
    by (simp add: answered_def served_page [OF assms(1)] Let_def drop_nth_def set_params_def bank_settled_def shows_page_def)
qed

lemma calm_step:
  assumes "bank_calm b" and "patient_event e b"
  shows "bank_calm (bank_step (bank_server ops cast u) e b)"
proof (cases e)
  case (Answered k w)
  then have "qb_requests b = [qb_params b]" "k = 0" "qb_deletes b = []"
    using assms by (auto simp: bank_calm_def patient_event_def)
  moreover have "proper (qb_params b)" using assms(1) by (simp add: bank_calm_def)
  ultimately show ?thesis using answered_page [of "qb_params b" b ops cast u w] Answered
    by (simp add: Let_def bank_settled_def bank_calm_def)
qed (use assms in \<open>auto simp: bank_calm_def patient_event_def set_params_def fetchQuestions_def proper_def drop_nth_def Let_def\<close>)

lemma opened_calm: "bank_calm opened_bank"
  by (simp add: opened_bank_def bank_calm_def proper_def Let_def)

interpretation bank_page: event_machine "bank_step (bank_server ops cast u)" patient_event bank_calm
  by unfold_locales (rule calm_step)

subsection \<open>Turning the pages\<close>

definition turn_page ::
    "(jsval \<Rightarrow> difficulty \<Rightarrow> bool) \<Rightarrow> (jsval \<Rightarrow> oid option) \<Rightarrow> auth option \<Rightarrow> world \<Rightarrow> bank \<Rightarrow> bank" where
  "turn_page ops cast u w b = fold (bank_step (bank_server ops cast u)) [Next, Answered 0 w] b"

lemma concat_pages: "concat (map (\<lambda>k. take l (drop (k * l) xs)) [0..<m]) = take (m * l) xs"
proof (induction m)
  case (Suc m)
  have "take (Suc m * l) xs = take (m * l) xs @ take l (drop (m * l) xs)"
    using take_add [of "m * l" l xs] by (simp add: add.commute)
  with Suc show ?case by simp
qed simp

lemma all_pages: "0 < l \<Longrightarrow> take (page_count (length xs) l * l) xs = xs"
proof -
  assume l: "0 < l"
  have "(length xs + l - 1) div l * l + (length xs + l - 1) mod l = length xs + l - 1" "(length xs + l - 1) mod l < l"
    using l by simp_all
  then have "length xs \<le> (length xs + l - 1) div l * l" using l by linarith
  also have "\<dots> \<le> page_count (length xs) l * l" by (simp add: page_count_def)
  finally show ?thesis by simp
qed

lemma matching_page: "matching u (p\<lparr>bp_page := n\<rparr>) w = matching u p w"
proof -
  have "bank_matches u (p\<lparr>bp_page := n\<rparr>) = bank_matches u p" by (simp add: bank_matches_def fun_eq_iff)
  then show ?thesis by (simp add: matching_def)
qed

lemma turned:
  fixes ops cast
  assumes "bank_settled b" and "shows_page u w b" and "bp_page (qb_params b) < qb_pages b"
  defines "c \<equiv> turn_page ops cast u w b"
  shows "bank_settled c \<and> shows_page u w c \<and> qb_pages c = qb_pages b \<and>
    qb_params c = (qb_params b)\<lparr>bp_page := bp_page (qb_params b) + 1\<rparr>"
proof -
  let ?p = "(qb_params b)\<lparr>bp_page := bp_page (qb_params b) + 1\<rparr>"
  define b1 where "b1 = bank_step (bank_server ops cast u) Next b"
  have "?p \<noteq> qb_params b" by (metis add_cancel_left_right bank_params.ext_inject bank_params.surjective bank_params.update_convs(2) zero_neq_one)
  then have b1: "qb_params b1 = ?p" "qb_requests b1 = [?p]" "qb_deletes b1 = []"
    using assms(1,3) by (simp_all add: b1_def set_params_def fetchQuestions_def bank_settled_def)
  have "proper ?p" using assms(1) by (simp add: bank_settled_def proper_def)
  from answered_page [OF this b1(2,1,3)] have c: "bank_settled c" "qb_params c = ?p" "shows_page u w c"
    by (simp_all add: c_def turn_page_def b1_def Let_def)
  with c assms(2) show ?thesis by (simp add: shows_page_def matching_page Let_def)
qed

lemma browsed:
  assumes "bank_settled b" and "shows_page u w b" and "bp_page (qb_params b) = 1" and "k < qb_pages b"
  shows "let c = (turn_page ops cast u w ^^ k) b in
    bank_settled c \<and> shows_page u w c \<and> qb_pages c = qb_pages b \<and> qb_params c = (qb_params b)\<lparr>bp_page := k + 1\<rparr>"
  using assms(4)
proof (induction k)
  case 0
  then show ?case using assms(1-3) by (simp add: Let_def)
next
  case (Suc k)
  then have "let c = (turn_page ops cast u w ^^ k) b in
    bank_settled c \<and> shows_page u w c \<and> qb_pages c = qb_pages b \<and> qb_params c = (qb_params b)\<lparr>bp_page := k + 1\<rparr>" by simp
  then show ?case using turned [of "(turn_page ops cast u w ^^ k) b" u w ops cast] Suc.prems by (simp add: Let_def)
qed



text \<open>
  Two answers on their way for different pages set the page in turn, and every change of the page sends a
  request: answered in order, such a bank never comes to rest.
\<close>

definition flipping :: "bank \<Rightarrow> bool" where
  "flipping b \<longleftrightarrow>
     (\<exists>p. qb_requests b = [p, qb_params b] \<and> proper p \<and> proper (qb_params b) \<and> bp_page p \<noteq> bp_page (qb_params b))"

lemma flip:
  fixes ops cast u w b
  assumes "flipping b"
  defines "c \<equiv> bank_step (bank_server ops cast u) (Answered 0 w) b"
  shows "flipping c \<and> bp_page (qb_params c) \<noteq> bp_page (qb_params b)"
proof -
  from assms(1) obtain p where p: "qb_requests b = [p, qb_params b]" "proper p" "proper (qb_params b)"
      "bp_page p \<noteq> bp_page (qb_params b)" by (auto simp: flipping_def)
  let ?q = "(qb_params b)\<lparr>bp_page := bp_page p\<rparr>"
  have "?q \<noteq> qb_params b" using p(4) by (metis bank_params.select_convs(2) bank_params.surjective bank_params.update_convs(2))
  moreover have "number_or (Fin (of_nat (bp_page p))) (bp_page p) = bp_page p" by (simp add: number_or_def del: whole.simps)
  ultimately have "qb_params c = ?q" "qb_requests c = [qb_params b, ?q]"
    using p by (simp_all add: c_def answered_def served_page Let_def drop_nth_def set_params_def fetchQuestions_def)
  with p show ?thesis by (simp add: flipping_def proper_def)
qed

interpretation flipping_bank: event_machine "bank_step (bank_server ops cast u)" "\<lambda>e b. \<exists>w. e = Answered 0 w" flipping
  by unfold_locales (use flip in blast)

theorem flipping_never_settles:
  fixes ops cast u b
  assumes "flipping b"
  defines "run \<equiv> \<lambda>ws. fold (bank_step (bank_server ops cast u)) (map (Answered 0) ws) b"
  shows "length (qb_requests (run ws)) = 2 \<and> bp_page (qb_params (run (ws @ [w]))) \<noteq> bp_page (qb_params (run ws))"
proof -
  have "steps_allowed (\<lambda>e b. \<exists>w. e = Answered 0 w) (bank_step (bank_server ops cast u)) (map (Answered 0) ws) b"
    by (induction ws arbitrary: b) simp_all
  then have "flipping (run ws)" unfolding run_def by (rule flipping_bank.run_keeps [OF assms(1)])
  then show ?thesis using flip [of "run ws" ops cast u w] by (auto simp: run_def flipping_def)
qed

text \<open>One way into it: Next, and a letter in the search field before the page has arrived.\<close>

definition many_questions :: world where
  "many_questions = empty_world\<lparr>w_questions := map (\<lambda>i. sample_question\<lparr>qu_id := i\<rparr>) [0..<13]\<rparr>"

lemma typing_while_loading:
  "flipping (fold (bank_step (bank_server (\<lambda>_ _. False) (\<lambda>_. None) (Some teacher_auth)))
     [Answered 0 many_questions, Next, Search ''a''] opened_bank)"
proof -
  let ?srv = "bank_server (\<lambda>_ _. False) (\<lambda>_. None) (Some teacher_auth)"
  let ?b = "fold (bank_step ?srv) [Answered 0 many_questions, Next, Search ''a''] opened_bank"
  have "qb_params ?b = \<lparr>bp_search = ''a'', bp_page = 1, bp_limit = 12, bp_tag = []\<rparr>" by code_simp
  moreover have "qb_requests ?b = [\<lparr>bp_search = [], bp_page = 2, bp_limit = 12, bp_tag = []\<rparr>,
      \<lparr>bp_search = ''a'', bp_page = 1, bp_limit = 12, bp_tag = []\<rparr>]" by code_simp
  ultimately show ?thesis by (simp add: flipping_def proper_def del: fold.simps)
qed

lemma flipping_never_settles_witness:
  "let b = fold (bank_step (bank_server (\<lambda>_ _. False) (\<lambda>_. None) (Some teacher_auth)))
         [Answered 0 many_questions, Next, Search ''a''] opened_bank
   in length (qb_requests (fold (bank_step (bank_server (\<lambda>_ _. False) (\<lambda>_. None) (Some teacher_auth)))
        (map (Answered 0) (replicate 100 many_questions)) b)) = 2"
  unfolding Let_def by (rule conjunct1 [OF flipping_never_settles [OF typing_while_loading]])

subsection \<open>Editing a question\<close>

definition clean_tag :: "string \<Rightarrow> bool" where
  "clean_tag t \<longleftrightarrow> t \<noteq> [] \<and> js_trim t = t \<and> CHR '','' \<notin> set t"

lemma split_on_nonempty [simp]: "split_on d s \<noteq> []"
  by (induction s) (auto split: list.split)

lemma split_on_prefix: "d \<notin> set t \<Longrightarrow> split_on d (t @ d # s) = t # split_on d s"
  by (induction t) auto

lemma split_on_none: "d \<notin> set t \<Longrightarrow> split_on d t = [t]"
  by (induction t) auto

lemma split_on_parts: "x \<in> set (split_on d s) \<Longrightarrow> d \<notin> set x"
proof (induction s arbitrary: x)
  case (Cons c s)
  obtain w ws where "split_on d s = w # ws" by (cases "split_on d s") auto
  with Cons show ?case by (auto split: if_splits)
qed simp

lemma set_js_trim: "set (js_trim s) \<subseteq> set s"
  by (auto simp: js_trim_def dest!: set_dropWhileD)

lemma trim_space: "js_trim (CHR '' '' # s) = js_trim s"
  by (simp add: js_trim_def is_ws_def)

lemma tag_list_clean: "t \<in> set (tag_list s) \<Longrightarrow> clean_tag t"
  using split_on_parts set_js_trim by (fastforce simp: tag_list_def clean_tag_def)

lemma tag_list_space: "tag_list (CHR '' '' # s) = tag_list s"
  by (cases "split_on CHR '','' s") (simp_all add: tag_list_def trim_space)

lemma tag_list_join: "\<forall>t \<in> set ts. clean_tag t \<Longrightarrow> tag_list (join_with '', '' ts) = ts"
proof (induction ts rule: induct_list012)
  case 1
  show ?case by (simp add: tag_list_def js_trim_def)
next
  case (2 t)
  then show ?case by (simp add: tag_list_def clean_tag_def split_on_none)
next
  case (3 t t' ts)
  have "tag_list (t @ CHR '','' # s) = t # tag_list s" for s
    using 3 by (simp add: tag_list_def split_on_prefix clean_tag_def)
  with 3 show ?case by (simp add: tag_list_space)
qed

lemma tags_kept: "tag_list (join_with '', '' ts) = ts \<longleftrightarrow> (\<forall>t \<in> set ts. clean_tag t)"
  using tag_list_join tag_list_clean by metis

text \<open>What saving the edit page of a question unchanged sends. Whatever else the document holds, the payload
  has title and difficulty of the question, its tags joined by commas and split again, and for a mark or limit of
  zero the default; so it is the question as it is stored exactly when no tag is empty, has blanks at its ends or
  contains a comma and marks, time limit and memory limit are not zero.\<close>

theorem edit_question_roundtrip:
  "let payload = saved_question_payload (load_question (JObj (question_fields q @ rest))) in
     payload = JObj (question_fields (q\<lparr>qu_tags := tag_list (join_with '', '' (qu_tags q)),
       qu_marks := (if qu_marks q = 0 then 100 else qu_marks q),
       qu_time_limit := (if qu_time_limit q = 0 then 2000 else qu_time_limit q),
       qu_memory_limit := (if qu_memory_limit q = 0 then 256 else qu_memory_limit q)\<rparr>)) \<and>
     (payload = JObj (question_fields q) \<longleftrightarrow>
        (\<forall>t \<in> set (qu_tags q). clean_tag t) \<and> qu_marks q \<noteq> 0 \<and> qu_time_limit q \<noteq> 0 \<and> qu_memory_limit q \<noteq> 0)"
proof -
  have "difficulty_name d \<noteq> []" for d by (cases d) (simp_all add: difficulty_name_def)
  moreover have "inj JStr" by (simp add: inj_def)
  ultimately show ?thesis
    by (auto simp: saved_question_payload_def question_payload_def load_question_def question_fields_def or_val_def Let_def
        comp_def tags_kept [symmetric] inj_map_eq_map)
qed

subsection \<open>The list of problems follows its filters\<close>

lemma active_fields [simp]:
  "oget (activeFilters f) ''tag'' = (if pf_tag f = [] then JUndef else JStr (pf_tag f))"
  "oget (activeFilters f) ''page'' = JUndef" "oget (activeFilters f) ''limit'' = JUndef"
  by (cases "pf_search f = []"; cases "pf_difficulty f = []"; cases "pf_tag f = []"; simp add: activeFilters_def)+

lemma listed_problems:
  "\<exists>P. listProblems ops price (activeFilters f) u w =
     Inr (map (\<lambda>p. \<lparr>vp_problem = p\<lparr>pr_tests := []\<rparr>, vp_locked = \<not> isPrivilegedRole (role_of u) \<and> locked_for price u p w\<rparr>)
       (take 50 (filter P (w_problems w))))"
proof -
  have "skip_of (activeFilters f) = Fin (of_nat 0)" "limit_of (activeFilters f) = Fin (of_nat 50)"
    by (simp_all add: skip_of_def page_of_def limit_of_def or_val_def num_max_def num_min_def)
  moreover obtain P where "buildProblemFilter ops (activeFilters f) = Inr P"
    by (cases "pf_tag f = []") (simp_all add: buildProblemFilter_def query_tags_def)
  ultimately show ?thesis
    by (intro exI [of _ P]) (simp add: listProblems_def page_slice_def)
qed

definition list_server where
  "list_server ops price u query w = listProblems ops price query u w"

definition list_follows :: "(jsval \<Rightarrow> world \<Rightarrow> problem_view list result) \<Rightarrow> problem_list \<Rightarrow> bool" where
  "list_follows srv l \<longleftrightarrow>
     (if pl_requests l = [] then \<exists>w. srv (activeFilters (pl_filters l)) w = Inr (pl_problems l)
      else last (pl_requests l) = pl_filters l)"

fun answers_in_order :: "list_event \<Rightarrow> problem_list \<Rightarrow> bool" where
  "answers_in_order (Filter name v) l = True"
| "answers_in_order Clear_Filters l = True"
| "answers_in_order (Listed k w) l = (k = 0 \<and> pl_requests l \<noteq> [])"
| "answers_in_order (List_Lost k msg) l = False"

interpretation problem_page: event_machine "list_step (list_server ops price u)" answers_in_order "list_follows (list_server ops price u)"
proof
  fix l e
  assume l: "list_follows (list_server ops price u) l" and e: "answers_in_order e l"
  show "list_follows (list_server ops price u) (list_step (list_server ops price u) e l)"
  proof (cases e)
    case (Listed k w)
    with e obtain f fs where fs: "pl_requests l = f # fs" "k = 0" by (cases "pl_requests l") auto
    obtain ps where "list_server ops price u (activeFilters f) w = Inr ps"
      using listed_problems [of ops price f u w] by (auto simp: list_server_def)
    with fs l Listed show ?thesis by (auto simp: list_follows_def drop_nth_def Let_def split: if_splits)
  qed (use e in \<open>simp_all add: list_follows_def fetch_problems_def\<close>)
qed

text \<open>When the requests are answered in the order in which they were sent, the list is in the end that of the
  filters, and an answer shows at most fifty problems: the page has no way to the others.\<close>

theorem problem_list_follows:
  assumes "steps_allowed answers_in_order (list_step (list_server ops price u)) es opened_list"
    and "l = fold (list_step (list_server ops price u)) es opened_list" and "pl_requests l = []"
  shows "\<exists>w. listProblems ops price (activeFilters (pl_filters l)) u w = Inr (pl_problems l) \<and> length (pl_problems l) \<le> 50"
proof -
  have "list_follows (list_server ops price u) opened_list" by (simp add: list_follows_def opened_list_def fetch_problems_def)
  from problem_page.run_keeps [OF this assms(1)] assms(2,3) obtain w
      where w: "listProblems ops price (activeFilters (pl_filters l)) u w = Inr (pl_problems l)"
    by (auto simp: list_follows_def list_server_def)
  then show ?thesis using listed_problems [of ops price "pl_filters l" u w] by auto
qed

lemma problem_list_follows_witness:
  "\<exists>w. listProblems (\<lambda>_ _. False) JUndef (activeFilters \<lparr>pf_search = ''a'', pf_difficulty = [], pf_tag = []\<rparr>) None w = Inr []"
proof -
  let ?srv = "list_server (\<lambda>_ _. False) JUndef None"
  let ?es = "[Filter ''search'' ''a'', Listed 0 empty_world, Listed 0 empty_world]"
  let ?l = "fold (list_step ?srv) ?es opened_list"
  have "pl_requests ?l = []" "pl_problems ?l = []" "pl_filters ?l = \<lparr>pf_search = ''a'', pf_difficulty = [], pf_tag = []\<rparr>"
    by code_simp+
  moreover have "steps_allowed answers_in_order (list_step ?srv) ?es opened_list" by code_simp
  ultimately show ?thesis using problem_list_follows [of _ _ _ ?es ?l] by fastforce
qed

text \<open>An answer that is overtaken leaves the list of the earlier filters under the later ones.\<close>

lemma overtaken_list:
  assumes "pl_requests l = [f, pl_filters l]" and "srv (activeFilters f) w = Inr ps"
    and "srv (activeFilters (pl_filters l)) w = Inr qs"
  shows "let l' = fold (list_step srv) [Listed 1 w, Listed 0 w] l in
           pl_requests l' = [] \<and> pl_filters l' = pl_filters l \<and> pl_problems l' = ps"
  using assms by (simp add: drop_nth_def Let_def)

end
