(* ===== verification/System_Pages.thy ===== *)
theory System_Pages
  imports Admin_Api Json_Laws
begin

section \<open>The dashboard and the billing page\<close>

text \<open>
  \<^verbatim>\<open>SystemDashboardPage.jsx\<close> (the form of the incident banner, the backup file and its restore, the table of the
  judge pool, the ages of log entries), the banner that \<^verbatim>\<open>App.jsx\<close> shows above every page, and
  \<^verbatim>\<open>BillingPage.jsx\<close>, against the handlers of theory \<open>Admin_Api\<close>. The dates as local text, the redirects to Stripe and
  markup are left out.
\<close>

subsection \<open>The incident banner\<close>

record banner_form =
  bf_active :: jsval
  bf_message :: jsval
  bf_type :: jsval

definition new_banner_form :: banner_form where
  "new_banner_form = \<lparr>bf_active = JBool False, bf_message = JStr [], bf_type = JStr ''info''\<rparr>"

definition fetchBannerStatus :: "jsval \<Rightarrow> banner_form \<Rightarrow> banner_form" where
  "fetchBannerStatus v f =
     (if truthy v
      then \<lparr>bf_active = or_val (oget v ''active'') (JBool False), bf_message = or_val (oget v ''message'') (JStr []),
            bf_type = or_val (oget v ''type'') (JStr ''info'')\<rparr>
      else f)"

definition banner_body :: "banner_form \<Rightarrow> jsval" where
  "banner_body f = JObj [(''active'', bf_active f), (''message'', bf_message f), (''type'', bf_type f)]"

text \<open>A message is required when the banner is active: the browser does not submit the form without it.\<close>

definition may_save :: "banner_form \<Rightarrow> bool" where
  "may_save f \<longleftrightarrow> (truthy (bf_active f) \<longrightarrow> truthy (bf_message f))"

text \<open>\<^verbatim>\<open>fetchBanner\<close> of \<^verbatim>\<open>App.jsx\<close>: the banner above the pages.\<close>

definition fetchBanner :: "jsval \<Rightarrow> jsval option" where
  "fetchBanner v = (if truthy v \<and> truthy (oget v ''active'') then Some v else None)"

subsection \<open>The backup file\<close>

text \<open>
  A download writes the text of the answer to a file. A restore parses the chosen file and posts the value, which
  the JSON parser of the server refuses above 100kb; \<open>body_size\<close> is the length of the posted text.
\<close>

definition downloaded :: "codecs \<Rightarrow> world \<Rightarrow> string option" where
  "downloaded cs w = json_str (exportDatabase cs w)"

definition body_limit :: nat where
  "body_limit = 100 * 1024"

definition body_size :: "jsval \<Rightarrow> nat" where
  "body_size v = (case json_str v of Some s \<Rightarrow> length s | None \<Rightarrow> 0)"

definition post_restore ::
    "codecs \<Rightarrow> bool \<Rightarrow> time \<Rightarrow> audit_info \<Rightarrow> jsval \<Rightarrow> auth \<Rightarrow> world \<Rightarrow> (string \<times> nat) list reply \<times> world" where
  "post_restore cs log_ok now info v u w =
     (if body_limit < body_size v then (next_error (HttpError 413 ''request entity too large'' JUndef), w)
      else api_restore cs log_ok now info v u w)"

datatype restore_outcome = Not_Confirmed | Restored string | Restore_Failed string

definition restored_text :: "(string \<times> nat) list \<Rightarrow> string" where
  "restored_text counts =
     ''Successfully restored: '' @ join_with '', '' (map (\<lambda>(k, n). k @ '' ('' @ show_nat n @ '')'') counts)"

text \<open>\<^verbatim>\<open>err.response?.data?.error || err.message\<close> for an answer with an error status.\<close>

definition failure_text :: "nat \<Rightarrow> jsval \<Rightarrow> string" where
  "failure_text status body =
     (if truthy (oget body ''error'') then to_str (oget body ''error'')
      else ''Request failed with status code '' @ show_nat status)"

definition handleRestoreDatabase ::
    "codecs \<Rightarrow> bool \<Rightarrow> time \<Rightarrow> audit_info \<Rightarrow> bool \<Rightarrow> string \<Rightarrow> auth \<Rightarrow> world \<Rightarrow> restore_outcome \<times> world" where
  "handleRestoreDatabase cs log_ok now info confirmed backup u w =
     (if \<not> confirmed then (Not_Confirmed, w)
      else case json_parse backup of
        None \<Rightarrow> (Restore_Failed ''SyntaxError'', w)
      | Some v \<Rightarrow>
          (case post_restore cs log_ok now info v u w of
             (Reply st counts, w') \<Rightarrow> (Restored (restored_text counts), w')
           | (Failure st body, w') \<Rightarrow> (Restore_Failed (failure_text st body), w')))"

subsection \<open>The judge pool and the ages of log entries\<close>

definition obj_keys :: "jsval \<Rightarrow> string list" where
  "obj_keys v = (case v of JObj kvs \<Rightarrow> map fst kvs | _ \<Rightarrow> [])"

definition or_empty_obj :: "jsval \<Rightarrow> string list \<Rightarrow> jsval" where
  "or_empty_obj v ks = foldr (\<lambda>k r. or_val (oget v k) r) ks (JObj [])"

definition pool_root :: "jsval \<Rightarrow> jsval" where
  "pool_root js =
     (if truthy (oget js ''pool'') then oget js ''pool''
      else JObj [(''available'', or_empty_obj js [''available'', ''Available'']),
                 (''in_use'', or_empty_obj js [''in_use'', ''InUse'']),
                 (''expected'', or_empty_obj js [''expected'', ''Expected''])])"

record pool_row =
  po_lang :: string
  po_available :: jsval
  po_in_use :: jsval
  po_expected :: jsval

text \<open>\<open>None\<close>: the pool data is unavailable.\<close>

definition pool_rows :: "jsval \<Rightarrow> pool_row list option" where
  "pool_rows js =
     (let root = pool_root js; av = or_empty_obj root [''available'', ''Available''];
          used = or_empty_obj root [''in_use'', ''InUse'']; ex = or_empty_obj root [''expected'', ''Expected''];
          langs = sort (remdups (obj_keys av @ obj_keys used @ obj_keys ex))
      in if langs = [] then None
         else Some (map (\<lambda>l. \<lparr>po_lang = l, po_available = or_val (oget av l) (jnat 0), po_in_use = or_val (oget used l) (jnat 0),
                              po_expected = coalesce (oget ex l) (JStr ''-'')\<rparr>) langs))"

datatype time_unit = Second | Minute | Hour | Day

text \<open>The argument of \<^verbatim>\<open>Intl.RelativeTimeFormat\<close> for an entry that is \<open>diff\<close> milliseconds old.\<close>

definition age_of :: "int \<Rightarrow> int \<times> time_unit" where
  "age_of diff =
     (let s = diff div 1000 in
      if s < 60 then (- s, Second) else if s < 3600 then (- (s div 60), Minute)
      else if s < 86400 then (- (s div 3600), Hour) else (- (s div 86400), Day))"

datatype health_colour = Green | Red | Grey | Amber

definition getHealthColor :: "string \<Rightarrow> health_colour" where
  "getHealthColor s =
     (if s \<in> set [''healthy'', ''connected''] then Green
      else if s \<in> set [''error'', ''unhealthy''] then Red
      else if s \<in> set [''disconnected'', ''offline''] then Grey else Amber)"

subsection \<open>Billing\<close>

definition KNOWN_PLAN_IDS :: "string list" where
  "KNOWN_PLAN_IDS = [''free'', ''pro'']"

datatype billing_action = Upgrade_To_Pro | Manage_Billing

definition offered_billing :: "billing_status \<Rightarrow> billing_action" where
  "offered_billing s = (if bs_plan s = ''free'' then Upgrade_To_Pro else Manage_Billing)"

text \<open>\<^verbatim>\<open>Number.isFinite(limit) ? limit : '\<infinity>'\<close>, with \<open>None\<close> for the sign.\<close>

definition shown_limit :: "jsval \<Rightarrow> jsnum option" where
  "shown_limit v = (case v of JNum n \<Rightarrow> if is_finite n then Some n else None | _ \<Rightarrow> None)"

record billing_page =
  bl_edits :: "(oid \<times> string) list"
  bl_colleges :: "college_row list"
  bl_error :: "string option"

definition edit_plan :: "oid \<Rightarrow> string \<Rightarrow> billing_page \<Rightarrow> billing_page" where
  "edit_plan i plan b = b\<lparr>bl_edits := (i, plan) # filter (\<lambda>(j, x). j \<noteq> i) (bl_edits b)\<rparr>"

definition selected_plan :: "billing_page \<Rightarrow> college_row \<Rightarrow> string" where
  "selected_plan b r = (case map_of (bl_edits b) (co_id (cr_college r)) of Some p \<Rightarrow> p | None \<Rightarrow> co_plan (cr_college r))"

text \<open>Without a choice nothing is sent; a plan that was stored is followed by a fresh list.\<close>

definition handleSetPlan ::
    "jsval \<Rightarrow> (time \<Rightarrow> time) \<Rightarrow> time \<Rightarrow> oid \<Rightarrow> billing_page \<Rightarrow> world \<Rightarrow> billing_page \<times> world" where
  "handleSetPlan price som now i b w =
     (case map_of (bl_edits b) i of
        None \<Rightarrow> (b, w)
      | Some [] \<Rightarrow> (b, w)
      | Some plan \<Rightarrow>
          (case api_setCollegePlan price som now i (JObj [(''planId'', JStr plan)]) w of
             (Reply st s, w') \<Rightarrow> (b\<lparr>bl_error := None, bl_colleges := listCollegesForBilling w'\<rparr>, w')
           | (Failure st body, w') \<Rightarrow>
               (b\<lparr>bl_error := Some (if truthy (oget body ''message'') then to_str (oget body ''message'')
                                    else ''Failed to update plan.'')\<rparr>, w')))"

datatype billing_notice = Updated | Canceled_Checkout

text \<open>The query parameter \<open>billing\<close> a redirect from Stripe comes back with.\<close>

definition notice_of :: "string option \<Rightarrow> billing_notice option" where
  "notice_of r =
     (if r = Some ''success'' then Some Updated else if r = Some ''cancel'' then Some Canceled_Checkout else None)"

subsection \<open>A saved banner is shown\<close>

lemma banner_logEvent [simp]: "getIncidentBanner (logEvent ok now ev u d info w) = getIncidentBanner w"
  by (simp add: getIncidentBanner_def getSetting_def setting_of_def logEvent_def)

text \<open>What is saved with the form is what the form shows when it is loaded again, and the application shows it
  above every page exactly when it is active.\<close>

theorem banner_form_roundtrip:
  assumes "f = \<lparr>bf_active = JBool a, bf_message = JStr m, bf_type = JStr (c # cs)\<rparr>"
    and "w' = snd (api_updateBanner log_ok now info (banner_body f) u w)"
  shows "fetchBannerStatus (getIncidentBanner w') g = f \<and>
    fetchBanner (getIncidentBanner w') = (if a then Some (banner_value (JBool a) (JStr m) (JStr (c # cs))) else None)"
proof -
  obtain v w1 where up: "updateIncidentBanner (JBool a) (JStr m) (JStr (c # cs)) w = (v, w1)" by fastforce
  have "v = banner_value (JBool a) (JStr m) (JStr (c # cs))"
    using arg_cong [OF up, of fst]
    by (cases m) (simp_all add: updateIncidentBanner_def fst_setSetting banner_value_def or_val_def)
  moreover have "getIncidentBanner w1 = v"
    using banner_roundtrip [of "JBool a" "JStr m" "JStr (c # cs)" w] by (simp add: up)
  moreover have "getIncidentBanner w' = getIncidentBanner w1"
    using assms by (simp add: api_updateBanner_def banner_body_def logged_def up Let_def)
  ultimately have "getIncidentBanner w' = banner_value (JBool a) (JStr m) (JStr (c # cs))" by simp
  with assms(1) show ?thesis by (simp add: banner_value_def fetchBannerStatus_def fetchBanner_def or_val_def)
qed

definition superadmin_auth :: auth where
  "superadmin_auth = \<lparr>au_jwt_id = Some 9, au_id = Some 9, au_role = Superadmin, au_college = None, au_service = False\<rparr>"

definition audit_nobody :: audit_info where
  "audit_nobody = \<lparr>ai_ip = None, ai_agent = None\<rparr>"

lemma banner_form_roundtrip_witness:
  "fetchBanner (getIncidentBanner (snd (api_updateBanner True 0 audit_nobody
      (banner_body \<lparr>bf_active = JBool True, bf_message = JStr ''Down'', bf_type = JStr ''info''\<rparr>) superadmin_auth empty_world))) =
     Some (banner_value (JBool True) (JStr ''Down'') (JStr ''info''))"
  using banner_form_roundtrip [OF refl refl, where a = True and m = "''Down''" and c = "CHR ''i''" and cs = "''nfo''" and
      log_ok = True and now = 0 and info = audit_nobody and u = superadmin_auth and w = empty_world and g = new_banner_form]
  by simp

subsection \<open>From the backup file to the database\<close>

lemma downloaded_text:
  assumes "plain_value (exportDatabase cs w)" and "downloaded cs w = Some backup"
  shows "json_parse backup = Some (exportDatabase cs w)" and "body_size (exportDatabase cs w) = length backup"
  using json_text.reread [OF assms(1)] assms(2) by (simp_all add: downloaded_def body_size_def)



subsection \<open>The tables of the dashboard\<close>

text \<open>Every language of one of the three maps of the pool has one row, in the order of the names.\<close>

lemma pool_languages:
  assumes "pool_rows js = Some rows"
  shows "distinct (map po_lang rows) \<and> sorted (map po_lang rows) \<and>
    set (map po_lang rows) = (\<Union>ks \<in> {[''available'', ''Available''], [''in_use'', ''InUse''], [''expected'', ''Expected'']}.
      set (obj_keys (or_empty_obj (pool_root js) ks)))"
proof -
  let ?o = "\<lambda>ks. obj_keys (or_empty_obj (pool_root js) ks)"
  have "map po_lang rows = sort (remdups (?o [''available'', ''Available''] @ ?o [''in_use'', ''InUse''] @ ?o [''expected'', ''Expected'']))"
    using assms by (simp add: pool_rows_def Let_def comp_def split: if_splits) (auto simp: comp_def)
  then show ?thesis by auto
qed

lemma pool_unavailable:
  "pool_rows (JObj [(''pool'', JObj [])]) = None"
  by (simp add: pool_rows_def pool_root_def or_empty_obj_def obj_keys_def or_val_def Let_def)

definition unit_seconds :: "time_unit \<Rightarrow> int" where
  "unit_seconds u = (case u of Second \<Rightarrow> 1 | Minute \<Rightarrow> 60 | Hour \<Rightarrow> 3600 | Day \<Rightarrow> 86400)"

text \<open>The age is the largest unit that fits, cut to whole units; an entry of the future stays in seconds.\<close>

lemma age_exact:
  assumes "0 \<le> diff" and "age_of diff = (k, u)"
  shows "- k * unit_seconds u \<le> diff div 1000 \<and> diff div 1000 < (1 - k) * unit_seconds u \<and>
    (u \<noteq> Second \<longrightarrow> 1 \<le> - k) \<and> (u = Minute \<longrightarrow> - k < 60) \<and> (u = Hour \<longrightarrow> - k < 24)"
  using assms by (auto simp: age_of_def Let_def unit_seconds_def split: if_splits)

lemma future_in_seconds: "diff < 0 \<Longrightarrow> snd (age_of diff) = Second"
  by (simp add: age_of_def Let_def)

subsection \<open>Plans that were paid for offline\<close>

text \<open>
  A superadmin sets the plan of a college that has never paid through Stripe. The list then shows the plan, and
  the page of its admin offers to manage the billing, which the server refuses: there is no customer to manage.
\<close>

theorem offline_plan:
  assumes "colleges_find w i = Some col" and "co_customer col = None" and "map_of (bl_edits b) i = Some ''pro''"
    and "handleSetPlan price som now i b w = (b', w')" and "au_college u = Some i"
  shows "(\<exists>s. api_billingStatus price som now u w' = Reply 200 s \<and> bs_plan s = ''pro'' \<and> offered_billing s = Manage_Billing) \<and>
    bl_colleges b' = listCollegesForBilling w' \<and>
    api_portal st u w' = Failure 400 (message ''message'' ''Subscribe to a plan before managing billing'')"
proof -
  define col' where "col' = col\<lparr>co_plan := ''pro'', co_status := SubActive\<rparr>"
  have id: "co_id col = i" using assms(1) by (auto simp: colleges_find_def dest: find_holds)
  have found: "colleges_find (colleges_save col' w) i = Some col'"
    using colleges_save_find [of w col' i] assms(1) id by (simp add: col'_def)
  have "setCollegePlan price som now i (JStr ''pro'') JUndef w = (getBillingStatus price som now (Some i) (colleges_save col' w), colleges_save col' w)"
    using assms(1) by (simp add: setCollegePlan_def PLANS_def or_val_def parse_sub_status_def col'_def Let_def)
  moreover have ok: "\<exists>s. getBillingStatus price som now (Some i) (colleges_save col' w) = Inr s \<and> bs_plan s = ''pro''"
    by (simp add: getBillingStatus_def found Let_def) (simp add: col'_def)
  ultimately have w': "w' = colleges_save col' w" and b': "bl_colleges b' = listCollegesForBilling w'"
    using assms(3,4) by (auto simp: handleSetPlan_def api_setCollegePlan_def send_or_body_def)
  have "createPortalSession st i w' = http_body 400 ''No billing account yet'' ''message'' ''Subscribe to a plan before managing billing''"
    using found assms(2) by (simp add: w' createPortalSession_def col'_def)
  then have "api_portal st u w' = Failure 400 (message ''message'' ''Subscribe to a plan before managing billing'')"
    using assms(5) by (simp add: api_portal_def send_or_body_def body_or_next_def message_def error_body_def)
  moreover obtain s where "getBillingStatus price som now (Some i) (colleges_save col' w) = Inr s" "bs_plan s = ''pro''"
    using ok by blast
  ultimately show ?thesis using b' assms(5)
    by (intro conjI exI [of _ s]) (simp_all add: w' api_billingStatus_def send_or_body_def offered_billing_def)
qed

definition billed_admin :: auth where
  "billed_admin = \<lparr>au_jwt_id = Some 3, au_id = Some 3, au_role = Admin, au_college = Some 4, au_service = False\<rparr>"

lemma offline_plan_witness:
  "\<exists>w'. snd (handleSetPlan JNull (\<lambda>t. t) 0 4 (edit_plan 4 ''pro'' \<lparr>bl_edits = [], bl_colleges = [], bl_error = None\<rparr>)
      (empty_world\<lparr>w_colleges := [sample_college\<lparr>co_plan := ''free'', co_customer := None\<rparr>]\<rparr>)) = w' \<and>
    (\<exists>s. api_billingStatus JNull (\<lambda>t. t) 0 billed_admin w' = Reply 200 s \<and> offered_billing s = Manage_Billing)"
proof -
  let ?w = "empty_world\<lparr>w_colleges := [sample_college\<lparr>co_plan := ''free'', co_customer := None\<rparr>]\<rparr>"
  let ?b = "edit_plan 4 ''pro'' \<lparr>bl_edits = [], bl_colleges = [], bl_error = None\<rparr>"
  obtain b' w' where r: "handleSetPlan JNull (\<lambda>t. t) 0 4 ?b ?w = (b', w')" by fastforce
  have "colleges_find ?w 4 = Some (sample_college\<lparr>co_plan := ''free'', co_customer := None\<rparr>)"
    by (simp add: colleges_find_def sample_college_def)
  moreover have "map_of (bl_edits ?b) 4 = Some ''pro''" by (simp add: edit_plan_def)
  ultimately show ?thesis
    using offline_plan [OF _ _ _ r, of _ billed_admin] by (fastforce simp: r billed_admin_def)
qed

end
