(* ===== verification/Json_Fuel.thy ===== *)
theory Json_Fuel
  imports Json_Laws
begin

section \<open>The parser has fuel enough\<close>

text \<open>
  The parser of theory \<open>Json\<close> is a descent with fuel. What it has read is shorter than what it was given, so
  twice the length of the text and one more is enough: with any larger amount it reads the same value and refuses
  the same texts. \<open>json_parse\<close> never refuses a text for want of fuel.
\<close>

lemma json_chars_shorter: "json_chars n s = Some (t, r) \<Longrightarrow> length r < length s"
proof (induction n s arbitrary: t r rule: json_chars.induct)
  case (3 n c cs)
  have less: "length x < length y" if "cons_char d (json_chars n z) = Some (t, x)" "length z \<le> length y"
      "\<And>t r. json_chars n z = Some (t, r) \<Longrightarrow> length r < length z" for d x y z
    using that by (cases "json_chars n z") (auto simp: cons_char_def dest: less_le_trans)
  show ?case
  proof (cases "of_char c = (34 :: nat)")
    case False
    show ?thesis
    proof (cases "of_char c = (92 :: nat)")
      case True
      with 3(4) False obtain e es where cs: "cs = e # es" by (auto split: list.splits)
      show ?thesis
      proof (cases "e = CHR ''u''")
        case True
        with 3(4) False \<open>of_char c = 92\<close> cs obtain d where "hex_escape (take 4 es) = Some d" "cons_char d (json_chars n (drop 4 es)) = Some (t, r)"
          by (auto split: option.splits)
        with less [of d "drop 4 es" r "c # cs"] 3(1) False \<open>of_char c = 92\<close> cs True show ?thesis by auto
      next
        case ne: False
        with 3(4) False \<open>of_char c = 92\<close> cs obtain d where "simple_escape e = Some d" "cons_char d (json_chars n es) = Some (t, r)"
          by (auto split: option.splits)
        with less [of d es r "c # cs"] 3(2) False \<open>of_char c = 92\<close> cs ne show ?thesis by auto
      qed
    next
      case no: False
      with 3(4) False have "cons_char c (json_chars n cs) = Some (t, r)" "\<not> of_char c < (32 :: nat)" by (auto split: if_splits)
      with less [of c cs r "c # cs"] 3(3) False no show ?thesis by auto
    qed
  qed (use 3(4) in auto)
qed simp_all

lemma skip_shorter: "skip_ws s = c # cs \<Longrightarrow> length cs < length s"
  using length_dropWhile_le [of json_ws s] by (simp add: skip_ws_def)

lemma number_consumes: "json_number (takeWhile num_char s) = Some q \<Longrightarrow> length (dropWhile num_char s) < length s"
proof (cases "takeWhile num_char s = []")
  case True
  then show "json_number (takeWhile num_char s) = Some q \<Longrightarrow> ?thesis" by (simp add: json_number_def Let_def)
next
  case False
  then have "0 < length (takeWhile num_char s)" by simp
  moreover have "length (takeWhile num_char s) + length (dropWhile num_char s) = length s"
    by (metis length_append takeWhile_dropWhile_id)
  ultimately show ?thesis by linarith
qed

lemma no_number: "json_number [] = None"
  by (simp add: json_number_def)

lemma starts_with_length: "starts_with p s \<Longrightarrow> length p \<le> length s"
  by (induction p s rule: starts_with.induct) auto

lemma parsed_shorter:
  "(\<forall>s v r. json_value n s = Some (v, r) \<longrightarrow> length r < length s) \<and>
   (\<forall>s vs r. json_items n s = Some (vs, r) \<longrightarrow> length r < length s) \<and>
   (\<forall>s kvs r. json_members n s = Some (kvs, r) \<longrightarrow> length r < length s)"
proof (induction n)
  case (Suc n)
  have v: "json_value n s = Some (v, r) \<Longrightarrow> length r < length s" for s v r using Suc by blast
  have i: "json_items n s = Some (vs, r) \<Longrightarrow> length r < length s" for s vs r using Suc by blast
  have m: "json_members n s = Some (kvs, r) \<Longrightarrow> length r < length s" for s kvs r using Suc by blast
  have "length r < length s" if p: "json_value (Suc n) s = Some (x, r)" for s x r
  proof -
    from p obtain c cs where cs: "skip_ws s = c # cs" by (auto split: list.splits)
    have "length r \<le> length cs"
      using p unfolding json_value.simps cs
      by (auto simp: no_number split: if_splits list.splits dest!: json_chars_shorter i m skip_shorter number_consumes starts_with_length)
    with skip_shorter [OF cs] show ?thesis by linarith
  qed
  moreover have "length r < length s" if p: "json_items (Suc n) s = Some (vs, r)" for s vs r
  proof -
    from p obtain x r' d ds where x: "json_value n s = Some (x, r')" "skip_ws r' = d # ds" "length r \<le> length ds"
      by (auto split: option.splits list.splits if_splits dest!: i)
    with v [OF x(1)] skip_shorter [OF x(2)] show ?thesis by linarith
  qed
  moreover have "length r < length s" if p: "json_members (Suc n) s = Some (kvs, r)" for s kvs r
  proof -
    from p obtain q qs k r1 d ds x r2 e es where x: "skip_ws s = q # qs" "json_chars (Suc (length qs)) qs = Some (k, r1)"
        "skip_ws r1 = d # ds" "json_value n ds = Some (x, r2)" "skip_ws r2 = e # es" "length r \<le> length es"
      by (auto split: option.splits list.splits if_splits dest!: m)
    with skip_shorter [OF x(1)] json_chars_shorter [OF x(2)] skip_shorter [OF x(3)] v [OF x(4)] skip_shorter [OF x(5)]
    show ?thesis by linarith
  qed
  ultimately show ?case by blast
qed simp

text \<open>The fuel is enough: with more of it the parser reads the same, also when it refuses the text.\<close>

lemma fuel_irrelevant:
  "(\<forall>s m. 2 * length s + 1 \<le> n \<longrightarrow> 2 * length s + 1 \<le> m \<longrightarrow> json_value n s = json_value m s) \<and>
   (\<forall>s m. 2 * length s + 2 \<le> n \<longrightarrow> 2 * length s + 2 \<le> m \<longrightarrow> json_items n s = json_items m s) \<and>
   (\<forall>s m. 2 * length s + 2 \<le> n \<longrightarrow> 2 * length s + 2 \<le> m \<longrightarrow> json_members n s = json_members m s)"
proof (induction n)
  case (Suc n)
  have v: "json_value n s = json_value m s" if "2 * length s + 1 \<le> n" "2 * length s + 1 \<le> m" for s m using Suc that by blast
  have i: "json_items n s = json_items m s" if "2 * length s + 2 \<le> n" "2 * length s + 2 \<le> m" for s m using Suc that by blast
  have me: "json_members n s = json_members m s" if "2 * length s + 2 \<le> n" "2 * length s + 2 \<le> m" for s m using Suc that by blast
  have "json_value (Suc n) s = json_value m s" if l: "2 * length s + 1 \<le> Suc n" "2 * length s + 1 \<le> m" for s m
  proof (cases "skip_ws s")
    case (Cons c cs)
    obtain k where k: "m = Suc k" using l(2) by (cases m) auto
    have "2 * length cs + 2 \<le> n" "2 * length cs + 2 \<le> k" using skip_shorter [OF Cons] l k by linarith+
    then show ?thesis using i [of cs k] me [of cs k] by (cases "skip_ws cs") (simp_all add: k Cons)
  qed (use l in \<open>cases m; simp\<close>)
  moreover have "json_items (Suc n) s = json_items m s" if l: "2 * length s + 2 \<le> Suc n" "2 * length s + 2 \<le> m" for s m
  proof -
    obtain k where k: "m = Suc k" using l(2) by (cases m) auto
    have same: "json_value n s = json_value k s" using v [of s k] l k by linarith
    have "json_items n ds = json_items k ds" if "json_value n s = Some (x, r)" "skip_ws r = d # ds" for x r d ds
    proof -
      have "length r < length s" using parsed_shorter that(1) by blast
      with skip_shorter [OF that(2)] l k show ?thesis by (intro i) linarith+
    qed
    then show ?thesis by (auto simp: k same split: option.split list.split)
  qed
  moreover have "json_members (Suc n) s = json_members m s" if l: "2 * length s + 2 \<le> Suc n" "2 * length s + 2 \<le> m" for s m
  proof -
    obtain k where k: "m = Suc k" using l(2) by (cases m) auto
    have val: "json_value n ds = json_value k ds" and mem: "json_value n ds = Some (x, r2) \<Longrightarrow> skip_ws r2 = e # es \<Longrightarrow>
        json_members n es = json_members k es"
      if "skip_ws s = q # qs" "json_chars (Suc (length qs)) qs = Some (y, r)" "skip_ws r = d # ds" for q qs y r d ds x r2 e es
    proof -
      have len: "length ds < length s"
        using skip_shorter [OF that(1)] json_chars_shorter [OF that(2)] skip_shorter [OF that(3)] by linarith
      then show "json_value n ds = json_value k ds" using v [of ds k] l k by linarith
      assume a: "json_value n ds = Some (x, r2)" "skip_ws r2 = e # es"
      have "length r2 < length ds" using parsed_shorter a(1) by blast
      with len skip_shorter [OF a(2)] l k show "json_members n es = json_members k es" by (intro me) linarith+
    qed
    show ?thesis
    proof (cases "skip_ws s")
      case (Cons q qs)
      show ?thesis
      proof (cases "json_chars (Suc (length qs)) qs")
        case (Some yr)
        obtain y r where yr: "yr = (y, r)" by (cases yr)
        show ?thesis
        proof (cases "skip_ws r")
          case (Cons d ds)
          note here = \<open>skip_ws s = q # qs\<close> Some [unfolded yr] Cons
          show ?thesis using val [OF here] mem [OF here] by (auto simp: k here split: option.split list.split)
        qed (simp add: k Cons Some yr)
      qed (simp add: k Cons)
    qed (simp add: k)
  qed
  ultimately show ?case by blast
qed simp

lemma json_parse_fuel:
  assumes "2 * length s + 2 \<le> n"
  shows "json_parse s =
    (case json_value n s of Some (v, rest) \<Rightarrow> if skip_ws rest = [] then Some v else None | None \<Rightarrow> None)"
proof -
  have "json_value (2 * length s + 2) s = json_value n s"
    using conjunct1 [OF fuel_irrelevant [of "2 * length s + 2"]] assms by simp
  then show ?thesis by (simp add: json_parse_def del: json_value.simps)
qed

end
