(* ===== verification/Request_Validator.thy ===== *)
theory Request_Validator
  imports Access
begin

section \<open>The validation of request bodies\<close>

text \<open>
  \<^verbatim>\<open>middleware/validator.mjs\<close>, the guard \<open>ValidateBody\<close> of theory \<open>Access\<close>: the errors a compiled schema reports are
  turned into readable texts. The schema compiler is Ajv's: \<open>ajv schema body\<close> are the errors of its last run, none
  when the body is valid. Files are read through a parameter.
\<close>

record ajv_error =
  ae_path :: string
  ae_keyword :: string
  ae_params :: jsval
  ae_message :: jsval

subsection \<open>Readable paths\<close>

definition path_token :: "string \<Rightarrow> string" where
  "path_token s = (if s \<noteq> [] \<and> list_all is_digit s then ''['' @ s @ '']'' else s)"

definition join_token :: "string \<Rightarrow> string \<Rightarrow> string" where
  "join_token seg path =
     (if path = [] then seg else if starts_with ''['' seg then path @ seg else path @ ''.'' @ seg)"

definition toReadablePath :: "string \<Rightarrow> string" where
  "toReadablePath p =
     (if p = [] then ''root''
      else fold join_token (map path_token (filter (\<lambda>s. s \<noteq> []) (split_on CHR ''/'' p))) [])"

subsection \<open>Error texts\<close>

definition article_of :: "jsval \<Rightarrow> string" where
  "article_of t =
     (case to_str t of [] \<Rightarrow> ''a'' | c # cs \<Rightarrow> if lower_char c \<in> set ''aeiou'' then ''an'' else ''a'')"

definition error_text :: "ajv_error \<Rightarrow> string" where
  "error_text e =
     (let path = toReadablePath (ae_path e); par = ae_params e in
      if ae_keyword e = ''required'' then path @ '': missing required field '' @ CHR 0x27 # to_str (oget par ''missingProperty'') @ [CHR 0x27]
      else if ae_keyword e = ''minItems'' then path @ '': must contain at least '' @ to_str (oget par ''limit'') @ '' item(s)''
      else if ae_keyword e = ''pattern'' then path @ '': invalid format''
      else if ae_keyword e = ''type'' then path @ '': must be '' @ article_of (oget par ''type'') @ '' '' @ to_str (oget par ''type'')
      else path @ '': '' @ to_str (ae_message e))"

definition formatAjvErrors :: "ajv_error list \<Rightarrow> string list" where
  "formatAjvErrors es = map error_text es"

definition schema_paths :: "(string \<Rightarrow> string) \<Rightarrow> string \<Rightarrow> string list" where
  "schema_paths resolve schemaName =
     [resolve (''../contracts/'' @ schemaName @ ''.schema.json''), resolve (''./contracts/'' @ schemaName @ ''.schema.json''),
      ''/usr/src/contracts/'' @ schemaName @ ''.schema.json'', ''/usr/src/app/contracts/'' @ schemaName @ ''.schema.json'']"

text \<open>The first file that exists; its text must be JSON. \<open>read\<close> is the text of a file, \<open>None\<close> when there is none.\<close>

definition loadSchema :: "(string \<Rightarrow> string) \<Rightarrow> (string \<Rightarrow> string option) \<Rightarrow> (string \<Rightarrow> jsval result) \<Rightarrow> string \<Rightarrow> jsval result" where
  "loadSchema resolve reading parse schemaName =
     (case find (\<lambda>p. reading p \<noteq> None) (schema_paths resolve schemaName) of
        None \<Rightarrow> Inl (PlainError (''Schema '' @ schemaName @ '' not found in any expected location''))
      | Some p \<Rightarrow> parse (the (reading p)))"

text \<open>The middleware that \<^verbatim>\<open>validate(schemaName)\<close> returns: pass on, or 400 with the texts, joined and one by one.\<close>

definition validate_body :: "(jsval \<Rightarrow> ajv_error list) \<Rightarrow> jsval \<Rightarrow> (nat \<times> jsval) option" where
  "validate_body compiled body =
     (case compiled body of
        [] \<Rightarrow> None
      | es \<Rightarrow> Some (400, JObj [(''error'', JStr (join_with '', '' (formatAjvErrors es))),
                              (''errors'', JArr (map JStr (formatAjvErrors es)))]))"

subsection \<open>The guard of the routes\<close>

lemma guard_is_validate:
  assumes "ev_schema_errors env schema = formatAjvErrors \<circ> compiled"
  shows "fst (run_guard env nid pw now (ValidateBody schema) req w) =
    (case validate_body compiled (rq_body req) of
       None \<Rightarrow> Inr req
     | Some (st, b) \<Rightarrow> Inl (st, str_of (oget b ''error'')))"
  using assms by (cases "compiled (rq_body req)") (simp_all add: validate_body_def formatAjvErrors_def)

subsection \<open>Readable paths can be read back\<close>

text \<open>The pointer a readable path stands for.\<close>

definition pointer_of :: "string \<Rightarrow> string" where
  "pointer_of s =
     (if s = ''root'' then []
      else (if starts_with ''['' s then [] else ''/'') @
           concat (map (\<lambda>c. if c \<in> {CHR ''.'', CHR ''[''} then ''/'' else if c = CHR '']'' then [] else [c]) s))"

definition plain_segment :: "string \<Rightarrow> bool" where
  "plain_segment s \<longleftrightarrow> s \<noteq> [] \<and> set s \<inter> set ''/.[]'' = {}"

definition json_pointer :: "string list \<Rightarrow> string" where
  "json_pointer segs = concat (map (\<lambda>s. CHR ''/'' # s) segs)"

lemma split_segment:
  "CHR ''/'' \<notin> set s \<Longrightarrow> split_on CHR ''/'' (json_pointer ss) = [] # ss \<Longrightarrow> split_on CHR ''/'' (s @ json_pointer ss) = s # ss"
  by (induction s) auto

lemma split_pointer: "\<forall>s \<in> set segs. plain_segment s \<Longrightarrow> split_on CHR ''/'' (json_pointer segs) = [] # segs"
proof (induction segs)
  case (Cons s ss)
  then have "split_on CHR ''/'' (s @ json_pointer ss) = s # ss" by (intro split_segment) (auto simp: plain_segment_def)
  then show ?case by (simp add: json_pointer_def)
qed (simp add: json_pointer_def)

definition later_token :: "string \<Rightarrow> string" where
  "later_token s = (if list_all is_digit s then path_token s else ''.'' @ s)"

lemma token_bracket: "plain_segment s \<Longrightarrow> starts_with ''['' (path_token s) \<longleftrightarrow> list_all is_digit s"
  by (cases s) (auto simp: path_token_def plain_segment_def)

lemma join_tokens:
  assumes "\<forall>s \<in> set segs. plain_segment s" and "acc \<noteq> []"
  shows "fold join_token (map path_token segs) acc = acc @ concat (map later_token segs)"
  using assms
proof (induction segs arbitrary: acc)
  case (Cons s ss)
  then have "join_token (path_token s) acc = acc @ later_token s"
    using token_bracket [of s] by (auto simp: join_token_def later_token_def path_token_def)
  with Cons show ?case by simp
qed simp

definition pointer_char :: "char \<Rightarrow> string" where
  "pointer_char c = (if c \<in> {CHR ''.'', CHR ''[''} then ''/'' else if c = CHR '']'' then [] else [c])"

lemma plain_chars: "plain_segment s \<Longrightarrow> concat (map pointer_char s) = s"
proof -
  assume "plain_segment s"
  then have "\<forall>c \<in> set s. pointer_char c = [c]" by (auto simp: plain_segment_def pointer_char_def)
  then show ?thesis by (induction s) auto
qed

lemma later_chars: "plain_segment s \<Longrightarrow> concat (map pointer_char (later_token s)) = CHR ''/'' # s"
  using plain_chars [of s] by (auto simp: later_token_def path_token_def plain_segment_def pointer_char_def [of "CHR ''.''"]
    pointer_char_def [of "CHR ''[''"] pointer_char_def [of "CHR '']''"])

lemma all_later: "\<forall>s \<in> set segs. plain_segment s \<Longrightarrow> concat (map pointer_char (concat (map later_token segs))) = json_pointer segs"
  by (induction segs) (simp_all add: json_pointer_def later_chars)

lemma readable_segments:
  assumes "\<forall>s \<in> set (s # ss). plain_segment s"
  shows "toReadablePath (json_pointer (s # ss)) = path_token s @ concat (map later_token ss)"
proof -
  have "filter (\<lambda>s. s \<noteq> []) (split_on CHR ''/'' (json_pointer (s # ss))) = s # ss"
    using assms by (subst split_pointer) (auto simp: plain_segment_def filter_id_conv)
  moreover have "path_token s \<noteq> []" using assms by (auto simp: path_token_def plain_segment_def)
  ultimately show ?thesis
    using assms join_tokens [of ss "path_token s"] by (simp add: toReadablePath_def json_pointer_def join_token_def)
qed

text \<open>A path of names and indices without slashes, dots and brackets can be read back from the error text, except
  that a top-level property of the name root reads like the whole body.\<close>

theorem readable_path_roundtrip:
  assumes "\<forall>s \<in> set segs. plain_segment s" and "segs \<noteq> [''root'']"
  shows "pointer_of (toReadablePath (json_pointer segs)) = json_pointer segs"
proof (cases segs)
  case (Cons s ss)
  have plain: "plain_segment s" "\<forall>s \<in> set ss. plain_segment s" using assms(1) Cons by auto
  let ?t = "path_token s @ concat (map later_token ss)"
  have read: "toReadablePath (json_pointer segs) = ?t" using readable_segments [of s ss] assms(1) Cons by simp
  have "?t \<noteq> ''root''"
  proof
    assume t: "?t = ''root''"
    show False
    proof (cases ss)
      case Nil
      with t have "path_token s = ''root''" by simp
      then have "s = ''root''" by (auto simp: path_token_def split: if_splits)
      with Nil assms(2) Cons show False by simp
    next
      case (Cons s' ss')
      then have "CHR ''.'' \<in> set ?t \<or> CHR ''['' \<in> set ?t" using plain(2) by (auto simp: later_token_def path_token_def plain_segment_def)
      then show False unfolding t by auto
    qed
  qed
  moreover have "starts_with ''['' ?t \<longleftrightarrow> list_all is_digit s"
    using plain(1) by (cases s) (auto simp: path_token_def plain_segment_def)
  moreover have "concat (map pointer_char ?t) = (if list_all is_digit s then ''/'' else []) @ s @ json_pointer ss"
    using plain_chars [OF plain(1)] all_later [OF plain(2)] plain(1)
    by (auto simp: path_token_def plain_segment_def pointer_char_def [of "CHR ''[''"] pointer_char_def [of "CHR '']''"])
  ultimately show ?thesis
    unfolding read by (simp add: pointer_of_def pointer_char_def [abs_def] Cons json_pointer_def)
qed (simp add: json_pointer_def toReadablePath_def pointer_of_def)

lemma readable_path_roundtrip_witness:
  "toReadablePath ''/testCases/0/inputs'' = ''testCases[0].inputs'' \<and> pointer_of ''testCases[0].inputs'' = ''/testCases/0/inputs''"
proof -
  have p: "json_pointer [''testCases'', ''0'', ''inputs''] = ''/testCases/0/inputs''" by (simp add: json_pointer_def)
  have "\<forall>s \<in> set [''testCases'', ''0'', ''inputs'']. plain_segment s" by (simp add: plain_segment_def)
  from readable_path_roundtrip [OF this] show ?thesis unfolding p by (simp add: toReadablePath_def) code_simp
qed

end
